(* ===== verification/Prelude.thy ===== *)
theory Prelude
  imports Main "HOL-Library.AList" "HOL-Library.Word" "HOL-Library.List_Lexorder"
    "HOL-Library.Char_ord" "HOL-Library.Product_Lexorder"
begin

text \<open>
  Shared vocabulary of the development: how Go's results, maps, clocks and strings are read
  in HOL, the lemmas about them that every component uses, and the collections of facts that
  the component proofs hand to the simplifier.

  \<^item> A Go function that returns \<open>(value, error)\<close> returns a sum: \<open>Inl\<close> of the error, \<open>Inr\<close> of
    the value. \<open>guardE\<close> is the idiom \<open>if err := f(); err != nil { return err }\<close>.
  \<^item> A Go map is an association list with distinct keys (\<open>keysDistinct\<close>). The order of the
    list stands for the order in which one \<open>range\<close> loop visits the map, which Go leaves
    unspecified: the theorems hold for every order.
  \<^item> An instant is the number of nanoseconds since Go's zero time; a duration is the value of
    an \<open>int64\<close>, with the saturation of \<open>Time.Sub\<close> and the wrap-around of \<open>-\<close> written out.
  \<^item> A Go string is its list of bytes.
\<close>

section \<open>Collections of facts\<close>

named_theorems accept_simps \<open>when a guarded computation succeeds\<close>
named_theorems frame_simps \<open>what an operation leaves unchanged\<close>

section \<open>Results and early returns\<close>

fun guardE :: "'e option \<Rightarrow> 'e + 'a \<Rightarrow> 'e + 'a" where
  "guardE (Some e) r = Inl e"
| "guardE None r = r"

lemma guardE_Inr [accept_simps]: "guardE c r = Inr x \<longleftrightarrow> c = None \<and> r = Inr x"
  by (cases c) auto

lemma guardE_Inl: "guardE c r = Inl e \<longleftrightarrow> c = Some e \<or> (c = None \<and> r = Inl e)"
  by (cases c) auto

lemma if_Inl_Inr [accept_simps]: "(if b then Inl e else r) = Inr x \<longleftrightarrow> \<not> b \<and> r = Inr x"
  by simp

lemma case_option_Inl_Inr [accept_simps]:
  "(case c of None \<Rightarrow> Inl e | Some y \<Rightarrow> f y) = Inr x \<longleftrightarrow> (\<exists>y. c = Some y \<and> f y = Inr x)"
  by (cases c) auto

lemma case_option_Inl_Inr' [accept_simps]:
  "(case c of None \<Rightarrow> r | Some y \<Rightarrow> Inl (h y)) = Inr x \<longleftrightarrow> c = None \<and> r = Inr x"
  by (cases c) auto

lemma case_sum_Inl_Inr [accept_simps]:
  "(case c of Inl e \<Rightarrow> Inl (h e) | Inr y \<Rightarrow> f y) = Inr x \<longleftrightarrow> (\<exists>y. c = Inr y \<and> f y = Inr x)"
  by (cases c) auto

lemma if_Some_None [accept_simps]: "(if b then Some e else c) = None \<longleftrightarrow> \<not> b \<and> c = None"
  by simp

lemma if_None_Some [accept_simps]: "(if b then None else Some e) = None \<longleftrightarrow> b"
  by simp

lemma case_option_None [accept_simps]:
  "(case c of None \<Rightarrow> Some e | Some y \<Rightarrow> f y) = None \<longleftrightarrow> (\<exists>y. c = Some y \<and> f y = None)"
  by (cases c) auto

fun firstFault :: "'e option \<Rightarrow> 'e option \<Rightarrow> 'e option" where
  "firstFault (Some e) r = Some e"
| "firstFault None r = r"

lemma firstFault_None [accept_simps]: "firstFault c r = None \<longleftrightarrow> c = None \<and> r = None"
  by (cases c) auto

section \<open>Go maps\<close>

type_synonym ('k, 'v) gomap = "('k \<times> 'v) list"

abbreviation mapGet :: "('k, 'v) gomap \<Rightarrow> 'k \<Rightarrow> 'v option" where
  "mapGet m k \<equiv> map_of m k"

abbreviation mapPut :: "'k \<Rightarrow> 'v \<Rightarrow> ('k, 'v) gomap \<Rightarrow> ('k, 'v) gomap" where
  "mapPut k v m \<equiv> AList.update k v m"

definition keysDistinct :: "('k, 'v) gomap \<Rightarrow> bool" where
  "keysDistinct m \<longleftrightarrow> distinct (map fst m)"

lemma keysDistinct_simps [simp]:
  "keysDistinct []"
  "keysDistinct ((k, v) # m) \<longleftrightarrow> k \<notin> fst ` set m \<and> keysDistinct m"
  by (auto simp: keysDistinct_def)

lemma keysDistinct_mapPut [simp]: "keysDistinct m \<Longrightarrow> keysDistinct (mapPut k v m)"
  by (simp add: keysDistinct_def AList.distinct_update)

lemma mapGet_mapPut [simp]: "mapGet (mapPut k v m) j = (if j = k then Some v else mapGet m j)"
  by (simp add: AList.update_conv')

lemma mapGet_iff: "keysDistinct m \<Longrightarrow> mapGet m k = Some v \<longleftrightarrow> (k, v) \<in> set m"
  by (simp add: keysDistinct_def)

lemma mapGet_in_set: "mapGet m k = Some v \<Longrightarrow> (k, v) \<in> set m"
  by (rule map_of_SomeD)

lemma set_mapPut:
  "keysDistinct m \<Longrightarrow> set (mapPut k v m) = insert (k, v) {p \<in> set m. fst p \<noteq> k}"
proof (induction m)
  case (Cons p m)
  then show ?case by (cases p) (force simp: image_iff)
qed simp

lemma keys_mapPut [simp]: "fst ` set (mapPut k v m) = insert k (fst ` set m)"
  by (simp add: AList.dom_update)

lemma map_mapPut_same:
  "mapGet m k = Some v0 \<Longrightarrow> f (k, v) = f (k, v0) \<Longrightarrow> map f (mapPut k v m) = map f m"
  by (induction m) auto

lemma mapPut_fresh: "mapGet m k = None \<Longrightarrow> mapPut k v m = m @ [(k, v)]"
  by (induction m) (auto split: if_splits)

lemma ball_mapPut:
  assumes "keysDistinct m"
  shows "(\<forall>p\<in>set (mapPut k v m). P p) \<longleftrightarrow> P (k, v) \<and> (\<forall>p\<in>set m. fst p \<noteq> k \<longrightarrow> P p)"
  using assms by (auto simp: set_mapPut)

lemma length_filter_mapPut_same:
  assumes "mapGet m k = Some v0" and "P (k, v) = P (k, v0)"
  shows "length (filter P (mapPut k v m)) = length (filter P m)"
proof -
  have "map P (mapPut k v m) = map P m"
    using assms by (rule map_mapPut_same)
  then have "length (filter id (map P (mapPut k v m))) = length (filter id (map P m))"
    by (rule arg_cong)
  then show ?thesis by (simp add: filter_map comp_def)
qed

text \<open>The entry a \<open>range\<close> loop reaches first among those that satisfy a test.\<close>

definition firstEntry :: "('k \<times> 'v \<Rightarrow> bool) \<Rightarrow> ('k, 'v) gomap \<Rightarrow> ('k \<times> 'v) option" where
  "firstEntry p m = List.find p m"

lemma firstEntry_Some: "firstEntry p m = Some e \<Longrightarrow> e \<in> set m \<and> p e"
  by (auto simp: firstEntry_def find_Some_iff in_set_conv_nth)

lemma firstEntry_None: "firstEntry p m = None \<longleftrightarrow> (\<forall>e\<in>set m. \<not> p e)"
  by (auto simp: firstEntry_def find_None_iff)

section \<open>Instants and durations\<close>

type_synonym Time = int
type_synonym Duration = int

definition isZeroTime :: "Time \<Rightarrow> bool" where
  "isZeroTime t \<longleftrightarrow> t = 0"

definition minDuration :: Duration where
  "minDuration = - (2 ^ 63)"

definition maxDuration :: Duration where
  "maxDuration = 2 ^ 63 - 1"

definition second :: Duration where
  "second = 1000000000"

text \<open>\<open>int64\<close> arithmetic wraps around; \<open>Time.Sub\<close> saturates instead.\<close>

definition wrap64 :: "int \<Rightarrow> int" where
  "wrap64 x = (x + 2 ^ 63) mod 2 ^ 64 - 2 ^ 63"

definition timeSub :: "Time \<Rightarrow> Time \<Rightarrow> Duration" where
  "timeSub t u = max minDuration (min maxDuration (t - u))"

lemma wrap64_id: "minDuration \<le> x \<Longrightarrow> x \<le> maxDuration \<Longrightarrow> wrap64 x = x"
  by (simp add: wrap64_def minDuration_def maxDuration_def)

lemma timeSub_bounds: "minDuration \<le> timeSub t u" "timeSub t u \<le> maxDuration"
  by (simp_all add: timeSub_def minDuration_def maxDuration_def)

lemma timeSub_id: "minDuration \<le> t - u \<Longrightarrow> t - u \<le> maxDuration \<Longrightarrow> timeSub t u = t - u"
  by (simp add: timeSub_def)

lemma timeSub_self [simp]: "timeSub t t = 0"
  by (simp add: timeSub_def minDuration_def maxDuration_def)

section \<open>Strings\<close>

text \<open>
  The white space of \<open>strings.TrimSpace\<close> (\<open>unicode.IsSpace\<close>) as the UTF-8 bytes of a string:
  one byte (tab, line feed, vertical tab, form feed, carriage return, space), two bytes
  (U+0085, U+00A0) or three bytes (U+1680, U+2000 to U+200A, U+2028, U+2029, U+202F, U+205F,
  U+3000).
\<close>

definition byteOf :: "char \<Rightarrow> nat" where
  "byteOf c = of_char c"

definition space1 :: "char \<Rightarrow> bool" where
  "space1 a \<longleftrightarrow> byteOf a \<in> {9, 10, 11, 12, 13, 32}"

definition space2 :: "char \<Rightarrow> char \<Rightarrow> bool" where
  "space2 a b \<longleftrightarrow> byteOf a = 194 \<and> byteOf b \<in> {133, 160}"

definition space3 :: "char \<Rightarrow> char \<Rightarrow> char \<Rightarrow> bool" where
  "space3 a b c \<longleftrightarrow>
     byteOf a = 225 \<and> byteOf b = 154 \<and> byteOf c = 128
   \<or> byteOf a = 226 \<and> byteOf b = 128 \<and>
       (128 \<le> byteOf c \<and> byteOf c \<le> 138 \<or> byteOf c \<in> {168, 169, 175})
   \<or> byteOf a = 226 \<and> byteOf b = 129 \<and> byteOf c = 159
   \<or> byteOf a = 227 \<and> byteOf b = 128 \<and> byteOf c = 128"

text \<open>\<open>strings.TrimSpace(s) == ""\<close>: the whole string decodes into white space.\<close>

fun blank :: "string \<Rightarrow> bool" where
  "blank [] = True"
| "blank [a] = space1 a"
| "blank [a, b] = (if space1 a then blank [b] else space2 a b)"
| "blank (a # b # c # s) =
     (if space1 a then blank (b # c # s)
      else if space2 a b then blank (c # s)
      else space3 a b c \<and> blank s)"

lemma blank_Nil: "blank ''''"
  by simp

end
