(* ===== verification/EngineModel.thy ===== *)
theory EngineModel
  imports Prelude
begin

text \<open>
  The data model of the match engine (\<open>internal/matchengine/model.go\<close>, \<open>errors.go\<close>): team
  sides, lifecycles, phases, pool slots, board pieces, rosters, the authoritative timer, the
  aggregate \<open>State\<close>, actors, commands and events; the constructor \<open>NewReadyState\<close> with the
  roster checks.

  Go's string enumerations are datatypes with one constructor per constant and a last
  constructor for every other string, so the code's validity tests stay meaningful on
  recovered data. The empty team of \<open>TeamSide\<close> has a constructor of its own (\<open>TeamNone\<close>).
  Pointers are options. \<open>State.Version\<close> keeps its 64 bits; \<open>Turn\<close> counts accepted turns and
  is an unbounded integer.
\<close>

section \<open>Errors\<close>

datatype ErrorCode =
    CodeInvalidRequest | CodeActionNotAllowed | CodeMatchLifecycleConflict
  | CodeMatchPhaseConflict | CodeNotActiveTeam | CodeInvalidPoolSlot
  | CodePoolSlotUnavailable | CodeInvalidBoardCell | CodeInvalidModZone
  | CodeResultNotPending | CodeTimerExpired | CodeTimerPaused
  | CodeTeamPauseAlreadyUsed | CodeRobberyNotAvailable | CodeRobberyRequirementsNotMet
  | CodeAlignmentOverlap | CodeTBNotAvailable | CodeSurrenderEvidenceInvalid

section \<open>Enumerations\<close>

datatype TeamSide = TeamRed | TeamBlue | TeamNone | TeamOther string

definition teamValid :: "TeamSide \<Rightarrow> bool" where
  "teamValid s \<longleftrightarrow> s = TeamRed \<or> s = TeamBlue"

definition opponent :: "TeamSide \<Rightarrow> TeamSide" where
  "opponent s = (if s = TeamRed then TeamBlue else TeamRed)"

datatype Lifecycle =
    LifecycleReady | LifecycleRunning | LifecycleSuspended
  | LifecycleAdjudicationRequired | LifecycleFinished | LifecycleAborted
  | LifecycleOther string

datatype Phase =
    PhaseNone | PhaseBan | PhasePick | PhaseWaitingForResult
  | PhaseTBPreparation | PhaseTBPlaying | PhaseOther string

datatype Mod = ModNM | ModHD | ModHR | ModDT | ModFM | ModShiro | ModTB | ModOther string

fun modValid :: "Mod \<Rightarrow> bool" where
  "modValid (ModOther _) = False"
| "modValid _ = True"

datatype ForceMod = ForceModNM | ForceModHD | ForceModHR | ForceModOther string

datatype PoolSlotState =
    PoolSlotAvailable | PoolSlotBanned | PoolSlotSelected | PoolSlotStateOther string

datatype Outcome =
    OutcomeWaitingResult | OutcomeWon | OutcomeWhite | OutcomeDead | OutcomeOther string

lemma teamValid_simps [simp]:
  "teamValid TeamRed" "teamValid TeamBlue" "\<not> teamValid TeamNone" "\<not> teamValid (TeamOther x)"
  by (auto simp: teamValid_def)

lemma opponent_simps [simp]:
  "opponent TeamRed = TeamBlue" "opponent TeamBlue = TeamRed"
  by (auto simp: opponent_def)

lemma teamValid_opponent [simp]: "teamValid (opponent s)"
  by (simp add: opponent_def)

lemma opponent_neq [simp]: "opponent s \<noteq> s" "s \<noteq> opponent s" "opponent s \<noteq> TeamNone"
  by (auto simp: opponent_def)

lemma opponent_opponent [simp]: "teamValid s \<Longrightarrow> opponent (opponent s) = s"
  by (auto simp: teamValid_def)

lemma teamValid_neq_None [dest]: "teamValid s \<Longrightarrow> s \<noteq> TeamNone"
  by auto

lemma teamValid_other: "teamValid s \<Longrightarrow> teamValid t \<Longrightarrow> s \<noteq> t \<longleftrightarrow> s = opponent t"
  by (auto simp: teamValid_def)

section \<open>Pool slots, pieces and rosters\<close>

record PoolSlot =
  slotID :: string
  slotMod :: Mod
  slotState :: PoolSlotState

record BoardPiece =
  pieceID :: string
  pieceSourcePoolSlotID :: string
  pieceMod :: Mod
  pieceForceMod :: "ForceMod option"
  pieceSelectedBy :: TeamSide
  pieceOwner :: "TeamSide option"
  pieceOutcome :: Outcome

record Roster =
  rosterLeaderID :: int
  rosterPlayerIDs :: "int list"

text \<open>The zero value that indexing a Go map with a missing key returns.\<close>

definition rosterOf :: "(TeamSide, Roster) gomap \<Rightarrow> TeamSide \<Rightarrow> Roster" where
  "rosterOf m side =
     (case mapGet m side of Some r \<Rightarrow> r | None \<Rightarrow> \<lparr>rosterLeaderID = 0, rosterPlayerIDs = []\<rparr>)"

definition flagOf :: "(TeamSide, bool) gomap \<Rightarrow> TeamSide \<Rightarrow> bool" where
  "flagOf m side = (case mapGet m side of Some b \<Rightarrow> b | None \<Rightarrow> False)"

lemma flagOf_mapPut [simp]: "flagOf (mapPut k b m) s = (if s = k then b else flagOf m s)"
  by (simp add: flagOf_def)

type_synonym Cell = string

text \<open>
  \<open>Board.pieces\<close> with its nil state: only \<open>ValidateState\<close> can tell a nil map from an empty one.
\<close>

record Board =
  boardPieces :: "(Cell, BoardPiece) gomap"
  boardNil :: bool

section \<open>The authoritative timer\<close>

record Timer =
  timerStartedAt :: Time
  timerDuration :: Duration
  timerPaused :: bool
  timerRemainingAtPause :: Duration

definition zeroTimer :: Timer where
  "zeroTimer = \<lparr>timerStartedAt = 0, timerDuration = 0, timerPaused = False,
                timerRemainingAtPause = 0\<rparr>"

definition newTimer :: "Time \<Rightarrow> Duration \<Rightarrow> Timer" where
  "newTimer startedAt duration =
     \<lparr>timerStartedAt = startedAt, timerDuration = duration, timerPaused = False,
      timerRemainingAtPause = 0\<rparr>"

definition timerRemaining :: "Timer \<Rightarrow> Time \<Rightarrow> Duration" where
  "timerRemaining t now =
     (if timerPaused t then
        (if timerRemainingAtPause t < 0 then 0 else timerRemainingAtPause t)
      else
        let remaining = wrap64 (timerDuration t - timeSub now (timerStartedAt t))
        in if remaining < 0 then 0
           else if remaining > timerDuration t then timerDuration t
           else remaining)"

definition timerExpired :: "Timer \<Rightarrow> Time \<Rightarrow> bool" where
  "timerExpired t now \<longleftrightarrow> timerRemaining t now \<le> 0"

definition timerPause :: "Timer \<Rightarrow> Time \<Rightarrow> Timer" where
  "timerPause t now = t\<lparr>timerRemainingAtPause := timerRemaining t now, timerPaused := True\<rparr>"

definition timerResume :: "Timer \<Rightarrow> Time \<Rightarrow> Timer" where
  "timerResume t now = newTimer now (max (timerRemainingAtPause t) 0)"

record TimerConfiguration =
  tcPresetID :: string
  tcBan :: Duration
  tcBanAdditional :: Duration
  tcPick :: Duration
  tcPickAdditional :: Duration
  tcResultConfirmation :: Duration
  tcResultConfirmationAdditional :: Duration
  tcTBPreparation :: Duration

definition StandardTimerConfiguration :: TimerConfiguration where
  "StandardTimerConfiguration =
     \<lparr>tcPresetID = ''RCTS1_STANDARD'', tcBan = 60 * second, tcBanAdditional = 15 * second,
      tcPick = 90 * second, tcPickAdditional = 30 * second,
      tcResultConfirmation = 20 * second, tcResultConfirmationAdditional = 10 * second,
      tcTBPreparation = 90 * second\<rparr>"

definition timersValid :: "TimerConfiguration \<Rightarrow> bool" where
  "timersValid c \<longleftrightarrow>
     tcPresetID c \<noteq> '''' \<and> tcBan c > 0 \<and> tcBanAdditional c > 0 \<and>
     tcPick c > 0 \<and> tcPickAdditional c > 0 \<and>
     tcResultConfirmation c > 0 \<and> tcResultConfirmationAdditional c > 0 \<and>
     tcTBPreparation c > 0"

section \<open>The aggregate\<close>

datatype TBBasis =
    TBBasisCaptainAgreement | TBBasisForcedAfterRobberyChecks | TBBasisNone | TBBasisOther string

record TBRequestState =
  tbReqID :: string
  tbReqRequestedBy :: TeamSide
  tbReqBasis :: TBBasis

record TBEntryState =
  tbEntryBasis :: TBBasis
  tbEntryRequestID :: string
  tbEntryRequestedBy :: TeamSide

datatype ResultReason =
    ResultReasonFourAlignment | ResultReasonTB | ResultReasonSurrender
  | ResultReasonStalemateWonCount | ResultReasonOther string

record Result =
  resWinner :: TeamSide
  resReason :: ResultReason
  resSurrenderingTeam :: "TeamSide option"
  resConfirmingPlayerIDs :: "int list"
  resRedWonCount :: int
  resBlueWonCount :: int

record StalemateEvidence =
  staleRedWonCount :: int
  staleBlueWonCount :: int

record SuspensionState =
  suspReason :: string
  suspSuspendedAt :: Time
  suspHadTimer :: bool
  suspTimerWasPaused :: bool

record State =
  Version :: "64 word"
  Lifecycle :: Lifecycle
  Phase :: Phase
  FirstBan :: TeamSide
  FirstPick :: TeamSide
  Turn :: int
  ActiveTeam :: TeamSide
  PoolSlots :: "(string, PoolSlot) gomap"
  Board :: Board
  Timer :: Timer
  RobberyUsed :: "(TeamSide, bool) gomap"
  TeamPauseUsed :: "(TeamSide, bool) gomap"
  Rosters :: "(TeamSide, Roster) gomap"
  Timers :: TimerConfiguration
  PendingPieceID :: string
  PendingTBRequest :: "TBRequestState option"
  TBEntry :: "TBEntryState option"
  Winner :: "TeamSide option"
  MatchResult :: "Result option"
  Stalemate :: "StalemateEvidence option"
  Suspension :: "SuspensionState option"
  AbortReason :: string

text \<open>Turn boundaries shared by the transitions and by recovery validation.\<close>

definition readyTurn :: int where "readyTurn = 0"
definition firstBanTurn :: int where "firstBanTurn = -3"
definition secondBanTurn :: int where "secondBanTurn = -2"
definition thirdBanTurn :: int where "thirdBanTurn = -1"
definition finalBanTurn :: int where "finalBanTurn = 0"
definition firstPickTurn :: int where "firstPickTurn = 1"

lemmas turn_consts =
  readyTurn_def firstBanTurn_def secondBanTurn_def thirdBanTurn_def finalBanTurn_def
  firstPickTurn_def

section \<open>Actors, commands and events\<close>

datatype Capability =
    CapabilityStrategist | CapabilityCaptain | CapabilityReferee | CapabilityOther string

record Actor =
  actorCapability :: Capability
  actorTeam :: "TeamSide option"
  actorAdminOverride :: bool

definition StrategistActor :: "TeamSide \<Rightarrow> Actor" where
  "StrategistActor team =
     \<lparr>actorCapability = CapabilityStrategist, actorTeam = Some team, actorAdminOverride = False\<rparr>"

definition CaptainActor :: "TeamSide \<Rightarrow> Actor" where
  "CaptainActor team =
     \<lparr>actorCapability = CapabilityCaptain, actorTeam = Some team, actorAdminOverride = False\<rparr>"

definition RefereeActor :: Actor where
  "RefereeActor =
     \<lparr>actorCapability = CapabilityReferee, actorTeam = None, actorAdminOverride = False\<rparr>"

definition SystemRefereeActor :: Actor where
  "SystemRefereeActor =
     \<lparr>actorCapability = CapabilityReferee, actorTeam = None, actorAdminOverride = True\<rparr>"

text \<open>
  The closed set of commands. The arguments stand in the order of the Go struct's fields.
  \<open>NilCommand\<close> is the nil interface value, the only one besides the structs.
\<close>

datatype Command =
    StartMatch
  | BanPoolSlot string
  | RefereeBanPoolSlot TeamSide string string
  | PlacePiece string string Cell
  | RefereePlacePiece TeamSide string string Cell string
  | PlaceShiro string Cell
  | RefereePlaceShiro TeamSide string Cell string
  | RobPiece string "string list list"
  | RefereeRobPiece TeamSide string "string list list" string
  | GrantAdditionalTime string
  | CalibrateTimer Duration string
  | PauseTimer string
  | ResumeTimer string
  | SuspendMatch string
  | ResumeMatch string
  | SkipCurrentAction string
  | AbortMatch string
  | RequestTB string TBBasis
  | RefereeRequestTB TeamSide string TBBasis string
  | RespondTBRequest string bool
  | RefereeRespondTBRequest TeamSide string bool string
  | StartTB string
  | ConfirmTBResult TeamSide
  | RecordSurrender TeamSide "int list" string
  | ConfirmBeatmapResult string TeamSide
  | NilCommand

datatype EventType =
    EventMatchStarted | EventBanPhaseStarted | EventPoolSlotBanned | EventTurnAdvanced
  | EventPickPhaseStarted | EventPiecePlaced | EventShiroPlaced
  | EventResultConfirmationRequested | EventBeatmapResultConfirmed | EventPieceWon
  | EventPiecesSacrificed | EventPieceRobbed | EventAdditionalTimeGranted
  | EventTimerCalibrated | EventTimerPaused | EventTimerResumed | EventMatchSuspended
  | EventMatchResumed | EventActionSkipped | EventMatchAborted
  | EventRefereeProxyActionRecorded | EventTBRequested | EventTBRequestAccepted
  | EventTBRequestRejected | EventTBRequestExpired | EventTBForced
  | EventTBPreparationStarted | EventTBStarted | EventTBResultConfirmed
  | EventSurrenderRecorded | EventMatchFinished | EventStalemateDetected
  | EventAdjudicationRequired | EventTimerStarted | EventTimerStopped

record Event =
  evType :: EventType
  evTeam :: TeamSide
  evPoolSlotID :: string
  evBoardPieceID :: string
  evBoardPieceIDs :: "string list"
  evCell :: Cell
  evDuration :: Duration
  evReason :: string
  evRequestID :: string
  evBasis :: TBBasis
  evPlayerIDs :: "int list"

text \<open>The struct literal \<open>Event{Type: t}\<close>, every other field at its zero value.\<close>

definition event :: "EventType \<Rightarrow> Event" where
  "event t = \<lparr>evType = t, evTeam = TeamNone, evPoolSlotID = '''', evBoardPieceID = '''',
              evBoardPieceIDs = [], evCell = '''', evDuration = 0, evReason = '''',
              evRequestID = '''', evBasis = TBBasisNone, evPlayerIDs = []\<rparr>"

record Transition =
  trState :: State
  trEvents :: "Event list"

section \<open>Copies\<close>

text \<open>
  \<open>Clone\<close> copies every map, slice and pointed-to struct. HOL values are not shared, so the one
  visible effect is that a nil board map comes back as an empty one (\<open>NewBoard\<close>).
\<close>

definition NewBoard :: Board where
  "NewBoard = \<lparr>boardPieces = [], boardNil = False\<rparr>"

definition boardClone :: "Board \<Rightarrow> Board" where
  "boardClone b = \<lparr>boardPieces = boardPieces b, boardNil = False\<rparr>"

definition stateClone :: "State \<Rightarrow> State" where
  "stateClone s = s\<lparr>Board := boardClone (Board s)\<rparr>"

section \<open>Rosters and the initial state\<close>

text \<open>
  The inner loop over one team's players, threading the set of ids seen so far; the outer loop
  visits RED before BLUE.
\<close>

fun checkRosterPlayers :: "int \<Rightarrow> int list \<Rightarrow> int list \<Rightarrow> ErrorCode + int list" where
  "checkRosterPlayers leader seen [] = Inr seen"
| "checkRosterPlayers leader seen (p # ps) =
     (if p \<le> 0 then Inl CodeInvalidRequest
      else if p = leader then Inl CodeInvalidRequest
      else if p \<in> set seen then Inl CodeInvalidRequest
      else checkRosterPlayers leader (p # seen) ps)"

fun checkRosterSides ::
  "(TeamSide, Roster) gomap \<Rightarrow> int list \<Rightarrow> TeamSide list \<Rightarrow> ErrorCode + int list" where
  "checkRosterSides rosters seen [] = Inr seen"
| "checkRosterSides rosters seen (side # sides) =
     (case mapGet rosters side of
        None \<Rightarrow> Inl CodeInvalidRequest
      | Some roster \<Rightarrow>
          if rosterLeaderID roster \<le> 0 then Inl CodeInvalidRequest
          else if rosterLeaderID roster \<in> set seen then Inl CodeInvalidRequest
          else (case checkRosterPlayers (rosterLeaderID roster)
                       (rosterLeaderID roster # seen) (rosterPlayerIDs roster) of
                  Inl e \<Rightarrow> Inl e
                | Inr seen' \<Rightarrow> checkRosterSides rosters seen' sides))"

definition validateAndCloneRosters ::
  "(TeamSide, Roster) gomap \<Rightarrow> ErrorCode + (TeamSide, Roster) gomap" where
  "validateAndCloneRosters rosters =
     (if length rosters \<noteq> 2 then Inl CodeInvalidRequest
      else case checkRosterSides rosters [] [TeamRed, TeamBlue] of
             Inl e \<Rightarrow> Inl e
           | Inr _ \<Rightarrow> Inr rosters)"

record Configuration =
  cfgFirstBan :: TeamSide
  cfgFirstPick :: TeamSide
  cfgPoolSlots :: "PoolSlot list"
  cfgRosters :: "(TeamSide, Roster) gomap"
  cfgTimers :: TimerConfiguration

text \<open>The loop that fills the pool map and counts the Shiro and TB slots.\<close>

fun buildPool ::
  "(string, PoolSlot) gomap \<Rightarrow> nat \<Rightarrow> nat \<Rightarrow> PoolSlot list
   \<Rightarrow> ErrorCode + (string, PoolSlot) gomap \<times> nat \<times> nat" where
  "buildPool pool shiro tb [] = Inr (pool, shiro, tb)"
| "buildPool pool shiro tb (configured # rest) =
     (if slotID configured = '''' \<or> \<not> modValid (slotMod configured) then Inl CodeInvalidRequest
      else if mapGet pool (slotID configured) \<noteq> None then Inl CodeInvalidRequest
      else buildPool
             (mapPut (slotID configured) (configured\<lparr>slotState := PoolSlotAvailable\<rparr>) pool)
             (if slotMod configured = ModShiro then Suc shiro else shiro)
             (if slotMod configured = ModTB then Suc tb else tb) rest)"

definition NewReadyState :: "Configuration \<Rightarrow> ErrorCode + State" where
  "NewReadyState cfg =
     (if \<not> teamValid (cfgFirstBan cfg) \<or> \<not> teamValid (cfgFirstPick cfg)
      then Inl CodeInvalidRequest
      else case buildPool [] 0 0 (cfgPoolSlots cfg) of
        Inl e \<Rightarrow> Inl e
      | Inr (pool, shiro, tb) \<Rightarrow>
          if shiro \<noteq> 1 \<or> tb \<noteq> 1 then Inl CodeInvalidRequest
          else case validateAndCloneRosters (cfgRosters cfg) of
            Inl e \<Rightarrow> Inl e
          | Inr rosters \<Rightarrow>
              if \<not> timersValid (cfgTimers cfg) then Inl CodeInvalidRequest
              else Inr
                \<lparr>Version = 0, Lifecycle = LifecycleReady, Phase = PhaseNone,
                 FirstBan = cfgFirstBan cfg, FirstPick = cfgFirstPick cfg,
                 Turn = 0, ActiveTeam = TeamNone, PoolSlots = pool, Board = NewBoard,
                 Timer = zeroTimer,
                 RobberyUsed = [(TeamRed, False), (TeamBlue, False)],
                 TeamPauseUsed = [(TeamRed, False), (TeamBlue, False)],
                 Rosters = rosters, Timers = cfgTimers cfg,
                 PendingPieceID = '''', PendingTBRequest = None, TBEntry = None,
                 Winner = None, MatchResult = None, Stalemate = None, Suspension = None,
                 AbortReason = ''''\<rparr>)"

end
