(* ===== verification/EngineBoard.thy ===== *)
theory EngineBoard
  imports EngineModel
begin

text \<open>
  The fixed 4x4 board (\<open>internal/matchengine/board.go\<close>): canonical cells and their zones, the
  operations on the pieces, and the search for connected alignments. The second half
  characterises each operation: the cell codec, the frame of the updates, and a geometric
  description of what \<open>FindAlignments\<close> lists.
\<close>

section \<open>Cells and zones\<close>

text \<open>\<open>ZoneNone\<close> is the empty string, what \<open>ZoneAt\<close> returns beside \<open>false\<close>.\<close>

datatype Zone = ZoneDT | ZoneHD | ZoneHR | ZoneNone

text \<open>
  \<open>int(cell[0] - 'A')\<close> subtracts bytes, so it wraps modulo 256 before it is widened.
\<close>

definition cellPosition :: "Cell \<Rightarrow> (int \<times> int) option" where
  "cellPosition cell =
     (case cell of
        [a, b] \<Rightarrow>
          let column = (of_char a - 65) mod 256; row = (of_char b - 49) mod 256
          in if column < 0 \<or> column \<ge> 4 \<or> row < 0 \<or> row \<ge> 4 then None
             else Some (column, row)
      | _ \<Rightarrow> None)"

definition positionCell :: "int \<Rightarrow> int \<Rightarrow> Cell" where
  "positionCell column row = [char_of (65 + column), char_of (49 + row)]"

definition ZoneAt :: "Cell \<Rightarrow> Zone option" where
  "ZoneAt cell =
     (case cellPosition cell of
        None \<Rightarrow> None
      | Some (column, row) \<Rightarrow>
          Some (if row < 2 \<and> column < 2 then ZoneDT
                else if row < 2 then ZoneHD
                else if column < 2 then ZoneHR
                else ZoneDT))"

section \<open>Pieces\<close>

definition PieceAt :: "Board \<Rightarrow> Cell \<Rightarrow> BoardPiece option" where
  "PieceAt b cell = mapGet (boardPieces b) cell"

definition boardEmpty :: "Board \<Rightarrow> Cell \<Rightarrow> bool" where
  "boardEmpty b cell \<longleftrightarrow> cellPosition cell \<noteq> None \<and> mapGet (boardPieces b) cell = None"

definition boardPlace :: "Board \<Rightarrow> Cell \<Rightarrow> BoardPiece \<Rightarrow> Board" where
  "boardPlace b cell piece = b\<lparr>boardPieces := mapPut cell piece (boardPieces b)\<rparr>"

text \<open>The loops over \<open>b.pieces\<close> stop at the first piece with the id.\<close>

fun setOwnerIn ::
  "string \<Rightarrow> TeamSide \<Rightarrow> (Cell, BoardPiece) gomap \<Rightarrow> (Cell, BoardPiece) gomap option" where
  "setOwnerIn pid owner [] = None"
| "setOwnerIn pid owner ((cell, piece) # rest) =
     (if pieceID piece \<noteq> pid
      then map_option ((#) (cell, piece)) (setOwnerIn pid owner rest)
      else Some ((cell, piece\<lparr>pieceOwner := Some owner, pieceOutcome := OutcomeWon\<rparr>) # rest))"

definition setOwner :: "Board \<Rightarrow> string \<Rightarrow> TeamSide \<Rightarrow> Board option" where
  "setOwner b pid owner =
     map_option (\<lambda>ps. b\<lparr>boardPieces := ps\<rparr>) (setOwnerIn pid owner (boardPieces b))"

definition pieceByID :: "Board \<Rightarrow> string \<Rightarrow> (Cell \<times> BoardPiece) option" where
  "pieceByID b pid = firstEntry (\<lambda>(cell, piece). pieceID piece = pid) (boardPieces b)"

definition markDead :: "Board \<Rightarrow> string list \<Rightarrow> Board" where
  "markDead b pids =
     b\<lparr>boardPieces :=
        map (\<lambda>(cell, piece).
               (cell, if pieceID piece \<in> set pids then piece\<lparr>pieceOutcome := OutcomeDead\<rparr>
                      else piece))
          (boardPieces b)\<rparr>"

definition containsPieceID :: "Board \<Rightarrow> string \<Rightarrow> bool" where
  "containsPieceID b pid \<longleftrightarrow> (\<exists>(cell, piece) \<in> set (boardPieces b). pieceID piece = pid)"

section \<open>Alignments\<close>

record Alignment =
  alLength :: int
  alTeam :: TeamSide
  alCells :: "Cell list"
  alBoardPieceIDs :: "string list"

definition wonBy :: "TeamSide \<Rightarrow> BoardPiece \<Rightarrow> bool" where
  "wonBy team piece \<longleftrightarrow> pieceOutcome piece = OutcomeWon \<and> pieceOwner piece = Some team"

text \<open>
  The innermost loop: one candidate line from \<open>(column, row)\<close> in a direction. A candidate that
  leaves the board or meets a cell the team has not won breaks the loop (\<open>None\<close>).
\<close>

fun scanLine ::
  "Board \<Rightarrow> TeamSide \<Rightarrow> int \<Rightarrow> int \<Rightarrow> int \<times> int \<Rightarrow> int list \<Rightarrow> (Cell \<times> string) list option" where
  "scanLine b team column row (dx, dy) [] = Some []"
| "scanLine b team column row (dx, dy) (offset # offsets) =
     (let c = column + dx * offset; r = row + dy * offset
      in if c < 0 \<or> c \<ge> 4 \<or> r < 0 \<or> r \<ge> 4 then None
         else case mapGet (boardPieces b) (positionCell c r) of
           None \<Rightarrow> None
         | Some piece \<Rightarrow>
             if \<not> wonBy team piece then None
             else map_option ((#) (positionCell c r, pieceID piece))
                    (scanLine b team column row (dx, dy) offsets))"

definition directions :: "(int \<times> int) list" where
  "directions = [(1, 0), (0, 1), (1, 1), (1, -1)]"

definition boardRange :: "int list" where
  "boardRange = [0, 1, 2, 3]"

definition alignmentFrom ::
  "Board \<Rightarrow> TeamSide \<Rightarrow> int \<Rightarrow> int \<Rightarrow> int \<Rightarrow> int \<times> int \<Rightarrow> Alignment list" where
  "alignmentFrom b team len row column direction =
     (case scanLine b team column row direction (map int [0..<nat len]) of
        None \<Rightarrow> []
      | Some line \<Rightarrow> [\<lparr>alLength = len, alTeam = team, alCells = map fst line,
                       alBoardPieceIDs = map snd line\<rparr>])"

definition FindAlignments :: "Board \<Rightarrow> TeamSide \<Rightarrow> int \<Rightarrow> Alignment list" where
  "FindAlignments b team len =
     (if \<not> teamValid team \<or> len < 2 \<or> len > 4 then []
      else concat (map (\<lambda>row. concat (map (\<lambda>column. concat (map
             (alignmentFrom b team len row column) directions)) boardRange)) boardRange))"

definition hasFour :: "Board \<Rightarrow> TeamSide \<Rightarrow> bool" where
  "hasFour b team \<longleftrightarrow> FindAlignments b team 4 \<noteq> []"

definition isAlignment :: "Board \<Rightarrow> TeamSide \<Rightarrow> string list \<Rightarrow> int \<Rightarrow> bool" where
  "isAlignment b team pids len \<longleftrightarrow>
     int (length pids) = len \<and> '''' \<notin> set pids \<and> int (card (set pids)) = len \<and>
     (\<exists>a\<in>set (FindAlignments b team len). set (alBoardPieceIDs a) \<subseteq> set pids)"

definition pieceParticipatesInAlignment :: "Board \<Rightarrow> TeamSide \<Rightarrow> string \<Rightarrow> int \<Rightarrow> bool" where
  "pieceParticipatesInAlignment b team pid len \<longleftrightarrow>
     pid \<noteq> '''' \<and> (\<exists>a\<in>set (FindAlignments b team len). pid \<in> set (alBoardPieceIDs a))"

section \<open>The cell codec\<close>

lemma cellPosition_range:
  "cellPosition cell = Some (c, r) \<Longrightarrow> 0 \<le> c \<and> c < 4 \<and> 0 \<le> r \<and> r < 4"
  by (auto simp: cellPosition_def Let_def split: list.splits if_splits)

lemma of_char_of_small: "0 \<le> x \<Longrightarrow> x < 256 \<Longrightarrow> of_char (char_of (x::int)) = x"
  by simp

lemma cellPosition_positionCell [simp]:
  assumes "0 \<le> c" "c < 4" "0 \<le> r" "r < 4"
  shows "cellPosition (positionCell c r) = Some (c, r)"
  using assms by (simp add: cellPosition_def positionCell_def Let_def)

lemma byte_shift:
  assumes "(of_char a - k) mod 256 = (x::int)" "0 \<le> k" "x + k < 256"
  shows "char_of (k + x) = a"
proof -
  have a: "0 \<le> (of_char a :: int)" "(of_char a :: int) < 256"
    using of_char_mod_256 [of a, where ?'a = int]
    by (metis Euclidean_Rings.pos_mod_sign zero_less_numeral)
       (metis of_char_mod_256 Euclidean_Rings.pos_mod_bound zero_less_numeral)
  have "0 \<le> x" using assms(1) by auto
  have "(k + x) mod 256 = (of_char a :: int) mod 256"
    using assms(1) by (auto simp: mod_simps)
  then have "k + x = (of_char a :: int)"
    using a assms(2,3) \<open>0 \<le> x\<close> by simp
  then show ?thesis by simp
qed

lemma positionCell_cellPosition:
  assumes "cellPosition cell = Some (c, r)"
  shows "positionCell c r = cell"
proof -
  from assms obtain a b where cell: "cell = [a, b]"
    and ab: "(of_char a - 65) mod 256 = c" "(of_char b - 49) mod 256 = r"
    by (auto simp: cellPosition_def Let_def split: list.splits if_splits)
  from cellPosition_range [OF assms] have "c + 65 < 256" "r + 49 < 256" by auto
  with ab show ?thesis by (simp add: cell positionCell_def byte_shift)
qed

lemma positionCell_inj:
  assumes "positionCell c r = positionCell c' r'"
    and "0 \<le> c" "c < 4" "0 \<le> r" "r < 4" "0 \<le> c'" "c' < 4" "0 \<le> r'" "r' < 4"
  shows "c = c' \<and> r = r'"
proof -
  have "Some (c, r) = Some (c', r')"
    using assms by (metis cellPosition_positionCell)
  then show ?thesis by simp
qed

section \<open>Frames of the updates\<close>

definition pieceIDs :: "(Cell, BoardPiece) gomap \<Rightarrow> string list" where
  "pieceIDs ps = map (\<lambda>(cell, piece). pieceID piece) ps"

lemma pieceIDs_simps [simp]:
  "pieceIDs [] = []" "pieceIDs ((c, p) # ps) = pieceID p # pieceIDs ps"
  by (simp_all add: pieceIDs_def)

lemma containsPieceID_iff: "containsPieceID b pid \<longleftrightarrow> pid \<in> set (pieceIDs (boardPieces b))"
  by (auto simp: containsPieceID_def pieceIDs_def image_iff split_beta)

definition ownPiece :: "string \<Rightarrow> TeamSide \<Rightarrow> BoardPiece \<Rightarrow> BoardPiece" where
  "ownPiece pid owner p =
     (if pieceID p = pid then p\<lparr>pieceOwner := Some owner, pieceOutcome := OutcomeWon\<rparr> else p)"

definition deadPiece :: "string list \<Rightarrow> BoardPiece \<Rightarrow> BoardPiece" where
  "deadPiece pids p = (if pieceID p \<in> set pids then p\<lparr>pieceOutcome := OutcomeDead\<rparr> else p)"

definition mapPieces ::
  "(BoardPiece \<Rightarrow> BoardPiece) \<Rightarrow> (Cell, BoardPiece) gomap \<Rightarrow> (Cell, BoardPiece) gomap" where
  "mapPieces f ps = map (\<lambda>(cell, piece). (cell, f piece)) ps"

lemma mapPieces_simps [simp]:
  "mapPieces f [] = []" "mapPieces f ((c, p) # ps) = (c, f p) # mapPieces f ps"
  by (simp_all add: mapPieces_def)

lemma mapGet_mapPieces [simp]: "mapGet (mapPieces f ps) c = map_option f (mapGet ps c)"
  by (induction ps) auto

lemma fst_mapPieces [simp]: "map fst (mapPieces f ps) = map fst ps"
  by (induction ps) auto

lemma keysDistinct_mapPieces [simp]: "keysDistinct (mapPieces f ps) = keysDistinct ps"
  by (simp add: keysDistinct_def)

lemma set_mapPieces: "set (mapPieces f ps) = (\<lambda>(c, p). (c, f p)) ` set ps"
  by (simp add: mapPieces_def)

lemma pieceIDs_mapPieces:
  "(\<And>p. pieceID (f p) = pieceID p) \<Longrightarrow> pieceIDs (mapPieces f ps) = pieceIDs ps"
  by (induction ps) auto

lemma mapPieces_cong:
  "(\<And>c p. (c, p) \<in> set ps \<Longrightarrow> f p = g p) \<Longrightarrow> mapPieces f ps = mapPieces g ps"
  by (auto simp: mapPieces_def)

lemma ownPiece_simps [simp]:
  "pieceID (ownPiece pid t p) = pieceID p"
  "pieceSourcePoolSlotID (ownPiece pid t p) = pieceSourcePoolSlotID p"
  "pieceMod (ownPiece pid t p) = pieceMod p"
  "pieceForceMod (ownPiece pid t p) = pieceForceMod p"
  "pieceSelectedBy (ownPiece pid t p) = pieceSelectedBy p"
  by (simp_all add: ownPiece_def)

lemma deadPiece_simps [simp]:
  "pieceID (deadPiece pids p) = pieceID p"
  "pieceSourcePoolSlotID (deadPiece pids p) = pieceSourcePoolSlotID p"
  "pieceMod (deadPiece pids p) = pieceMod p"
  "pieceForceMod (deadPiece pids p) = pieceForceMod p"
  "pieceSelectedBy (deadPiece pids p) = pieceSelectedBy p"
  "pieceOwner (deadPiece pids p) = pieceOwner p"
  by (simp_all add: deadPiece_def)

lemma markDead_mapPieces:
  "markDead b pids = b\<lparr>boardPieces := mapPieces (deadPiece pids) (boardPieces b)\<rparr>"
  by (simp add: markDead_def mapPieces_def deadPiece_def)

lemma setOwnerIn_None: "setOwnerIn pid t ps = None \<longleftrightarrow> pid \<notin> set (pieceIDs ps)"
proof (induction ps)
  case (Cons cp ps)
  then show ?case by (cases cp) auto
qed simp

lemma setOwnerIn_absent: "pid \<notin> set (pieceIDs ps) \<Longrightarrow> mapPieces (ownPiece pid t) ps = ps"
  by (induction ps) (auto simp: ownPiece_def)

lemma setOwnerIn_Some:
  "distinct (pieceIDs ps) \<Longrightarrow> pid \<in> set (pieceIDs ps) \<Longrightarrow>
   setOwnerIn pid t ps = Some (mapPieces (ownPiece pid t) ps)"
proof (induction ps)
  case (Cons cp ps)
  obtain c p where cp: "cp = (c, p)" by (cases cp)
  show ?case
  proof (cases "pieceID p = pid")
    case True
    with Cons.prems have "mapPieces (ownPiece pid t) ps = ps"
      by (simp add: cp setOwnerIn_absent)
    with True show ?thesis by (simp add: cp ownPiece_def [of pid t p])
  next
    case False
    with Cons show ?thesis by (simp add: cp ownPiece_def [of pid t p])
  qed
qed simp

lemma setOwner_eq:
  "distinct (pieceIDs (boardPieces b)) \<Longrightarrow>
   setOwner b pid t =
     (if containsPieceID b pid
      then Some (b\<lparr>boardPieces := mapPieces (ownPiece pid t) (boardPieces b)\<rparr>) else None)"
  by (auto simp: setOwner_def containsPieceID_iff setOwnerIn_None setOwnerIn_Some)

lemma pieceByID_Some:
  assumes "distinct (pieceIDs (boardPieces b))"
  shows "pieceByID b pid = Some (c, p) \<longleftrightarrow> (c, p) \<in> set (boardPieces b) \<and> pieceID p = pid"
proof -
  have "distinct (pieceIDs ps) \<Longrightarrow>
        firstEntry (\<lambda>(c, p). pieceID p = pid) ps = Some (c, p) \<longleftrightarrow>
        (c, p) \<in> set ps \<and> pieceID p = pid" for ps
  proof (induction ps)
    case (Cons e ps)
    obtain c' p' where e: "e = (c', p')" by (cases e)
    show ?case
    proof (cases "pieceID p' = pid")
      case True
      with Cons.prems have "\<forall>(c, q)\<in>set ps. pieceID q \<noteq> pid"
        by (force simp: e pieceIDs_def)
      with True show ?thesis by (auto simp: e firstEntry_def)
    next
      case False
      with Cons show ?thesis by (auto simp: e firstEntry_def)
    qed
  qed (simp add: firstEntry_def)
  with assms show ?thesis by (simp add: pieceByID_def)
qed

section \<open>What the alignment search finds\<close>

definition onBoard :: "int \<Rightarrow> int \<Rightarrow> bool" where
  "onBoard c r \<longleftrightarrow> 0 \<le> c \<and> c < 4 \<and> 0 \<le> r \<and> r < 4"

definition wonAt :: "Board \<Rightarrow> TeamSide \<Rightarrow> int \<Rightarrow> int \<Rightarrow> bool" where
  "wonAt b team c r \<longleftrightarrow>
     onBoard c r \<and> (case PieceAt b (positionCell c r) of None \<Rightarrow> False | Some p \<Rightarrow> wonBy team p)"

definition idAt :: "Board \<Rightarrow> int \<Rightarrow> int \<Rightarrow> string" where
  "idAt b c r = (case PieceAt b (positionCell c r) of None \<Rightarrow> '''' | Some p \<Rightarrow> pieceID p)"

lemma scanLine_iff:
  "scanLine b team c r (dx, dy) offs = Some line \<longleftrightarrow>
     (\<forall>i\<in>set offs. wonAt b team (c + dx * i) (r + dy * i)) \<and>
     line = map (\<lambda>i. (positionCell (c + dx * i) (r + dy * i), idAt b (c + dx * i) (r + dy * i))) offs"
  by (induction offs arbitrary: line)
     (auto simp: Let_def wonAt_def onBoard_def idAt_def PieceAt_def split: option.splits if_splits)

definition lineAt :: "Board \<Rightarrow> TeamSide \<Rightarrow> int \<Rightarrow> int \<Rightarrow> int \<Rightarrow> int \<times> int \<Rightarrow> Alignment" where
  "lineAt b team len c r d =
     \<lparr>alLength = len, alTeam = team,
      alCells = map (\<lambda>i. positionCell (c + fst d * i) (r + snd d * i)) (map int [0..<nat len]),
      alBoardPieceIDs = map (\<lambda>i. idAt b (c + fst d * i) (r + snd d * i)) (map int [0..<nat len])\<rparr>"

definition isLine :: "Board \<Rightarrow> TeamSide \<Rightarrow> int \<Rightarrow> int \<Rightarrow> int \<Rightarrow> int \<times> int \<Rightarrow> bool" where
  "isLine b team len c r d \<longleftrightarrow>
     onBoard c r \<and> d \<in> set directions \<and>
     (\<forall>i\<in>{0..<len}. wonAt b team (c + fst d * i) (r + snd d * i))"

lemma boardRange_iff: "x \<in> set boardRange \<longleftrightarrow> 0 \<le> x \<and> x < 4"
  by (auto simp: boardRange_def)

lemma scanLine_eq:
  "scanLine b team c r d offs =
     (if \<forall>i\<in>set offs. wonAt b team (c + fst d * i) (r + snd d * i)
      then Some (map (\<lambda>i. (positionCell (c + fst d * i) (r + snd d * i),
                            idAt b (c + fst d * i) (r + snd d * i))) offs)
      else None)"
  using scanLine_iff [of b team c r "fst d" "snd d" offs]
  by (cases "scanLine b team c r d offs") auto

lemma set_offsets: "set (map int [0..<nat len]) = {0..<len}"
proof (intro set_eqI iffI)
  fix i assume "i \<in> {0..<len}"
  then have "i = int (nat i)" "nat i \<in> set [0..<nat len]" by auto
  then show "i \<in> set (map int [0..<nat len])" by (metis imageI set_map)
qed auto

lemma alignmentFrom_iff:
  "a \<in> set (alignmentFrom b team len r c d) \<longleftrightarrow>
     (\<forall>i\<in>{0..<len}. wonAt b team (c + fst d * i) (r + snd d * i)) \<and> a = lineAt b team len c r d"
proof -
  have map2: "map fst (map (\<lambda>i. (f i, g i)) xs) = map f xs"
    "map snd (map (\<lambda>i. (f i, g i)) xs) = map g xs" for f :: "int \<Rightarrow> Cell" and g :: "int \<Rightarrow> string" and xs
    by (simp_all add: comp_def)
  show ?thesis
    by (simp only: alignmentFrom_def scanLine_eq set_offsets lineAt_def map2 option.case if_split)
       (simp add: comp_def)
qed

lemma FindAlignments_iff:
  "a \<in> set (FindAlignments b team len) \<longleftrightarrow>
     teamValid team \<and> 2 \<le> len \<and> len \<le> 4 \<and>
     (\<exists>c r d. isLine b team len c r d \<and> a = lineAt b team len c r d)"
proof (cases "teamValid team \<and> 2 \<le> len \<and> len \<le> 4")
  case True
  then have "a \<in> set (FindAlignments b team len) \<longleftrightarrow>
     (\<exists>r\<in>set boardRange. \<exists>c\<in>set boardRange. \<exists>d\<in>set directions.
        a \<in> set (alignmentFrom b team len r c d))"
    by (simp add: FindAlignments_def)
  also have "\<dots> \<longleftrightarrow> (\<exists>c r d. onBoard c r \<and> d \<in> set directions \<and>
        a \<in> set (alignmentFrom b team len r c d))"
    unfolding Bex_def boardRange_iff onBoard_def by blast
  finally show ?thesis
    using True by (simp add: alignmentFrom_iff isLine_def conj_assoc)
next
  case False
  then show ?thesis by (auto simp: FindAlignments_def)
qed

text \<open>
  The ten lines of four: four rows, four columns, the two diagonals. \<open>winningLine b team f\<close>
  says that the team has won the four cells that \<open>f\<close> enumerates.
\<close>

definition winningLine :: "Board \<Rightarrow> TeamSide \<Rightarrow> (int \<Rightarrow> int \<times> int) \<Rightarrow> bool" where
  "winningLine b team f \<longleftrightarrow> (\<forall>i\<in>{0, 1, 2, 3}. wonAt b team (fst (f i)) (snd (f i)))"

lemma four_offsets: "{0..<4::int} = {0, 1, 2, 3}"
  by auto

lemma wonAt_onBoard: "wonAt b team c r \<Longrightarrow> onBoard c r"
  by (simp add: wonAt_def)

lemma isLine_dir:
  "isLine b team 4 c r (1, 0) \<longleftrightarrow> c = 0 \<and> winningLine b team (\<lambda>i. (i, r))" (is "?h")
  "isLine b team 4 c r (0, 1) \<longleftrightarrow> r = 0 \<and> winningLine b team (\<lambda>i. (c, i))" (is "?v")
  "isLine b team 4 c r (1, 1) \<longleftrightarrow> c = 0 \<and> r = 0 \<and> winningLine b team (\<lambda>i. (i, i))" (is "?d")
  "isLine b team 4 c r (1, -1) \<longleftrightarrow> c = 0 \<and> r = 3 \<and> winningLine b team (\<lambda>i. (i, 3 - i))"
    (is "?u")
proof -
  have ends: "isLine b team 4 c r d \<Longrightarrow>
      onBoard c r \<and> onBoard (c + fst d * 3) (r + snd d * 3)" for d
    by (auto simp: isLine_def four_offsets intro: wonAt_onBoard)
  note unfold = isLine_def directions_def four_offsets winningLine_def
  have "isLine b team 4 c r (1, 0) \<Longrightarrow> c = 0" "isLine b team 4 c r (0, 1) \<Longrightarrow> r = 0"
    "isLine b team 4 c r (1, 1) \<Longrightarrow> c = 0 \<and> r = 0" "isLine b team 4 c r (1, -1) \<Longrightarrow> c = 0 \<and> r = 3"
    by (auto dest!: ends simp: onBoard_def)
  moreover have "isLine b team 4 0 r (1, 0) \<longleftrightarrow> winningLine b team (\<lambda>i. (i, r))"
    "isLine b team 4 c 0 (0, 1) \<longleftrightarrow> winningLine b team (\<lambda>i. (c, i))"
    "isLine b team 4 0 0 (1, 1) \<longleftrightarrow> winningLine b team (\<lambda>i. (i, i))"
    "isLine b team 4 0 3 (1, -1) \<longleftrightarrow> winningLine b team (\<lambda>i. (i, 3 - i))"
    by (auto simp: unfold dest: wonAt_onBoard)
  ultimately show ?h ?v ?d ?u by auto
qed

lemma isLine_four:
  "(\<exists>c r d. isLine b team 4 c r d) \<longleftrightarrow>
     (\<exists>r. winningLine b team (\<lambda>i. (i, r))) \<or> (\<exists>c. winningLine b team (\<lambda>i. (c, i))) \<or>
     winningLine b team (\<lambda>i. (i, i)) \<or> winningLine b team (\<lambda>i. (i, 3 - i))"
proof -
  have "isLine b team 4 c r d \<Longrightarrow> d \<in> {(1, 0), (0, 1), (1, 1), (1, -1)}" for c r d
    by (simp add: isLine_def directions_def)
  then have "(\<exists>c r d. isLine b team 4 c r d) \<longleftrightarrow>
     (\<exists>c r. isLine b team 4 c r (1, 0) \<or> isLine b team 4 c r (0, 1) \<or>
            isLine b team 4 c r (1, 1) \<or> isLine b team 4 c r (1, -1))"
    by blast
  then show ?thesis unfolding isLine_dir by blast
qed

lemma hasFour_lines:
  "hasFour b team \<longleftrightarrow> teamValid team \<and>
     ((\<exists>r. winningLine b team (\<lambda>i. (i, r))) \<or> (\<exists>c. winningLine b team (\<lambda>i. (c, i))) \<or>
      winningLine b team (\<lambda>i. (i, i)) \<or> winningLine b team (\<lambda>i. (i, 3 - i)))"
proof -
  have "hasFour b team \<longleftrightarrow> (\<exists>a. a \<in> set (FindAlignments b team 4))"
    by (simp only: hasFour_def ex_in_conv set_empty not_not)
  also have "\<dots> \<longleftrightarrow> teamValid team \<and> (\<exists>c r d. isLine b team 4 c r d)"
    by (simp add: FindAlignments_iff)
  finally show ?thesis by (simp only: isLine_four)
qed

end
