(* ===== verification/EngineAvailability.thy ===== *)
theory EngineAvailability
  imports EngineBoard "HOL-Library.Signed_Division"
begin

text \<open>
  What can still be played (\<open>Analyze\<close> in \<open>internal/matchengine/availability.go\<close>) with the two
  rules it shares with the command handlers (\<open>placementForceMod\<close> and \<open>pickTeam\<close> of
  \<open>engine.go\<close>). The lemmas say what the analysis lists: exactly the available slots, exactly
  the empty cells, exactly the placements the engine would take, and a stalemate exactly when
  no placement is left.
\<close>

section \<open>Rules shared with the handlers\<close>

definition placementForceMod :: "Mod \<Rightarrow> Zone \<Rightarrow> ErrorCode + ForceMod option" where
  "placementForceMod m zone =
     (case m of
        ModNM \<Rightarrow> Inr None
      | ModHD \<Rightarrow> if zone \<noteq> ZoneHD then Inl CodeInvalidModZone else Inr None
      | ModHR \<Rightarrow> if zone \<noteq> ZoneHR then Inl CodeInvalidModZone else Inr None
      | ModDT \<Rightarrow> if zone \<noteq> ZoneDT then Inl CodeInvalidModZone else Inr None
      | ModFM \<Rightarrow> Inr (Some (case zone of ZoneHD \<Rightarrow> ForceModHD | ZoneHR \<Rightarrow> ForceModHR
                                       | ZoneDT \<Rightarrow> ForceModNM | ZoneNone \<Rightarrow> ForceModNM))
      | _ \<Rightarrow> Inl CodePoolSlotUnavailable)"

text \<open>\<open>%\<close> truncates towards zero, like \<open>smod\<close>.\<close>

definition pickTeam :: "TeamSide \<Rightarrow> int \<Rightarrow> TeamSide" where
  "pickTeam first turn = (if turn smod 2 = 1 then first else opponent first)"

lemma pickTeam_pos: "0 \<le> turn \<Longrightarrow> pickTeam first turn = (if odd turn then first else opponent first)"
  by (cases "turn = 0") (simp_all add: pickTeam_def signed_modulo_int_def odd_iff_mod_2_eq_one)

lemma pickTeam_valid [simp]: "teamValid first \<Longrightarrow> teamValid (pickTeam first turn)"
  by (simp add: pickTeam_def)

section \<open>The analysis\<close>

record PlacementOption =
  poSlotID :: string
  poCell :: Cell
  poForceMod :: "ForceMod option"

record Analysis =
  anSelectablePoolSlotIDs :: "string list"
  anEmptyCells :: "Cell list"
  anLegalCellsByPoolSlot :: "(string, Cell list) gomap"
  anLegalPlacements :: "PlacementOption list"
  anWonCounts :: "(TeamSide, int) gomap"
  anStalemate :: bool

text \<open>The zero values that indexing a Go map with a missing key returns.\<close>

definition slotOf :: "(string, PoolSlot) gomap \<Rightarrow> string \<Rightarrow> PoolSlot" where
  "slotOf m sid =
     (case mapGet m sid of Some s \<Rightarrow> s
      | None \<Rightarrow> \<lparr>slotID = '''', slotMod = ModOther '''', slotState = PoolSlotStateOther ''''\<rparr>)"

definition countOf :: "(TeamSide, int) gomap \<Rightarrow> TeamSide \<Rightarrow> int" where
  "countOf m t = (case mapGet m t of Some n \<Rightarrow> n | None \<Rightarrow> 0)"

definition emptyCells :: "Board \<Rightarrow> Cell list" where
  "emptyCells b =
     filter (boardEmpty b)
       (concat (map (\<lambda>row. map (\<lambda>column. positionCell column row) boardRange) boardRange))"

fun wonCounts :: "(TeamSide, int) gomap \<Rightarrow> (Cell, BoardPiece) gomap \<Rightarrow> (TeamSide, int) gomap" where
  "wonCounts counts [] = counts"
| "wonCounts counts ((cell, piece) # rest) =
     wonCounts
       (case pieceOwner piece of
          Some owner \<Rightarrow>
            if pieceOutcome piece = OutcomeWon \<and> teamValid owner
            then mapPut owner (countOf counts owner + 1) counts else counts
        | None \<Rightarrow> counts) rest"

definition selectableSlot :: "PoolSlot \<Rightarrow> bool" where
  "selectableSlot slot \<longleftrightarrow> \<not> (slotState slot \<noteq> PoolSlotAvailable \<or> slotMod slot = ModTB)"

definition selectablePoolSlotIDs :: "(string, PoolSlot) gomap \<Rightarrow> string list" where
  "selectablePoolSlotIDs pool = sort (map fst (filter (\<lambda>(sid, slot). selectableSlot slot) pool))"

fun slotPlacements :: "string \<Rightarrow> PoolSlot \<Rightarrow> Cell list \<Rightarrow> PlacementOption list" where
  "slotPlacements sid slot [] = []"
| "slotPlacements sid slot (cell # cells) =
     (if slotMod slot = ModShiro
      then \<lparr>poSlotID = sid, poCell = cell, poForceMod = None\<rparr> # slotPlacements sid slot cells
      else case placementForceMod (slotMod slot)
                  (case ZoneAt cell of Some zone \<Rightarrow> zone | None \<Rightarrow> ZoneNone) of
        Inl _ \<Rightarrow> slotPlacements sid slot cells
      | Inr forceMod \<Rightarrow> \<lparr>poSlotID = sid, poCell = cell, poForceMod = forceMod\<rparr>
                        # slotPlacements sid slot cells)"

definition Analyze :: "State \<Rightarrow> Analysis" where
  "Analyze s =
     (let cells = emptyCells (Board s);
          ids = selectablePoolSlotIDs (PoolSlots s);
          placements = (\<lambda>sid. slotPlacements sid (slotOf (PoolSlots s) sid) cells);
          legal = concat (map placements ids)
      in \<lparr>anSelectablePoolSlotIDs = ids, anEmptyCells = cells,
          anLegalCellsByPoolSlot = map (\<lambda>sid. (sid, map poCell (placements sid))) ids,
          anLegalPlacements = legal,
          anWonCounts = wonCounts [(TeamRed, 0), (TeamBlue, 0)] (boardPieces (Board s)),
          anStalemate = (ids = [] \<or> legal = [])\<rparr>)"

section \<open>What the analysis lists\<close>

lemma emptyCells_iff: "c \<in> set (emptyCells b) \<longleftrightarrow> boardEmpty b c"
proof -
  have "boardEmpty b c \<Longrightarrow> \<exists>x\<in>set boardRange. \<exists>y\<in>set boardRange. c = positionCell y x"
    using positionCell_cellPosition cellPosition_range
    by (fastforce simp: boardEmpty_def boardRange_iff)
  then show ?thesis by (auto simp: emptyCells_def)
qed

lemma boardEmpty_ZoneAt: "boardEmpty b c \<Longrightarrow> \<exists>z. ZoneAt c = Some z"
  by (auto simp: boardEmpty_def ZoneAt_def)

lemma selectablePoolSlotIDs_iff:
  "sid \<in> set (selectablePoolSlotIDs pool) \<longleftrightarrow>
     (\<exists>slot. (sid, slot) \<in> set pool \<and> slotState slot = PoolSlotAvailable \<and> slotMod slot \<noteq> ModTB)"
  by (force simp: selectablePoolSlotIDs_def selectableSlot_def image_iff)

definition legalPlacement :: "State \<Rightarrow> PlacementOption \<Rightarrow> bool" where
  "legalPlacement s p \<longleftrightarrow>
     (\<exists>slot zone. mapGet (PoolSlots s) (poSlotID p) = Some slot \<and>
        slotState slot = PoolSlotAvailable \<and> slotMod slot \<noteq> ModTB \<and>
        boardEmpty (Board s) (poCell p) \<and> ZoneAt (poCell p) = Some zone \<and>
        (if slotMod slot = ModShiro then poForceMod p = None
         else placementForceMod (slotMod slot) zone = Inr (poForceMod p)))"

lemma slotPlacements_iff:
  assumes "\<forall>c\<in>set cells. ZoneAt c \<noteq> None"
  shows "p \<in> set (slotPlacements sid slot cells) \<longleftrightarrow>
     poSlotID p = sid \<and> poCell p \<in> set cells \<and>
     (if slotMod slot = ModShiro then poForceMod p = None
      else \<exists>zone. ZoneAt (poCell p) = Some zone \<and>
             placementForceMod (slotMod slot) zone = Inr (poForceMod p))"
proof -
  have eq: "p = \<lparr>poSlotID = i, poCell = c, poForceMod = f\<rparr> \<longleftrightarrow>
      poSlotID p = i \<and> poCell p = c \<and> poForceMod p = f" for i c f
    by (cases p) simp
  from assms show ?thesis
    by (induction cells) (auto simp: eq split: sum.splits)
qed

lemma Analyze_simps [simp]:
  "anSelectablePoolSlotIDs (Analyze s) = selectablePoolSlotIDs (PoolSlots s)"
  "anEmptyCells (Analyze s) = emptyCells (Board s)"
  "anWonCounts (Analyze s) = wonCounts [(TeamRed, 0), (TeamBlue, 0)] (boardPieces (Board s))"
  by (simp_all add: Analyze_def Let_def)

lemma legalPlacements_iff:
  assumes "keysDistinct (PoolSlots s)"
  shows "p \<in> set (anLegalPlacements (Analyze s)) \<longleftrightarrow> legalPlacement s p"
proof -
  have cells: "\<forall>c\<in>set (emptyCells (Board s)). ZoneAt c \<noteq> None"
    by (auto simp: emptyCells_iff dest: boardEmpty_ZoneAt)
  have ids: "sid \<in> set (selectablePoolSlotIDs (PoolSlots s)) \<longleftrightarrow>
      (\<exists>slot. mapGet (PoolSlots s) sid = Some slot \<and>
        slotState slot = PoolSlotAvailable \<and> slotMod slot \<noteq> ModTB)" for sid
    by (simp add: selectablePoolSlotIDs_iff mapGet_iff [OF assms])
  have "p \<in> set (anLegalPlacements (Analyze s)) \<longleftrightarrow>
      poSlotID p \<in> set (selectablePoolSlotIDs (PoolSlots s)) \<and>
      p \<in> set (slotPlacements (poSlotID p) (slotOf (PoolSlots s) (poSlotID p)) (emptyCells (Board s)))"
    by (auto simp: Analyze_def Let_def slotPlacements_iff [OF cells])
  also have "\<dots> \<longleftrightarrow> legalPlacement s p"
    by (auto simp: ids slotPlacements_iff [OF cells] legalPlacement_def emptyCells_iff slotOf_def
        dest: boardEmpty_ZoneAt)
  finally show ?thesis .
qed

lemma anStalemate_iff:
  "anStalemate (Analyze s) \<longleftrightarrow> anLegalPlacements (Analyze s) = []"
  by (auto simp: Analyze_def Let_def)

lemma stalemate_iff:
  assumes "keysDistinct (PoolSlots s)"
  shows "anStalemate (Analyze s) \<longleftrightarrow> (\<nexists>p. legalPlacement s p)"
  using legalPlacements_iff [OF assms]
  by (metis anStalemate_iff ex_in_conv set_empty)

lemma countOf_mapPut [simp]: "countOf (mapPut k n m) t = (if t = k then n else countOf m t)"
  by (simp add: countOf_def)

lemma wonCounts_countOf:
  "teamValid t \<Longrightarrow> countOf (wonCounts m ps) t = countOf m t + int (length (filter (\<lambda>(c, p). wonBy t p) ps))"
proof (induction ps arbitrary: m)
  case (Cons e ps)
  obtain c p where e: "e = (c, p)" by (cases e)
  show ?case
    using Cons.prems by (cases "pieceOwner p") (simp_all add: e Cons.IH wonBy_def)
qed simp

lemma Analyze_wonCounts:
  "teamValid t \<Longrightarrow> countOf (anWonCounts (Analyze s)) t =
     int (length (filter (\<lambda>(c, p). wonBy t p) (boardPieces (Board s))))"
  by (simp add: wonCounts_countOf) (auto simp: countOf_def)

text \<open>The analysis reads the pool and the board and nothing else.\<close>

lemma Analyze_cong:
  "PoolSlots s = PoolSlots t \<Longrightarrow> Board s = Board t \<Longrightarrow> Analyze s = Analyze t"
  by (simp add: Analyze_def Let_def)

end
