(* ===== verification/EngineRobbery.thy ===== *)
theory EngineRobbery
  imports EngineAvailability
begin

text \<open>
  Robbery (\<open>engine.go\<close>: \<open>flattenSacrificeSets\<close>, \<open>validNormalRobberySacrifice\<close>,
  \<open>boardAfterRobbery\<close>, \<open>teamHasLegalRobbery\<close>; \<open>availability.go\<close>: \<open>robberyPlans\<close>,
  \<open>sacrificeKey\<close>). The code decides robbery three times: when it validates a submitted
  command, when it asks whether a team still has a legal robbery, and when it lists the plans
  for a client. \<open>robberyLegal\<close> states the rule once, and the lemmas show that the exhaustive
  search and the listed plans agree with it.
\<close>

section \<open>The rule\<close>

definition targetIsShiro :: "BoardPiece \<Rightarrow> bool" where
  "targetIsShiro p \<longleftrightarrow>
     pieceMod p = ModShiro \<and> pieceOutcome p = OutcomeWhite \<and> pieceOwner p = None"

definition targetIsOpponent :: "TeamSide \<Rightarrow> BoardPiece \<Rightarrow> bool" where
  "targetIsOpponent team p \<longleftrightarrow> pieceOutcome p = OutcomeWon \<and> pieceOwner p = Some (opponent team)"

text \<open>The nested loops of \<open>flattenSacrificeSets\<close>; \<open>None\<close> is its overlap result.\<close>

fun flattenSet :: "string list \<Rightarrow> string list \<Rightarrow> string list option" where
  "flattenSet flattened [] = Some flattened"
| "flattenSet flattened (pid # pids) =
     (if pid \<in> set flattened then None else flattenSet (flattened @ [pid]) pids)"

fun flattenSets :: "string list \<Rightarrow> string list list \<Rightarrow> string list option" where
  "flattenSets flattened [] = Some flattened"
| "flattenSets flattened (xs # sets) =
     (case flattenSet flattened xs of None \<Rightarrow> None | Some flattened' \<Rightarrow> flattenSets flattened' sets)"

definition flattenSacrificeSets :: "string list list \<Rightarrow> string list option" where
  "flattenSacrificeSets sets = flattenSets [] sets"

definition validNormalRobberySacrifice :: "Board \<Rightarrow> TeamSide \<Rightarrow> string list list \<Rightarrow> bool" where
  "validNormalRobberySacrifice b team sets =
     (case sets of
        [x] \<Rightarrow> isAlignment b team x 3
      | [x, y] \<Rightarrow> isAlignment b team x 2 \<and> isAlignment b team y 2
      | _ \<Rightarrow> False)"

definition boardAfterRobbery ::
  "Board \<Rightarrow> TeamSide \<Rightarrow> string \<Rightarrow> string list \<Rightarrow> int \<Rightarrow> Board option" where
  "boardAfterRobbery b team targetID sacrificeIDs alignmentLength =
     (case setOwner (markDead (boardClone b) sacrificeIDs) targetID team of
        None \<Rightarrow> None
      | Some next \<Rightarrow>
          if pieceParticipatesInAlignment next team targetID alignmentLength
          then Some next else None)"

text \<open>The pairs \<open>(first, second)\<close> with \<open>first < second\<close> that the two index loops visit.\<close>

fun pairs :: "'a list \<Rightarrow> ('a \<times> 'a) list" where
  "pairs [] = []"
| "pairs (x # xs) = map (Pair x) xs @ pairs xs"

text \<open>The sacrifice sets the searches try: one alignment, or two of them in list order.\<close>

definition singles :: "Alignment list \<Rightarrow> string list list list" where
  "singles as = map (\<lambda>a. [alBoardPieceIDs a]) as"

definition doubles :: "Alignment list \<Rightarrow> string list list list" where
  "doubles as = map (\<lambda>(x, y). [alBoardPieceIDs x, alBoardPieceIDs y]) (pairs as)"

definition doubleWorks :: "Board \<Rightarrow> TeamSide \<Rightarrow> string \<Rightarrow> string list list \<Rightarrow> bool" where
  "doubleWorks b team target sets =
     (case flattenSacrificeSets sets of
        None \<Rightarrow> False
      | Some ids \<Rightarrow> boardAfterRobbery b team target ids 3 \<noteq> None)"

definition teamHasLegalRobbery :: "Board \<Rightarrow> TeamSide \<Rightarrow> bool" where
  "teamHasLegalRobbery b team =
     (let twos = FindAlignments b team 2; threes = FindAlignments b team 3
      in \<exists>(cell, target)\<in>set (boardPieces b).
           if targetIsShiro target then
             \<exists>sets\<in>set (singles twos). boardAfterRobbery b team (pieceID target) (hd sets) 2 \<noteq> None
           else if targetIsOpponent team target then
             (\<exists>sets\<in>set (singles threes).
                boardAfterRobbery b team (pieceID target) (hd sets) 3 \<noteq> None) \<or>
             (\<exists>sets\<in>set (doubles twos). doubleWorks b team (pieceID target) sets)
           else False)"

record RobberyPlan =
  planTargetPieceID :: string
  planSacrificeSets :: "string list list"

fun sacrificeKey :: "string list list \<Rightarrow> string" where
  "sacrificeKey [] = ''''"
| "sacrificeKey (xs # sets) =
     ''|'' @ concat (map (\<lambda>pid. pid @ '','') (sort xs)) @ sacrificeKey sets"

definition shiroPlanWorks :: "Board \<Rightarrow> TeamSide \<Rightarrow> string \<Rightarrow> string list list \<Rightarrow> bool" where
  "shiroPlanWorks b team target sets =
     (case boardAfterRobbery b team target (hd sets) 2 of
        None \<Rightarrow> False
      | Some next \<Rightarrow> containsPieceID next target)"

definition plansForTarget ::
  "Board \<Rightarrow> TeamSide \<Rightarrow> Alignment list \<Rightarrow> Alignment list \<Rightarrow> BoardPiece \<Rightarrow> RobberyPlan list" where
  "plansForTarget b team twos threes target =
     (let t = pieceID target;
          plan = (\<lambda>sets. \<lparr>planTargetPieceID = t, planSacrificeSets = sets\<rparr>)
      in if \<not> targetIsShiro target \<and> \<not> targetIsOpponent team target then []
         else if targetIsShiro target then
           map plan (filter (shiroPlanWorks b team t) (singles twos))
         else
           map plan (filter (\<lambda>sets. boardAfterRobbery b team t (hd sets) 3 \<noteq> None) (singles threes)) @
           map plan (filter (doubleWorks b team t) (doubles twos)))"

text \<open>
  \<open>sort.Slice\<close> leaves the order of plans with equal target and key unspecified; the stable
  sort is one of its results.
\<close>

definition robberyPlans :: "State \<Rightarrow> TeamSide \<Rightarrow> RobberyPlan list" where
  "robberyPlans s team =
     (if Lifecycle s \<noteq> LifecycleRunning \<or> Phase s \<noteq> PhasePick \<or> ActiveTeam s \<noteq> team then []
      else
        let twos = FindAlignments (Board s) team 2; threes = FindAlignments (Board s) team 3
        in sort_key (\<lambda>p. (planTargetPieceID p, sacrificeKey (planSacrificeSets p)))
             (concat (map (\<lambda>(cell, target). plansForTarget (Board s) team twos threes target)
                        (boardPieces (Board s)))))"

section \<open>Sacrifices\<close>

lemma flattenSet_eq:
  "distinct acc \<Longrightarrow>
   flattenSet acc xs = (if distinct (acc @ xs) then Some (acc @ xs) else None)"
  by (induction xs arbitrary: acc) auto

lemma flattenSets_eq:
  "distinct acc \<Longrightarrow>
   flattenSets acc sets =
     (if distinct (acc @ concat sets) then Some (acc @ concat sets) else None)"
  by (induction sets arbitrary: acc) (auto simp: flattenSet_eq)

lemma flattenSacrificeSets_eq:
  "flattenSacrificeSets sets = (if distinct (concat sets) then Some (concat sets) else None)"
  by (simp add: flattenSacrificeSets_def flattenSets_eq)

lemma pairs_subset: "(x, y) \<in> set (pairs xs) \<Longrightarrow> x \<in> set xs \<and> y \<in> set xs"
  by (induction xs) auto

lemma pairs_complete:
  "x \<in> set xs \<Longrightarrow> y \<in> set xs \<Longrightarrow> x \<noteq> y \<Longrightarrow> (x, y) \<in> set (pairs xs) \<or> (y, x) \<in> set (pairs xs)"
  by (induction xs) auto

definition boardOk :: "Board \<Rightarrow> bool" where
  "boardOk b \<longleftrightarrow> keysDistinct (boardPieces b) \<and> distinct (pieceIDs (boardPieces b)) \<and>
                '''' \<notin> set (pieceIDs (boardPieces b))"

lemma boardOkD:
  "boardOk b \<Longrightarrow> keysDistinct (boardPieces b)"
  "boardOk b \<Longrightarrow> distinct (pieceIDs (boardPieces b))"
  "boardOk b \<Longrightarrow> '''' \<notin> set (pieceIDs (boardPieces b))"
  by (simp_all add: boardOk_def)

lemma pieceIDs_inj:
  assumes "distinct (pieceIDs ps)" "(c, p) \<in> set ps" "(c', p') \<in> set ps" "pieceID p = pieceID p'"
  shows "c = c' \<and> p = p'"
  using assms by (auto simp: pieceIDs_def distinct_map inj_on_def)

lemma wonAt_piece:
  "wonAt b team c r \<Longrightarrow>
   \<exists>p. (positionCell c r, p) \<in> set (boardPieces b) \<and> wonBy team p \<and> idAt b c r = pieceID p"
  by (auto simp: wonAt_def idAt_def PieceAt_def split: option.splits dest: mapGet_in_set)

lemma wonAt_id_inj:
  assumes "boardOk b" "wonAt b team c r" "wonAt b team c' r'" "idAt b c r = idAt b c' r'"
  shows "c = c' \<and> r = r'"
proof -
  obtain p where p: "(positionCell c r, p) \<in> set (boardPieces b)" "idAt b c r = pieceID p"
    using wonAt_piece [OF assms(2)] by blast
  obtain q where q: "(positionCell c' r', q) \<in> set (boardPieces b)" "idAt b c' r' = pieceID q"
    using wonAt_piece [OF assms(3)] by blast
  have "positionCell c r = positionCell c' r'"
    using pieceIDs_inj [OF boardOkD(2) [OF assms(1)] p(1) q(1)] assms(4) p(2) q(2) by simp
  then show ?thesis
    using wonAt_onBoard [OF assms(2)] wonAt_onBoard [OF assms(3)]
    by (intro positionCell_inj) (auto simp: onBoard_def)
qed

lemma alignment_ids:
  assumes "boardOk b" "a \<in> set (FindAlignments b team len)"
  shows "distinct (alBoardPieceIDs a)" "int (length (alBoardPieceIDs a)) = len"
    "'''' \<notin> set (alBoardPieceIDs a)"
    "pid \<in> set (alBoardPieceIDs a) \<Longrightarrow> \<exists>c p. (c, p) \<in> set (boardPieces b) \<and> wonBy team p \<and> pieceID p = pid"
proof -
  obtain c r d where l: "isLine b team len c r d" and a: "a = lineAt b team len c r d"
    and len: "2 \<le> len" using assms(2) by (auto simp: FindAlignments_iff)
  have d: "fst d \<noteq> 0 \<or> snd d \<noteq> 0"
    using l by (auto simp: isLine_def directions_def)
  have won: "i < nat len \<Longrightarrow> wonAt b team (c + fst d * int i) (r + snd d * int i)" for i
    using l by (simp add: isLine_def zless_nat_eq_int_zless)
  have ids: "alBoardPieceIDs a = map (\<lambda>i. idAt b (c + fst d * int i) (r + snd d * int i)) [0..<nat len]"
    by (simp add: a lineAt_def)
  show "distinct (alBoardPieceIDs a)"
  proof (unfold ids distinct_map, intro conjI inj_onI distinct_upt)
    fix i j assume ij: "i \<in> set [0..<nat len]" "j \<in> set [0..<nat len]"
      and eq: "idAt b (c + fst d * int i) (r + snd d * int i) =
               idAt b (c + fst d * int j) (r + snd d * int j)"
    from ij have "wonAt b team (c + fst d * int i) (r + snd d * int i)"
      "wonAt b team (c + fst d * int j) (r + snd d * int j)"
      by (auto intro!: won)
    from wonAt_id_inj [OF assms(1) this eq] d show "i = j" by auto
  qed
  show "int (length (alBoardPieceIDs a)) = len" using len by (simp add: ids)
  show pieces: "\<exists>c p. (c, p) \<in> set (boardPieces b) \<and> wonBy team p \<and> pieceID p = pid"
    if "pid \<in> set (alBoardPieceIDs a)" for pid
    using that wonAt_piece [OF won] by (fastforce simp: ids)
  show "'''' \<notin> set (alBoardPieceIDs a)"
    using pieces [of "''''"] boardOkD(3) [OF assms(1)]
    by (force simp: pieceIDs_def image_iff)
qed

lemma isAlignment_iff:
  assumes "boardOk b"
  shows "isAlignment b team pids len \<longleftrightarrow>
     (\<exists>a\<in>set (FindAlignments b team len). distinct pids \<and> set pids = set (alBoardPieceIDs a))"
proof
  assume "isAlignment b team pids len"
  then obtain a where a: "a \<in> set (FindAlignments b team len)" "set (alBoardPieceIDs a) \<subseteq> set pids"
    and p: "int (length pids) = len" "int (card (set pids)) = len"
    by (auto simp: isAlignment_def)
  have "card (set (alBoardPieceIDs a)) = card (set pids)"
    using alignment_ids [OF assms a(1)] p distinct_card by fastforce
  then have "set pids = set (alBoardPieceIDs a)"
    using a(2) by (metis card_subset_eq List.finite_set)
  moreover have "distinct pids" using p by (simp add: card_distinct)
  ultimately show "\<exists>a\<in>set (FindAlignments b team len). distinct pids \<and> set pids = set (alBoardPieceIDs a)"
    using a(1) by blast
next
  assume "\<exists>a\<in>set (FindAlignments b team len). distinct pids \<and> set pids = set (alBoardPieceIDs a)"
  then obtain a where a: "a \<in> set (FindAlignments b team len)"
    and p: "distinct pids" "set pids = set (alBoardPieceIDs a)" by blast
  have "length pids = length (alBoardPieceIDs a)"
    using p alignment_ids(1) [OF assms a] by (metis distinct_card)
  then show "isAlignment b team pids len"
    using a p alignment_ids [OF assms a] by (auto simp: isAlignment_def distinct_card)
qed

section \<open>The board after a robbery\<close>

definition robbedPiece :: "TeamSide \<Rightarrow> string \<Rightarrow> string list \<Rightarrow> BoardPiece \<Rightarrow> BoardPiece" where
  "robbedPiece team target sacrificed p = ownPiece target team (deadPiece sacrificed p)"

lemma mapPieces_mapPieces [simp]: "mapPieces f (mapPieces g ps) = mapPieces (\<lambda>p. f (g p)) ps"
  by (induction ps) auto

lemma boardAfterRobbery_Some:
  assumes "boardOk b"
  shows "boardAfterRobbery b team target sac len = Some b' \<longleftrightarrow>
     target \<in> set (pieceIDs (boardPieces b)) \<and>
     b' = \<lparr>boardPieces = mapPieces (robbedPiece team target sac) (boardPieces b), boardNil = False\<rparr> \<and>
     pieceParticipatesInAlignment b' team target len"
proof -
  let ?d = "markDead (boardClone b) sac"
  have ids: "pieceIDs (boardPieces ?d) = pieceIDs (boardPieces b)"
    by (simp add: markDead_mapPieces boardClone_def pieceIDs_mapPieces)
  have "setOwner ?d target team =
      (if target \<in> set (pieceIDs (boardPieces b))
       then Some \<lparr>boardPieces = mapPieces (robbedPiece team target sac) (boardPieces b), boardNil = False\<rparr>
       else None)"
    using setOwner_eq [of ?d target team] boardOkD(2) [OF assms]
    by (simp add: ids containsPieceID_iff)
       (simp add: markDead_mapPieces boardClone_def robbedPiece_def [abs_def])
  then show ?thesis by (auto simp: boardAfterRobbery_def split: if_splits)
qed

lemma boardAfterRobbery_cong:
  assumes "boardOk b" "set sac = set sac'"
  shows "boardAfterRobbery b team target sac len = boardAfterRobbery b team target sac' len"
proof -
  have "robbedPiece team target sac = robbedPiece team target sac'"
    using assms(2) by (simp add: robbedPiece_def deadPiece_def fun_eq_iff)
  then have "boardAfterRobbery b team target sac len = Some b' \<longleftrightarrow>
      boardAfterRobbery b team target sac' len = Some b'" for b'
    by (simp add: boardAfterRobbery_Some [OF assms(1)])
  then show ?thesis by (metis not_None_eq)
qed

section \<open>The three searches agree\<close>

text \<open>
  What \<open>robPiece\<close> requires of the target and of the submitted sacrifice sets, once the actor,
  the phase and the timer are in order.
\<close>

definition sacrificeLegal :: "Board \<Rightarrow> TeamSide \<Rightarrow> BoardPiece \<Rightarrow> string list list \<Rightarrow> bool" where
  "sacrificeLegal b team p sets \<longleftrightarrow>
     (targetIsShiro p \<or> targetIsOpponent team p) \<and> distinct (concat sets) \<and>
     (if targetIsShiro p then \<exists>x. sets = [x] \<and> isAlignment b team x 2
      else validNormalRobberySacrifice b team sets) \<and>
     boardAfterRobbery b team (pieceID p) (concat sets) (if targetIsShiro p then 2 else 3) \<noteq> None"

definition robberyLegal :: "Board \<Rightarrow> TeamSide \<Rightarrow> string \<Rightarrow> string list list \<Rightarrow> bool" where
  "robberyLegal b team target sets \<longleftrightarrow>
     (\<exists>c p. (c, p) \<in> set (boardPieces b) \<and> pieceID p = target \<and> sacrificeLegal b team p sets)"

lemma boardAfterRobbery_contains:
  "boardOk b \<Longrightarrow> boardAfterRobbery b team target sac len = Some b' \<Longrightarrow> containsPieceID b' target"
  by (auto simp: boardAfterRobbery_Some containsPieceID_iff pieceIDs_mapPieces robbedPiece_def)

definition planLegal :: "Board \<Rightarrow> TeamSide \<Rightarrow> BoardPiece \<Rightarrow> string list list \<Rightarrow> bool" where
  "planLegal b team p sets \<longleftrightarrow> distinct (concat sets) \<and>
     (if targetIsShiro p then
        sets \<in> set (singles (FindAlignments b team 2)) \<and>
        boardAfterRobbery b team (pieceID p) (concat sets) 2 \<noteq> None
      else targetIsOpponent team p \<and>
        (sets \<in> set (singles (FindAlignments b team 3)) \<or>
         sets \<in> set (doubles (FindAlignments b team 2))) \<and>
        boardAfterRobbery b team (pieceID p) (concat sets) 3 \<noteq> None)"

lemma singles_iff: "sets \<in> set (singles as) \<longleftrightarrow> (\<exists>a\<in>set as. sets = [alBoardPieceIDs a])"
  by (auto simp: singles_def)

lemma doubles_iff:
  "sets \<in> set (doubles as) \<longleftrightarrow>
     (\<exists>x y. (x, y) \<in> set (pairs as) \<and> sets = [alBoardPieceIDs x, alBoardPieceIDs y])"
  by (auto simp: doubles_def)

lemma doubleWorks_iff:
  "doubleWorks b team t sets \<longleftrightarrow>
     distinct (concat sets) \<and> boardAfterRobbery b team t (concat sets) 3 \<noteq> None"
  by (simp add: doubleWorks_def flattenSacrificeSets_eq)

lemma singles_concat:
  assumes "boardOk b" "sets \<in> set (singles (FindAlignments b team len))"
  shows "hd sets = concat sets \<and> distinct (concat sets)"
  using assms alignment_ids(1) by (auto simp: singles_iff)

lemma shiroPlanWorks_iff:
  assumes "boardOk b" "sets \<in> set (singles (FindAlignments b team len))"
  shows "shiroPlanWorks b team t sets \<longleftrightarrow> boardAfterRobbery b team t (concat sets) 2 \<noteq> None"
  using singles_concat [OF assms] boardAfterRobbery_contains [OF assms(1), of team t "concat sets" 2]
  by (cases "boardAfterRobbery b team t (concat sets) 2") (simp_all add: shiroPlanWorks_def)

lemma plansForTarget_iff:
  assumes "boardOk b"
  shows "q \<in> set (plansForTarget b team (FindAlignments b team 2) (FindAlignments b team 3) p) \<longleftrightarrow>
     planTargetPieceID q = pieceID p \<and> planLegal b team p (planSacrificeSets q)"
proof -
  have plans: "q \<in> set (map (\<lambda>sets. \<lparr>planTargetPieceID = t, planSacrificeSets = sets\<rparr>) (filter P xs))
      \<longleftrightarrow> planTargetPieceID q = t \<and> planSacrificeSets q \<in> set xs \<and> P (planSacrificeSets q)" for t P xs
    by (cases q) auto
  show ?thesis
    unfolding plansForTarget_def Let_def planLegal_def
    using singles_concat [OF assms] shiroPlanWorks_iff [OF assms]
    by (auto simp del: set_map set_filter simp: plans doubleWorks_iff)
qed

lemma teamHasLegalRobbery_plans:
  assumes "boardOk b"
  shows "teamHasLegalRobbery b team \<longleftrightarrow>
     (\<exists>c p sets. (c, p) \<in> set (boardPieces b) \<and> planLegal b team p sets)"
proof -
  have eq: "planLegal b team p sets \<longleftrightarrow>
     (if targetIsShiro p then
        sets \<in> set (singles (FindAlignments b team 2)) \<and>
        boardAfterRobbery b team (pieceID p) (hd sets) 2 \<noteq> None
      else if targetIsOpponent team p then
        sets \<in> set (singles (FindAlignments b team 3)) \<and>
          boardAfterRobbery b team (pieceID p) (hd sets) 3 \<noteq> None \<or>
        sets \<in> set (doubles (FindAlignments b team 2)) \<and> doubleWorks b team (pieceID p) sets
      else False)" for p sets
    using singles_concat [OF assms, of sets team 2] singles_concat [OF assms, of sets team 3]
    by (auto simp del: not_None_eq simp: planLegal_def doubleWorks_iff)
  have one: "(\<exists>sets. planLegal b team p sets) \<longleftrightarrow>
     (if targetIsShiro p then
        \<exists>sets\<in>set (singles (FindAlignments b team 2)).
          boardAfterRobbery b team (pieceID p) (hd sets) 2 \<noteq> None
      else if targetIsOpponent team p then
        (\<exists>sets\<in>set (singles (FindAlignments b team 3)).
           boardAfterRobbery b team (pieceID p) (hd sets) 3 \<noteq> None) \<or>
        (\<exists>sets\<in>set (doubles (FindAlignments b team 2)). doubleWorks b team (pieceID p) sets)
      else False)" for p
    by (cases "targetIsShiro p"; cases "targetIsOpponent team p")
       (simp_all only: eq if_True if_False Bex_def ex_disj_distrib simp_thms)
  have "teamHasLegalRobbery b team \<longleftrightarrow>
      (\<exists>(c, p)\<in>set (boardPieces b). \<exists>sets. planLegal b team p sets)"
    unfolding teamHasLegalRobbery_def Let_def one by (rule refl)
  then show ?thesis by auto
qed

lemma planLegal_sacrificeLegal:
  assumes ok: "boardOk b" and plan: "planLegal b team p sets"
  shows "sacrificeLegal b team p sets"
proof -
  have al: "a \<in> set (FindAlignments b team len) \<Longrightarrow> isAlignment b team (alBoardPieceIDs a) len" for a len
    using alignment_ids(1) [OF ok] isAlignment_iff [OF ok] by blast
  show ?thesis
    using plan
    by (auto simp: planLegal_def sacrificeLegal_def validNormalRobberySacrifice_def
        singles_iff doubles_iff intro: al dest!: pairs_subset split: if_splits)
qed

text \<open>Every legal choice is listed, up to the order in which the player names the pieces.\<close>

lemma sacrificeLegal_planLegal:
  assumes ok: "boardOk b" and legal: "sacrificeLegal b team p sets"
  shows "\<exists>sets'. planLegal b team p sets' \<and> set (concat sets') = set (concat sets)"
proof -
  note cong = boardAfterRobbery_cong [OF ok]
  note al = isAlignment_iff [OF ok]
  consider (shiro) x where "targetIsShiro p" "sets = [x]" "isAlignment b team x 2"
    | (three) x where "\<not> targetIsShiro p" "targetIsOpponent team p" "sets = [x]" "isAlignment b team x 3"
    | (twotwo) x y where "\<not> targetIsShiro p" "targetIsOpponent team p" "sets = [x, y]"
        "isAlignment b team x 2" "isAlignment b team y 2"
    using legal
    by (auto simp: sacrificeLegal_def validNormalRobberySacrifice_def split: if_splits list.splits)
  then show ?thesis
  proof cases
    case shiro
    then obtain a where "a \<in> set (FindAlignments b team 2)" "set x = set (alBoardPieceIDs a)"
      using al by blast
    moreover from this have "planLegal b team p [alBoardPieceIDs a]"
      using legal shiro cong [of x "alBoardPieceIDs a"]
      by (auto simp: planLegal_def sacrificeLegal_def singles_iff alignment_ids(1) [OF ok])
    ultimately show ?thesis using shiro(2) by (intro exI [of _ "[alBoardPieceIDs a]"]) simp
  next
    case three
    then obtain a where "a \<in> set (FindAlignments b team 3)" "set x = set (alBoardPieceIDs a)"
      using al by blast
    moreover from this have "planLegal b team p [alBoardPieceIDs a]"
      using legal three cong [of x "alBoardPieceIDs a"]
      by (auto simp: planLegal_def sacrificeLegal_def singles_iff alignment_ids(1) [OF ok])
    ultimately show ?thesis using three(3) by (intro exI [of _ "[alBoardPieceIDs a]"]) simp
  next
    case twotwo
    then obtain a a' where a: "a \<in> set (FindAlignments b team 2)" "set x = set (alBoardPieceIDs a)"
      and a': "a' \<in> set (FindAlignments b team 2)" "set y = set (alBoardPieceIDs a')"
      using al by meson
    have disj: "set x \<inter> set y = {}" using legal twotwo(3) by (simp add: sacrificeLegal_def)
    have ne: "set (alBoardPieceIDs a) \<noteq> {}"
      using alignment_ids(2) [OF ok a(1)] by auto
    have "a \<noteq> a'" using a(2) a'(2) disj ne by auto
    then obtain u v where uv: "(u, v) \<in> set (pairs (FindAlignments b team 2))"
      and perm: "u = a \<and> v = a' \<or> u = a' \<and> v = a"
      using pairs_complete [OF a(1) a'(1)] by blast
    have dist: "distinct (alBoardPieceIDs u @ alBoardPieceIDs v)"
      using alignment_ids(1) [OF ok] a a' disj perm by auto
    have all: "set (alBoardPieceIDs u @ alBoardPieceIDs v) = set (concat sets)"
      using perm a(2) a'(2) twotwo(3) by auto
    have "planLegal b team p [alBoardPieceIDs u, alBoardPieceIDs v]"
      using legal twotwo(1,2) cong [OF all] dist
      by (simp add: planLegal_def sacrificeLegal_def del: not_None_eq)
         (use uv in \<open>auto simp: doubles_iff\<close>)
    then show ?thesis
      using all by (intro exI [of _ "[alBoardPieceIDs u, alBoardPieceIDs v]"]) simp
  qed
qed

lemma teamHasLegalRobbery_iff:
  assumes "boardOk b"
  shows "teamHasLegalRobbery b team \<longleftrightarrow> (\<exists>target sets. robberyLegal b team target sets)"
  unfolding teamHasLegalRobbery_plans [OF assms] robberyLegal_def
  using planLegal_sacrificeLegal [OF assms] sacrificeLegal_planLegal [OF assms] by blast

lemma robberyPlans_iff:
  assumes "boardOk (Board s)"
  shows "q \<in> set (robberyPlans s team) \<longleftrightarrow>
     Lifecycle s = LifecycleRunning \<and> Phase s = PhasePick \<and> ActiveTeam s = team \<and>
     (\<exists>c p. (c, p) \<in> set (boardPieces (Board s)) \<and> planTargetPieceID q = pieceID p \<and>
            planLegal (Board s) team p (planSacrificeSets q))"
  using plansForTarget_iff [OF assms, of q team]
  by (auto simp: robberyPlans_def Let_def)

end
