(* ===== verification/Engine.thy ===== *)
theory Engine
  imports EngineRobbery
begin

text \<open>
  The command handlers of the match engine (\<open>internal/matchengine/engine.go\<close>). A handler that
  mutates \<open>*State\<close> and returns \<open>([]Event, error)\<close> is a function from the state to
  \<open>Inl code\<close> or \<open>Inr (state', events)\<close>; its guards stand in the code's order, one per early
  return, so the first guard that fails decides the code. \<open>Execute\<close> runs the handler on a
  clone, insists on an event and counts the version.

  A rejected command returns no state at all, so the caller keeps the one it had.
\<close>

type_synonym Step = "ErrorCode + State \<times> Event list"

section \<open>Guards\<close>

definition missingReason :: "string \<Rightarrow> bool" where
  "missingReason reason \<longleftrightarrow> blank reason"

definition requireRunningPhase :: "State \<Rightarrow> Phase \<Rightarrow> ErrorCode option" where
  "requireRunningPhase s phase =
     (if Lifecycle s \<noteq> LifecycleRunning then Some CodeMatchLifecycleConflict
      else if Phase s \<noteq> phase then Some CodeMatchPhaseConflict
      else None)"

definition requireActiveStrategist :: "State \<Rightarrow> Actor \<Rightarrow> ErrorCode option" where
  "requireActiveStrategist s actor =
     (if actorCapability actor \<noteq> CapabilityStrategist then Some CodeActionNotAllowed
      else case actorTeam actor of
        None \<Rightarrow> Some CodeActionNotAllowed
      | Some team \<Rightarrow>
          if \<not> teamValid team then Some CodeActionNotAllowed
          else if team \<noteq> ActiveTeam s then Some CodeNotActiveTeam
          else None)"

definition requireStrategistTimer :: "Timer \<Rightarrow> Time \<Rightarrow> ErrorCode option" where
  "requireStrategistTimer timer now =
     (if timerPaused timer then Some CodeTimerPaused
      else if timerExpired timer now then Some CodeTimerExpired
      else None)"

section \<open>Entering the next action\<close>

definition forcedTBRequirementsMet :: "State \<Rightarrow> bool" where
  "forcedTBRequirementsMet s =
     (if Turn s < 15 \<or> hasFour (Board s) TeamRed \<or> hasFour (Board s) TeamBlue then False
      else
        (let redSatisfied = flagOf (RobberyUsed s) TeamRed \<or> \<not> teamHasLegalRobbery (Board s) TeamRed;
             blueSatisfied = flagOf (RobberyUsed s) TeamBlue \<or> \<not> teamHasLegalRobbery (Board s) TeamBlue
         in redSatisfied \<and> blueSatisfied))"

definition shouldForceTB :: "State \<Rightarrow> bool" where
  "shouldForceTB s \<longleftrightarrow>
     Lifecycle s = LifecycleRunning \<and> Phase s = PhasePick \<and> forcedTBRequirementsMet s"

definition startForcedTBPreparation :: "State \<Rightarrow> Time \<Rightarrow> State \<times> Event list" where
  "startForcedTBPreparation s now =
     (s\<lparr>Phase := PhaseTBPreparation, ActiveTeam := TeamNone, PendingTBRequest := None,
        TBEntry := Some \<lparr>tbEntryBasis = TBBasisForcedAfterRobberyChecks,
                         tbEntryRequestID = '''', tbEntryRequestedBy = TeamNone\<rparr>,
        Timer := newTimer now (tcTBPreparation (Timers s))\<rparr>,
      [(event EventTBForced)\<lparr>evBasis := TBBasisForcedAfterRobberyChecks\<rparr>,
       (event EventTBPreparationStarted)\<lparr>evBasis := TBBasisForcedAfterRobberyChecks\<rparr>,
       event EventTimerStarted])"

definition finishMatch :: "State \<Rightarrow> TeamSide \<Rightarrow> Result \<Rightarrow> State" where
  "finishMatch s winner result =
     s\<lparr>Winner := Some winner, MatchResult := Some result, Lifecycle := LifecycleFinished,
       Phase := PhaseNone, ActiveTeam := TeamNone, PendingPieceID := '''',
       PendingTBRequest := None, Stalemate := None, Suspension := None, AbortReason := '''',
       Timer := zeroTimer\<rparr>"

text \<open>The literal \<open>Result{Winner: w, Reason: r}\<close>.\<close>

definition plainResult :: "TeamSide \<Rightarrow> ResultReason \<Rightarrow> Result" where
  "plainResult w r =
     \<lparr>resWinner = w, resReason = r, resSurrenderingTeam = None, resConfirmingPlayerIDs = [],
      resRedWonCount = 0, resBlueWonCount = 0\<rparr>"

definition enterPickOrTerminal :: "State \<Rightarrow> Time \<Rightarrow> State \<times> Event list" where
  "enterPickOrTerminal s0 now =
     (let s1 = s0\<lparr>Phase := PhasePick\<rparr>;
          (s2, events) =
            (case PendingTBRequest s1 of
               Some pending \<Rightarrow>
                 if Turn s1 > 14 then
                   (s1\<lparr>PendingTBRequest := None\<rparr>,
                    [(event EventTBRequestExpired)\<lparr>evTeam := tbReqRequestedBy pending,
                       evRequestID := tbReqID pending, evBasis := tbReqBasis pending\<rparr>])
                 else (s1, [])
             | None \<Rightarrow> (s1, []))
      in if shouldForceTB s2 then
           (let (s3, forced) = startForcedTBPreparation s2 now in (s3, events @ forced))
         else
           let analysis = Analyze s2
           in if \<not> anStalemate analysis then
                (s2\<lparr>Timer := newTimer now (tcPick (Timers s2))\<rparr>, events @ [event EventTimerStarted])
              else
                let redCount = countOf (anWonCounts analysis) TeamRed;
                    blueCount = countOf (anWonCounts analysis) TeamBlue;
                    s3 = s2\<lparr>Timer := zeroTimer, PendingTBRequest := None\<rparr>;
                    events' = events @ [event EventStalemateDetected]
                in if redCount = blueCount then
                     (s3\<lparr>Lifecycle := LifecycleAdjudicationRequired, Phase := PhaseNone,
                         ActiveTeam := TeamNone,
                         Stalemate := Some \<lparr>staleRedWonCount = redCount,
                                            staleBlueWonCount = blueCount\<rparr>\<rparr>,
                      events' @ [event EventAdjudicationRequired])
                   else
                     let winner = (if blueCount > redCount then TeamBlue else TeamRed)
                     in (finishMatch s3 winner
                           ((plainResult winner ResultReasonStalemateWonCount)
                              \<lparr>resRedWonCount := redCount, resBlueWonCount := blueCount\<rparr>),
                         events' @ [(event EventMatchFinished)\<lparr>evTeam := winner\<rparr>]))"

text \<open>
  The code after a ban or a skipped ban: count the turn, then either open the pick phase or
  hand the next ban to the team whose turn it is (a \<open>switch\<close> with no default).
\<close>

definition advanceBan :: "State \<Rightarrow> Time \<Rightarrow> State \<times> Event list" where
  "advanceBan s0 now =
     (let s1 = s0\<lparr>Turn := Turn s0 + 1\<rparr>
      in if Turn s1 > finalBanTurn then
           (let s2 = s1\<lparr>Turn := firstPickTurn, ActiveTeam := FirstPick s1\<rparr>;
                (s3, events) = enterPickOrTerminal s2 now
            in (s3, [(event EventTurnAdvanced)\<lparr>evTeam := ActiveTeam s2\<rparr>,
                     (event EventPickPhaseStarted)\<lparr>evTeam := ActiveTeam s2\<rparr>] @ events))
         else
           (let s2 = (if Turn s1 = secondBanTurn \<or> Turn s1 = thirdBanTurn
                      then s1\<lparr>ActiveTeam := opponent (FirstBan s1)\<rparr>
                      else if Turn s1 = finalBanTurn then s1\<lparr>ActiveTeam := FirstBan s1\<rparr>
                      else s1)
            in (s2\<lparr>Timer := newTimer now (tcBan (Timers s2))\<rparr>,
                [(event EventTurnAdvanced)\<lparr>evTeam := ActiveTeam s2\<rparr>, event EventTimerStarted])))"

text \<open>The code after a pick: count the turn, hand it over, open the pick or end the match.\<close>

definition advancePick :: "State \<Rightarrow> Time \<Rightarrow> State \<times> Event list" where
  "advancePick s0 now =
     (let s1 = s0\<lparr>Turn := Turn s0 + 1\<rparr>;
          s2 = s1\<lparr>ActiveTeam := pickTeam (FirstPick s1) (Turn s1)\<rparr>;
          (s3, events) = enterPickOrTerminal s2 now
      in (s3, [(event EventTurnAdvanced)\<lparr>evTeam := ActiveTeam s2\<rparr>] @ events))"

section \<open>Start and bans\<close>

definition startMatch :: "State \<Rightarrow> Actor \<Rightarrow> Time \<Rightarrow> Step" where
  "startMatch s actor now =
     (if actorCapability actor \<noteq> CapabilityReferee \<and> \<not> actorAdminOverride actor
      then Inl CodeActionNotAllowed
      else if Lifecycle s \<noteq> LifecycleReady then Inl CodeMatchLifecycleConflict
      else Inr
        (s\<lparr>Lifecycle := LifecycleRunning, Phase := PhaseBan, Turn := firstBanTurn,
           ActiveTeam := FirstBan s, Timer := newTimer now (tcBan (Timers s))\<rparr>,
         [event EventMatchStarted, (event EventBanPhaseStarted)\<lparr>evTeam := FirstBan s\<rparr>,
          event EventTimerStarted]))"

definition banPoolSlot :: "State \<Rightarrow> Actor \<Rightarrow> string \<Rightarrow> Time \<Rightarrow> Step" where
  "banPoolSlot s actor poolSlotID now =
     guardE (requireRunningPhase s PhaseBan)
     (guardE (requireActiveStrategist s actor)
     (guardE (requireStrategistTimer (Timer s) now)
     (case mapGet (PoolSlots s) poolSlotID of
        None \<Rightarrow> Inl CodeInvalidPoolSlot
      | Some slot \<Rightarrow>
          if slotState slot \<noteq> PoolSlotAvailable \<or> slotMod slot = ModShiro \<or> slotMod slot = ModTB
          then Inl CodePoolSlotUnavailable
          else
            let s1 = s\<lparr>PoolSlots :=
                        mapPut (slotID slot) (slot\<lparr>slotState := PoolSlotBanned\<rparr>) (PoolSlots s)\<rparr>;
                (s2, events) = advanceBan s1 now
            in Inr (s2, [(event EventPoolSlotBanned)\<lparr>evTeam := ActiveTeam s,
                           evPoolSlotID := slotID slot\<rparr>] @ events))))"

section \<open>Placements\<close>

definition placePiece :: "State \<Rightarrow> Actor \<Rightarrow> string \<Rightarrow> string \<Rightarrow> Cell \<Rightarrow> Time \<Rightarrow> Step" where
  "placePiece s actor poolSlotID newPieceID cell now =
     guardE (requireRunningPhase s PhasePick)
     (guardE (requireActiveStrategist s actor)
     (guardE (requireStrategistTimer (Timer s) now)
     (if newPieceID = '''' \<or> containsPieceID (Board s) newPieceID then Inl CodeInvalidRequest
      else case mapGet (PoolSlots s) poolSlotID of
        None \<Rightarrow> Inl CodeInvalidPoolSlot
      | Some slot \<Rightarrow>
          if slotState slot \<noteq> PoolSlotAvailable \<or> slotMod slot = ModShiro \<or> slotMod slot = ModTB
          then Inl CodePoolSlotUnavailable
          else case ZoneAt cell of
            None \<Rightarrow> Inl CodeInvalidBoardCell
          | Some zone \<Rightarrow>
              if \<not> boardEmpty (Board s) cell then Inl CodeInvalidBoardCell
              else case placementForceMod (slotMod slot) zone of
                Inl e \<Rightarrow> Inl e
              | Inr forceMod \<Rightarrow> Inr
                 (s\<lparr>Board := boardPlace (Board s) cell
                      \<lparr>pieceID = newPieceID, pieceSourcePoolSlotID = slotID slot,
                       pieceMod = slotMod slot, pieceForceMod = forceMod,
                       pieceSelectedBy = ActiveTeam s, pieceOwner = None,
                       pieceOutcome = OutcomeWaitingResult\<rparr>,
                    PoolSlots :=
                      mapPut (slotID slot) (slot\<lparr>slotState := PoolSlotSelected\<rparr>) (PoolSlots s),
                    Phase := PhaseWaitingForResult, PendingPieceID := newPieceID,
                    Timer := newTimer now (tcResultConfirmation (Timers s))\<rparr>,
                  [(event EventPiecePlaced)\<lparr>evTeam := ActiveTeam s, evPoolSlotID := slotID slot,
                     evBoardPieceID := newPieceID, evCell := cell\<rparr>,
                   (event EventResultConfirmationRequested)\<lparr>evBoardPieceID := newPieceID\<rparr>,
                   event EventTimerStarted]))))"

text \<open>The loop that stops at the first Shiro slot of the pool.\<close>

definition findShiro :: "(string, PoolSlot) gomap \<Rightarrow> PoolSlot option" where
  "findShiro pool = map_option snd (firstEntry (\<lambda>(sid, slot). slotMod slot = ModShiro) pool)"

definition placeShiro :: "State \<Rightarrow> Actor \<Rightarrow> string \<Rightarrow> Cell \<Rightarrow> Time \<Rightarrow> Step" where
  "placeShiro s actor newPieceID cell now =
     guardE (requireRunningPhase s PhasePick)
     (guardE (requireActiveStrategist s actor)
     (guardE (requireStrategistTimer (Timer s) now)
     (if newPieceID = '''' \<or> containsPieceID (Board s) newPieceID then Inl CodeInvalidRequest
      else if \<not> boardEmpty (Board s) cell then Inl CodeInvalidBoardCell
      else case findShiro (PoolSlots s) of
        None \<Rightarrow> Inl CodePoolSlotUnavailable
      | Some shiro \<Rightarrow>
          if slotState shiro \<noteq> PoolSlotAvailable then Inl CodePoolSlotUnavailable
          else
            let s1 = s\<lparr>Board := boardPlace (Board s) cell
                         \<lparr>pieceID = newPieceID, pieceSourcePoolSlotID = slotID shiro,
                          pieceMod = ModShiro, pieceForceMod = None,
                          pieceSelectedBy = ActiveTeam s, pieceOwner = None,
                          pieceOutcome = OutcomeWhite\<rparr>,
                       PoolSlots :=
                         mapPut (slotID shiro) (shiro\<lparr>slotState := PoolSlotSelected\<rparr>) (PoolSlots s)\<rparr>;
                (s2, events) = advancePick s1 now
            in Inr (s2, [(event EventShiroPlaced)\<lparr>evTeam := ActiveTeam s,
                           evPoolSlotID := slotID shiro, evBoardPieceID := newPieceID,
                           evCell := cell\<rparr>] @ events))))"

section \<open>Robbery\<close>

definition robPiece :: "State \<Rightarrow> Actor \<Rightarrow> string \<Rightarrow> string list list \<Rightarrow> Time \<Rightarrow> Step" where
  "robPiece s actor targetPieceID sacrificeSets now =
     guardE (requireRunningPhase s PhasePick)
     (guardE (requireActiveStrategist s actor)
     (guardE (requireStrategistTimer (Timer s) now)
     (let team = ActiveTeam s
      in case pieceByID (Board s) targetPieceID of
        None \<Rightarrow> Inl CodeRobberyRequirementsNotMet
      | Some (_, target) \<Rightarrow>
          if \<not> targetIsShiro target \<and> \<not> targetIsOpponent team target
          then Inl CodeRobberyRequirementsNotMet
          else case flattenSacrificeSets sacrificeSets of
            None \<Rightarrow> Inl CodeAlignmentOverlap
          | Some sacrificeIDs \<Rightarrow>
              if (if targetIsShiro target
                  then length sacrificeSets \<noteq> 1 \<or> length (hd sacrificeSets) \<noteq> 2 \<or>
                       \<not> isAlignment (Board s) team (hd sacrificeSets) 2
                  else \<not> validNormalRobberySacrifice (Board s) team sacrificeSets)
              then Inl CodeRobberyRequirementsNotMet
              else case boardAfterRobbery (Board s) team (pieceID target) sacrificeIDs
                          (if targetIsShiro target then 2 else 3) of
                None \<Rightarrow> Inl CodeRobberyRequirementsNotMet
              | Some nextBoard \<Rightarrow>
                  let s1 = s\<lparr>Board := nextBoard,
                             RobberyUsed := mapPut team True (RobberyUsed s)\<rparr>;
                      events = [(event EventPiecesSacrificed)\<lparr>evTeam := team,
                                   evBoardPieceIDs := sacrificeIDs\<rparr>,
                                (event EventPieceRobbed)\<lparr>evTeam := team,
                                   evBoardPieceID := pieceID target\<rparr>]
                  in if hasFour (Board s1) team then
                       Inr (finishMatch s1 team (plainResult team ResultReasonFourAlignment),
                            events @ [(event EventMatchFinished)\<lparr>evTeam := team\<rparr>])
                     else if shouldForceTB s1 then
                       (let (s2, forced) = startForcedTBPreparation s1 now
                        in Inr (s2, events @ forced))
                     else Inr (s1, events))))"

section \<open>Timers\<close>

definition grantAdditionalTime :: "State \<Rightarrow> Actor \<Rightarrow> string \<Rightarrow> Time \<Rightarrow> Step" where
  "grantAdditionalTime s actor reason now =
     (if Lifecycle s \<noteq> LifecycleRunning then Inl CodeMatchLifecycleConflict
      else if actorCapability actor \<noteq> CapabilityReferee then Inl CodeActionNotAllowed
      else if missingReason reason then Inl CodeInvalidRequest
      else if Phase s \<noteq> PhaseBan \<and> Phase s \<noteq> PhasePick \<and> Phase s \<noteq> PhaseWaitingForResult
      then Inl CodeActionNotAllowed
      else if \<not> teamValid (ActiveTeam s) then Inl CodeActionNotAllowed
      else if \<not> timerExpired (Timer s) now then Inl CodeActionNotAllowed
      else if flagOf (TeamPauseUsed s) (ActiveTeam s) then Inl CodeTeamPauseAlreadyUsed
      else
        let duration = (if Phase s = PhaseBan then tcBanAdditional (Timers s)
                        else if Phase s = PhaseWaitingForResult
                        then tcResultConfirmationAdditional (Timers s)
                        else tcPickAdditional (Timers s))
        in Inr (s\<lparr>TeamPauseUsed := mapPut (ActiveTeam s) True (TeamPauseUsed s),
                  Timer := newTimer now duration\<rparr>,
                [(event EventAdditionalTimeGranted)\<lparr>evTeam := ActiveTeam s,
                    evDuration := duration, evReason := reason\<rparr>,
                 event EventTimerStarted]))"

definition calibrateTimer :: "State \<Rightarrow> Actor \<Rightarrow> Duration \<Rightarrow> string \<Rightarrow> Time \<Rightarrow> Step" where
  "calibrateTimer s actor remaining reason now =
     (if Lifecycle s \<noteq> LifecycleRunning \<or> Phase s = PhaseNone then Inl CodeMatchLifecycleConflict
      else if actorCapability actor \<noteq> CapabilityReferee then Inl CodeActionNotAllowed
      else if missingReason reason \<or> remaining < 0 then Inl CodeInvalidRequest
      else if timerDuration (Timer s) \<le> 0 \<and> \<not> timerPaused (Timer s) then Inl CodeActionNotAllowed
      else Inr
        (s\<lparr>Timer := (if timerPaused (Timer s) then (Timer s)\<lparr>timerRemainingAtPause := remaining\<rparr>
                     else newTimer now remaining)\<rparr>,
         [(event EventTimerCalibrated)\<lparr>evDuration := remaining, evReason := reason\<rparr>]))"

definition pauseTimer :: "State \<Rightarrow> Actor \<Rightarrow> string \<Rightarrow> Time \<Rightarrow> Step" where
  "pauseTimer s actor reason now =
     (if Lifecycle s \<noteq> LifecycleRunning \<or> Phase s = PhaseNone then Inl CodeMatchLifecycleConflict
      else if actorCapability actor \<noteq> CapabilityReferee then Inl CodeActionNotAllowed
      else if missingReason reason then Inl CodeInvalidRequest
      else if timerDuration (Timer s) \<le> 0 \<and> \<not> timerPaused (Timer s) then Inl CodeActionNotAllowed
      else if timerPaused (Timer s) then Inl CodeActionNotAllowed
      else Inr (s\<lparr>Timer := timerPause (Timer s) now\<rparr>,
                [(event EventTimerPaused)\<lparr>evReason := reason\<rparr>]))"

definition resumeTimer :: "State \<Rightarrow> Actor \<Rightarrow> string \<Rightarrow> Time \<Rightarrow> Step" where
  "resumeTimer s actor reason now =
     (if Lifecycle s \<noteq> LifecycleRunning \<or> Phase s = PhaseNone then Inl CodeMatchLifecycleConflict
      else if actorCapability actor \<noteq> CapabilityReferee then Inl CodeActionNotAllowed
      else if missingReason reason then Inl CodeInvalidRequest
      else if \<not> timerPaused (Timer s) then Inl CodeActionNotAllowed
      else Inr (s\<lparr>Timer := timerResume (Timer s) now\<rparr>,
                [(event EventTimerResumed)\<lparr>evReason := reason\<rparr>]))"

section \<open>Suspension, skip and abort\<close>

definition suspendMatch :: "State \<Rightarrow> Actor \<Rightarrow> string \<Rightarrow> Time \<Rightarrow> Step" where
  "suspendMatch s actor reason now =
     (if Lifecycle s \<noteq> LifecycleRunning then Inl CodeMatchLifecycleConflict
      else if actorCapability actor \<noteq> CapabilityReferee then Inl CodeActionNotAllowed
      else if missingReason reason then Inl CodeInvalidRequest
      else
        let hadTimer = (timerDuration (Timer s) > 0 \<or> timerPaused (Timer s));
            wasPaused = timerPaused (Timer s);
            s1 = s\<lparr>Suspension := Some \<lparr>suspReason = reason, suspSuspendedAt = now,
                      suspHadTimer = hadTimer, suspTimerWasPaused = wasPaused\<rparr>,
                   Lifecycle := LifecycleSuspended\<rparr>;
            events = [(event EventMatchSuspended)\<lparr>evReason := reason\<rparr>]
        in if hadTimer \<and> \<not> wasPaused then
             Inr (s1\<lparr>Timer := timerPause (Timer s1) now\<rparr>,
                  events @ [(event EventTimerPaused)\<lparr>evReason := reason\<rparr>])
           else Inr (s1, events))"

definition resumeMatch :: "State \<Rightarrow> Actor \<Rightarrow> string \<Rightarrow> Time \<Rightarrow> Step" where
  "resumeMatch s actor reason now =
     (if Lifecycle s \<noteq> LifecycleSuspended then Inl CodeMatchLifecycleConflict
      else case Suspension s of
        None \<Rightarrow> Inl CodeMatchLifecycleConflict
      | Some suspension \<Rightarrow>
          if actorCapability actor \<noteq> CapabilityReferee then Inl CodeActionNotAllowed
          else if missingReason reason then Inl CodeInvalidRequest
          else
            let s1 = s\<lparr>Suspension := None, Lifecycle := LifecycleRunning\<rparr>;
                events = [(event EventMatchResumed)\<lparr>evReason := reason\<rparr>]
            in if suspHadTimer suspension \<and> \<not> suspTimerWasPaused suspension then
                 Inr (s1\<lparr>Timer := timerResume (Timer s1) now\<rparr>,
                      events @ [(event EventTimerResumed)\<lparr>evReason := reason\<rparr>])
               else Inr (s1, events))"

definition skipCurrentAction :: "State \<Rightarrow> Actor \<Rightarrow> string \<Rightarrow> Time \<Rightarrow> Step" where
  "skipCurrentAction s actor reason now =
     (if actorCapability actor \<noteq> CapabilityReferee then Inl CodeActionNotAllowed
      else if missingReason reason then Inl CodeInvalidRequest
      else if Lifecycle s \<noteq> LifecycleRunning \<and> Lifecycle s \<noteq> LifecycleSuspended
      then Inl CodeMatchLifecycleConflict
      else if Phase s = PhaseWaitingForResult then Inl CodeResultNotPending
      else if Phase s \<noteq> PhaseBan \<and> Phase s \<noteq> PhasePick then Inl CodeActionNotAllowed
      else
        let wasSuspended = (Lifecycle s = LifecycleSuspended)
        in if \<not> wasSuspended \<and> \<not> timerExpired (Timer s) now then Inl CodeActionNotAllowed
           else
             let s1 = s\<lparr>Lifecycle := LifecycleRunning, Suspension := None\<rparr>;
                 skipped = (event EventActionSkipped)\<lparr>evTeam := ActiveTeam s, evReason := reason\<rparr>;
                 (s2, events) = (if Phase s1 = PhaseBan then advanceBan s1 now
                                 else advancePick s1 now)
             in if wasSuspended \<and> Lifecycle s2 = LifecycleRunning then
                  Inr (s2\<lparr>Lifecycle := LifecycleSuspended, Timer := timerPause (Timer s2) now,
                          Suspension := Some \<lparr>suspReason = reason, suspSuspendedAt = now,
                             suspHadTimer = True, suspTimerWasPaused = False\<rparr>\<rparr>,
                       [skipped] @ events @ [(event EventTimerPaused)\<lparr>evReason := reason\<rparr>])
                else Inr (s2, [skipped] @ events))"

definition abortMatch :: "State \<Rightarrow> Actor \<Rightarrow> string \<Rightarrow> Step" where
  "abortMatch s actor reason =
     (if Lifecycle s \<noteq> LifecycleRunning \<and> Lifecycle s \<noteq> LifecycleSuspended
      then Inl CodeMatchLifecycleConflict
      else if actorCapability actor \<noteq> CapabilityReferee then Inl CodeActionNotAllowed
      else if missingReason reason then Inl CodeInvalidRequest
      else Inr
        (s\<lparr>Lifecycle := LifecycleAborted, Phase := PhaseNone, ActiveTeam := TeamNone,
           PendingPieceID := '''', PendingTBRequest := None, Suspension := None,
           Timer := zeroTimer, AbortReason := reason\<rparr>,
         [(event EventMatchAborted)\<lparr>evReason := reason\<rparr>]))"

section \<open>Tiebreaker\<close>

text \<open>The guard on a captain, and the team it yields.\<close>

definition captainTeam :: "Actor \<Rightarrow> TeamSide option" where
  "captainTeam actor =
     (if actorCapability actor \<noteq> CapabilityCaptain then None
      else case actorTeam actor of
        None \<Rightarrow> None
      | Some team \<Rightarrow> if teamValid team then Some team else None)"

definition requestTB :: "State \<Rightarrow> Actor \<Rightarrow> string \<Rightarrow> TBBasis \<Rightarrow> Time \<Rightarrow> Step" where
  "requestTB s actor requestID basis now =
     guardE (requireRunningPhase s PhasePick)
     (case captainTeam actor of
        None \<Rightarrow> Inl CodeActionNotAllowed
      | Some team \<Rightarrow>
          if timerPaused (Timer s) then Inl CodeTimerPaused
          else if requestID = '''' then Inl CodeInvalidRequest
          else if PendingTBRequest s \<noteq> None then Inl CodeTBNotAvailable
          else if \<not> (basis = TBBasisCaptainAgreement \<and> Turn s \<ge> 11 \<and> Turn s \<le> 14)
          then Inl CodeTBNotAvailable
          else Inr
            (s\<lparr>PendingTBRequest := Some \<lparr>tbReqID = requestID, tbReqRequestedBy = team,
                                        tbReqBasis = basis\<rparr>\<rparr>,
             [(event EventTBRequested)\<lparr>evTeam := team, evRequestID := requestID,
                 evBasis := basis\<rparr>]))"

definition respondTBRequest :: "State \<Rightarrow> Actor \<Rightarrow> string \<Rightarrow> bool \<Rightarrow> Time \<Rightarrow> Step" where
  "respondTBRequest s actor requestID accept now =
     guardE (requireRunningPhase s PhasePick)
     (case captainTeam actor of
        None \<Rightarrow> Inl CodeActionNotAllowed
      | Some team \<Rightarrow>
          if timerPaused (Timer s) then Inl CodeTimerPaused
          else if Turn s < 11 \<or> Turn s > 14 then Inl CodeTBNotAvailable
          else case PendingTBRequest s of
            None \<Rightarrow> Inl CodeTBNotAvailable
          | Some pending \<Rightarrow>
              if requestID = '''' \<or> requestID \<noteq> tbReqID pending then Inl CodeTBNotAvailable
              else if team = tbReqRequestedBy pending then Inl CodeActionNotAllowed
              else
                let s1 = s\<lparr>PendingTBRequest := None\<rparr>
                in if \<not> accept then
                     Inr (s1, [(event EventTBRequestRejected)\<lparr>evTeam := team,
                                  evRequestID := tbReqID pending, evBasis := tbReqBasis pending\<rparr>])
                   else Inr
                     (s1\<lparr>Phase := PhaseTBPreparation, ActiveTeam := TeamNone,
                         TBEntry := Some \<lparr>tbEntryBasis = tbReqBasis pending,
                                          tbEntryRequestID = tbReqID pending,
                                          tbEntryRequestedBy = tbReqRequestedBy pending\<rparr>,
                         Timer := newTimer now (tcTBPreparation (Timers s1))\<rparr>,
                      [(event EventTBRequestAccepted)\<lparr>evTeam := team,
                          evRequestID := tbReqID pending, evBasis := tbReqBasis pending\<rparr>,
                       (event EventTBPreparationStarted)\<lparr>evRequestID := tbReqID pending,
                          evBasis := tbReqBasis pending\<rparr>,
                       event EventTimerStarted]))"

definition startTB :: "State \<Rightarrow> Actor \<Rightarrow> string \<Rightarrow> Time \<Rightarrow> Step" where
  "startTB s actor reason now =
     guardE (requireRunningPhase s PhaseTBPreparation)
     (if actorCapability actor \<noteq> CapabilityReferee then Inl CodeActionNotAllowed
      else if timerPaused (Timer s) then Inl CodeTimerPaused
      else if timerExpired (Timer s) now \<and> missingReason reason then Inl CodeInvalidRequest
      else Inr
        (s\<lparr>Phase := PhaseTBPlaying, Timer := zeroTimer\<rparr>,
         [(event EventTBStarted)\<lparr>evReason := reason\<rparr>, event EventTimerStopped]))"

definition confirmTBResult :: "State \<Rightarrow> Actor \<Rightarrow> TeamSide \<Rightarrow> Step" where
  "confirmTBResult s actor winningTeam =
     guardE (requireRunningPhase s PhaseTBPlaying)
     (if actorCapability actor \<noteq> CapabilityReferee then Inl CodeActionNotAllowed
      else if \<not> teamValid winningTeam then Inl CodeInvalidRequest
      else Inr
        (finishMatch s winningTeam (plainResult winningTeam ResultReasonTB),
         [(event EventTBResultConfirmed)\<lparr>evTeam := winningTeam\<rparr>,
          (event EventMatchFinished)\<lparr>evTeam := winningTeam\<rparr>]))"

section \<open>Surrender\<close>

text \<open>
  The loop over the submitted ids: \<open>None\<close> when an id is not rostered; otherwise the ids in
  order of first occurrence, with the flag that records the leader.
\<close>

fun collectEvidence :: "int \<Rightarrow> int list \<Rightarrow> int list \<Rightarrow> bool \<Rightarrow> int list \<Rightarrow> (int list \<times> bool) option" where
  "collectEvidence leader rostered unique leaderIncluded [] = Some (unique, leaderIncluded)"
| "collectEvidence leader rostered unique leaderIncluded (p # ps) =
     (if p \<notin> set rostered then None
      else if p \<in> set unique then collectEvidence leader rostered unique leaderIncluded ps
      else collectEvidence leader rostered (unique @ [p]) (leaderIncluded \<or> p = leader) ps)"

definition validateSurrenderEvidence :: "Roster \<Rightarrow> int list \<Rightarrow> int list \<times> bool" where
  "validateSurrenderEvidence roster submitted =
     (case collectEvidence (rosterLeaderID roster) (rosterLeaderID roster # rosterPlayerIDs roster)
             [] False submitted of
        None \<Rightarrow> ([], False)
      | Some (unique, leaderIncluded) \<Rightarrow> (unique, length unique \<ge> 4 \<and> leaderIncluded))"

definition recordSurrender :: "State \<Rightarrow> Actor \<Rightarrow> TeamSide \<Rightarrow> int list \<Rightarrow> string \<Rightarrow> Step" where
  "recordSurrender s actor surrenderingTeam confirming reason =
     (if Lifecycle s \<noteq> LifecycleRunning \<and> Lifecycle s \<noteq> LifecycleSuspended
      then Inl CodeMatchLifecycleConflict
      else if actorCapability actor \<noteq> CapabilityReferee then Inl CodeActionNotAllowed
      else if \<not> teamValid surrenderingTeam \<or> missingReason reason then Inl CodeInvalidRequest
      else
        let (evidence, ok) =
              validateSurrenderEvidence (rosterOf (Rosters s) surrenderingTeam) confirming;
            winner = opponent surrenderingTeam
        in if \<not> ok then Inl CodeSurrenderEvidenceInvalid
           else Inr
             (finishMatch s winner
                ((plainResult winner ResultReasonSurrender)
                   \<lparr>resSurrenderingTeam := Some surrenderingTeam,
                    resConfirmingPlayerIDs := evidence\<rparr>),
              [(event EventSurrenderRecorded)\<lparr>evTeam := surrenderingTeam,
                  evPlayerIDs := evidence, evReason := reason\<rparr>,
               (event EventMatchFinished)\<lparr>evTeam := winner\<rparr>]))"

section \<open>Results\<close>

definition confirmBeatmapResult :: "State \<Rightarrow> Actor \<Rightarrow> string \<Rightarrow> TeamSide \<Rightarrow> Time \<Rightarrow> Step" where
  "confirmBeatmapResult s actor boardPieceID winningTeam now =
     guardE (requireRunningPhase s PhaseWaitingForResult)
     (if actorCapability actor \<noteq> CapabilityReferee then Inl CodeActionNotAllowed
      else if boardPieceID = '''' \<or> boardPieceID \<noteq> PendingPieceID s then Inl CodeResultNotPending
      else if \<not> teamValid winningTeam then Inl CodeInvalidRequest
      else case setOwner (Board s) boardPieceID winningTeam of
        None \<Rightarrow> Inl CodeResultNotPending
      | Some board \<Rightarrow>
          let s1 = s\<lparr>Board := board, PendingPieceID := ''''\<rparr>;
              events = [(event EventBeatmapResultConfirmed)\<lparr>evTeam := winningTeam,
                           evBoardPieceID := boardPieceID\<rparr>,
                        (event EventPieceWon)\<lparr>evTeam := winningTeam,
                           evBoardPieceID := boardPieceID\<rparr>]
          in if hasFour (Board s1) winningTeam then
               Inr (finishMatch s1 winningTeam (plainResult winningTeam ResultReasonFourAlignment),
                    events @ [(event EventMatchFinished)\<lparr>evTeam := winningTeam\<rparr>])
             else
               (let (s2, advanced) = advancePick s1 now in Inr (s2, events @ advanced)))"

section \<open>Actions the referee takes for a team\<close>

text \<open>
  An expired, unpaused timer makes the proxied action run at the instant the timer started, so
  that it is not rejected as late.
\<close>

definition refereeProxyContext ::
  "State \<Rightarrow> Actor \<Rightarrow> TeamSide \<Rightarrow> string \<Rightarrow> Time \<Rightarrow> ErrorCode + Actor \<times> Time" where
  "refereeProxyContext s actor actingTeam reason now =
     (if actorCapability actor \<noteq> CapabilityReferee then Inl CodeActionNotAllowed
      else if \<not> teamValid actingTeam \<or> missingReason reason then Inl CodeInvalidRequest
      else Inr (StrategistActor actingTeam,
                if \<not> timerPaused (Timer s) \<and> timerExpired (Timer s) now
                then timerStartedAt (Timer s) else now))"

definition refereeProxyCaptainContext ::
  "Actor \<Rightarrow> TeamSide \<Rightarrow> string \<Rightarrow> ErrorCode + Actor" where
  "refereeProxyCaptainContext actor actingTeam reason =
     (if actorCapability actor \<noteq> CapabilityReferee then Inl CodeActionNotAllowed
      else if \<not> teamValid actingTeam \<or> missingReason reason then Inl CodeInvalidRequest
      else Inr (CaptainActor actingTeam))"

definition appendRefereeProxyEvent :: "Step \<Rightarrow> TeamSide \<Rightarrow> string \<Rightarrow> Step" where
  "appendRefereeProxyEvent r team reason =
     (case r of
        Inl e \<Rightarrow> Inl e
      | Inr (s, events) \<Rightarrow>
          Inr (s, events @ [(event EventRefereeProxyActionRecorded)\<lparr>evTeam := team,
                              evReason := reason\<rparr>]))"

definition refereeBanPoolSlot ::
  "State \<Rightarrow> Actor \<Rightarrow> TeamSide \<Rightarrow> string \<Rightarrow> string \<Rightarrow> Time \<Rightarrow> Step" where
  "refereeBanPoolSlot s actor actingTeam poolSlotID reason now =
     (case refereeProxyContext s actor actingTeam reason now of
        Inl e \<Rightarrow> Inl e
      | Inr (proxyActor, effectiveNow) \<Rightarrow>
          appendRefereeProxyEvent (banPoolSlot s proxyActor poolSlotID effectiveNow)
            actingTeam reason)"

definition refereePlacePiece ::
  "State \<Rightarrow> Actor \<Rightarrow> TeamSide \<Rightarrow> string \<Rightarrow> string \<Rightarrow> Cell \<Rightarrow> string \<Rightarrow> Time \<Rightarrow> Step" where
  "refereePlacePiece s actor actingTeam poolSlotID newPieceID cell reason now =
     (case refereeProxyContext s actor actingTeam reason now of
        Inl e \<Rightarrow> Inl e
      | Inr (proxyActor, effectiveNow) \<Rightarrow>
          appendRefereeProxyEvent
            (placePiece s proxyActor poolSlotID newPieceID cell effectiveNow) actingTeam reason)"

definition refereePlaceShiro ::
  "State \<Rightarrow> Actor \<Rightarrow> TeamSide \<Rightarrow> string \<Rightarrow> Cell \<Rightarrow> string \<Rightarrow> Time \<Rightarrow> Step" where
  "refereePlaceShiro s actor actingTeam newPieceID cell reason now =
     (case refereeProxyContext s actor actingTeam reason now of
        Inl e \<Rightarrow> Inl e
      | Inr (proxyActor, effectiveNow) \<Rightarrow>
          appendRefereeProxyEvent (placeShiro s proxyActor newPieceID cell effectiveNow)
            actingTeam reason)"

definition refereeRobPiece ::
  "State \<Rightarrow> Actor \<Rightarrow> TeamSide \<Rightarrow> string \<Rightarrow> string list list \<Rightarrow> string \<Rightarrow> Time \<Rightarrow> Step" where
  "refereeRobPiece s actor actingTeam targetPieceID sacrificeSets reason now =
     (case refereeProxyContext s actor actingTeam reason now of
        Inl e \<Rightarrow> Inl e
      | Inr (proxyActor, effectiveNow) \<Rightarrow>
          appendRefereeProxyEvent
            (robPiece s proxyActor targetPieceID sacrificeSets effectiveNow) actingTeam reason)"

definition refereeRequestTB ::
  "State \<Rightarrow> Actor \<Rightarrow> TeamSide \<Rightarrow> string \<Rightarrow> TBBasis \<Rightarrow> string \<Rightarrow> Time \<Rightarrow> Step" where
  "refereeRequestTB s actor actingTeam requestID basis reason now =
     (case refereeProxyCaptainContext actor actingTeam reason of
        Inl e \<Rightarrow> Inl e
      | Inr proxyActor \<Rightarrow>
          appendRefereeProxyEvent (requestTB s proxyActor requestID basis now) actingTeam reason)"

definition refereeRespondTBRequest ::
  "State \<Rightarrow> Actor \<Rightarrow> TeamSide \<Rightarrow> string \<Rightarrow> bool \<Rightarrow> string \<Rightarrow> Time \<Rightarrow> Step" where
  "refereeRespondTBRequest s actor actingTeam requestID accept reason now =
     (case refereeProxyCaptainContext actor actingTeam reason of
        Inl e \<Rightarrow> Inl e
      | Inr proxyActor \<Rightarrow>
          appendRefereeProxyEvent (respondTBRequest s proxyActor requestID accept now)
            actingTeam reason)"

section \<open>Execute\<close>

definition dispatch :: "State \<Rightarrow> Actor \<Rightarrow> Command \<Rightarrow> Time \<Rightarrow> Step" where
  "dispatch s actor command now =
     (case command of
        StartMatch \<Rightarrow> startMatch s actor now
      | BanPoolSlot slot \<Rightarrow> banPoolSlot s actor slot now
      | RefereeBanPoolSlot team slot reason \<Rightarrow> refereeBanPoolSlot s actor team slot reason now
      | PlacePiece slot pid cell \<Rightarrow> placePiece s actor slot pid cell now
      | RefereePlacePiece team slot pid cell reason \<Rightarrow>
          refereePlacePiece s actor team slot pid cell reason now
      | PlaceShiro pid cell \<Rightarrow> placeShiro s actor pid cell now
      | RefereePlaceShiro team pid cell reason \<Rightarrow>
          refereePlaceShiro s actor team pid cell reason now
      | RobPiece target sets \<Rightarrow> robPiece s actor target sets now
      | RefereeRobPiece team target sets reason \<Rightarrow>
          refereeRobPiece s actor team target sets reason now
      | GrantAdditionalTime reason \<Rightarrow> grantAdditionalTime s actor reason now
      | CalibrateTimer remaining reason \<Rightarrow> calibrateTimer s actor remaining reason now
      | PauseTimer reason \<Rightarrow> pauseTimer s actor reason now
      | ResumeTimer reason \<Rightarrow> resumeTimer s actor reason now
      | SuspendMatch reason \<Rightarrow> suspendMatch s actor reason now
      | ResumeMatch reason \<Rightarrow> resumeMatch s actor reason now
      | SkipCurrentAction reason \<Rightarrow> skipCurrentAction s actor reason now
      | AbortMatch reason \<Rightarrow> abortMatch s actor reason
      | RequestTB rid basis \<Rightarrow> requestTB s actor rid basis now
      | RefereeRequestTB team rid basis reason \<Rightarrow>
          refereeRequestTB s actor team rid basis reason now
      | RespondTBRequest rid accept \<Rightarrow> respondTBRequest s actor rid accept now
      | RefereeRespondTBRequest team rid accept reason \<Rightarrow>
          refereeRespondTBRequest s actor team rid accept reason now
      | StartTB reason \<Rightarrow> startTB s actor reason now
      | ConfirmTBResult team \<Rightarrow> confirmTBResult s actor team
      | RecordSurrender team ids reason \<Rightarrow> recordSurrender s actor team ids reason
      | ConfirmBeatmapResult pid team \<Rightarrow> confirmBeatmapResult s actor pid team now
      | NilCommand \<Rightarrow> Inl CodeInvalidRequest)"

definition Execute :: "State \<Rightarrow> Actor \<Rightarrow> Command \<Rightarrow> Time \<Rightarrow> ErrorCode + Transition" where
  "Execute state actor command now =
     (case dispatch (stateClone state) actor command now of
        Inl e \<Rightarrow> Inl e
      | Inr (next, events) \<Rightarrow>
          if events = [] then Inl CodeInvalidRequest
          else Inr \<lparr>trState = next\<lparr>Version := Version next + 1\<rparr>, trEvents = events\<rparr>)"

end
