(* ===== verification/EngineValidation.thy ===== *)
theory EngineValidation
  imports Engine
begin

text \<open>
  Recovery validation (\<open>internal/matchengine/validation.go\<close>): the checks a state must pass
  before it may be stored or reloaded. A fault is the format string of the code's message; the
  checks run in the code's order, so the first one that fails names the fault.

  \<open>FaultNilDereference\<close> stands for the panic of a nil \<open>Result\<close> or \<open>Stalemate\<close>; a lemma shows
  that \<open>ValidateState\<close> never reaches it. The tests of a nil map (\<open>PoolSlots\<close>, the flag maps)
  have no counterpart: a nil map reads as an empty one and fails the next test.
  The second half characterises acceptance by \<open>validState\<close>, a conjunction of invariants.
\<close>

type_synonym Fault = string

definition FaultNilDereference :: Fault where
  "FaultNilDereference = ''panic: nil pointer dereference''"

section \<open>The checks\<close>

fun validLifecycle :: "Lifecycle \<Rightarrow> bool" where
  "validLifecycle (LifecycleOther _) = False"
| "validLifecycle _ = True"

fun validPhase :: "Phase \<Rightarrow> bool" where
  "validPhase (PhaseOther _) = False"
| "validPhase _ = True"

definition validateTimerShape :: "Timer \<Rightarrow> Fault option" where
  "validateTimerShape t =
     (if timerDuration t < 0 \<or> timerRemainingAtPause t < 0 then Some ''timer durations cannot be negative''
      else if timerDuration t = 0 then
        (if \<not> isZeroTime (timerStartedAt t) \<or> timerPaused t \<or> timerRemainingAtPause t \<noteq> 0
         then Some ''empty timer contains active data'' else None)
      else if isZeroTime (timerStartedAt t) then Some ''active timer is missing its server-time anchor''
      else if timerPaused t then
        (if timerRemainingAtPause t > timerDuration t then Some ''paused timer remaining duration exceeds its window'' else None)
      else if timerRemainingAtPause t \<noteq> 0 then Some ''running timer contains paused remaining duration''
      else None)"

text \<open>The turn and team checks of each phase, and whether the phase requires a timer.\<close>

definition requiresTimer :: "Phase \<Rightarrow> bool" where
  "requiresTimer phase \<longleftrightarrow>
     phase = PhaseBan \<or> phase = PhasePick \<or> phase = PhaseWaitingForResult \<or>
     phase = PhaseTBPreparation"

definition validateTurn :: "State \<Rightarrow> Fault option" where
  "validateTurn s =
     (case Phase s of
        PhaseNone \<Rightarrow>
          (case Lifecycle s of
             LifecycleReady \<Rightarrow> if Turn s \<noteq> readyTurn then Some ''READY state must start at turn zero'' else None
           | LifecycleAdjudicationRequired \<Rightarrow>
               if Turn s < firstPickTurn then Some ''ADJUDICATION_REQUIRED state has an invalid turn'' else None
           | LifecycleFinished \<Rightarrow> if Turn s < firstBanTurn then Some ''terminal state has an invalid turn'' else None
           | LifecycleAborted \<Rightarrow> if Turn s < firstBanTurn then Some ''terminal state has an invalid turn'' else None
           | _ \<Rightarrow> None)
      | PhaseBan \<Rightarrow>
          if Turn s < firstBanTurn \<or> Turn s > finalBanTurn then Some ''ban phase has invalid turn %d''
          else if ActiveTeam s \<noteq> (if Turn s = secondBanTurn \<or> Turn s = thirdBanTurn
                                  then opponent (FirstBan s) else FirstBan s)
          then Some ''ban phase active team does not match turn %d'' else None
      | PhasePick \<Rightarrow>
          if Turn s < firstPickTurn then Some ''phase %s has invalid turn %d''
          else if ActiveTeam s \<noteq> pickTeam (FirstPick s) (Turn s) then Some ''phase %s active team does not match turn %d'' else None
      | PhaseWaitingForResult \<Rightarrow>
          if Turn s < firstPickTurn then Some ''phase %s has invalid turn %d''
          else if ActiveTeam s \<noteq> pickTeam (FirstPick s) (Turn s) then Some ''phase %s active team does not match turn %d'' else None
      | PhaseTBPreparation \<Rightarrow>
          if Turn s < firstPickTurn then Some ''TB preparation has an invalid turn'' else None
      | PhaseTBPlaying \<Rightarrow> if Turn s < firstPickTurn then Some ''TB play has an invalid turn'' else None
      | PhaseOther _ \<Rightarrow> None)"

definition validateTurnAndTimer :: "State \<Rightarrow> Fault option" where
  "validateTurnAndTimer s =
     firstFault (validateTimerShape (Timer s))
     (firstFault (validateTurn s)
     (if requiresTimer (Phase s) \<and> timerDuration (Timer s) \<le> 0 then Some ''phase %s requires an active timer''
      else if \<not> requiresTimer (Phase s) \<and> timerDuration (Timer s) \<noteq> 0
      then Some ''phase %s cannot retain an active timer''
      else None))"

definition validateSideFlags :: "(TeamSide, bool) gomap \<Rightarrow> Fault option" where
  "validateSideFlags flags =
     (if mapGet flags TeamRed = None then Some ''%s RED flag is missing''
      else if mapGet flags TeamBlue = None then Some ''%s BLUE flag is missing''
      else if \<exists>(side, used)\<in>set flags. \<not> teamValid side then Some ''%s contains invalid team %q''
      else None)"

text \<open>The loop over the pool, counting the Shiro and TB slots.\<close>

fun checkPool :: "nat \<Rightarrow> nat \<Rightarrow> (string, PoolSlot) gomap \<Rightarrow> Fault + nat \<times> nat" where
  "checkPool shiro tb [] = Inr (shiro, tb)"
| "checkPool shiro tb ((sid, slot) # rest) =
     (if sid = '''' \<or> slotID slot \<noteq> sid \<or> \<not> modValid (slotMod slot) then Inl ''invalid pool slot %q''
      else if slotState slot \<noteq> PoolSlotAvailable \<and> slotState slot \<noteq> PoolSlotBanned \<and>
              slotState slot \<noteq> PoolSlotSelected then Inl ''pool slot %q has invalid state %q''
      else if slotMod slot = ModShiro \<and> slotState slot = PoolSlotBanned then Inl ''shiro pool slot %q cannot be banned''
      else if slotMod slot = ModTB \<and> slotState slot \<noteq> PoolSlotAvailable
      then Inl ''tiebreaker pool slot %q must remain available''
      else checkPool (if slotMod slot = ModShiro then Suc shiro else shiro)
                     (if slotMod slot = ModTB then Suc tb else tb) rest)"

definition checkForceMod :: "BoardPiece \<Rightarrow> Fault option" where
  "checkForceMod p =
     (if pieceMod p = ModFM then
        (case pieceForceMod p of
           None \<Rightarrow> Some ''FM board piece %q requires a valid force mod''
         | Some f \<Rightarrow> if f \<noteq> ForceModNM \<and> f \<noteq> ForceModHD \<and> f \<noteq> ForceModHR
                     then Some ''FM board piece %q requires a valid force mod'' else None)
      else if pieceForceMod p \<noteq> None then Some ''non-FM board piece %q cannot have a force mod''
      else None)"

definition ownerValid :: "BoardPiece \<Rightarrow> bool" where
  "ownerValid p \<longleftrightarrow> (case pieceOwner p of None \<Rightarrow> False | Some t \<Rightarrow> teamValid t)"

definition checkOutcome :: "string \<Rightarrow> BoardPiece \<Rightarrow> Fault option" where
  "checkOutcome waiting p =
     (case pieceOutcome p of
        OutcomeWaitingResult \<Rightarrow>
          if pieceOwner p \<noteq> None \<or> waiting \<noteq> '''' then Some ''invalid waiting-result board piece %q'' else None
      | OutcomeWon \<Rightarrow> if \<not> ownerValid p then Some ''board piece %q requires a valid owner'' else None
      | OutcomeDead \<Rightarrow> if \<not> ownerValid p then Some ''board piece %q requires a valid owner'' else None
      | OutcomeWhite \<Rightarrow>
          if pieceMod p \<noteq> ModShiro \<or> pieceOwner p \<noteq> None then Some ''board piece %q is not a valid unowned Shiro'' else None
      | OutcomeOther _ \<Rightarrow> Some ''board piece %q has invalid outcome %q'')"

text \<open>The loop over the board, threading the ids seen and the id of the waiting piece.\<close>

fun checkPieces ::
  "(string, PoolSlot) gomap \<Rightarrow> string list \<Rightarrow> string list \<Rightarrow> string \<Rightarrow> (Cell, BoardPiece) gomap
   \<Rightarrow> Fault + string list \<times> string" where
  "checkPieces pool seenIDs seenSlots waiting [] = Inr (seenSlots, waiting)"
| "checkPieces pool seenIDs seenSlots waiting ((cell, p) # rest) =
     (if cellPosition cell = None then Inl ''board contains invalid cell %q''
      else if pieceID p = '''' then Inl ''board cell %q has an empty piece id''
      else if pieceID p \<in> set seenIDs then Inl ''board piece id %q is duplicated''
      else if \<not> teamValid (pieceSelectedBy p) then Inl ''board piece %q has invalid selecting team''
      else case mapGet pool (pieceSourcePoolSlotID p) of
        None \<Rightarrow> Inl ''board piece %q does not match a selected pool slot''
      | Some slot \<Rightarrow>
          if slotState slot \<noteq> PoolSlotSelected \<or> slotMod slot \<noteq> pieceMod p then Inl ''board piece %q does not match a selected pool slot''
          else if pieceSourcePoolSlotID p \<in> set seenSlots then Inl ''pool slot %q produced multiple board pieces''
          else guardE (checkForceMod p)
              (guardE (checkOutcome waiting p)
              (checkPieces pool (pieceID p # seenIDs) (pieceSourcePoolSlotID p # seenSlots)
                 (if pieceOutcome p = OutcomeWaitingResult then pieceID p else waiting) rest)))"

definition validatePoolAndBoard :: "State \<Rightarrow> Fault option" where
  "validatePoolAndBoard s =
     (case checkPool 0 0 (PoolSlots s) of
        Inl f \<Rightarrow> Some f
      | Inr (shiro, tb) \<Rightarrow>
          if shiro \<noteq> 1 \<or> tb \<noteq> 1 then Some ''pool requires exactly one Shiro and one TB slot''
          else if boardNil (Board s) then Some ''board pieces are missing''
          else case checkPieces (PoolSlots s) [] [] '''' (boardPieces (Board s)) of
            Inl f \<Rightarrow> Some f
          | Inr (seenSlots, waiting) \<Rightarrow>
              if \<exists>(sid, slot)\<in>set (PoolSlots s).
                   (slotState slot = PoolSlotSelected) \<noteq> (sid \<in> set seenSlots)
              then Some ''selected state for pool slot %q does not match the board''
              else if Phase s = PhaseWaitingForResult then
                (if PendingPieceID s = '''' \<or> PendingPieceID s \<noteq> waiting
                 then Some ''waiting-result phase does not identify its pending piece'' else None)
              else if PendingPieceID s \<noteq> '''' \<or> waiting \<noteq> '''' then Some ''pending piece exists outside waiting-result phase''
              else None)"

definition validateActivePhase :: "State \<Rightarrow> Fault option" where
  "validateActivePhase s =
     (if Phase s = PhaseBan \<or> Phase s = PhasePick \<or> Phase s = PhaseWaitingForResult then
        (if \<not> teamValid (ActiveTeam s) then Some ''phase %s requires an active team'' else None)
      else if Phase s = PhaseTBPreparation \<or> Phase s = PhaseTBPlaying then
        (if ActiveTeam s \<noteq> TeamNone then Some ''phase %s cannot have an active team'' else None)
      else Some ''lifecycle cannot use phase %s'')"

definition validateSuspension :: "State \<Rightarrow> SuspensionState \<Rightarrow> Fault option" where
  "validateSuspension s susp =
     (if suspHadTimer susp \<and> \<not> timerPaused (Timer s) then Some ''SUSPENDED state lost its active timer''
      else if \<not> suspHadTimer susp \<and> (timerDuration (Timer s) > 0 \<or> timerPaused (Timer s))
      then Some ''SUSPENDED state fabricated a timer''
      else if \<not> suspHadTimer susp \<and> suspTimerWasPaused susp
      then Some ''SUSPENDED state fabricated prior pause evidence''
      else None)"

definition validateLifecycleState :: "State \<Rightarrow> Fault option" where
  "validateLifecycleState s =
     (if Lifecycle s \<noteq> LifecycleReady \<and> Version s = 0 then Some ''non-READY state must have a committed version''
      else case Lifecycle s of
        LifecycleReady \<Rightarrow>
          if Version s \<noteq> 0 \<or> Phase s \<noteq> PhaseNone \<or> ActiveTeam s \<noteq> TeamNone \<or>
             Suspension s \<noteq> None \<or> Winner s \<noteq> None \<or> MatchResult s \<noteq> None \<or>
             Stalemate s \<noteq> None \<or> AbortReason s \<noteq> '''' then Some ''READY state contains active or terminal data''
          else if boardPieces (Board s) \<noteq> [] then Some ''READY state contains placed pieces''
          else if \<exists>(sid, slot)\<in>set (PoolSlots s). slotState slot \<noteq> PoolSlotAvailable
          then Some ''READY state pool slot %q is not available''
          else if flagOf (RobberyUsed s) TeamRed \<or> flagOf (RobberyUsed s) TeamBlue \<or>
                  flagOf (TeamPauseUsed s) TeamRed \<or> flagOf (TeamPauseUsed s) TeamBlue
          then Some ''READY state contains used team entitlements''
          else None
      | LifecycleRunning \<Rightarrow>
          if Phase s = PhaseNone \<or> Suspension s \<noteq> None \<or> Winner s \<noteq> None \<or>
             MatchResult s \<noteq> None \<or> Stalemate s \<noteq> None \<or> AbortReason s \<noteq> ''''
          then Some ''RUNNING state has inconsistent lifecycle data''
          else validateActivePhase s
      | LifecycleSuspended \<Rightarrow>
          (case Suspension s of
             None \<Rightarrow> Some ''SUSPENDED state has inconsistent lifecycle data''
           | Some susp \<Rightarrow>
               if Phase s = PhaseNone \<or> Winner s \<noteq> None \<or> MatchResult s \<noteq> None \<or>
                  Stalemate s \<noteq> None \<or> AbortReason s \<noteq> '''' then Some ''SUSPENDED state has inconsistent lifecycle data''
               else firstFault (validateSuspension s susp) (validateActivePhase s))
      | LifecycleAdjudicationRequired \<Rightarrow>
          if Phase s \<noteq> PhaseNone \<or> ActiveTeam s \<noteq> TeamNone \<or> Stalemate s = None \<or>
             Winner s \<noteq> None \<or> MatchResult s \<noteq> None \<or> Suspension s \<noteq> None \<or>
             AbortReason s \<noteq> '''' then Some ''ADJUDICATION_REQUIRED state lacks stalemate evidence or contains terminal data''
          else None
      | LifecycleFinished \<Rightarrow>
          (case (Winner s, MatchResult s) of
             (Some winner, Some result) \<Rightarrow>
               if Phase s \<noteq> PhaseNone \<or> ActiveTeam s \<noteq> TeamNone \<or> \<not> teamValid winner \<or>
                  resWinner result \<noteq> winner \<or> Suspension s \<noteq> None \<or> Stalemate s \<noteq> None \<or>
                  AbortReason s \<noteq> '''' then Some ''FINISHED state has inconsistent result data''
               else None
           | _ \<Rightarrow> Some ''FINISHED state has inconsistent result data'')
      | LifecycleAborted \<Rightarrow>
          if Phase s \<noteq> PhaseNone \<or> ActiveTeam s \<noteq> TeamNone \<or> AbortReason s = '''' \<or>
             Winner s \<noteq> None \<or> MatchResult s \<noteq> None \<or> Suspension s \<noteq> None \<or>
             Stalemate s \<noteq> None then Some ''ABORTED state has inconsistent terminal data''
          else None
      | LifecycleOther _ \<Rightarrow> None)"

definition validateTBEntryEvidence :: "State \<Rightarrow> Fault option" where
  "validateTBEntryEvidence s =
     (let phaseRequiresEntry = (Phase s = PhaseTBPreparation \<or> Phase s = PhaseTBPlaying)
      in case TBEntry s of
        None \<Rightarrow>
          if (Lifecycle s = LifecycleRunning \<or> Lifecycle s = LifecycleSuspended) \<and>
             Phase s = PhasePick \<and> forcedTBRequirementsMet s then Some ''turn 15 state satisfying the robbery checks is missing forced TB evidence''
          else if phaseRequiresEntry then Some ''TB phase is missing entry evidence''
          else None
      | Some entry \<Rightarrow>
          if PendingTBRequest s \<noteq> None then Some ''accepted TB entry cannot retain a pending request''
          else if Lifecycle s = LifecycleReady \<or> Lifecycle s = LifecycleAdjudicationRequired \<or>
                  (Lifecycle s = LifecycleRunning \<and> \<not> phaseRequiresEntry) \<or>
                  (Lifecycle s = LifecycleSuspended \<and> \<not> phaseRequiresEntry)
          then Some ''TB entry evidence is inconsistent with match state''
          else (case tbEntryBasis entry of
              TBBasisCaptainAgreement \<Rightarrow>
                if tbEntryRequestID entry = '''' \<or> \<not> teamValid (tbEntryRequestedBy entry) \<or>
                   Turn s < 11 \<or> Turn s > 14 then Some ''captain-agreement TB evidence is incomplete'' else None
            | TBBasisForcedAfterRobberyChecks \<Rightarrow>
                if tbEntryRequestID entry \<noteq> '''' \<or> tbEntryRequestedBy entry \<noteq> TeamNone \<or>
                   \<not> forcedTBRequirementsMet s then Some ''forced TB evidence is inconsistent with robbery history'' else None
            | _ \<Rightarrow> Some ''TB entry has invalid basis %q''))"

text \<open>The evidence of a finished match, by the reason of its result.\<close>

definition validateResultEvidence :: "State \<Rightarrow> Result \<Rightarrow> Fault option" where
  "validateResultEvidence s result =
     (case resReason result of
        ResultReasonFourAlignment \<Rightarrow>
          if resSurrenderingTeam result \<noteq> None \<or> resConfirmingPlayerIDs result \<noteq> [] \<or>
             resRedWonCount result \<noteq> 0 \<or> resBlueWonCount result \<noteq> 0 then Some ''result reason %s contains incompatible evidence''
          else if TBEntry s \<noteq> None then Some ''four-alignment result cannot retain TB entry evidence''
          else if \<not> hasFour (Board s) (resWinner result) then Some ''four-alignment result is not supported by the board''
          else None
      | ResultReasonTB \<Rightarrow>
          if resSurrenderingTeam result \<noteq> None \<or> resConfirmingPlayerIDs result \<noteq> [] \<or>
             resRedWonCount result \<noteq> 0 \<or> resBlueWonCount result \<noteq> 0 then Some ''result reason %s contains incompatible evidence''
          else if TBEntry s = None then Some ''TB result is missing entry evidence''
          else None
      | ResultReasonSurrender \<Rightarrow>
          if resRedWonCount result \<noteq> 0 \<or> resBlueWonCount result \<noteq> 0
          then Some ''surrender result contains stalemate evidence''
          else (case resSurrenderingTeam result of
              None \<Rightarrow> Some ''surrender result has inconsistent teams''
            | Some team \<Rightarrow>
                if \<not> teamValid team \<or> opponent team \<noteq> resWinner result
                then Some ''surrender result has inconsistent teams''
                else if \<not> snd (validateSurrenderEvidence (rosterOf (Rosters s) team)
                                (resConfirmingPlayerIDs result))
                then Some ''surrender result has invalid confirmation evidence''
                else None)
      | ResultReasonStalemateWonCount \<Rightarrow>
          if resSurrenderingTeam result \<noteq> None \<or> resConfirmingPlayerIDs result \<noteq> []
          then Some ''stalemate result contains surrender evidence''
          else if TBEntry s \<noteq> None then Some ''stalemate result cannot retain TB entry evidence''
          else if resRedWonCount result < 0 \<or> resBlueWonCount result < 0 \<or>
                  resRedWonCount result = resBlueWonCount result then Some ''stalemate result requires unequal non-negative won counts''
          else if (resRedWonCount result > resBlueWonCount result) \<noteq> (resWinner result = TeamRed)
          then Some ''stalemate result winner does not match won counts''
          else if \<not> anStalemate (Analyze s) \<or>
                  countOf (anWonCounts (Analyze s)) TeamRed \<noteq> resRedWonCount result \<or>
                  countOf (anWonCounts (Analyze s)) TeamBlue \<noteq> resBlueWonCount result
          then Some ''stalemate result does not match board availability and won counts''
          else None
      | ResultReasonOther _ \<Rightarrow> Some ''invalid result reason %q'')"

definition validatePendingTB :: "State \<Rightarrow> Fault option" where
  "validatePendingTB s =
     (case PendingTBRequest s of
        None \<Rightarrow> None
      | Some pending \<Rightarrow>
          if (Lifecycle s \<noteq> LifecycleRunning \<and> Lifecycle s \<noteq> LifecycleSuspended) \<or>
             Phase s \<noteq> PhasePick \<or> tbReqID pending = '''' \<or>
             \<not> teamValid (tbReqRequestedBy pending) \<or>
             tbReqBasis pending \<noteq> TBBasisCaptainAgreement \<or>
             Turn s < 11 \<or> Turn s > 14 \<or> TBEntry s \<noteq> None
          then Some ''pending TB request is inconsistent with match state'' else None)"

definition validateRecoveryEvidence :: "State \<Rightarrow> Fault option" where
  "validateRecoveryEvidence s =
     firstFault (validatePendingTB s)
     (firstFault (validateTBEntryEvidence s)
     (firstFault
       (case Suspension s of
          None \<Rightarrow> None
        | Some susp \<Rightarrow>
            if blank (suspReason susp) \<or> isZeroTime (suspSuspendedAt susp)
            then Some ''suspension evidence is incomplete'' else None)
     (firstFault
       (if Lifecycle s = LifecycleAborted \<and> blank (AbortReason s) then Some ''abort reason is required''
        else None)
     (firstFault
       (if Lifecycle s \<noteq> LifecycleAdjudicationRequired then None
        else case Stalemate s of
          None \<Rightarrow> Some FaultNilDereference
        | Some e \<Rightarrow>
            if staleRedWonCount e < 0 \<or> staleBlueWonCount e < 0 \<or>
               staleRedWonCount e \<noteq> staleBlueWonCount e then Some ''adjudication evidence requires equal non-negative won counts''
            else if \<not> anStalemate (Analyze s) \<or>
                    countOf (anWonCounts (Analyze s)) TeamRed \<noteq> staleRedWonCount e \<or>
                    countOf (anWonCounts (Analyze s)) TeamBlue \<noteq> staleBlueWonCount e
            then Some ''adjudication evidence does not match board availability and won counts'' else None)
     (if Lifecycle s \<noteq> LifecycleFinished then None
      else case MatchResult s of
        None \<Rightarrow> Some FaultNilDereference
      | Some result \<Rightarrow> validateResultEvidence s result)))))"

definition ValidateState :: "State \<Rightarrow> Fault option" where
  "ValidateState s =
     (if \<not> validLifecycle (Lifecycle s) then Some ''invalid lifecycle %q''
      else if \<not> validPhase (Phase s) then Some ''invalid phase %q''
      else if \<not> teamValid (FirstBan s) \<or> \<not> teamValid (FirstPick s) then Some ''first ban and first pick teams must be RED or BLUE''
      else case validateAndCloneRosters (Rosters s) of
        Inl _ \<Rightarrow> Some ''invalid rosters: %w''
      | Inr _ \<Rightarrow>
          if \<not> timersValid (Timers s) then Some ''invalid timer configuration''
          else firstFault (validateSideFlags (RobberyUsed s))
              (firstFault (validateSideFlags (TeamPauseUsed s))
              (firstFault (validatePoolAndBoard s)
              (firstFault (validateTurnAndTimer s)
              (firstFault (validateLifecycleState s)
              (validateRecoveryEvidence s))))))"

section \<open>What validation accepts\<close>

definition slotOk :: "string \<Rightarrow> PoolSlot \<Rightarrow> bool" where
  "slotOk sid slot \<longleftrightarrow>
     sid \<noteq> '''' \<and> slotID slot = sid \<and> modValid (slotMod slot) \<and>
     slotState slot \<in> {PoolSlotAvailable, PoolSlotBanned, PoolSlotSelected} \<and>
     (slotMod slot = ModShiro \<longrightarrow> slotState slot \<noteq> PoolSlotBanned) \<and>
     (slotMod slot = ModTB \<longrightarrow> slotState slot = PoolSlotAvailable)"

definition modCount :: "Mod \<Rightarrow> (string, PoolSlot) gomap \<Rightarrow> nat" where
  "modCount m pool = length (filter (\<lambda>(sid, slot). slotMod slot = m) pool)"

definition poolOk :: "(string, PoolSlot) gomap \<Rightarrow> bool" where
  "poolOk pool \<longleftrightarrow> (\<forall>(sid, slot)\<in>set pool. slotOk sid slot) \<and>
     modCount ModShiro pool = 1 \<and> modCount ModTB pool = 1"

lemma modCount_simps [simp]:
  "modCount m [] = 0"
  "modCount m ((sid, slot) # pool) = (if slotMod slot = m then Suc (modCount m pool) else modCount m pool)"
  by (simp_all add: modCount_def)

lemma checkPool_Inr:
  "checkPool sh tb pool = Inr r \<longleftrightarrow>
     (\<forall>(sid, slot)\<in>set pool. slotOk sid slot) \<and>
     r = (sh + modCount ModShiro pool, tb + modCount ModTB pool)"
proof (induction pool arbitrary: sh tb)
  case (Cons e pool)
  obtain sid slot where "e = (sid, slot)" by (cases e)
  with Cons show ?case by (auto simp: accept_simps slotOk_def)
qed auto

definition forceModOk :: "BoardPiece \<Rightarrow> bool" where
  "forceModOk p \<longleftrightarrow>
     (if pieceMod p = ModFM
      then pieceForceMod p \<in> {Some ForceModNM, Some ForceModHD, Some ForceModHR}
      else pieceForceMod p = None)"

definition outcomeOk :: "BoardPiece \<Rightarrow> bool" where
  "outcomeOk p \<longleftrightarrow>
     (case pieceOutcome p of
        OutcomeWaitingResult \<Rightarrow> pieceOwner p = None
      | OutcomeWon \<Rightarrow> ownerValid p
      | OutcomeDead \<Rightarrow> ownerValid p
      | OutcomeWhite \<Rightarrow> pieceMod p = ModShiro \<and> pieceOwner p = None
      | OutcomeOther _ \<Rightarrow> False)"

definition pieceOk :: "(string, PoolSlot) gomap \<Rightarrow> Cell \<Rightarrow> BoardPiece \<Rightarrow> bool" where
  "pieceOk pool c p \<longleftrightarrow>
     cellPosition c \<noteq> None \<and> pieceID p \<noteq> '''' \<and> teamValid (pieceSelectedBy p) \<and>
     (\<exists>slot. mapGet pool (pieceSourcePoolSlotID p) = Some slot \<and>
             slotState slot = PoolSlotSelected \<and> slotMod slot = pieceMod p) \<and>
     forceModOk p \<and> outcomeOk p"

definition sources :: "(Cell, BoardPiece) gomap \<Rightarrow> string list" where
  "sources ps = map (\<lambda>(c, p). pieceSourcePoolSlotID p) ps"

definition waitingIDs :: "(Cell, BoardPiece) gomap \<Rightarrow> string list" where
  "waitingIDs ps = pieceIDs (filter (\<lambda>(c, p). pieceOutcome p = OutcomeWaitingResult) ps)"

lemma sources_simps [simp]:
  "sources [] = []" "sources ((c, p) # ps) = pieceSourcePoolSlotID p # sources ps"
  by (simp_all add: sources_def)

lemma waitingIDs_simps [simp]:
  "waitingIDs [] = []"
  "waitingIDs ((c, p) # ps) =
     (if pieceOutcome p = OutcomeWaitingResult then pieceID p # waitingIDs ps else waitingIDs ps)"
  by (simp_all add: waitingIDs_def)

lemma checkForceMod_None: "checkForceMod p = None \<longleftrightarrow> forceModOk p"
  by (auto simp: checkForceMod_def forceModOk_def split: option.splits)

lemma checkOutcome_None:
  "checkOutcome w p = None \<longleftrightarrow>
     outcomeOk p \<and> (pieceOutcome p = OutcomeWaitingResult \<longrightarrow> w = '''')"
  by (auto simp: checkOutcome_def outcomeOk_def split: Outcome.splits)

lemma checkPieces_Inr:
  "checkPieces pool ids slots w ps = Inr r \<longleftrightarrow>
     (\<forall>(c, p)\<in>set ps. pieceOk pool c p) \<and>
     distinct (pieceIDs ps) \<and> set ids \<inter> set (pieceIDs ps) = {} \<and>
     distinct (sources ps) \<and> set slots \<inter> set (sources ps) = {} \<and>
     (w \<noteq> '''' \<longrightarrow> waitingIDs ps = []) \<and> length (waitingIDs ps) \<le> 1 \<and>
     r = (rev (sources ps) @ slots, if waitingIDs ps = [] then w else hd (waitingIDs ps))"
proof (induction ps arbitrary: ids slots w)
  case (Cons e ps)
  obtain c p where e: "e = (c, p)" by (cases e)
  have "pieceOk pool c p \<longleftrightarrow> cellPosition c \<noteq> None \<and> pieceID p \<noteq> '''' \<and>
      teamValid (pieceSelectedBy p) \<and>
      (\<exists>slot. mapGet pool (pieceSourcePoolSlotID p) = Some slot \<and>
              slotState slot = PoolSlotSelected \<and> slotMod slot = pieceMod p) \<and>
      checkForceMod p = None \<and> outcomeOk p"
    by (simp add: pieceOk_def checkForceMod_None)
  then show ?case
    by (cases "pieceOutcome p = OutcomeWaitingResult")
       (auto simp: e accept_simps Cons.IH checkOutcome_None)
qed auto

definition boardStateOk :: "State \<Rightarrow> bool" where
  "boardStateOk s \<longleftrightarrow>
     \<not> boardNil (Board s) \<and>
     (\<forall>(c, p)\<in>set (boardPieces (Board s)). pieceOk (PoolSlots s) c p) \<and>
     distinct (pieceIDs (boardPieces (Board s))) \<and>
     distinct (sources (boardPieces (Board s))) \<and>
     (\<forall>(sid, slot)\<in>set (PoolSlots s).
        slotState slot = PoolSlotSelected \<longleftrightarrow> sid \<in> set (sources (boardPieces (Board s)))) \<and>
     (if Phase s = PhaseWaitingForResult
      then waitingIDs (boardPieces (Board s)) = [PendingPieceID s]
      else waitingIDs (boardPieces (Board s)) = [] \<and> PendingPieceID s = '''')"

lemma waitingIDs_nonempty_id:
  "\<forall>(c, p)\<in>set ps. pieceOk pool c p \<Longrightarrow> '''' \<notin> set (waitingIDs ps)"
  by (auto simp: waitingIDs_def pieceIDs_def pieceOk_def)

lemma length_le_1: "length xs \<le> Suc 0 \<longleftrightarrow> xs = [] \<or> (\<exists>x. xs = [x])"
  by (cases xs) auto

lemma case_sum_None:
  "(case c of Inl f \<Rightarrow> Some f | Inr y \<Rightarrow> g y) = None \<longleftrightarrow> (\<exists>y. c = Inr y \<and> g y = None)"
  by (cases c) auto

lemma pending_waiting:
  assumes "\<forall>(c, p)\<in>set ps. pieceOk pool c p"
  shows "length (waitingIDs ps) \<le> 1 \<and>
      (if b then pid \<noteq> '''' \<and> pid = (if waitingIDs ps = [] then '''' else hd (waitingIDs ps))
       else pid = '''' \<and> (if waitingIDs ps = [] then '''' else hd (waitingIDs ps)) = '''') \<longleftrightarrow>
      (if b then waitingIDs ps = [pid] else waitingIDs ps = [] \<and> pid = '''')"
proof (cases "waitingIDs ps")
  case (Cons w ws)
  then have "w \<noteq> ''''" using waitingIDs_nonempty_id [OF assms] by auto
  with Cons show ?thesis by auto
qed auto

lemma validatePoolAndBoard_None:
  "validatePoolAndBoard s = None \<longleftrightarrow> poolOk (PoolSlots s) \<and> boardStateOk s"
proof -
  let ?ps = "boardPieces (Board s)"
  have "validatePoolAndBoard s = None \<longleftrightarrow>
      poolOk (PoolSlots s) \<and> \<not> boardNil (Board s) \<and>
      (\<exists>slots w. checkPieces (PoolSlots s) [] [] '''' ?ps = Inr (slots, w) \<and>
        (\<forall>(sid, slot)\<in>set (PoolSlots s). slotState slot = PoolSlotSelected \<longleftrightarrow> sid \<in> set slots) \<and>
        (if Phase s = PhaseWaitingForResult then PendingPieceID s \<noteq> '''' \<and> PendingPieceID s = w
         else PendingPieceID s = '''' \<and> w = ''''))"
    by (simp add: validatePoolAndBoard_def poolOk_def case_sum_None accept_simps checkPool_Inr
        split_beta del: checkPieces.simps)
  also have "\<dots> \<longleftrightarrow> poolOk (PoolSlots s) \<and> \<not> boardNil (Board s) \<and>
      (\<forall>(c, p)\<in>set ?ps. pieceOk (PoolSlots s) c p) \<and>
      distinct (pieceIDs ?ps) \<and> distinct (sources ?ps) \<and>
      (\<forall>(sid, slot)\<in>set (PoolSlots s). slotState slot = PoolSlotSelected \<longleftrightarrow> sid \<in> set (sources ?ps)) \<and>
      (length (waitingIDs ?ps) \<le> 1 \<and>
      (if Phase s = PhaseWaitingForResult
       then PendingPieceID s \<noteq> '''' \<and>
            PendingPieceID s = (if waitingIDs ?ps = [] then '''' else hd (waitingIDs ?ps))
       else PendingPieceID s = '''' \<and> (if waitingIDs ?ps = [] then '''' else hd (waitingIDs ?ps)) = ''''))"
    unfolding checkPieces_Inr by (simp del: One_nat_def cong: conj_cong) blast
  also have "\<dots> \<longleftrightarrow> poolOk (PoolSlots s) \<and> boardStateOk s"
    by (simp only: boardStateOk_def pending_waiting cong: conj_cong)
  finally show ?thesis .
qed

section \<open>The state invariant\<close>

definition flagsOk :: "(TeamSide, bool) gomap \<Rightarrow> bool" where
  "flagsOk m \<longleftrightarrow> mapGet m TeamRed \<noteq> None \<and> mapGet m TeamBlue \<noteq> None \<and>
                (\<forall>(side, used)\<in>set m. teamValid side)"

definition configOk :: "State \<Rightarrow> bool" where
  "configOk s \<longleftrightarrow>
     teamValid (FirstBan s) \<and> teamValid (FirstPick s) \<and>
     (\<exists>r. validateAndCloneRosters (Rosters s) = Inr r) \<and> timersValid (Timers s) \<and>
     flagsOk (RobberyUsed s) \<and> flagsOk (TeamPauseUsed s)"

definition timerOk :: "Timer \<Rightarrow> bool" where
  "timerOk t \<longleftrightarrow>
     t = zeroTimer \<or>
     timerDuration t > 0 \<and> timerStartedAt t \<noteq> 0 \<and> 0 \<le> timerRemainingAtPause t \<and>
     (if timerPaused t then timerRemainingAtPause t \<le> timerDuration t
      else timerRemainingAtPause t = 0)"

definition banTeam :: "State \<Rightarrow> TeamSide" where
  "banTeam s = (if Turn s = secondBanTurn \<or> Turn s = thirdBanTurn
                then opponent (FirstBan s) else FirstBan s)"

definition phaseOk :: "State \<Rightarrow> bool" where
  "phaseOk s \<longleftrightarrow>
     (case Phase s of
        PhaseBan \<Rightarrow> firstBanTurn \<le> Turn s \<and> Turn s \<le> finalBanTurn \<and> ActiveTeam s = banTeam s \<and>
                    0 < timerDuration (Timer s)
      | PhasePick \<Rightarrow> firstPickTurn \<le> Turn s \<and> ActiveTeam s = pickTeam (FirstPick s) (Turn s) \<and>
                    0 < timerDuration (Timer s)
      | PhaseWaitingForResult \<Rightarrow>
                    firstPickTurn \<le> Turn s \<and> ActiveTeam s = pickTeam (FirstPick s) (Turn s) \<and>
                    0 < timerDuration (Timer s)
      | PhaseTBPreparation \<Rightarrow> firstPickTurn \<le> Turn s \<and> ActiveTeam s = TeamNone \<and>
                    0 < timerDuration (Timer s)
      | PhaseTBPlaying \<Rightarrow> firstPickTurn \<le> Turn s \<and> ActiveTeam s = TeamNone \<and>
                    timerDuration (Timer s) = 0
      | _ \<Rightarrow> False)"

definition entryOk :: "State \<Rightarrow> TBEntryState \<Rightarrow> bool" where
  "entryOk s e \<longleftrightarrow>
     tbEntryBasis e = TBBasisCaptainAgreement \<and> tbEntryRequestID e \<noteq> '''' \<and>
       teamValid (tbEntryRequestedBy e) \<and> 11 \<le> Turn s \<and> Turn s \<le> 14 \<or>
     tbEntryBasis e = TBBasisForcedAfterRobberyChecks \<and> tbEntryRequestID e = '''' \<and>
       tbEntryRequestedBy e = TeamNone \<and> forcedTBRequirementsMet s"

definition pendingOk :: "State \<Rightarrow> bool" where
  "pendingOk s \<longleftrightarrow>
     (\<forall>p. PendingTBRequest s = Some p \<longrightarrow>
        Phase s = PhasePick \<and> tbReqID p \<noteq> '''' \<and> teamValid (tbReqRequestedBy p) \<and>
        tbReqBasis p = TBBasisCaptainAgreement \<and> 11 \<le> Turn s \<and> Turn s \<le> 14 \<and>
        TBEntry s = None)"

definition tbOk :: "State \<Rightarrow> bool" where
  "tbOk s \<longleftrightarrow>
     (if Phase s = PhaseTBPreparation \<or> Phase s = PhaseTBPlaying
      then PendingTBRequest s = None \<and> (\<exists>e. TBEntry s = Some e \<and> entryOk s e)
      else TBEntry s = None \<and> \<not> (Phase s = PhasePick \<and> forcedTBRequirementsMet s))"

text \<open>No terminal data: what a match in play looks like.\<close>

definition activeOk :: "State \<Rightarrow> bool" where
  "activeOk s \<longleftrightarrow> Winner s = None \<and> MatchResult s = None \<and> Stalemate s = None \<and>
     AbortReason s = '''' \<and> phaseOk s \<and> pendingOk s \<and> tbOk s"

definition suspensionOk :: "State \<Rightarrow> SuspensionState \<Rightarrow> bool" where
  "suspensionOk s susp \<longleftrightarrow>
     (if suspHadTimer susp then timerPaused (Timer s)
      else timerDuration (Timer s) = 0 \<and> \<not> timerPaused (Timer s) \<and> \<not> suspTimerWasPaused susp) \<and>
     \<not> blank (suspReason susp) \<and> suspSuspendedAt susp \<noteq> 0"

text \<open>The fields that every state outside play has reset.\<close>

definition idleOk :: "State \<Rightarrow> bool" where
  "idleOk s \<longleftrightarrow> Phase s = PhaseNone \<and> ActiveTeam s = TeamNone \<and> Timer s = zeroTimer \<and>
     PendingTBRequest s = None \<and> Suspension s = None"

definition stalemateOk :: "State \<Rightarrow> int \<Rightarrow> int \<Rightarrow> bool" where
  "stalemateOk s red blue \<longleftrightarrow> anStalemate (Analyze s) \<and>
     countOf (anWonCounts (Analyze s)) TeamRed = red \<and>
     countOf (anWonCounts (Analyze s)) TeamBlue = blue"

definition resultOk :: "State \<Rightarrow> Result \<Rightarrow> bool" where
  "resultOk s r \<longleftrightarrow> validateResultEvidence s r = None"

definition lifecycleOk :: "State \<Rightarrow> bool" where
  "lifecycleOk s \<longleftrightarrow>
     (case Lifecycle s of
        LifecycleReady \<Rightarrow>
          idleOk s \<and> Turn s = readyTurn \<and> TBEntry s = None \<and> Winner s = None \<and>
          MatchResult s = None \<and> Stalemate s = None \<and> AbortReason s = '''' \<and>
          boardPieces (Board s) = [] \<and>
          (\<forall>(sid, slot)\<in>set (PoolSlots s). slotState slot = PoolSlotAvailable) \<and>
          \<not> flagOf (RobberyUsed s) TeamRed \<and> \<not> flagOf (RobberyUsed s) TeamBlue \<and>
          \<not> flagOf (TeamPauseUsed s) TeamRed \<and> \<not> flagOf (TeamPauseUsed s) TeamBlue
      | LifecycleRunning \<Rightarrow> activeOk s \<and> Suspension s = None
      | LifecycleSuspended \<Rightarrow> activeOk s \<and> (\<exists>susp. Suspension s = Some susp \<and> suspensionOk s susp)
      | LifecycleAdjudicationRequired \<Rightarrow>
          idleOk s \<and> firstPickTurn \<le> Turn s \<and> TBEntry s = None \<and> Winner s = None \<and>
          MatchResult s = None \<and> AbortReason s = '''' \<and>
          (\<exists>e. Stalemate s = Some e \<and> staleRedWonCount e = staleBlueWonCount e \<and>
               stalemateOk s (staleRedWonCount e) (staleBlueWonCount e))
      | LifecycleFinished \<Rightarrow>
          idleOk s \<and> firstBanTurn \<le> Turn s \<and> Stalemate s = None \<and> AbortReason s = '''' \<and>
          (\<exists>r. MatchResult s = Some r \<and> Winner s = Some (resWinner r) \<and> teamValid (resWinner r) \<and>
               resultOk s r) \<and>
          (\<forall>e. TBEntry s = Some e \<longrightarrow> entryOk s e)
      | LifecycleAborted \<Rightarrow>
          idleOk s \<and> firstBanTurn \<le> Turn s \<and> Winner s = None \<and> MatchResult s = None \<and>
          Stalemate s = None \<and> \<not> blank (AbortReason s) \<and>
          (\<forall>e. TBEntry s = Some e \<longrightarrow> entryOk s e)
      | LifecycleOther _ \<Rightarrow> False)"

definition versionOk :: "State \<Rightarrow> bool" where
  "versionOk s \<longleftrightarrow> (Version s = 0 \<longleftrightarrow> Lifecycle s = LifecycleReady)"

definition coreOk :: "State \<Rightarrow> bool" where
  "coreOk s \<longleftrightarrow> configOk s \<and> poolOk (PoolSlots s) \<and> boardStateOk s \<and> timerOk (Timer s) \<and>
     lifecycleOk s"

definition validState :: "State \<Rightarrow> bool" where
  "validState s \<longleftrightarrow> coreOk s \<and> versionOk s"

lemma validateTimerShape_None: "validateTimerShape t = None \<longleftrightarrow> timerOk t"
  by (cases t) (auto simp: validateTimerShape_def timerOk_def zeroTimer_def isZeroTime_def)

lemma timerOk_zero: "timerOk t \<Longrightarrow> timerDuration t = 0 \<longleftrightarrow> t = zeroTimer"
  by (auto simp: timerOk_def zeroTimer_def)

lemma timerOk_nonneg: "timerOk t \<Longrightarrow> 0 \<le> timerDuration t"
  by (auto simp: timerOk_def zeroTimer_def)

lemma validateSideFlags_None: "validateSideFlags m = None \<longleftrightarrow> flagsOk m"
  by (auto simp: validateSideFlags_def flagsOk_def)

definition dynamicOk :: "State \<Rightarrow> bool" where
  "dynamicOk s \<longleftrightarrow>
     validPhase (Phase s) \<and> validateTurn s = None \<and>
     (requiresTimer (Phase s) \<longrightarrow> 0 < timerDuration (Timer s)) \<and>
     (\<not> requiresTimer (Phase s) \<longrightarrow> timerDuration (Timer s) = 0) \<and>
     validateLifecycleState s = None \<and> validateRecoveryEvidence s = None"

lemma ValidateState_parts:
  "ValidateState s = None \<longleftrightarrow>
     configOk s \<and> poolOk (PoolSlots s) \<and> boardStateOk s \<and> timerOk (Timer s) \<and>
     validLifecycle (Lifecycle s) \<and> dynamicOk s"
proof -
  have "(case c of Inl (e::ErrorCode) \<Rightarrow> Some (f::Fault) | Inr (y::(TeamSide, Roster) gomap) \<Rightarrow> r) = None \<longleftrightarrow>
      (\<exists>y. c = Inr y) \<and> r = None" for c f r
    by (cases c) auto
  then show ?thesis
    by (auto simp: ValidateState_def configOk_def validateTurnAndTimer_def dynamicOk_def accept_simps
        validateTimerShape_None validateSideFlags_None validatePoolAndBoard_None)
qed

lemma case_option_True: "(case x of None \<Rightarrow> True | Some y \<Rightarrow> P y) \<longleftrightarrow> (\<forall>y. x = Some y \<longrightarrow> P y)"
  by (cases x) auto

lemma pending_None:
  "validatePendingTB s = None \<longleftrightarrow>
     (\<forall>p. PendingTBRequest s = Some p \<longrightarrow>
        (Lifecycle s = LifecycleRunning \<or> Lifecycle s = LifecycleSuspended) \<and> pendingOk s)"
  by (auto simp: validatePendingTB_def pendingOk_def split: option.splits)

lemma entry_None:
  "validateTBEntryEvidence s = None \<longleftrightarrow>
     (case TBEntry s of
        None \<Rightarrow> Phase s \<noteq> PhaseTBPreparation \<and> Phase s \<noteq> PhaseTBPlaying \<and>
          ((Lifecycle s = LifecycleRunning \<or> Lifecycle s = LifecycleSuspended) \<longrightarrow>
             \<not> (Phase s = PhasePick \<and> forcedTBRequirementsMet s))
      | Some e \<Rightarrow> PendingTBRequest s = None \<and> entryOk s e \<and>
          Lifecycle s \<noteq> LifecycleReady \<and> Lifecycle s \<noteq> LifecycleAdjudicationRequired \<and>
          ((Lifecycle s = LifecycleRunning \<or> Lifecycle s = LifecycleSuspended) \<longrightarrow>
             Phase s = PhaseTBPreparation \<or> Phase s = PhaseTBPlaying))"
  by (auto simp: validateTBEntryEvidence_def entryOk_def Let_def split: option.splits TBBasis.splits)

lemma phase_turn:
  assumes "validateActivePhase s = None" "teamValid (FirstBan s)" "teamValid (FirstPick s)"
  shows "validateTurn s = None \<and> (requiresTimer (Phase s) \<longrightarrow> 0 < timerDuration (Timer s)) \<and>
     (\<not> requiresTimer (Phase s) \<longrightarrow> timerDuration (Timer s) = 0) \<longleftrightarrow> phaseOk s"
  using assms
  by (cases "Phase s")
     (auto simp: validateActivePhase_def validateTurn_def requiresTimer_def phaseOk_def banTeam_def
       accept_simps split: if_splits)

lemma phaseOk_activePhase:
  "phaseOk s \<Longrightarrow> teamValid (FirstBan s) \<Longrightarrow> teamValid (FirstPick s) \<Longrightarrow>
   validateActivePhase s = None \<and> validPhase (Phase s) \<and> Phase s \<noteq> PhaseNone"
  by (cases "Phase s")
     (auto simp: phaseOk_def validateActivePhase_def banTeam_def split: if_splits)

lemma active_parts:
  assumes "configOk s"
  shows "validPhase (Phase s) \<and> validateTurn s = None \<and>
     (requiresTimer (Phase s) \<longrightarrow> 0 < timerDuration (Timer s)) \<and>
     (\<not> requiresTimer (Phase s) \<longrightarrow> timerDuration (Timer s) = 0) \<and>
     validateActivePhase s = None \<longleftrightarrow> phaseOk s"
  using assms phase_turn phaseOk_activePhase unfolding configOk_def
  by blast

lemma tbOk_iff:
  assumes "Lifecycle s = LifecycleRunning \<or> Lifecycle s = LifecycleSuspended"
  shows "validatePendingTB s = None \<and> validateTBEntryEvidence s = None \<longleftrightarrow> pendingOk s \<and> tbOk s"
  using assms unfolding pending_None entry_None tbOk_def pendingOk_def
  by (cases "TBEntry s"; cases "PendingTBRequest s") auto

lemma firstFault_simp: "firstFault a b = None \<longleftrightarrow> a = None \<and> b = None"
  by (rule firstFault_None)

lemma suspension_None:
  assumes "timerOk (Timer s)"
  shows "validateSuspension s susp = None \<and> \<not> blank (suspReason susp) \<and>
     \<not> isZeroTime (suspSuspendedAt susp) \<longleftrightarrow> suspensionOk s susp"
  using timerOk_nonneg [OF assms]
  by (auto simp: validateSuspension_def suspensionOk_def isZeroTime_def)

lemma phaseOk_Phase: "phaseOk s \<Longrightarrow> Phase s \<noteq> PhaseNone"
  by (auto simp: phaseOk_def)

lemma Running_iff:
  assumes "Lifecycle s = LifecycleRunning" "configOk s" "timerOk (Timer s)"
  shows "dynamicOk s \<longleftrightarrow> lifecycleOk s \<and> versionOk s"
proof -
  have "validateLifecycleState s = None \<longleftrightarrow>
      Version s \<noteq> 0 \<and> Phase s \<noteq> PhaseNone \<and> Suspension s = None \<and> Winner s = None \<and>
      MatchResult s = None \<and> Stalemate s = None \<and> AbortReason s = '''' \<and>
      validateActivePhase s = None"
    using assms(1) by (auto simp: validateLifecycleState_def)
  moreover have "validateRecoveryEvidence s = None \<longleftrightarrow>
      validatePendingTB s = None \<and> validateTBEntryEvidence s = None \<and>
      (\<forall>susp. Suspension s = Some susp \<longrightarrow> \<not> blank (suspReason susp) \<and> \<not> isZeroTime (suspSuspendedAt susp))"
    using assms(1) by (auto simp: validateRecoveryEvidence_def accept_simps split: option.splits)
  ultimately show ?thesis
    using active_parts [OF assms(2)] tbOk_iff [of s, OF disjI1 [OF assms(1)]] phaseOk_Phase [of s]
    unfolding dynamicOk_def lifecycleOk_def versionOk_def activeOk_def assms(1) Lifecycle.case
    by (cases "Suspension s"; simp only: option.inject option.distinct Lifecycle.distinct simp_thms; satx)
qed

lemma Suspended_iff:
  assumes "Lifecycle s = LifecycleSuspended" "configOk s" "timerOk (Timer s)"
  shows "dynamicOk s \<longleftrightarrow> lifecycleOk s \<and> versionOk s"
proof -
  have "validateLifecycleState s = None \<longleftrightarrow>
      Version s \<noteq> 0 \<and> Phase s \<noteq> PhaseNone \<and> Winner s = None \<and>
      MatchResult s = None \<and> Stalemate s = None \<and> AbortReason s = '''' \<and>
      (\<exists>susp. Suspension s = Some susp \<and> validateSuspension s susp = None) \<and>
      validateActivePhase s = None"
    using assms(1) by (auto simp: validateLifecycleState_def accept_simps split: option.splits)
  moreover have "validateRecoveryEvidence s = None \<longleftrightarrow>
      validatePendingTB s = None \<and> validateTBEntryEvidence s = None \<and>
      (\<forall>susp. Suspension s = Some susp \<longrightarrow> \<not> blank (suspReason susp) \<and> \<not> isZeroTime (suspSuspendedAt susp))"
    using assms(1) by (auto simp: validateRecoveryEvidence_def accept_simps split: option.splits)
  ultimately show ?thesis
    using active_parts [OF assms(2)] tbOk_iff [of s, OF disjI2 [OF assms(1)]] phaseOk_Phase [of s]
    unfolding dynamicOk_def lifecycleOk_def versionOk_def activeOk_def assms(1) Lifecycle.case
      suspension_None [OF assms(3), symmetric]
    by (cases "Suspension s"; simp only: option.inject option.distinct Lifecycle.distinct simp_thms; satx)
qed

lemma idle_parts:
  assumes "timerOk (Timer s)" "Phase s = PhaseNone"
  shows "(requiresTimer (Phase s) \<longrightarrow> 0 < timerDuration (Timer s)) \<and>
     (\<not> requiresTimer (Phase s) \<longrightarrow> timerDuration (Timer s) = 0) \<longleftrightarrow> Timer s = zeroTimer"
  using assms timerOk_zero [OF assms(1)] by (simp add: requiresTimer_def)

lemma Ready_iff:
  assumes "Lifecycle s = LifecycleReady" "timerOk (Timer s)"
  shows "dynamicOk s \<longleftrightarrow> lifecycleOk s \<and> versionOk s"
proof (cases "Phase s = PhaseNone")
  case True
  have "validateLifecycleState s = None \<longleftrightarrow>
      Version s = 0 \<and> ActiveTeam s = TeamNone \<and> Suspension s = None \<and> Winner s = None \<and>
      MatchResult s = None \<and> Stalemate s = None \<and> AbortReason s = '''' \<and>
      boardPieces (Board s) = [] \<and>
      (\<forall>(sid, slot)\<in>set (PoolSlots s). slotState slot = PoolSlotAvailable) \<and>
      \<not> flagOf (RobberyUsed s) TeamRed \<and> \<not> flagOf (RobberyUsed s) TeamBlue \<and>
      \<not> flagOf (TeamPauseUsed s) TeamRed \<and> \<not> flagOf (TeamPauseUsed s) TeamBlue"
    using assms(1) True by (auto simp: validateLifecycleState_def accept_simps)
  moreover have "validateRecoveryEvidence s = None \<longleftrightarrow> PendingTBRequest s = None \<and> TBEntry s = None \<and>
      (\<forall>susp. Suspension s = Some susp \<longrightarrow> \<not> blank (suspReason susp) \<and> \<not> isZeroTime (suspSuspendedAt susp))"
    using assms(1) True
    by (auto simp: validateRecoveryEvidence_def accept_simps pending_None entry_None split: option.splits)
  moreover have "validateTurn s = None \<longleftrightarrow> Turn s = readyTurn"
    using assms(1) True by (simp add: validateTurn_def)
  ultimately show ?thesis
    using idle_parts [OF assms(2) True] True assms(1)
    by (auto simp: dynamicOk_def lifecycleOk_def versionOk_def idleOk_def)
next
  case False
  with assms(1) show ?thesis
    by (auto simp: dynamicOk_def validateLifecycleState_def lifecycleOk_def idleOk_def)
qed

lemma stalemateCounts_nonneg:
  "0 \<le> countOf (anWonCounts (Analyze s)) TeamRed" "0 \<le> countOf (anWonCounts (Analyze s)) TeamBlue"
  by (simp_all only: Analyze_wonCounts teamValid_simps of_nat_0_le_iff)

lemma Adjudication_iff:
  assumes "Lifecycle s = LifecycleAdjudicationRequired" "timerOk (Timer s)"
  shows "dynamicOk s \<longleftrightarrow> lifecycleOk s \<and> versionOk s"
proof (cases "Phase s = PhaseNone \<and> Suspension s = None \<and> TBEntry s = None \<and> PendingTBRequest s = None")
  case True
  then have "validateRecoveryEvidence s = None \<longleftrightarrow>
      (\<exists>e. Stalemate s = Some e \<and> staleRedWonCount e = staleBlueWonCount e \<and>
           stalemateOk s (staleRedWonCount e) (staleBlueWonCount e))"
    using assms(1) stalemateCounts_nonneg [of s]
    by (cases "Stalemate s")
       (auto simp: validateRecoveryEvidence_def accept_simps pending_None entry_None stalemateOk_def)
  moreover have "validateTurn s = None \<longleftrightarrow> firstPickTurn \<le> Turn s"
    using assms(1) True by (simp add: validateTurn_def not_less)
  moreover have "validateLifecycleState s = None \<longleftrightarrow>
      Version s \<noteq> 0 \<and> ActiveTeam s = TeamNone \<and> Stalemate s \<noteq> None \<and> Winner s = None \<and>
      MatchResult s = None \<and> AbortReason s = ''''"
    using assms(1) True by (auto simp: validateLifecycleState_def)
  ultimately show ?thesis
    using idle_parts [OF assms(2)] True assms(1)
    by (auto simp: dynamicOk_def lifecycleOk_def versionOk_def idleOk_def)
next
  case False
  have "dynamicOk s \<Longrightarrow> validateLifecycleState s = None \<and> validatePendingTB s = None \<and>
      validateTBEntryEvidence s = None"
    by (simp add: dynamicOk_def validateRecoveryEvidence_def firstFault_None)
  then have "\<not> dynamicOk s"
    using False assms(1)
    by (auto simp: validateLifecycleState_def pending_None entry_None split: option.splits if_splits)
  then show ?thesis using False assms(1) by (auto simp: lifecycleOk_def idleOk_def)
qed

lemma Finished_iff:
  assumes "Lifecycle s = LifecycleFinished" "timerOk (Timer s)"
  shows "dynamicOk s \<longleftrightarrow> lifecycleOk s \<and> versionOk s"
proof (cases "Phase s = PhaseNone \<and> Suspension s = None \<and> PendingTBRequest s = None \<and>
              (\<exists>r. MatchResult s = Some r)")
  case True
  then obtain r where r: "MatchResult s = Some r" by blast
  have "validateRecoveryEvidence s = None \<longleftrightarrow>
      resultOk s r \<and> (\<forall>e. TBEntry s = Some e \<longrightarrow> entryOk s e)"
    using assms(1) True r
    by (auto simp: validateRecoveryEvidence_def firstFault_None pending_None entry_None resultOk_def
        split: option.splits)
  moreover have "validateTurn s = None \<longleftrightarrow> firstBanTurn \<le> Turn s"
    using assms(1) True by (simp add: validateTurn_def not_less)
  moreover have "validateLifecycleState s = None \<longleftrightarrow>
      Version s \<noteq> 0 \<and> ActiveTeam s = TeamNone \<and> Stalemate s = None \<and> AbortReason s = '''' \<and>
      Winner s = Some (resWinner r) \<and> teamValid (resWinner r)"
    using assms(1) True r by (auto simp: validateLifecycleState_def split: option.splits if_splits)
  ultimately show ?thesis
    using idle_parts [OF assms(2)] True assms(1) r
    by (auto simp: dynamicOk_def lifecycleOk_def versionOk_def idleOk_def)
next
  case False
  have "dynamicOk s \<Longrightarrow> validateLifecycleState s = None \<and> validatePendingTB s = None"
    by (simp add: dynamicOk_def validateRecoveryEvidence_def firstFault_None)
  then have "\<not> dynamicOk s"
    using False assms(1)
    by (auto simp: validateLifecycleState_def pending_None split: option.splits if_splits)
  then show ?thesis using False assms(1) by (auto simp: lifecycleOk_def idleOk_def)
qed

lemma Aborted_iff:
  assumes "Lifecycle s = LifecycleAborted" "timerOk (Timer s)"
  shows "dynamicOk s \<longleftrightarrow> lifecycleOk s \<and> versionOk s"
proof (cases "Phase s = PhaseNone \<and> Suspension s = None \<and> PendingTBRequest s = None")
  case True
  have "validateRecoveryEvidence s = None \<longleftrightarrow>
      \<not> blank (AbortReason s) \<and> (\<forall>e. TBEntry s = Some e \<longrightarrow> entryOk s e)"
    using assms(1) True
    by (auto simp: validateRecoveryEvidence_def firstFault_None pending_None entry_None
        split: option.splits)
  moreover have "validateTurn s = None \<longleftrightarrow> firstBanTurn \<le> Turn s"
    using assms(1) True by (simp add: validateTurn_def not_less)
  moreover have "validateLifecycleState s = None \<longleftrightarrow>
      Version s \<noteq> 0 \<and> ActiveTeam s = TeamNone \<and> Stalemate s = None \<and> AbortReason s \<noteq> '''' \<and>
      Winner s = None \<and> MatchResult s = None"
    using assms(1) True by (auto simp: validateLifecycleState_def)
  ultimately show ?thesis
    using idle_parts [OF assms(2)] True assms(1)
    by (auto simp: dynamicOk_def lifecycleOk_def versionOk_def idleOk_def)
next
  case False
  have "dynamicOk s \<Longrightarrow> validateLifecycleState s = None \<and> validatePendingTB s = None"
    by (simp add: dynamicOk_def validateRecoveryEvidence_def firstFault_None)
  then have "\<not> dynamicOk s"
    using False assms(1)
    by (auto simp: validateLifecycleState_def pending_None split: option.splits if_splits)
  then show ?thesis using False assms(1) by (auto simp: lifecycleOk_def idleOk_def)
qed

lemma dynamicOk_iff:
  assumes "configOk s" "timerOk (Timer s)"
  shows "validLifecycle (Lifecycle s) \<and> dynamicOk s \<longleftrightarrow> lifecycleOk s \<and> versionOk s"
  using Running_iff [OF _ assms] Suspended_iff [OF _ assms] Ready_iff [OF _ assms(2)]
    Adjudication_iff [OF _ assms(2)] Finished_iff [OF _ assms(2)] Aborted_iff [OF _ assms(2)]
  by (cases "Lifecycle s") (simp_all, simp add: lifecycleOk_def)

lemma ValidateState_iff: "ValidateState s = None \<longleftrightarrow> validState s"
  using dynamicOk_iff [of s] unfolding ValidateState_parts validState_def coreOk_def by blast

text \<open>The code dereferences \<open>Stalemate\<close> and \<open>Result\<close> only after it has found them present.\<close>

lemma validateLifecycleState_present:
  assumes "validateLifecycleState s = None"
  shows "Lifecycle s = LifecycleAdjudicationRequired \<Longrightarrow> Stalemate s \<noteq> None"
    and "Lifecycle s = LifecycleFinished \<Longrightarrow> MatchResult s \<noteq> None"
  using assms by (auto simp: validateLifecycleState_def split: option.splits if_splits)

end
