(* ===== verification/EngineInvariant.thy ===== *)
theory EngineInvariant
  imports EngineValidation
begin

text \<open>
  \<open>Execute\<close> and \<open>ValidateState\<close>: which accepted commands leave a state that may be stored. Every
  handler is shown to keep \<open>coreOk\<close> (the invariant behind \<open>ValidateState\<close>, without the
  version), or to keep it exactly when a side condition holds that the handler does not test;
  \<open>storable\<close> collects these conditions.
\<close>

section \<open>What the invariants read\<close>

lemma Analyze_frame [frame_simps]:
  "Analyze (s\<lparr>Version := v\<rparr>) = Analyze s" "Analyze (s\<lparr>Lifecycle := l\<rparr>) = Analyze s"
  "Analyze (s\<lparr>Phase := ph\<rparr>) = Analyze s" "Analyze (s\<lparr>Turn := n\<rparr>) = Analyze s"
  "Analyze (s\<lparr>ActiveTeam := a\<rparr>) = Analyze s" "Analyze (s\<lparr>Timer := t\<rparr>) = Analyze s"
  "Analyze (s\<lparr>RobberyUsed := ru\<rparr>) = Analyze s" "Analyze (s\<lparr>TeamPauseUsed := pu\<rparr>) = Analyze s"
  "Analyze (s\<lparr>PendingPieceID := pid\<rparr>) = Analyze s"
  "Analyze (s\<lparr>PendingTBRequest := pr\<rparr>) = Analyze s" "Analyze (s\<lparr>TBEntry := te\<rparr>) = Analyze s"
  "Analyze (s\<lparr>Winner := w\<rparr>) = Analyze s" "Analyze (s\<lparr>MatchResult := mr\<rparr>) = Analyze s"
  "Analyze (s\<lparr>Stalemate := st\<rparr>) = Analyze s" "Analyze (s\<lparr>Suspension := su\<rparr>) = Analyze s"
  "Analyze (s\<lparr>AbortReason := r\<rparr>) = Analyze s"
  by (rule Analyze_cong; simp)+

lemma forcedTB_cong:
  "Turn s = Turn t \<Longrightarrow> Board s = Board t \<Longrightarrow> RobberyUsed s = RobberyUsed t \<Longrightarrow>
   forcedTBRequirementsMet s = forcedTBRequirementsMet t"
  by (simp add: forcedTBRequirementsMet_def)

lemma forcedTB_frame [frame_simps]:
  "forcedTBRequirementsMet (s\<lparr>Version := v\<rparr>) = forcedTBRequirementsMet s"
  "forcedTBRequirementsMet (s\<lparr>Lifecycle := l\<rparr>) = forcedTBRequirementsMet s"
  "forcedTBRequirementsMet (s\<lparr>Phase := ph\<rparr>) = forcedTBRequirementsMet s"
  "forcedTBRequirementsMet (s\<lparr>ActiveTeam := a\<rparr>) = forcedTBRequirementsMet s"
  "forcedTBRequirementsMet (s\<lparr>PoolSlots := po\<rparr>) = forcedTBRequirementsMet s"
  "forcedTBRequirementsMet (s\<lparr>Timer := t\<rparr>) = forcedTBRequirementsMet s"
  "forcedTBRequirementsMet (s\<lparr>TeamPauseUsed := pu\<rparr>) = forcedTBRequirementsMet s"
  "forcedTBRequirementsMet (s\<lparr>PendingPieceID := pid\<rparr>) = forcedTBRequirementsMet s"
  "forcedTBRequirementsMet (s\<lparr>PendingTBRequest := pr\<rparr>) = forcedTBRequirementsMet s"
  "forcedTBRequirementsMet (s\<lparr>TBEntry := te\<rparr>) = forcedTBRequirementsMet s"
  "forcedTBRequirementsMet (s\<lparr>Winner := w\<rparr>) = forcedTBRequirementsMet s"
  "forcedTBRequirementsMet (s\<lparr>MatchResult := mr\<rparr>) = forcedTBRequirementsMet s"
  "forcedTBRequirementsMet (s\<lparr>Stalemate := st\<rparr>) = forcedTBRequirementsMet s"
  "forcedTBRequirementsMet (s\<lparr>Suspension := su\<rparr>) = forcedTBRequirementsMet s"
  "forcedTBRequirementsMet (s\<lparr>AbortReason := r\<rparr>) = forcedTBRequirementsMet s"
  by (rule forcedTB_cong; simp)+

text \<open>Pool and board without the pending piece.\<close>

definition boardShapeOk :: "(string, PoolSlot) gomap \<Rightarrow> Board \<Rightarrow> bool" where
  "boardShapeOk pool b \<longleftrightarrow>
     \<not> boardNil b \<and> (\<forall>(c, p)\<in>set (boardPieces b). pieceOk pool c p) \<and>
     distinct (pieceIDs (boardPieces b)) \<and> distinct (sources (boardPieces b)) \<and>
     (\<forall>(sid, slot)\<in>set pool.
        slotState slot = PoolSlotSelected \<longleftrightarrow> sid \<in> set (sources (boardPieces b)))"

definition waitingOk :: "Phase \<Rightarrow> string \<Rightarrow> Board \<Rightarrow> bool" where
  "waitingOk ph pid b \<longleftrightarrow>
     (if ph = PhaseWaitingForResult then waitingIDs (boardPieces b) = [pid]
      else waitingIDs (boardPieces b) = [] \<and> pid = '''')"

lemma boardStateOk_iff:
  "boardStateOk s \<longleftrightarrow>
     boardShapeOk (PoolSlots s) (Board s) \<and> waitingOk (Phase s) (PendingPieceID s) (Board s)"
  by (simp add: boardStateOk_def boardShapeOk_def waitingOk_def conj_assoc)

definition mapsOk :: "State \<Rightarrow> bool" where
  "mapsOk s \<longleftrightarrow> keysDistinct (PoolSlots s) \<and> keysDistinct (boardPieces (Board s)) \<and>
     keysDistinct (RobberyUsed s) \<and> keysDistinct (TeamPauseUsed s) \<and> keysDistinct (Rosters s)"

lemma boardShapeOk_boardOk:
  "boardShapeOk pool b \<Longrightarrow> keysDistinct (boardPieces b) \<Longrightarrow> boardOk b"
  by (auto simp: boardShapeOk_def boardOk_def pieceIDs_def pieceOk_def)

lemma flagsOk_keys:
  "flagsOk m \<longleftrightarrow> mapGet m TeamRed \<noteq> None \<and> mapGet m TeamBlue \<noteq> None \<and>
                (\<forall>side\<in>fst ` set m. teamValid side)"
  by (auto simp: flagsOk_def)

lemma flagsOk_mapPut: "flagsOk m \<Longrightarrow> teamValid t \<Longrightarrow> flagsOk (mapPut t b m)"
  by (auto simp: flagsOk_keys)

lemma zeroTimer_simps [simp]:
  "timerDuration zeroTimer = 0" "\<not> timerPaused zeroTimer" "timerOk zeroTimer"
  by (simp_all add: zeroTimer_def timerOk_def)

lemma newTimer_simps [simp]:
  "timerStartedAt (newTimer now d) = now" "timerDuration (newTimer now d) = d"
  "\<not> timerPaused (newTimer now d)" "timerRemainingAtPause (newTimer now d) = 0"
  by (simp_all add: newTimer_def)

lemma newTimer_ok: "now \<noteq> 0 \<Longrightarrow> timerOk (newTimer now d) \<longleftrightarrow> 0 < d"
  by (auto simp: timerOk_def newTimer_def zeroTimer_def)

lemma timersValid_pos:
  "timersValid c \<Longrightarrow> 0 < tcBan c \<and> 0 < tcBanAdditional c \<and> 0 < tcPick c \<and>
     0 < tcPickAdditional c \<and> 0 < tcResultConfirmation c \<and>
     0 < tcResultConfirmationAdditional c \<and> 0 < tcTBPreparation c"
  by (simp add: timersValid_def)

lemma timerRemaining_bounds:
  "0 \<le> timerDuration t \<Longrightarrow> 0 \<le> timerRemaining t now"
  "0 \<le> timerDuration t \<Longrightarrow> \<not> timerPaused t \<Longrightarrow> timerRemaining t now \<le> timerDuration t"
  by (auto simp: timerRemaining_def Let_def)

lemma timerPause_ok:
  "timerOk t \<Longrightarrow> 0 < timerDuration t \<Longrightarrow> \<not> timerPaused t \<Longrightarrow> timerOk (timerPause t now)"
  using timerRemaining_bounds [of t now]
  by (auto simp: timerOk_def timerPause_def zeroTimer_def)

lemma timerPause_simps [simp]:
  "timerDuration (timerPause t now) = timerDuration t" "timerPaused (timerPause t now)"
  by (simp_all add: timerPause_def)

section \<open>Entering a pick\<close>

text \<open>
  The four ways \<open>enterPickOrTerminal\<close> can go, with the state it leaves. \<open>expire\<close> drops the
  TB request that turn 15 has made void.
\<close>

definition expire :: "State \<Rightarrow> State" where
  "expire s = s\<lparr>Phase := PhasePick,
     PendingTBRequest := (if Turn s > 14 then None else PendingTBRequest s)\<rparr>"

lemma shouldForceTB_cong:
  "Lifecycle s = Lifecycle t \<Longrightarrow> Phase s = Phase t \<Longrightarrow> Turn s = Turn t \<Longrightarrow> Board s = Board t \<Longrightarrow>
   RobberyUsed s = RobberyUsed t \<Longrightarrow> shouldForceTB s = shouldForceTB t"
  by (simp add: shouldForceTB_def forcedTB_cong [of s t])

lemma enterPickOrTerminal_state:
  "fst (enterPickOrTerminal s now) =
     (if shouldForceTB (expire s) then fst (startForcedTBPreparation (expire s) now)
      else if \<not> anStalemate (Analyze s) then (expire s)\<lparr>Timer := newTimer now (tcPick (Timers s))\<rparr>
      else
        let red = countOf (anWonCounts (Analyze s)) TeamRed;
            blue = countOf (anWonCounts (Analyze s)) TeamBlue;
            s3 = (expire s)\<lparr>Timer := zeroTimer, PendingTBRequest := None\<rparr>
        in if red = blue then
             s3\<lparr>Lifecycle := LifecycleAdjudicationRequired, Phase := PhaseNone, ActiveTeam := TeamNone,
                Stalemate := Some \<lparr>staleRedWonCount = red, staleBlueWonCount = blue\<rparr>\<rparr>
           else
             let winner = (if blue > red then TeamBlue else TeamRed)
             in finishMatch s3 winner
                  ((plainResult winner ResultReasonStalemateWonCount)
                     \<lparr>resRedWonCount := red, resBlueWonCount := blue\<rparr>))"
proof -
  have analyze: "Analyze (expire s) = Analyze s" by (rule Analyze_cong) (simp_all add: expire_def)
  have eq: "(case PendingTBRequest (s\<lparr>Phase := PhasePick\<rparr>) of
       Some pending \<Rightarrow> if Turn (s\<lparr>Phase := PhasePick\<rparr>) > 14
          then (s\<lparr>Phase := PhasePick, PendingTBRequest := None\<rparr>, f pending)
          else (s\<lparr>Phase := PhasePick\<rparr>, [])
     | None \<Rightarrow> (s\<lparr>Phase := PhasePick\<rparr>, [])) =
     (expire s, case PendingTBRequest s of
        Some pending \<Rightarrow> if Turn s > 14 then f pending else [] | None \<Rightarrow> [])" for f :: "TBRequestState \<Rightarrow> Event list"
    by (cases "PendingTBRequest s") (simp_all add: expire_def)
  have timers: "Timers (expire s) = Timers s" by (simp add: expire_def)
  show ?thesis
    unfolding enterPickOrTerminal_def Let_def eq prod.case analyze timers startForcedTBPreparation_def
    by (simp only: if_distrib [of fst] fst_conv)
qed

section \<open>The invariant after the pick is entered\<close>

text \<open>
  The part of the invariant that holds while a handler is about to open a pick: everything but
  the phase, the timer and the TB evidence.
\<close>

definition pickReady :: "State \<Rightarrow> bool" where
  "pickReady s \<longleftrightarrow>
     configOk s \<and> poolOk (PoolSlots s) \<and> boardShapeOk (PoolSlots s) (Board s) \<and>
     waitingIDs (boardPieces (Board s)) = [] \<and> PendingPieceID s = '''' \<and>
     Lifecycle s = LifecycleRunning \<and> Suspension s = None \<and> Winner s = None \<and>
     MatchResult s = None \<and> Stalemate s = None \<and> AbortReason s = '''' \<and> TBEntry s = None \<and>
     firstPickTurn \<le> Turn s \<and> ActiveTeam s = pickTeam (FirstPick s) (Turn s) \<and>
     (\<forall>p. PendingTBRequest s = Some p \<longrightarrow> tbReqID p \<noteq> '''' \<and> teamValid (tbReqRequestedBy p) \<and>
        tbReqBasis p = TBBasisCaptainAgreement \<and> 11 \<le> Turn s)"

lemma configOk_cong:
  "FirstBan s = FirstBan t \<Longrightarrow> FirstPick s = FirstPick t \<Longrightarrow> Rosters s = Rosters t \<Longrightarrow>
   Timers s = Timers t \<Longrightarrow> RobberyUsed s = RobberyUsed t \<Longrightarrow> TeamPauseUsed s = TeamPauseUsed t \<Longrightarrow>
   configOk s = configOk t"
  by (simp add: configOk_def)

lemma configOk_frame [frame_simps]:
  "configOk (s\<lparr>Version := v\<rparr>) = configOk s" "configOk (s\<lparr>Lifecycle := l\<rparr>) = configOk s"
  "configOk (s\<lparr>Phase := ph\<rparr>) = configOk s" "configOk (s\<lparr>Turn := n\<rparr>) = configOk s"
  "configOk (s\<lparr>ActiveTeam := a\<rparr>) = configOk s" "configOk (s\<lparr>PoolSlots := po\<rparr>) = configOk s"
  "configOk (s\<lparr>Board := b\<rparr>) = configOk s" "configOk (s\<lparr>Timer := t\<rparr>) = configOk s"
  "configOk (s\<lparr>PendingPieceID := pid\<rparr>) = configOk s"
  "configOk (s\<lparr>PendingTBRequest := pr\<rparr>) = configOk s" "configOk (s\<lparr>TBEntry := te\<rparr>) = configOk s"
  "configOk (s\<lparr>Winner := w\<rparr>) = configOk s" "configOk (s\<lparr>MatchResult := mr\<rparr>) = configOk s"
  "configOk (s\<lparr>Stalemate := st\<rparr>) = configOk s" "configOk (s\<lparr>Suspension := su\<rparr>) = configOk s"
  "configOk (s\<lparr>AbortReason := r\<rparr>) = configOk s"
  by (rule configOk_cong; simp)+

lemmas core_defs = coreOk_def boardStateOk_iff lifecycleOk_def activeOk_def phaseOk_def pendingOk_def
  tbOk_def entryOk_def idleOk_def waitingOk_def

lemma expire_simps [simp]:
  "Lifecycle (expire s) = Lifecycle s" "Phase (expire s) = PhasePick" "Turn (expire s) = Turn s"
  "Board (expire s) = Board s" "RobberyUsed (expire s) = RobberyUsed s"
  "PoolSlots (expire s) = PoolSlots s" "Timers (expire s) = Timers s"
  "PendingTBRequest (expire s) = (if Turn s > 14 then None else PendingTBRequest s)"
  "TBEntry (expire s) = TBEntry s" "ActiveTeam (expire s) = ActiveTeam s"
  by (simp_all add: expire_def)

lemma expire_ready: "pickReady s \<Longrightarrow> pickReady (expire s)"
  by (auto simp: pickReady_def expire_def frame_simps)

lemma forced_core:
  assumes "pickReady s" "now \<noteq> 0" "forcedTBRequirementsMet s"
  shows "coreOk (fst (startForcedTBPreparation s now))"
  using assms timersValid_pos [of "Timers s"]
  by (simp add: startForcedTBPreparation_def pickReady_def core_defs frame_simps newTimer_ok)
     (simp add: configOk_def)

lemma pick_core:
  assumes "pickReady s" "now \<noteq> 0" "Phase s = PhasePick" "\<not> forcedTBRequirementsMet s"
    "Turn s \<le> 14 \<or> PendingTBRequest s = None"
  shows "coreOk (s\<lparr>Timer := newTimer now (tcPick (Timers s))\<rparr>)"
  using assms timersValid_pos [of "Timers s"]
  by (simp add: pickReady_def core_defs frame_simps newTimer_ok split: option.splits)
     (auto simp: configOk_def)

lemma finish_core:
  assumes "configOk s" "poolOk (PoolSlots s)" "boardShapeOk (PoolSlots s) (Board s)"
    "firstBanTurn \<le> Turn s" "\<forall>e. TBEntry s = Some e \<longrightarrow> entryOk s e"
    "teamValid w" "resWinner r = w"
    "resultOk (finishMatch s w r) r"
  shows "coreOk (finishMatch s w r) \<longleftrightarrow> waitingIDs (boardPieces (Board s)) = []"
  using assms
  by (auto simp: finishMatch_def core_defs frame_simps split: TBBasis.splits)

lemma stalemateOk_frame:
  "PoolSlots s = PoolSlots t \<Longrightarrow> Board s = Board t \<Longrightarrow> stalemateOk s r b = stalemateOk t r b"
  by (simp add: stalemateOk_def Analyze_cong [of s t])

lemma enterPick_core:
  assumes ready: "pickReady s" and now: "now \<noteq> 0"
  shows "coreOk (fst (enterPickOrTerminal s now))"
proof -
  let ?e = "expire s"
  have e: "pickReady ?e" using ready by (rule expire_ready)
  let ?red = "countOf (anWonCounts (Analyze s)) TeamRed"
  let ?blue = "countOf (anWonCounts (Analyze s)) TeamBlue"
  let ?s3 = "?e\<lparr>Timer := zeroTimer, PendingTBRequest := None\<rparr>"
  have force: "shouldForceTB ?e \<longleftrightarrow> forcedTBRequirementsMet ?e"
    using ready by (simp add: shouldForceTB_def pickReady_def)
  have adj: "coreOk (?s3\<lparr>Lifecycle := LifecycleAdjudicationRequired, Phase := PhaseNone,
        ActiveTeam := TeamNone,
        Stalemate := Some \<lparr>staleRedWonCount = ?red, staleBlueWonCount = ?blue\<rparr>\<rparr>)"
    if "anStalemate (Analyze s)" "?red = ?blue"
    using e that stalemateOk_frame [of ?e s]
    by (simp add: pickReady_def core_defs frame_simps stalemateOk_def Analyze_cong [of ?e s])
  have fin: "coreOk (finishMatch ?s3 w r)"
    if "anStalemate (Analyze s)" "?red \<noteq> ?blue" "w = (if ?blue > ?red then TeamBlue else TeamRed)"
      "r = (plainResult w ResultReasonStalemateWonCount)\<lparr>resRedWonCount := ?red, resBlueWonCount := ?blue\<rparr>"
    for w r
  proof -
    have "resultOk (finishMatch ?s3 w r) r"
      using that e stalemateCounts_nonneg [of s]
      by (auto simp: resultOk_def validateResultEvidence_def plainResult_def finishMatch_def
          frame_simps pickReady_def Analyze_cong [of ?e s])
    then show ?thesis
      using e that finish_core [of ?s3 w r]
      by (auto simp: pickReady_def plainResult_def turn_consts frame_simps)
  qed
  show ?thesis
    unfolding enterPickOrTerminal_state Let_def
    using forced_core [OF e now] pick_core [OF e now] adj fin force by simp
qed

section \<open>Pool and board under the updates\<close>

lemma poolOk_mapPut:
  assumes "poolOk pool" "keysDistinct pool" "mapGet pool sid = Some slot"
    "slotMod slot' = slotMod slot" "slotOk sid slot'"
  shows "poolOk (mapPut sid slot' pool)"
proof -
  have "modCount m (mapPut sid slot' pool) = modCount m pool" for m
    unfolding modCount_def by (rule length_filter_mapPut_same [OF assms(3)]) (simp add: assms(4))
  then show ?thesis
    using assms by (auto simp: poolOk_def set_mapPut)
qed

lemma poolOk_slot:
  "poolOk pool \<Longrightarrow> mapGet pool sid = Some slot \<Longrightarrow> slotOk sid slot"
  by (auto simp: poolOk_def dest: mapGet_in_set)

lemma pieceOk_mapPut:
  assumes "pieceOk pool c p" "mapGet pool sid = Some slot" "slotState slot \<noteq> PoolSlotSelected"
  shows "pieceOk (mapPut sid slot' pool) c p"
  using assms by (auto simp: pieceOk_def)

lemma shape_unselected:
  assumes "boardShapeOk pool b" "mapGet pool sid = Some slot" "slotState slot \<noteq> PoolSlotSelected"
  shows "sid \<notin> set (sources (boardPieces b))"
  using mapGet_in_set [OF assms(2)] assms(1,3) by (fastforce simp: boardShapeOk_def)

lemma boardShapeOk_ban:
  assumes "boardShapeOk pool b" "keysDistinct pool" "mapGet pool sid = Some slot"
    "slotState slot = PoolSlotAvailable" "slotState slot' \<noteq> PoolSlotSelected"
  shows "boardShapeOk (mapPut sid slot' pool) b"
proof -
  have "sid \<notin> set (sources (boardPieces b))"
    using shape_unselected [OF assms(1,3)] assms(4) by simp
  then show ?thesis
    using assms pieceOk_mapPut [OF _ assms(3)] by (auto simp: boardShapeOk_def set_mapPut)
qed

lemma boardPlace_pieces:
  "boardEmpty b cell \<Longrightarrow> boardPieces (boardPlace b cell p) = boardPieces b @ [(cell, p)]"
  by (simp add: boardPlace_def boardEmpty_def mapPut_fresh)

lemma pieceIDs_append [simp]: "pieceIDs (ps @ qs) = pieceIDs ps @ pieceIDs qs"
  by (simp add: pieceIDs_def)

lemma sources_append [simp]: "sources (ps @ qs) = sources ps @ sources qs"
  by (simp add: sources_def)

lemma waitingIDs_append [simp]: "waitingIDs (ps @ qs) = waitingIDs ps @ waitingIDs qs"
  by (simp add: waitingIDs_def)

lemma boardShapeOk_place:
  assumes shape: "boardShapeOk pool b" and keys: "keysDistinct pool"
    and slot: "mapGet pool sid = Some slot" "slotState slot = PoolSlotAvailable" "slotID slot = sid"
    and cell: "boardEmpty b cell"
    and p: "pieceID p \<noteq> ''''" "\<not> containsPieceID b (pieceID p)" "pieceSourcePoolSlotID p = sid"
      "pieceMod p = slotMod slot" "teamValid (pieceSelectedBy p)" "forceModOk p" "outcomeOk p"
  shows "boardShapeOk (mapPut sid (slot\<lparr>slotState := PoolSlotSelected\<rparr>) pool) (boardPlace b cell p)"
proof -
  let ?pool = "mapPut sid (slot\<lparr>slotState := PoolSlotSelected\<rparr>) pool"
  have src: "sid \<notin> set (sources (boardPieces b))"
    using shape_unselected [OF shape slot(1)] slot(2) by simp
  have "pieceOk ?pool cell p"
    using cell p by (simp add: pieceOk_def boardEmpty_def)
  moreover have "\<forall>(c, q)\<in>set (boardPieces b). pieceOk ?pool c q"
    using shape pieceOk_mapPut [OF _ slot(1)] slot(2) by (fastforce simp: boardShapeOk_def)
  moreover have "boardNil (boardPlace b cell p) = boardNil b" by (simp add: boardPlace_def)
  ultimately show ?thesis
    using shape src p keys slot
    by (auto simp: boardShapeOk_def boardPlace_pieces [OF cell] containsPieceID_iff set_mapPut)
qed

lemma sources_mapPieces:
  "(\<And>p. pieceSourcePoolSlotID (f p) = pieceSourcePoolSlotID p) \<Longrightarrow>
   sources (mapPieces f ps) = sources ps"
  by (induction ps) auto

lemma boardShapeOk_mapPieces:
  assumes "boardShapeOk pool \<lparr>boardPieces = ps, boardNil = False\<rparr>"
    and f: "\<And>p. pieceID (f p) = pieceID p" "\<And>p. pieceSourcePoolSlotID (f p) = pieceSourcePoolSlotID p"
      "\<And>p. pieceMod (f p) = pieceMod p" "\<And>p. pieceForceMod (f p) = pieceForceMod p"
      "\<And>p. pieceSelectedBy (f p) = pieceSelectedBy p"
    and outcome: "\<And>c p. (c, p) \<in> set ps \<Longrightarrow> outcomeOk p \<Longrightarrow> outcomeOk (f p)"
  shows "boardShapeOk pool \<lparr>boardPieces = mapPieces f ps, boardNil = False\<rparr>"
proof -
  have "pieceOk pool c (f p)" if "(c, p) \<in> set ps" "pieceOk pool c p" for c p
    using that outcome f by (auto simp: pieceOk_def forceModOk_def)
  then show ?thesis
    using assms(1)
    by (fastforce simp: boardShapeOk_def set_mapPieces pieceIDs_mapPieces sources_mapPieces f)
qed

lemma board_eta: "\<not> boardNil b \<Longrightarrow> \<lparr>boardPieces = boardPieces b, boardNil = False\<rparr> = b"
  by (cases b) simp

lemma boardShapeOk_nil: "boardShapeOk pool b \<Longrightarrow> \<not> boardNil b"
  by (simp add: boardShapeOk_def)

lemma outcomeOk_ownPiece: "outcomeOk p \<Longrightarrow> teamValid t \<Longrightarrow> outcomeOk (ownPiece pid t p)"
  by (auto simp: ownPiece_def outcomeOk_def ownerValid_def)

lemma setOwner_shape:
  assumes "boardShapeOk pool b" "setOwner b pid t = Some b'" "teamValid t"
  shows "boardShapeOk pool b' \<and> boardPieces b' = mapPieces (ownPiece pid t) (boardPieces b)"
proof -
  have "distinct (pieceIDs (boardPieces b))" using assms(1) by (simp add: boardShapeOk_def)
  then have b': "b' = b\<lparr>boardPieces := mapPieces (ownPiece pid t) (boardPieces b)\<rparr>"
    using assms(2) by (auto simp: setOwner_eq split: if_splits)
  have "boardShapeOk pool \<lparr>boardPieces = mapPieces (ownPiece pid t) (boardPieces b), boardNil = False\<rparr>"
    using assms board_eta [OF boardShapeOk_nil [OF assms(1)]]
    by (intro boardShapeOk_mapPieces) (simp_all add: outcomeOk_ownPiece)
  then show ?thesis
    using boardShapeOk_nil [OF assms(1)] by (cases b) (simp add: b')
qed

lemma waitingIDs_ownPiece:
  "waitingIDs (mapPieces (ownPiece pid t) ps) = filter (\<lambda>x. x \<noteq> pid) (waitingIDs ps)"
  by (induction ps) (auto simp: ownPiece_def)

lemma waitingIDs_robbedPiece:
  "waitingIDs ps = [] \<Longrightarrow> waitingIDs (mapPieces (robbedPiece t pid sac) ps) = []"
  by (induction ps) (auto simp: ownPiece_def robbedPiece_def deadPiece_def split: if_splits)

lemma robbedPiece_simps [simp]:
  "pieceID (robbedPiece t pid sac p) = pieceID p"
  "pieceSourcePoolSlotID (robbedPiece t pid sac p) = pieceSourcePoolSlotID p"
  "pieceMod (robbedPiece t pid sac p) = pieceMod p"
  "pieceForceMod (robbedPiece t pid sac p) = pieceForceMod p"
  "pieceSelectedBy (robbedPiece t pid sac p) = pieceSelectedBy p"
  by (simp_all add: robbedPiece_def)

text \<open>Sacrificed pieces are won by the team, so they keep a valid owner.\<close>

lemma sacrificeLegal_won:
  assumes "boardOk b" "sacrificeLegal b team p sets" "pid \<in> set (concat sets)"
  shows "\<exists>c q. (c, q) \<in> set (boardPieces b) \<and> wonBy team q \<and> pieceID q = pid"
proof -
  obtain sets' where plan: "planLegal b team p sets'" and eq: "set (concat sets') = set (concat sets)"
    using sacrificeLegal_planLegal [OF assms(1,2)] by blast
  have "pid \<in> set (concat sets')" using assms(3) eq by simp
  then obtain a len where "a \<in> set (FindAlignments b team len)" "pid \<in> set (alBoardPieceIDs a)"
    using plan pairs_subset by (fastforce simp: planLegal_def singles_iff doubles_iff split: if_splits)
  then show ?thesis using alignment_ids(4) [OF assms(1)] by blast
qed

lemma robbery_shape:
  assumes shape: "boardShapeOk pool b" and keys: "keysDistinct (boardPieces b)"
    and legal: "sacrificeLegal b team p sets" and valid: "teamValid team"
    and after: "boardAfterRobbery b team pid (concat sets) len = Some b'"
  shows "boardShapeOk pool b' \<and> boardPieces b' = mapPieces (robbedPiece team pid (concat sets)) (boardPieces b)"
proof -
  have ok: "boardOk b" using boardShapeOk_boardOk [OF shape keys] .
  have b': "b' = \<lparr>boardPieces = mapPieces (robbedPiece team pid (concat sets)) (boardPieces b), boardNil = False\<rparr>"
    using after boardAfterRobbery_Some [OF ok] by simp
  have "outcomeOk (robbedPiece team pid (concat sets) q)"
    if q: "(c, q) \<in> set (boardPieces b)" "outcomeOk q" for c q
  proof (cases "pieceID q \<in> set (concat sets)")
    case True
    from sacrificeLegal_won [OF ok legal this] obtain c' q' where
      q': "(c', q') \<in> set (boardPieces b)" "wonBy team q'" "pieceID q' = pieceID q" by blast
    have "q' = q" using pieceIDs_inj [OF boardOkD(2) [OF ok] q'(1) q(1) q'(3)] by simp
    with q'(2) have "outcomeOk (deadPiece (concat sets) q)"
      using valid by (simp add: deadPiece_def wonBy_def outcomeOk_def ownerValid_def)
    then show ?thesis by (simp add: robbedPiece_def outcomeOk_ownPiece valid)
  next
    case False
    then show ?thesis using q(2) by (simp add: robbedPiece_def deadPiece_def outcomeOk_ownPiece valid)
  qed
  then have "boardShapeOk pool b'"
    unfolding b' using shape board_eta [OF boardShapeOk_nil [OF shape]]
    by (intro boardShapeOk_mapPieces) simp_all
  then show ?thesis by (simp add: b')
qed

section \<open>Each handler keeps the invariant\<close>

definition keeps :: "State \<Rightarrow> bool" where
  "keeps s \<longleftrightarrow> coreOk s \<and> Lifecycle s \<noteq> LifecycleReady"

lemma coreOk_parts:
  assumes "coreOk s"
  shows "configOk s" "poolOk (PoolSlots s)" "boardShapeOk (PoolSlots s) (Board s)"
    "timerOk (Timer s)" "lifecycleOk s" "teamValid (FirstBan s)" "teamValid (FirstPick s)"
    "timersValid (Timers s)"
  using assms by (simp_all add: coreOk_def boardStateOk_iff configOk_def)

lemma stateClone_id: "coreOk s \<Longrightarrow> stateClone s = s"
  using boardShapeOk_nil [OF coreOk_parts(3), of s]
  by (cases s) (simp add: stateClone_def boardClone_def board_eta)

lemma Running_active:
  "coreOk s \<Longrightarrow> Lifecycle s = LifecycleRunning \<Longrightarrow> activeOk s \<and> Suspension s = None"
  by (simp add: coreOk_def lifecycleOk_def)

lemma pick_ready:
  assumes "coreOk s" "Lifecycle s = LifecycleRunning" "Phase s = PhasePick"
  shows "pickReady s"
  using Running_active [OF assms(1,2)] assms
  by (simp add: pickReady_def activeOk_def phaseOk_def pendingOk_def tbOk_def
      coreOk_def boardStateOk_iff waitingOk_def)

lemma timer_anchor:
  assumes "coreOk s" "Lifecycle s = LifecycleRunning" "requiresTimer (Phase s)"
  shows "0 < timerDuration (Timer s) \<and> timerStartedAt (Timer s) \<noteq> 0"
proof -
  have d: "0 < timerDuration (Timer s)"
    using Running_active [OF assms(1,2)] assms(3)
    by (auto simp: activeOk_def phaseOk_def requiresTimer_def)
  moreover from d have "Timer s \<noteq> zeroTimer" by auto
  ultimately show ?thesis using coreOk_parts(4) [OF assms(1)] by (simp add: timerOk_def)
qed

lemma advancePick_core:
  assumes "pickReady s" "now \<noteq> 0"
  shows "coreOk (fst (advancePick s now))"
proof -
  have "pickReady (s\<lparr>Turn := Turn s + 1, ActiveTeam := pickTeam (FirstPick s) (Turn s + 1)\<rparr>)"
    using assms(1) by (auto simp: pickReady_def frame_simps)
  from enterPick_core [OF this assms(2)] show ?thesis
    by (simp add: advancePick_def Let_def split_beta)
qed

lemma pickTeam_first [simp]: "pickTeam t firstPickTurn = t"
  by (simp add: pickTeam_pos firstPickTurn_def)

lemma advanceBan_core:
  assumes core: "coreOk s" and run: "Lifecycle s = LifecycleRunning" "Phase s = PhaseBan"
    and now: "now \<noteq> 0"
  shows "coreOk (fst (advanceBan s now))"
proof -
  have act: "activeOk s" "Suspension s = None" using Running_active [OF core run(1)] by auto
  have turn: "Turn s \<in> {-3, -2, -1, 0}"
    using act run(2) by (auto simp: activeOk_def phaseOk_def turn_consts)
  have none: "PendingTBRequest s = None" "TBEntry s = None"
    using act run(2) by (auto simp: activeOk_def pendingOk_def tbOk_def split: option.splits)
  show ?thesis
  proof (cases "Turn s = 0")
    case True
    have "pickReady (s\<lparr>Turn := firstPickTurn, ActiveTeam := FirstPick s\<rparr>)"
      using act run none core
      by (simp add: pickReady_def frame_simps activeOk_def coreOk_def boardStateOk_iff waitingOk_def)
    from enterPick_core [OF this now] True show ?thesis
      by (simp add: advanceBan_def Let_def split_beta finalBanTurn_def)
  next
    case False
    then show ?thesis
      using act run none core turn timersValid_pos [OF coreOk_parts(8) [OF core]] now
      by (auto simp: advanceBan_def Let_def core_defs frame_simps banTeam_def turn_consts newTimer_ok)
  qed
qed

lemma enterPick_Lifecycle:
  "Lifecycle s = LifecycleRunning \<Longrightarrow> Lifecycle (fst (enterPickOrTerminal s now)) \<noteq> LifecycleReady"
  by (simp add: enterPickOrTerminal_state Let_def startForcedTBPreparation_def finishMatch_def)

lemma advance_Lifecycle:
  "Lifecycle s = LifecycleRunning \<Longrightarrow> Lifecycle (fst (advancePick s now)) \<noteq> LifecycleReady"
  "Lifecycle s = LifecycleRunning \<Longrightarrow> Lifecycle (fst (advanceBan s now)) \<noteq> LifecycleReady"
  using enterPick_Lifecycle
  by (simp_all add: advancePick_def advanceBan_def Let_def split_beta)

lemma requireRunningPhase_None [accept_simps]:
  "requireRunningPhase s ph = None \<longleftrightarrow> Lifecycle s = LifecycleRunning \<and> Phase s = ph"
  by (simp add: requireRunningPhase_def)

lemma requireActiveStrategist_None [accept_simps]:
  "requireActiveStrategist s actor = None \<longleftrightarrow>
     actorCapability actor = CapabilityStrategist \<and> actorTeam actor = Some (ActiveTeam s) \<and>
     teamValid (ActiveTeam s)"
  by (auto simp: requireActiveStrategist_def split: option.splits)

lemma requireStrategistTimer_None [accept_simps]:
  "requireStrategistTimer t now = None \<longleftrightarrow> \<not> timerPaused t \<and> \<not> timerExpired t now"
  by (simp add: requireStrategistTimer_def)

lemma startMatch_keeps:
  assumes "coreOk s" "now \<noteq> 0" "startMatch s actor now = Inr (s', ev)"
  shows "keeps s'"
  using assms timersValid_pos [OF coreOk_parts(8) [OF assms(1)]]
  by (auto simp: startMatch_def accept_simps keeps_def core_defs frame_simps newTimer_ok
      banTeam_def turn_consts)

lemma banPoolSlot_keeps:
  assumes core: "coreOk s" and maps: "mapsOk s" and now: "now \<noteq> 0"
    and step: "banPoolSlot s actor sid now = Inr (s', ev)"
  shows "keeps s'"
proof -
  from step obtain slot where run: "Lifecycle s = LifecycleRunning" "Phase s = PhaseBan"
    and slot: "mapGet (PoolSlots s) sid = Some slot" "slotState slot = PoolSlotAvailable"
      "slotMod slot \<noteq> ModShiro" "slotMod slot \<noteq> ModTB"
    and s': "s' = fst (advanceBan (s\<lparr>PoolSlots :=
        mapPut (slotID slot) (slot\<lparr>slotState := PoolSlotBanned\<rparr>) (PoolSlots s)\<rparr>) now)"
    by (auto simp: banPoolSlot_def accept_simps Let_def split_beta)
  have keys: "keysDistinct (PoolSlots s)" using maps by (simp add: mapsOk_def)
  have ok: "slotOk sid slot" using poolOk_slot [OF coreOk_parts(2) [OF core] slot(1)] .
  then have sid: "slotID slot = sid" by (simp add: slotOk_def)
  let ?pool = "mapPut sid (slot\<lparr>slotState := PoolSlotBanned\<rparr>) (PoolSlots s)"
  have "poolOk ?pool"
    using ok slot by (intro poolOk_mapPut [OF coreOk_parts(2) [OF core] keys slot(1)]) (auto simp: slotOk_def)
  moreover have "boardShapeOk ?pool (Board s)"
    using slot by (intro boardShapeOk_ban [OF coreOk_parts(3) [OF core] keys slot(1)]) simp_all
  ultimately have "coreOk (s\<lparr>PoolSlots := ?pool\<rparr>)"
    using core run by (simp add: core_defs frame_simps banTeam_def)
  from advanceBan_core [OF this _ _ now] advance_Lifecycle(2) show ?thesis
    using run by (simp add: s' sid keeps_def)
qed

lemma placePiece_keeps:
  assumes core: "coreOk s" and maps: "mapsOk s" and now: "now \<noteq> 0"
    and step: "placePiece s actor sid pid cell now = Inr (s', ev)"
  shows "keeps s' \<longleftrightarrow> PendingTBRequest s = None"
proof -
  from step obtain slot zone fm where run: "Lifecycle s = LifecycleRunning" "Phase s = PhasePick"
    and team: "teamValid (ActiveTeam s)" and pid: "pid \<noteq> ''''" "\<not> containsPieceID (Board s) pid"
    and slot: "mapGet (PoolSlots s) sid = Some slot" "slotState slot = PoolSlotAvailable"
      "slotMod slot \<noteq> ModShiro" "slotMod slot \<noteq> ModTB"
    and cell: "boardEmpty (Board s) cell" and fm: "placementForceMod (slotMod slot) zone = Inr fm"
    and s': "s' = s\<lparr>Board := boardPlace (Board s) cell
                      \<lparr>pieceID = pid, pieceSourcePoolSlotID = slotID slot,
                       pieceMod = slotMod slot, pieceForceMod = fm,
                       pieceSelectedBy = ActiveTeam s, pieceOwner = None,
                       pieceOutcome = OutcomeWaitingResult\<rparr>,
                    PoolSlots :=
                      mapPut (slotID slot) (slot\<lparr>slotState := PoolSlotSelected\<rparr>) (PoolSlots s),
                    Phase := PhaseWaitingForResult, PendingPieceID := pid,
                    Timer := newTimer now (tcResultConfirmation (Timers s))\<rparr>"
    by (auto simp: placePiece_def accept_simps Let_def)
  have keys: "keysDistinct (PoolSlots s)" using maps by (simp add: mapsOk_def)
  have ok: "slotOk sid slot" using poolOk_slot [OF coreOk_parts(2) [OF core] slot(1)] .
  then have sid: "slotID slot = sid" by (simp add: slotOk_def)
  have ready: "pickReady s" using pick_ready [OF core run] .
  have "poolOk (PoolSlots s')"
    using ok slot sid by (simp add: s') (intro poolOk_mapPut [OF coreOk_parts(2) [OF core] keys slot(1)], auto simp: slotOk_def)
  moreover have "forceModOk \<lparr>pieceID = pid, pieceSourcePoolSlotID = sid, pieceMod = slotMod slot,
      pieceForceMod = fm, pieceSelectedBy = ActiveTeam s, pieceOwner = None,
      pieceOutcome = OutcomeWaitingResult\<rparr>"
    using fm by (auto simp: forceModOk_def placementForceMod_def split: Mod.splits Zone.splits if_splits)
  then have "boardShapeOk (PoolSlots s') (Board s')"
    using slot sid team pid
    by (simp add: s') (intro boardShapeOk_place [OF coreOk_parts(3) [OF core] keys slot(1,2) sid cell],
        simp_all add: outcomeOk_def)
  moreover have "waitingIDs (boardPieces (Board s')) = [pid]"
    using ready by (simp add: s' boardPlace_pieces [OF cell] pickReady_def)
  ultimately show ?thesis
    using ready run now timersValid_pos [OF coreOk_parts(8) [OF core]] coreOk_parts(1) [OF core]
    by (auto simp: keeps_def core_defs s' frame_simps pickReady_def newTimer_ok split: option.splits)
qed

lemma finishMatch_simps [simp]:
  "Lifecycle (finishMatch s w r) = LifecycleFinished" "Phase (finishMatch s w r) = PhaseNone"
  "Version (finishMatch s w r) = Version s" "Board (finishMatch s w r) = Board s"
  "PoolSlots (finishMatch s w r) = PoolSlots s" "MatchResult (finishMatch s w r) = Some r"
  "Winner (finishMatch s w r) = Some w" "Rosters (finishMatch s w r) = Rosters s"
  "TBEntry (finishMatch s w r) = TBEntry s" "TeamPauseUsed (finishMatch s w r) = TeamPauseUsed s"
  "RobberyUsed (finishMatch s w r) = RobberyUsed s" "Turn (finishMatch s w r) = Turn s"
  "FirstBan (finishMatch s w r) = FirstBan s" "FirstPick (finishMatch s w r) = FirstPick s"
  "Timers (finishMatch s w r) = Timers s"
  by (simp_all add: finishMatch_def)

lemma startForced_simps [simp]:
  "Lifecycle (fst (startForcedTBPreparation s now)) = Lifecycle s"
  "Version (fst (startForcedTBPreparation s now)) = Version s"
  "Board (fst (startForcedTBPreparation s now)) = Board s"
  "PoolSlots (fst (startForcedTBPreparation s now)) = PoolSlots s"
  "Rosters (fst (startForcedTBPreparation s now)) = Rosters s"
  "TeamPauseUsed (fst (startForcedTBPreparation s now)) = TeamPauseUsed s"
  "RobberyUsed (fst (startForcedTBPreparation s now)) = RobberyUsed s"
  "Turn (fst (startForcedTBPreparation s now)) = Turn s"
  "FirstBan (fst (startForcedTBPreparation s now)) = FirstBan s"
  "FirstPick (fst (startForcedTBPreparation s now)) = FirstPick s"
  "Timers (fst (startForcedTBPreparation s now)) = Timers s"
  by (simp_all add: startForcedTBPreparation_def)

lemma findShiro_Some:
  assumes "poolOk pool" "keysDistinct pool" "findShiro pool = Some slot"
  shows "mapGet pool (slotID slot) = Some slot \<and> slotMod slot = ModShiro"
proof -
  obtain sid where "(sid, slot) \<in> set pool" "slotMod slot = ModShiro"
    using assms(3) by (auto simp: findShiro_def dest!: firstEntry_Some)
  then show ?thesis
    using assms(1,2) by (auto simp: poolOk_def slotOk_def mapGet_iff)
qed

lemma placeShiro_keeps:
  assumes core: "coreOk s" and maps: "mapsOk s" and now: "now \<noteq> 0"
    and step: "placeShiro s actor pid cell now = Inr (s', ev)"
  shows "keeps s'"
proof -
  from step obtain slot where run: "Lifecycle s = LifecycleRunning" "Phase s = PhasePick"
    and team: "teamValid (ActiveTeam s)" and pid: "pid \<noteq> ''''" "\<not> containsPieceID (Board s) pid"
    and find: "findShiro (PoolSlots s) = Some slot" and avail: "slotState slot = PoolSlotAvailable"
    and cell: "boardEmpty (Board s) cell"
    and s': "s' = fst (advancePick (s\<lparr>Board := boardPlace (Board s) cell
                         \<lparr>pieceID = pid, pieceSourcePoolSlotID = slotID slot,
                          pieceMod = ModShiro, pieceForceMod = None,
                          pieceSelectedBy = ActiveTeam s, pieceOwner = None,
                          pieceOutcome = OutcomeWhite\<rparr>,
                       PoolSlots :=
                         mapPut (slotID slot) (slot\<lparr>slotState := PoolSlotSelected\<rparr>) (PoolSlots s)\<rparr>) now)"
      (is "_ = fst (advancePick ?s1 now)")
    by (auto simp: placeShiro_def accept_simps Let_def split_beta)
  have keys: "keysDistinct (PoolSlots s)" using maps by (simp add: mapsOk_def)
  have slot: "mapGet (PoolSlots s) (slotID slot) = Some slot" "slotMod slot = ModShiro"
    using findShiro_Some [OF coreOk_parts(2) [OF core] keys find] by auto
  have ok: "slotOk (slotID slot) slot" using poolOk_slot [OF coreOk_parts(2) [OF core] slot(1)] .
  have ready: "pickReady s" using pick_ready [OF core run] .
  have "poolOk (PoolSlots ?s1)"
    using ok slot by simp (intro poolOk_mapPut [OF coreOk_parts(2) [OF core] keys slot(1)], auto simp: slotOk_def)
  moreover have "boardShapeOk (PoolSlots ?s1) (Board ?s1)"
    using slot team pid avail
    by simp (intro boardShapeOk_place [OF coreOk_parts(3) [OF core] keys slot(1) avail refl cell],
        simp_all add: outcomeOk_def forceModOk_def)
  moreover have "waitingIDs (boardPieces (Board ?s1)) = []"
    using ready by (simp add: boardPlace_pieces [OF cell] pickReady_def)
  ultimately have "pickReady ?s1"
    using ready by (simp add: pickReady_def frame_simps)
  from advancePick_core [OF this now] advance_Lifecycle(1) [of ?s1 now] run show ?thesis
    by (simp add: s' keeps_def)
qed

lemma robPiece_Inr:
  assumes step: "robPiece s actor pid sets now = Inr (s', ev)" and ok: "boardOk (Board s)"
  shows "\<exists>c p b. Lifecycle s = LifecycleRunning \<and> Phase s = PhasePick \<and> teamValid (ActiveTeam s) \<and>
     (c, p) \<in> set (boardPieces (Board s)) \<and> pieceID p = pid \<and>
     sacrificeLegal (Board s) (ActiveTeam s) p sets \<and>
     boardAfterRobbery (Board s) (ActiveTeam s) pid (concat sets) (if targetIsShiro p then 2 else 3) = Some b \<and>
     (let s1 = s\<lparr>Board := b, RobberyUsed := mapPut (ActiveTeam s) True (RobberyUsed s)\<rparr>
      in s' = (if hasFour b (ActiveTeam s)
               then finishMatch s1 (ActiveTeam s) (plainResult (ActiveTeam s) ResultReasonFourAlignment)
               else if shouldForceTB s1 then fst (startForcedTBPreparation s1 now) else s1))"
proof -
  have single: "\<not> (length sets \<noteq> 1 \<or> length (hd sets) \<noteq> 2 \<or> \<not> isAlignment (Board s) t (hd sets) 2) \<longleftrightarrow>
      (\<exists>x. sets = [x] \<and> isAlignment (Board s) t x 2)" for t
    by (cases sets rule: remdups_adj.cases) (auto simp: isAlignment_def)
  from step obtain c p b where p: "pieceByID (Board s) pid = Some (c, p)"
    and run: "Lifecycle s = LifecycleRunning" "Phase s = PhasePick" "teamValid (ActiveTeam s)"
    and t: "targetIsShiro p \<or> targetIsOpponent (ActiveTeam s) p" and d: "distinct (concat sets)"
    and v: "if targetIsShiro p then \<exists>x. sets = [x] \<and> isAlignment (Board s) (ActiveTeam s) x 2
            else validNormalRobberySacrifice (Board s) (ActiveTeam s) sets"
    and b: "boardAfterRobbery (Board s) (ActiveTeam s) (pieceID p) (concat sets) (if targetIsShiro p then 2 else 3) = Some b"
    and s': "s' = (let s1 = s\<lparr>Board := b, RobberyUsed := mapPut (ActiveTeam s) True (RobberyUsed s)\<rparr>
       in if hasFour b (ActiveTeam s)
               then finishMatch s1 (ActiveTeam s) (plainResult (ActiveTeam s) ResultReasonFourAlignment)
               else if shouldForceTB s1 then fst (startForcedTBPreparation s1 now) else s1)"
    unfolding robPiece_def accept_simps Let_def flattenSacrificeSets_eq single [symmetric]
    by (auto simp: accept_simps split_beta split: if_splits)
  from p have "(c, p) \<in> set (boardPieces (Board s))" "pieceID p = pid"
    using pieceByID_Some [OF boardOkD(2) [OF ok]] by auto
  then show ?thesis
    using run t d v b s' by (intro exI [of _ c] exI [of _ p] exI [of _ b]) (auto simp: sacrificeLegal_def Let_def)
qed

lemma robPiece_keeps:
  assumes core: "coreOk s" and maps: "mapsOk s" and now: "now \<noteq> 0"
    and step: "robPiece s actor pid sets now = Inr (s', ev)"
  shows "keeps s'"
proof -
  have keys: "keysDistinct (boardPieces (Board s))" using maps by (simp add: mapsOk_def)
  note shape = coreOk_parts(3) [OF core]
  from robPiece_Inr [OF step boardShapeOk_boardOk [OF shape keys]] obtain p b where
    run: "Lifecycle s = LifecycleRunning" "Phase s = PhasePick" and team: "teamValid (ActiveTeam s)"
    and legal: "sacrificeLegal (Board s) (ActiveTeam s) p sets"
    and after: "boardAfterRobbery (Board s) (ActiveTeam s) pid (concat sets)
                  (if targetIsShiro p then 2 else 3) = Some b"
    and s': "s' = (let s1 = s\<lparr>Board := b, RobberyUsed := mapPut (ActiveTeam s) True (RobberyUsed s)\<rparr>
       in if hasFour b (ActiveTeam s)
          then finishMatch s1 (ActiveTeam s) (plainResult (ActiveTeam s) ResultReasonFourAlignment)
          else if shouldForceTB s1 then fst (startForcedTBPreparation s1 now) else s1)"
    by (auto simp: Let_def)
  let ?s1 = "s\<lparr>Board := b, RobberyUsed := mapPut (ActiveTeam s) True (RobberyUsed s)\<rparr>"
  have ready: "pickReady s" using pick_ready [OF core run] .
  have b: "boardShapeOk (PoolSlots s) b" "waitingIDs (boardPieces b) = []"
    using robbery_shape [OF shape keys legal team after] waitingIDs_robbedPiece ready
    by (auto simp: pickReady_def)
  have cfg: "configOk ?s1"
    using coreOk_parts(1) [OF core] team by (simp add: configOk_def flagsOk_mapPut)
  have ready1: "pickReady ?s1" using ready b cfg by (simp add: pickReady_def)
  have "coreOk s'"
  proof (cases "hasFour b (ActiveTeam s)")
    case True
    have "coreOk (finishMatch ?s1 (ActiveTeam s) (plainResult (ActiveTeam s) ResultReasonFourAlignment))"
      using ready1 b cfg team True
      by (subst finish_core)
         (auto simp: pickReady_def plainResult_def resultOk_def validateResultEvidence_def finishMatch_def turn_consts)
    then show ?thesis using True by (simp add: s')
  next
    case False
    have force: "shouldForceTB ?s1 \<longleftrightarrow> forcedTBRequirementsMet ?s1"
      using run by (simp add: shouldForceTB_def)
    have "coreOk ?s1" if "\<not> forcedTBRequirementsMet ?s1"
      using ready1 core run that by (auto simp: pickReady_def core_defs)
    then show ?thesis using False force forced_core [OF ready1 now] by (simp add: s' Let_def)
  qed
  moreover have "Lifecycle s' \<noteq> LifecycleReady"
    using run by (simp add: s' Let_def)
  ultimately show ?thesis by (simp add: keeps_def)
qed

lemma timer_update_core:
  assumes "coreOk s" "Lifecycle s = LifecycleRunning" "0 < timerDuration (Timer s)"
  shows "coreOk (s\<lparr>Timer := t\<rparr>) \<longleftrightarrow> timerOk t \<and> 0 < timerDuration t"
proof -
  have act: "activeOk s" "Suspension s = None" using Running_active [OF assms(1,2)] by auto
  have "phaseOk (s\<lparr>Timer := t\<rparr>) \<longleftrightarrow> 0 < timerDuration t"
    using act assms(3)
    by (cases "Phase s") (simp_all add: activeOk_def phaseOk_def banTeam_def)
  moreover have "pendingOk (s\<lparr>Timer := t\<rparr>) = pendingOk s" by (simp add: pendingOk_def)
  moreover have "tbOk (s\<lparr>Timer := t\<rparr>) = tbOk s"
    by (simp add: tbOk_def entryOk_def frame_simps)
  ultimately have "activeOk (s\<lparr>Timer := t\<rparr>) \<longleftrightarrow> 0 < timerDuration t"
    using act by (simp add: activeOk_def)
  then show ?thesis
    using assms(1,2) act(2) by (simp add: coreOk_def boardStateOk_iff lifecycleOk_def frame_simps)
qed

section \<open>Timers, suspension, skip and abort\<close>

lemma phaseOk_cong:
  "Phase s = Phase t \<Longrightarrow> Turn s = Turn t \<Longrightarrow> FirstBan s = FirstBan t \<Longrightarrow> FirstPick s = FirstPick t \<Longrightarrow>
   ActiveTeam s = ActiveTeam t \<Longrightarrow> Timer s = Timer t \<Longrightarrow> phaseOk s = phaseOk t"
  by (cases "Phase t") (simp_all add: phaseOk_def banTeam_def)

lemma activeOk_cong:
  assumes "Phase s = Phase t" "Turn s = Turn t" "FirstBan s = FirstBan t" "FirstPick s = FirstPick t"
    "ActiveTeam s = ActiveTeam t" "Timer s = Timer t" "Board s = Board t"
    "RobberyUsed s = RobberyUsed t" "PendingTBRequest s = PendingTBRequest t" "TBEntry s = TBEntry t"
    "Winner s = Winner t" "MatchResult s = MatchResult t" "Stalemate s = Stalemate t"
    "AbortReason s = AbortReason t"
  shows "activeOk s = activeOk t"
proof -
  have "forcedTBRequirementsMet s = forcedTBRequirementsMet t"
    by (rule forcedTB_cong) (simp_all add: assms)
  moreover have "phaseOk s = phaseOk t"
    by (rule phaseOk_cong) (simp_all add: assms)
  ultimately show ?thesis
    by (simp add: activeOk_def pendingOk_def tbOk_def entryOk_def assms)
qed

lemma activeOk_frame [frame_simps]:
  "activeOk (s\<lparr>Version := v\<rparr>) = activeOk s" "activeOk (s\<lparr>Lifecycle := l\<rparr>) = activeOk s"
  "activeOk (s\<lparr>TeamPauseUsed := pu\<rparr>) = activeOk s" "activeOk (s\<lparr>Suspension := su\<rparr>) = activeOk s"
  by (rule activeOk_cong; simp)+

lemma grantAdditionalTime_keeps:
  assumes core: "coreOk s" and now: "now \<noteq> 0"
    and step: "grantAdditionalTime s actor reason now = Inr (s', ev)"
  shows "keeps s'"
proof -
  from step obtain d where run: "Lifecycle s = LifecycleRunning"
    and ph: "Phase s = PhaseBan \<or> Phase s = PhasePick \<or> Phase s = PhaseWaitingForResult"
    and team: "teamValid (ActiveTeam s)"
    and s': "s' = s\<lparr>TeamPauseUsed := mapPut (ActiveTeam s) True (TeamPauseUsed s), Timer := newTimer now d\<rparr>"
    and d: "d \<in> {tcBanAdditional (Timers s), tcResultConfirmationAdditional (Timers s), tcPickAdditional (Timers s)}"
    by (auto simp: grantAdditionalTime_def accept_simps Let_def)
  have pos: "0 < timerDuration (Timer s)"
    using timer_anchor [OF core run] ph by (auto simp: requiresTimer_def)
  have "coreOk (s\<lparr>Timer := newTimer now d\<rparr>)"
    using d timersValid_pos [OF coreOk_parts(8) [OF core]]
    by (subst timer_update_core [OF core run pos]) (auto simp: newTimer_ok now)
  moreover have "configOk s'"
    using coreOk_parts(1) [OF core] team by (simp add: s' configOk_def flagsOk_mapPut)
  moreover have "activeOk s' = activeOk (s\<lparr>Timer := newTimer now d\<rparr>)"
    by (rule activeOk_cong) (simp_all add: s')
  moreover have "Lifecycle s' = LifecycleRunning" "Suspension s' = Suspension s"
    "PoolSlots s' = PoolSlots s" "Board s' = Board s" "Phase s' = Phase s"
    "PendingPieceID s' = PendingPieceID s" "Timer s' = newTimer now d"
    using run by (simp_all add: s')
  ultimately show ?thesis
    using run by (simp add: keeps_def coreOk_def boardStateOk_iff lifecycleOk_def)
qed

lemma calibrateTimer_keeps:
  assumes core: "coreOk s" and now: "now \<noteq> 0"
    and step: "calibrateTimer s actor remaining reason now = Inr (s', ev)"
  shows "keeps s' \<longleftrightarrow>
     (if timerPaused (Timer s) then remaining \<le> timerDuration (Timer s) else 0 < remaining)"
proof -
  from step have run: "Lifecycle s = LifecycleRunning" and rem: "0 \<le> remaining"
    and t: "0 < timerDuration (Timer s) \<or> timerPaused (Timer s)"
    and s': "s' = s\<lparr>Timer := (if timerPaused (Timer s) then (Timer s)\<lparr>timerRemainingAtPause := remaining\<rparr>
                     else newTimer now remaining)\<rparr>"
    by (auto simp: calibrateTimer_def accept_simps)
  have pos: "0 < timerDuration (Timer s)"
    using t coreOk_parts(4) [OF core] by (auto simp: timerOk_def)
  show ?thesis
  proof (cases "timerPaused (Timer s)")
    case True
    have "timerOk ((Timer s)\<lparr>timerRemainingAtPause := remaining\<rparr>) \<longleftrightarrow> remaining \<le> timerDuration (Timer s)"
      using coreOk_parts(4) [OF core] pos rem True by (cases "Timer s") (auto simp: timerOk_def zeroTimer_def)
    then show ?thesis
      using True run pos timer_update_core [OF core run pos] by (simp add: keeps_def s')
  next
    case False
    then show ?thesis
      using run timer_update_core [OF core run pos] by (simp add: keeps_def s' newTimer_ok now)
  qed
qed

lemma pauseTimer_keeps:
  assumes core: "coreOk s" and step: "pauseTimer s actor reason now = Inr (s', ev)"
  shows "keeps s'"
proof -
  from step have run: "Lifecycle s = LifecycleRunning" and pos: "0 < timerDuration (Timer s)"
    and t: "\<not> timerPaused (Timer s)" and s': "s' = s\<lparr>Timer := timerPause (Timer s) now\<rparr>"
    by (auto simp: pauseTimer_def accept_simps)
  show ?thesis
    using run pos timer_update_core [OF core run pos] timerPause_ok [OF coreOk_parts(4) [OF core] pos t]
    by (simp add: keeps_def s')
qed

lemma timerResume_ok:
  "timerOk t \<Longrightarrow> now \<noteq> 0 \<Longrightarrow> timerOk (timerResume t now) \<longleftrightarrow> 0 < timerRemainingAtPause t"
  "timerOk t \<Longrightarrow> timerDuration (timerResume t now) = timerRemainingAtPause t"
proof -
  assume t: "timerOk t"
  then have "max (timerRemainingAtPause t) 0 = timerRemainingAtPause t"
    by (auto simp: timerOk_def zeroTimer_def)
  then show "timerDuration (timerResume t now) = timerRemainingAtPause t"
    and "now \<noteq> 0 \<Longrightarrow> timerOk (timerResume t now) \<longleftrightarrow> 0 < timerRemainingAtPause t"
    by (simp_all add: timerResume_def newTimer_ok)
qed

lemma resumeTimer_keeps:
  assumes core: "coreOk s" and now: "now \<noteq> 0"
    and step: "resumeTimer s actor reason now = Inr (s', ev)"
  shows "keeps s' \<longleftrightarrow> 0 < timerRemainingAtPause (Timer s)"
proof -
  from step have run: "Lifecycle s = LifecycleRunning" and t: "timerPaused (Timer s)"
    and s': "s' = s\<lparr>Timer := timerResume (Timer s) now\<rparr>"
    by (auto simp: resumeTimer_def accept_simps)
  have ok: "timerOk (Timer s)" using coreOk_parts(4) [OF core] .
  have pos: "0 < timerDuration (Timer s)" using t ok by (auto simp: timerOk_def)
  show ?thesis
    using run timer_update_core [OF core run pos] timerResume_ok [OF ok] now
    by (auto simp: keeps_def s')
qed

lemma coreOk_Running_iff:
  assumes "Lifecycle s = LifecycleRunning"
  shows "coreOk s \<longleftrightarrow> configOk s \<and> poolOk (PoolSlots s) \<and> boardShapeOk (PoolSlots s) (Board s) \<and>
     waitingOk (Phase s) (PendingPieceID s) (Board s) \<and> timerOk (Timer s) \<and> activeOk s \<and>
     Suspension s = None"
  using assms by (simp add: coreOk_def boardStateOk_iff lifecycleOk_def conj_assoc)

lemma coreOk_Suspended_iff:
  assumes "Lifecycle s = LifecycleSuspended"
  shows "coreOk s \<longleftrightarrow> configOk s \<and> poolOk (PoolSlots s) \<and> boardShapeOk (PoolSlots s) (Board s) \<and>
     waitingOk (Phase s) (PendingPieceID s) (Board s) \<and> timerOk (Timer s) \<and> activeOk s \<and>
     (\<exists>susp. Suspension s = Some susp \<and> suspensionOk s susp)"
  using assms by (simp add: coreOk_def boardStateOk_iff lifecycleOk_def conj_assoc)

lemma active_timer:
  "activeOk s \<Longrightarrow> timerOk (Timer s) \<Longrightarrow>
   0 < timerDuration (Timer s) \<or> timerDuration (Timer s) = 0 \<and> \<not> timerPaused (Timer s)"
  by (auto simp: timerOk_def)

text \<open>Running and suspended states differ in the suspension record only.\<close>

lemma unsuspend_core:
  assumes "coreOk s" "Lifecycle s = LifecycleSuspended"
  shows "coreOk (s\<lparr>Suspension := None, Lifecycle := LifecycleRunning\<rparr>)"
  using assms(1) unfolding coreOk_Suspended_iff [OF assms(2)]
  by (subst coreOk_Running_iff) (simp_all add: frame_simps)

lemma suspend_core:
  assumes "coreOk s" "Lifecycle s = LifecycleRunning" "\<not> blank reason" "now \<noteq> 0"
    "had \<longleftrightarrow> 0 < timerDuration (Timer s)" "was = timerPaused (Timer s)"
    "t = (if had \<and> \<not> was then timerPause (Timer s) now else Timer s)"
  shows "coreOk (s\<lparr>Timer := t, Lifecycle := LifecycleSuspended,
            Suspension := Some \<lparr>suspReason = reason, suspSuspendedAt = now,
               suspHadTimer = had, suspTimerWasPaused = was\<rparr>\<rparr>)" (is "coreOk ?s'")
proof -
  have core: "coreOk (s\<lparr>Timer := t\<rparr>)"
  proof (cases "had \<and> \<not> was")
    case True
    then show ?thesis
      using assms timer_update_core [OF assms(1,2)] timerPause_ok [OF coreOk_parts(4) [OF assms(1)]]
      by simp
  next
    case False
    then have "t = Timer s" using assms(7) by auto
    then show ?thesis using assms(1) by simp
  qed
  have act: "activeOk ?s' = activeOk (s\<lparr>Timer := t\<rparr>)"
    by (rule activeOk_cong) simp_all
  have susp: "suspensionOk ?s' \<lparr>suspReason = reason, suspSuspendedAt = now,
               suspHadTimer = had, suspTimerWasPaused = was\<rparr>"
    using assms active_timer [of s] core coreOk_parts(4) [OF assms(1)]
      Running_active [OF assms(1,2)]
    by (auto simp: suspensionOk_def timerOk_def)
  have cfg: "configOk ?s' = configOk (s\<lparr>Timer := t\<rparr>)" by (rule configOk_cong) simp_all
  show ?thesis
    using core assms(2) susp act cfg
    by (subst coreOk_Suspended_iff) (simp_all add: coreOk_Running_iff)
qed

lemma suspendMatch_keeps:
  assumes core: "coreOk s" and now: "now \<noteq> 0"
    and step: "suspendMatch s actor reason now = Inr (s', ev)"
  shows "keeps s'"
proof -
  let ?had = "timerDuration (Timer s) > 0 \<or> timerPaused (Timer s)"
  from step have run: "Lifecycle s = LifecycleRunning" and r: "\<not> blank reason"
    and s': "s' = s\<lparr>Timer := (if ?had \<and> \<not> timerPaused (Timer s) then timerPause (Timer s) now else Timer s),
        Lifecycle := LifecycleSuspended,
            Suspension := Some \<lparr>suspReason = reason, suspSuspendedAt = now,
               suspHadTimer = ?had, suspTimerWasPaused = timerPaused (Timer s)\<rparr>\<rparr>"
    by (auto simp: suspendMatch_def accept_simps Let_def missingReason_def split: if_splits)
  have "?had \<longleftrightarrow> 0 < timerDuration (Timer s)"
    using coreOk_parts(4) [OF core] by (auto simp: timerOk_def)
  from suspend_core [OF core run r now this refl refl] show ?thesis
    by (simp add: keeps_def s')
qed

lemma resumeMatch_keeps:
  assumes core: "coreOk s" and now: "now \<noteq> 0"
    and step: "resumeMatch s actor reason now = Inr (s', ev)"
  shows "keeps s' \<longleftrightarrow>
     (\<forall>susp. Suspension s = Some susp \<longrightarrow> suspHadTimer susp \<longrightarrow> suspTimerWasPaused susp \<or>
        0 < timerRemainingAtPause (Timer s))"
proof -
  let ?s1 = "s\<lparr>Suspension := None, Lifecycle := LifecycleRunning\<rparr>"
  from step obtain susp where run: "Lifecycle s = LifecycleSuspended" and susp: "Suspension s = Some susp"
    and s': "s' = (if suspHadTimer susp \<and> \<not> suspTimerWasPaused susp
                   then ?s1\<lparr>Timer := timerResume (Timer s) now\<rparr> else ?s1)"
    by (auto simp: resumeMatch_def accept_simps Let_def split: if_splits)
  have core1: "coreOk ?s1" using unsuspend_core [OF core run] .
  show ?thesis
  proof (cases "suspHadTimer susp \<and> \<not> suspTimerWasPaused susp")
    case True
    have paused: "timerPaused (Timer s)"
      using core True susp by (simp add: coreOk_Suspended_iff [OF run] suspensionOk_def)
    have ok: "timerOk (Timer s)" using coreOk_parts(4) [OF core] .
    then have pos: "0 < timerDuration (Timer s)" using paused by (auto simp: timerOk_def)
    show ?thesis
      using True susp timer_update_core [OF core1, of "timerResume (Timer s) now"] pos
        timerResume_ok [OF ok] now
      by (auto simp: keeps_def s')
  next
    case False
    then show ?thesis using core1 susp by (auto simp: keeps_def s')
  qed
qed

lemma enterPick_timer:
  "Lifecycle (fst (enterPickOrTerminal s now)) = LifecycleRunning \<Longrightarrow>
   \<exists>d. Timer (fst (enterPickOrTerminal s now)) = newTimer now d"
  by (auto simp: enterPickOrTerminal_state Let_def startForcedTBPreparation_def split: if_splits)

lemma advance_timer:
  "Lifecycle (fst (advancePick s now)) = LifecycleRunning \<Longrightarrow>
   \<exists>d. Timer (fst (advancePick s now)) = newTimer now d"
  "Lifecycle (fst (advanceBan s now)) = LifecycleRunning \<Longrightarrow>
   \<exists>d. Timer (fst (advanceBan s now)) = newTimer now d"
  using enterPick_timer
  by (auto simp: advancePick_def advanceBan_def Let_def split_beta split: if_splits)

lemma suspension_swap:
  "s\<lparr>Lifecycle := l, Suspension := su\<rparr> = s\<lparr>Suspension := su, Lifecycle := l\<rparr>"
  by simp

lemma timer_swap:
  "s\<lparr>Lifecycle := l, Timer := t, Suspension := su\<rparr> = s\<lparr>Timer := t, Lifecycle := l, Suspension := su\<rparr>"
  by simp

lemma skipCurrentAction_keeps:
  assumes core: "coreOk s" and now: "now \<noteq> 0"
    and step: "skipCurrentAction s actor reason now = Inr (s', ev)"
  shows "keeps s'"
proof -
  let ?s1 = "s\<lparr>Suspension := None, Lifecycle := LifecycleRunning\<rparr>"
  let ?s2 = "fst (if Phase s = PhaseBan then advanceBan ?s1 now else advancePick ?s1 now)"
  from step have life: "Lifecycle s = LifecycleRunning \<or> Lifecycle s = LifecycleSuspended"
    and r: "\<not> blank reason" and ph: "Phase s = PhaseBan \<or> Phase s = PhasePick"
    and s': "s' = (if Lifecycle s = LifecycleSuspended \<and> Lifecycle ?s2 = LifecycleRunning
       then ?s2\<lparr>Lifecycle := LifecycleSuspended, Timer := timerPause (Timer ?s2) now,
                Suspension := Some \<lparr>suspReason = reason, suspSuspendedAt = now,
                   suspHadTimer = True, suspTimerWasPaused = False\<rparr>\<rparr>
       else ?s2)"
    unfolding suspension_swap [symmetric]
    by (auto simp: skipCurrentAction_def accept_simps Let_def missingReason_def split_beta split: if_splits)
  have core1: "coreOk ?s1"
    using life unsuspend_core [OF core] core
    by (cases "Lifecycle s = LifecycleRunning") (auto simp: coreOk_Running_iff frame_simps)
  have core2: "coreOk ?s2"
    using ph advanceBan_core [OF core1 _ _ now] advancePick_core [OF pick_ready [OF core1] now] by auto
  have life2: "Lifecycle ?s2 \<noteq> LifecycleReady"
    using advance_Lifecycle [of ?s1 now] by simp
  show ?thesis
  proof (cases "Lifecycle s = LifecycleSuspended \<and> Lifecycle ?s2 = LifecycleRunning")
    case True
    have t: "0 < timerDuration (Timer ?s2)" "\<not> timerPaused (Timer ?s2)"
    proof -
      obtain d where d: "Timer ?s2 = newTimer now d"
        using True advance_timer [of ?s1 now] by (cases "Phase s = PhaseBan") auto
      then show "0 < timerDuration (Timer ?s2)" "\<not> timerPaused (Timer ?s2)"
        using coreOk_parts(4) [OF core2] newTimer_ok [OF now] by auto
    qed
    have "coreOk s'"
      using suspend_core [OF core2 _ r now, of True False "timerPause (Timer ?s2) now"] True t
      unfolding s' timer_swap by simp
    then show ?thesis using True s' by (simp add: keeps_def)
  next
    case False
    have "s' = ?s2" unfolding s' by (rule if_not_P [OF False])
    then show ?thesis using core2 life2 by (simp add: keeps_def)
  qed
qed

lemma entryOk_cong: "Turn s = Turn t \<Longrightarrow> Board s = Board t \<Longrightarrow> RobberyUsed s = RobberyUsed t \<Longrightarrow>
   entryOk s e = entryOk t e"
  by (simp add: entryOk_def forcedTB_cong [of s t])

text \<open>What a running or suspended match brings along when it ends.\<close>

lemma active_turn: "activeOk s \<Longrightarrow> firstBanTurn \<le> Turn s"
  by (auto simp: activeOk_def phaseOk_def turn_consts split: Phase.splits)

lemma active_entry: "activeOk s \<Longrightarrow> TBEntry s = Some e \<Longrightarrow> entryOk s e"
  by (auto simp: activeOk_def tbOk_def split: if_splits)

lemma live_active:
  "coreOk s \<Longrightarrow> Lifecycle s = LifecycleRunning \<or> Lifecycle s = LifecycleSuspended \<Longrightarrow> activeOk s"
  by (auto simp: coreOk_def lifecycleOk_def)

lemma waiting_empty:
  assumes "coreOk s"
  shows "waitingIDs (boardPieces (Board s)) = [] \<longleftrightarrow> Phase s \<noteq> PhaseWaitingForResult"
  using assms by (auto simp: coreOk_def boardStateOk_iff waitingOk_def)

lemma abortMatch_keeps:
  assumes core: "coreOk s" and step: "abortMatch s actor reason = Inr (s', ev)"
  shows "keeps s' \<longleftrightarrow> Phase s \<noteq> PhaseWaitingForResult"
proof -
  from step have live: "Lifecycle s = LifecycleRunning \<or> Lifecycle s = LifecycleSuspended"
    and r: "\<not> blank reason"
    and s': "s' = s\<lparr>Lifecycle := LifecycleAborted, Phase := PhaseNone, ActiveTeam := TeamNone,
           PendingPieceID := '''', PendingTBRequest := None, Suspension := None,
           Timer := zeroTimer, AbortReason := reason\<rparr>"
    by (auto simp: abortMatch_def accept_simps missingReason_def)
  have act: "activeOk s" using live_active [OF core live] .
  have "configOk s' = configOk s" by (rule configOk_cong) (simp_all add: s')
  moreover have "\<forall>e. TBEntry s' = Some e \<longrightarrow> entryOk s' e"
    using active_entry [OF act] entryOk_cong [of s' s] by (simp add: s')
  moreover have "Winner s = None" "MatchResult s = None" "Stalemate s = None" "firstBanTurn \<le> Turn s"
    using act active_turn [OF act] by (simp_all add: activeOk_def)
  ultimately show ?thesis
    using coreOk_parts [OF core] r waiting_empty [OF core]
    by (simp add: keeps_def coreOk_def boardStateOk_iff lifecycleOk_def idleOk_def waitingOk_def s')
qed

lemma finish_keeps:
  assumes core: "coreOk s" and live: "Lifecycle s = LifecycleRunning \<or> Lifecycle s = LifecycleSuspended"
    and r: "teamValid w" "resWinner r = w" "resultOk (finishMatch s w r) r"
  shows "keeps (finishMatch s w r) \<longleftrightarrow> Phase s \<noteq> PhaseWaitingForResult"
  using finish_core [OF coreOk_parts(1-3) [OF core] active_turn [OF live_active [OF core live]] _ r]
    active_entry [OF live_active [OF core live]] waiting_empty [OF core]
  by (simp add: keeps_def)

lemma confirmTBResult_keeps:
  assumes core: "coreOk s" and step: "confirmTBResult s actor team = Inr (s', ev)"
  shows "keeps s'"
proof -
  from step have run: "Lifecycle s = LifecycleRunning" "Phase s = PhaseTBPlaying" "teamValid team"
    and s': "s' = finishMatch s team (plainResult team ResultReasonTB)"
    by (auto simp: confirmTBResult_def accept_simps)
  have "TBEntry s \<noteq> None" using Running_active [OF core run(1)] run(2) by (auto simp: activeOk_def tbOk_def)
  then show ?thesis
    unfolding s' using run
    by (subst finish_keeps [OF core])
       (auto simp: resultOk_def validateResultEvidence_def plainResult_def)
qed

text \<open>Validating recorded evidence again accepts it, unchanged.\<close>

lemma collectEvidence_Some:
  "collectEvidence leader rostered uniq inc ps = Some (u, b) \<Longrightarrow>
   distinct uniq \<Longrightarrow> set uniq \<subseteq> set rostered \<Longrightarrow> (inc \<longleftrightarrow> leader \<in> set uniq) \<Longrightarrow>
   distinct u \<and> set u \<subseteq> set rostered \<and> (b \<longleftrightarrow> leader \<in> set u) \<and> set u = set uniq \<union> set ps"
proof (induction ps arbitrary: uniq inc)
  case (Cons p ps)
  from Cons.prems have p: "p \<in> set rostered"
    and rec: "collectEvidence leader rostered (if p \<in> set uniq then uniq else uniq @ [p])
       (if p \<in> set uniq then inc else inc \<or> p = leader) ps = Some (u, b)"
    by (auto split: if_splits)
  from Cons.IH [OF rec] Cons.prems p show ?case by (auto split: if_splits)
qed auto

lemma collectEvidence_distinct:
  "distinct (uniq @ ps) \<Longrightarrow> set ps \<subseteq> set rostered \<Longrightarrow>
   collectEvidence leader rostered uniq (leader \<in> set uniq) ps = Some (uniq @ ps, leader \<in> set (uniq @ ps))"
proof (induction ps arbitrary: uniq)
  case (Cons a ps)
  have "(leader \<in> set uniq \<or> a = leader) = (leader \<in> set (uniq @ [a]))" by auto
  with Cons.IH [of "uniq @ [a]"] Cons.prems show ?case by auto
qed simp

lemma validateSurrenderEvidence_distinct:
  assumes "distinct ids" "set ids \<subseteq> insert (rosterLeaderID roster) (set (rosterPlayerIDs roster))"
  shows "fst (validateSurrenderEvidence roster ids) = ids"
  using collectEvidence_distinct [of "[]" ids "rosterLeaderID roster # rosterPlayerIDs roster" "rosterLeaderID roster"] assms
  by (simp add: validateSurrenderEvidence_def)

lemma validateSurrenderEvidence_ok:
  "snd (validateSurrenderEvidence roster ids) \<longleftrightarrow>
     set ids \<subseteq> insert (rosterLeaderID roster) (set (rosterPlayerIDs roster)) \<and>
     rosterLeaderID roster \<in> set ids \<and> 4 \<le> card (set ids)"
  (is "_ \<longleftrightarrow> ?rhs")
proof (cases "collectEvidence (rosterLeaderID roster) (rosterLeaderID roster # rosterPlayerIDs roster)
               [] False ids")
  case None
  have "collectEvidence leader rostered uniq inc ps = None \<Longrightarrow> \<not> set ps \<subseteq> set rostered"
    for leader rostered uniq inc ps
    by (induction ps arbitrary: uniq inc) (auto split: if_splits)
  from this [OF None] None show ?thesis by (auto simp: validateSurrenderEvidence_def)
next
  case (Some ub)
  obtain u b where ub: "ub = (u, b)" by (cases ub)
  from collectEvidence_Some [OF Some [unfolded ub]]
  have "distinct u" "set u \<subseteq> insert (rosterLeaderID roster) (set (rosterPlayerIDs roster))"
    "b \<longleftrightarrow> rosterLeaderID roster \<in> set u" "set u = set ids"
    by auto
  moreover from this have "length u = card (set ids)" by (metis distinct_card)
  ultimately show ?thesis using Some by (auto simp: ub validateSurrenderEvidence_def)
qed

lemma validateSurrenderEvidence_set:
  assumes "snd (validateSurrenderEvidence roster ids)"
  shows "set (fst (validateSurrenderEvidence roster ids)) = set ids"
    "distinct (fst (validateSurrenderEvidence roster ids))"
proof -
  from assms obtain u b where
    ub: "collectEvidence (rosterLeaderID roster) (rosterLeaderID roster # rosterPlayerIDs roster)
               [] False ids = Some (u, b)"
    and fst: "fst (validateSurrenderEvidence roster ids) = u"
    by (auto simp: validateSurrenderEvidence_def split: option.splits)
  from collectEvidence_Some [OF ub] fst
  show "set (fst (validateSurrenderEvidence roster ids)) = set ids"
    "distinct (fst (validateSurrenderEvidence roster ids))" by auto
qed

lemma recordSurrender_keeps:
  assumes core: "coreOk s" and step: "recordSurrender s actor team ids reason = Inr (s', ev)"
  shows "keeps s' \<longleftrightarrow> Phase s \<noteq> PhaseWaitingForResult"
proof -
  let ?v = "validateSurrenderEvidence (rosterOf (Rosters s) team) ids"
  let ?r = "(plainResult (opponent team) ResultReasonSurrender)
                   \<lparr>resSurrenderingTeam := Some team, resConfirmingPlayerIDs := fst ?v\<rparr>"
  from step have live: "Lifecycle s = LifecycleRunning \<or> Lifecycle s = LifecycleSuspended"
    and team: "teamValid team" and ok: "snd ?v"
    and s': "s' = finishMatch s (opponent team) ?r"
    by (auto simp: recordSurrender_def accept_simps Let_def split_beta split: if_splits)
  have again: "snd (validateSurrenderEvidence (rosterOf (Rosters s) team) (fst ?v))"
    using ok validateSurrenderEvidence_set [OF ok] by (simp add: validateSurrenderEvidence_ok)
  have "resultOk (finishMatch s (opponent team) ?r) ?r"
    using team again by (simp add: resultOk_def validateResultEvidence_def plainResult_def)
  then show ?thesis
    unfolding s' by (intro finish_keeps [OF core live]) (simp_all add: plainResult_def)
qed

section \<open>Results and the tiebreaker\<close>

lemma confirmBeatmapResult_keeps:
  assumes core: "coreOk s" and now: "now \<noteq> 0"
    and step: "confirmBeatmapResult s actor pid team now = Inr (s', ev)"
  shows "keeps s'"
proof -
  from step obtain b where run: "Lifecycle s = LifecycleRunning" "Phase s = PhaseWaitingForResult"
    and pid: "pid = PendingPieceID s" and team: "teamValid team"
    and b: "setOwner (Board s) pid team = Some b"
    and s': "s' = (if hasFour b team
       then finishMatch (s\<lparr>Board := b, PendingPieceID := ''''\<rparr>) team (plainResult team ResultReasonFourAlignment)
       else fst (advancePick (s\<lparr>Board := b, PendingPieceID := ''''\<rparr>) now))"
    by (auto simp: confirmBeatmapResult_def accept_simps Let_def split_beta split: if_splits)
  let ?s1 = "s\<lparr>Board := b, PendingPieceID := ''''\<rparr>"
  have act: "activeOk s" "Suspension s = None" using Running_active [OF core run(1)] by auto
  have wait: "waitingIDs (boardPieces (Board s)) = [pid]"
    using core run pid by (simp add: coreOk_def boardStateOk_iff waitingOk_def)
  from setOwner_shape [OF coreOk_parts(3) [OF core] b team] wait
  have shape: "boardShapeOk (PoolSlots s) b" "waitingIDs (boardPieces b) = []"
    by (simp_all add: waitingIDs_ownPiece)
  have ready: "pickReady ?s1"
    using act run shape coreOk_parts [OF core]
    by (simp add: pickReady_def frame_simps activeOk_def phaseOk_def pendingOk_def tbOk_def)
  show ?thesis
  proof (cases "hasFour b team")
    case True
    have "TBEntry s = None" using act run by (simp add: activeOk_def tbOk_def)
    then have "coreOk (finishMatch ?s1 team (plainResult team ResultReasonFourAlignment))"
      using ready shape True team
      by (subst finish_core)
         (auto simp: pickReady_def plainResult_def resultOk_def validateResultEvidence_def turn_consts)
    then show ?thesis using True by (simp add: s' keeps_def)
  next
    case False
    then show ?thesis
      using advancePick_core [OF ready now] advance_Lifecycle(1) [of ?s1 now] run
      by (simp add: s' keeps_def)
  qed
qed

lemma captainTeam_Some:
  "captainTeam actor = Some t \<longleftrightarrow>
     actorCapability actor = CapabilityCaptain \<and> actorTeam actor = Some t \<and> teamValid t"
  by (auto simp: captainTeam_def split: option.splits)

lemma requestTB_keeps:
  assumes core: "coreOk s" and step: "requestTB s actor rid basis now = Inr (s', ev)"
  shows "keeps s'"
proof -
  from step obtain t where run: "Lifecycle s = LifecycleRunning" "Phase s = PhasePick"
    and t: "teamValid t" and rid: "rid \<noteq> ''''" and turn: "11 \<le> Turn s" "Turn s \<le> 14"
    and s': "s' = s\<lparr>PendingTBRequest := Some \<lparr>tbReqID = rid, tbReqRequestedBy = t,
                     tbReqBasis = TBBasisCaptainAgreement\<rparr>\<rparr>"
    by (auto simp: requestTB_def accept_simps captainTeam_Some)
  have act: "activeOk s" "Suspension s = None" using Running_active [OF core run(1)] by auto
  have "phaseOk s' = phaseOk s" by (rule phaseOk_cong) (simp_all add: s')
  then have "activeOk s'"
    using act run t rid turn
    by (simp add: activeOk_def s' pendingOk_def tbOk_def frame_simps)
  then show ?thesis
    using core run unfolding keeps_def s'
    by (simp add: coreOk_def boardStateOk_iff lifecycleOk_def frame_simps)
qed

lemma respondTBRequest_keeps:
  assumes core: "coreOk s" and now: "now \<noteq> 0"
    and step: "respondTBRequest s actor rid accept now = Inr (s', ev)"
  shows "keeps s'"
proof -
  from step obtain p where run: "Lifecycle s = LifecycleRunning" "Phase s = PhasePick"
    and p: "PendingTBRequest s = Some p"
    and s': "s' = (if \<not> accept then s\<lparr>PendingTBRequest := None\<rparr>
       else s\<lparr>PendingTBRequest := None, Phase := PhaseTBPreparation, ActiveTeam := TeamNone,
              TBEntry := Some \<lparr>tbEntryBasis = tbReqBasis p, tbEntryRequestID = tbReqID p,
                               tbEntryRequestedBy = tbReqRequestedBy p\<rparr>,
              Timer := newTimer now (tcTBPreparation (Timers s))\<rparr>)"
    by (auto simp: respondTBRequest_def accept_simps Let_def split: if_splits)
  have act: "activeOk s" "Suspension s = None" using Running_active [OF core run(1)] by auto
  show ?thesis
  proof (cases accept)
    case True
    have "activeOk s'"
      using act run p True timersValid_pos [OF coreOk_parts(8) [OF core]]
      by (simp add: s' activeOk_def phaseOk_def pendingOk_def tbOk_def entryOk_def)
    moreover have "timerOk (Timer s')"
      using True timersValid_pos [OF coreOk_parts(8) [OF core]] by (simp add: s' newTimer_ok now)
    moreover have "configOk s' = configOk s" by (rule configOk_cong) (simp_all add: s')
    moreover have "Lifecycle s' = LifecycleRunning" "Suspension s' = None" "PoolSlots s' = PoolSlots s"
      "Board s' = Board s" "Phase s' = PhaseTBPreparation" "PendingPieceID s' = PendingPieceID s"
      using True run act by (simp_all add: s')
    ultimately show ?thesis
      using core run by (simp add: keeps_def coreOk_def boardStateOk_iff lifecycleOk_def waitingOk_def)
  next
    case False
    have "phaseOk s' = phaseOk s" by (rule phaseOk_cong) (simp_all add: s' False)
    then have "activeOk s'"
      using act run by (simp add: activeOk_def s' False pendingOk_def tbOk_def frame_simps)
    then show ?thesis
      using core run unfolding keeps_def s'
      by (simp add: False coreOk_def boardStateOk_iff lifecycleOk_def frame_simps)
  qed
qed

lemma startTB_keeps:
  assumes core: "coreOk s" and step: "startTB s actor reason now = Inr (s', ev)"
  shows "keeps s'"
proof -
  from step have run: "Lifecycle s = LifecycleRunning" "Phase s = PhaseTBPreparation"
    and s': "s' = s\<lparr>Phase := PhaseTBPlaying, Timer := zeroTimer\<rparr>"
    by (auto simp: startTB_def accept_simps)
  have act: "activeOk s" "Suspension s = None" using Running_active [OF core run(1)] by auto
  have "entryOk s' e = entryOk s e" for e by (rule entryOk_cong) (simp_all add: s')
  then have "activeOk s'"
    using act run by (simp add: activeOk_def s' pendingOk_def tbOk_def phaseOk_def)
  then show ?thesis
    using core run unfolding keeps_def s'
    by (simp add: coreOk_def boardStateOk_iff lifecycleOk_def frame_simps waitingOk_def)
qed

section \<open>Proxied actions\<close>

lemma refereeProxyContext_Inr [accept_simps]:
  "refereeProxyContext s actor t reason now = Inr (a, now') \<longleftrightarrow>
     actorCapability actor = CapabilityReferee \<and> teamValid t \<and> \<not> blank reason \<and>
     a = StrategistActor t \<and>
     now' = (if \<not> timerPaused (Timer s) \<and> timerExpired (Timer s) now
             then timerStartedAt (Timer s) else now)"
  by (auto simp: refereeProxyContext_def missingReason_def)

lemma refereeProxyCaptainContext_Inr [accept_simps]:
  "refereeProxyCaptainContext actor t reason = Inr a \<longleftrightarrow>
     actorCapability actor = CapabilityReferee \<and> teamValid t \<and> \<not> blank reason \<and> a = CaptainActor t"
  by (auto simp: refereeProxyCaptainContext_def missingReason_def)

lemma appendRefereeProxyEvent_Inr [accept_simps]:
  "appendRefereeProxyEvent r t reason = Inr (s, ev) \<longleftrightarrow>
     (\<exists>ev'. r = Inr (s, ev') \<and>
        ev = ev' @ [(event EventRefereeProxyActionRecorded)\<lparr>evTeam := t, evReason := reason\<rparr>])"
  by (auto simp: appendRefereeProxyEvent_def split: sum.splits)

definition proxyNow :: "State \<Rightarrow> Time \<Rightarrow> Time" where
  "proxyNow s now = (if \<not> timerPaused (Timer s) \<and> timerExpired (Timer s) now
                     then timerStartedAt (Timer s) else now)"

lemma proxyNow_nonzero:
  assumes "coreOk s" "now \<noteq> 0" "Lifecycle s = LifecycleRunning" "requiresTimer (Phase s)"
  shows "proxyNow s now \<noteq> 0"
  using timer_anchor [OF assms(1,3,4)] assms(2) by (simp add: proxyNow_def)

lemma proxied:
  "refereeBanPoolSlot s actor t sid reason now = Inr (s', ev) \<Longrightarrow>
     \<exists>ev'. banPoolSlot s (StrategistActor t) sid (proxyNow s now) = Inr (s', ev')"
  "refereePlacePiece s actor t sid pid cell reason now = Inr (s', ev) \<Longrightarrow>
     \<exists>ev'. placePiece s (StrategistActor t) sid pid cell (proxyNow s now) = Inr (s', ev')"
  "refereePlaceShiro s actor t pid cell reason now = Inr (s', ev) \<Longrightarrow>
     \<exists>ev'. placeShiro s (StrategistActor t) pid cell (proxyNow s now) = Inr (s', ev')"
  "refereeRobPiece s actor t pid sets reason now = Inr (s', ev) \<Longrightarrow>
     \<exists>ev'. robPiece s (StrategistActor t) pid sets (proxyNow s now) = Inr (s', ev')"
  "refereeRequestTB s actor t rid basis reason now = Inr (s', ev) \<Longrightarrow>
     \<exists>ev'. requestTB s (CaptainActor t) rid basis now = Inr (s', ev')"
  "refereeRespondTBRequest s actor t rid accept reason now = Inr (s', ev) \<Longrightarrow>
     \<exists>ev'. respondTBRequest s (CaptainActor t) rid accept now = Inr (s', ev')"
  by (auto simp: refereeBanPoolSlot_def refereePlacePiece_def refereePlaceShiro_def
      refereeRobPiece_def refereeRequestTB_def refereeRespondTBRequest_def accept_simps
      proxyNow_def split_beta split: sum.splits prod.splits)

lemma strategist_phase:
  "banPoolSlot s a sid now = Inr r \<Longrightarrow> Lifecycle s = LifecycleRunning \<and> requiresTimer (Phase s)"
  "placePiece s a sid pid cell now = Inr r \<Longrightarrow> Lifecycle s = LifecycleRunning \<and> requiresTimer (Phase s)"
  "placeShiro s a pid cell now = Inr r \<Longrightarrow> Lifecycle s = LifecycleRunning \<and> requiresTimer (Phase s)"
  "robPiece s a pid sets now = Inr r \<Longrightarrow> Lifecycle s = LifecycleRunning \<and> requiresTimer (Phase s)"
  by (simp_all add: banPoolSlot_def placePiece_def placeShiro_def robPiece_def guardE_Inr
      requireRunningPhase_None requiresTimer_def)

section \<open>Which commands leave a state that can be stored\<close>

text \<open>
  The side conditions that no handler tests: without them the command is accepted and the
  state it leaves fails \<open>ValidateState\<close>.
\<close>

definition storable :: "State \<Rightarrow> Command \<Rightarrow> bool" where
  "storable s command =
     (case command of
        PlacePiece _ _ _ \<Rightarrow> PendingTBRequest s = None
      | RefereePlacePiece _ _ _ _ _ \<Rightarrow> PendingTBRequest s = None
      | CalibrateTimer remaining _ \<Rightarrow>
          if timerPaused (Timer s) then remaining \<le> timerDuration (Timer s) else 0 < remaining
      | ResumeTimer _ \<Rightarrow> 0 < timerRemainingAtPause (Timer s)
      | ResumeMatch _ \<Rightarrow>
          (case Suspension s of
             None \<Rightarrow> True
           | Some susp \<Rightarrow> suspHadTimer susp \<longrightarrow> suspTimerWasPaused susp \<or>
                           0 < timerRemainingAtPause (Timer s))
      | AbortMatch _ \<Rightarrow> Phase s \<noteq> PhaseWaitingForResult
      | RecordSurrender _ _ _ \<Rightarrow> Phase s \<noteq> PhaseWaitingForResult
      | _ \<Rightarrow> True)"

lemma dispatch_keeps:
  assumes core: "coreOk s" and maps: "mapsOk s" and now: "now \<noteq> 0"
    and step: "dispatch s actor command now = Inr (s', ev)"
  shows "keeps s' \<longleftrightarrow> storable s command"
proof (cases command)
  case (RefereeBanPoolSlot t sid reason)
  with step proxied(1) obtain ev' where
    st: "banPoolSlot s (StrategistActor t) sid (proxyNow s now) = Inr (s', ev')"
    by (force simp: dispatch_def)
  from strategist_phase(1) [OF st] proxyNow_nonzero [OF core now] banPoolSlot_keeps [OF core maps _ st]
  show ?thesis by (simp add: RefereeBanPoolSlot storable_def)
next
  case (RefereePlacePiece t sid pid cell reason)
  with step proxied(2) obtain ev' where
    st: "placePiece s (StrategistActor t) sid pid cell (proxyNow s now) = Inr (s', ev')"
    by (force simp: dispatch_def)
  from strategist_phase(2) [OF st] proxyNow_nonzero [OF core now] placePiece_keeps [OF core maps _ st]
  show ?thesis by (simp add: RefereePlacePiece storable_def)
next
  case (RefereePlaceShiro t pid cell reason)
  with step proxied(3) obtain ev' where
    st: "placeShiro s (StrategistActor t) pid cell (proxyNow s now) = Inr (s', ev')"
    by (force simp: dispatch_def)
  from strategist_phase(3) [OF st] proxyNow_nonzero [OF core now] placeShiro_keeps [OF core maps _ st]
  show ?thesis by (simp add: RefereePlaceShiro storable_def)
next
  case (RefereeRobPiece t pid sets reason)
  with step proxied(4) obtain ev' where
    st: "robPiece s (StrategistActor t) pid sets (proxyNow s now) = Inr (s', ev')"
    by (force simp: dispatch_def)
  from strategist_phase(4) [OF st] proxyNow_nonzero [OF core now] robPiece_keeps [OF core maps _ st]
  show ?thesis by (simp add: RefereeRobPiece storable_def)
next
  case (RefereeRequestTB t rid basis reason)
  with step proxied(5) obtain ev' where "requestTB s (CaptainActor t) rid basis now = Inr (s', ev')"
    by (force simp: dispatch_def)
  from requestTB_keeps [OF core this] show ?thesis by (simp add: RefereeRequestTB storable_def)
next
  case (RefereeRespondTBRequest t rid accept reason)
  with step proxied(6) obtain ev' where "respondTBRequest s (CaptainActor t) rid accept now = Inr (s', ev')"
    by (force simp: dispatch_def)
  from respondTBRequest_keeps [OF core now this] show ?thesis
    by (simp add: RefereeRespondTBRequest storable_def)
next
  case (ResumeMatch reason)
  with step have "resumeMatch s actor reason now = Inr (s', ev)" by (simp add: dispatch_def)
  from resumeMatch_keeps [OF core now this] show ?thesis
    by (auto simp: ResumeMatch storable_def split: option.splits)
qed (use step startMatch_keeps [OF core now] banPoolSlot_keeps [OF core maps now]
       placePiece_keeps [OF core maps now] placeShiro_keeps [OF core maps now]
       robPiece_keeps [OF core maps now] grantAdditionalTime_keeps [OF core now]
       calibrateTimer_keeps [OF core now] pauseTimer_keeps [OF core] resumeTimer_keeps [OF core now]
       suspendMatch_keeps [OF core now] skipCurrentAction_keeps [OF core now] abortMatch_keeps [OF core]
       requestTB_keeps [OF core] respondTBRequest_keeps [OF core now] startTB_keeps [OF core]
       confirmTBResult_keeps [OF core] recordSurrender_keeps [OF core]
       confirmBeatmapResult_keeps [OF core now] in \<open>simp_all add: dispatch_def storable_def\<close>)

end
