(* ===== verification/EngineSteps.thy ===== *)
theory EngineSteps
  imports EngineInvariant
begin

text \<open>
  What one accepted command can change, and what no sequence of commands can. \<open>evolves\<close> relates
  the state before and after a command: the configuration is immutable, the pool keeps its
  slots, a slot once banned or selected stays so, a piece stays on its cell with its identity,
  a dead piece never changes again, and a spent entitlement is never given back.
  \<open>EngineHistory\<close> lifts these facts to histories by rule induction.
\<close>

section \<open>The part that entering a pick leaves alone\<close>

definition static :: "State \<Rightarrow> (TeamSide \<times> TeamSide \<times> (TeamSide, Roster) gomap \<times> TimerConfiguration \<times> 64 word) \<times>
    (string, PoolSlot) gomap \<times> Board \<times> (TeamSide, bool) gomap \<times> (TeamSide, bool) gomap" where
  "static s = ((FirstBan s, FirstPick s, Rosters s, Timers s, Version s), PoolSlots s, Board s,
               RobberyUsed s, TeamPauseUsed s)"

lemma static_simps [simp]:
  "static (s\<lparr>Lifecycle := l\<rparr>) = static s" "static (s\<lparr>Phase := ph\<rparr>) = static s"
  "static (s\<lparr>Turn := n\<rparr>) = static s" "static (s\<lparr>ActiveTeam := a\<rparr>) = static s"
  "static (s\<lparr>Timer := t\<rparr>) = static s" "static (s\<lparr>PendingPieceID := pid\<rparr>) = static s"
  "static (s\<lparr>PendingTBRequest := pr\<rparr>) = static s" "static (s\<lparr>TBEntry := te\<rparr>) = static s"
  "static (s\<lparr>Winner := w\<rparr>) = static s" "static (s\<lparr>MatchResult := mr\<rparr>) = static s"
  "static (s\<lparr>Stalemate := st\<rparr>) = static s" "static (s\<lparr>Suspension := su\<rparr>) = static s"
  "static (s\<lparr>AbortReason := r\<rparr>) = static s"
  by (simp_all add: static_def)

lemma static_finishMatch [simp]: "static (finishMatch s w r) = static s"
  by (simp add: finishMatch_def)

lemma static_startForced [simp]: "static (fst (startForcedTBPreparation s now)) = static s"
  by (simp add: startForcedTBPreparation_def)

lemma static_expire [simp]: "static (expire s) = static s"
  by (simp add: expire_def)

lemma static_enterPick [simp]: "static (fst (enterPickOrTerminal s now)) = static s"
  by (simp add: enterPickOrTerminal_state Let_def)

lemma static_advance [simp]:
  "static (fst (advancePick s now)) = static s" "static (fst (advanceBan s now)) = static s"
  by (simp_all add: advancePick_def advanceBan_def Let_def split_beta)

section \<open>Evolution\<close>

definition slotEvolves :: "PoolSlot \<Rightarrow> PoolSlot \<Rightarrow> bool" where
  "slotEvolves x y \<longleftrightarrow> slotID y = slotID x \<and> slotMod y = slotMod x \<and>
     (slotState x \<noteq> PoolSlotAvailable \<longrightarrow> slotState y = slotState x)"

definition pieceEvolves :: "BoardPiece \<Rightarrow> BoardPiece \<Rightarrow> bool" where
  "pieceEvolves p q \<longleftrightarrow>
     pieceID q = pieceID p \<and> pieceSourcePoolSlotID q = pieceSourcePoolSlotID p \<and>
     pieceMod q = pieceMod p \<and> pieceForceMod q = pieceForceMod p \<and>
     pieceSelectedBy q = pieceSelectedBy p \<and> (pieceOutcome p = OutcomeDead \<longrightarrow> q = p)"

definition poolEvolves :: "(string, PoolSlot) gomap \<Rightarrow> (string, PoolSlot) gomap \<Rightarrow> bool" where
  "poolEvolves pool pool' \<longleftrightarrow> (keysDistinct pool \<longrightarrow> keysDistinct pool') \<and>
     fst ` set pool' = fst ` set pool \<and>
     (\<forall>sid x. mapGet pool sid = Some x \<longrightarrow> (\<exists>y. mapGet pool' sid = Some y \<and> slotEvolves x y))"

definition boardEvolves :: "Board \<Rightarrow> Board \<Rightarrow> bool" where
  "boardEvolves b b' \<longleftrightarrow> (keysDistinct (boardPieces b) \<longrightarrow> keysDistinct (boardPieces b')) \<and>
     (\<forall>c p. PieceAt b c = Some p \<longrightarrow> (\<exists>q. PieceAt b' c = Some q \<and> pieceEvolves p q))"

definition flagsEvolve :: "(TeamSide, bool) gomap \<Rightarrow> (TeamSide, bool) gomap \<Rightarrow> bool" where
  "flagsEvolve m m' \<longleftrightarrow> (keysDistinct m \<longrightarrow> keysDistinct m') \<and> (\<forall>t. flagOf m t \<longrightarrow> flagOf m' t)"

definition evolves :: "State \<Rightarrow> State \<Rightarrow> bool" where
  "evolves s s' \<longleftrightarrow>
     FirstBan s' = FirstBan s \<and> FirstPick s' = FirstPick s \<and> Rosters s' = Rosters s \<and>
     Timers s' = Timers s \<and> poolEvolves (PoolSlots s) (PoolSlots s') \<and>
     boardEvolves (Board s) (Board s') \<and> flagsEvolve (RobberyUsed s) (RobberyUsed s') \<and>
     flagsEvolve (TeamPauseUsed s) (TeamPauseUsed s')"

lemma evolves_refls [simp]:
  "poolEvolves pool pool" "boardEvolves b b" "flagsEvolve m m" "evolves s s"
  by (simp_all add: evolves_def poolEvolves_def slotEvolves_def boardEvolves_def pieceEvolves_def
      flagsEvolve_def)

lemma slotEvolves_trans: "slotEvolves x y \<Longrightarrow> slotEvolves y z \<Longrightarrow> slotEvolves x z"
  by (auto simp: slotEvolves_def)

lemma pieceEvolves_trans: "pieceEvolves x y \<Longrightarrow> pieceEvolves y z \<Longrightarrow> pieceEvolves x z"
  by (auto simp: pieceEvolves_def)

lemma poolEvolvesD:
  "poolEvolves p q \<Longrightarrow> mapGet p sid = Some x \<Longrightarrow> \<exists>y. mapGet q sid = Some y \<and> slotEvolves x y"
  by (simp add: poolEvolves_def)

lemma boardEvolvesD:
  "boardEvolves b b' \<Longrightarrow> PieceAt b c = Some x \<Longrightarrow> \<exists>y. PieceAt b' c = Some y \<and> pieceEvolves x y"
  by (simp add: boardEvolves_def)

lemma poolEvolves_trans:
  assumes "poolEvolves p q" "poolEvolves q r"
  shows "poolEvolves p r"
proof -
  have "\<exists>z. mapGet r sid = Some z \<and> slotEvolves x z" if x: "mapGet p sid = Some x" for sid x
  proof -
    obtain y where y: "mapGet q sid = Some y" "slotEvolves x y"
      using poolEvolvesD [OF assms(1) x] by blast
    obtain z where z: "mapGet r sid = Some z" "slotEvolves y z"
      using poolEvolvesD [OF assms(2) y(1)] by blast
    show ?thesis using z slotEvolves_trans [OF y(2) z(2)] by simp
  qed
  then show ?thesis using assms by (simp add: poolEvolves_def)
qed

lemma boardEvolves_trans:
  assumes "boardEvolves b c" "boardEvolves c d"
  shows "boardEvolves b d"
proof -
  have "\<exists>z. PieceAt d cell = Some z \<and> pieceEvolves x z" if x: "PieceAt b cell = Some x" for cell x
  proof -
    obtain y where y: "PieceAt c cell = Some y" "pieceEvolves x y"
      using boardEvolvesD [OF assms(1) x] by blast
    obtain z where z: "PieceAt d cell = Some z" "pieceEvolves y z"
      using boardEvolvesD [OF assms(2) y(1)] by blast
    show ?thesis using z pieceEvolves_trans [OF y(2) z(2)] by simp
  qed
  then show ?thesis using assms by (simp add: boardEvolves_def)
qed

lemma evolves_trans: "evolves s t \<Longrightarrow> evolves t u \<Longrightarrow> evolves s u"
  using poolEvolves_trans [of "PoolSlots s" "PoolSlots t" "PoolSlots u"]
    boardEvolves_trans [of "Board s" "Board t" "Board u"]
  by (simp add: evolves_def flagsEvolve_def)

lemma evolves_mapsOk: "evolves s s' \<Longrightarrow> mapsOk s \<Longrightarrow> mapsOk s'"
  by (simp add: evolves_def mapsOk_def poolEvolves_def boardEvolves_def flagsEvolve_def)

lemma static_evolves: "static s' = static s \<Longrightarrow> evolves s s'"
  by (simp add: static_def evolves_def)

lemma evolves_static_left: "evolves s t \<Longrightarrow> static u = static t \<Longrightarrow> evolves s u"
  using evolves_trans static_evolves by blast

lemma poolEvolves_mapPut:
  "mapGet pool sid = Some x \<Longrightarrow> slotEvolves x y \<Longrightarrow> poolEvolves pool (mapPut sid y pool)"
  by (auto simp: poolEvolves_def slotEvolves_def dest: mapGet_in_set intro: rev_image_eqI)

lemma flagsEvolve_mapPut: "flagsEvolve m (mapPut t True m)"
  by (simp add: flagsEvolve_def)

lemma boardEvolves_place:
  "boardEmpty b cell \<Longrightarrow> boardEvolves b (boardPlace b cell p)"
  by (auto simp: boardEvolves_def boardPlace_def PieceAt_def boardEmpty_def pieceEvolves_def)

lemma boardEvolves_mapPieces:
  "(\<And>c p. (c, p) \<in> set (boardPieces b) \<Longrightarrow> pieceEvolves p (f p)) \<Longrightarrow>
   boardPieces b' = mapPieces f (boardPieces b) \<Longrightarrow> boardEvolves b b'"
  by (auto simp: boardEvolves_def PieceAt_def dest: mapGet_in_set)

section \<open>One command\<close>

definition sameVersion :: "State \<Rightarrow> State \<Rightarrow> bool" where
  "sameVersion s s' \<longleftrightarrow> evolves s s' \<and> Version s' = Version s"

lemma sameVersionI:
  "static s' = static t \<Longrightarrow> evolves s t \<Longrightarrow> Version t = Version s \<Longrightarrow> sameVersion s s'"
  using evolves_static_left [of s t s'] by (simp add: sameVersion_def static_def)

lemma same_static: "static s' = static s \<Longrightarrow> sameVersion s s'"
  by (rule sameVersionI [of s' s]) simp_all

lemma banPoolSlot_same:
  assumes core: "coreOk s" and step: "banPoolSlot s actor sid now = Inr (s', ev)"
  shows "sameVersion s s'"
proof -
  from step obtain slot where
    slot: "mapGet (PoolSlots s) sid = Some slot" "slotState slot = PoolSlotAvailable"
    and s': "s' = fst (advanceBan (s\<lparr>PoolSlots :=
        mapPut (slotID slot) (slot\<lparr>slotState := PoolSlotBanned\<rparr>) (PoolSlots s)\<rparr>) now)"
    by (auto simp: banPoolSlot_def accept_simps Let_def split_beta)
  have "slotID slot = sid" using poolOk_slot [OF coreOk_parts(2) [OF core] slot(1)] by (simp add: slotOk_def)
  then show ?thesis
    unfolding s' using slot
    by (intro sameVersionI [OF static_advance(2)])
       (simp_all add: evolves_def poolEvolves_mapPut slotEvolves_def)
qed

lemma placePiece_same:
  assumes core: "coreOk s" and step: "placePiece s actor sid pid cell now = Inr (s', ev)"
  shows "sameVersion s s'"
proof -
  from step obtain slot p where
    slot: "mapGet (PoolSlots s) sid = Some slot" "slotState slot = PoolSlotAvailable"
    and cell: "boardEmpty (Board s) cell"
    and s': "static s' = static (s\<lparr>Board := boardPlace (Board s) cell p, PoolSlots :=
        mapPut (slotID slot) (slot\<lparr>slotState := PoolSlotSelected\<rparr>) (PoolSlots s)\<rparr>)"
    by (auto simp: placePiece_def accept_simps Let_def static_def)
  have "slotID slot = sid" using poolOk_slot [OF coreOk_parts(2) [OF core] slot(1)] by (simp add: slotOk_def)
  then show ?thesis
    using slot boardEvolves_place [OF cell]
    by (intro sameVersionI [OF s']) (simp_all add: evolves_def poolEvolves_mapPut slotEvolves_def)
qed

lemma placeShiro_same:
  assumes core: "coreOk s" and maps: "mapsOk s" and step: "placeShiro s actor pid cell now = Inr (s', ev)"
  shows "sameVersion s s'"
proof -
  from step obtain slot p where
    slot: "findShiro (PoolSlots s) = Some slot" "slotState slot = PoolSlotAvailable"
    and cell: "boardEmpty (Board s) cell"
    and s': "static s' = static (s\<lparr>Board := boardPlace (Board s) cell p, PoolSlots :=
        mapPut (slotID slot) (slot\<lparr>slotState := PoolSlotSelected\<rparr>) (PoolSlots s)\<rparr>)"
    by (auto simp: placeShiro_def accept_simps Let_def split_beta)
  have "mapGet (PoolSlots s) (slotID slot) = Some slot"
    using findShiro_Some [OF coreOk_parts(2) [OF core] _ slot(1)] maps by (simp add: mapsOk_def)
  then show ?thesis
    using slot boardEvolves_place [OF cell]
    by (intro sameVersionI [OF s']) (simp_all add: evolves_def poolEvolves_mapPut slotEvolves_def)
qed

lemma pieceEvolves_owned: "pieceOutcome p \<noteq> OutcomeDead \<Longrightarrow> pieceEvolves p (ownPiece pid t p)"
  by (simp add: pieceEvolves_def)

lemma robPiece_same:
  assumes core: "coreOk s" and maps: "mapsOk s" and step: "robPiece s actor pid sets now = Inr (s', ev)"
  shows "sameVersion s s'"
proof -
  have keys: "keysDistinct (boardPieces (Board s))" using maps by (simp add: mapsOk_def)
  note shape = coreOk_parts(3) [OF core]
  have ok: "boardOk (Board s)" using boardShapeOk_boardOk [OF shape keys] .
  from robPiece_Inr [OF step ok] obtain c p b where team: "teamValid (ActiveTeam s)"
    and p: "(c, p) \<in> set (boardPieces (Board s))" "pieceID p = pid"
    and legal: "sacrificeLegal (Board s) (ActiveTeam s) p sets"
    and after: "boardAfterRobbery (Board s) (ActiveTeam s) pid (concat sets)
                  (if targetIsShiro p then 2 else 3) = Some b"
    and s': "static s' = static (s\<lparr>Board := b, RobberyUsed := mapPut (ActiveTeam s) True (RobberyUsed s)\<rparr>)"
    by (auto simp: Let_def)
  have b: "boardPieces b = mapPieces (robbedPiece (ActiveTeam s) pid (concat sets)) (boardPieces (Board s))"
    using robbery_shape [OF shape keys legal team after] by simp
  have "pieceEvolves q (robbedPiece (ActiveTeam s) pid (concat sets) q)"
    if q: "(c', q) \<in> set (boardPieces (Board s))" for c' q
  proof (cases "pieceOutcome q = OutcomeDead")
    case True
    have "pieceID q \<noteq> pid"
    proof
      assume "pieceID q = pid"
      then have "q = p" using pieceIDs_inj [OF boardOkD(2) [OF ok] q p(1)] p(2) by simp
      then show False
        using legal True by (auto simp: sacrificeLegal_def targetIsShiro_def targetIsOpponent_def)
    qed
    moreover have "pieceID q \<notin> set (concat sets)"
    proof
      assume "pieceID q \<in> set (concat sets)"
      from sacrificeLegal_won [OF ok legal this] obtain c'' q' where
        q': "(c'', q') \<in> set (boardPieces (Board s))" "wonBy (ActiveTeam s) q'" "pieceID q' = pieceID q"
        by blast
      have "q' = q" using pieceIDs_inj [OF boardOkD(2) [OF ok] q'(1) q q'(3)] by simp
      then show False using q'(2) True by (simp add: wonBy_def)
    qed
    ultimately show ?thesis by (simp add: pieceEvolves_def robbedPiece_def deadPiece_def ownPiece_def)
  next
    case False
    then show ?thesis by (simp add: pieceEvolves_def)
  qed
  then have "boardEvolves (Board s) b" by (rule boardEvolves_mapPieces [OF _ b])
  then show ?thesis
    by (intro sameVersionI [OF s']) (simp_all add: evolves_def flagsEvolve_mapPut)
qed

lemma confirmBeatmapResult_same:
  assumes core: "coreOk s" and step: "confirmBeatmapResult s actor pid team now = Inr (s', ev)"
  shows "sameVersion s s'"
proof -
  from step obtain b where run: "Lifecycle s = LifecycleRunning" "Phase s = PhaseWaitingForResult"
    and pid: "pid = PendingPieceID s" and team: "teamValid team"
    and b: "setOwner (Board s) pid team = Some b"
    and s': "static s' = static (s\<lparr>Board := b\<rparr>)"
    by (auto simp: confirmBeatmapResult_def accept_simps Let_def split_beta split: if_splits)
  note shape = coreOk_parts(3) [OF core]
  have wait: "waitingIDs (boardPieces (Board s)) = [pid]"
    using core run pid by (simp add: coreOk_def boardStateOk_iff waitingOk_def)
  have "pieceEvolves q (ownPiece pid team q)" if q: "(c, q) \<in> set (boardPieces (Board s))" for c q
  proof (cases "pieceID q = pid")
    case True
    have "pid \<in> set (waitingIDs (boardPieces (Board s)))" using wait by simp
    then obtain c' w where w: "(c', w) \<in> set (boardPieces (Board s))"
      "pieceOutcome w = OutcomeWaitingResult" "pieceID w = pid"
      by (auto simp: waitingIDs_def pieceIDs_def)
    have "w = q"
      using pieceIDs_inj [OF _ w(1) q] w(3) True shape by (simp add: boardShapeOk_def)
    then show ?thesis using w(2) by (intro pieceEvolves_owned) simp
  next
    case False
    then show ?thesis by (simp add: ownPiece_def pieceEvolves_def)
  qed
  then have "boardEvolves (Board s) b"
    using setOwner_shape [OF shape b team] by (intro boardEvolves_mapPieces) auto
  then show ?thesis by (intro sameVersionI [OF s']) (simp_all add: evolves_def)
qed

lemma grantAdditionalTime_same:
  assumes "grantAdditionalTime s actor reason now = Inr (s', ev)"
  shows "sameVersion s s'"
proof -
  from assms have "static s' = static (s\<lparr>TeamPauseUsed := mapPut (ActiveTeam s) True (TeamPauseUsed s)\<rparr>)"
    by (auto simp: grantAdditionalTime_def accept_simps Let_def)
  then show ?thesis by (rule sameVersionI) (simp_all add: evolves_def flagsEvolve_mapPut)
qed

text \<open>The other handlers touch neither the configuration nor the pool, the board or the flags.\<close>

lemma plain_same:
  "startMatch s actor now = Inr (s', ev) \<Longrightarrow> static s' = static s"
  "calibrateTimer s actor remaining reason now = Inr (s', ev) \<Longrightarrow> static s' = static s"
  "pauseTimer s actor reason now = Inr (s', ev) \<Longrightarrow> static s' = static s"
  "resumeTimer s actor reason now = Inr (s', ev) \<Longrightarrow> static s' = static s"
  "suspendMatch s actor reason now = Inr (s', ev) \<Longrightarrow> static s' = static s"
  "resumeMatch s actor reason now = Inr (s', ev) \<Longrightarrow> static s' = static s"
  "abortMatch s actor reason = Inr (s', ev) \<Longrightarrow> static s' = static s"
  "requestTB s actor rid basis now = Inr (s', ev) \<Longrightarrow> static s' = static s"
  "respondTBRequest s actor rid accept now = Inr (s', ev) \<Longrightarrow> static s' = static s"
  "startTB s actor reason now = Inr (s', ev) \<Longrightarrow> static s' = static s"
  "confirmTBResult s actor team = Inr (s', ev) \<Longrightarrow> static s' = static s"
  "recordSurrender s actor team ids reason = Inr (s', ev) \<Longrightarrow> static s' = static s"
  by (auto simp: startMatch_def calibrateTimer_def pauseTimer_def resumeTimer_def suspendMatch_def
      resumeMatch_def abortMatch_def requestTB_def respondTBRequest_def startTB_def
      confirmTBResult_def recordSurrender_def accept_simps Let_def split_beta split: if_splits)

lemma skipCurrentAction_static:
  "skipCurrentAction s actor reason now = Inr (s', ev) \<Longrightarrow> static s' = static s"
  by (auto simp: skipCurrentAction_def accept_simps Let_def split_beta split: if_splits)

lemma dispatch_same:
  assumes core: "coreOk s" and maps: "mapsOk s"
    and step: "dispatch s actor command now = Inr (s', ev)"
  shows "sameVersion s s'"
proof (cases command)
  case (RefereeBanPoolSlot t sid reason)
  with step proxied(1) banPoolSlot_same [OF core] show ?thesis by (fastforce simp: dispatch_def)
next
  case (RefereePlacePiece t sid pid cell reason)
  with step proxied(2) placePiece_same [OF core] show ?thesis by (fastforce simp: dispatch_def)
next
  case (RefereePlaceShiro t pid cell reason)
  with step proxied(3) placeShiro_same [OF core maps] show ?thesis by (fastforce simp: dispatch_def)
next
  case (RefereeRobPiece t pid sets reason)
  with step proxied(4) robPiece_same [OF core maps] show ?thesis by (fastforce simp: dispatch_def)
next
  case (RefereeRequestTB t rid basis reason)
  with step proxied(5) plain_same(8) show ?thesis by (fastforce simp: dispatch_def intro: same_static)
next
  case (RefereeRespondTBRequest t rid accept reason)
  with step proxied(6) plain_same(9) show ?thesis by (fastforce simp: dispatch_def intro: same_static)
qed (use step banPoolSlot_same [OF core] placePiece_same [OF core] placeShiro_same [OF core maps]
       robPiece_same [OF core maps] confirmBeatmapResult_same [OF core] grantAdditionalTime_same
       plain_same [THEN same_static] skipCurrentAction_static [THEN same_static]
       in \<open>simp_all add: dispatch_def\<close>)

section \<open>Execute\<close>

lemma Execute_Inr:
  assumes "coreOk s"
  shows "Execute s actor command now = Inr tr \<longleftrightarrow>
     (\<exists>s' ev. dispatch s actor command now = Inr (s', ev) \<and> ev \<noteq> [] \<and>
        tr = \<lparr>trState = s'\<lparr>Version := Version s' + 1\<rparr>, trEvents = ev\<rparr>)"
  by (auto simp: Execute_def stateClone_id [OF assms] accept_simps split_beta)

lemma validateResultEvidence_cong:
  assumes "TBEntry s = TBEntry t" "Board s = Board t" "Rosters s = Rosters t" "PoolSlots s = PoolSlots t"
  shows "validateResultEvidence s r = validateResultEvidence t r"
  by (simp only: validateResultEvidence_def assms Analyze_cong [OF assms(4,2)])

lemma Version_core [frame_simps]: "coreOk (s\<lparr>Version := v\<rparr>) = coreOk s"
proof -
  let ?t = "s\<lparr>Version := v\<rparr>"
  have "activeOk ?t = activeOk s" by (simp add: frame_simps)
  moreover have "resultOk ?t r = resultOk s r" for r
    unfolding resultOk_def by (subst validateResultEvidence_cong [of ?t s]) simp_all
  moreover have "entryOk ?t e = entryOk s e" for e by (rule entryOk_cong) simp_all
  ultimately have "lifecycleOk ?t = lifecycleOk s"
    by (cases "Lifecycle s")
       (simp_all add: lifecycleOk_def idleOk_def stalemateOk_def suspensionOk_def frame_simps)
  then show ?thesis by (simp add: coreOk_def boardStateOk_iff frame_simps)
qed

theorem Execute_valid:
  assumes valid: "validState s" and maps: "mapsOk s" and now: "now \<noteq> 0"
    and version: "Version s + 1 \<noteq> 0"
    and step: "Execute s actor command now = Inr tr"
  shows "validState (trState tr) \<longleftrightarrow> storable s command"
proof -
  have core: "coreOk s" using valid by (simp add: validState_def)
  from step obtain s' ev where d: "dispatch s actor command now = Inr (s', ev)"
    and tr: "trState tr = s'\<lparr>Version := Version s' + 1\<rparr>"
    by (auto simp: Execute_Inr [OF core])
  have "Version s' = Version s" using dispatch_same [OF core maps d] by (simp add: sameVersion_def)
  then show ?thesis
    using dispatch_keeps [OF core maps now d] version
    by (auto simp: tr validState_def versionOk_def keeps_def frame_simps)
qed

lemma evolves_Version [simp]: "evolves s (t\<lparr>Version := v\<rparr>) = evolves s t"
  by (simp add: evolves_def)

lemma Execute_evolves:
  assumes valid: "validState s" and maps: "mapsOk s"
    and step: "Execute s actor command now = Inr tr"
  shows "evolves s (trState tr) \<and> Version (trState tr) = Version s + 1 \<and> trEvents tr \<noteq> []"
proof -
  have core: "coreOk s" using valid by (simp add: validState_def)
  from step obtain s' ev where d: "dispatch s actor command now = Inr (s', ev)" "ev \<noteq> []"
    and tr: "tr = \<lparr>trState = s'\<lparr>Version := Version s' + 1\<rparr>, trEvents = ev\<rparr>"
    by (auto simp: Execute_Inr [OF core])
  then show ?thesis using dispatch_same [OF core maps d(1)] by (simp add: sameVersion_def)
qed

end
