(* ===== verification/EngineActorAnalysis.thy ===== *)
theory EngineActorAnalysis
  imports EngineSteps
begin

text \<open>
  The command surface shown to a client (\<open>AnalyzeForActor\<close>, \<open>analyzeReferee\<close> and
  \<open>shiroAvailable\<close> in \<open>internal/matchengine/availability.go\<close>), and its agreement with
  \<open>Execute\<close>: an action is offered exactly when some command of that kind would be accepted.
\<close>

section \<open>The analysis\<close>

datatype Action =
    ActionStartMatch | ActionBanPoolSlot | ActionPlacePiece | ActionPlaceShiro | ActionRobPiece
  | ActionConfirmResult | ActionGrantAdditionalTime | ActionCalibrateTimer | ActionPauseTimer
  | ActionResumeTimer | ActionSuspendMatch | ActionResumeMatch | ActionSkipCurrentAction
  | ActionAbortMatch | ActionRequestTB | ActionRespondTBRequest | ActionStartTB
  | ActionConfirmTBResult | ActionRecordSurrender

record ActorAnalysis =
  aaAllowedActions :: "Action list"
  aaBanPoolSlotIDs :: "string list"
  aaLegalPlacements :: "PlacementOption list"
  aaShiroCells :: "Cell list"
  aaRobberyPlans :: "RobberyPlan list"
  aaPendingTBRequestID :: string
  aaCanAcceptTBRequest :: bool
  aaCanRejectTBRequest :: bool
  aaTBRequestTeams :: "TeamSide list"
  aaTBResponseTeams :: "TeamSide list"

definition emptyAnalysis :: ActorAnalysis where
  "emptyAnalysis =
     \<lparr>aaAllowedActions = [], aaBanPoolSlotIDs = [], aaLegalPlacements = [], aaShiroCells = [],
      aaRobberyPlans = [], aaPendingTBRequestID = '''', aaCanAcceptTBRequest = False,
      aaCanRejectTBRequest = False, aaTBRequestTeams = [], aaTBResponseTeams = []\<rparr>"

text \<open>\<open>result.AllowedActions = append(result.AllowedActions, actions...)\<close>\<close>

definition allow :: "Action list \<Rightarrow> ActorAnalysis \<Rightarrow> ActorAnalysis" where
  "allow actions r = r\<lparr>aaAllowedActions := aaAllowedActions r @ actions\<rparr>"

definition shiroAvailable :: "State \<Rightarrow> bool" where
  "shiroAvailable s \<longleftrightarrow>
     (\<exists>(sid, slot)\<in>set (PoolSlots s). slotMod slot = ModShiro \<and> slotState slot = PoolSlotAvailable)"

definition bannableSlotIDs :: "State \<Rightarrow> string list" where
  "bannableSlotIDs s =
     sort (map fst (filter (\<lambda>(sid, slot).
       slotState slot = PoolSlotAvailable \<and> slotMod slot \<noteq> ModShiro \<and> slotMod slot \<noteq> ModTB)
       (PoolSlots s)))"

definition normalPlacements :: "State \<Rightarrow> PlacementOption list" where
  "normalPlacements s =
     filter (\<lambda>p. slotMod (slotOf (PoolSlots s) (poSlotID p)) \<noteq> ModShiro)
       (anLegalPlacements (Analyze s))"

text \<open>The ban part that both actors share.\<close>

definition withBans :: "State \<Rightarrow> ActorAnalysis \<Rightarrow> ActorAnalysis" where
  "withBans s r =
     (let ids = bannableSlotIDs s; r1 = r\<lparr>aaBanPoolSlotIDs := ids\<rparr>
      in if ids \<noteq> [] then allow [ActionBanPoolSlot] r1 else r1)"

text \<open>The pick part that both actors share, with the robbery plans already computed.\<close>

definition withPicks :: "State \<Rightarrow> RobberyPlan list \<Rightarrow> ActorAnalysis \<Rightarrow> ActorAnalysis" where
  "withPicks s plans r =
     (let placements = normalPlacements s; cells = anEmptyCells (Analyze s);
          r1 = r\<lparr>aaLegalPlacements := placements\<rparr>;
          r2 = (if placements \<noteq> [] then allow [ActionPlacePiece] r1 else r1);
          r3 = (if shiroAvailable s \<and> cells \<noteq> []
                then (allow [ActionPlaceShiro] r2)\<lparr>aaShiroCells := cells\<rparr> else r2);
          r4 = r3\<lparr>aaRobberyPlans := plans\<rparr>
      in if plans \<noteq> [] then allow [ActionRobPiece] r4 else r4)"

definition refereeTimerActions :: "State \<Rightarrow> Time \<Rightarrow> Action list" where
  "refereeTimerActions s now =
     (if timerPaused (Timer s) then [ActionResumeTimer, ActionCalibrateTimer]
      else if timerDuration (Timer s) > 0 then
        [ActionPauseTimer, ActionCalibrateTimer] @
        (if timerExpired (Timer s) now then
           (if (Phase s = PhaseBan \<or> Phase s = PhasePick \<or> Phase s = PhaseWaitingForResult) \<and>
               teamValid (ActiveTeam s) \<and> \<not> flagOf (TeamPauseUsed s) (ActiveTeam s)
            then [ActionGrantAdditionalTime] else []) @
           (if Phase s = PhaseBan \<or> Phase s = PhasePick then [ActionSkipCurrentAction] else [])
         else [])
      else [])"

definition analyzeReferee :: "State \<Rightarrow> Time \<Rightarrow> ActorAnalysis" where
  "analyzeReferee s now =
     (case Lifecycle s of
        LifecycleReady \<Rightarrow> allow [ActionStartMatch] emptyAnalysis
      | LifecycleSuspended \<Rightarrow>
          let r = allow [ActionResumeMatch, ActionAbortMatch, ActionRecordSurrender] emptyAnalysis
          in if Phase s = PhaseBan \<or> Phase s = PhasePick
             then allow [ActionSkipCurrentAction] r else r
      | LifecycleRunning \<Rightarrow>
          let r = allow (refereeTimerActions s now)
                    (allow [ActionSuspendMatch, ActionAbortMatch, ActionRecordSurrender] emptyAnalysis)
          in (case Phase s of
                PhaseBan \<Rightarrow> if timerPaused (Timer s) then r else withBans s r
              | PhasePick \<Rightarrow>
                  if timerPaused (Timer s) then r
                  else
                    let r1 = withPicks s (robberyPlans s TeamRed @ robberyPlans s TeamBlue) r
                    in if \<not> timerPaused (Timer s) \<and> Turn s \<ge> 11 \<and> Turn s \<le> 14 then
                         (case PendingTBRequest s of
                            None \<Rightarrow> (allow [ActionRequestTB] r1)\<lparr>aaTBRequestTeams := [TeamRed, TeamBlue]\<rparr>
                          | Some pending \<Rightarrow>
                              (allow [ActionRespondTBRequest] r1)
                                \<lparr>aaPendingTBRequestID := tbReqID pending,
                                 aaCanAcceptTBRequest := True, aaCanRejectTBRequest := True,
                                 aaTBResponseTeams := [opponent (tbReqRequestedBy pending)]\<rparr>)
                       else r1
              | PhaseWaitingForResult \<Rightarrow> allow [ActionConfirmResult] r
              | PhaseTBPreparation \<Rightarrow>
                  if \<not> timerPaused (Timer s) then allow [ActionStartTB] r else r
              | PhaseTBPlaying \<Rightarrow> allow [ActionConfirmTBResult] r
              | _ \<Rightarrow> r)
      | _ \<Rightarrow> emptyAnalysis)"

definition analyzeStrategist :: "State \<Rightarrow> TeamSide \<Rightarrow> Time \<Rightarrow> ActorAnalysis" where
  "analyzeStrategist s team now =
     (if Lifecycle s \<noteq> LifecycleRunning \<or> ActiveTeam s \<noteq> team \<or> timerPaused (Timer s) \<or>
         timerExpired (Timer s) now then emptyAnalysis
      else case Phase s of
        PhaseBan \<Rightarrow> withBans s emptyAnalysis
      | PhasePick \<Rightarrow> withPicks s (robberyPlans s team) emptyAnalysis
      | _ \<Rightarrow> emptyAnalysis)"

definition analyzeCaptain :: "State \<Rightarrow> TeamSide \<Rightarrow> ActorAnalysis" where
  "analyzeCaptain s team =
     (if Lifecycle s \<noteq> LifecycleRunning \<or> Phase s \<noteq> PhasePick \<or> timerPaused (Timer s) \<or>
         Turn s < 11 \<or> Turn s > 14 then emptyAnalysis
      else case PendingTBRequest s of
        None \<Rightarrow> allow [ActionRequestTB] emptyAnalysis
      | Some pending \<Rightarrow>
          if tbReqRequestedBy pending \<noteq> team then
            (allow [ActionRespondTBRequest] emptyAnalysis)
              \<lparr>aaPendingTBRequestID := tbReqID pending, aaCanAcceptTBRequest := True,
               aaCanRejectTBRequest := True\<rparr>
          else emptyAnalysis)"

definition AnalyzeForActor :: "State \<Rightarrow> Actor \<Rightarrow> Time \<Rightarrow> ActorAnalysis" where
  "AnalyzeForActor s actor now =
     (if isZeroTime now then emptyAnalysis
      else if actorCapability actor = CapabilityReferee then analyzeReferee s now
      else case actorTeam actor of
        None \<Rightarrow> emptyAnalysis
      | Some team \<Rightarrow>
          if \<not> teamValid team then emptyAnalysis
          else case actorCapability actor of
            CapabilityStrategist \<Rightarrow> analyzeStrategist s team now
          | CapabilityCaptain \<Rightarrow> analyzeCaptain s team
          | _ \<Rightarrow> emptyAnalysis)"

section \<open>Every accepted command emits an event\<close>

lemma handler_events:
  "startMatch s a now = Inr (s', ev) \<Longrightarrow> ev \<noteq> []"
  "banPoolSlot s a sid now = Inr (s', ev) \<Longrightarrow> ev \<noteq> []"
  "placePiece s a sid pid cell now = Inr (s', ev) \<Longrightarrow> ev \<noteq> []"
  "placeShiro s a pid cell now = Inr (s', ev) \<Longrightarrow> ev \<noteq> []"
  "robPiece s a pid sets now = Inr (s', ev) \<Longrightarrow> ev \<noteq> []"
  "grantAdditionalTime s a reason now = Inr (s', ev) \<Longrightarrow> ev \<noteq> []"
  "calibrateTimer s a remaining reason now = Inr (s', ev) \<Longrightarrow> ev \<noteq> []"
  "pauseTimer s a reason now = Inr (s', ev) \<Longrightarrow> ev \<noteq> []"
  "resumeTimer s a reason now = Inr (s', ev) \<Longrightarrow> ev \<noteq> []"
  "suspendMatch s a reason now = Inr (s', ev) \<Longrightarrow> ev \<noteq> []"
  "resumeMatch s a reason now = Inr (s', ev) \<Longrightarrow> ev \<noteq> []"
  "skipCurrentAction s a reason now = Inr (s', ev) \<Longrightarrow> ev \<noteq> []"
  "abortMatch s a reason = Inr (s', ev) \<Longrightarrow> ev \<noteq> []"
  "requestTB s a rid basis now = Inr (s', ev) \<Longrightarrow> ev \<noteq> []"
  "respondTBRequest s a rid accept now = Inr (s', ev) \<Longrightarrow> ev \<noteq> []"
  "startTB s a reason now = Inr (s', ev) \<Longrightarrow> ev \<noteq> []"
  "confirmTBResult s a team = Inr (s', ev) \<Longrightarrow> ev \<noteq> []"
  "recordSurrender s a team ids reason = Inr (s', ev) \<Longrightarrow> ev \<noteq> []"
  "confirmBeatmapResult s a pid team now = Inr (s', ev) \<Longrightarrow> ev \<noteq> []"
  by (auto simp: startMatch_def banPoolSlot_def placePiece_def placeShiro_def robPiece_def
      grantAdditionalTime_def calibrateTimer_def pauseTimer_def resumeTimer_def suspendMatch_def
      resumeMatch_def skipCurrentAction_def abortMatch_def requestTB_def respondTBRequest_def
      startTB_def confirmTBResult_def recordSurrender_def confirmBeatmapResult_def
      accept_simps Let_def split_beta split: if_splits)

lemma proxy_events: "appendRefereeProxyEvent r t reason = Inr (s', ev) \<Longrightarrow> ev \<noteq> []"
  by (auto simp: appendRefereeProxyEvent_Inr)

lemma dispatch_events: "dispatch s a command now = Inr (s', ev) \<Longrightarrow> ev \<noteq> []"
  by (cases command)
     (auto simp: dispatch_def refereeBanPoolSlot_def refereePlacePiece_def refereePlaceShiro_def
       refereeRobPiece_def refereeRequestTB_def refereeRespondTBRequest_def handler_events
       split: sum.splits prod.splits dest: proxy_events)

section \<open>The surface agrees with Execute\<close>

definition accepted :: "State \<Rightarrow> Actor \<Rightarrow> Command \<Rightarrow> Time \<Rightarrow> bool" where
  "accepted s actor command now \<longleftrightarrow> (case Execute s actor command now of Inl _ \<Rightarrow> False | Inr _ \<Rightarrow> True)"

lemma accepted_iff:
  assumes "coreOk s"
  shows "accepted s actor command now \<longleftrightarrow> (\<exists>s' ev. dispatch s actor command now = Inr (s', ev))"
  using dispatch_events [of s actor command now]
  by (cases "dispatch s actor command now")
     (auto simp: accepted_def Execute_def stateClone_id [OF assms] split_beta)

definition openTurn :: "State \<Rightarrow> TeamSide \<Rightarrow> Time \<Rightarrow> bool" where
  "openTurn s team now \<longleftrightarrow> Lifecycle s = LifecycleRunning \<and> ActiveTeam s = team \<and>
     \<not> timerPaused (Timer s) \<and> \<not> timerExpired (Timer s) now"

lemma StrategistActor_simps [simp]:
  "actorCapability (StrategistActor t) = CapabilityStrategist" "actorTeam (StrategistActor t) = Some t"
  by (simp_all add: StrategistActor_def)

lemma CaptainActor_simps [simp]:
  "actorCapability (CaptainActor t) = CapabilityCaptain" "actorTeam (CaptainActor t) = Some t"
  by (simp_all add: CaptainActor_def)

lemma allow_simps [simp]:
  "aaBanPoolSlotIDs (allow xs r) = aaBanPoolSlotIDs r"
  "aaLegalPlacements (allow xs r) = aaLegalPlacements r"
  "aaShiroCells (allow xs r) = aaShiroCells r" "aaRobberyPlans (allow xs r) = aaRobberyPlans r"
  "aaAllowedActions (allow xs r) = aaAllowedActions r @ xs"
  by (simp_all add: allow_def)

lemma emptyAnalysis_simps [simp]:
  "aaBanPoolSlotIDs emptyAnalysis = []" "aaLegalPlacements emptyAnalysis = []"
  "aaShiroCells emptyAnalysis = []" "aaRobberyPlans emptyAnalysis = []"
  "aaAllowedActions emptyAnalysis = []"
  by (simp_all add: emptyAnalysis_def)

lemma withPicks_simps:
  "aaBanPoolSlotIDs (withPicks s plans r) = aaBanPoolSlotIDs r"
  "aaLegalPlacements (withPicks s plans r) = normalPlacements s"
  "aaRobberyPlans (withPicks s plans r) = plans"
  "aaShiroCells r = [] \<Longrightarrow> aaShiroCells (withPicks s plans r) = (if shiroAvailable s then emptyCells (Board s) else [])"
  by (auto simp: withPicks_def Let_def)

lemma strategist_surface:
  assumes "teamValid team" "now \<noteq> 0"
    and r: "r = AnalyzeForActor s (StrategistActor team) now"
  shows "aaBanPoolSlotIDs r = (if openTurn s team now \<and> Phase s = PhaseBan then bannableSlotIDs s else [])"
    "aaLegalPlacements r = (if openTurn s team now \<and> Phase s = PhasePick then normalPlacements s else [])"
    "aaShiroCells r = (if openTurn s team now \<and> Phase s = PhasePick \<and> shiroAvailable s
                       then emptyCells (Board s) else [])"
    "aaRobberyPlans r = (if openTurn s team now \<and> Phase s = PhasePick then robberyPlans s team else [])"
  using assms
  by (simp_all add: r AnalyzeForActor_def isZeroTime_def analyzeStrategist_def
      openTurn_def withPicks_simps withBans_def Let_def split: Phase.splits)

lemma bannable_iff:
  assumes "keysDistinct (PoolSlots s)"
  shows "sid \<in> set (bannableSlotIDs s) \<longleftrightarrow>
     (\<exists>slot. mapGet (PoolSlots s) sid = Some slot \<and> slotState slot = PoolSlotAvailable \<and>
        slotMod slot \<noteq> ModShiro \<and> slotMod slot \<noteq> ModTB)"
  by (force simp: bannableSlotIDs_def mapGet_iff [OF assms] image_iff)

lemma ban_exact:
  assumes core: "coreOk s" and maps: "mapsOk s" and team: "teamValid team" and now: "now \<noteq> 0"
  shows "sid \<in> set (aaBanPoolSlotIDs (AnalyzeForActor s (StrategistActor team) now)) \<longleftrightarrow>
     accepted s (StrategistActor team) (BanPoolSlot sid) now"
proof -
  have keys: "keysDistinct (PoolSlots s)" using maps by (simp add: mapsOk_def)
  have "accepted s (StrategistActor team) (BanPoolSlot sid) now \<longleftrightarrow>
      openTurn s team now \<and> Phase s = PhaseBan \<and> sid \<in> set (bannableSlotIDs s)"
    using team
    by (auto simp: accepted_iff [OF core] dispatch_def banPoolSlot_def accept_simps split_beta Let_def
        openTurn_def bannable_iff [OF keys])
  then show ?thesis by (simp add: strategist_surface [OF team now refl])
qed

lemma normalPlacements_iff:
  assumes "keysDistinct (PoolSlots s)"
  shows "p \<in> set (normalPlacements s) \<longleftrightarrow>
     (\<exists>slot zone. mapGet (PoolSlots s) (poSlotID p) = Some slot \<and> slotState slot = PoolSlotAvailable \<and>
        slotMod slot \<noteq> ModTB \<and> slotMod slot \<noteq> ModShiro \<and> boardEmpty (Board s) (poCell p) \<and>
        ZoneAt (poCell p) = Some zone \<and> placementForceMod (slotMod slot) zone = Inr (poForceMod p))"
  by (auto simp: normalPlacements_def legalPlacements_iff [OF assms] legalPlacement_def slotOf_def)

lemma placement_exact:
  assumes core: "coreOk s" and maps: "mapsOk s" and team: "teamValid team" and now: "now \<noteq> 0"
    and fresh: "pid \<noteq> ''''" "\<not> containsPieceID (Board s) pid"
  shows "(\<exists>f. \<lparr>poSlotID = sid, poCell = cell, poForceMod = f\<rparr> \<in>
            set (aaLegalPlacements (AnalyzeForActor s (StrategistActor team) now))) \<longleftrightarrow>
     accepted s (StrategistActor team) (PlacePiece sid pid cell) now"
proof -
  have keys: "keysDistinct (PoolSlots s)" using maps by (simp add: mapsOk_def)
  have "accepted s (StrategistActor team) (PlacePiece sid pid cell) now \<longleftrightarrow>
      openTurn s team now \<and> Phase s = PhasePick \<and>
      (\<exists>f. \<lparr>poSlotID = sid, poCell = cell, poForceMod = f\<rparr> \<in> set (normalPlacements s))"
    unfolding accepted_iff [OF core] normalPlacements_iff [OF keys]
    using team
    by (auto simp: dispatch_def placePiece_def accept_simps Let_def openTurn_def fresh)
  then show ?thesis by (simp add: strategist_surface [OF team now refl])
qed

lemma shiroAvailable_iff:
  assumes "poolOk (PoolSlots s)" "keysDistinct (PoolSlots s)"
  shows "shiroAvailable s \<longleftrightarrow>
     (\<exists>slot. findShiro (PoolSlots s) = Some slot \<and> slotState slot = PoolSlotAvailable)"
proof -
  let ?P = "\<lambda>(sid, slot). slotMod slot = ModShiro"
  obtain e where "filter ?P (PoolSlots s) = [e]"
    using assms(1) by (auto simp: poolOk_def modCount_def length_Suc_conv)
  then have mem: "f \<in> set (PoolSlots s) \<and> ?P f \<longleftrightarrow> f = e" for f
    using set_filter [of ?P "PoolSlots s"] by auto
  have "firstEntry ?P (PoolSlots s) \<noteq> None"
    using mem [of e] firstEntry_None [of ?P "PoolSlots s"] by blast
  then obtain f where f: "firstEntry ?P (PoolSlots s) = Some f" by blast
  then have "f = e" using firstEntry_Some [OF f] mem [of f] by blast
  then have "findShiro (PoolSlots s) = Some (snd e)" using f by (simp add: findShiro_def)
  moreover have "shiroAvailable s \<longleftrightarrow>
      (\<exists>f. (f \<in> set (PoolSlots s) \<and> ?P f) \<and> slotState (snd f) = PoolSlotAvailable)"
    by (auto simp: shiroAvailable_def)
  ultimately show ?thesis unfolding mem by simp
qed

lemma shiro_exact:
  assumes core: "coreOk s" and maps: "mapsOk s" and team: "teamValid team" and now: "now \<noteq> 0"
    and fresh: "pid \<noteq> ''''" "\<not> containsPieceID (Board s) pid"
  shows "cell \<in> set (aaShiroCells (AnalyzeForActor s (StrategistActor team) now)) \<longleftrightarrow>
     accepted s (StrategistActor team) (PlaceShiro pid cell) now"
proof -
  have keys: "keysDistinct (PoolSlots s)" using maps by (simp add: mapsOk_def)
  have "accepted s (StrategistActor team) (PlaceShiro pid cell) now \<longleftrightarrow>
      openTurn s team now \<and> Phase s = PhasePick \<and> shiroAvailable s \<and> boardEmpty (Board s) cell"
    unfolding accepted_iff [OF core] shiroAvailable_iff [OF coreOk_parts(2) [OF core] keys]
    using team
    by (auto simp: dispatch_def placeShiro_def accept_simps Let_def openTurn_def fresh split_beta)
  then show ?thesis by (simp add: strategist_surface [OF team now refl] emptyCells_iff)
qed

lemma robPiece_accepts:
  assumes ok: "boardOk (Board s)" and team: "teamValid team"
  shows "(\<exists>s' ev. robPiece s (StrategistActor team) pid sets now = Inr (s', ev)) \<longleftrightarrow>
     openTurn s team now \<and> Phase s = PhasePick \<and> robberyLegal (Board s) team pid sets"
proof
  assume "\<exists>s' ev. robPiece s (StrategistActor team) pid sets now = Inr (s', ev)"
  then obtain s' ev where step: "robPiece s (StrategistActor team) pid sets now = Inr (s', ev)" by blast
  then have "openTurn s team now \<and> Phase s = PhasePick"
    by (auto simp: robPiece_def guardE_Inr requireRunningPhase_None requireActiveStrategist_None
        requireStrategistTimer_None openTurn_def)
  then show "openTurn s team now \<and> Phase s = PhasePick \<and> robberyLegal (Board s) team pid sets"
    using robPiece_Inr [OF step ok] by (auto simp: robberyLegal_def openTurn_def)
next
  assume r: "openTurn s team now \<and> Phase s = PhasePick \<and> robberyLegal (Board s) team pid sets"
  then obtain c p where p: "(c, p) \<in> set (boardPieces (Board s))" "pieceID p = pid"
    and legal: "sacrificeLegal (Board s) team p sets" by (auto simp: robberyLegal_def)
  have find: "pieceByID (Board s) pid = Some (c, p)"
    using pieceByID_Some [OF boardOkD(2) [OF ok]] p by simp
  have g: "requireRunningPhase s PhasePick = None" "requireActiveStrategist s (StrategistActor team) = None"
    "requireStrategistTimer (Timer s) now = None" and act: "ActiveTeam s = team"
    using r team by (auto simp: requireRunningPhase_None requireActiveStrategist_None
        requireStrategistTimer_None openTurn_def)
  obtain b where b: "boardAfterRobbery (Board s) team pid (concat sets)
      (if targetIsShiro p then 2 else 3) = Some b"
    using legal p(2) by (auto simp: sacrificeLegal_def)
  have len: "isAlignment (Board s) team x 2 \<Longrightarrow> length x = 2" for x
    by (simp add: isAlignment_def)
  have c: "\<not> (if targetIsShiro p
                  then length sets \<noteq> 1 \<or> length (hd sets) \<noteq> 2 \<or> \<not> isAlignment (Board s) team (hd sets) 2
                  else \<not> validNormalRobberySacrifice (Board s) team sets)"
    using legal len by (auto simp: sacrificeLegal_def split: if_splits)
  have d: "flattenSacrificeSets sets = Some (concat sets)" "targetIsShiro p \<or> targetIsOpponent team p"
    using legal by (auto simp: sacrificeLegal_def flattenSacrificeSets_eq)
  have "\<exists>r. robPiece s (StrategistActor team) pid sets now = Inr r"
    unfolding robPiece_def g act Let_def find d(1) option.case prod.case guardE.simps p(2) b if_not_P [OF c]
    using d(2) by (simp add: split_beta)
  then show "\<exists>s' ev. robPiece s (StrategistActor team) pid sets now = Inr (s', ev)" by auto
qed

lemma rob_exact:
  assumes core: "coreOk s" and maps: "mapsOk s" and team: "teamValid team" and now: "now \<noteq> 0"
  shows "accepted s (StrategistActor team) (RobPiece target sets) now \<longleftrightarrow>
     (\<exists>plan\<in>set (aaRobberyPlans (AnalyzeForActor s (StrategistActor team) now)).
        planTargetPieceID plan = target \<and>
        (\<exists>c p. (c, p) \<in> set (boardPieces (Board s)) \<and> pieceID p = target \<and>
               sacrificeLegal (Board s) team p sets \<and>
               set (concat (planSacrificeSets plan)) = set (concat sets)))" (is "?acc \<longleftrightarrow> ?plan")
proof -
  have ok: "boardOk (Board s)"
    using boardShapeOk_boardOk [OF coreOk_parts(3) [OF core]] maps by (simp add: mapsOk_def)
  have acc: "?acc \<longleftrightarrow> openTurn s team now \<and> Phase s = PhasePick \<and> robberyLegal (Board s) team target sets"
    using robPiece_accepts [OF ok team] by (simp add: accepted_iff [OF core] dispatch_def)
  show ?thesis
  proof
    assume ?acc
    then have turn: "openTurn s team now" "Phase s = PhasePick" and "robberyLegal (Board s) team target sets"
      using acc by auto
    then obtain c p where p: "(c, p) \<in> set (boardPieces (Board s))" "pieceID p = target"
      and legal: "sacrificeLegal (Board s) team p sets" by (auto simp: robberyLegal_def)
    from sacrificeLegal_planLegal [OF ok legal] obtain sets' where
      plan: "planLegal (Board s) team p sets'" "set (concat sets') = set (concat sets)" by blast
    have "\<lparr>planTargetPieceID = target, planSacrificeSets = sets'\<rparr> \<in> set (robberyPlans s team)"
      using turn p plan(1) by (auto simp: robberyPlans_iff [OF ok] openTurn_def)
    then show ?plan
      using turn p legal plan(2)
      by (intro bexI [of _ "\<lparr>planTargetPieceID = target, planSacrificeSets = sets'\<rparr>"])
         (auto simp: strategist_surface [OF team now refl])
  next
    assume ?plan
    then show ?acc
      unfolding acc by (auto simp: strategist_surface [OF team now refl] robberyLegal_def split: if_splits)
  qed
qed

lemma plan_accepted:
  assumes core: "coreOk s" and maps: "mapsOk s" and team: "teamValid team" and now: "now \<noteq> 0"
    and plan: "plan \<in> set (aaRobberyPlans (AnalyzeForActor s (StrategistActor team) now))"
  shows "accepted s (StrategistActor team) (RobPiece (planTargetPieceID plan) (planSacrificeSets plan)) now"
proof -
  have ok: "boardOk (Board s)"
    using boardShapeOk_boardOk [OF coreOk_parts(3) [OF core]] maps by (simp add: mapsOk_def)
  have "openTurn s team now" "Phase s = PhasePick" "plan \<in> set (robberyPlans s team)"
    using plan by (auto simp: strategist_surface [OF team now refl] split: if_splits)
  moreover from this(3) obtain c p where "(c, p) \<in> set (boardPieces (Board s))"
    "planTargetPieceID plan = pieceID p" "sacrificeLegal (Board s) team p (planSacrificeSets plan)"
    using planLegal_sacrificeLegal [OF ok] by (auto simp: robberyPlans_iff [OF ok])
  ultimately have "\<exists>s' ev. robPiece s (StrategistActor team) (planTargetPieceID plan) (planSacrificeSets plan) now = Inr (s', ev)"
    unfolding robPiece_accepts [OF ok team] robberyLegal_def by auto
  then show ?thesis by (simp add: accepted_iff [OF core] dispatch_def)
qed

end
