(* ===== verification/EngineHistory.thy ===== *)
theory EngineHistory
  imports EngineSteps EngineActorAnalysis
begin

text \<open>
  Histories of a match: the initial state of \<open>NewReadyState\<close>, and the commands whose outcome the
  persistence layer accepts (\<open>persisted\<close>). The locale \<open>step_system\<close> states what histories need of
  one step; it is interpreted on the engine with \<open>ValidateState\<close> as the invariant and \<open>evolves\<close> as
  the order, so every reachable state is valid and a history never gives back what it used up.
  The last sections say which states no command can leave, and that from every other state in
  play the referee has a command that is accepted and can be stored.
\<close>

section \<open>Systems that keep an invariant and only grow\<close>

text \<open>
  The interface the histories use: a step relation, an invariant every step keeps, a
  preorder every step respects, and the version every step counts.
\<close>

locale step_system =
  fixes step :: "'s \<Rightarrow> 's \<Rightarrow> bool" and inv :: "'s \<Rightarrow> bool" and grows :: "'s \<Rightarrow> 's \<Rightarrow> bool"
  assumes step_inv: "inv s \<Longrightarrow> step s t \<Longrightarrow> inv t"
    and step_grows: "inv s \<Longrightarrow> step s t \<Longrightarrow> grows s t"
    and grows_refl: "grows s s"
    and grows_trans: "grows s t \<Longrightarrow> grows t u \<Longrightarrow> grows s u"
begin

lemma runs_keep:
  assumes "step\<^sup>*\<^sup>* s t" and "inv s"
  shows "inv t \<and> grows s t"
  using assms
proof (induction rule: rtranclp_induct)
  case base
  then show ?case by (simp add: grows_refl)
next
  case (step t u)
  then show ?case using step_inv step_grows grows_trans by blast
qed

lemma runs_inv: "step\<^sup>*\<^sup>* s t \<Longrightarrow> inv s \<Longrightarrow> inv t"
  using runs_keep by blast

lemma runs_grow: "step\<^sup>*\<^sup>* s t \<Longrightarrow> inv s \<Longrightarrow> grows s t"
  using runs_keep by blast

lemma runs_stuck: "step\<^sup>*\<^sup>* s t \<Longrightarrow> (\<And>u. \<not> step s u) \<Longrightarrow> t = s"
  by (induction rule: converse_rtranclp_induct) auto

end

locale versioned_system = step_system +
  fixes version :: "'s \<Rightarrow> 64 word"
  assumes step_version: "inv s \<Longrightarrow> step s t \<Longrightarrow> version t = version s + 1"
begin

lemma run_version: "(step ^^ n) s t \<Longrightarrow> inv s \<Longrightarrow> version t = version s + of_nat n"
proof (induction n arbitrary: t)
  case (Suc n)
  then obtain u where u: "(step ^^ n) s u" "step u t" by auto
  then have "inv u" using runs_inv Suc.prems(2) by (blast dest: relpowp_imp_rtranclp)
  then show ?case using Suc u step_version by simp
qed simp

end

section \<open>The initial state\<close>

definition rosterIDs :: "(TeamSide, Roster) gomap \<Rightarrow> TeamSide \<Rightarrow> int list" where
  "rosterIDs rosters side =
     rosterLeaderID (rosterOf rosters side) # rosterPlayerIDs (rosterOf rosters side)"

lemma checkRosterPlayers_Inr:
  "checkRosterPlayers leader seen ps = Inr seen' \<longleftrightarrow>
     (\<forall>p\<in>set ps. 0 < p \<and> p \<noteq> leader \<and> p \<notin> set seen) \<and> distinct ps \<and> seen' = rev ps @ seen"
  by (induction ps arbitrary: seen) auto

lemma checkRosterSides_Cons:
  "(\<exists>r. checkRosterSides rosters seen (side # sides) = Inr r) \<longleftrightarrow>
     mapGet rosters side \<noteq> None \<and> (\<forall>p\<in>set (rosterIDs rosters side). 0 < p \<and> p \<notin> set seen) \<and>
     distinct (rosterIDs rosters side) \<and>
     (\<exists>r. checkRosterSides rosters (rev (rosterIDs rosters side) @ seen) sides = Inr r)"
proof (cases "mapGet rosters side")
  case (Some x)
  let ?l = "rosterLeaderID x" and ?ps = "rosterPlayerIDs x"
  have ids: "rosterIDs rosters side = ?l # ?ps" by (simp add: rosterIDs_def rosterOf_def Some)
  show ?thesis
  proof (cases "checkRosterPlayers ?l (?l # seen) ?ps")
    case (Inl e)
    then have "\<not> ((\<forall>p\<in>set ?ps. 0 < p \<and> p \<noteq> ?l \<and> p \<notin> set (?l # seen)) \<and> distinct ?ps)"
      using checkRosterPlayers_Inr [of ?l "?l # seen" ?ps "rev ?ps @ ?l # seen"] by auto
    then show ?thesis by (auto simp: Some ids Inl)
  next
    case (Inr seen')
    then have "(\<forall>p\<in>set ?ps. 0 < p \<and> p \<noteq> ?l \<and> p \<notin> set seen) \<and> distinct ?ps"
      and seen': "seen' = rev ?ps @ ?l # seen"
      using checkRosterPlayers_Inr [of ?l "?l # seen" ?ps seen'] by auto
    then show ?thesis using Inr by (auto simp: Some ids)
  qed
qed simp

lemma checkRosters_iff:
  "(\<exists>r. checkRosterSides rosters [] [TeamRed, TeamBlue] = Inr r) \<longleftrightarrow>
     mapGet rosters TeamRed \<noteq> None \<and> mapGet rosters TeamBlue \<noteq> None \<and>
     (let ids = rosterIDs rosters TeamRed @ rosterIDs rosters TeamBlue
      in list_all (\<lambda>p. 0 < p) ids \<and> distinct ids)"
  unfolding checkRosterSides_Cons by (auto simp: Let_def list_all_iff)

lemma buildPool_ok:
  assumes "buildPool pool sh tb slots = Inr (pool', sh', tb')"
    and "keysDistinct pool"
    and "\<forall>(sid, slot)\<in>set pool. slotOk sid slot \<and> slotState slot = PoolSlotAvailable"
    and "sh = modCount ModShiro pool" and "tb = modCount ModTB pool"
  shows "keysDistinct pool' \<and>
    (\<forall>(sid, slot)\<in>set pool'. slotOk sid slot \<and> slotState slot = PoolSlotAvailable) \<and>
    sh' = modCount ModShiro pool' \<and> tb' = modCount ModTB pool'"
  using assms
proof (induction slots arbitrary: pool sh tb)
  case (Cons c rest)
  have fresh: "mapGet pool (slotID c) = None" and c: "slotID c \<noteq> ''''" "modValid (slotMod c)"
    using Cons.prems(1) by (auto split: if_splits)
  let ?c = "c\<lparr>slotState := PoolSlotAvailable\<rparr>"
  have put: "mapPut (slotID c) ?c pool = pool @ [(slotID c, ?c)]" by (rule mapPut_fresh [OF fresh])
  have "slotOk (slotID c) ?c" using c by (simp add: slotOk_def)
  moreover have count: "modCount m (pool @ [(slotID c, ?c)]) =
      (if slotMod c = m then Suc (modCount m pool) else modCount m pool)" for m
    by (simp add: modCount_def)
  moreover have "keysDistinct (pool @ [(slotID c, ?c)])"
    using keysDistinct_mapPut [OF Cons.prems(2), of "slotID c" ?c] by (simp add: put)
  ultimately show ?case
    using Cons.prems by (intro Cons.IH [of "pool @ [(slotID c, ?c)]"]) (auto simp: put count fresh c split: if_splits)
qed auto

lemma NewReadyState_valid:
  assumes new: "NewReadyState cfg = Inr s" and rosters: "keysDistinct (cfgRosters cfg)"
  shows "validState s \<and> mapsOk s"
proof -
  from new obtain pool sh tb r where
    pool: "buildPool [] 0 0 (cfgPoolSlots cfg) = Inr (pool, sh, tb)" "sh = 1" "tb = 1"
    and teams: "teamValid (cfgFirstBan cfg)" "teamValid (cfgFirstPick cfg)"
    and r: "validateAndCloneRosters (cfgRosters cfg) = Inr r" and timers: "timersValid (cfgTimers cfg)"
    by (auto simp: NewReadyState_def split: if_splits sum.splits prod.splits)
  have same: "r = cfgRosters cfg"
    using r by (auto simp: validateAndCloneRosters_def split: if_splits sum.splits)
  have s: "s = \<lparr>Version = 0, Lifecycle = LifecycleReady, Phase = PhaseNone,
                 FirstBan = cfgFirstBan cfg, FirstPick = cfgFirstPick cfg,
                 Turn = 0, ActiveTeam = TeamNone, PoolSlots = pool, Board = NewBoard,
                 Timer = zeroTimer,
                 RobberyUsed = [(TeamRed, False), (TeamBlue, False)],
                 TeamPauseUsed = [(TeamRed, False), (TeamBlue, False)],
                 Rosters = r, Timers = cfgTimers cfg,
                 PendingPieceID = '''', PendingTBRequest = None, TBEntry = None,
                 Winner = None, MatchResult = None, Stalemate = None, Suspension = None,
                 AbortReason = ''''\<rparr>"
    using new pool teams r timers by (simp add: NewReadyState_def)
  note ok = buildPool_ok [OF pool(1), simplified]
  have "poolOk pool" using ok pool by (auto simp: poolOk_def)
  then show ?thesis
    using ok teams r timers rosters
    by (auto simp: s same validState_def coreOk_def configOk_def flagsOk_def boardStateOk_def timerOk_def
          lifecycleOk_def idleOk_def versionOk_def mapsOk_def NewBoard_def readyTurn_def flagOf_def
          teamValid_def sources_def)
qed

section \<open>Histories\<close>

text \<open>
  A command that reaches the database: the engine accepts it and \<open>ValidateState\<close> accepts the
  state it leaves. \<open>perform\<close> is what a client sees of one command: anything else changes nothing.
\<close>

definition persists :: "State \<Rightarrow> Actor \<Rightarrow> Command \<Rightarrow> Time \<Rightarrow> State \<Rightarrow> bool" where
  "persists s actor command now t \<longleftrightarrow>
     now \<noteq> 0 \<and>
     (case Execute s actor command now of
        Inl _ \<Rightarrow> False
      | Inr tr \<Rightarrow> ValidateState (trState tr) = None \<and> t = trState tr)"

definition perform :: "State \<Rightarrow> Actor \<times> Command \<times> Time \<Rightarrow> State" where
  "perform s = (\<lambda>(actor, command, now).
     case Execute s actor command now of
       Inl _ \<Rightarrow> s
     | Inr tr \<Rightarrow> if now \<noteq> 0 \<and> ValidateState (trState tr) = None then trState tr else s)"

inductive persisted :: "State \<Rightarrow> State \<Rightarrow> bool" where
  "persists s actor command now t \<Longrightarrow> persisted s t"

inductive reachable :: "Configuration \<Rightarrow> State \<Rightarrow> bool" for cfg where
  start: "NewReadyState cfg = Inr s \<Longrightarrow> keysDistinct (cfgRosters cfg) \<Longrightarrow> reachable cfg s"
| command: "reachable cfg s \<Longrightarrow> persisted s t \<Longrightarrow> reachable cfg t"

inductive_cases persistedE: "persisted s t"

lemma persists_Some:
  "persists s actor command now t \<longleftrightarrow>
     now \<noteq> 0 \<and> (\<exists>tr. Execute s actor command now = Inr tr \<and> validState (trState tr) \<and> t = trState tr)"
  by (auto simp: persists_def ValidateState_iff split: sum.splits)

definition sound :: "State \<Rightarrow> bool" where
  "sound s \<longleftrightarrow> validState s \<and> mapsOk s"

lemma persisted_sound:
  assumes "sound s" "persisted s t"
  shows "sound t" and "evolves s t" and "Version t = Version s + 1"
proof -
  obtain actor command now tr where
    run: "Execute s actor command now = Inr tr" "validState (trState tr)" "t = trState tr"
    using assms(2) by (auto elim!: persistedE simp: persists_Some)
  note ev = Execute_evolves [OF _ _ run(1)]
  show "evolves s t" "Version t = Version s + 1"
    using ev assms(1) run(3) by (simp_all add: sound_def)
  then show "sound t" using evolves_mapsOk assms(1) run(2,3) by (auto simp: sound_def)
qed

interpretation game: versioned_system persisted sound evolves Version
  by unfold_locales (auto intro: persisted_sound elim: evolves_trans)

lemma reachable_runs:
  "reachable cfg s \<Longrightarrow> \<exists>s0. NewReadyState cfg = Inr s0 \<and> sound s0 \<and> persisted\<^sup>*\<^sup>* s0 s"
proof (induction rule: reachable.induct)
  case (start s)
  then show ?case using NewReadyState_valid by (auto simp: sound_def)
next
  case (command s t)
  then show ?case by (meson rtranclp.rtrancl_into_rtrancl)
qed

lemma reachable_sound: "reachable cfg s \<Longrightarrow> sound s"
  using reachable_runs game.runs_inv by blast

lemma perform_cases:
  "perform s (actor, command, now) = s \<or>
   persists s actor command now (perform s (actor, command, now))"
  by (auto simp: perform_def persists_def split: sum.splits)

lemma reachable_perform: "reachable cfg s \<Longrightarrow> reachable cfg (foldl perform s plays)"
proof (induction plays arbitrary: s)
  case (Cons p plays)
  obtain actor command now where p: "p = (actor, command, now)" by (cases p)
  have "reachable cfg (perform s p)"
    using perform_cases [of s actor command now] Cons.prems reachable.command persisted.intros
    unfolding p by metis
  then show ?case using Cons.IH by simp
qed simp

section \<open>Commands that persist\<close>

lemma persists_storable:
  assumes "sound s" "Version s + 1 \<noteq> 0"
  shows "persists s actor command now t \<longleftrightarrow>
    now \<noteq> 0 \<and> storable s command \<and> (\<exists>tr. Execute s actor command now = Inr tr \<and> t = trState tr)"
  using Execute_valid [of s now actor command] assms
  by (auto simp: persists_Some sound_def)

lemma Execute_dispatch_Inr:
  assumes "sound s" and "dispatch s actor command now = Inr (s', ev)"
  shows "\<exists>tr. Execute s actor command now = Inr tr"
proof -
  have "coreOk s" using assms(1) by (simp add: sound_def validState_def)
  then show ?thesis
    using Execute_Inr [of s actor command now] dispatch_events [OF assms(2)] assms(2) by auto
qed

definition terminal :: "State \<Rightarrow> bool" where
  "terminal s \<longleftrightarrow>
     Lifecycle s \<in> {LifecycleFinished, LifecycleAborted, LifecycleAdjudicationRequired}"

lemma terminal_dispatch:
  "terminal s \<Longrightarrow> \<exists>e. dispatch s actor command now = Inl e"
  by (cases command)
     (auto simp: terminal_def dispatch_def startMatch_def banPoolSlot_def placePiece_def
        placeShiro_def robPiece_def grantAdditionalTime_def calibrateTimer_def pauseTimer_def
        resumeTimer_def suspendMatch_def resumeMatch_def skipCurrentAction_def abortMatch_def
        requestTB_def respondTBRequest_def startTB_def confirmTBResult_def recordSurrender_def
        confirmBeatmapResult_def refereeBanPoolSlot_def refereePlacePiece_def
        refereePlaceShiro_def refereeRobPiece_def refereeRequestTB_def
        refereeRespondTBRequest_def appendRefereeProxyEvent_def requireRunningPhase_def
        split: sum.splits)

lemma terminal_Execute: "terminal s \<Longrightarrow> \<exists>e. Execute s actor command now = Inl e"
  using terminal_dispatch [of "stateClone s" actor command now]
  by (auto simp: Execute_def terminal_def stateClone_def)

lemma terminal_stuck: "terminal s \<Longrightarrow> \<not> persisted s t"
proof
  assume "terminal s" "persisted s t"
  then obtain actor command now tr where "Execute s actor command now = Inr tr"
    by (auto elim!: persistedE simp: persists_Some)
  with terminal_Execute [OF \<open>terminal s\<close>, of actor command now] show False by simp
qed

section \<open>A live match the referee can still move\<close>

text \<open>
  The states in which every command is either rejected or leaves a state that cannot be stored:
  suspended while a result is awaited, after the confirmation timer had run out.
\<close>

definition deadlocked :: "State \<Rightarrow> bool" where
  "deadlocked s \<longleftrightarrow>
     Lifecycle s = LifecycleSuspended \<and> Phase s = PhaseWaitingForResult \<and>
     (case Suspension s of
        None \<Rightarrow> False
      | Some susp \<Rightarrow> suspHadTimer susp \<and> \<not> suspTimerWasPaused susp \<and>
                     timerRemainingAtPause (Timer s) = 0)"

text \<open>The way out the referee has: abort, confirm the result, or resume.\<close>

definition refereeExit :: "State \<Rightarrow> Command" where
  "refereeExit s =
     (if Phase s \<noteq> PhaseWaitingForResult then AbortMatch ''referee decision''
      else if Lifecycle s = LifecycleRunning then ConfirmBeatmapResult (PendingPieceID s) TeamRed
      else ResumeMatch ''referee decision'')"

lemma not_blank_reason: "\<not> blank ''referee decision''"
  by code_simp

lemma deadlocked_dispatch:
  assumes "deadlocked s" and "dispatch s actor command now = Inr (s', ev)"
  shows "\<not> storable s command \<and> Lifecycle s' \<noteq> LifecycleReady"
  using assms
  by (cases command)
     (auto simp: deadlocked_def storable_def dispatch_def startMatch_def banPoolSlot_def placePiece_def
        placeShiro_def robPiece_def grantAdditionalTime_def calibrateTimer_def pauseTimer_def
        resumeTimer_def suspendMatch_def skipCurrentAction_def resumeMatch_def abortMatch_def
        recordSurrender_def finishMatch_def Let_def
        requestTB_def respondTBRequest_def startTB_def confirmTBResult_def
        confirmBeatmapResult_def refereeBanPoolSlot_def refereePlacePiece_def
        refereePlaceShiro_def refereeRobPiece_def refereeRequestTB_def
        refereeRespondTBRequest_def appendRefereeProxyEvent_def requireRunningPhase_def
        split: sum.splits option.splits if_splits prod.splits)

lemma deadlocked_stuck:
  assumes "sound s" "deadlocked s"
  shows "\<not> persisted s t"
proof
  assume "persisted s t"
  then obtain actor command now tr where run: "Execute s actor command now = Inr tr"
      "validState (trState tr)" "now \<noteq> 0" and t: "t = trState tr"
    by (auto elim!: persistedE simp: persists_Some)
  have core: "coreOk s" using assms(1) by (simp add: sound_def validState_def)
  obtain s' ev where d: "dispatch s actor command now = Inr (s', ev)"
      and tr: "tr = \<lparr>trState = s'\<lparr>Version := Version s' + 1\<rparr>, trEvents = ev\<rparr>"
    using run(1) by (auto simp: Execute_Inr [OF core])
  have "mapsOk s" using assms(1) by (simp add: sound_def)
  then have "\<not> keeps s'" "Lifecycle s' \<noteq> LifecycleReady"
    using dispatch_keeps [OF core _ run(3) d] deadlocked_dispatch [OF assms(2) d] by simp_all
  then show False using run(2) by (simp add: tr keeps_def validState_def frame_simps)
qed

lemma waitingIDs_subset: "set (waitingIDs ps) \<subseteq> set (pieceIDs ps)"
  by (auto simp: waitingIDs_def pieceIDs_def)

lemma exit_accepted:
  assumes core: "coreOk s" and live: "Lifecycle s = LifecycleRunning \<or> Lifecycle s = LifecycleSuspended"
    and free: "\<not> deadlocked s"
  shows "(\<exists>r. dispatch s RefereeActor (refereeExit s) now = Inr r) \<and> storable s (refereeExit s)"
proof (cases "Phase s = PhaseWaitingForResult")
  case False
  then show ?thesis
    using live not_blank_reason
    by (auto simp: refereeExit_def dispatch_def abortMatch_def RefereeActor_def missingReason_def
          storable_def)
next
  case wait: True
  show ?thesis
  proof (cases "Lifecycle s = LifecycleRunning")
    case True
    have ids: "waitingIDs (boardPieces (Board s)) = [PendingPieceID s]"
      using core wait by (simp add: coreOk_def boardStateOk_def)
    then have "PendingPieceID s \<noteq> ''''"
      using core waitingIDs_nonempty_id [of "boardPieces (Board s)" "PoolSlots s"]
      by (auto simp: coreOk_def boardStateOk_def)
    moreover have "containsPieceID (Board s) (PendingPieceID s)"
      using ids waitingIDs_subset [of "boardPieces (Board s)"] by (simp add: containsPieceID_iff)
    then have "\<exists>b. setOwner (Board s) (PendingPieceID s) TeamRed = Some b"
      by (simp add: setOwner_def setOwnerIn_None containsPieceID_iff flip: not_None_eq)
    ultimately show ?thesis
      using True wait
      by (auto simp: refereeExit_def dispatch_def confirmBeatmapResult_def RefereeActor_def
            requireRunningPhase_def teamValid_def storable_def Let_def split_beta)
  next
    case False
    with live core obtain susp where "Suspension s = Some susp" "timerOk (Timer s)"
      by (auto simp: coreOk_def lifecycleOk_def)
    then show ?thesis
      using False live wait free not_blank_reason
      by (auto simp: refereeExit_def dispatch_def resumeMatch_def RefereeActor_def
            missingReason_def storable_def deadlocked_def timerOk_def zeroTimer_def Let_def)
  qed
qed

section \<open>Histories without the storage gate\<close>

text \<open>
  A history in which nobody asks \<open>ValidateState\<close>: every command the engine accepts is taken, as
  long as the side condition \<open>storable\<close> holds in the state it is given in, the clock is set and the
  version counter does not wrap. The gate of the command path adds nothing to these conditions:
  \<open>played\<close> and \<open>reachable\<close> are the same states.
\<close>

inductive played :: "Configuration \<Rightarrow> State \<Rightarrow> bool" for cfg where
  begun: "NewReadyState cfg = Inr s \<Longrightarrow> keysDistinct (cfgRosters cfg) \<Longrightarrow> played cfg s"
| commanded: "played cfg s \<Longrightarrow> Execute s actor command now = Inr tr \<Longrightarrow> storable s command \<Longrightarrow>
    now \<noteq> 0 \<Longrightarrow> Version s + 1 \<noteq> 0 \<Longrightarrow> played cfg (trState tr)"

lemma played_reachable: "played cfg s \<Longrightarrow> reachable cfg s"
proof (induction rule: played.induct)
  case (commanded s actor command now tr)
  then have "persists s actor command now (trState tr)"
    using persists_storable [OF reachable_sound] by blast
  then show ?case using commanded.IH persisted.intros reachable.command by blast
qed (rule reachable.start)

lemma unstorable_dispatch:
  assumes "dispatch s actor command now = Inr (s', ev)" and "\<not> storable s command"
    and "mapsOk s" "coreOk s"
  shows "Lifecycle s' \<noteq> LifecycleReady"
  using assms
  by (cases command)
     (auto simp: storable_def dispatch_def placePiece_def calibrateTimer_def resumeTimer_def
        resumeMatch_def abortMatch_def recordSurrender_def finishMatch_def Let_def accept_simps
        refereePlacePiece_def refereeProxyContext_def appendRefereeProxyEvent_def
        split: sum.splits option.splits if_splits prod.splits)

lemma persists_version:
  assumes "sound s" "persists s actor command now t"
  shows "Version s + 1 \<noteq> 0"
proof -
  obtain tr where run: "Execute s actor command now = Inr tr" "validState t" "t = trState tr" "now \<noteq> 0"
    using assms(2) by (auto simp: persists_Some)
  have core: "coreOk s" and maps: "mapsOk s" using assms(1) by (simp_all add: sound_def validState_def)
  obtain s' ev where d: "dispatch s actor command now = Inr (s', ev)"
      and tr: "tr = \<lparr>trState = s'\<lparr>Version := Version s' + 1\<rparr>, trEvents = ev\<rparr>"
    using run(1) by (auto simp: Execute_Inr [OF core])
  have "coreOk s'" using run(2,3) by (simp add: tr validState_def frame_simps)
  then have "Lifecycle s' \<noteq> LifecycleReady"
    using dispatch_keeps [OF core maps run(4) d] unstorable_dispatch [OF d _ maps core]
    by (auto simp: keeps_def)
  then show ?thesis using run(2,3) assms(1) persisted_sound(3) [OF assms(1) persisted.intros [OF assms(2)]]
    by (auto simp: tr validState_def versionOk_def)
qed

lemma reachable_played: "reachable cfg s \<Longrightarrow> played cfg s"
proof (induction rule: reachable.induct)
  case (command s t)
  obtain actor cmd now where p: "persists s actor cmd now t" using command.hyps(2) by (rule persistedE)
  have sound: "sound s" by (rule reachable_sound [OF command.hyps(1)])
  have v: "Version s + 1 \<noteq> 0" by (rule persists_version [OF sound p])
  with p obtain tr where "Execute s actor cmd now = Inr tr" "t = trState tr" "now \<noteq> 0" "storable s cmd"
    by (auto simp: persists_storable [OF sound v])
  with played.commanded [OF command.IH this(1,4,3) v] show ?case by simp
qed (rule played.begun)

lemma played_iff_reachable: "played cfg s \<longleftrightarrow> reachable cfg s"
  using played_reachable reachable_played by blast

section \<open>Turns\<close>

lemma Turn_enterPick [simp]: "Turn (fst (enterPickOrTerminal s now)) = Turn s"
  by (simp add: enterPickOrTerminal_state startForcedTBPreparation_def finishMatch_def Let_def)

lemma Turn_advancePick: "Turn (fst (advancePick s now)) = Turn s + 1"
  by (simp add: advancePick_def Let_def split_beta)

lemma Turn_advanceBan: "Turn s \<le> finalBanTurn \<Longrightarrow> Turn (fst (advanceBan s now)) = Turn s + 1"
  by (auto simp: advanceBan_def Let_def split_beta turn_consts)

lemma turn_handlers:
  "banPoolSlot s (StrategistActor team) sid now = Inr (s', ev) \<Longrightarrow> Turn s \<le> finalBanTurn \<Longrightarrow>
     Lifecycle s = LifecycleRunning \<and> Phase s = PhaseBan \<and> ActiveTeam s = team \<and> Turn s' = Turn s + 1"
  "placePiece s (StrategistActor team) sid pid cell now = Inr (s', ev) \<Longrightarrow>
     Lifecycle s = LifecycleRunning \<and> Phase s = PhasePick \<and> ActiveTeam s = team \<and> Turn s' = Turn s"
  "placeShiro s (StrategistActor team) pid cell now = Inr (s', ev) \<Longrightarrow>
     Lifecycle s = LifecycleRunning \<and> Phase s = PhasePick \<and> ActiveTeam s = team \<and> Turn s' = Turn s + 1"
  "robPiece s (StrategistActor team) pid sets now = Inr (s', ev) \<Longrightarrow>
     Lifecycle s = LifecycleRunning \<and> Phase s = PhasePick \<and> ActiveTeam s = team \<and> Turn s' = Turn s"
     apply (auto simp: banPoolSlot_def accept_simps Let_def split_beta Turn_advanceBan StrategistActor_def split: if_splits)[1]
    apply (auto simp: placePiece_def accept_simps Let_def split_beta StrategistActor_def split: if_splits)[1]
   apply (auto simp: placeShiro_def accept_simps Let_def split_beta Turn_advancePick StrategistActor_def split: if_splits)[1]
  apply (auto simp: robPiece_def accept_simps Let_def split_beta finishMatch_def startForcedTBPreparation_def StrategistActor_def split: if_splits option.splits)[1]
  done

lemma reachable_first_teams:
  assumes "reachable cfg s"
  shows "FirstBan s = cfgFirstBan cfg \<and> FirstPick s = cfgFirstPick cfg"
proof -
  obtain s0 where start: "NewReadyState cfg = Inr s0" "sound s0" "persisted\<^sup>*\<^sup>* s0 s"
    using reachable_runs [OF assms] by blast
  have "FirstBan s0 = cfgFirstBan cfg \<and> FirstPick s0 = cfgFirstPick cfg"
    using start(1)
    by (auto simp: NewReadyState_def validateAndCloneRosters_def NewBoard_def
          split: if_splits sum.splits prod.splits)
  then show ?thesis using game.runs_grow [OF start(3,2)] by (simp add: evolves_def)
qed

end
