(* ===== verification/Samples.thy ===== *)
theory Samples
  imports EngineHistory
begin

text \<open>
  A small match, played by \<open>perform\<close> from \<open>NewReadyState\<close>: a configuration with seven pool slots and
  two rosters, and the states after the bans, after a placement, after a result and in a
  suspension. They are the concrete inputs at which the theorems with hypotheses are applied;
  every one of them is computed by the model of \<open>Execute\<close>, and reachable by construction.
\<close>

definition sampleConfiguration :: Configuration where
  "sampleConfiguration =
     \<lparr>cfgFirstBan = TeamRed, cfgFirstPick = TeamRed,
      cfgPoolSlots =
        [\<lparr>slotID = ''N1'', slotMod = ModNM, slotState = PoolSlotAvailable\<rparr>,
         \<lparr>slotID = ''N2'', slotMod = ModNM, slotState = PoolSlotAvailable\<rparr>,
         \<lparr>slotID = ''N3'', slotMod = ModNM, slotState = PoolSlotAvailable\<rparr>,
         \<lparr>slotID = ''N4'', slotMod = ModNM, slotState = PoolSlotAvailable\<rparr>,
         \<lparr>slotID = ''H1'', slotMod = ModHD, slotState = PoolSlotAvailable\<rparr>,
         \<lparr>slotID = ''S'', slotMod = ModShiro, slotState = PoolSlotAvailable\<rparr>,
         \<lparr>slotID = ''TB'', slotMod = ModTB, slotState = PoolSlotAvailable\<rparr>],
      cfgRosters = [(TeamRed, \<lparr>rosterLeaderID = 1, rosterPlayerIDs = [2, 3, 4]\<rparr>),
                    (TeamBlue, \<lparr>rosterLeaderID = 11, rosterPlayerIDs = [12, 13, 14]\<rparr>)],
      cfgTimers = StandardTimerConfiguration\<rparr>"

definition sampleStart :: State where
  "sampleStart = projr (NewReadyState sampleConfiguration)"

text \<open>Every ban is skipped after its time has run out.\<close>

definition banPlays :: "(Actor \<times> Command \<times> Time) list" where
  "banPlays =
     [(RefereeActor, StartMatch, 1 * second),
      (RefereeActor, SkipCurrentAction ''late'', 100 * second),
      (RefereeActor, SkipCurrentAction ''late'', 200 * second),
      (RefereeActor, SkipCurrentAction ''late'', 300 * second),
      (RefereeActor, SkipCurrentAction ''late'', 400 * second)]"

definition placePlays :: "(Actor \<times> Command \<times> Time) list" where
  "placePlays = [(StrategistActor TeamRed, PlacePiece ''N1'' ''p1'' ''B2'', 410 * second)]"

definition winPlays :: "(Actor \<times> Command \<times> Time) list" where
  "winPlays = [(RefereeActor, ConfirmBeatmapResult ''p1'' TeamRed, 415 * second)]"

text \<open>The referee suspends the match ninety seconds after the placement.\<close>

definition suspendPlays :: "(Actor \<times> Command \<times> Time) list" where
  "suspendPlays = [(RefereeActor, SuspendMatch ''break'', 500 * second)]"

definition sampleBan :: State where
  "sampleBan = foldl perform sampleStart [(RefereeActor, StartMatch, 1 * second)]"

definition samplePick :: State where "samplePick = foldl perform sampleStart banPlays"
definition sampleWaiting :: State where "sampleWaiting = foldl perform samplePick placePlays"
definition sampleWon :: State where "sampleWon = foldl perform sampleWaiting winPlays"
definition sampleStuck :: State where "sampleStuck = foldl perform sampleWaiting suspendPlays"

definition sampleAborted :: State where
  "sampleAborted = foldl perform samplePick [(RefereeActor, AbortMatch ''storm'', 420 * second)]"

definition sampleFinished :: State where
  "sampleFinished = foldl perform samplePick
     [(RefereeActor, RecordSurrender TeamRed [1, 2, 3, 4] ''unfit'', 420 * second)]"

text \<open>The first-ban team is granted extra time.\<close>

definition sampleGranted :: State where
  "sampleGranted = foldl perform sampleBan
     [(RefereeActor, GrantAdditionalTime ''network'', 100 * second)]"

text \<open>
  Three pieces in a row, all won by red, and the Shiro piece next to them: red can rob it for the
  first two.
\<close>

definition robPlays :: "(Actor \<times> Command \<times> Time) list" where
  "robPlays =
     [(StrategistActor TeamRed, PlacePiece ''N1'' ''p1'' ''A1'', 410 * second),
      (RefereeActor, ConfirmBeatmapResult ''p1'' TeamRed, 415 * second),
      (StrategistActor TeamBlue, PlacePiece ''N2'' ''p2'' ''B1'', 420 * second),
      (RefereeActor, ConfirmBeatmapResult ''p2'' TeamRed, 425 * second),
      (StrategistActor TeamRed, PlacePiece ''N3'' ''p3'' ''C1'', 430 * second),
      (RefereeActor, ConfirmBeatmapResult ''p3'' TeamRed, 435 * second),
      (StrategistActor TeamBlue, PlaceShiro ''p4'' ''D1'', 440 * second)]"

definition sampleRobbable :: State where
  "sampleRobbable = foldl perform samplePick robPlays"

lemma sampleStart_new: "NewReadyState sampleConfiguration = Inr sampleStart"
  by code_simp

lemma sampleRosters_distinct: "keysDistinct (cfgRosters sampleConfiguration)"
  by (simp add: sampleConfiguration_def)

lemma samples_reachable [simp]:
  "reachable sampleConfiguration sampleStart" "reachable sampleConfiguration sampleBan"
  "reachable sampleConfiguration samplePick" "reachable sampleConfiguration sampleWaiting"
  "reachable sampleConfiguration sampleWon" "reachable sampleConfiguration sampleStuck"
  "reachable sampleConfiguration sampleAborted" "reachable sampleConfiguration sampleFinished"
  "reachable sampleConfiguration sampleRobbable" "reachable sampleConfiguration sampleGranted"
proof -
  show start: "reachable sampleConfiguration sampleStart"
    using sampleStart_new sampleRosters_distinct by (rule reachable.start)
  show ban: "reachable sampleConfiguration sampleBan"
    unfolding sampleBan_def using start by (rule reachable_perform)
  show pick: "reachable sampleConfiguration samplePick"
    unfolding samplePick_def using start by (rule reachable_perform)
  show wait: "reachable sampleConfiguration sampleWaiting"
    unfolding sampleWaiting_def using pick by (rule reachable_perform)
  show "reachable sampleConfiguration sampleWon"
    unfolding sampleWon_def using wait by (rule reachable_perform)
  show "reachable sampleConfiguration sampleStuck"
    unfolding sampleStuck_def using wait by (rule reachable_perform)
  show "reachable sampleConfiguration sampleAborted"
    unfolding sampleAborted_def using pick by (rule reachable_perform)
  show "reachable sampleConfiguration sampleFinished"
    unfolding sampleFinished_def using pick by (rule reachable_perform)
  show "reachable sampleConfiguration sampleRobbable"
    unfolding sampleRobbable_def using pick by (rule reachable_perform)
  show "reachable sampleConfiguration sampleGranted"
    unfolding sampleGranted_def using ban by (rule reachable_perform)
qed

lemma samples_sound [simp]:
  "sound sampleStart" "sound sampleBan" "sound samplePick" "sound sampleWaiting"
  "sound sampleWon" "sound sampleStuck" "sound sampleAborted"
  by (rule reachable_sound, rule samples_reachable)+

lemma samplePick_facts:
  "Lifecycle samplePick = LifecycleRunning" "Phase samplePick = PhasePick"
  "ActiveTeam samplePick = TeamRed" "Turn samplePick = 1" "Version samplePick = 5"
  by code_simp+

lemma sampleWaiting_facts:
  "Lifecycle sampleWaiting = LifecycleRunning" "Phase sampleWaiting = PhaseWaitingForResult"
  "Version sampleWaiting = 6"
  by code_simp+

lemma sampleStuck_deadlocked: "deadlocked sampleStuck"
  by code_simp

lemma sampleAborted_terminal: "terminal sampleAborted"
  by code_simp

end
