(* ===== verification/EngineClaims.thy ===== *)
theory EngineClaims
  imports Samples
begin

text \<open>
  The properties of the match engine: timers and board geometry, rosters and the initial state,
  histories and their invariants, the menus of the actors, the effect of single commands, and the
  commands a referee takes for a team. Each theorem is stated on the model's definitions and
  derived from the lemmas of the component theories; the ones with hypotheses are applied to the
  states of \<open>Samples\<close>.
\<close>

section \<open>Timers\<close>

text \<open>
  The time left on a running timer is its duration less the time since it started, kept
  between zero and the duration; the clock reading may lie before the start.
\<close>

theorem timer_remaining:
  assumes "\<not> timerPaused t" and "0 \<le> timerDuration t" "timerDuration t \<le> maxDuration"
    and "minDuration \<le> now - timerStartedAt t" "now - timerStartedAt t \<le> maxDuration"
    and "timerDuration t - (now - timerStartedAt t) \<le> maxDuration"
  shows "timerRemaining t now = max 0 (min (timerDuration t) (timerDuration t - (now - timerStartedAt t)))"
proof -
  have "timeSub now (timerStartedAt t) = now - timerStartedAt t"
    using assms(4,5) by (rule timeSub_id)
  moreover have "wrap64 (timerDuration t - (now - timerStartedAt t)) = timerDuration t - (now - timerStartedAt t)"
    using assms by (intro wrap64_id) (simp_all add: minDuration_def maxDuration_def)
  ultimately show ?thesis using assms(1,2) by (simp add: timerRemaining_def Let_def max_def min_def)
qed

theorem timer_remaining_witness:
  "timerRemaining (newTimer 1000 60) 1025 = 35 \<and> timerRemaining (newTimer 1000 60) 1100 = 0"
  using timer_remaining [of "newTimer 1000 60" 1025] timer_remaining [of "newTimer 1000 60" 1100]
  by (simp add: newTimer_def minDuration_def maxDuration_def)

text \<open>
  Pausing a timer and resuming it later hands back exactly the time that was left: \<open>d\<close> after
  the resumption the timer shows what it would have shown \<open>d\<close> after the pause, or zero.
\<close>

theorem pause_resume:
  assumes "\<not> timerPaused t" and "0 \<le> timerDuration t" "timerDuration t \<le> maxDuration"
    and "0 \<le> d" "d \<le> maxDuration"
  shows "timerRemaining (timerResume (timerPause t paused) resumed) (resumed + d) =
         max 0 (timerRemaining t paused - d)"
proof -
  have rem: "0 \<le> timerRemaining t paused" "timerRemaining t paused \<le> timerDuration t"
    using assms(1,2) by (auto simp: timerRemaining_def Let_def)
  have "timeSub (resumed + d) resumed = d"
    using timeSub_id [of "resumed + d" resumed] assms(4,5) by (simp add: minDuration_def)
  moreover have "wrap64 (timerRemaining t paused - d) = timerRemaining t paused - d"
    using rem assms by (intro wrap64_id) (simp_all add: minDuration_def maxDuration_def)
  ultimately show ?thesis
    using rem assms(4)
    by (simp add: timerResume_def timerPause_def newTimer_def timerRemaining_def [of "\<lparr>timerStartedAt = _, timerDuration = _, timerPaused = False, timerRemainingAtPause = 0\<rparr>"] Let_def)
qed

theorem pause_resume_witness:
  "timerRemaining (timerResume (timerPause (newTimer 1000 60) 1020) 5000) (5000 + 15) = 25"
  using pause_resume [of "newTimer 1000 60" 15 1020 5000]
  by (simp add: newTimer_def timerRemaining_def timeSub_def wrap64_def minDuration_def maxDuration_def Let_def)

section \<open>Board geometry\<close>

text \<open>
  The names of cells and the board coordinates correspond one to one: a string is the cell of
  column \<open>c\<close> and row \<open>r\<close> exactly when both lie on the board and the string is the name written
  for them.
\<close>

theorem cell_roundtrip:
  "cellPosition cell = Some (c, r) \<longleftrightarrow>
     0 \<le> c \<and> c < 4 \<and> 0 \<le> r \<and> r < 4 \<and> cell = positionCell c r"
  using cellPosition_range positionCell_cellPosition by fastforce

text \<open>
  C24: \<open>hasFour\<close>, computed by the scan over start cells and directions, holds exactly when one of
  the ten lines of the board (four rows, four columns, two diagonals) holds four pieces the team
  has won.
\<close>

theorem hasFour_ten_lines:
  "hasFour b team \<longleftrightarrow> teamValid team \<and>
     ((\<exists>r. winningLine b team (\<lambda>i. (i, r))) \<or> (\<exists>c. winningLine b team (\<lambda>i. (c, i))) \<or>
      winningLine b team (\<lambda>i. (i, i)) \<or> winningLine b team (\<lambda>i. (i, 3 - i)))"
  by (rule hasFour_lines)

text \<open>
  \<open>FindAlignments\<close> reports a run of \<open>len\<close> cells exactly when it lies on the board in one of the
  scanned directions and every one of its pieces is won by the team; nothing is reported for an
  unknown team or for a length outside two to four.
\<close>

theorem FindAlignments_exact:
  "a \<in> set (FindAlignments b team len) \<longleftrightarrow>
     teamValid team \<and> 2 \<le> len \<and> len \<le> 4 \<and>
     (\<exists>c r d. isLine b team len c r d \<and> a = lineAt b team len c r d)"
  by (rule FindAlignments_iff)

section \<open>Rosters and the initial state\<close>

text \<open>
  The roster check accepts exactly the pairs of rosters in which both teams are present, every
  id is positive and no id occurs twice, as leader or player, in either team.
\<close>

theorem rosters_accepted:
  "(\<exists>r. validateAndCloneRosters rosters = Inr r) \<longleftrightarrow>
     length rosters = 2 \<and> mapGet rosters TeamRed \<noteq> None \<and> mapGet rosters TeamBlue \<noteq> None \<and>
     (let ids = rosterIDs rosters TeamRed @ rosterIDs rosters TeamBlue
      in list_all (\<lambda>p. 0 < p) ids \<and> distinct ids)"
  using checkRosters_iff [of rosters]
  by (auto simp: validateAndCloneRosters_def split: sum.splits)

text \<open>
  A state that \<open>NewReadyState\<close> returns is accepted by \<open>ValidateState\<close>, at version zero, with an
  empty board, every slot available and the configuration it was given.
\<close>

theorem NewReadyState_accepted:
  assumes "NewReadyState cfg = Inr s" and "keysDistinct (cfgRosters cfg)"
  shows "ValidateState s = None \<and> Version s = 0 \<and> Lifecycle s = LifecycleReady \<and>
    boardPieces (Board s) = [] \<and> FirstBan s = cfgFirstBan cfg \<and> FirstPick s = cfgFirstPick cfg \<and>
    Rosters s = cfgRosters cfg \<and> Timers s = cfgTimers cfg"
proof -
  have "boardPieces (Board s) = [] \<and> Version s = 0 \<and> Lifecycle s = LifecycleReady \<and>
      FirstBan s = cfgFirstBan cfg \<and> FirstPick s = cfgFirstPick cfg \<and>
      Rosters s = cfgRosters cfg \<and> Timers s = cfgTimers cfg"
    using assms(1)
    by (auto simp: NewReadyState_def validateAndCloneRosters_def NewBoard_def
          split: if_splits sum.splits prod.splits)
  then show ?thesis using NewReadyState_valid [OF assms] by (simp add: ValidateState_iff)
qed

theorem NewReadyState_accepted_witness:
  "ValidateState sampleStart = None \<and> Rosters sampleStart = cfgRosters sampleConfiguration"
  using NewReadyState_accepted [OF sampleStart_new sampleRosters_distinct] by simp

section \<open>Histories\<close>

text \<open>
  C6: The engine keeps its own states valid. In a history in which nothing checks them, from
  \<open>NewReadyState\<close> through any commands of any actors that \<open>Execute\<close> accepts and whose side condition
  \<open>storable\<close> (a condition on the command and the state before it) holds, with a clock that is set
  and a version counter that does not wrap, every state passes \<open>ValidateState\<close>.
\<close>

theorem engine_keeps_valid:
  assumes "played cfg s"
  shows "ValidateState s = None"
  using reachable_sound [OF played_reachable [OF assms]] by (simp add: sound_def ValidateState_iff)

theorem engine_keeps_valid_witness:
  "played sampleConfiguration sampleWaiting \<and> ValidateState sampleWaiting = None"
proof -
  have "played sampleConfiguration sampleWaiting" by (rule reachable_played) simp
  then show ?thesis using engine_keeps_valid by simp
qed

text \<open>
  C10: In a state of a history, with a clock that is set and a version counter that does not wrap, a
  command the engine accepts leaves a state that \<open>ValidateState\<close> accepts exactly when the side
  condition \<open>storable\<close> holds, which no handler checks: a piece is placed (also by the referee for a
  team) only while no tiebreaker request is pending; a running timer is calibrated to more than
  zero, and a paused one to at most its duration; a timer is resumed only with time left; a match
  that was suspended while its timer was running is resumed only with time left; and a match is
  aborted or surrendered only while no result is awaited. All other commands have no side
  condition.
\<close>

theorem accepted_valid_iff_storable:
  assumes "reachable cfg s" and "Version s + 1 \<noteq> 0" and "now \<noteq> 0"
    and "Execute s actor command now = Inr tr"
  shows "ValidateState (trState tr) = None \<longleftrightarrow> storable s command"
  using Execute_valid [of s now actor command tr] reachable_sound [OF assms(1)] assms(2-4)
  by (simp add: sound_def ValidateState_iff)

theorem accepted_valid_iff_storable_witness:
  "accepted sampleWaiting RefereeActor (AbortMatch ''storm'') (420 * second) \<and>
   ValidateState (trState (projr (Execute sampleWaiting RefereeActor (AbortMatch ''storm'') (420 * second)))) \<noteq> None"
proof -
  have acc: "accepted sampleWaiting RefereeActor (AbortMatch ''storm'') (420 * second)"
    by code_simp
  then obtain tr where tr: "Execute sampleWaiting RefereeActor (AbortMatch ''storm'') (420 * second) = Inr tr"
    by (auto simp: accepted_def split: sum.splits)
  have "Version sampleWaiting + 1 \<noteq> 0" "420 * second \<noteq> 0"
    "\<not> storable sampleWaiting (AbortMatch ''storm'')"
    by (simp_all add: sampleWaiting_facts storable_def second_def)
  with accepted_valid_iff_storable [OF samples_reachable(4) _ _ tr] acc show ?thesis by (simp add: tr)
qed

text \<open>
  C22: A running or suspended match of a history, with a version counter that does not wrap, can be
  moved on exactly when it is not \<open>deadlocked\<close>: in every other state, at any time, the referee has a
  command that is accepted and whose outcome can be stored; in a deadlocked state (suspended while a
  result is awaited, after the confirmation time had run out on a running timer) every command of
  every actor is rejected or cannot be stored, now and later.
\<close>

theorem live_unless_deadlocked:
  assumes "reachable cfg s" and "Lifecycle s = LifecycleRunning \<or> Lifecycle s = LifecycleSuspended"
    and "Version s + 1 \<noteq> 0" and "now \<noteq> 0"
  shows "if deadlocked s then \<forall>actor command later t. \<not> persists s actor command later t
         else \<exists>command t. persists s RefereeActor command now t"
proof (cases "deadlocked s")
  case True
  then show ?thesis
    using deadlocked_stuck [OF reachable_sound [OF assms(1)]] by (auto dest: persisted.intros)
next
  case False
  have sound: "sound s" by (rule reachable_sound [OF assms(1)])
  then have core: "coreOk s" by (simp add: sound_def validState_def)
  from exit_accepted [OF core assms(2) False, of now] obtain s' ev where
    step: "dispatch s RefereeActor (refereeExit s) now = Inr (s', ev)" and ok: "storable s (refereeExit s)"
    by (metis prod.exhaust)
  obtain tr where "Execute s RefereeActor (refereeExit s) now = Inr tr"
    using Execute_dispatch_Inr [OF sound step] by blast
  then have "persists s RefereeActor (refereeExit s) now (trState tr)"
    using ok assms(4) by (simp add: persists_storable [OF sound assms(3)])
  with False show ?thesis by auto
qed

theorem live_unless_deadlocked_witness:
  "deadlocked sampleStuck \<and> \<not> persists sampleStuck RefereeActor (ResumeMatch ''go on'') (600 * second) sampleStuck"
proof -
  have "Lifecycle sampleStuck = LifecycleSuspended" "Version sampleStuck = 7" by code_simp+
  then show ?thesis
    using live_unless_deadlocked [OF samples_reachable(6), of "600 * second"] sampleStuck_deadlocked
    by (auto simp: second_def)
qed

text \<open>
  A deadlocked match occurs in play: a placed piece, a confirmation time that runs out, and a
  suspension by the referee after that lead from the start of a match into one.
\<close>

theorem deadlock_reachable:
  "\<exists>s. reachable sampleConfiguration s \<and> Lifecycle s = LifecycleSuspended \<and> deadlocked s"
proof -
  have "Lifecycle sampleStuck = LifecycleSuspended" by code_simp
  then show ?thesis using samples_reachable(6) sampleStuck_deadlocked by blast
qed

text \<open>
  C28: Along a history nothing is given back: the first teams, rosters and timer presets stay as
  configured, a piece stays on its cell with its identity, a dead piece stays as it is, and a
  spent robbery or pause stays spent.
\<close>

theorem history_monotone:
  assumes "reachable cfg s" and "persisted\<^sup>*\<^sup>* s t"
  shows "FirstBan t = FirstBan s \<and> FirstPick t = FirstPick s \<and> Rosters t = Rosters s \<and>
    Timers t = Timers s \<and>
    (PieceAt (Board s) c = Some p \<longrightarrow> (\<exists>q. PieceAt (Board t) c = Some q \<and> pieceEvolves p q)) \<and>
    (flagOf (RobberyUsed s) team \<longrightarrow> flagOf (RobberyUsed t) team) \<and>
    (flagOf (TeamPauseUsed s) team \<longrightarrow> flagOf (TeamPauseUsed t) team)"
  using game.runs_grow [OF assms(2) reachable_sound [OF assms(1)]]
  by (simp add: evolves_def boardEvolves_def flagsEvolve_def)

theorem history_monotone_witness:
  "\<exists>p q. PieceAt (Board sampleWaiting) ''B2'' = Some p \<and> PieceAt (Board sampleWon) ''B2'' = Some q \<and>
     pieceOutcome p = OutcomeWaitingResult \<and> pieceOutcome q = OutcomeWon \<and> pieceID q = pieceID p"
proof -
  have step: "persisted\<^sup>*\<^sup>* sampleWaiting sampleWon"
  proof (rule r_into_rtranclp, rule persisted.intros)
    show "persists sampleWaiting RefereeActor (ConfirmBeatmapResult ''p1'' TeamRed) (415 * second) sampleWon"
      by code_simp
  qed
  have "map_option pieceOutcome (PieceAt (Board sampleWaiting) ''B2'') = Some OutcomeWaitingResult"
    and "map_option pieceOutcome (PieceAt (Board sampleWon) ''B2'') = Some OutcomeWon"
    by code_simp+
  with history_monotone [OF samples_reachable(4) step, of "''B2''"]
  show ?thesis by (auto simp: pieceEvolves_def)
qed

text \<open>
  The version counts the stored commands: after \<open>n\<close> of them it has grown by \<open>n\<close>, modulo the
  width of \<open>uint64\<close>.
\<close>

theorem history_version:
  assumes "reachable cfg s" and "(persisted ^^ n) s t"
  shows "Version t = Version s + of_nat n"
  using game.run_version [OF assms(2) reachable_sound [OF assms(1)]] .

theorem history_version_witness:
  "Version sampleStuck = Version sampleWaiting + 1"
proof -
  have "persists sampleWaiting RefereeActor (SuspendMatch ''break'') (500 * second) sampleStuck"
    by code_simp
  then have "(persisted ^^ 1) sampleWaiting sampleStuck"
    using persisted.intros by (simp only: relpowp_1)
  from history_version [OF samples_reachable(4) this] show ?thesis by simp
qed

text \<open>
  A finished, aborted or adjudicated match rejects every command of every actor.
\<close>

theorem terminal_rejects:
  assumes "terminal s"
  shows "\<not> accepted s actor command now"
  using terminal_Execute [OF assms, of actor command now] by (auto simp: accepted_def)

theorem terminal_rejects_witness:
  "terminal sampleAborted \<and> \<not> accepted sampleAborted SystemRefereeActor StartMatch 1"
  using terminal_rejects [OF sampleAborted_terminal] sampleAborted_terminal by simp

section \<open>Invariants of the states of a history\<close>

lemma reachable_core: "reachable cfg s \<Longrightarrow> coreOk s"
  using reachable_sound by (auto simp: sound_def validState_def)

lemma reachable_maps: "reachable cfg s \<Longrightarrow> mapsOk s"
  using reachable_sound by (auto simp: sound_def)

lemma play_active:
  "reachable cfg s \<Longrightarrow> Lifecycle s = LifecycleRunning \<or> Lifecycle s = LifecycleSuspended \<Longrightarrow> activeOk s"
  using reachable_core [of cfg s] by (auto simp: coreOk_def lifecycleOk_def)

text \<open>
  C27: Turn order. In a history without the storage gate, a ban, a placement, a Shiro or a robbery of
  a strategist is accepted only from the team whose turn the configuration makes it: the bans are
  the turns -3 to 0, of which the first and the last belong to the team that bans first and the two
  in between to its opponent; every later odd turn belongs to the team that picks first and every
  even one to its opponent. A ban and a Shiro move the turn on by one; a placement leaves it to the
  result and a robbery leaves it to the pick that follows.
\<close>

theorem turn_taken:
  assumes "played cfg s" and "Execute s (StrategistActor team) command now = Inr tr"
  shows "(case command of
      BanPoolSlot _ \<Rightarrow> Turn s \<in> {-3, -2, -1, 0} \<and>
        team = (if Turn s \<in> {-3, 0} then cfgFirstBan cfg else opponent (cfgFirstBan cfg)) \<and>
        Turn (trState tr) = Turn s + 1
    | PlacePiece _ _ _ \<Rightarrow> 1 \<le> Turn s \<and>
        team = (if odd (Turn s) then cfgFirstPick cfg else opponent (cfgFirstPick cfg)) \<and>
        Turn (trState tr) = Turn s
    | PlaceShiro _ _ \<Rightarrow> 1 \<le> Turn s \<and>
        team = (if odd (Turn s) then cfgFirstPick cfg else opponent (cfgFirstPick cfg)) \<and>
        Turn (trState tr) = Turn s + 1
    | RobPiece _ _ \<Rightarrow> 1 \<le> Turn s \<and>
        team = (if odd (Turn s) then cfgFirstPick cfg else opponent (cfgFirstPick cfg)) \<and>
        Turn (trState tr) = Turn s
    | _ \<Rightarrow> True)"
proof -
  have r: "reachable cfg s" by (rule played_reachable [OF assms(1)])
  then have core: "coreOk s" using reachable_sound by (auto simp: sound_def validState_def)
  obtain s' ev where d: "dispatch s (StrategistActor team) command now = Inr (s', ev)"
    and tr: "Turn (trState tr) = Turn s'"
    using assms(2) by (auto simp: Execute_Inr [OF core])
  have "Lifecycle s = LifecycleRunning \<Longrightarrow> activeOk s"
    using core by (simp add: coreOk_def lifecycleOk_def)
  then have owner: "Lifecycle s = LifecycleRunning \<Longrightarrow> Phase s = PhaseBan \<Longrightarrow>
      firstBanTurn \<le> Turn s \<and> Turn s \<le> finalBanTurn \<and> ActiveTeam s = banTeam s"
    "Lifecycle s = LifecycleRunning \<Longrightarrow> Phase s = PhasePick \<Longrightarrow>
      firstPickTurn \<le> Turn s \<and> ActiveTeam s = pickTeam (FirstPick s) (Turn s)"
    by (auto simp: activeOk_def phaseOk_def)
  note first = reachable_first_teams [OF r]
  show ?thesis
  proof (cases command)
    case (BanPoolSlot sid)
    with d have run: "banPoolSlot s (StrategistActor team) sid now = Inr (s', ev)" by (simp add: dispatch_def)
    then have "Lifecycle s = LifecycleRunning" "Phase s = PhaseBan"
      by (auto simp: banPoolSlot_def accept_simps)
    with owner(1) turn_handlers(1) [OF run] first show ?thesis
      by (auto simp: BanPoolSlot tr banTeam_def turn_consts)
  qed (use d owner(2) turn_handlers(2-4) first in
       \<open>auto simp: tr dispatch_def turn_consts pickTeam_pos\<close>)
qed

theorem turn_taken_witness:
  "\<exists>tr. Execute samplePick (StrategistActor TeamRed) (PlacePiece ''N1'' ''p1'' ''B2'') (410 * second) = Inr tr \<and>
     odd (Turn samplePick) \<and> cfgFirstPick sampleConfiguration = TeamRed \<and> Turn (trState tr) = 1"
proof -
  have "accepted samplePick (StrategistActor TeamRed) (PlacePiece ''N1'' ''p1'' ''B2'') (410 * second)"
    by code_simp
  then obtain tr where
    tr: "Execute samplePick (StrategistActor TeamRed) (PlacePiece ''N1'' ''p1'' ''B2'') (410 * second) = Inr tr"
    by (auto simp: accepted_def split: sum.splits)
  have "played sampleConfiguration samplePick" by (rule reachable_played) simp
  from turn_taken [OF this tr] tr samplePick_facts show ?thesis by (simp add: sampleConfiguration_def)
qed

text \<open>
  Piece accounting. Piece ids are distinct, no two pieces come from one slot, a slot is
  selected exactly when a piece comes from it, and exactly one piece awaits its result, the
  pending one, exactly while the match waits for a result.
\<close>

theorem piece_accounting:
  assumes "reachable cfg s"
  shows "distinct (pieceIDs (boardPieces (Board s))) \<and> distinct (sources (boardPieces (Board s))) \<and>
    (mapGet (PoolSlots s) sid = Some slot \<longrightarrow>
       (slotState slot = PoolSlotSelected \<longleftrightarrow> sid \<in> set (sources (boardPieces (Board s))))) \<and>
    waitingIDs (boardPieces (Board s)) =
      (if Phase s = PhaseWaitingForResult then [PendingPieceID s] else [])"
proof -
  have "boardStateOk s" using reachable_core [OF assms] by (simp add: coreOk_def)
  moreover have "mapGet (PoolSlots s) sid = Some slot \<Longrightarrow> (sid, slot) \<in> set (PoolSlots s)"
    by (rule mapGet_in_set)
  ultimately show ?thesis by (auto simp: boardStateOk_def)
qed

theorem piece_accounting_witness:
  "waitingIDs (boardPieces (Board sampleWaiting)) = [PendingPieceID sampleWaiting] \<and>
   sources (boardPieces (Board sampleWaiting)) = [''N1'']"
proof -
  have "sources (boardPieces (Board sampleWaiting)) = [''N1'']" by code_simp
  then show ?thesis using piece_accounting [OF samples_reachable(4)] sampleWaiting_facts by simp
qed

text \<open>What bears out the result of a match.\<close>

definition borneOut :: "State \<Rightarrow> Result \<Rightarrow> bool" where
  "borneOut s r =
     (case resReason r of
        ResultReasonFourAlignment \<Rightarrow> hasFour (Board s) (resWinner r)
      | ResultReasonTB \<Rightarrow> TBEntry s \<noteq> None
      | ResultReasonSurrender \<Rightarrow>
          (\<exists>team. resSurrenderingTeam r = Some team \<and> resWinner r = opponent team \<and>
             set (resConfirmingPlayerIDs r) \<subseteq> set (rosterLeaderID (rosterOf (Rosters s) team) #
                                                rosterPlayerIDs (rosterOf (Rosters s) team)) \<and>
             rosterLeaderID (rosterOf (Rosters s) team) \<in> set (resConfirmingPlayerIDs r) \<and>
             4 \<le> card (set (resConfirmingPlayerIDs r)))
      | ResultReasonStalemateWonCount \<Rightarrow>
          (\<nexists>p. legalPlacement s p) \<and>
          (resWinner r = TeamRed \<longleftrightarrow> resRedWonCount r > resBlueWonCount r) \<and>
          resRedWonCount r \<noteq> resBlueWonCount r \<and>
          resRedWonCount r = int (length (filter (\<lambda>(c, p). wonBy TeamRed p) (boardPieces (Board s)))) \<and>
          resBlueWonCount r = int (length (filter (\<lambda>(c, p). wonBy TeamBlue p) (boardPieces (Board s))))
      | ResultReasonOther _ \<Rightarrow> False)"

lemma validateResultEvidence_borneOut:
  assumes "validateResultEvidence s r = None" and "keysDistinct (PoolSlots s)"
  shows "borneOut s r"
proof -
  have counts: "countOf (wonCounts [(TeamRed, 0), (TeamBlue, 0)] (boardPieces (Board s))) t =
      int (length (filter (\<lambda>(c, p). wonBy t p) (boardPieces (Board s))))" if "teamValid t" for t
    using Analyze_wonCounts [OF that, of s] by simp
  show ?thesis
    using assms(1) counts [of TeamRed] counts [of TeamBlue] stalemate_iff [OF assms(2)]
    by (cases "resReason r")
       (auto simp: validateResultEvidence_def borneOut_def validateSurrenderEvidence_ok
          split: if_splits option.splits)
qed

text \<open>
  A finished match has a valid winner, and its result is borne out by its state: a
  four-alignment by the board, a tiebreaker by its entry, a surrender by the confirmations of the
  losing team's leader and of at least four of its members, a stalemate by the absence of a legal
  placement and by unequal counts of won pieces.
\<close>

theorem finished_evidence:
  assumes "reachable cfg s" and "Lifecycle s = LifecycleFinished"
  shows "\<exists>r. MatchResult s = Some r \<and> Winner s = Some (resWinner r) \<and> teamValid (resWinner r) \<and>
             borneOut s r"
proof -
  from reachable_core [OF assms(1)] assms(2) obtain r where
    "MatchResult s = Some r" "Winner s = Some (resWinner r)" "teamValid (resWinner r)"
      "validateResultEvidence s r = None"
    by (auto simp: coreOk_def lifecycleOk_def resultOk_def)
  moreover have "keysDistinct (PoolSlots s)" using reachable_maps [OF assms(1)] by (simp add: mapsOk_def)
  ultimately show ?thesis using validateResultEvidence_borneOut by blast
qed

theorem finished_evidence_witness:
  "Winner sampleFinished = Some TeamBlue \<and> (\<exists>r. MatchResult sampleFinished = Some r \<and> borneOut sampleFinished r)"
proof -
  have "Lifecycle sampleFinished = LifecycleFinished" "Winner sampleFinished = Some TeamBlue"
    by code_simp+
  then show ?thesis using finished_evidence [OF samples_reachable(8)] by auto
qed

section \<open>The menus of the actors\<close>

text \<open>
  The ban menu that \<open>AnalyzeForActor\<close> shows a strategist lists exactly the slots whose ban the
  engine accepts at that instant.
\<close>

theorem ban_menu_exact:
  assumes "reachable cfg s" and "teamValid team" and "now \<noteq> 0"
  shows "sid \<in> set (aaBanPoolSlotIDs (AnalyzeForActor s (StrategistActor team) now)) \<longleftrightarrow>
     accepted s (StrategistActor team) (BanPoolSlot sid) now"
  using ban_exact [OF reachable_core reachable_maps] assms by blast

theorem ban_menu_exact_witness:
  "accepted sampleBan (StrategistActor TeamRed) (BanPoolSlot ''N1'') (5 * second)"
proof -
  have "''N1'' \<in> set (aaBanPoolSlotIDs (AnalyzeForActor sampleBan (StrategistActor TeamRed) (5 * second)))"
    by code_simp
  then show ?thesis
    using ban_menu_exact [OF samples_reachable(2), of TeamRed "5 * second" "''N1''"] by (simp add: second_def)
qed

text \<open>
  C26: The placement menu lists exactly the slots and cells at which the engine accepts a piece with
  a fresh id.
\<close>

theorem placement_menu_exact:
  assumes "reachable cfg s" and "teamValid team" and "now \<noteq> 0"
    and "pid \<noteq> ''''" and "\<not> containsPieceID (Board s) pid"
  shows "(\<exists>f. \<lparr>poSlotID = sid, poCell = cell, poForceMod = f\<rparr> \<in>
            set (aaLegalPlacements (AnalyzeForActor s (StrategistActor team) now))) \<longleftrightarrow>
     accepted s (StrategistActor team) (PlacePiece sid pid cell) now"
  using placement_exact [OF reachable_core reachable_maps] assms by blast

theorem placement_menu_exact_witness:
  "accepted samplePick (StrategistActor TeamRed) (PlacePiece ''N1'' ''p'' ''A1'') (410 * second)"
proof -
  have "\<lparr>poSlotID = ''N1'', poCell = ''A1'', poForceMod = None\<rparr> \<in>
      set (aaLegalPlacements (AnalyzeForActor samplePick (StrategistActor TeamRed) (410 * second)))"
    by code_simp
  moreover have "\<not> containsPieceID (Board samplePick) ''p''" by code_simp
  ultimately show ?thesis
    using placement_menu_exact [OF samples_reachable(3), of TeamRed "410 * second" "''p''" "''N1''" "''A1''"]
    by (auto simp: second_def)
qed

text \<open>
  The menu of cells for the Shiro piece lists exactly the cells at which the engine accepts it
  with a fresh id.
\<close>

theorem shiro_menu_exact:
  assumes "reachable cfg s" and "teamValid team" and "now \<noteq> 0"
    and "pid \<noteq> ''''" and "\<not> containsPieceID (Board s) pid"
  shows "cell \<in> set (aaShiroCells (AnalyzeForActor s (StrategistActor team) now)) \<longleftrightarrow>
     accepted s (StrategistActor team) (PlaceShiro pid cell) now"
  using shiro_exact [OF reachable_core reachable_maps] assms by blast

theorem shiro_menu_exact_witness:
  "\<not> accepted samplePick (StrategistActor TeamBlue) (PlaceShiro ''p'' ''A1'') (410 * second)"
proof -
  have "''A1'' \<notin> set (aaShiroCells (AnalyzeForActor samplePick (StrategistActor TeamBlue) (410 * second)))"
    by code_simp
  moreover have "\<not> containsPieceID (Board samplePick) ''p''" by code_simp
  ultimately show ?thesis
    using shiro_menu_exact [OF samples_reachable(3), of TeamBlue "410 * second" "''p''" "''A1''"]
    by (auto simp: second_def)
qed

text \<open>
  C23: The robbery plans shown to a strategist are sound and complete: a target can be robbed for
  the pieces \<open>X\<close>, in some grouping, exactly when some plan names this target and these pieces.
\<close>

theorem robbery_plans_exact:
  assumes "reachable cfg s" and "teamValid team" and "now \<noteq> 0"
  shows "(\<exists>sets. set (concat sets) = X \<and> accepted s (StrategistActor team) (RobPiece target sets) now) \<longleftrightarrow>
     (\<exists>plan. plan \<in> set (aaRobberyPlans (AnalyzeForActor s (StrategistActor team) now)) \<and>
        planTargetPieceID plan = target \<and> set (concat (planSacrificeSets plan)) = X)"
  using rob_exact [OF reachable_core reachable_maps] plan_accepted [OF reachable_core reachable_maps] assms
  by metis

theorem robbery_plans_exact_witness:
  "\<exists>sets. set (concat sets) = {''p1'', ''p2''} \<and>
     accepted sampleRobbable (StrategistActor TeamRed) (RobPiece ''p4'' sets) (445 * second)"
proof -
  have "(case aaRobberyPlans (AnalyzeForActor sampleRobbable (StrategistActor TeamRed) (445 * second)) of
           [plan] \<Rightarrow> planTargetPieceID plan = ''p4'' \<and> planSacrificeSets plan = [[''p1'', ''p2'']]
         | _ \<Rightarrow> False)"
    by code_simp
  then obtain plan where
    "plan \<in> set (aaRobberyPlans (AnalyzeForActor sampleRobbable (StrategistActor TeamRed) (445 * second)))"
    "planTargetPieceID plan = ''p4''" "set (concat (planSacrificeSets plan)) = {''p1'', ''p2''}"
    by (auto split: list.splits)
  then show ?thesis
    using robbery_plans_exact [OF samples_reachable(9), of TeamRed "445 * second" "{''p1'', ''p2''}" "''p4''"]
    by (auto simp: second_def)
qed

lemma PieceAt_mapPieces:
  assumes "boardPieces b' = mapPieces f (boardPieces b)"
  shows "PieceAt b' cell = map_option f (PieceAt b cell)"
proof -
  have "map_of (mapPieces f ps) c = map_option f (map_of ps c)" for ps and c :: Cell
    by (induction ps) auto
  then show ?thesis by (simp add: PieceAt_def assms split: option.split)
qed

section \<open>What single commands do\<close>

text \<open>
  Every accepted command raises the version by exactly one, emits at least one event and keeps
  the configuration.
\<close>

theorem accepted_step:
  assumes "reachable cfg s" and "Execute s actor command now = Inr tr"
  shows "Version (trState tr) = Version s + 1 \<and> trEvents tr \<noteq> [] \<and>
    FirstBan (trState tr) = FirstBan s \<and> FirstPick (trState tr) = FirstPick s \<and>
    Rosters (trState tr) = Rosters s \<and> Timers (trState tr) = Timers s"
  using Execute_evolves [OF _ _ assms(2)] reachable_sound [OF assms(1)]
  by (simp add: sound_def evolves_def)

theorem accepted_step_witness:
  "\<exists>tr. Execute sampleStart RefereeActor StartMatch 1 = Inr tr \<and> Version (trState tr) = 1"
proof -
  have "accepted sampleStart RefereeActor StartMatch 1" "Version sampleStart = 0" by code_simp+
  then obtain tr where tr: "Execute sampleStart RefereeActor StartMatch 1 = Inr tr"
    by (auto simp: accepted_def split: sum.splits)
  with accepted_step [OF samples_reachable(1) tr] \<open>Version sampleStart = 0\<close> show ?thesis by simp
qed

lemma grant_recorded:
  assumes "persists s actor (GrantAdditionalTime reason) now u" and "sound s"
  shows "flagOf (TeamPauseUsed u) (ActiveTeam s)"
proof -
  obtain tr where run: "Execute s actor (GrantAdditionalTime reason) now = Inr tr" and u: "u = trState tr"
    using assms(1) by (auto simp: persists_Some)
  have "stateClone s = s" using assms(2) by (intro stateClone_id) (simp add: sound_def validState_def)
  then show ?thesis
    using run by (auto simp: u Execute_def dispatch_def grantAdditionalTime_def Let_def split: if_splits)
qed

text \<open>
  The extra time of a team is granted at most once in a match: after a stored grant to a team, no
  history leads to a state in which that team is active again and a second grant is accepted,
  from whomever it comes.
\<close>

theorem team_pause_once:
  assumes "reachable cfg s" and "persists s referee (GrantAdditionalTime why) granted u"
    and "persisted\<^sup>*\<^sup>* u t" and "ActiveTeam t = ActiveTeam s"
  shows "\<not> accepted t actor (GrantAdditionalTime reason) now"
proof -
  have u: "reachable cfg u" using assms(1,2) by (blast intro: reachable.command persisted.intros)
  have "flagOf (TeamPauseUsed t) (ActiveTeam t)"
    using game.runs_grow [OF assms(3) reachable_sound [OF u]]
      grant_recorded [OF assms(2) reachable_sound [OF assms(1)]] assms(4)
    by (simp add: evolves_def flagsEvolve_def)
  moreover have "coreOk t"
    using game.runs_inv [OF assms(3) reachable_sound [OF u]] by (simp add: sound_def validState_def)
  ultimately show ?thesis
    by (simp add: accepted_iff dispatch_def grantAdditionalTime_def)
qed

theorem team_pause_once_witness:
  "\<not> accepted sampleGranted RefereeActor (GrantAdditionalTime ''again'') (200 * second)"
proof -
  have "persists sampleBan RefereeActor (GrantAdditionalTime ''network'') (100 * second) sampleGranted"
    by code_simp
  moreover have "ActiveTeam sampleGranted = ActiveTeam sampleBan" by code_simp
  ultimately show ?thesis
    using team_pause_once [OF samples_reachable(2) _ rtranclp.rtrancl_refl] by blast
qed

text \<open>
  C29: A surrender is accepted exactly from the referee, in play, for a team of the match, with a
  reason, and with confirmations that all come from the team's roster, include its leader and
  come from at least four members. A team with fewer than four rostered ids can never surrender. In
  play includes a suspended match, for which the lifecycle table of the engine's README lists only
  resuming, skipping and aborting.
\<close>

theorem surrender_accepted_iff:
  assumes "reachable cfg s"
  shows "accepted s actor (RecordSurrender team ids reason) now \<longleftrightarrow>
     (Lifecycle s = LifecycleRunning \<or> Lifecycle s = LifecycleSuspended) \<and>
     actorCapability actor = CapabilityReferee \<and> teamValid team \<and> \<not> blank reason \<and>
     set ids \<subseteq> set (rosterLeaderID (rosterOf (Rosters s) team) # rosterPlayerIDs (rosterOf (Rosters s) team)) \<and>
     rosterLeaderID (rosterOf (Rosters s) team) \<in> set ids \<and> 4 \<le> card (set ids)"
  using validateSurrenderEvidence_ok [of "rosterOf (Rosters s) team" ids]
  by (auto simp: accepted_iff [OF reachable_core [OF assms]] dispatch_def recordSurrender_def
        missingReason_def Let_def split_beta)

theorem surrender_accepted_iff_witness:
  "accepted samplePick RefereeActor (RecordSurrender TeamBlue [11, 12, 11, 13, 14] ''unfit'') 1 \<and>
   \<not> accepted samplePick RefereeActor (RecordSurrender TeamBlue [11, 12, 11, 13] ''unfit'') 1"
proof -
  have "rosterOf (Rosters samplePick) TeamBlue = \<lparr>rosterLeaderID = 11, rosterPlayerIDs = [12, 13, 14]\<rparr>"
    "\<not> blank ''unfit''" by code_simp+
  then show ?thesis
    by (simp add: surrender_accepted_iff [OF samples_reachable(3)] samplePick_facts RefereeActor_def
        card_insert_if)
qed

text \<open>
  A robbery changes the board as announced: the target becomes the robbing team's won piece,
  every sacrificed piece is dead, every other piece stays as it was, and the team's robbery is
  marked as used.
\<close>

theorem robbery_effect:
  assumes "reachable cfg s" and "Execute s actor (RobPiece target sets) now = Inr tr"
    and "PieceAt (Board s) cell = Some p"
  shows "PieceAt (Board (trState tr)) cell =
      Some (if pieceID p = target then p\<lparr>pieceOwner := Some (ActiveTeam s), pieceOutcome := OutcomeWon\<rparr>
            else if pieceID p \<in> set (concat sets) then p\<lparr>pieceOutcome := OutcomeDead\<rparr>
            else p) \<and>
    flagOf (RobberyUsed (trState tr)) (ActiveTeam s)"
proof -
  have core: "coreOk s" by (rule reachable_core [OF assms(1)])
  have ok: "boardOk (Board s)"
    using boardShapeOk_boardOk [OF coreOk_parts(3) [OF core]] reachable_maps [OF assms(1)]
    by (simp add: mapsOk_def)
  obtain s' ev where rob: "robPiece s actor target sets now = Inr (s', ev)"
    and tr: "trState tr = s'\<lparr>Version := Version s' + 1\<rparr>"
    using assms(2) by (auto simp: Execute_Inr [OF core] dispatch_def)
  from robPiece_Inr [OF rob ok] obtain q b where
    b: "boardAfterRobbery (Board s) (ActiveTeam s) target (concat sets) (if targetIsShiro q then 2 else 3) = Some b"
    and s'_eq: "let s1 = s\<lparr>Board := b, RobberyUsed := mapPut (ActiveTeam s) True (RobberyUsed s)\<rparr>
      in s' = (if hasFour b (ActiveTeam s)
               then finishMatch s1 (ActiveTeam s) (plainResult (ActiveTeam s) ResultReasonFourAlignment)
               else if shouldForceTB s1 then fst (startForcedTBPreparation s1 now) else s1)"
    by blast
  have s': "Board s' = b" "RobberyUsed s' = mapPut (ActiveTeam s) True (RobberyUsed s)"
    using s'_eq by (simp_all add: Let_def finishMatch_def startForcedTBPreparation_def)
  have "boardPieces b = mapPieces (robbedPiece (ActiveTeam s) target (concat sets)) (boardPieces (Board s))"
    using b by (simp add: boardAfterRobbery_Some [OF ok])
  then have "PieceAt (Board s') cell = map_option (robbedPiece (ActiveTeam s) target (concat sets)) (PieceAt (Board s) cell)"
    by (simp add: PieceAt_mapPieces s')
  then show ?thesis
    using assms(3) by (simp add: tr s' robbedPiece_def ownPiece_def deadPiece_def)
qed

theorem robbery_effect_witness:
  "\<exists>tr. Execute sampleRobbable (StrategistActor TeamRed) (RobPiece ''p4'' [[''p1'', ''p2'']]) (445 * second) = Inr tr \<and>
     map_option pieceOutcome (PieceAt (Board (trState tr)) ''A1'') = Some OutcomeDead"
proof -
  have "accepted sampleRobbable (StrategistActor TeamRed) (RobPiece ''p4'' [[''p1'', ''p2'']]) (445 * second)"
    by code_simp
  then obtain tr where tr: "Execute sampleRobbable (StrategistActor TeamRed)
      (RobPiece ''p4'' [[''p1'', ''p2'']]) (445 * second) = Inr tr"
    by (auto simp: accepted_def split: sum.splits)
  have "map_option pieceID (PieceAt (Board sampleRobbable) ''A1'') = Some ''p1''" by code_simp
  then obtain p where "PieceAt (Board sampleRobbable) ''A1'' = Some p" "pieceID p = ''p1''" by auto
  with robbery_effect [OF samples_reachable(9) tr this(1)] tr show ?thesis by simp
qed

section \<open>Entering a pick\<close>

text \<open>
  C25: The tiebreaker is forced exactly from turn fifteen on, with no four in a row on the board, when
  each team has used its robbery or has none to make: no target and no sacrifice is legal for it.
\<close>

theorem forced_tiebreaker_iff:
  assumes "reachable cfg s"
  shows "forcedTBRequirementsMet s \<longleftrightarrow>
     15 \<le> Turn s \<and> \<not> hasFour (Board s) TeamRed \<and> \<not> hasFour (Board s) TeamBlue \<and>
     (flagOf (RobberyUsed s) TeamRed \<or> (\<nexists>target sets. robberyLegal (Board s) TeamRed target sets)) \<and>
     (flagOf (RobberyUsed s) TeamBlue \<or> (\<nexists>target sets. robberyLegal (Board s) TeamBlue target sets))"
proof -
  have "boardOk (Board s)"
    using boardShapeOk_boardOk [OF coreOk_parts(3) [OF reachable_core [OF assms]]] reachable_maps [OF assms]
    by (simp add: mapsOk_def)
  from teamHasLegalRobbery_iff [OF this] show ?thesis
    by (auto simp: forcedTBRequirementsMet_def Let_def)
qed

theorem forced_tiebreaker_iff_witness:
  "\<not> forcedTBRequirementsMet sampleRobbable"
proof -
  have "Turn sampleRobbable = 5" by code_simp
  then show ?thesis using forced_tiebreaker_iff [OF samples_reachable(9)] by simp
qed

definition wonCount :: "State \<Rightarrow> TeamSide \<Rightarrow> nat" where
  "wonCount s team = length (filter (\<lambda>(c, p). wonBy team p) (boardPieces (Board s)))"

text \<open>
  Entering a pick ends in exactly one of four ways: the forced tiebreaker; a running pick, when
  some placement is legal; adjudication, when none is and both teams have won the same number of
  pieces; or the end of the match, won by the team with more won pieces. Adjudication names no
  winner.
\<close>

theorem enter_pick_outcome:
  assumes "keysDistinct (PoolSlots s)" and "Lifecycle s = LifecycleRunning"
  shows "let t = fst (enterPickOrTerminal s now) in
    (if forcedTBRequirementsMet s then
       Lifecycle t = LifecycleRunning \<and> Phase t = PhaseTBPreparation \<and>
       Timer t = newTimer now (tcTBPreparation (Timers s))
     else if \<exists>p. legalPlacement s p then
       Lifecycle t = LifecycleRunning \<and> Phase t = PhasePick \<and> Timer t = newTimer now (tcPick (Timers s))
     else if wonCount s TeamRed = wonCount s TeamBlue then
       Lifecycle t = LifecycleAdjudicationRequired \<and> Winner t = Winner s \<and> MatchResult t = MatchResult s
     else
       Lifecycle t = LifecycleFinished \<and>
       Winner t = Some (if wonCount s TeamBlue > wonCount s TeamRed then TeamBlue else TeamRed))"
proof -
  have force: "shouldForceTB (expire s) \<longleftrightarrow> forcedTBRequirementsMet s"
    using assms(2) by (simp add: shouldForceTB_def forcedTBRequirementsMet_def expire_def)
  have counts: "countOf (anWonCounts (Analyze s)) TeamRed = int (wonCount s TeamRed)"
    "countOf (anWonCounts (Analyze s)) TeamBlue = int (wonCount s TeamBlue)"
    unfolding wonCount_def by (rule Analyze_wonCounts, simp)+
  have stale: "anStalemate (Analyze s) \<longleftrightarrow> (\<nexists>p. legalPlacement s p)"
    by (rule stalemate_iff [OF assms(1)])
  show ?thesis
    unfolding enterPickOrTerminal_state force counts stale Let_def
    using assms(2)
    by (simp add: startForcedTBPreparation_def finishMatch_def expire_def)
qed

theorem enter_pick_outcome_witness:
  "Phase (fst (enterPickOrTerminal sampleRobbable 7)) = PhasePick \<and> (\<exists>p. legalPlacement sampleRobbable p)"
proof -
  have "keysDistinct (PoolSlots sampleRobbable)"
    using reachable_maps [OF samples_reachable(9)] by (simp add: mapsOk_def)
  moreover have "Lifecycle sampleRobbable = LifecycleRunning" by code_simp
  moreover have "\<not> forcedTBRequirementsMet sampleRobbable" by code_simp
  moreover have "anLegalPlacements (Analyze sampleRobbable) \<noteq> []" by code_simp
  moreover have "\<exists>p. legalPlacement sampleRobbable p"
    using calculation stalemate_iff anStalemate_iff by blast
  ultimately show ?thesis
    using enter_pick_outcome [of sampleRobbable 7] by (simp add: Let_def)
qed

section \<open>Results\<close>

text \<open>
  A confirmed result is about the pending piece, which the winning team then owns; four in a
  row for this team end the match with it as the winner, and otherwise the turn moves on by one.
\<close>

theorem confirm_result:
  assumes "reachable cfg s" and "Execute s actor (ConfirmBeatmapResult pid team) now = Inr tr"
    and "PieceAt (Board s) cell = Some p"
  shows "pid = PendingPieceID s \<and>
    PieceAt (Board (trState tr)) cell =
      Some (if pieceID p = pid then p\<lparr>pieceOwner := Some team, pieceOutcome := OutcomeWon\<rparr> else p) \<and>
    (if hasFour (Board (trState tr)) team
     then Lifecycle (trState tr) = LifecycleFinished \<and> Winner (trState tr) = Some team \<and> Turn (trState tr) = Turn s
     else Turn (trState tr) = Turn s + 1)"
proof -
  have core: "coreOk s" by (rule reachable_core [OF assms(1)])
  obtain s' ev where run: "confirmBeatmapResult s actor pid team now = Inr (s', ev)"
    and tr: "trState tr = s'\<lparr>Version := Version s' + 1\<rparr>"
    using assms(2) by (auto simp: Execute_Inr [OF core] dispatch_def)
  have ids: "distinct (pieceIDs (boardPieces (Board s)))"
    using core by (simp add: coreOk_def boardStateOk_def)
  from run obtain b where pid: "pid = PendingPieceID s" and b: "setOwner (Board s) pid team = Some b"
    and s': "s' = (if hasFour b team
       then finishMatch (s\<lparr>Board := b, PendingPieceID := ''''\<rparr>) team (plainResult team ResultReasonFourAlignment)
       else fst (advancePick (s\<lparr>Board := b, PendingPieceID := ''''\<rparr>) now))"
    by (auto simp: confirmBeatmapResult_def accept_simps Let_def split_beta split: if_splits)
  have "boardPieces b = mapPieces (ownPiece pid team) (boardPieces (Board s))"
    using b setOwner_eq [OF ids, of pid team] by (auto split: if_splits)
  then have "PieceAt b cell = Some (ownPiece pid team p)"
    using assms(3) by (simp add: PieceAt_mapPieces)
  moreover have "Board s' = b"
    using static_advance(1) [of "s\<lparr>Board := b, PendingPieceID := ''''\<rparr>" now]
    by (simp add: s' static_def finishMatch_def)
  moreover have "Turn s' = (if hasFour b team then Turn s else Turn s + 1)"
    by (simp add: s' finishMatch_def Turn_advancePick)
  moreover have "hasFour b team \<Longrightarrow> Lifecycle s' = LifecycleFinished \<and> Winner s' = Some team"
    by (simp add: s' finishMatch_def)
  ultimately show ?thesis by (simp add: tr pid ownPiece_def)
qed

theorem confirm_result_witness:
  "\<exists>tr. Execute sampleWaiting RefereeActor (ConfirmBeatmapResult ''p1'' TeamRed) (415 * second) = Inr tr \<and>
     map_option pieceOwner (PieceAt (Board (trState tr)) ''B2'') = Some (Some TeamRed) \<and> ''p1'' = PendingPieceID sampleWaiting"
proof -
  have "accepted sampleWaiting RefereeActor (ConfirmBeatmapResult ''p1'' TeamRed) (415 * second)"
    by code_simp
  then obtain tr where tr: "Execute sampleWaiting RefereeActor (ConfirmBeatmapResult ''p1'' TeamRed) (415 * second) = Inr tr"
    by (auto simp: accepted_def split: sum.splits)
  have "map_option pieceID (PieceAt (Board sampleWaiting) ''B2'') = Some ''p1''" by code_simp
  then obtain p where "PieceAt (Board sampleWaiting) ''B2'' = Some p" "pieceID p = ''p1''" by auto
  with confirm_result [OF samples_reachable(4) tr this(1)] tr show ?thesis by simp
qed

section \<open>Proxied actions\<close>

text \<open>The command a referee takes on behalf of a team, the team and the reason.\<close>

fun onBehalf :: "Command \<Rightarrow> (TeamSide \<times> Command \<times> string) option" where
  "onBehalf (RefereeBanPoolSlot team sid reason) = Some (team, BanPoolSlot sid, reason)"
| "onBehalf (RefereePlacePiece team sid pid cell reason) = Some (team, PlacePiece sid pid cell, reason)"
| "onBehalf (RefereePlaceShiro team pid cell reason) = Some (team, PlaceShiro pid cell, reason)"
| "onBehalf (RefereeRobPiece team target sets reason) = Some (team, RobPiece target sets, reason)"
| "onBehalf _ = None"

text \<open>
  C30: A referee's proxy for a strategist is accepted exactly when the referee names a team and a
  reason and the engine would accept the team's own command, judged at the time the clock shows or,
  when the team's time has run out, at the instant its timer started.
\<close>

theorem proxy_iff_own_command:
  assumes "reachable cfg s" and "onBehalf command = Some (team, own, reason)"
  shows "accepted s actor command now \<longleftrightarrow>
     actorCapability actor = CapabilityReferee \<and> teamValid team \<and> \<not> blank reason \<and>
     accepted s (StrategistActor team) own (proxyNow s now)"
proof -
  have append: "(\<exists>s' ev. appendRefereeProxyEvent r team reason = Inr (s', ev)) \<longleftrightarrow> (\<exists>s' ev. r = Inr (s', ev))" for r
    by (cases r) (auto simp: appendRefereeProxyEvent_def)
  have ctx: "refereeProxyContext s actor team reason now =
      (if actorCapability actor \<noteq> CapabilityReferee then Inl CodeActionNotAllowed
       else if \<not> teamValid team \<or> blank reason then Inl CodeInvalidRequest
       else Inr (StrategistActor team, proxyNow s now))"
    by (simp add: refereeProxyContext_def missingReason_def proxyNow_def)
  show ?thesis
    using assms(2)
    by (cases command)
       (auto simp: accepted_iff [OF reachable_core [OF assms(1)]] dispatch_def append ctx
          refereeBanPoolSlot_def refereePlacePiece_def refereePlaceShiro_def refereeRobPiece_def)
qed

theorem proxy_iff_own_command_witness:
  "accepted sampleBan RefereeActor (RefereeBanPoolSlot TeamRed ''N1'' ''asleep'') (100 * second)"
proof -
  have "accepted sampleBan (StrategistActor TeamRed) (BanPoolSlot ''N1'') (proxyNow sampleBan (100 * second))"
    "\<not> blank ''asleep''" by code_simp+
  then show ?thesis
    by (simp add: proxy_iff_own_command [OF samples_reachable(2), of _ TeamRed "BanPoolSlot ''N1''" "''asleep''"]
        RefereeActor_def del: blank.simps)
qed

text \<open>
  A late proxy costs the next team its time: the referee bans for red forty seconds after red's
  minute has run out, the command is stored, and blue, whose turn now starts, has no time left at
  that very instant, because the new timer is anchored where red's timer started.
\<close>

theorem late_proxy_expires_next_timer:
  "let now = 101 * second;
       t = perform sampleBan (RefereeActor, RefereeBanPoolSlot TeamRed ''N1'' ''asleep'', now)
   in ActiveTeam sampleBan = TeamRed \<and> ActiveTeam t = TeamBlue \<and> Phase t = PhaseBan \<and>
      timerExpired (Timer t) now"
  by code_simp

end
