(* ===== verification/EnginePlays.thy ===== *)
theory EnginePlays
  imports Samples
begin

text \<open>
  A match cannot be played for ever. \<open>playsLeft\<close> measures what is left of the pool and the board: every
  stored ban, placement, robbery and result makes it smaller, and no other command changes it. So the
  number of such commands in any history is bounded by the size of the pool.
\<close>

section \<open>The measure\<close>

definition availableCount :: "(string, PoolSlot) gomap \<Rightarrow> nat" where
  "availableCount pool = length (filter (\<lambda>(k, x). slotState x = PoolSlotAvailable) pool)"

definition livingCount :: "(Cell, BoardPiece) gomap \<Rightarrow> nat" where
  "livingCount ps = length (filter (\<lambda>(c, p). pieceOutcome p \<noteq> OutcomeDead) ps)"

text \<open>
  An available slot can still be placed, won and sacrificed; a piece that waits can be won and
  sacrificed; a living piece can be sacrificed.
\<close>

definition playsLeft :: "State \<Rightarrow> nat" where
  "playsLeft s = 3 * availableCount (PoolSlots s) + livingCount (boardPieces (Board s)) +
     length (waitingIDs (boardPieces (Board s)))"

definition isPlay :: "Command \<Rightarrow> bool" where
  "isPlay command \<longleftrightarrow>
     (case command of
        BanPoolSlot _ \<Rightarrow> True | RefereeBanPoolSlot _ _ _ \<Rightarrow> True
      | PlacePiece _ _ _ \<Rightarrow> True | RefereePlacePiece _ _ _ _ _ \<Rightarrow> True
      | PlaceShiro _ _ \<Rightarrow> True | RefereePlaceShiro _ _ _ _ \<Rightarrow> True
      | RobPiece _ _ \<Rightarrow> True | RefereeRobPiece _ _ _ _ \<Rightarrow> True
      | ConfirmBeatmapResult _ _ \<Rightarrow> True
      | _ \<Rightarrow> False)"

lemma playsLeft_static: "static s' = static s \<Longrightarrow> playsLeft s' = playsLeft s"
  by (simp add: static_def playsLeft_def)

lemma playsLeft_Version [simp]: "playsLeft (s\<lparr>Version := v\<rparr>) = playsLeft s"
  by (simp add: playsLeft_def)

lemma availableCount_take:
  assumes "keysDistinct pool" and "mapGet pool k = Some x"
    and "slotState x = PoolSlotAvailable" and "slotState y \<noteq> PoolSlotAvailable"
  shows "availableCount pool = Suc (availableCount (mapPut k y pool))"
  using assms
proof (induction pool)
  case (Cons e pool)
  obtain k' x' where e: "e = (k', x')" by fastforce
  show ?case
  proof (cases "k' = k")
    case True
    then show ?thesis using Cons.prems by (simp add: e availableCount_def)
  next
    case False
    then have "availableCount pool = Suc (availableCount (mapPut k y pool))"
      using Cons.prems by (intro Cons.IH) (simp_all add: e)
    then show ?thesis using False by (simp add: e availableCount_def)
  qed
qed simp

lemma livingCount_append [simp]: "livingCount (ps @ qs) = livingCount ps + livingCount qs"
  by (simp add: livingCount_def)

lemma length_filter_image_less:
  assumes "\<And>x. x \<in> set xs \<Longrightarrow> Q (f x) \<Longrightarrow> P x" and "y \<in> set xs" and "P y" and "\<not> Q (f y)"
  shows "length (filter Q (map f xs)) < length (filter P xs)"
proof -
  have "length (filter Q (map f xs)) = length (filter (\<lambda>x. Q (f x)) xs)"
    by (simp add: filter_map comp_def)
  also have "filter (\<lambda>x. Q (f x)) xs = filter (\<lambda>x. Q (f x)) (filter P xs)"
    unfolding filter_filter by (rule filter_cong) (use assms(1) in auto)
  also have "length \<dots> < length (filter P xs)"
    by (rule length_filter_less [of y]) (use assms in simp_all)
  finally show ?thesis .
qed

lemma length_filter_image_le:
  assumes "\<And>x. x \<in> set xs \<Longrightarrow> Q (f x) \<Longrightarrow> P x"
  shows "length (filter Q (map f xs)) \<le> length (filter P xs)"
  using assms by (induction xs) auto

section \<open>One command\<close>

lemma banPoolSlot_left:
  assumes core: "coreOk s" and maps: "mapsOk s" and step: "banPoolSlot s actor sid now = Inr (s', ev)"
  shows "playsLeft s' < playsLeft s"
proof -
  from step obtain slot where
    slot: "mapGet (PoolSlots s) sid = Some slot" "slotState slot = PoolSlotAvailable"
    and s': "s' = fst (advanceBan (s\<lparr>PoolSlots :=
        mapPut (slotID slot) (slot\<lparr>slotState := PoolSlotBanned\<rparr>) (PoolSlots s)\<rparr>) now)"
    by (auto simp: banPoolSlot_def accept_simps Let_def split_beta)
  have sid: "slotID slot = sid" using poolOk_slot [OF coreOk_parts(2) [OF core] slot(1)] by (simp add: slotOk_def)
  show ?thesis
    unfolding s' playsLeft_static [OF static_advance(2)]
    using availableCount_take [OF _ slot, of "slot\<lparr>slotState := PoolSlotBanned\<rparr>"] maps
    by (simp add: sid playsLeft_def mapsOk_def)
qed

lemma placed_left:
  assumes maps: "mapsOk s"
    and slot: "mapGet (PoolSlots s) (slotID slot) = Some slot" "slotState slot = PoolSlotAvailable"
    and cell: "boardEmpty (Board s) cell"
    and s': "static s' = static (s\<lparr>Board := boardPlace (Board s) cell p, PoolSlots :=
        mapPut (slotID slot) (slot\<lparr>slotState := PoolSlotSelected\<rparr>) (PoolSlots s)\<rparr>)"
  shows "playsLeft s' < playsLeft s"
proof -
  have "livingCount [(cell, p)] \<le> 1" "length (waitingIDs [(cell, p)]) \<le> 1"
    by (simp_all add: livingCount_def waitingIDs_def pieceIDs_def)
  then show ?thesis
    unfolding playsLeft_static [OF s']
    using availableCount_take [OF _ slot, of "slot\<lparr>slotState := PoolSlotSelected\<rparr>"] maps
    by (simp add: playsLeft_def boardPlace_pieces [OF cell] mapsOk_def del: waitingIDs_simps)
qed

lemma placePiece_left:
  assumes core: "coreOk s" and maps: "mapsOk s" and step: "placePiece s actor sid pid cell now = Inr (s', ev)"
  shows "playsLeft s' < playsLeft s"
proof -
  from step obtain slot p where
    slot: "mapGet (PoolSlots s) sid = Some slot" "slotState slot = PoolSlotAvailable"
    and cell: "boardEmpty (Board s) cell"
    and s': "static s' = static (s\<lparr>Board := boardPlace (Board s) cell p, PoolSlots :=
        mapPut (slotID slot) (slot\<lparr>slotState := PoolSlotSelected\<rparr>) (PoolSlots s)\<rparr>)"
    by (auto simp: placePiece_def accept_simps Let_def static_def)
  have "slotID slot = sid" using poolOk_slot [OF coreOk_parts(2) [OF core] slot(1)] by (simp add: slotOk_def)
  with placed_left [OF maps _ slot(2) cell s'] slot(1) show ?thesis by simp
qed

lemma placeShiro_left:
  assumes core: "coreOk s" and maps: "mapsOk s" and step: "placeShiro s actor pid cell now = Inr (s', ev)"
  shows "playsLeft s' < playsLeft s"
proof -
  from step obtain slot p where
    slot: "findShiro (PoolSlots s) = Some slot" "slotState slot = PoolSlotAvailable"
    and cell: "boardEmpty (Board s) cell"
    and s': "static s' = static (s\<lparr>Board := boardPlace (Board s) cell p, PoolSlots :=
        mapPut (slotID slot) (slot\<lparr>slotState := PoolSlotSelected\<rparr>) (PoolSlots s)\<rparr>)"
    by (auto simp: placeShiro_def accept_simps Let_def split_beta)
  have "mapGet (PoolSlots s) (slotID slot) = Some slot"
    using findShiro_Some [OF coreOk_parts(2) [OF core] _ slot(1)] maps by (simp add: mapsOk_def)
  from placed_left [OF maps this slot(2) cell s'] show ?thesis .
qed

lemma sacrificeLegal_nonempty: "sacrificeLegal b team p sets \<Longrightarrow> concat sets \<noteq> []"
  by (auto simp: sacrificeLegal_def isAlignment_def validNormalRobberySacrifice_def
      split: if_splits list.splits)

lemma robbery_kills:
  assumes shape: "boardShapeOk pool b" and keys: "keysDistinct (boardPieces b)" and valid: "teamValid team"
    and p: "(c, p) \<in> set (boardPieces b)" and legal: "sacrificeLegal b team p sets"
  shows "livingCount (mapPieces (robbedPiece team (pieceID p) (concat sets)) (boardPieces b)) < livingCount (boardPieces b)"
proof -
  have ok: "boardOk b" using boardShapeOk_boardOk [OF shape keys] .
  have target: "q = p" if "(c', q) \<in> set (boardPieces b)" "pieceID q = pieceID p" for c' q
    using pieceIDs_inj [OF boardOkD(2) [OF ok] that(1) p that(2)] by simp
  have live: "pieceOutcome p \<noteq> OutcomeDead" "\<not> wonBy team p"
    using legal valid
    by (auto simp: sacrificeLegal_def targetIsShiro_def targetIsOpponent_def wonBy_def opponent_def teamValid_def)
  obtain pid where "pid \<in> set (concat sets)" using sacrificeLegal_nonempty [OF legal] by (meson list.set_sel(1))
  with sacrificeLegal_won [OF ok legal] obtain c' q where
    q: "(c', q) \<in> set (boardPieces b)" "wonBy team q" "pieceID q \<in> set (concat sets)" by blast
  have other: "pieceID q \<noteq> pieceID p" using target [OF q(1)] q(2) live(2) by blast
  show ?thesis
    unfolding livingCount_def mapPieces_def
  proof (rule length_filter_image_less [where y = "(c', q)"])
    fix x assume x: "x \<in> set (boardPieces b)"
      "case (case x of (cell, piece) \<Rightarrow> (cell, robbedPiece team (pieceID p) (concat sets) piece)) of
         (c, p) \<Rightarrow> pieceOutcome p \<noteq> OutcomeDead"
    obtain c1 p1 where x1: "x = (c1, p1)" by fastforce
    show "case x of (c, p) \<Rightarrow> pieceOutcome p \<noteq> OutcomeDead"
      using x target [of c1 p1] live(1)
      by (auto simp: x1 robbedPiece_def ownPiece_def deadPiece_def split: if_splits)
  qed (use q other in \<open>simp_all add: wonBy_def robbedPiece_def ownPiece_def deadPiece_def\<close>)
qed

lemma robPiece_left:
  assumes core: "coreOk s" and maps: "mapsOk s" and step: "robPiece s actor pid sets now = Inr (s', ev)"
  shows "playsLeft s' < playsLeft s"
proof -
  have keys: "keysDistinct (boardPieces (Board s))" using maps by (simp add: mapsOk_def)
  note shape = coreOk_parts(3) [OF core]
  from robPiece_Inr [OF step boardShapeOk_boardOk [OF shape keys]] obtain c p b where
    team: "teamValid (ActiveTeam s)" and run: "Lifecycle s = LifecycleRunning" "Phase s = PhasePick"
    and p: "(c, p) \<in> set (boardPieces (Board s))" "pieceID p = pid"
    and legal: "sacrificeLegal (Board s) (ActiveTeam s) p sets"
    and after: "boardAfterRobbery (Board s) (ActiveTeam s) pid (concat sets)
                  (if targetIsShiro p then 2 else 3) = Some b"
    and s': "static s' = static (s\<lparr>Board := b, RobberyUsed := mapPut (ActiveTeam s) True (RobberyUsed s)\<rparr>)"
    by (auto simp: Let_def)
  have "waitingIDs (boardPieces (Board s)) = []" using pick_ready [OF core run] by (simp add: pickReady_def)
  then show ?thesis
    unfolding playsLeft_static [OF s']
    using robbery_kills [OF shape keys team p(1) legal] robbery_shape [OF shape keys legal team after] p(2)
    by (simp add: playsLeft_def waitingIDs_robbedPiece)
qed

lemma confirmBeatmapResult_left:
  assumes core: "coreOk s" and step: "confirmBeatmapResult s actor pid team now = Inr (s', ev)"
  shows "playsLeft s' < playsLeft s"
proof -
  from step obtain b where run: "Lifecycle s = LifecycleRunning" "Phase s = PhaseWaitingForResult"
    and pid: "pid = PendingPieceID s" and team: "teamValid team"
    and b: "setOwner (Board s) pid team = Some b"
    and s': "static s' = static (s\<lparr>Board := b\<rparr>)"
    by (auto simp: confirmBeatmapResult_def accept_simps Let_def split_beta split: if_splits)
  note shape = coreOk_parts(3) [OF core]
  have wait: "waitingIDs (boardPieces (Board s)) = [pid]"
    using core run pid by (simp add: coreOk_def boardStateOk_iff waitingOk_def)
  have pieces: "boardPieces b = mapPieces (ownPiece pid team) (boardPieces (Board s))"
    using setOwner_shape [OF shape b team] by simp
  have "pieceOutcome q \<noteq> OutcomeDead" if q: "(c, q) \<in> set (boardPieces (Board s))" "pieceID q = pid" for c q
  proof -
    have "pid \<in> set (waitingIDs (boardPieces (Board s)))" using wait by simp
    then obtain c' w where w: "(c', w) \<in> set (boardPieces (Board s))"
      "pieceOutcome w = OutcomeWaitingResult" "pieceID w = pid"
      by (auto simp: waitingIDs_def pieceIDs_def)
    have "w = q"
      using pieceIDs_inj [OF _ w(1) q(1)] w(3) q(2) shape by (simp add: boardShapeOk_def)
    then show ?thesis using w(2) by simp
  qed
  then have "livingCount (boardPieces b) \<le> livingCount (boardPieces (Board s))"
    unfolding pieces livingCount_def mapPieces_def
    by (intro length_filter_image_le) (auto simp: ownPiece_def split: if_splits)
  moreover have "waitingIDs (boardPieces b) = []" by (simp add: pieces waitingIDs_ownPiece wait)
  ultimately show ?thesis unfolding playsLeft_static [OF s'] by (simp add: playsLeft_def wait)
qed

lemma grantAdditionalTime_left:
  assumes "grantAdditionalTime s actor reason now = Inr (s', ev)"
  shows "playsLeft s' = playsLeft s"
proof -
  from assms have "static s' = static (s\<lparr>TeamPauseUsed := mapPut (ActiveTeam s) True (TeamPauseUsed s)\<rparr>)"
    by (auto simp: grantAdditionalTime_def accept_simps Let_def)
  from playsLeft_static [OF this] show ?thesis by (simp add: playsLeft_def)
qed

lemma dispatch_left:
  assumes core: "coreOk s" and maps: "mapsOk s" and step: "dispatch s actor command now = Inr (s', ev)"
  shows "if isPlay command then playsLeft s' < playsLeft s else playsLeft s' = playsLeft s"
proof (cases command)
  case (RefereeBanPoolSlot t sid reason)
  with step proxied(1) banPoolSlot_left [OF core maps] show ?thesis by (fastforce simp: dispatch_def isPlay_def)
next
  case (RefereePlacePiece t sid pid cell reason)
  with step proxied(2) placePiece_left [OF core maps] show ?thesis by (fastforce simp: dispatch_def isPlay_def)
next
  case (RefereePlaceShiro t pid cell reason)
  with step proxied(3) placeShiro_left [OF core maps] show ?thesis by (fastforce simp: dispatch_def isPlay_def)
next
  case (RefereeRobPiece t pid sets reason)
  with step proxied(4) robPiece_left [OF core maps] show ?thesis by (fastforce simp: dispatch_def isPlay_def)
next
  case (RefereeRequestTB t rid basis reason)
  with step proxied(5) plain_same(8) [THEN playsLeft_static] show ?thesis
    by (fastforce simp: dispatch_def isPlay_def)
next
  case (RefereeRespondTBRequest t rid accept reason)
  with step proxied(6) plain_same(9) [THEN playsLeft_static] show ?thesis
    by (fastforce simp: dispatch_def isPlay_def)
qed (use step banPoolSlot_left [OF core maps] placePiece_left [OF core maps] placeShiro_left [OF core maps]
       robPiece_left [OF core maps] confirmBeatmapResult_left [OF core] grantAdditionalTime_left
       plain_same [THEN playsLeft_static] skipCurrentAction_static [THEN playsLeft_static]
       in \<open>simp_all add: dispatch_def isPlay_def\<close>)

section \<open>Histories\<close>

lemma persists_left:
  assumes "sound s" and "persists s actor command now t"
  shows "if isPlay command then playsLeft t < playsLeft s else playsLeft t = playsLeft s"
proof -
  have core: "coreOk s" and maps: "mapsOk s" using assms(1) by (simp_all add: sound_def validState_def)
  from assms(2) obtain s' ev where "dispatch s actor command now = Inr (s', ev)"
    and t: "t = s'\<lparr>Version := Version s' + 1\<rparr>"
    by (auto simp: persists_Some Execute_Inr [OF core])
  from dispatch_left [OF core maps this(1)] show ?thesis by (simp add: t)
qed

text \<open>How many of a list of commands are plays that reach the database, one after the other.\<close>

fun storedPlays :: "State \<Rightarrow> (Actor \<times> Command \<times> Time) list \<Rightarrow> nat" where
  "storedPlays s [] = 0"
| "storedPlays s ((actor, command, now) # plays) =
     (let t = perform s (actor, command, now)
      in (if isPlay command \<and> persists s actor command now t then 1 else 0) + storedPlays t plays)"

lemma storedPlays_left: "sound s \<Longrightarrow> storedPlays s plays + playsLeft (foldl perform s plays) \<le> playsLeft s"
proof (induction s plays rule: storedPlays.induct)
  case (2 s actor command now plays)
  let ?t = "perform s (actor, command, now)"
  show ?case
  proof (cases "persists s actor command now ?t")
    case True
    have "sound ?t" using persisted_sound(1) [OF "2.prems" persisted.intros [OF True]] .
    then show ?thesis
      using "2.IH" [OF refl] persists_left [OF "2.prems" True] True by (auto split: if_splits)
  next
    case False
    then have "?t = s" using perform_cases [of s actor command now] by simp
    then show ?thesis using "2.IH" [OF refl] "2.prems" False by simp
  qed
qed simp

lemma livingCount_board: "livingCount (boardPieces NewBoard) = 0" "waitingIDs (boardPieces NewBoard) = []"
  by (simp_all add: livingCount_def NewBoard_def waitingIDs_def pieceIDs_def)

lemma buildPool_length:
  "buildPool pool sh tb slots = Inr (pool', sh', tb') \<Longrightarrow> length pool' = length pool + length slots"
proof (induction slots arbitrary: pool sh tb)
  case (Cons c slots)
  then have "mapGet pool (slotID c) = None" by (auto split: if_splits)
  then show ?case using Cons by (auto simp: mapPut_fresh split: if_splits)
qed simp

lemma start_left:
  assumes "NewReadyState cfg = Inr s"
  shows "playsLeft s \<le> 3 * length (cfgPoolSlots cfg)"
proof -
  from assms obtain pool sh tb where "buildPool [] 0 0 (cfgPoolSlots cfg) = Inr (pool, sh, tb)"
    and s: "PoolSlots s = pool" "Board s = NewBoard"
    by (auto simp: NewReadyState_def split: if_splits sum.splits prod.splits)
  from buildPool_length [OF this(1)] have "availableCount pool \<le> length (cfgPoolSlots cfg)"
    using length_filter_le [of _ pool] by (simp add: availableCount_def)
  then show ?thesis by (simp add: playsLeft_def s livingCount_board)
qed

lemma reachable_left: "reachable cfg s \<Longrightarrow> playsLeft s \<le> 3 * length (cfgPoolSlots cfg)"
proof (induction rule: reachable.induct)
  case (command s t)
  from command.hyps(2) obtain actor cmd now where "persists s actor cmd now t" by (rule persistedE)
  from persists_left [OF reachable_sound [OF command.hyps(1)] this] command.IH show ?case
    by (auto split: if_splits)
qed (rule start_left)

text \<open>
  C12: The play of a match ends. However many commands are sent to a match, and by whom, the bans,
  placements, robberies and results among them that reach the database, those of the referee in a
  team's place included, are at most three for each slot of the pool.
\<close>

theorem plays_bounded:
  assumes "reachable cfg s"
  shows "storedPlays s plays \<le> 3 * length (cfgPoolSlots cfg)"
  using storedPlays_left [OF reachable_sound [OF assms], of plays] reachable_left [OF assms] by simp

theorem plays_bounded_witness:
  "storedPlays samplePick [(StrategistActor TeamRed, PlacePiece ''N1'' ''p1'' ''A1'', 410 * second)] = 1 \<and>
   storedPlays samplePick robPlays \<le> 3 * length (cfgPoolSlots sampleConfiguration)"
proof -
  have "storedPlays samplePick [(StrategistActor TeamRed, PlacePiece ''N1'' ''p1'' ''A1'', 410 * second)] = 1"
    by code_simp
  then show ?thesis using plays_bounded [OF samples_reachable(3), of robPlays] by simp
qed

end
