(* ===== verification/DomainModel.thy ===== *)
theory DomainModel
  imports Prelude
begin

text \<open>
  The persisted entities of \<open>internal/domain\<close>: users, teams, rooms, rounds, mappools, the runtime
  pool, the board and turn of the legacy match shell, and the shell itself, with the operations
  that only compute on them. Go's named string types whose strings the code builds or parses
  (\<open>PieceMod\<close>, \<open>Zone\<close>) stay strings; the others are datatypes with one constructor per constant and
  a last one for every other string. A pointer is an option, a pointer receiver returns the updated
  value, and every \<open>time.Now()\<close> is an argument \<open>now\<close>.
\<close>

section \<open>Users\<close>

type_synonym ObjectID = "96 word"

definition NilObjectID :: ObjectID where "NilObjectID = 0"

datatype UserRole =
  RolePlayer | RoleStrategist | RoleReferee | RoleStreamer | RoleAdmin | RoleOther string

fun roleString :: "UserRole \<Rightarrow> string" where
  "roleString RolePlayer = ''player''"
| "roleString RoleStrategist = ''strategist''"
| "roleString RoleReferee = ''referee''"
| "roleString RoleStreamer = ''streamer''"
| "roleString RoleAdmin = ''admin''"
| "roleString (RoleOther r) = r"

datatype VerifyStatus = Verified | Pending | Unverified | VerifyOther string

text \<open>\<open>PP\<close> is a \<open>float32\<close> no code of this repository computes with; it keeps its 32 bits.\<close>

record User =
  userID :: ObjectID
  userVerifyStatus :: VerifyStatus
  userIsBanned :: bool
  userOnlineID :: int
  userGlobalRank :: int
  userPP :: "32 word"
  userUsername :: string
  userAvatarURL :: string
  userCountryCode :: string
  userRoles :: "UserRole list"
  userCreatedAt :: Time
  userUpdatedAt :: Time

definition HasRole :: "User \<Rightarrow> UserRole \<Rightarrow> bool" where
  "HasRole u role \<longleftrightarrow> role \<in> set (userRoles u)"

definition HasAnyRole :: "User \<Rightarrow> UserRole list \<Rightarrow> bool" where
  "HasAnyRole u roles \<longleftrightarrow> list_ex (HasRole u) roles"

section \<open>Teams\<close>

datatype DomainSide = TeamSideRed | TeamSideBlue | TeamSideOther string

fun sideString :: "DomainSide \<Rightarrow> string" where
  "sideString TeamSideRed = ''red''"
| "sideString TeamSideBlue = ''blue''"
| "sideString (TeamSideOther s) = s"

text \<open>The conversion \<open>TeamSide(s)\<close> of a string.\<close>

definition sideOf :: "string \<Rightarrow> DomainSide" where
  "sideOf s = (if s = ''red'' then TeamSideRed else if s = ''blue'' then TeamSideBlue
               else TeamSideOther s)"

definition sideOpponent :: "DomainSide \<Rightarrow> DomainSide" where
  "sideOpponent s = (if s = TeamSideRed then TeamSideBlue else TeamSideRed)"

record Team =
  teamID :: ObjectID
  teamName :: string
  teamDescription :: "string option"
  teamSeed :: "string option"
  teamLeaderID :: "int option"
  teamStrategistID :: "int option"
  teamPlayers :: "int list"
  teamCreatedAt :: Time
  teamUpdatedAt :: Time

definition teamIsReady :: "Team \<Rightarrow> bool" where
  "teamIsReady t \<longleftrightarrow> teamLeaderID t \<noteq> None \<and> teamStrategistID t \<noteq> None"

record TeamSnapshot =
  tsID :: ObjectID
  tsSide :: DomainSide
  tsName :: string
  tsDescription :: string
  tsSeed :: string
  tsColor :: string
  tsLeaderID :: int
  tsStrategistID :: int
  tsPlayers :: "int list"

definition SideColor :: "DomainSide \<Rightarrow> string" where
  "SideColor side = (if side = TeamSideBlue then ''#3b82f6'' else ''#ef4444'')"

definition DerefInt64 :: "int option \<Rightarrow> int \<Rightarrow> int" where
  "DerefInt64 p fallback = (case p of None \<Rightarrow> fallback | Some v \<Rightarrow> v)"

definition teamSnapshot :: "Team \<Rightarrow> DomainSide \<Rightarrow> TeamSnapshot" where
  "teamSnapshot t side =
     \<lparr>tsID = teamID t, tsSide = side, tsName = teamName t,
      tsDescription = (case teamDescription t of None \<Rightarrow> '''' | Some d \<Rightarrow> d),
      tsSeed = (case teamSeed t of None \<Rightarrow> '''' | Some d \<Rightarrow> d),
      tsColor = SideColor side, tsLeaderID = DerefInt64 (teamLeaderID t) 0,
      tsStrategistID = DerefInt64 (teamStrategistID t) 0, tsPlayers = teamPlayers t\<rparr>"

definition sideByAssignment :: "bool \<Rightarrow> bool \<Rightarrow> DomainSide option" where
  "sideByAssignment red blue =
     (if red \<and> \<not> blue then Some TeamSideRed
      else if blue \<and> \<not> red then Some TeamSideBlue
      else None)"

definition StrategistSide :: "Team option \<Rightarrow> Team option \<Rightarrow> int \<Rightarrow> DomainSide option" where
  "StrategistSide redTeam blueTeam osuID =
     sideByAssignment
       (case redTeam of None \<Rightarrow> False | Some t \<Rightarrow> teamStrategistID t = Some osuID)
       (case blueTeam of None \<Rightarrow> False | Some t \<Rightarrow> teamStrategistID t = Some osuID)"

definition CaptainSide :: "Team option \<Rightarrow> Team option \<Rightarrow> int \<Rightarrow> DomainSide option" where
  "CaptainSide redTeam blueTeam osuID =
     sideByAssignment
       (case redTeam of None \<Rightarrow> False | Some t \<Rightarrow> teamLeaderID t = Some osuID)
       (case blueTeam of None \<Rightarrow> False | Some t \<Rightarrow> teamLeaderID t = Some osuID)"

section \<open>Rounds\<close>

datatype Round =
    RoundNone | RoundQualifiers | RoundWarmup | RoundAssault | RoundProtracted | RoundFinals
  | RoundEliminated | RoundOther string

fun roundText :: "Round \<Rightarrow> string" where
  "roundText RoundNone = ''''"
| "roundText RoundQualifiers = ''qualifiers''"
| "roundText RoundWarmup = ''warmup''"
| "roundText RoundAssault = ''assault''"
| "roundText RoundProtracted = ''protracted''"
| "roundText RoundFinals = ''finals''"
| "roundText RoundEliminated = ''eliminated''"
| "roundText (RoundOther s) = s"

definition AllRounds :: "Round list" where
  "AllRounds = [RoundQualifiers, RoundWarmup, RoundAssault, RoundProtracted, RoundFinals,
                RoundEliminated]"

text \<open>The conversion \<open>Round(s)\<close> of a string.\<close>

definition roundOf :: "string \<Rightarrow> Round" where
  "roundOf s =
     (if s = '''' then RoundNone
      else case List.find (\<lambda>r. roundText r = s) AllRounds of
             Some r \<Rightarrow> r
           | None \<Rightarrow> RoundOther s)"

definition roundIsValid :: "Round \<Rightarrow> bool" where
  "roundIsValid r \<longleftrightarrow> r \<in> set AllRounds"

definition roundIsPlayable :: "Round \<Rightarrow> bool" where
  "roundIsPlayable r \<longleftrightarrow> r \<in> {RoundWarmup, RoundAssault, RoundProtracted, RoundFinals}"

text \<open>
  \<open>strings.ToLower\<close>, as far as an alias can tell: an ASCII capital, and the two letters outside ASCII
  (the dotted capital I and the Kelvin sign, here as their UTF-8 bytes) whose lower case is an ASCII
  letter. Every other byte outside ASCII keeps a byte outside ASCII in the result, which no alias has.
\<close>

definition lowerByte :: "char \<Rightarrow> char" where
  "lowerByte c =
     (if 65 \<le> (of_char c :: nat) \<and> (of_char c :: nat) \<le> 90
      then char_of ((of_char c :: nat) + 32) else c)"

fun lowerText :: "string \<Rightarrow> string" where
  "lowerText [] = []"
| "lowerText (c # s) =
     (if of_char c = (0xC4 :: nat) \<and> map of_char (take 1 s) = [0xB0 :: nat]
      then CHR ''i'' # lowerText (drop 1 s)
      else if of_char c = (0xE2 :: nat) \<and> map of_char (take 2 s) = [0x84 :: nat, 0xAA]
      then CHR ''k'' # lowerText (drop 2 s)
      else lowerByte c # lowerText s)"

definition legacyRoundAliases :: "(string, Round) gomap" where
  "legacyRoundAliases =
     [(''quarterfinal'', RoundFinals), (''quarterfinals'', RoundFinals),
      (''semifinal'', RoundFinals), (''semifinals'', RoundFinals)]"

definition FromLegacyString :: "string \<Rightarrow> Round" where
  "FromLegacyString s =
     (if s = '''' then RoundNone
      else let r = roundOf s
           in if roundIsValid r then r
              else case mapGet legacyRoundAliases (lowerText s) of
                     Some mapped \<Rightarrow> mapped
                   | None \<Rightarrow> RoundEliminated)"

section \<open>Pieces and the runtime pool\<close>

type_synonym PieceMod = string

abbreviation PieceModNM :: PieceMod where "PieceModNM \<equiv> ''NM''"
abbreviation PieceModHD :: PieceMod where "PieceModHD \<equiv> ''HD''"
abbreviation PieceModHR :: PieceMod where "PieceModHR \<equiv> ''HR''"
abbreviation PieceModDT :: PieceMod where "PieceModDT \<equiv> ''DT''"
abbreviation PieceModFM :: PieceMod where "PieceModFM \<equiv> ''FM''"
abbreviation PieceModShiro :: PieceMod where "PieceModShiro \<equiv> ''Shiro''"
abbreviation PieceModTB :: PieceMod where "PieceModTB \<equiv> ''TB''"

datatype PieceState =
    PieceStateNormal | PieceStateBanned | PieceStatePicked | PieceStateWon | PieceStateDead
  | PieceStateOther string

type_synonym PieceForceMod = string

record Position =
  posX :: int
  posY :: int

record Piece =
  pcBeatmapID :: "int option"
  pcState :: PieceState
  pcTeamID :: "string option"
  pcForceMod :: "PieceForceMod option"
  pcPosition :: "Position option"

definition IsRemoved :: "Piece \<Rightarrow> bool" where
  "IsRemoved p \<longleftrightarrow> pcBeatmapID p = Some (-1)"

definition CanBeSelected :: "Piece \<Rightarrow> bool" where
  "CanBeSelected p \<longleftrightarrow>
     pcState p \<noteq> PieceStateBanned \<and> pcState p \<noteq> PieceStatePicked \<and>
     pcState p \<noteq> PieceStateWon \<and> pcState p \<noteq> PieceStateDead"

definition IsRestrictedMod :: "PieceMod \<Rightarrow> bool" where
  "IsRestrictedMod m \<longleftrightarrow> m = PieceModHD \<or> m = PieceModHR \<or> m = PieceModDT"

definition IsFreeMod :: "PieceMod \<Rightarrow> bool" where
  "IsFreeMod m \<longleftrightarrow> \<not> IsRestrictedMod m"

record DomainSlot =
  dsMod :: PieceMod
  dsIndex :: int

record Pool =
  poolSlots :: "(PieceMod, Piece list) gomap"

definition NewPool :: Pool where
  "NewPool = \<lparr>poolSlots = []\<rparr>"

text \<open>Indexing the map with a missing key gives the nil slice.\<close>

definition slotGroup :: "Pool \<Rightarrow> PieceMod \<Rightarrow> Piece list" where
  "slotGroup m pm = (case mapGet (poolSlots m) pm of None \<Rightarrow> [] | Some pieces \<Rightarrow> pieces)"

definition FindSlot :: "Pool \<Rightarrow> DomainSlot \<Rightarrow> Piece option" where
  "FindSlot m slot =
     (case mapGet (poolSlots m) (dsMod slot) of
        None \<Rightarrow> None
      | Some pieces \<Rightarrow>
          if dsIndex slot < 1 \<or> dsIndex slot > int (length pieces) then None
          else Some (pieces ! nat (dsIndex slot - 1)))"

text \<open>The write \<open>*p = v\<close> through the pointer that \<open>FindSlot\<close> returned.\<close>

definition setSlot :: "Pool \<Rightarrow> DomainSlot \<Rightarrow> (Piece \<Rightarrow> Piece) \<Rightarrow> Pool" where
  "setSlot m slot f =
     (case FindSlot m slot of
        None \<Rightarrow> m
      | Some piece \<Rightarrow>
          m\<lparr>poolSlots := mapPut (dsMod slot)
              ((slotGroup m (dsMod slot))[nat (dsIndex slot - 1) := f piece]) (poolSlots m)\<rparr>)"

definition ActiveSlots :: "Pool \<Rightarrow> Piece list" where
  "ActiveSlots m = concat (map (\<lambda>(pm, pieces). filter (\<lambda>p. \<not> IsRemoved p) pieces) (poolSlots m))"

definition ActiveSlotsByMod :: "Pool \<Rightarrow> PieceMod \<Rightarrow> Piece list" where
  "ActiveSlotsByMod m pm =
     (case mapGet (poolSlots m) pm of
        None \<Rightarrow> []
      | Some pieces \<Rightarrow> filter (\<lambda>p. \<not> IsRemoved p) pieces)"

section \<open>The legacy board\<close>

type_synonym BoardZone = string

datatype CellState = CellStateEmpty | CellStateOccupied | CellStateOther string

record BoardCell =
  cellPos :: Position
  cellZone :: BoardZone
  cellState :: CellState
  cellPieceID :: "string option"
  cellTeamID :: "string option"

record MatchBoard =
  mbRows :: int
  mbCols :: int
  mbCells :: "BoardCell list list"

definition BoardRows :: int where "BoardRows = 4"
definition BoardCols :: int where "BoardCols = 4"

definition boardZones :: "BoardZone list list" where
  "boardZones =
     [[''HD'', ''HD'', ''DT'', ''DT''], [''HD'', ''HD'', ''DT'', ''DT''],
      [''HR'', ''HR'', ''NM'', ''NM''], [''HR'', ''HR'', ''NM'', ''NM'']]"

definition NewMatchBoard :: MatchBoard where
  "NewMatchBoard =
     \<lparr>mbRows = BoardRows, mbCols = BoardCols,
      mbCells = map (\<lambda>y. map (\<lambda>x.
          \<lparr>cellPos = \<lparr>posX = x, posY = y\<rparr>, cellZone = boardZones ! nat y ! nat x,
           cellState = CellStateEmpty, cellPieceID = None, cellTeamID = None\<rparr>)
        [0..BoardCols - 1]) [0..BoardRows - 1]\<rparr>"

section \<open>Turn, timer and match shell\<close>

datatype MatchPhase =
    MatchPhaseSetup | MatchPhaseRoll | MatchPhaseBan | MatchPhasePick | MatchPhaseWin
  | MatchPhaseTB | MatchPhaseEnded | MatchPhaseOther string

datatype TurnAction =
    TurnActionBan | TurnActionRob | TurnActionPick | TurnActionWin | TurnActionTB
  | TurnActionOther string

record BPOrder =
  bpFirstPick :: DomainSide
  bpFirstBan :: DomainSide

record TurnState =
  tuPhase :: MatchPhase
  tuCounter :: int
  tuActiveTeam :: "DomainSide option"
  tuAction :: TurnAction
  tuStartedAt :: Time
  tuTimeLimit :: Duration
  tuBonusTime :: Duration
  tuBonusUsed :: bool

definition NewTurnState :: TurnState where
  "NewTurnState =
     \<lparr>tuPhase = MatchPhaseRoll, tuCounter = 0, tuActiveTeam = None, tuAction = TurnActionPick,
      tuStartedAt = 0, tuTimeLimit = 0, tuBonusTime = 0, tuBonusUsed = False\<rparr>"

record TimerState =
  tmStartedAt :: Time
  tmTimeLimit :: Duration
  tmBonusTime :: Duration
  tmBonusUsed :: bool
  tmIsPaused :: bool
  tmPausedAt :: "Time option"
  tmRemainingAtPause :: Duration

definition NewTimerState :: "Time \<Rightarrow> Duration \<Rightarrow> Duration \<Rightarrow> TimerState" where
  "NewTimerState now limit bonus =
     \<lparr>tmStartedAt = now, tmTimeLimit = limit, tmBonusTime = bonus, tmBonusUsed = False,
      tmIsPaused = False, tmPausedAt = None, tmRemainingAtPause = 0\<rparr>"

datatype RoomType = RoomTypePrivate | RoomTypeCasual | RoomTypeMatch | RoomTypeOther string

datatype MatchStatus =
    MatchStatusPending | MatchStatusReady | MatchStatusActive | MatchStatusFinished
  | MatchStatusCanceled | MatchStatusOther string

record StrategistReadiness =
  redReady :: bool
  blueReady :: bool

record Match =
  matchID :: ObjectID
  matchRoomID :: ObjectID
  matchCode :: string
  matchName :: string
  matchRoomType :: RoomType
  matchTeamRed :: TeamSnapshot
  matchTeamBlue :: TeamSnapshot
  matchMappool :: Pool
  matchBoard :: MatchBoard
  matchBPOrder :: BPOrder
  matchTurnState :: TurnState
  matchTimer :: TimerState
  matchStatus :: MatchStatus
  matchStartedAt :: "Time option"
  matchFinishedAt :: "Time option"
  matchCreatedAt :: Time
  matchUpdatedAt :: Time
  matchReadiness :: StrategistReadiness

section \<open>Rooms\<close>

record Room =
  roomID :: ObjectID
  roomCode :: string
  roomName :: string
  roomType :: RoomType
  roomOwnerID :: int
  roomRefereeUserID :: "int option"
  roomRound :: Round
  roomScheduledAt :: "Time option"
  roomStreamerUserID :: "int option"
  roomRedTeamID :: "ObjectID option"
  roomBlueTeamID :: "ObjectID option"
  roomMappoolID :: "ObjectID option"
  roomFirstPick :: "DomainSide option"
  roomFirstBan :: "DomainSide option"
  roomMPLink :: "string option"
  roomStreamLink :: "string option"
  roomMatchID :: "ObjectID option"
  roomSeasonID :: "ObjectID option"
  roomFixtureID :: "ObjectID option"
  roomWeekIndex :: int
  roomCreatedAt :: Time
  roomUpdatedAt :: Time

text \<open>
  The shell a match starts as. \<open>NewMatch\<close> leaves the id and the start and end instants at their
  zero values and puts the empty \<open>BPOrder\<close>, whose sides are the empty string.
\<close>

definition NewMatch :: "Time \<Rightarrow> Room \<Rightarrow> TeamSnapshot \<Rightarrow> TeamSnapshot \<Rightarrow> Pool \<Rightarrow> Match" where
  "NewMatch now room redTeam blueTeam pool =
     \<lparr>matchID = NilObjectID, matchRoomID = roomID room, matchCode = roomCode room,
      matchName = roomName room, matchRoomType = roomType room,
      matchTeamRed = redTeam, matchTeamBlue = blueTeam, matchMappool = pool,
      matchBoard = NewMatchBoard,
      matchBPOrder = \<lparr>bpFirstPick = TeamSideOther '''', bpFirstBan = TeamSideOther ''''\<rparr>,
      matchTurnState = NewTurnState, matchTimer = NewTimerState now 0 0,
      matchStatus = MatchStatusPending, matchStartedAt = None, matchFinishedAt = None,
      matchCreatedAt = now, matchUpdatedAt = now,
      matchReadiness = \<lparr>redReady = False, blueReady = False\<rparr>\<rparr>"

definition IsStarted :: "Match \<Rightarrow> bool" where
  "IsStarted m \<longleftrightarrow> matchStatus m = MatchStatusActive \<or> matchStatus m = MatchStatusFinished"

definition IsFinished :: "Match \<Rightarrow> bool" where
  "IsFinished m \<longleftrightarrow> matchStatus m = MatchStatusFinished \<or> matchStatus m = MatchStatusCanceled"

end
