(* ===== verification/MatchCommand.thy ===== *)
theory MatchCommand
  imports EngineSteps DomainModel
begin

text \<open>
  The command orchestrator of \<open>internal/matchcommand\<close>: the request envelope, the authorization of
  a caller against the persisted user, match, room and teams, the derivation of the engine actor,
  and \<open>Execute\<close>, which hands the authorization and the engine to a transaction store.

  The readers and the store are interfaces in the code; here they are functions of the database
  state \<open>'w\<close> the orchestrator is given. UUID parsing, JSON, hexadecimal and SHA-256 are the
  functions of an \<open>Encoders\<close> record. Log output and error messages are left out; an error is its
  code and, for a version conflict, the current version. The last section proves what
  authorization guarantees about the actor the engine sees.
\<close>

section \<open>Errors\<close>

text \<open>
  The codes are strings, because the orchestrator converts an engine code with
  \<open>ErrorCode(ruleErr.Code)\<close>. \<open>RawError\<close> stands for an error that is not a \<open>*matchcommand.Error\<close>, with what
  \<open>mongo.IsDuplicateKeyError\<close> says of it.
\<close>

datatype CommandError =
    CommandError (codeOf: string) (currentVersionOf: "64 word option")
  | RawError (isDuplicateKey: bool)

definition NewError :: "string \<Rightarrow> CommandError" where
  "NewError code = CommandError code None"

abbreviation INVALID_REQUEST :: string where "INVALID_REQUEST \<equiv> ''INVALID_REQUEST''"
abbreviation AUTH_REQUIRED :: string where "AUTH_REQUIRED \<equiv> ''AUTH_REQUIRED''"
abbreviation USER_NOT_VERIFIED :: string where "USER_NOT_VERIFIED \<equiv> ''USER_NOT_VERIFIED''"
abbreviation USER_BANNED :: string where "USER_BANNED \<equiv> ''USER_BANNED''"
abbreviation GLOBAL_ROLE_REQUIRED :: string where
  "GLOBAL_ROLE_REQUIRED \<equiv> ''GLOBAL_ROLE_REQUIRED''"
abbreviation ROOM_ROLE_REQUIRED :: string where "ROOM_ROLE_REQUIRED \<equiv> ''ROOM_ROLE_REQUIRED''"
abbreviation ACTION_NOT_ALLOWED :: string where "ACTION_NOT_ALLOWED \<equiv> ''ACTION_NOT_ALLOWED''"
abbreviation RESOURCE_NOT_FOUND :: string where "RESOURCE_NOT_FOUND \<equiv> ''RESOURCE_NOT_FOUND''"
abbreviation MATCH_VERSION_CONFLICT :: string where
  "MATCH_VERSION_CONFLICT \<equiv> ''MATCH_VERSION_CONFLICT''"
abbreviation DUPLICATE_COMMAND_MISMATCH :: string where
  "DUPLICATE_COMMAND_MISMATCH \<equiv> ''DUPLICATE_COMMAND_MISMATCH''"
abbreviation INTERNAL_ERROR :: string where "INTERNAL_ERROR \<equiv> ''INTERNAL_ERROR''"

definition VersionConflict :: "64 word \<Rightarrow> 64 word \<Rightarrow> CommandError" where
  "VersionConflict expected current = CommandError MATCH_VERSION_CONFLICT (Some current)"

text \<open>The string value of an engine code.\<close>

fun ruleCode :: "ErrorCode \<Rightarrow> string" where
  "ruleCode CodeInvalidRequest = ''INVALID_REQUEST''"
| "ruleCode CodeActionNotAllowed = ''ACTION_NOT_ALLOWED''"
| "ruleCode CodeMatchLifecycleConflict = ''MATCH_LIFECYCLE_CONFLICT''"
| "ruleCode CodeMatchPhaseConflict = ''MATCH_PHASE_CONFLICT''"
| "ruleCode CodeNotActiveTeam = ''NOT_ACTIVE_TEAM''"
| "ruleCode CodeInvalidPoolSlot = ''INVALID_POOL_SLOT''"
| "ruleCode CodePoolSlotUnavailable = ''POOL_SLOT_UNAVAILABLE''"
| "ruleCode CodeInvalidBoardCell = ''INVALID_BOARD_CELL''"
| "ruleCode CodeInvalidModZone = ''INVALID_MOD_ZONE''"
| "ruleCode CodeResultNotPending = ''RESULT_NOT_PENDING''"
| "ruleCode CodeTimerExpired = ''TIMER_EXPIRED''"
| "ruleCode CodeTimerPaused = ''TIMER_PAUSED''"
| "ruleCode CodeTeamPauseAlreadyUsed = ''TEAM_PAUSE_ALREADY_USED''"
| "ruleCode CodeRobberyNotAvailable = ''ROBBERY_NOT_AVAILABLE''"
| "ruleCode CodeRobberyRequirementsNotMet = ''ROBBERY_REQUIREMENTS_NOT_MET''"
| "ruleCode CodeAlignmentOverlap = ''ALIGNMENT_OVERLAP''"
| "ruleCode CodeTBNotAvailable = ''TB_NOT_AVAILABLE''"
| "ruleCode CodeSurrenderEvidenceInvalid = ''SURRENDER_EVIDENCE_INVALID''"

section \<open>Requests, actors and results\<close>

datatype Disposition = DispositionApplied | DispositionReplayed

record Request =
  reqMatchID :: ObjectID
  reqExpectedVersion :: "64 word"
  reqCommandID :: string
  reqCallerOsuID :: int
  reqCommand :: Command
  reqSystem :: bool

record AuthorizedActor =
  authUserID :: ObjectID
  authOsuID :: int
  authGlobalRoles :: "string list"
  authEngineActor :: Actor
  authAdminOverride :: bool
  authRefereeOverride :: bool
  authReason :: string

record Envelope =
  envMatchID :: ObjectID
  envExpectedVersion :: "64 word"
  envCommandID :: string
  envCommandType :: string
  envRequestHash :: string
  envPayloadJSON :: string
  envOccurredAt :: Time

record EventActor =
  eaOsuID :: int
  eaCapability :: Capability
  eaTeam :: "TeamSide option"
  eaAdminOverride :: bool
  eaRefereeOverride :: bool

record CommittedEvent =
  ceEventID :: string
  ceSequence :: "64 word"
  ceResultingVersion :: "64 word"
  ceType :: EventType
  ceOccurredAt :: Time
  ceActor :: EventActor
  cePayload :: Event

record CommandResult =
  crCommandID :: string
  crDisposition :: Disposition
  crPreviousVersion :: "64 word"
  crResultingVersion :: "64 word"
  crState :: State
  crEvents :: "CommittedEvent list"

text \<open>
  The interfaces the orchestrator is wired with. A lookup fails with \<open>errs.ErrNotFound\<close> or with
  any other error. The store runs the authorization on the database state of its transaction.
\<close>

datatype LookupError = LookupNotFound | LookupFailed

type_synonym 'w AuthorizeFunc = "'w \<Rightarrow> CommandError + AuthorizedActor"
type_synonym ExecuteFunc = "State \<Rightarrow> AuthorizedActor \<Rightarrow> CommandError + Transition"
type_synonym 'w TransactionStore =
  "'w \<Rightarrow> Envelope \<Rightarrow> 'w AuthorizeFunc \<Rightarrow> ExecuteFunc \<Rightarrow> 'w \<times> (CommandError + CommandResult)"

record 'w Orchestrator =
  orchStore :: "'w TransactionStore option"
  orchUsers :: "('w \<Rightarrow> int \<Rightarrow> LookupError + User) option"
  orchMatches :: "('w \<Rightarrow> ObjectID \<Rightarrow> LookupError + Match) option"
  orchRooms :: "('w \<Rightarrow> ObjectID \<Rightarrow> LookupError + Room) option"
  orchTeams :: "('w \<Rightarrow> ObjectID \<Rightarrow> LookupError + Team) option"

text \<open>The library encoders \<open>Execute\<close> uses.\<close>

record Encoders =
  encParseUUID :: "string \<Rightarrow> (128 word) option"
  encCommand :: "Command \<Rightarrow> string option"
  encHex :: "ObjectID \<Rightarrow> string"
  encCanonical :: "string \<times> 64 word \<times> string \<times> int \<times> string \<times> string \<Rightarrow> string option"
  encSha256 :: "string \<Rightarrow> string"

section \<open>Classification of commands\<close>

fun isStrategistCommand :: "Command \<Rightarrow> bool" where
  "isStrategistCommand (BanPoolSlot _) = True"
| "isStrategistCommand (PlacePiece _ _ _) = True"
| "isStrategistCommand (PlaceShiro _ _) = True"
| "isStrategistCommand (RobPiece _ _) = True"
| "isStrategistCommand _ = False"

fun isCaptainCommand :: "Command \<Rightarrow> bool" where
  "isCaptainCommand (RequestTB _ _) = True"
| "isCaptainCommand (RespondTBRequest _ _) = True"
| "isCaptainCommand _ = False"

fun isRefereeProxyCommand :: "Command \<Rightarrow> bool" where
  "isRefereeProxyCommand (RefereeBanPoolSlot _ _ _) = True"
| "isRefereeProxyCommand (RefereePlacePiece _ _ _ _ _) = True"
| "isRefereeProxyCommand (RefereePlaceShiro _ _ _ _) = True"
| "isRefereeProxyCommand (RefereeRobPiece _ _ _ _) = True"
| "isRefereeProxyCommand (RefereeRequestTB _ _ _ _) = True"
| "isRefereeProxyCommand (RefereeRespondTBRequest _ _ _ _) = True"
| "isRefereeProxyCommand _ = False"

fun isRefereeCommand :: "Command \<Rightarrow> bool" where
  "isRefereeCommand StartMatch = True"
| "isRefereeCommand (GrantAdditionalTime _) = True"
| "isRefereeCommand (CalibrateTimer _ _) = True"
| "isRefereeCommand (PauseTimer _) = True"
| "isRefereeCommand (ResumeTimer _) = True"
| "isRefereeCommand (SuspendMatch _) = True"
| "isRefereeCommand (ResumeMatch _) = True"
| "isRefereeCommand (SkipCurrentAction _) = True"
| "isRefereeCommand (AbortMatch _) = True"
| "isRefereeCommand (StartTB _) = True"
| "isRefereeCommand (ConfirmTBResult _) = True"
| "isRefereeCommand (RecordSurrender _ _ _) = True"
| "isRefereeCommand (ConfirmBeatmapResult _ _) = True"
| "isRefereeCommand _ = False"

fun commandReason :: "Command \<Rightarrow> string" where
  "commandReason (RefereeBanPoolSlot _ _ reason) = reason"
| "commandReason (RefereePlacePiece _ _ _ _ reason) = reason"
| "commandReason (RefereePlaceShiro _ _ _ reason) = reason"
| "commandReason (RefereeRobPiece _ _ _ reason) = reason"
| "commandReason (GrantAdditionalTime reason) = reason"
| "commandReason (CalibrateTimer _ reason) = reason"
| "commandReason (PauseTimer reason) = reason"
| "commandReason (ResumeTimer reason) = reason"
| "commandReason (SuspendMatch reason) = reason"
| "commandReason (ResumeMatch reason) = reason"
| "commandReason (SkipCurrentAction reason) = reason"
| "commandReason (AbortMatch reason) = reason"
| "commandReason (RefereeRequestTB _ _ _ reason) = reason"
| "commandReason (RefereeRespondTBRequest _ _ _ reason) = reason"
| "commandReason (StartTB reason) = reason"
| "commandReason (RecordSurrender _ _ reason) = reason"
| "commandReason _ = ''''"

fun commandType :: "Command \<Rightarrow> string option" where
  "commandType StartMatch = Some ''START_MATCH''"
| "commandType (BanPoolSlot _) = Some ''BAN_POOL_SLOT''"
| "commandType (RefereeBanPoolSlot _ _ _) = Some ''REFEREE_BAN_POOL_SLOT''"
| "commandType (PlacePiece _ _ _) = Some ''PLACE_PIECE''"
| "commandType (RefereePlacePiece _ _ _ _ _) = Some ''REFEREE_PLACE_PIECE''"
| "commandType (PlaceShiro _ _) = Some ''PLACE_SHIRO''"
| "commandType (RefereePlaceShiro _ _ _ _) = Some ''REFEREE_PLACE_SHIRO''"
| "commandType (RobPiece _ _) = Some ''ROB_PIECE''"
| "commandType (RefereeRobPiece _ _ _ _) = Some ''REFEREE_ROB_PIECE''"
| "commandType (GrantAdditionalTime _) = Some ''GRANT_ADDITIONAL_TIME''"
| "commandType (CalibrateTimer _ _) = Some ''CALIBRATE_TIMER''"
| "commandType (PauseTimer _) = Some ''PAUSE_TIMER''"
| "commandType (ResumeTimer _) = Some ''RESUME_TIMER''"
| "commandType (SuspendMatch _) = Some ''SUSPEND_MATCH''"
| "commandType (ResumeMatch _) = Some ''RESUME_MATCH''"
| "commandType (SkipCurrentAction _) = Some ''SKIP_CURRENT_ACTION''"
| "commandType (AbortMatch _) = Some ''ABORT_MATCH''"
| "commandType (RequestTB _ _) = Some ''REQUEST_TB''"
| "commandType (RefereeRequestTB _ _ _ _) = Some ''REFEREE_REQUEST_TB''"
| "commandType (RespondTBRequest _ _) = Some ''RESPOND_TB_REQUEST''"
| "commandType (RefereeRespondTBRequest _ _ _ _) = Some ''REFEREE_RESPOND_TB_REQUEST''"
| "commandType (StartTB _) = Some ''START_TB''"
| "commandType (ConfirmTBResult _) = Some ''CONFIRM_TB_RESULT''"
| "commandType (RecordSurrender _ _ _) = Some ''RECORD_SURRENDER''"
| "commandType (ConfirmBeatmapResult _ _) = Some ''CONFIRM_BEATMAP_RESULT''"
| "commandType NilCommand = None"

section \<open>Authorization\<close>

definition engineTeamSide :: "DomainSide \<Rightarrow> TeamSide" where
  "engineTeamSide side = (if side = TeamSideBlue then TeamBlue else TeamRed)"

definition assignedStrategistSide :: "Team option \<Rightarrow> Team option \<Rightarrow> int \<Rightarrow> TeamSide option" where
  "assignedStrategistSide redTeam blueTeam osuID =
     (case StrategistSide redTeam blueTeam osuID of
        None \<Rightarrow> None
      | Some side \<Rightarrow> Some (engineTeamSide side))"

definition assignedCaptainSide :: "Team option \<Rightarrow> Team option \<Rightarrow> int \<Rightarrow> TeamSide option" where
  "assignedCaptainSide redTeam blueTeam osuID =
     (case CaptainSide redTeam blueTeam osuID of
        None \<Rightarrow> None
      | Some side \<Rightarrow> Some (engineTeamSide side))"

text \<open>The engine actor, the administrator override and the referee override.\<close>

definition actorForCommand ::
  "User \<Rightarrow> Room \<Rightarrow> Team option \<Rightarrow> Team option \<Rightarrow> Command \<Rightarrow> CommandError + Actor \<times> bool \<times> bool" where
  "actorForCommand user room redTeam blueTeam command =
     (if isRefereeCommand command \<or> isRefereeProxyCommand command then
        (let isAdmin = HasRole user RoleAdmin;
             hasRefereeRole = HasRole user RoleReferee;
             isAssignedReferee =
               hasRefereeRole \<and> roomRefereeUserID room = Some (userOnlineID user)
         in if \<not> isAdmin \<and> \<not> isAssignedReferee then
              (if \<not> hasRefereeRole then Inl (NewError GLOBAL_ROLE_REQUIRED)
               else Inl (NewError ROOM_ROLE_REQUIRED))
            else Inr (RefereeActor, isAdmin \<and> \<not> isAssignedReferee,
                      isRefereeProxyCommand command))
      else if isStrategistCommand command then
        (if \<not> HasRole user RoleStrategist then Inl (NewError GLOBAL_ROLE_REQUIRED)
         else case assignedStrategistSide redTeam blueTeam (userOnlineID user) of
             None \<Rightarrow> Inl (NewError ROOM_ROLE_REQUIRED)
           | Some side \<Rightarrow> Inr (StrategistActor side, False, False))
      else if isCaptainCommand command then
        (case assignedCaptainSide redTeam blueTeam (userOnlineID user) of
           None \<Rightarrow> Inl (NewError ROOM_ROLE_REQUIRED)
         | Some side \<Rightarrow> Inr (CaptainActor side, False, False))
      else Inl (NewError INVALID_REQUEST))"

text \<open>One optional team reference of the room settings.\<close>

definition loadTeam ::
  "('w \<Rightarrow> ObjectID \<Rightarrow> LookupError + Team) \<Rightarrow> 'w \<Rightarrow> ObjectID option \<Rightarrow> LookupError + Team option" where
  "loadTeam byID w ref =
     (case ref of
        None \<Rightarrow> Inr None
      | Some i \<Rightarrow> (case byID w i of Inl e \<Rightarrow> Inl e | Inr team \<Rightarrow> Inr (Some team)))"

definition roomTeams ::
  "'w Orchestrator \<Rightarrow> 'w \<Rightarrow> Room \<Rightarrow> LookupError + Team option \<times> Team option" where
  "roomTeams orch w room =
     (case orchTeams orch of
        None \<Rightarrow> Inr (None, None)
      | Some byID \<Rightarrow>
          (case loadTeam byID w (roomRedTeamID room) of
             Inl e \<Rightarrow> Inl e
           | Inr red \<Rightarrow>
               (case loadTeam byID w (roomBlueTeamID room) of
                  Inl e \<Rightarrow> Inl e
                | Inr blue \<Rightarrow> Inr (red, blue))))"

text \<open>
  The match shell and its room, loaded in this order by both authorization paths. The readers
  are those \<open>Execute\<close> has checked for nil.
\<close>

definition loadMatchAndRoom ::
  "('w \<Rightarrow> ObjectID \<Rightarrow> LookupError + Match) \<Rightarrow> ('w \<Rightarrow> ObjectID \<Rightarrow> LookupError + Room)
   \<Rightarrow> 'w \<Rightarrow> Request \<Rightarrow> CommandError + Match \<times> Room" where
  "loadMatchAndRoom matches rooms w request =
     (case matches w (reqMatchID request) of
        Inl LookupNotFound \<Rightarrow> Inl (NewError RESOURCE_NOT_FOUND)
      | Inl LookupFailed \<Rightarrow> Inl (NewError INTERNAL_ERROR)
      | Inr shell \<Rightarrow>
          (case rooms w (matchRoomID shell) of
             Inl LookupNotFound \<Rightarrow> Inl (NewError RESOURCE_NOT_FOUND)
           | Inl LookupFailed \<Rightarrow> Inl (NewError INTERNAL_ERROR)
           | Inr room \<Rightarrow> Inr (shell, room)))"

definition authorizeUser ::
  "'w Orchestrator \<Rightarrow> ('w \<Rightarrow> ObjectID \<Rightarrow> LookupError + Match)
   \<Rightarrow> ('w \<Rightarrow> ObjectID \<Rightarrow> LookupError + Room) \<Rightarrow> 'w \<Rightarrow> User \<Rightarrow> Request
   \<Rightarrow> CommandError + AuthorizedActor" where
  "authorizeUser orch matches rooms w user request =
     (case loadMatchAndRoom matches rooms w request of
        Inl e \<Rightarrow> Inl e
      | Inr (shell, room) \<Rightarrow>
          if matchRoomType shell \<noteq> RoomTypeMatch \<or> roomType room \<noteq> RoomTypeMatch
             \<or> roomID room \<noteq> matchRoomID shell \<or> roomMatchID room \<noteq> Some (reqMatchID request)
          then Inl (NewError RESOURCE_NOT_FOUND)
          else (case roomTeams orch w room of
                  Inl _ \<Rightarrow> Inl (NewError INTERNAL_ERROR)
                | Inr (redTeam, blueTeam) \<Rightarrow>
                    if reqCommand request = StartMatch \<and> matchStatus shell \<noteq> MatchStatusReady
                    then Inl (NewError ACTION_NOT_ALLOWED)
                    else (case actorForCommand user room redTeam blueTeam (reqCommand request) of
                            Inl e \<Rightarrow> Inl e
                          | Inr (actor, adminOverride, refereeOverride) \<Rightarrow>
                              Inr \<lparr>authUserID = userID user, authOsuID = userOnlineID user,
                                   authGlobalRoles = map roleString (userRoles user),
                                   authEngineActor = actor, authAdminOverride = adminOverride,
                                   authRefereeOverride = refereeOverride,
                                   authReason = commandReason (reqCommand request)\<rparr>)))"

definition authorizeSystem ::
  "('w \<Rightarrow> ObjectID \<Rightarrow> LookupError + Match) \<Rightarrow> ('w \<Rightarrow> ObjectID \<Rightarrow> LookupError + Room)
   \<Rightarrow> 'w \<Rightarrow> Request \<Rightarrow> CommandError + AuthorizedActor" where
  "authorizeSystem matches rooms w request =
     (case loadMatchAndRoom matches rooms w request of
        Inl e \<Rightarrow> Inl e
      | Inr (shell, room) \<Rightarrow>
          if roomID room \<noteq> matchRoomID shell \<or> roomMatchID room \<noteq> Some (reqMatchID request)
          then Inl (NewError RESOURCE_NOT_FOUND)
          else Inr \<lparr>authUserID = NilObjectID, authOsuID = 0, authGlobalRoles = [],
                    authEngineActor = SystemRefereeActor, authAdminOverride = True,
                    authRefereeOverride = False,
                    authReason = commandReason (reqCommand request)\<rparr>)"

definition authorize ::
  "'w Orchestrator \<Rightarrow> ('w \<Rightarrow> int \<Rightarrow> LookupError + User)
   \<Rightarrow> ('w \<Rightarrow> ObjectID \<Rightarrow> LookupError + Match) \<Rightarrow> ('w \<Rightarrow> ObjectID \<Rightarrow> LookupError + Room)
   \<Rightarrow> Request \<Rightarrow> 'w AuthorizeFunc" where
  "authorize orch users matches rooms request w =
     (if reqSystem request then authorizeSystem matches rooms w request
      else case users w (reqCallerOsuID request) of
        Inl LookupNotFound \<Rightarrow> Inl (NewError AUTH_REQUIRED)
      | Inl LookupFailed \<Rightarrow> Inl (NewError INTERNAL_ERROR)
      | Inr user \<Rightarrow>
          if userIsBanned user then Inl (NewError USER_BANNED)
          else if userVerifyStatus user \<noteq> Verified then Inl (NewError USER_NOT_VERIFIED)
          else authorizeUser orch matches rooms w user request)"

section \<open>Execute\<close>

definition canonicalRequestHash :: "Encoders \<Rightarrow> Request \<Rightarrow> string \<Rightarrow> string \<Rightarrow> string option" where
  "canonicalRequestHash enc request ctype payload =
     map_option (encSha256 enc)
       (encCanonical enc (encHex enc (reqMatchID request), reqExpectedVersion request,
          reqCommandID request, reqCallerOsuID request, ctype, payload))"

text \<open>The engine as the store calls it: a rule error becomes a command error of the same code.\<close>

definition engineExecute :: "Command \<Rightarrow> Time \<Rightarrow> ExecuteFunc" where
  "engineExecute command now state actor =
     (case Execute state (authEngineActor actor) command now of
        Inl code \<Rightarrow> Inl (NewError (ruleCode code))
      | Inr transition \<Rightarrow> Inr transition)"

text \<open>
  \<open>(*Orchestrator).Execute\<close>. A nil receiver is \<open>None\<close>; \<open>now\<close> is the reading of the clock. A request
  rejected before the store is called leaves the database as it is.
\<close>

definition orchestratorExecute ::
  "Encoders \<Rightarrow> 'w Orchestrator option \<Rightarrow> Time \<Rightarrow> 'w \<Rightarrow> Request
   \<Rightarrow> 'w \<times> (CommandError + CommandResult)" where
  "orchestratorExecute enc receiver now w request =
     (case receiver of
        None \<Rightarrow> (w, Inl (NewError INTERNAL_ERROR))
      | Some orch \<Rightarrow>
     (case (orchStore orch, orchUsers orch, orchMatches orch, orchRooms orch) of
        (Some store, Some users, Some matches, Some rooms) \<Rightarrow>
          if reqMatchID request = NilObjectID \<or> reqCommand request = NilCommand
          then (w, Inl (NewError INVALID_REQUEST))
          else if \<not> reqSystem request \<and> reqCallerOsuID request \<le> 0
          then (w, Inl (NewError INVALID_REQUEST))
          else (case encParseUUID enc (reqCommandID request) of
                  None \<Rightarrow> (w, Inl (NewError INVALID_REQUEST))
                | Some uuid \<Rightarrow>
          if uuid = 0 then (w, Inl (NewError INVALID_REQUEST))
          else (case commandType (reqCommand request) of
                  None \<Rightarrow> (w, Inl (NewError INVALID_REQUEST))
                | Some ctype \<Rightarrow>
               (case encCommand enc (reqCommand request) of
                  None \<Rightarrow> (w, Inl (NewError INVALID_REQUEST))
                | Some payload \<Rightarrow>
               (case canonicalRequestHash enc request ctype payload of
                  None \<Rightarrow> (w, Inl (NewError INVALID_REQUEST))
                | Some hash \<Rightarrow>
                    if isZeroTime now then (w, Inl (NewError INTERNAL_ERROR))
                    else store w
                      \<lparr>envMatchID = reqMatchID request,
                       envExpectedVersion = reqExpectedVersion request,
                       envCommandID = reqCommandID request, envCommandType = ctype,
                       envRequestHash = hash, envPayloadJSON = payload, envOccurredAt = now\<rparr>
                      (authorize orch users matches rooms request)
                      (engineExecute (reqCommand request) now)))))
      | _ \<Rightarrow> (w, Inl (NewError INTERNAL_ERROR))))"

text \<open>
  \<open>(*Driver).StartMatchSystem\<close>: \<open>newID\<close> is the fresh UUID, \<open>now\<close> the orchestrator's clock. The
  instant the caller passes is not used by the code and has no counterpart here.
\<close>

definition StartMatchSystem ::
  "Encoders \<Rightarrow> 'w Orchestrator option \<Rightarrow> Time \<Rightarrow> string \<Rightarrow> 'w \<Rightarrow> ObjectID \<Rightarrow> 64 word
   \<Rightarrow> 'w \<times> CommandError option" where
  "StartMatchSystem enc driver now newID w mid expectedVersion =
     (case driver of
        None \<Rightarrow> (w, None)
      | Some orch \<Rightarrow>
          (case orchestratorExecute enc (Some orch) now w
                  \<lparr>reqMatchID = mid, reqExpectedVersion = expectedVersion, reqCommandID = newID,
                   reqCallerOsuID = 0, reqCommand = StartMatch, reqSystem = True\<rparr> of
             (w', Inl e) \<Rightarrow> (w', Some e)
           | (w', Inr result) \<Rightarrow> (w', None)))"

section \<open>What the engine demands of an actor\<close>

definition requiredCapability :: "Command \<Rightarrow> Capability" where
  "requiredCapability c =
     (if isStrategistCommand c then CapabilityStrategist
      else if isCaptainCommand c then CapabilityCaptain
      else CapabilityReferee)"

text \<open>The actor fits the command in the given state.\<close>

definition entitled :: "State \<Rightarrow> Actor \<Rightarrow> Command \<Rightarrow> bool" where
  "entitled s actor c \<longleftrightarrow>
     (if c = StartMatch then actorCapability actor = CapabilityReferee \<or> actorAdminOverride actor
      else actorCapability actor = requiredCapability c) \<and>
     (isStrategistCommand c \<longrightarrow> actorTeam actor = Some (ActiveTeam s)) \<and>
     (isCaptainCommand c \<longrightarrow> (\<exists>team. actorTeam actor = Some team \<and> teamValid team))"

lemma appendRefereeProxyEvent_passes:
  "appendRefereeProxyEvent r team reason = Inr x \<Longrightarrow> \<exists>y. r = Inr y"
  by (cases r) (simp_all add: appendRefereeProxyEvent_def)

lemma refereeProxyContext_referee:
  "refereeProxyContext s actor team reason now = Inr x \<Longrightarrow>
     actorCapability actor = CapabilityReferee"
  by (simp add: refereeProxyContext_def split: if_splits)

lemma refereeProxyCaptainContext_referee:
  "refereeProxyCaptainContext actor team reason = Inr x \<Longrightarrow>
     actorCapability actor = CapabilityReferee"
  by (simp add: refereeProxyCaptainContext_def split: if_splits)

lemma strategist_accepts:
  assumes "dispatch s actor c now = Inr r" and "isStrategistCommand c"
  shows "entitled s actor c"
  using assms
  by (cases c)
     (auto simp: dispatch_def banPoolSlot_def placePiece_def placeShiro_def robPiece_def
        entitled_def requiredCapability_def guardE_Inr requireActiveStrategist_None)

lemma captain_accepts:
  assumes "dispatch s actor c now = Inr r" and "isCaptainCommand c"
  shows "entitled s actor c"
  using assms
  by (cases c)
     (auto simp: dispatch_def requestTB_def respondTBRequest_def captainTeam_Some
        entitled_def requiredCapability_def guardE_Inr split: option.splits)

lemma proxy_accepts:
  assumes "dispatch s actor c now = Inr r" and "isRefereeProxyCommand c"
  shows "entitled s actor c"
  using assms
  by (cases c)
     (auto simp: dispatch_def refereeBanPoolSlot_def refereePlacePiece_def refereePlaceShiro_def
        refereeRobPiece_def refereeRequestTB_def refereeRespondTBRequest_def
        entitled_def requiredCapability_def
        dest: refereeProxyContext_referee refereeProxyCaptainContext_referee split: sum.splits)

lemma referee_accepts:
  assumes "dispatch s actor c now = Inr r" and "isRefereeCommand c"
  shows "entitled s actor c"
  using assms
  by (cases c)
     (simp_all add: dispatch_def startMatch_def grantAdditionalTime_def calibrateTimer_def
        pauseTimer_def resumeTimer_def suspendMatch_def resumeMatch_def skipCurrentAction_def
        abortMatch_def startTB_def confirmTBResult_def recordSurrender_def
        confirmBeatmapResult_def entitled_def requiredCapability_def guardE_Inr Let_def
        split: if_splits option.splits)

lemma command_classes:
  "c \<noteq> NilCommand \<Longrightarrow>
     isStrategistCommand c \<or> isCaptainCommand c \<or> isRefereeProxyCommand c \<or> isRefereeCommand c"
  by (cases c) simp_all

lemma class_disjoint:
  "isStrategistCommand c \<Longrightarrow> \<not> isCaptainCommand c \<and> \<not> isRefereeProxyCommand c \<and> \<not> isRefereeCommand c"
  "isCaptainCommand c \<Longrightarrow> \<not> isRefereeProxyCommand c \<and> \<not> isRefereeCommand c"
  "isRefereeProxyCommand c \<Longrightarrow> \<not> isRefereeCommand c"
  by (cases c; simp)+

lemma dispatch_entitled:
  assumes "dispatch s actor c now = Inr r"
  shows "entitled s actor c"
proof -
  have "c \<noteq> NilCommand" using assms by (auto simp: dispatch_def)
  then show ?thesis
    using command_classes [of c] strategist_accepts [OF assms] captain_accepts [OF assms]
      proxy_accepts [OF assms] referee_accepts [OF assms] by blast
qed

lemma Execute_dispatch:
  "Execute s actor c now = Inr tr \<Longrightarrow> \<exists>r. dispatch (stateClone s) actor c now = Inr r"
  by (cases "dispatch (stateClone s) actor c now") (simp_all add: Execute_def)

lemma Execute_entitled:
  assumes "Execute s actor c now = Inr tr"
  shows "entitled s actor c"
  using Execute_dispatch [OF assms] dispatch_entitled [of "stateClone s" actor c now]
  by (auto simp: entitled_def stateClone_def)

section \<open>What authorization grants\<close>

text \<open>The team a user acts for: the only one of the room's two teams it holds the office of.\<close>

definition soleSide :: "(Team \<Rightarrow> int option) \<Rightarrow> Team option \<Rightarrow> Team option \<Rightarrow> int \<Rightarrow> TeamSide \<Rightarrow> bool" where
  "soleSide office redTeam blueTeam uid side \<longleftrightarrow>
     (let red = (\<exists>t. redTeam = Some t \<and> office t = Some uid);
          blue = (\<exists>t. blueTeam = Some t \<and> office t = Some uid)
      in side = TeamRed \<and> red \<and> \<not> blue \<or> side = TeamBlue \<and> blue \<and> \<not> red)"

lemma assignedStrategistSide_iff:
  "assignedStrategistSide redTeam blueTeam uid = Some side \<longleftrightarrow>
     soleSide teamStrategistID redTeam blueTeam uid side"
  by (auto simp: assignedStrategistSide_def StrategistSide_def sideByAssignment_def soleSide_def
        engineTeamSide_def Let_def split: option.splits)

lemma assignedCaptainSide_iff:
  "assignedCaptainSide redTeam blueTeam uid = Some side \<longleftrightarrow>
     soleSide teamLeaderID redTeam blueTeam uid side"
  by (auto simp: assignedCaptainSide_def CaptainSide_def sideByAssignment_def soleSide_def
        engineTeamSide_def Let_def split: option.splits)

text \<open>The office a command asks of a user.\<close>

definition assignedReferee :: "User \<Rightarrow> Room \<Rightarrow> bool" where
  "assignedReferee user room \<longleftrightarrow>
     RoleReferee \<in> set (userRoles user) \<and> roomRefereeUserID room = Some (userOnlineID user)"

definition mayAct ::
  "User \<Rightarrow> Room \<Rightarrow> Team option \<Rightarrow> Team option \<Rightarrow> Command \<Rightarrow> Actor \<Rightarrow> bool" where
  "mayAct user room redTeam blueTeam c actor \<longleftrightarrow>
     (if isRefereeCommand c \<or> isRefereeProxyCommand c then
        actor = RefereeActor \<and> (RoleAdmin \<in> set (userRoles user) \<or> assignedReferee user room)
      else if isStrategistCommand c then
        (\<exists>side. actor = StrategistActor side \<and> RoleStrategist \<in> set (userRoles user) \<and>
           soleSide teamStrategistID redTeam blueTeam (userOnlineID user) side)
      else
        (\<exists>side. actor = CaptainActor side \<and>
           soleSide teamLeaderID redTeam blueTeam (userOnlineID user) side) \<and> isCaptainCommand c)"

lemma actorForCommand_iff:
  "actorForCommand user room redTeam blueTeam c = Inr (actor, admin, referee) \<longleftrightarrow>
     mayAct user room redTeam blueTeam c actor \<and>
     admin = ((isRefereeCommand c \<or> isRefereeProxyCommand c) \<and> RoleAdmin \<in> set (userRoles user) \<and>
              \<not> assignedReferee user room) \<and>
     referee = isRefereeProxyCommand c"
proof (cases "isRefereeCommand c \<or> isRefereeProxyCommand c")
  case True
  then show ?thesis
    by (auto simp: actorForCommand_def mayAct_def HasRole_def assignedReferee_def Let_def)
next
  case ref: False
  show ?thesis
  proof (cases "isStrategistCommand c")
    case True
    have "mayAct user room redTeam blueTeam c actor \<longleftrightarrow>
        (\<exists>side. actor = StrategistActor side \<and> HasRole user RoleStrategist \<and>
           assignedStrategistSide redTeam blueTeam (userOnlineID user) = Some side)"
      using True ref by (simp add: mayAct_def HasRole_def assignedStrategistSide_iff)
    with True ref show ?thesis
      by (cases "assignedStrategistSide redTeam blueTeam (userOnlineID user)")
         (auto simp: actorForCommand_def)
  next
    case False
    have "mayAct user room redTeam blueTeam c actor \<longleftrightarrow>
        (\<exists>side. actor = CaptainActor side \<and>
           assignedCaptainSide redTeam blueTeam (userOnlineID user) = Some side) \<and> isCaptainCommand c"
      using False ref by (simp add: mayAct_def assignedCaptainSide_iff)
    with False ref show ?thesis
      by (cases "assignedCaptainSide redTeam blueTeam (userOnlineID user)")
         (auto simp: actorForCommand_def)
  qed
qed

lemma mayAct_capability:
  "mayAct user room redTeam blueTeam c actor \<Longrightarrow>
     actorCapability actor = requiredCapability c \<and> \<not> actorAdminOverride actor"
proof -
  assume "mayAct user room redTeam blueTeam c actor"
  then consider (referee) "isRefereeCommand c \<or> isRefereeProxyCommand c" "actor = RefereeActor"
    | (strategist) side where "isStrategistCommand c" "actor = StrategistActor side"
    | (captain) side where "isCaptainCommand c" "actor = CaptainActor side"
    unfolding mayAct_def by metis
  then show ?thesis
  proof cases
    case referee
    then have "\<not> isStrategistCommand c" "\<not> isCaptainCommand c" using class_disjoint by blast+
    with referee show ?thesis by (simp add: requiredCapability_def RefereeActor_def)
  next
    case strategist
    then show ?thesis by (simp add: requiredCapability_def StrategistActor_def)
  next
    case captain
    then have "\<not> isStrategistCommand c" using class_disjoint by blast
    with captain show ?thesis by (simp add: requiredCapability_def CaptainActor_def)
  qed
qed

lemma loadMatchAndRoom_Inr:
  "loadMatchAndRoom matches rooms w request = Inr (shell, room) \<longleftrightarrow>
     matches w (reqMatchID request) = Inr shell \<and> rooms w (matchRoomID shell) = Inr room"
  by (auto simp: loadMatchAndRoom_def split: sum.splits LookupError.splits)

text \<open>Everything a successful authorization of a user has checked.\<close>

definition authorizedUser ::
  "('w \<Rightarrow> int \<Rightarrow> LookupError + User) \<Rightarrow> ('w \<Rightarrow> ObjectID \<Rightarrow> LookupError + Match)
   \<Rightarrow> ('w \<Rightarrow> ObjectID \<Rightarrow> LookupError + Room) \<Rightarrow> 'w Orchestrator \<Rightarrow> 'w \<Rightarrow> Request \<Rightarrow> AuthorizedActor \<Rightarrow> bool" where
  "authorizedUser users matches rooms orch w request a \<longleftrightarrow>
     (\<exists>user shell room red blue.
        users w (reqCallerOsuID request) = Inr user \<and> \<not> userIsBanned user \<and>
        userVerifyStatus user = Verified \<and>
        matches w (reqMatchID request) = Inr shell \<and> rooms w (matchRoomID shell) = Inr room \<and>
        matchRoomType shell = RoomTypeMatch \<and> roomType room = RoomTypeMatch \<and>
        roomID room = matchRoomID shell \<and> roomMatchID room = Some (reqMatchID request) \<and>
        roomTeams orch w room = Inr (red, blue) \<and>
        (reqCommand request = StartMatch \<longrightarrow> matchStatus shell = MatchStatusReady) \<and>
        mayAct user room red blue (reqCommand request) (authEngineActor a) \<and>
        authOsuID a = userOnlineID user \<and>
        authRefereeOverride a = isRefereeProxyCommand (reqCommand request) \<and>
        authReason a = commandReason (reqCommand request))"

lemma authorizeUser_Inr:
  assumes "authorizeUser orch matches rooms w user request = Inr a"
  obtains shell room red blue where
    "matches w (reqMatchID request) = Inr shell" "rooms w (matchRoomID shell) = Inr room"
    "matchRoomType shell = RoomTypeMatch" "roomType room = RoomTypeMatch"
    "roomID room = matchRoomID shell" "roomMatchID room = Some (reqMatchID request)"
    "roomTeams orch w room = Inr (red, blue)"
    "reqCommand request = StartMatch \<longrightarrow> matchStatus shell = MatchStatusReady"
    "mayAct user room red blue (reqCommand request) (authEngineActor a)"
    "authOsuID a = userOnlineID user"
    "authRefereeOverride a = isRefereeProxyCommand (reqCommand request)"
    "authReason a = commandReason (reqCommand request)"
  using assms
  by (auto simp: authorizeUser_def loadMatchAndRoom_Inr actorForCommand_iff
        split: sum.splits prod.splits if_splits)

lemma authorize_user:
  assumes "authorize orch users matches rooms request w = Inr a" and "\<not> reqSystem request"
  shows "authorizedUser users matches rooms orch w request a"
proof -
  from assms obtain user where user: "users w (reqCallerOsuID request) = Inr user"
      "\<not> userIsBanned user" "userVerifyStatus user = Verified"
    and run: "authorizeUser orch matches rooms w user request = Inr a"
    by (auto simp: authorize_def split: sum.splits LookupError.splits if_splits)
  from run show ?thesis
    by (rule authorizeUser_Inr) (use user in \<open>auto simp: authorizedUser_def\<close>)
qed

lemma authorize_system:
  assumes "authorize orch users matches rooms request w = Inr a" and "reqSystem request"
  shows "authEngineActor a = SystemRefereeActor \<and> authAdminOverride a \<and> authOsuID a = 0 \<and>
    (\<exists>shell room. matches w (reqMatchID request) = Inr shell \<and> rooms w (matchRoomID shell) = Inr room
       \<and> roomID room = matchRoomID shell \<and> roomMatchID room = Some (reqMatchID request))"
  using assms
  by (auto simp: authorize_def authorizeSystem_def loadMatchAndRoom_Inr
        split: sum.splits prod.splits if_splits)

lemma authorize_capability:
  assumes "authorize orch users matches rooms request w = Inr a" and "\<not> reqSystem request"
  shows "actorCapability (authEngineActor a) = requiredCapability (reqCommand request)"
    and "\<not> actorAdminOverride (authEngineActor a)"
  using authorize_user [OF assms] mayAct_capability by (auto simp: authorizedUser_def)

end
