(* ===== verification/MatchSnapshot.thy ===== *)
theory MatchSnapshot
  imports MatchCommand EngineHistory
begin

text \<open>
  The authoritative snapshot of a match (\<open>internal/persistence/match_snapshot.go\<close> and
  \<open>snapshot_store.go\<close>): the stored document, its encoding and decoding, the hash that freezes the
  configuration, and the compare-and-swap by which a transition replaces the snapshot.

  MongoDB and the encoders are parameters. \<open>Mongo\<close> holds the queries the stores make, as functions
  of a database state \<open>'w\<close>; \<open>Codec\<close> holds JSON, BSON and SHA-256. What the theorems use of them is
  stated by \<open>snapshotLaws\<close> and \<open>codecLaws\<close>. Error texts are left out.
\<close>

section \<open>Encoders\<close>

text \<open>
  \<open>json.Marshal\<close> and \<open>json.Unmarshal\<close> for states and committed events, the conversion of JSON to
  BSON and back, the JSON of the hashed configuration and the hexadecimal digest of it.
\<close>

type_synonym HashedConfiguration =
  "TeamSide \<times> TeamSide \<times> (string \<times> Mod) list \<times> (TeamSide, Roster) gomap \<times> TimerConfiguration"

record Codec =
  marshalState :: "State \<Rightarrow> string option"
  unmarshalState :: "string \<Rightarrow> State option"
  jsonToBSON :: "string \<Rightarrow> string option"
  bsonToJSON :: "string \<Rightarrow> string option"
  bsonValid :: "string \<Rightarrow> bool"
  marshalConfiguration :: "HashedConfiguration \<Rightarrow> string option"
  sha256Hex :: "string \<Rightarrow> string"
  marshalEvent :: "Event \<Rightarrow> string option"
  marshalCommitted :: "CommittedEvent \<Rightarrow> string option"
  marshalCommittedList :: "CommittedEvent list \<Rightarrow> string option"
  unmarshalCommittedList :: "string \<Rightarrow> CommittedEvent list option"
  freshEventID :: "nat \<Rightarrow> string"

section \<open>The snapshot document\<close>

definition MatchSnapshotSchemaVersion :: int where
  "MatchSnapshotSchemaVersion = 3"

datatype SnapshotOrigin = SnapshotOriginNative | SnapshotOriginOther string

record MatchSnapshotDocument =
  docMatchID :: ObjectID
  docSchemaVersion :: int
  docMatchVersion :: "64 word"
  docOrigin :: SnapshotOrigin
  docConfigurationHash :: string
  docState :: string
  docCreatedAt :: Time
  docUpdatedAt :: Time

text \<open>The pool is sorted by slot id, so that Go's map order does not reach the hash.\<close>

definition hashedPool :: "State \<Rightarrow> (string \<times> Mod) list" where
  "hashedPool s =
     map (\<lambda>(sid, slot). (slotID slot, slotMod slot)) (sort_key (\<lambda>(sid, slot). slotID slot) (PoolSlots s))"

definition stateConfigurationHash :: "Codec \<Rightarrow> State \<Rightarrow> string option" where
  "stateConfigurationHash codec s =
     map_option (sha256Hex codec)
       (marshalConfiguration codec (FirstBan s, FirstPick s, hashedPool s, Rosters s, Timers s))"

definition NewMatchSnapshotDocument ::
  "Codec \<Rightarrow> ObjectID \<Rightarrow> State \<Rightarrow> Time \<Rightarrow> MatchSnapshotDocument option" where
  "NewMatchSnapshotDocument codec mid state updatedAt =
     (if mid = NilObjectID then None
      else if isZeroTime updatedAt then None
      else if ValidateState state \<noteq> None then None
      else case marshalState codec state of
        None \<Rightarrow> None
      | Some stateJSON \<Rightarrow>
          (case jsonToBSON codec stateJSON of
             None \<Rightarrow> None
           | Some document \<Rightarrow>
               (case stateConfigurationHash codec state of
                  None \<Rightarrow> None
                | Some hash \<Rightarrow>
                    Some \<lparr>docMatchID = mid, docSchemaVersion = MatchSnapshotSchemaVersion,
                          docMatchVersion = Version state, docOrigin = SnapshotOriginNative,
                          docConfigurationHash = hash, docState = document,
                          docCreatedAt = updatedAt, docUpdatedAt = updatedAt\<rparr>)))"

definition DecodeState :: "Codec \<Rightarrow> MatchSnapshotDocument \<Rightarrow> State option" where
  "DecodeState codec d =
     (if docMatchID d = NilObjectID then None
      else if docSchemaVersion d \<noteq> MatchSnapshotSchemaVersion then None
      else if docOrigin d \<noteq> SnapshotOriginNative then None
      else if docConfigurationHash d = '''' then None
      else if isZeroTime (docCreatedAt d) \<or> isZeroTime (docUpdatedAt d) then None
      else if docUpdatedAt d < docCreatedAt d then None
      else if docState d = '''' then None
      else if \<not> bsonValid codec (docState d) then None
      else case bsonToJSON codec (docState d) of
        None \<Rightarrow> None
      | Some stateJSON \<Rightarrow>
          (case unmarshalState codec stateJSON of
             None \<Rightarrow> None
           | Some state \<Rightarrow>
               if Version state \<noteq> docMatchVersion d then None
               else if ValidateState state \<noteq> None then None
               else (case stateConfigurationHash codec state of
                       None \<Rightarrow> None
                     | Some hash \<Rightarrow>
                         if hash \<noteq> docConfigurationHash d then None else Some state)))"

section \<open>The database\<close>

text \<open>
  Documents of the other collections, from \<open>command_store.go\<close>; the \<open>_id\<close> that the driver
  generates for each of them is left out.
\<close>

record CommandActorDocument =
  cadUserID :: ObjectID
  cadOsuID :: int
  cadGlobalRoles :: "string list"
  cadCapability :: Capability
  cadTeam :: "TeamSide option"
  cadAdminOverride :: bool
  cadRefereeOverride :: bool

record MatchCommandReceiptDocument =
  rcMatchID :: ObjectID
  rcCommandID :: string
  rcRequestHash :: string
  rcCommandType :: string
  rcExpectedVersion :: "64 word"
  rcPreviousVersion :: "64 word"
  rcResultingVersion :: "64 word"
  rcActor :: CommandActorDocument
  rcStateJSON :: string
  rcEventsJSON :: string
  rcCreatedAt :: Time

record MatchActionDocument =
  acMatchID :: ObjectID
  acCommandID :: string
  acCommandType :: string
  acPreviousVersion :: "64 word"
  acResultingVersion :: "64 word"
  acActor :: CommandActorDocument
  acReason :: string
  acCommandPayload :: string
  acEvents :: "string list"
  acCreatedAt :: Time

datatype OutboxStatus = OutboxPending | OutboxPublished | OutboxFailed

record MatchOutboxDocument =
  obEventID :: string
  obMatchID :: ObjectID
  obSequence :: "64 word"
  obResultingVersion :: "64 word"
  obType :: EventType
  obActor :: CommandActorDocument
  obPayload :: string
  obStatus :: OutboxStatus
  obAttempts :: int
  obLastError :: string
  obOccurredAt :: Time
  obCreatedAt :: Time
  obPublishedAt :: "Time option"

text \<open>The filter and the \<open>$set\<close> document of the compare-and-swap.\<close>

record SnapshotFilter =
  sfMatchID :: ObjectID
  sfSchemaVersion :: int
  sfOrigin :: SnapshotOrigin
  sfConfigurationHash :: string
  sfMatchVersion :: "64 word"
  sfUpdatedAtMost :: Time

record SnapshotUpdate =
  suSchemaVersion :: int
  suMatchVersion :: "64 word"
  suState :: string
  suUpdatedAt :: Time

text \<open>
  The driver calls. \<open>Inl\<close> is an error of the driver, \<open>Inr None\<close> is \<open>mongo.ErrNoDocuments\<close>; an insert
  fails with the value of \<open>mongo.IsDuplicateKeyError\<close>; an update counts the matched documents.
\<close>

record 'w Mongo =
  findSnapshot :: "'w \<Rightarrow> ObjectID \<Rightarrow> unit + MatchSnapshotDocument option"
  findLegacyMatch :: "'w \<Rightarrow> ObjectID \<Rightarrow> unit + bool"
  insertSnapshot :: "'w \<Rightarrow> MatchSnapshotDocument \<Rightarrow> 'w \<times> (bool + unit)"
  updateSnapshot :: "'w \<Rightarrow> SnapshotFilter \<Rightarrow> SnapshotUpdate \<Rightarrow> 'w \<times> (unit + nat)"
  findReceipt :: "'w \<Rightarrow> ObjectID \<Rightarrow> string \<Rightarrow> unit + MatchCommandReceiptDocument option"
  findLatestSequence :: "'w \<Rightarrow> ObjectID \<Rightarrow> unit + 64 word option"
  insertAction :: "'w \<Rightarrow> MatchActionDocument \<Rightarrow> 'w \<times> (bool + unit)"
  insertOutbox :: "'w \<Rightarrow> MatchOutboxDocument list \<Rightarrow> 'w \<times> (bool + unit)"
  insertReceipt :: "'w \<Rightarrow> MatchCommandReceiptDocument \<Rightarrow> 'w \<times> (bool + unit)"
  startSession :: "'w \<Rightarrow> bool"
  withTransaction ::
    "'w \<Rightarrow> ('w \<Rightarrow> 'w \<times> (CommandError + CommandResult)) \<Rightarrow> 'w \<times> (CommandError + CommandResult)"

section \<open>The snapshot store\<close>

datatype SnapshotError =
    ErrSnapshotNotFound | ErrInvalidSnapshotIdentifier | ErrSnapshotAlreadyExists
  | SnapshotVersionConflict "64 word" "64 word" | ErrInvalidSnapshotTransition
  | ErrSnapshotCorrupt | ErrSnapshotIncompatible | ErrLegacyMatchRequiresMigration
  | SnapshotDriverError

definition missingSnapshotError :: "'w Mongo \<Rightarrow> 'w \<Rightarrow> ObjectID \<Rightarrow> SnapshotError" where
  "missingSnapshotError db w mid =
     (case findLegacyMatch db w mid of
        Inr True \<Rightarrow> ErrLegacyMatchRequiresMigration
      | Inr False \<Rightarrow> ErrSnapshotNotFound
      | Inl _ \<Rightarrow> SnapshotDriverError)"

definition snapshotCreate ::
  "'w Mongo \<Rightarrow> Codec \<Rightarrow> 'w \<Rightarrow> ObjectID \<Rightarrow> State \<Rightarrow> Time \<Rightarrow> 'w \<times> (SnapshotError + unit)" where
  "snapshotCreate db codec w mid state now =
     (case NewMatchSnapshotDocument codec mid state now of
        None \<Rightarrow> (w, Inl SnapshotDriverError)
      | Some document \<Rightarrow>
          (case insertSnapshot db w document of
             (w', Inl duplicate) \<Rightarrow>
               (w', Inl (if duplicate then ErrSnapshotAlreadyExists else SnapshotDriverError))
           | (w', Inr _) \<Rightarrow> (w', Inr ())))"

definition snapshotHas :: "'w Mongo \<Rightarrow> 'w \<Rightarrow> ObjectID \<Rightarrow> SnapshotError + bool" where
  "snapshotHas db w mid =
     (if mid = NilObjectID then Inl ErrInvalidSnapshotIdentifier
      else case findSnapshot db w mid of
        Inr (Some _) \<Rightarrow> Inr True
      | Inr None \<Rightarrow> Inr False
      | Inl _ \<Rightarrow> Inl SnapshotDriverError)"

definition snapshotLoad :: "'w Mongo \<Rightarrow> Codec \<Rightarrow> 'w \<Rightarrow> ObjectID \<Rightarrow> SnapshotError + State" where
  "snapshotLoad db codec w mid =
     (if mid = NilObjectID then Inl ErrInvalidSnapshotIdentifier
      else case findSnapshot db w mid of
        Inr None \<Rightarrow> Inl (missingSnapshotError db w mid)
      | Inl _ \<Rightarrow> Inl SnapshotDriverError
      | Inr (Some document) \<Rightarrow>
          if docSchemaVersion document \<noteq> MatchSnapshotSchemaVersion
             \<or> docOrigin document \<noteq> SnapshotOriginNative
          then Inl ErrSnapshotIncompatible
          else (case DecodeState codec document of
                  None \<Rightarrow> Inl ErrSnapshotCorrupt
                | Some state \<Rightarrow> Inr state))"

definition CompareAndSwap ::
  "'w Mongo \<Rightarrow> Codec \<Rightarrow> 'w \<Rightarrow> ObjectID \<Rightarrow> 64 word \<Rightarrow> State \<Rightarrow> Time \<Rightarrow> 'w \<times> SnapshotError option" where
  "CompareAndSwap db codec w mid expectedVersion next now =
     (if expectedVersion = - 1 \<or> Version next \<noteq> expectedVersion + 1
      then (w, Some ErrInvalidSnapshotTransition)
      else case NewMatchSnapshotDocument codec mid next now of
        None \<Rightarrow> (w, Some ErrInvalidSnapshotTransition)
      | Some document \<Rightarrow>
          (case updateSnapshot db w
                  \<lparr>sfMatchID = mid, sfSchemaVersion = MatchSnapshotSchemaVersion,
                   sfOrigin = SnapshotOriginNative,
                   sfConfigurationHash = docConfigurationHash document,
                   sfMatchVersion = expectedVersion, sfUpdatedAtMost = docUpdatedAt document\<rparr>
                  \<lparr>suSchemaVersion = docSchemaVersion document,
                   suMatchVersion = docMatchVersion document, suState = docState document,
                   suUpdatedAt = docUpdatedAt document\<rparr> of
             (w', Inl _) \<Rightarrow> (w', Some SnapshotDriverError)
           | (w', Inr matched) \<Rightarrow>
               if matched = 1 then (w', None)
               else (w', Some
                 (case findSnapshot db w' mid of
                    Inr None \<Rightarrow> missingSnapshotError db w' mid
                  | Inl _ \<Rightarrow> SnapshotDriverError
                  | Inr (Some current) \<Rightarrow>
                      if docSchemaVersion current \<noteq> MatchSnapshotSchemaVersion
                         \<or> docOrigin current \<noteq> SnapshotOriginNative
                      then ErrSnapshotIncompatible
                      else if DecodeState codec current = None then ErrSnapshotCorrupt
                      else if docConfigurationHash current \<noteq> docConfigurationHash document
                      then ErrInvalidSnapshotTransition
                      else if docUpdatedAt document < docUpdatedAt current
                      then ErrInvalidSnapshotTransition
                      else SnapshotVersionConflict expectedVersion (docMatchVersion current)))))"

end
