(* ===== verification/CommandStore.thy ===== *)
theory CommandStore
  imports MatchSnapshot
begin

text \<open>
  The transaction store of the command path (\<open>internal/persistence/command_store.go\<close>): the receipt
  that makes a command idempotent, the numbering of the outbox events, and \<open>Apply\<close>, which runs
  authorization and engine inside one transaction and commits snapshot, audit record, outbox
  and receipt together. \<open>storeApply\<close> is a \<open>TransactionStore\<close> in the sense of \<open>MatchCommand\<close>.

  \<open>storeLaws\<close> and \<open>codecLaws\<close> list what the theorems use of MongoDB and of the encoders.
\<close>

section \<open>Receipts\<close>

text \<open>An event stored without an actor gets the actor of the receipt.\<close>

definition receiptActor :: "MatchCommandReceiptDocument \<Rightarrow> EventActor" where
  "receiptActor receipt =
     \<lparr>eaOsuID = cadOsuID (rcActor receipt), eaCapability = cadCapability (rcActor receipt),
      eaTeam = cadTeam (rcActor receipt), eaAdminOverride = cadAdminOverride (rcActor receipt),
      eaRefereeOverride = cadRefereeOverride (rcActor receipt)\<rparr>"

definition restoreActor :: "MatchCommandReceiptDocument \<Rightarrow> CommittedEvent \<Rightarrow> CommittedEvent" where
  "restoreActor receipt e =
     (if eaOsuID (ceActor e) \<noteq> 0 then e else e\<lparr>ceActor := receiptActor receipt\<rparr>)"

text \<open>\<open>Inr None\<close> is \<open>found == false\<close>.\<close>

definition loadReceipt ::
  "'w Mongo \<Rightarrow> Codec \<Rightarrow> 'w \<Rightarrow> Envelope \<Rightarrow> CommandError + CommandResult option" where
  "loadReceipt db codec w env =
     (case findReceipt db w (envMatchID env) (envCommandID env) of
        Inr None \<Rightarrow> Inr None
      | Inl _ \<Rightarrow> Inl (RawError False)
      | Inr (Some receipt) \<Rightarrow>
          if rcRequestHash receipt \<noteq> envRequestHash env
          then Inl (NewError DUPLICATE_COMMAND_MISMATCH)
          else (case unmarshalState codec (rcStateJSON receipt) of
                  None \<Rightarrow> Inl (NewError INTERNAL_ERROR)
                | Some state \<Rightarrow>
                    if ValidateState state \<noteq> None then Inl (NewError INTERNAL_ERROR)
                    else (case unmarshalCommittedList codec (rcEventsJSON receipt) of
                            None \<Rightarrow> Inl (NewError INTERNAL_ERROR)
                          | Some events \<Rightarrow>
                              Inr (Some \<lparr>crCommandID = rcCommandID receipt,
                                 crDisposition = DispositionReplayed,
                                 crPreviousVersion = rcPreviousVersion receipt,
                                 crResultingVersion = rcResultingVersion receipt,
                                 crState = state, crEvents = map (restoreActor receipt) events\<rparr>))))"

section \<open>Outbox\<close>

definition commandActorDocument :: "AuthorizedActor \<Rightarrow> CommandActorDocument" where
  "commandActorDocument actor =
     \<lparr>cadUserID = authUserID actor, cadOsuID = authOsuID actor,
      cadGlobalRoles = authGlobalRoles actor,
      cadCapability = actorCapability (authEngineActor actor),
      cadTeam = actorTeam (authEngineActor actor),
      cadAdminOverride = authAdminOverride actor,
      cadRefereeOverride = authRefereeOverride actor\<rparr>"

definition lastSequence :: "'w Mongo \<Rightarrow> 'w \<Rightarrow> ObjectID \<Rightarrow> CommandError + 64 word" where
  "lastSequence db w mid =
     (case findLatestSequence db w mid of
        Inr None \<Rightarrow> Inr 0
      | Inl _ \<Rightarrow> Inl (RawError False)
      | Inr (Some sequence) \<Rightarrow> Inr sequence)"

definition committedEvent ::
  "Envelope \<Rightarrow> CommandActorDocument \<Rightarrow> 64 word \<Rightarrow> string \<Rightarrow> 64 word \<Rightarrow> Event \<Rightarrow> CommittedEvent" where
  "committedEvent env actor version eventID sequence ev =
     \<lparr>ceEventID = eventID, ceSequence = sequence, ceResultingVersion = version,
      ceType = evType ev, ceOccurredAt = envOccurredAt env,
      ceActor = \<lparr>eaOsuID = cadOsuID actor, eaCapability = cadCapability actor,
                 eaTeam = cadTeam actor, eaAdminOverride = cadAdminOverride actor,
                 eaRefereeOverride = cadRefereeOverride actor\<rparr>,
      cePayload = ev\<rparr>"

definition outboxDocument ::
  "Envelope \<Rightarrow> CommandActorDocument \<Rightarrow> 64 word \<Rightarrow> string \<Rightarrow> 64 word \<Rightarrow> Event \<Rightarrow> string
   \<Rightarrow> MatchOutboxDocument" where
  "outboxDocument env actor version eventID sequence ev payload =
     \<lparr>obEventID = eventID, obMatchID = envMatchID env, obSequence = sequence,
      obResultingVersion = version, obType = evType ev, obActor = actor, obPayload = payload,
      obStatus = OutboxPending, obAttempts = 0, obLastError = '''',
      obOccurredAt = envOccurredAt env, obCreatedAt = envOccurredAt env, obPublishedAt = None\<rparr>"

text \<open>\<open>jsonDocument(json.Marshal(x))\<close>: an encoding error of either step.\<close>

definition encodeDocument :: "Codec \<Rightarrow> string option \<Rightarrow> string option" where
  "encodeDocument codec encoded =
     (case encoded of None \<Rightarrow> None | Some json \<Rightarrow> jsonToBSON codec json)"

text \<open>The loop over the engine's events; \<open>index\<close> counts the events before.\<close>

fun buildEvents ::
  "Codec \<Rightarrow> Envelope \<Rightarrow> CommandActorDocument \<Rightarrow> 64 word \<Rightarrow> 64 word \<Rightarrow> nat \<Rightarrow> Event list
   \<Rightarrow> CommandError + MatchOutboxDocument list \<times> string list \<times> CommittedEvent list" where
  "buildEvents codec env actor version lastSeq index [] = Inr ([], [], [])"
| "buildEvents codec env actor version lastSeq index (ev # evs) =
     (case encodeDocument codec (marshalEvent codec ev) of
        None \<Rightarrow> Inl (NewError INTERNAL_ERROR)
      | Some payload \<Rightarrow>
          let eventID = freshEventID codec index;
              sequence = lastSeq + of_nat index + 1;
              committed = committedEvent env actor version eventID sequence ev
          in (case encodeDocument codec (marshalCommitted codec committed) of
                None \<Rightarrow> Inl (NewError INTERNAL_ERROR)
              | Some audit \<Rightarrow>
                  (case buildEvents codec env actor version lastSeq (Suc index) evs of
                     Inl e \<Rightarrow> Inl e
                   | Inr (documents, payloads, committedEvents) \<Rightarrow>
                       Inr (outboxDocument env actor version eventID sequence ev payload # documents,
                            audit # payloads, committed # committedEvents))))"

definition buildOutboxDocuments ::
  "'w Mongo \<Rightarrow> Codec \<Rightarrow> 'w \<Rightarrow> Envelope \<Rightarrow> CommandActorDocument \<Rightarrow> Transition
   \<Rightarrow> CommandError + MatchOutboxDocument list \<times> string list \<times> CommittedEvent list" where
  "buildOutboxDocuments db codec w env actor transition =
     (case lastSequence db w (envMatchID env) of
        Inl e \<Rightarrow> Inl e
      | Inr lastSeq \<Rightarrow>
          buildEvents codec env actor (Version (trState transition)) lastSeq 0 (trEvents transition))"

text \<open>A copy through JSON; an encoding error gives nil.\<close>

definition cloneCommittedEvents :: "Codec \<Rightarrow> CommittedEvent list \<Rightarrow> CommittedEvent list" where
  "cloneCommittedEvents codec events =
     (case marshalCommittedList codec events of
        None \<Rightarrow> []
      | Some encoded \<Rightarrow>
          (case unmarshalCommittedList codec encoded of None \<Rightarrow> [] | Some clone \<Rightarrow> clone))"

definition mapSnapshotCommandError :: "SnapshotError \<Rightarrow> CommandError" where
  "mapSnapshotCommandError e =
     (case e of
        SnapshotVersionConflict expected current \<Rightarrow> VersionConflict expected current
      | ErrSnapshotNotFound \<Rightarrow> NewError RESOURCE_NOT_FOUND
      | ErrLegacyMatchRequiresMigration \<Rightarrow> NewError RESOURCE_NOT_FOUND
      | _ \<Rightarrow> NewError INTERNAL_ERROR)"

section \<open>Apply\<close>

text \<open>
  The writes at the end of the transaction. An error leaves the state the failed call left; the
  transaction rolls it back.
\<close>

definition commitCommand ::
  "'w Mongo \<Rightarrow> Codec \<Rightarrow> 'w \<Rightarrow> Envelope \<Rightarrow> AuthorizedActor \<Rightarrow> State \<Rightarrow> Transition \<Rightarrow> string
   \<Rightarrow> MatchOutboxDocument list \<Rightarrow> string list \<Rightarrow> CommittedEvent list \<Rightarrow> string \<Rightarrow> string
   \<Rightarrow> 'w \<times> (CommandError + CommandResult)" where
  "commitCommand db codec w env actor current transition payload documents payloads committed
     stateJSON eventsJSON =
     (let next = trState transition; actorDocument = commandActorDocument actor
      in case CompareAndSwap db codec w (envMatchID env) (Version current) next (envOccurredAt env) of
        (w1, Some swapErr) \<Rightarrow> (w1, Inl (mapSnapshotCommandError swapErr))
      | (w1, None) \<Rightarrow>
     (case insertAction db w1
             \<lparr>acMatchID = envMatchID env, acCommandID = envCommandID env,
              acCommandType = envCommandType env, acPreviousVersion = Version current,
              acResultingVersion = Version next, acActor = actorDocument,
              acReason = authReason actor, acCommandPayload = payload, acEvents = payloads,
              acCreatedAt = envOccurredAt env\<rparr> of
        (w2, Inl duplicate) \<Rightarrow> (w2, Inl (RawError duplicate))
      | (w2, Inr _) \<Rightarrow>
     (case (if documents = [] then (w2, Inr ()) else insertOutbox db w2 documents) of
        (w3, Inl duplicate) \<Rightarrow> (w3, Inl (RawError duplicate))
      | (w3, Inr _) \<Rightarrow>
     (case insertReceipt db w3
             \<lparr>rcMatchID = envMatchID env, rcCommandID = envCommandID env,
              rcRequestHash = envRequestHash env, rcCommandType = envCommandType env,
              rcExpectedVersion = envExpectedVersion env, rcPreviousVersion = Version current,
              rcResultingVersion = Version next, rcActor = actorDocument,
              rcStateJSON = stateJSON, rcEventsJSON = eventsJSON,
              rcCreatedAt = envOccurredAt env\<rparr> of
        (w4, Inl duplicate) \<Rightarrow> (w4, Inl (RawError duplicate))
      | (w4, Inr _) \<Rightarrow>
          (w4, Inr \<lparr>crCommandID = envCommandID env, crDisposition = DispositionApplied,
                    crPreviousVersion = Version current, crResultingVersion = Version next,
                    crState = stateClone next,
                    crEvents = cloneCommittedEvents codec committed\<rparr>)))))"

text \<open>The body of the transaction.\<close>

definition applyInTransaction ::
  "'w Mongo \<Rightarrow> Codec \<Rightarrow> Envelope \<Rightarrow> 'w AuthorizeFunc \<Rightarrow> ExecuteFunc \<Rightarrow> 'w
   \<Rightarrow> 'w \<times> (CommandError + CommandResult)" where
  "applyInTransaction db codec env auth execute w =
     (case loadReceipt db codec w env of
        Inl e \<Rightarrow> (w, Inl e)
      | Inr (Some replayed) \<Rightarrow> (w, Inr replayed)
      | Inr None \<Rightarrow>
     (case auth w of
        Inl e \<Rightarrow> (w, Inl e)
      | Inr actor \<Rightarrow>
     (case snapshotLoad db codec w (envMatchID env) of
        Inl e \<Rightarrow> (w, Inl (mapSnapshotCommandError e))
      | Inr current \<Rightarrow>
          if Version current \<noteq> envExpectedVersion env
          then (w, Inl (VersionConflict (envExpectedVersion env) (Version current)))
          else (case execute (stateClone current) actor of
                  Inl e \<Rightarrow> (w, Inl e)
                | Inr transition \<Rightarrow>
          if Version (trState transition) \<noteq> Version current + 1
          then (w, Inl (NewError INTERNAL_ERROR))
          else (case jsonToBSON codec (envPayloadJSON env) of
                  None \<Rightarrow> (w, Inl (NewError INVALID_REQUEST))
                | Some payload \<Rightarrow>
               (case buildOutboxDocuments db codec w env (commandActorDocument actor) transition of
                  Inl e \<Rightarrow> (w, Inl e)
                | Inr (documents, payloads, committed) \<Rightarrow>
               (case marshalState codec (trState transition) of
                  None \<Rightarrow> (w, Inl (NewError INTERNAL_ERROR))
                | Some stateJSON \<Rightarrow>
               (case marshalCommittedList codec committed of
                  None \<Rightarrow> (w, Inl (NewError INTERNAL_ERROR))
                | Some eventsJSON \<Rightarrow>
                    commitCommand db codec w env actor current transition payload documents
                      payloads committed stateJSON eventsJSON))))))))"

text \<open>\<open>(*CommandStore).Apply\<close>; \<open>None\<close> is a store that is not configured.\<close>

definition storeApply :: "'w Mongo option \<Rightarrow> Codec \<Rightarrow> 'w TransactionStore" where
  "storeApply receiver codec w env auth execute =
     (case receiver of
        None \<Rightarrow> (w, Inl (NewError INTERNAL_ERROR))
      | Some db \<Rightarrow>
     (case loadReceipt db codec w env of
        Inl e \<Rightarrow> (w, Inl e)
      | Inr (Some replayed) \<Rightarrow> (w, Inr replayed)
      | Inr None \<Rightarrow>
          if \<not> startSession db w then (w, Inl (NewError INTERNAL_ERROR))
          else (case withTransaction db w (applyInTransaction db codec env auth execute) of
                  (w', Inr result) \<Rightarrow> (w', Inr result)
                | (w', Inl e) \<Rightarrow>
                    (w', if e = RawError True then
                           (case loadReceipt db codec w' env of
                              Inl replayErr \<Rightarrow> Inl replayErr
                            | Inr (Some replayed) \<Rightarrow> Inr replayed
                            | Inr None \<Rightarrow> Inl e)
                         else Inl e))))"

section \<open>What the store relies on\<close>

text \<open>
  \<open>codecLaws\<close>: a state or a list of events read back from its JSON is the one written, BSON gives
  back the JSON it was made of, and an encoded document and a digest are not empty.
\<close>

definition codecLaws :: "Codec \<Rightarrow> bool" where
  "codecLaws codec \<longleftrightarrow>
     (\<forall>s j. marshalState codec s = Some j \<longrightarrow> unmarshalState codec j = Some s) \<and>
     (\<forall>es j. marshalCommittedList codec es = Some j \<longrightarrow> unmarshalCommittedList codec j = Some es) \<and>
     (\<forall>j b. jsonToBSON codec j = Some b \<longrightarrow> bsonToJSON codec b = Some j \<and> bsonValid codec b \<and> b \<noteq> '''') \<and>
     (\<forall>x. sha256Hex codec x \<noteq> '''')"

text \<open>What the filter of the compare-and-swap selects.\<close>

definition filterMatches :: "SnapshotFilter \<Rightarrow> MatchSnapshotDocument \<Rightarrow> bool" where
  "filterMatches f d \<longleftrightarrow>
     docMatchID d = sfMatchID f \<and> docSchemaVersion d = sfSchemaVersion f \<and>
     docOrigin d = sfOrigin f \<and> docConfigurationHash d = sfConfigurationHash f \<and>
     docMatchVersion d = sfMatchVersion f \<and> docUpdatedAt d \<le> sfUpdatedAtMost f"

text \<open>
  \<open>updateLaw\<close>: an update by \<open>_id\<close> and further fields matches one document or none, sets the listed
  fields of the one it matches and nothing else of the collection. The stored date may have
  lost the fraction of a millisecond.
\<close>

definition updateEffect ::
  "'w Mongo \<Rightarrow> 'w \<Rightarrow> SnapshotFilter \<Rightarrow> SnapshotUpdate \<Rightarrow> 'w \<Rightarrow> nat \<Rightarrow> bool" where
  "updateEffect db w f u w' n \<longleftrightarrow>
     (if n = 1 then
        (\<exists>d t. findSnapshot db w (sfMatchID f) = Inr (Some d) \<and> filterMatches f d \<and>
           (sfUpdatedAtMost f = suUpdatedAt u \<longrightarrow> docUpdatedAt d \<le> t) \<and>
           (suUpdatedAt u \<noteq> 0 \<longrightarrow> t \<noteq> 0) \<and>
           findSnapshot db w' (sfMatchID f) =
             Inr (Some (d\<lparr>docSchemaVersion := suSchemaVersion u, docMatchVersion := suMatchVersion u,
                          docState := suState u, docUpdatedAt := t\<rparr>)))
      else n = 0 \<and> (\<forall>m. findSnapshot db w' m = findSnapshot db w m)) \<and>
     (\<forall>m. m \<noteq> sfMatchID f \<longrightarrow> findSnapshot db w' m = findSnapshot db w m) \<and>
     (\<forall>m c. findReceipt db w' m c = findReceipt db w m c)"

definition updateLaw :: "'w Mongo \<Rightarrow> bool" where
  "updateLaw db \<longleftrightarrow>
     (\<forall>w f u w' n. updateSnapshot db w f u = (w', Inr n) \<longrightarrow> updateEffect db w f u w' n)"

text \<open>
  \<open>insertLaw\<close>: an insert touches its own collection only; a receipt inserted is found and no other
  receipt changes.
\<close>

definition insertLaw :: "'w Mongo \<Rightarrow> bool" where
  "insertLaw db \<longleftrightarrow>
     (\<forall>w a w'. insertAction db w a = (w', Inr ()) \<longrightarrow>
        findSnapshot db w' = findSnapshot db w \<and> findReceipt db w' = findReceipt db w) \<and>
     (\<forall>w ds w'. insertOutbox db w ds = (w', Inr ()) \<longrightarrow>
        findSnapshot db w' = findSnapshot db w \<and> findReceipt db w' = findReceipt db w) \<and>
     (\<forall>w r w'. insertReceipt db w r = (w', Inr ()) \<longrightarrow>
        findSnapshot db w' = findSnapshot db w \<and>
        (\<exists>t. findReceipt db w' (rcMatchID r) (rcCommandID r) = Inr (Some (r\<lparr>rcCreatedAt := t\<rparr>))) \<and>
        (\<forall>m c. (m, c) \<noteq> (rcMatchID r, rcCommandID r) \<longrightarrow> findReceipt db w' m c = findReceipt db w m c))"

text \<open>
  \<open>transactionLaw\<close>: a transaction whose body fails is rolled back and yields the body's error; one
  whose body succeeds is committed, or the driver reports an error of its own. After such an error the
  transaction was rolled back, or, when the outcome of the commit did not reach the driver
  (\<open>UnknownTransactionCommitResult\<close>, never a duplicate key), it may have been committed.
\<close>

definition transactionLaw :: "'w Mongo \<Rightarrow> bool" where
  "transactionLaw db \<longleftrightarrow>
     (\<forall>w f. case f w of
              (w1, Inl e) \<Rightarrow> withTransaction db w f = (w, Inl e)
            | (w1, Inr r) \<Rightarrow> withTransaction db w f = (w1, Inr r) \<or>
                             withTransaction db w f = (w1, Inl (RawError False)) \<or>
                             (\<exists>dup. withTransaction db w f = (w, Inl (RawError dup))))"

definition storeLaws :: "'w Mongo \<Rightarrow> bool" where
  "storeLaws db \<longleftrightarrow> updateLaw db \<and> insertLaw db \<and> transactionLaw db"

section \<open>The shape of one call\<close>

lemma transactionLawD:
  assumes "transactionLaw db" "f w = (w1, x)"
  shows "case x of Inl e \<Rightarrow> withTransaction db w f = (w, Inl e)
       | Inr r \<Rightarrow> withTransaction db w f = (w1, Inr r) \<or>
                 withTransaction db w f = (w1, Inl (RawError False)) \<or>
                 (\<exists>dup. withTransaction db w f = (w, Inl (RawError dup)))"
  using assms(1) [unfolded transactionLaw_def, rule_format, of w f] assms(2) by simp

lemma transaction_Inl:
  assumes "transactionLaw db" "withTransaction db w f = (w', Inl e)"
  shows "w' = w \<or> (e = RawError False \<and> (\<exists>r. f w = (w', Inr r)))"
proof -
  obtain w1 x where f: "f w = (w1, x)" by fastforce
  from transactionLawD [of db f w w1 x] f assms show ?thesis by (cases x) auto
qed

lemma transaction_Inr:
  assumes "transactionLaw db" "withTransaction db w f = (w', Inr r)"
  shows "f w = (w', Inr r)"
proof -
  obtain w1 x where f: "f w = (w1, x)" by fastforce
  from transactionLawD [of db f w w1 x] f assms show ?thesis by (cases x) auto
qed

lemma loadReceipt_replayed:
  "loadReceipt db codec w env = Inr (Some r) \<Longrightarrow> crDisposition r = DispositionReplayed"
  by (auto simp: loadReceipt_def split: sum.splits option.splits if_splits)

text \<open>
  A call fails and changes nothing, replays and changes nothing, or commits the body's result; the
  error of a driver that lost the outcome may stand for a commit.
\<close>

lemma storeApply_cases:
  assumes laws: "transactionLaw db"
    and run: "storeApply (Some db) codec w env auth execute = (w', r)"
  obtains (failed) e where "r = Inl e" "w' = w"
  | (replayed) res where "r = Inr res" "w' = w" "loadReceipt db codec w env = Inr (Some res)"
  | (committed) res where "r = Inr res" "loadReceipt db codec w env = Inr None"
      "applyInTransaction db codec env auth execute w = (w', Inr res)"
  | (lost) res where "r = Inl (RawError False)" "loadReceipt db codec w env = Inr None"
      "applyInTransaction db codec env auth execute w = (w', Inr res)"
proof -
  let ?f = "applyInTransaction db codec env auth execute"
  consider (err) e where "loadReceipt db codec w env = Inl e" "r = Inl e" "w' = w"
    | (rep) res where "loadReceipt db codec w env = Inr (Some res)" "r = Inr res" "w' = w"
    | (nosession) "loadReceipt db codec w env = Inr None" "r = Inl (NewError INTERNAL_ERROR)" "w' = w"
    | (ok) res where "loadReceipt db codec w env = Inr None" "withTransaction db w ?f = (w', Inr res)" "r = Inr res"
    | (dup) e where "loadReceipt db codec w env = Inr None" "withTransaction db w ?f = (w', Inl e)"
        "r = (if e = RawError True then
                (case loadReceipt db codec w' env of
                   Inl replayErr \<Rightarrow> Inl replayErr
                 | Inr (Some replayed) \<Rightarrow> Inr replayed
                 | Inr None \<Rightarrow> Inl e)
              else Inl e)"
    using run by (auto simp: storeApply_def split: sum.splits option.splits if_splits prod.splits)
  then show ?thesis
  proof cases
    case ok
    then show ?thesis using transaction_Inr [OF laws] committed by blast
  next
    case dup
    then consider "w' = w" | res where "e = RawError False" "?f w = (w', Inr res)"
      using transaction_Inl [OF laws] by blast
    then show ?thesis
    proof cases
      case 1
      with dup show ?thesis by (cases "e = RawError True") (auto intro: failed)
    next
      case 2
      with dup show ?thesis by (auto intro: lost)
    qed
  qed (auto intro: failed replayed)
qed

section \<open>Snapshots\<close>

lemma codecLawsD:
  assumes "codecLaws codec"
  shows "marshalState codec s = Some j \<Longrightarrow> unmarshalState codec j = Some s"
    and "marshalCommittedList codec es = Some j \<Longrightarrow> unmarshalCommittedList codec j = Some es"
    and "jsonToBSON codec j = Some b \<Longrightarrow> bsonToJSON codec b = Some j \<and> bsonValid codec b \<and> b \<noteq> ''''"
    and "sha256Hex codec x \<noteq> ''''"
  using assms by (simp_all add: codecLaws_def)

lemma NewMatchSnapshotDocument_Some:
  assumes "NewMatchSnapshotDocument codec mid s t = Some d"
  obtains j b h where "mid \<noteq> NilObjectID" "t \<noteq> 0" "validState s" "marshalState codec s = Some j"
    "jsonToBSON codec j = Some b" "stateConfigurationHash codec s = Some h"
    "d = \<lparr>docMatchID = mid, docSchemaVersion = MatchSnapshotSchemaVersion,
          docMatchVersion = Version s, docOrigin = SnapshotOriginNative,
          docConfigurationHash = h, docState = b, docCreatedAt = t, docUpdatedAt = t\<rparr>"
  using assms
  by (auto simp: NewMatchSnapshotDocument_def isZeroTime_def ValidateState_iff split: if_splits option.splits)

lemma stateConfigurationHash_nonempty:
  "codecLaws codec \<Longrightarrow> stateConfigurationHash codec s = Some h \<Longrightarrow> h \<noteq> ''''"
  by (auto simp: stateConfigurationHash_def codecLaws_def)

lemma DecodeState_written:
  assumes "codecLaws codec" and "validState s" "marshalState codec s = Some j"
    "jsonToBSON codec j = Some b" "stateConfigurationHash codec s = Some h"
    and "docMatchID d \<noteq> NilObjectID" "docSchemaVersion d = MatchSnapshotSchemaVersion"
    "docOrigin d = SnapshotOriginNative" "docConfigurationHash d = h" "docState d = b"
    "docMatchVersion d = Version s"
    "docCreatedAt d \<noteq> 0" "docUpdatedAt d \<noteq> 0" "docCreatedAt d \<le> docUpdatedAt d"
  shows "DecodeState codec d = Some s"
proof -
  have b: "bsonToJSON codec b = Some j" "bsonValid codec b" "b \<noteq> ''''"
    using codecLawsD(3) [OF assms(1,4)] by simp_all
  have j: "unmarshalState codec j = Some s" using codecLawsD(1) [OF assms(1,3)] .
  have h: "h \<noteq> ''''" using stateConfigurationHash_nonempty assms(1,5) by blast
  have "ValidateState s = None" using assms(2) by (simp add: ValidateState_iff)
  with b j h show ?thesis by (simp add: DecodeState_def isZeroTime_def assms not_less)
qed

lemma DecodeState_dates:
  "DecodeState codec d = Some s \<Longrightarrow>
     docCreatedAt d \<noteq> 0 \<and> docUpdatedAt d \<noteq> 0 \<and> docCreatedAt d \<le> docUpdatedAt d \<and> docMatchID d \<noteq> NilObjectID \<and>
     Version s = docMatchVersion d \<and> validState s"
  by (auto simp: DecodeState_def isZeroTime_def ValidateState_iff split: if_splits option.splits)

lemma snapshotLoad_Inr:
  "snapshotLoad db codec w mid = Inr s \<longleftrightarrow>
     mid \<noteq> NilObjectID \<and> (\<exists>d. findSnapshot db w mid = Inr (Some d) \<and>
       docSchemaVersion d = MatchSnapshotSchemaVersion \<and> docOrigin d = SnapshotOriginNative \<and>
       DecodeState codec d = Some s)"
  by (auto simp: snapshotLoad_def split: sum.splits option.splits if_splits)

lemma snapshotLoad_valid: "snapshotLoad db codec w mid = Inr s \<Longrightarrow> validState s"
  using DecodeState_dates by (auto simp: snapshotLoad_Inr)

lemma snapshotLoad_cong:
  "findSnapshot db w' mid = findSnapshot db w mid \<Longrightarrow> snapshotLoad db codec w mid = Inr s \<Longrightarrow>
   snapshotLoad db codec w' mid = Inr s"
  by (simp add: snapshotLoad_Inr)

lemma CompareAndSwap_committed:
  assumes laws: "updateLaw db" "codecLaws codec"
    and load: "snapshotLoad db codec w mid = Inr current"
    and swap: "CompareAndSwap db codec w mid expected next now = (w', None)"
  shows "snapshotLoad db codec w' mid = Inr next" "validState next" "Version next = expected + 1"
    "Version current = expected"
    "m \<noteq> mid \<Longrightarrow> findSnapshot db w' m = findSnapshot db w m"
    "findReceipt db w' = findReceipt db w"
proof -
  from swap obtain d where follows: "Version next = expected + 1"
    and d: "NewMatchSnapshotDocument codec mid next now = Some d"
    by (auto simp: CompareAndSwap_def split: if_splits option.splits)
  from d obtain j b h where mid: "mid \<noteq> NilObjectID" and now: "now \<noteq> 0" and valid: "validState next"
    and enc: "marshalState codec next = Some j" "jsonToBSON codec j = Some b"
      "stateConfigurationHash codec next = Some h"
    and d_eq: "d = \<lparr>docMatchID = mid, docSchemaVersion = MatchSnapshotSchemaVersion,
          docMatchVersion = Version next, docOrigin = SnapshotOriginNative,
          docConfigurationHash = h, docState = b, docCreatedAt = now, docUpdatedAt = now\<rparr>"
    by (rule NewMatchSnapshotDocument_Some)
  define f where "f = \<lparr>sfMatchID = mid, sfSchemaVersion = MatchSnapshotSchemaVersion,
      sfOrigin = SnapshotOriginNative, sfConfigurationHash = h, sfMatchVersion = expected,
      sfUpdatedAtMost = now\<rparr>"
  define u where "u = \<lparr>suSchemaVersion = MatchSnapshotSchemaVersion, suMatchVersion = Version next,
      suState = b, suUpdatedAt = now\<rparr>"
  have upd: "updateSnapshot db w f u = (w', Inr 1)"
    using swap by (auto simp: CompareAndSwap_def d d_eq f_def u_def split: if_splits prod.splits sum.splits)
  note law = laws(1) [unfolded updateLaw_def updateEffect_def, rule_format, OF upd, simplified]
  from law obtain d0 t where d0: "findSnapshot db w mid = Inr (Some d0)" "filterMatches f d0"
      "docUpdatedAt d0 \<le> t" "t \<noteq> 0"
    and w': "findSnapshot db w' mid = Inr (Some (d0\<lparr>docSchemaVersion := MatchSnapshotSchemaVersion,
        docMatchVersion := Version next, docState := b, docUpdatedAt := t\<rparr>))"
    using now by (auto simp: f_def u_def)
  have old: "DecodeState codec d0 = Some current" using load d0(1) by (auto simp: snapshotLoad_Inr)
  have dates: "docCreatedAt d0 \<noteq> 0" "docCreatedAt d0 \<le> t"
    using DecodeState_dates [OF old] d0(3) by auto
  show "snapshotLoad db codec w' mid = Inr next"
    using d0(2,4) dates mid
    by (simp add: snapshotLoad_Inr w' filterMatches_def f_def
        DecodeState_written [OF laws(2) valid enc])
  show "validState next" "Version next = expected + 1" by (fact valid follows)+
  show "Version current = expected"
    using DecodeState_dates [OF old] d0(2) by (simp add: filterMatches_def f_def)
  show "m \<noteq> mid \<Longrightarrow> findSnapshot db w' m = findSnapshot db w m" using law by (simp add: f_def)
  show "findReceipt db w' = findReceipt db w" using law by (simp add: fun_eq_iff)
qed

section \<open>A committed command\<close>

text \<open>The receipt, whatever date the database gives back for it.\<close>

definition receiptOf ::
  "Envelope \<Rightarrow> AuthorizedActor \<Rightarrow> State \<Rightarrow> State \<Rightarrow> string \<Rightarrow> string \<Rightarrow> Time \<Rightarrow> MatchCommandReceiptDocument" where
  "receiptOf env actor current nxt stateJSON eventsJSON t =
     \<lparr>rcMatchID = envMatchID env, rcCommandID = envCommandID env,
      rcRequestHash = envRequestHash env, rcCommandType = envCommandType env,
      rcExpectedVersion = envExpectedVersion env, rcPreviousVersion = Version current,
      rcResultingVersion = Version nxt, rcActor = commandActorDocument actor,
      rcStateJSON = stateJSON, rcEventsJSON = eventsJSON, rcCreatedAt = t\<rparr>"

lemma commitCommand_Inr:
  assumes laws: "updateLaw db" "insertLaw db" "codecLaws codec"
    and load: "snapshotLoad db codec w (envMatchID env) = Inr current"
    and run: "commitCommand db codec w env actor current tr payload docs payloads committed
                stateJSON eventsJSON = (w', Inr res)"
  shows "snapshotLoad db codec w' (envMatchID env) = Inr (trState tr)" "validState (trState tr)"
    "Version (trState tr) = Version current + 1"
    "m \<noteq> envMatchID env \<Longrightarrow> findSnapshot db w' m = findSnapshot db w m"
    "\<exists>t. findReceipt db w' (envMatchID env) (envCommandID env) =
           Inr (Some (receiptOf env actor current (trState tr) stateJSON eventsJSON t))"
    "res = \<lparr>crCommandID = envCommandID env, crDisposition = DispositionApplied,
            crPreviousVersion = Version current, crResultingVersion = Version (trState tr),
            crState = stateClone (trState tr), crEvents = cloneCommittedEvents codec committed\<rparr>"
    "(m, c) \<noteq> (envMatchID env, envCommandID env) \<Longrightarrow> findReceipt db w' m c = findReceipt db w m c"
proof -
  obtain w1 se where swap: "CompareAndSwap db codec w (envMatchID env) (Version current) (trState tr)
      (envOccurredAt env) = (w1, se)" by fastforce
  have se: "se = None" using run swap by (cases se) (auto simp: commitCommand_def Let_def)
  note cas = CompareAndSwap_committed [OF laws(1,3) load swap [unfolded se]]
  obtain a w2 where a: "insertAction db w1 a = (w2, Inr ())"
    and rest: "(case (if docs = [] then (w2, Inr ()) else insertOutbox db w2 docs) of
        (w3, Inl duplicate) \<Rightarrow> (w3, Inl (RawError duplicate))
      | (w3, Inr _) \<Rightarrow>
     (case insertReceipt db w3
             (receiptOf env actor current (trState tr) stateJSON eventsJSON (envOccurredAt env)) of
        (w4, Inl duplicate) \<Rightarrow> (w4, Inl (RawError duplicate))
      | (w4, Inr _) \<Rightarrow>
          (w4, Inr \<lparr>crCommandID = envCommandID env, crDisposition = DispositionApplied,
                    crPreviousVersion = Version current, crResultingVersion = Version (trState tr),
                    crState = stateClone (trState tr),
                    crEvents = cloneCommittedEvents codec committed\<rparr>))) = (w', Inr res)"
    using run swap se
    by (auto simp: commitCommand_def Let_def receiptOf_def split: prod.splits sum.splits)
  obtain w3 where w3: "(if docs = [] then (w2, Inr ()) else insertOutbox db w2 docs) = (w3, Inr ())"
    using rest by (auto split: prod.splits sum.splits)
  have r: "insertReceipt db w3 (receiptOf env actor current (trState tr) stateJSON eventsJSON
      (envOccurredAt env)) = (w', Inr ())"
    and res: "res = \<lparr>crCommandID = envCommandID env, crDisposition = DispositionApplied,
                    crPreviousVersion = Version current, crResultingVersion = Version (trState tr),
                    crState = stateClone (trState tr),
                    crEvents = cloneCommittedEvents codec committed\<rparr>"
    using rest unfolding w3 by (auto split: prod.splits sum.splits)
  have f2: "findSnapshot db w2 = findSnapshot db w1"
    using laws(2) a by (simp add: insertLaw_def)
  have f3: "findSnapshot db w3 = findSnapshot db w2"
    using laws(2) w3 by (cases "docs = []") (auto simp: insertLaw_def)
  have f4: "findSnapshot db w' = findSnapshot db w3"
    using laws(2) r by (auto simp: insertLaw_def)
  have same: "findSnapshot db w' = findSnapshot db w1" using f2 f3 f4 by simp
  show "snapshotLoad db codec w' (envMatchID env) = Inr (trState tr)"
    by (rule snapshotLoad_cong [OF _ cas(1)]) (simp add: same)
  show "validState (trState tr)" "Version (trState tr) = Version current + 1" by (fact cas)+
  show "m \<noteq> envMatchID env \<Longrightarrow> findSnapshot db w' m = findSnapshot db w m"
    using cas(5) by (simp add: same)
  show "\<exists>t. findReceipt db w' (envMatchID env) (envCommandID env) =
           Inr (Some (receiptOf env actor current (trState tr) stateJSON eventsJSON t))"
  proof -
    let ?r = "receiptOf env actor current (trState tr) stateJSON eventsJSON (envOccurredAt env)"
    obtain t where "findReceipt db w' (rcMatchID ?r) (rcCommandID ?r) = Inr (Some (?r\<lparr>rcCreatedAt := t\<rparr>))"
      using laws(2) r unfolding insertLaw_def by blast
    then show ?thesis by (auto simp: receiptOf_def)
  qed
  show "res = \<lparr>crCommandID = envCommandID env, crDisposition = DispositionApplied,
            crPreviousVersion = Version current, crResultingVersion = Version (trState tr),
            crState = stateClone (trState tr), crEvents = cloneCommittedEvents codec committed\<rparr>"
    by (fact res)
  show "(m, c) \<noteq> (envMatchID env, envCommandID env) \<Longrightarrow> findReceipt db w' m c = findReceipt db w m c"
  proof -
    assume other: "(m, c) \<noteq> (envMatchID env, envCommandID env)"
    have "findReceipt db w' m c = findReceipt db w3 m c"
      using laws(2) r other by (auto simp: insertLaw_def receiptOf_def)
    also have "findReceipt db w3 = findReceipt db w2"
      using laws(2) w3 by (cases "docs = []") (auto simp: insertLaw_def)
    also have "findReceipt db w2 = findReceipt db w1"
      using laws(2) a by (simp add: insertLaw_def)
    finally show ?thesis using cas(6) by simp
  qed
qed

lemma applyInTransaction_Inr:
  assumes "applyInTransaction db codec env auth execute w = (w', Inr res)"
    and "loadReceipt db codec w env = Inr None"
  obtains actor current tr payload docs payloads committed stateJSON eventsJSON where
    "auth w = Inr actor" "snapshotLoad db codec w (envMatchID env) = Inr current"
    "Version current = envExpectedVersion env" "execute (stateClone current) actor = Inr tr"
    "jsonToBSON codec (envPayloadJSON env) = Some payload"
    "buildOutboxDocuments db codec w env (commandActorDocument actor) tr = Inr (docs, payloads, committed)"
    "marshalState codec (trState tr) = Some stateJSON"
    "marshalCommittedList codec committed = Some eventsJSON"
    "commitCommand db codec w env actor current tr payload docs payloads committed
       stateJSON eventsJSON = (w', Inr res)"
  using assms
  by (auto simp: applyInTransaction_def split: sum.splits option.splits if_splits prod.splits)

lemma buildEvents_sequences:
  assumes "buildEvents codec env actor version lastSeq index evs = Inr (docs, payloads, committed)"
  shows "length docs = length evs \<and> length payloads = length evs \<and> length committed = length evs \<and>
    (\<forall>i<length evs. obSequence (docs ! i) = lastSeq + of_nat (index + i) + 1 \<and>
       ceSequence (committed ! i) = lastSeq + of_nat (index + i) + 1 \<and>
       cePayload (committed ! i) = evs ! i \<and>
       obEventID (docs ! i) = ceEventID (committed ! i) \<and>
       ceActor (committed ! i) = \<lparr>eaOsuID = cadOsuID actor, eaCapability = cadCapability actor,
                 eaTeam = cadTeam actor, eaAdminOverride = cadAdminOverride actor,
                 eaRefereeOverride = cadRefereeOverride actor\<rparr>)"
  using assms
proof (induction evs arbitrary: index docs payloads committed)
  case (Cons ev evs)
  then obtain d ds p ps c cs where
    split: "docs = d # ds" "payloads = p # ps" "committed = c # cs"
    and head: "obSequence d = lastSeq + of_nat index + 1" "ceSequence c = lastSeq + of_nat index + 1"
      "cePayload c = ev" "obEventID d = ceEventID c"
      "ceActor c = \<lparr>eaOsuID = cadOsuID actor, eaCapability = cadCapability actor,
                 eaTeam = cadTeam actor, eaAdminOverride = cadAdminOverride actor,
                 eaRefereeOverride = cadRefereeOverride actor\<rparr>"
    and tail: "buildEvents codec env actor version lastSeq (Suc index) evs = Inr (ds, ps, cs)"
    by (auto simp: Let_def committedEvent_def outboxDocument_def split: option.splits sum.splits prod.splits)
  have "obSequence (docs ! i) = lastSeq + of_nat (index + i) + 1 \<and>
       ceSequence (committed ! i) = lastSeq + of_nat (index + i) + 1 \<and>
       cePayload (committed ! i) = (ev # evs) ! i \<and>
       obEventID (docs ! i) = ceEventID (committed ! i) \<and>
       ceActor (committed ! i) = \<lparr>eaOsuID = cadOsuID actor, eaCapability = cadCapability actor,
                 eaTeam = cadTeam actor, eaAdminOverride = cadAdminOverride actor,
                 eaRefereeOverride = cadRefereeOverride actor\<rparr>"
    if "i < length (ev # evs)" for i
  proof (cases i)
    case 0
    then show ?thesis using head by (simp add: split)
  next
    case (Suc j)
    then show ?thesis using Cons.IH [OF tail] that by (simp add: split algebra_simps)
  qed
  moreover have "length docs = length (ev # evs) \<and> length payloads = length (ev # evs) \<and>
      length committed = length (ev # evs)" using Cons.IH [OF tail] by (simp add: split)
  ultimately show ?case by blast
qed simp

lemma stateClone_valid: "validState s \<Longrightarrow> stateClone s = s"
  by (rule stateClone_id) (simp add: validState_def)

lemma buildOutboxDocuments_Inr:
  assumes "buildOutboxDocuments db codec w env actor tr = Inr (docs, payloads, committed)"
  obtains lastSeq where "lastSequence db w (envMatchID env) = Inr lastSeq"
    "buildEvents codec env actor (Version (trState tr)) lastSeq 0 (trEvents tr) = Inr (docs, payloads, committed)"
  using assms by (auto simp: buildOutboxDocuments_def split: sum.splits)

lemma restoreActor_own:
  assumes "buildEvents codec env (commandActorDocument actor) version lastSeq index evs = Inr (docs, payloads, committed)"
  shows "map (restoreActor (receiptOf env actor current nxt sj ej t)) committed = committed"
proof (rule map_idI)
  fix e assume "e \<in> set committed"
  then have "ceActor e = receiptActor (receiptOf env actor current nxt sj ej t)"
    using buildEvents_sequences [OF assms]
    by (auto simp: in_set_conv_nth receiptActor_def receiptOf_def)
  then show "restoreActor (receiptOf env actor current nxt sj ej t) e = e"
    by (simp add: restoreActor_def)
qed

text \<open>Everything a command committed by the store has done, answered or not.\<close>

lemma committed_facts:
  assumes laws: "storeLaws db" "codecLaws codec"
    and none: "loadReceipt db codec w env = Inr None"
    and body: "applyInTransaction db codec env auth execute w = (w', Inr res)"
  obtains actor current tr lastSeq where
    "auth w = Inr actor" "snapshotLoad db codec w (envMatchID env) = Inr current"
    "Version current = envExpectedVersion env" "execute current actor = Inr tr"
    "Version (trState tr) = Version current + 1" "validState (trState tr)"
    "snapshotLoad db codec w' (envMatchID env) = Inr (trState tr)"
    "\<And>m. m \<noteq> envMatchID env \<Longrightarrow> findSnapshot db w' m = findSnapshot db w m"
    "crPreviousVersion res = Version current" "crResultingVersion res = Version (trState tr)"
    "crState res = trState tr" "lastSequence db w (envMatchID env) = Inr lastSeq"
    "map cePayload (crEvents res) = trEvents tr"
    "map ceSequence (crEvents res) = map (\<lambda>i. lastSeq + of_nat i + 1) [0..<length (trEvents tr)]"
    "loadReceipt db codec w' env = Inr (Some (res\<lparr>crDisposition := DispositionReplayed\<rparr>))"
proof -
  have parts: "updateLaw db" "insertLaw db" using laws(1) by (simp_all add: storeLaws_def)
  from body none obtain actor current tr payload docs payloads committed sj ej where
    auth: "auth w = Inr actor" and load: "snapshotLoad db codec w (envMatchID env) = Inr current"
    and version: "Version current = envExpectedVersion env"
    and exec: "execute (stateClone current) actor = Inr tr"
    and build: "buildOutboxDocuments db codec w env (commandActorDocument actor) tr = Inr (docs, payloads, committed)"
    and enc: "marshalState codec (trState tr) = Some sj" "marshalCommittedList codec committed = Some ej"
    and commit: "commitCommand db codec w env actor current tr payload docs payloads committed sj ej = (w', Inr res)"
    by (rule applyInTransaction_Inr)
  note com = commitCommand_Inr [OF parts(1,2) laws(2) load commit]
  from build obtain lastSeq where seq: "lastSequence db w (envMatchID env) = Inr lastSeq"
    and evs: "buildEvents codec env (commandActorDocument actor) (Version (trState tr)) lastSeq 0 (trEvents tr)
        = Inr (docs, payloads, committed)"
    by (rule buildOutboxDocuments_Inr)
  have dec: "unmarshalState codec sj = Some (trState tr)" "unmarshalCommittedList codec ej = Some committed"
    using codecLawsD(1,2) [OF laws(2)] enc by simp_all
  have res: "res = \<lparr>crCommandID = envCommandID env, crDisposition = DispositionApplied,
            crPreviousVersion = Version current, crResultingVersion = Version (trState tr),
            crState = trState tr, crEvents = committed\<rparr>"
    using com(6) dec(2) enc(2) by (simp add: cloneCommittedEvents_def stateClone_valid [OF com(2)])
  obtain t where rec: "findReceipt db w' (envMatchID env) (envCommandID env) =
       Inr (Some (receiptOf env actor current (trState tr) sj ej t))"
    using com(5) by blast
  have "loadReceipt db codec w' env = Inr (Some (res\<lparr>crDisposition := DispositionReplayed\<rparr>))"
    using com(2) restoreActor_own [OF evs, of current "trState tr" sj ej t]
    by (simp add: loadReceipt_def rec receiptOf_def dec res ValidateState_iff)
  moreover have "map cePayload committed = trEvents tr"
    "map ceSequence committed = map (\<lambda>i. lastSeq + of_nat i + 1) [0..<length (trEvents tr)]"
    using buildEvents_sequences [OF evs] by (auto intro!: nth_equalityI)
  moreover have "execute current actor = Inr tr"
    using exec stateClone_valid [OF snapshotLoad_valid [OF load]] by simp
  ultimately show ?thesis
    using that auth load version com(1-4) seq by (simp add: res)
qed

text \<open>A command answered as applied was committed.\<close>

lemma applied_committed:
  assumes laws: "storeLaws db"
    and run: "storeApply (Some db) codec w env auth execute = (w', Inr res)"
    and applied: "crDisposition res = DispositionApplied"
  shows "loadReceipt db codec w env = Inr None"
    and "applyInTransaction db codec env auth execute w = (w', Inr res)"
proof -
  have law: "transactionLaw db" using laws by (simp add: storeLaws_def)
  have "loadReceipt db codec w env = Inr None \<and>
      applyInTransaction db codec env auth execute w = (w', Inr res)"
  proof (rule storeApply_cases [OF law run])
    fix r assume "Inr res = (Inr r :: CommandError + CommandResult)"
      "loadReceipt db codec w env = Inr (Some r)"
    with loadReceipt_replayed [of db codec w env r] applied show ?thesis by simp
  qed simp_all
  then show "loadReceipt db codec w env = Inr None"
    and "applyInTransaction db codec env auth execute w = (w', Inr res)" by simp_all
qed

text \<open>Receipts are never changed or removed: a command that has one is not applied again.\<close>

lemma storeApply_receipts:
  assumes laws: "storeLaws db" "codecLaws codec"
    and run: "storeApply (Some db) codec w env auth execute = (w', r)"
    and old: "findReceipt db w m c = Inr (Some receipt)"
  shows "findReceipt db w' m c = Inr (Some receipt)"
proof -
  have parts: "updateLaw db" "insertLaw db" "transactionLaw db" using laws(1) by (simp_all add: storeLaws_def)
  have committed: "findReceipt db w' m c = Inr (Some receipt)"
    if none: "loadReceipt db codec w env = Inr None"
      and body: "applyInTransaction db codec env auth execute w = (w', Inr res)" for res
  proof -
    have "findReceipt db w (envMatchID env) (envCommandID env) = Inr None"
      using none by (auto simp: loadReceipt_def split: sum.splits option.splits if_splits)
    with old have other: "(m, c) \<noteq> (envMatchID env, envCommandID env)" by auto
    show ?thesis
      by (rule applyInTransaction_Inr [OF body none])
         (use commitCommand_Inr(7) [OF parts(1,2) laws(2) _ _ other] old in simp)
  qed
  show ?thesis by (rule storeApply_cases [OF parts(3) run]) (use old committed in simp_all)
qed

text \<open>A command found in the receipts is answered from them.\<close>

lemma storeApply_replay:
  "loadReceipt db codec w env = Inr (Some res) \<Longrightarrow>
     storeApply (Some db) codec w env auth execute = (w, Inr res)"
  by (simp add: storeApply_def)

end
