(* ===== verification/CommandPath.thy ===== *)
theory CommandPath
  imports CommandStore
begin

text \<open>
  The command path as it is wired in production: the orchestrator of \<open>MatchCommand\<close> with the
  transaction store of \<open>CommandStore\<close> and the engine. \<open>request_applied\<close> reduces an applied request
  to one step of the histories of \<open>EngineHistory\<close>; the configuration hash, which the store uses to
  refuse a changed configuration, is shown to be the same along every history.
\<close>

section \<open>The hash of the configuration\<close>

lemma hashedPool_sorted:
  assumes "poolOk (PoolSlots s)" "keysDistinct (PoolSlots s)"
  shows "sorted (map fst (hashedPool s))" "distinct (map fst (hashedPool s))"
    "set (hashedPool s) = (\<lambda>(sid, slot). (sid, slotMod slot)) ` set (PoolSlots s)"
proof -
  have key: "slotID slot = sid" if "(sid, slot) \<in> set (PoolSlots s)" for sid slot
    using assms(1) that by (auto simp: poolOk_def slotOk_def)
  let ?l = "sort_key (\<lambda>(sid, slot). slotID slot) (PoolSlots s)"
  have "map fst (hashedPool s) = map (\<lambda>(sid, slot). slotID slot) ?l"
    by (simp add: hashedPool_def comp_def split_beta)
  then show "sorted (map fst (hashedPool s))" by simp
  have "map fst (hashedPool s) = map fst ?l"
    using key by (auto simp: hashedPool_def)
  moreover have "distinct (map fst ?l)"
    using assms(2) by (simp add: keysDistinct_def distinct_map)
  ultimately show "distinct (map fst (hashedPool s))" by simp
  show "set (hashedPool s) = (\<lambda>(sid, slot). (sid, slotMod slot)) ` set (PoolSlots s)"
    using key by (force simp: hashedPool_def)
qed

lemma poolEvolves_mods:
  assumes "poolEvolves p q" "keysDistinct p" "keysDistinct q"
  shows "(\<lambda>(sid, slot). (sid, slotMod slot)) ` set q = (\<lambda>(sid, slot). (sid, slotMod slot)) ` set p"
proof -
  have keys: "fst ` set q = fst ` set p" using assms(1) by (simp add: poolEvolves_def)
  have fwd: "\<exists>y. (sid, y) \<in> set q \<and> slotMod y = slotMod x" if "(sid, x) \<in> set p" for sid x
    using poolEvolvesD [OF assms(1), of sid x] that
    by (auto simp: mapGet_iff [OF assms(2)] mapGet_iff [OF assms(3)] slotEvolves_def)
  have bwd: "\<exists>x. (sid, x) \<in> set p \<and> slotMod y = slotMod x" if y: "(sid, y) \<in> set q" for sid y
  proof -
    have "sid \<in> fst ` set p" using y keys by force
    then obtain x where x: "(sid, x) \<in> set p" by auto
    from fwd [OF x] obtain y' where "(sid, y') \<in> set q" "slotMod y' = slotMod x" by blast
    then show ?thesis using x y assms(3) mapGet_iff by (metis option.inject)
  qed
  show ?thesis using fwd bwd by (force simp: image_iff)
qed

lemma evolves_hash:
  assumes "sound s" "sound t" "evolves s t"
  shows "stateConfigurationHash codec t = stateConfigurationHash codec s"
proof -
  have ok: "poolOk (PoolSlots s)" "keysDistinct (PoolSlots s)" "poolOk (PoolSlots t)" "keysDistinct (PoolSlots t)"
    using assms(1,2) by (simp_all add: sound_def validState_def coreOk_def mapsOk_def)
  have same: "set (hashedPool t) = set (hashedPool s)"
    using poolEvolves_mods [of "PoolSlots s" "PoolSlots t"] ok assms(3)
    by (simp add: hashedPool_sorted(3) evolves_def)
  have "inj_on fst (set (hashedPool t) \<union> set (hashedPool s))"
    using hashedPool_sorted(2) [OF ok(1,2)] by (simp add: same distinct_map)
  then have "hashedPool t = hashedPool s"
    using hashedPool_sorted(1,2) [OF ok(1,2)] hashedPool_sorted(1,2) [OF ok(3,4)] same
    by (intro map_sorted_distinct_set_unique [of fst])
  then show ?thesis using assms(3) by (simp add: stateConfigurationHash_def evolves_def)
qed

section \<open>One request from end to end\<close>

text \<open>The orchestrator wired with the transaction store.\<close>

definition wired :: "'w Mongo \<Rightarrow> Codec \<Rightarrow> 'w Orchestrator \<Rightarrow> bool" where
  "wired db codec orch \<longleftrightarrow> orchStore orch = Some (storeApply (Some db) codec)"

lemma orchestrator_store:
  assumes run: "orchestratorExecute enc (Some orch) now w request = (w', r)"
    and wired: "orchStore orch = Some store"
  shows "(w' = w \<and> (\<exists>e. r = Inl e)) \<or>
    (\<exists>env users matches rooms. orchUsers orch = Some users \<and> orchMatches orch = Some matches \<and>
       orchRooms orch = Some rooms \<and> now \<noteq> 0 \<and> reqCommand request \<noteq> NilCommand \<and>
       envMatchID env = reqMatchID request \<and> envExpectedVersion env = reqExpectedVersion request \<and>
       envCommandID env = reqCommandID request \<and> envOccurredAt env = now \<and>
       store w env (authorize orch users matches rooms request)
         (engineExecute (reqCommand request) now) = (w', r))"
proof -
  let ?rejected = "w' = w \<and> (\<exists>e. r = Inl e)"
  show ?thesis
  proof (cases "(orchUsers orch, orchMatches orch, orchRooms orch)")
    case (fields u m ro)
    show ?thesis
    proof (cases "\<exists>users matches rooms. u = Some users \<and> m = Some matches \<and> ro = Some rooms")
      case False
      then have ?rejected
        using run fields by (auto simp: orchestratorExecute_def split: option.splits)
      then show ?thesis by blast
    next
      case True
      then obtain users matches rooms where "u = Some users" "m = Some matches" "ro = Some rooms" by blast
      then have wires: "orchUsers orch = Some users" "orchMatches orch = Some matches"
          "orchRooms orch = Some rooms" using fields by simp_all
      show ?thesis
      proof (cases "\<exists>uuid ctype payload hash. encParseUUID enc (reqCommandID request) = Some uuid \<and>
          commandType (reqCommand request) = Some ctype \<and>
          encCommand enc (reqCommand request) = Some payload \<and>
          canonicalRequestHash enc request ctype payload = Some hash")
        case False
        then have ?rejected
          using run by (auto simp: orchestratorExecute_def wires wired split: option.splits if_splits)
        then show ?thesis by blast
      next
        case True
        then obtain uuid ctype payload hash where e: "encParseUUID enc (reqCommandID request) = Some uuid"
          "commandType (reqCommand request) = Some ctype"
          "encCommand enc (reqCommand request) = Some payload"
          "canonicalRequestHash enc request ctype payload = Some hash" by blast
        show ?thesis
          using run unfolding orchestratorExecute_def
          by (auto simp: wires wired e isZeroTime_def split: if_splits)
      qed
    qed
  qed
qed

text \<open>What the orchestrator grants is an authorization for the actor the engine sees.\<close>

definition granted :: "'w Orchestrator \<Rightarrow> 'w \<Rightarrow> Request \<Rightarrow> AuthorizedActor \<Rightarrow> bool" where
  "granted orch w request a \<longleftrightarrow>
     (\<exists>users matches rooms. orchUsers orch = Some users \<and> orchMatches orch = Some matches \<and>
        orchRooms orch = Some rooms \<and>
        (if reqSystem request then authEngineActor a = SystemRefereeActor
         else authorizedUser users matches rooms orch w request a))"

lemma authorize_granted:
  assumes "orchUsers orch = Some users" "orchMatches orch = Some matches" "orchRooms orch = Some rooms"
    and "authorize orch users matches rooms request w = Inr a"
  shows "granted orch w request a"
  using authorize_user [OF assms(4)] authorize_system [OF assms(4)] assms(1-3)
  by (auto simp: granted_def)

lemma request_committed:
  assumes laws: "storeLaws db" "codecLaws codec"
    and wires: "orchUsers orch = Some users" "orchMatches orch = Some matches" "orchRooms orch = Some rooms"
    and now: "now \<noteq> 0" and env: "envMatchID env = reqMatchID request"
      "envExpectedVersion env = reqExpectedVersion request"
    and none: "loadReceipt db codec w env = Inr None"
    and body: "applyInTransaction db codec env (authorize orch users matches rooms request)
         (engineExecute (reqCommand request) now) w = (w', Inr res)"
  obtains a current where "granted orch w request a"
    "snapshotLoad db codec w (reqMatchID request) = Inr current"
    "Version current = reqExpectedVersion request"
    "persists current (authEngineActor a) (reqCommand request) now (crState res)"
    "Version (crState res) = reqExpectedVersion request + 1"
    "snapshotLoad db codec w' (reqMatchID request) = Inr (crState res)"
    "\<And>m. m \<noteq> reqMatchID request \<Longrightarrow> findSnapshot db w' m = findSnapshot db w m"
proof -
  obtain a current tr where
    auth: "authorize orch users matches rooms request w = Inr a"
    and load: "snapshotLoad db codec w (envMatchID env) = Inr current"
      "Version current = envExpectedVersion env"
    and exec: "engineExecute (reqCommand request) now current a = Inr tr"
    and valid: "validState (trState tr)" "Version (trState tr) = Version current + 1"
    and stored: "snapshotLoad db codec w' (envMatchID env) = Inr (trState tr)"
      "\<And>m. m \<noteq> envMatchID env \<Longrightarrow> findSnapshot db w' m = findSnapshot db w m"
    and res: "crState res = trState tr"
    by (rule committed_facts [OF laws none body]) (rule that)
  have "Execute current (authEngineActor a) (reqCommand request) now = Inr tr"
    using exec by (auto simp: engineExecute_def split: sum.splits)
  then have "persists current (authEngineActor a) (reqCommand request) now (crState res)"
    using now valid by (simp add: persists_Some res)
  then show ?thesis
    using that authorize_granted [OF wires auth] load valid(2) stored by (simp add: env res)
qed

lemma request_applied:
  assumes laws: "storeLaws db" "codecLaws codec" and wired: "wired db codec orch"
    and run: "orchestratorExecute enc (Some orch) now w request = (w', Inr res)"
    and applied: "crDisposition res = DispositionApplied"
  obtains a current where "granted orch w request a"
    "snapshotLoad db codec w (reqMatchID request) = Inr current"
    "Version current = reqExpectedVersion request"
    "persists current (authEngineActor a) (reqCommand request) now (crState res)"
    "Version (crState res) = reqExpectedVersion request + 1"
    "snapshotLoad db codec w' (reqMatchID request) = Inr (crState res)"
    "\<And>m. m \<noteq> reqMatchID request \<Longrightarrow> findSnapshot db w' m = findSnapshot db w m"
proof -
  from orchestrator_store [OF run wired [unfolded wired_def]] obtain env users matches rooms where
    wires: "orchUsers orch = Some users" "orchMatches orch = Some matches" "orchRooms orch = Some rooms"
    and now: "now \<noteq> 0" and env: "envMatchID env = reqMatchID request"
      "envExpectedVersion env = reqExpectedVersion request"
    and store: "storeApply (Some db) codec w env (authorize orch users matches rooms request)
         (engineExecute (reqCommand request) now) = (w', Inr res)"
    by auto
  show ?thesis
    by (rule request_committed [OF laws wires now env applied_committed [OF laws(1) store applied]]) (rule that)
qed

text \<open>
  Whatever a request is answered, it has left the database as it was or moved one match by one step of
  the engine; an error of the driver may hide either.
\<close>

lemma request_effect:
  assumes laws: "storeLaws db" "codecLaws codec" and wired: "wired db codec orch"
    and run: "orchestratorExecute enc (Some orch) now w request = (w', r)"
  obtains (same) "w' = w"
  | (moved) a current s where "granted orch w request a"
    "snapshotLoad db codec w (reqMatchID request) = Inr current"
    "Version current = reqExpectedVersion request"
    "persists current (authEngineActor a) (reqCommand request) now s"
    "Version s = reqExpectedVersion request + 1"
    "snapshotLoad db codec w' (reqMatchID request) = Inr s"
    "\<And>m. m \<noteq> reqMatchID request \<Longrightarrow> findSnapshot db w' m = findSnapshot db w m"
proof -
  have law: "transactionLaw db" using laws(1) by (simp add: storeLaws_def)
  from orchestrator_store [OF run wired [unfolded wired_def]] consider "w' = w" | env users matches rooms where
    "orchUsers orch = Some users" "orchMatches orch = Some matches" "orchRooms orch = Some rooms"
    "now \<noteq> 0" "envMatchID env = reqMatchID request" "envExpectedVersion env = reqExpectedVersion request"
    "storeApply (Some db) codec w env (authorize orch users matches rooms request)
         (engineExecute (reqCommand request) now) = (w', r)"
    by blast
  then show ?thesis
  proof cases
    case 2
    show ?thesis
    proof (cases rule: storeApply_cases [OF law 2(7), case_names failed replayed committed lost])
      case (committed res)
      show ?thesis by (rule request_committed [OF laws 2(1-6) committed(2,3)]) (rule moved)
    next
      case (lost res)
      show ?thesis by (rule request_committed [OF laws 2(1-6) lost(2,3)]) (rule moved)
    qed (use same in simp_all)
  qed (rule same)
qed

end
