(* ===== verification/CommandHistory.thy ===== *)
theory CommandHistory
  imports CommandPath
begin

text \<open>
  Sequences of requests: what a retried request finds, and what a database in use has been through.
  The interpretation \<open>database\<close> reads the requests as the steps of a \<open>step_system\<close> whose growth says
  that the snapshot of every match has only been moved by commands of the engine.
\<close>

section \<open>Retries\<close>

text \<open>
  A request that reached the store once reaches it again at every later reading of the clock, with
  an envelope that differs in that reading only.
\<close>

lemma orchestrator_again:
  assumes run: "orchestratorExecute enc (Some orch) now w request = (w', Inr res)"
    and wired: "orchStore orch = Some store"
  obtains env auth where "envMatchID env = reqMatchID request" "envCommandID env = reqCommandID request"
    "store w (env\<lparr>envOccurredAt := now\<rparr>) auth (engineExecute (reqCommand request) now) = (w', Inr res)"
    "\<And>later v. later \<noteq> 0 \<Longrightarrow> orchestratorExecute enc (Some orch) later v request =
       store v (env\<lparr>envOccurredAt := later\<rparr>) auth (engineExecute (reqCommand request) later)"
proof -
  obtain users matches rooms where wires: "orchUsers orch = Some users" "orchMatches orch = Some matches"
      "orchRooms orch = Some rooms"
    using orchestrator_store [OF run wired] by auto
  obtain uuid ctype payload hash where e: "encParseUUID enc (reqCommandID request) = Some uuid"
      "commandType (reqCommand request) = Some ctype"
      "encCommand enc (reqCommand request) = Some payload"
      "canonicalRequestHash enc request ctype payload = Some hash"
    using run by (auto simp: orchestratorExecute_def wires wired split: option.splits if_splits)
  let ?env = "\<lparr>envMatchID = reqMatchID request, envExpectedVersion = reqExpectedVersion request,
       envCommandID = reqCommandID request, envCommandType = ctype, envRequestHash = hash,
       envPayloadJSON = payload, envOccurredAt = now\<rparr>"
  have checks: "reqMatchID request \<noteq> NilObjectID" "reqCommand request \<noteq> NilCommand"
      "reqSystem request \<or> 0 < reqCallerOsuID request" "uuid \<noteq> 0" "now \<noteq> 0"
    using run by (auto simp: orchestratorExecute_def wires wired e isZeroTime_def split: if_splits)
  have again: "orchestratorExecute enc (Some orch) later v request =
      store v (?env\<lparr>envOccurredAt := later\<rparr>) (authorize orch users matches rooms request)
        (engineExecute (reqCommand request) later)" if "later \<noteq> 0" for later v
    using checks that by (auto simp: orchestratorExecute_def wires wired e isZeroTime_def)
  then show ?thesis
    using that [of ?env "authorize orch users matches rooms request"] run checks(5) by simp
qed

lemma loadReceipt_clock: "loadReceipt db codec w (env\<lparr>envOccurredAt := t\<rparr>) = loadReceipt db codec w env"
  by (simp add: loadReceipt_def cong: sum.case_cong option.case_cong)

text \<open>
  A request that is not applied writes nothing, unless it is answered by an error of the driver, which
  leaves open whether it has been written.
\<close>

lemma storeApply_unapplied:
  assumes laws: "storeLaws db"
    and run: "storeApply (Some db) codec w env auth execute = (w', r)"
    and rejected: "case r of Inl e \<Rightarrow> e \<noteq> RawError False | Inr res \<Rightarrow> crDisposition res \<noteq> DispositionApplied"
  shows "w' = w"
proof -
  have t: "transactionLaw db" using laws by (simp add: storeLaws_def)
  show ?thesis
  proof (rule storeApply_cases [OF t run])
    fix res assume "r = Inr res" "applyInTransaction db codec env auth execute w = (w', Inr res)"
      "loadReceipt db codec w env = Inr None"
    moreover from this(2,3) have "crDisposition res = DispositionApplied"
      by (rule applyInTransaction_Inr)
         (auto simp: commitCommand_def Let_def split: prod.splits sum.splits option.splits if_splits)
    ultimately show "w' = w" using rejected by simp
  qed (use rejected in simp_all)
qed

lemma request_unapplied:
  assumes "storeLaws db" "wired db codec orch"
    and "orchestratorExecute enc (Some orch) now w request = (w', r)"
    and "case r of Inl e \<Rightarrow> e \<noteq> RawError False | Inr res \<Rightarrow> crDisposition res \<noteq> DispositionApplied"
  shows "w' = w"
  using orchestrator_store [OF assms(3) assms(2) [unfolded wired_def]] storeApply_unapplied [OF assms(1) _ assms(4)]
  by blast

section \<open>Histories of the database\<close>

text \<open>
  One request, accepted or not, against a database that keeps its laws; what is known of a database
  in use, and how a database may change.
\<close>

definition served :: "'w Mongo \<Rightarrow> Codec \<Rightarrow> Encoders \<Rightarrow> 'w Orchestrator \<Rightarrow> 'w \<Rightarrow> 'w \<Rightarrow> bool" where
  "served db codec enc orch w w' \<longleftrightarrow>
     storeLaws db \<and> codecLaws codec \<and> wired db codec orch \<and>
     (\<exists>now request r. orchestratorExecute enc (Some orch) now w request = (w', r))"

definition playedFrom :: "'w Mongo \<Rightarrow> Codec \<Rightarrow> 'w \<Rightarrow> 'w \<Rightarrow> bool" where
  "playedFrom db codec w w' \<longleftrightarrow>
     (\<forall>m s. snapshotLoad db codec w m = Inr s \<longrightarrow>
        (\<exists>t. snapshotLoad db codec w' m = Inr t \<and> persisted\<^sup>*\<^sup>* s t)) \<and>
     (\<forall>m c receipt. findReceipt db w m c = Inr (Some receipt) \<longrightarrow>
        findReceipt db w' m c = Inr (Some receipt))"

lemma playedFromI:
  assumes "\<And>m s. snapshotLoad db codec w m = Inr s \<Longrightarrow>
      \<exists>t. snapshotLoad db codec w' m = Inr t \<and> persisted\<^sup>*\<^sup>* s t"
    and "\<And>m c receipt. findReceipt db w m c = Inr (Some receipt) \<Longrightarrow>
      findReceipt db w' m c = Inr (Some receipt)"
  shows "playedFrom db codec w w'"
  using assms by (simp add: playedFrom_def)

text \<open>What a receipt answers it answers for good.\<close>

lemma playedFrom_receipt:
  "playedFrom db codec w w' \<Longrightarrow> loadReceipt db codec w env = Inr (Some res) \<Longrightarrow>
     loadReceipt db codec w' env = Inr (Some res)"
  by (auto simp: playedFrom_def loadReceipt_def split: sum.splits option.splits)

lemma orchestrator_receipts:
  assumes laws: "storeLaws db" "codecLaws codec" "wired db codec orch"
    and run: "orchestratorExecute enc (Some orch) now w request = (w', r)"
    and old: "findReceipt db w m c = Inr (Some receipt)"
  shows "findReceipt db w' m c = Inr (Some receipt)"
proof -
  from orchestrator_store [OF run laws(3) [unfolded wired_def]]
  consider "w' = w" | env auth where
    "storeApply (Some db) codec w env auth (engineExecute (reqCommand request) now) = (w', r)" by blast
  then show ?thesis using storeApply_receipts [OF laws(1,2)] old by cases blast+
qed

lemma playedFrom_trans:
  assumes "playedFrom db codec w v" "playedFrom db codec v u"
  shows "playedFrom db codec w u"
proof (rule playedFromI)
  fix m s assume "snapshotLoad db codec w m = Inr s"
  with assms(1) obtain t where t: "snapshotLoad db codec v m = Inr t" "persisted\<^sup>*\<^sup>* s t"
    unfolding playedFrom_def by blast
  with assms(2) obtain t' where "snapshotLoad db codec u m = Inr t'" "persisted\<^sup>*\<^sup>* t t'"
    unfolding playedFrom_def by blast
  with t show "\<exists>t. snapshotLoad db codec u m = Inr t \<and> persisted\<^sup>*\<^sup>* s t" by (auto intro: rtranclp_trans)
qed (use assms in \<open>simp add: playedFrom_def\<close>)

lemma served_playedFrom:
  assumes "served db codec enc orch w w'"
  shows "playedFrom db codec w w'"
proof -
  from assms obtain now request r where laws: "storeLaws db" "codecLaws codec" "wired db codec orch"
    and run: "orchestratorExecute enc (Some orch) now w request = (w', r)"
    by (auto simp: served_def)
  show ?thesis
  proof (cases rule: request_effect [OF laws run, case_names same moved])
    case same
    then show ?thesis by (auto simp: playedFrom_def)
  next
    case (moved a current t)
    note here = moved(2,4,6) and other = moved(7)
    have step: "persisted\<^sup>*\<^sup>* current t" using here(2) by (auto intro: persisted.intros)
    show ?thesis
    proof (rule playedFromI)
      fix m s assume load: "snapshotLoad db codec w m = Inr s"
      show "\<exists>t. snapshotLoad db codec w' m = Inr t \<and> persisted\<^sup>*\<^sup>* s t"
      proof (cases "m = reqMatchID request")
        case True
        then show ?thesis using load here step by auto
      next
        case False
        then have "snapshotLoad db codec w' m = Inr s"
          using other load by (intro snapshotLoad_cong [of db w' m w])
        then show ?thesis by blast
      qed
    qed (rule orchestrator_receipts [OF laws run])
  qed
qed

interpretation database: step_system "served db codec enc orch" "\<lambda>w. True" "playedFrom db codec"
  for db codec enc orch
  by unfold_locales (auto simp: served_playedFrom playedFrom_trans, simp add: playedFrom_def)

lemma database_played:
  "(served db codec enc orch)\<^sup>*\<^sup>* w w' \<Longrightarrow> playedFrom db codec w w'"
  by (erule database.runs_grow) simp

lemma reachable_run: "persisted\<^sup>*\<^sup>* s t \<Longrightarrow> reachable cfg s \<Longrightarrow> reachable cfg t"
  by (induction rule: rtranclp_induct) (auto intro: reachable.command)

lemma run_hash:
  assumes "persisted\<^sup>*\<^sup>* s t" and "reachable cfg s"
  shows "stateConfigurationHash codec t = stateConfigurationHash codec s"
  using assms game.runs_keep reachable_sound by (blast intro: evolves_hash)

end
