(* ===== verification/SamplePath.thy ===== *)
theory SamplePath
  imports CommandPath Samples
begin

text \<open>
  A concrete database that satisfies \<open>storeLaws\<close>, encoders that satisfy \<open>codecLaws\<close>, and two requests
  run through the whole command path on them: the start of a match, which is applied, and the
  abort of a match that waits for a result, which is refused with \<open>INTERNAL_ERROR\<close>. The theorems
  about the command path are applied at these inputs.
\<close>

section \<open>A database\<close>

text \<open>Two collections as finite maps and the outbox as a list.\<close>

record SampleWorld =
  swSnapshots :: "(ObjectID, MatchSnapshotDocument) gomap"
  swReceipts :: "(ObjectID \<times> string, MatchCommandReceiptDocument) gomap"
  swOutbox :: "MatchOutboxDocument list"

definition sampleUpdate ::
  "'a SampleWorld_scheme \<Rightarrow> SnapshotFilter \<Rightarrow> SnapshotUpdate
   \<Rightarrow> 'a SampleWorld_scheme \<times> (unit + nat)" where
  "sampleUpdate w f u =
     (case mapGet (swSnapshots w) (sfMatchID f) of
        None \<Rightarrow> (w, Inr 0)
      | Some d \<Rightarrow>
          if filterMatches f d then
            (w\<lparr>swSnapshots := mapPut (sfMatchID f)
                 (d\<lparr>docSchemaVersion := suSchemaVersion u, docMatchVersion := suMatchVersion u,
                    docState := suState u,
                    docUpdatedAt := suUpdatedAt u\<rparr>)
                 (swSnapshots w)\<rparr>, Inr 1)
          else (w, Inr 0))"

definition sampleMongo :: "'a SampleWorld_scheme Mongo" where
  "sampleMongo =
     \<lparr>findSnapshot = (\<lambda>w m. Inr (mapGet (swSnapshots w) m)),
      findLegacyMatch = (\<lambda>w m. Inr False),
      insertSnapshot = (\<lambda>w d.
        if mapGet (swSnapshots w) (docMatchID d) = None
        then (w\<lparr>swSnapshots := mapPut (docMatchID d) d (swSnapshots w)\<rparr>, Inr ())
        else (w, Inl True)),
      updateSnapshot = sampleUpdate,
      findReceipt = (\<lambda>w m c. Inr (mapGet (swReceipts w) (m, c))),
      findLatestSequence = (\<lambda>w m.
        case filter (\<lambda>d. obMatchID d = m) (swOutbox w) of
          [] \<Rightarrow> Inr None
        | d # ds \<Rightarrow> Inr (Some (fold max (map obSequence ds) (obSequence d)))),
      insertAction = (\<lambda>w a. (w, Inr ())),
      insertOutbox = (\<lambda>w ds. (w\<lparr>swOutbox := swOutbox w @ ds\<rparr>, Inr ())),
      insertReceipt = (\<lambda>w r.
        if mapGet (swReceipts w) (rcMatchID r, rcCommandID r) = None
        then (w\<lparr>swReceipts := mapPut (rcMatchID r, rcCommandID r) r (swReceipts w)\<rparr>, Inr ())
        else (w, Inl True)),
      startSession = (\<lambda>w. True),
      withTransaction = (\<lambda>w f. case f w of (w', Inr r) \<Rightarrow> (w', Inr r) | (w', Inl e) \<Rightarrow> (w, Inl e))\<rparr>"

lemma sampleUpdate_law: "updateLaw sampleMongo"
  unfolding updateLaw_def
proof (intro allI impI)
  fix w f u w' n
  assume run: "updateSnapshot sampleMongo w f u = (w', Inr n)"
  let ?upd = "\<lambda>d. d\<lparr>docSchemaVersion := suSchemaVersion u, docMatchVersion := suMatchVersion u,
                 docState := suState u, docUpdatedAt := suUpdatedAt u\<rparr>"
  consider (hit) d where "mapGet (swSnapshots w) (sfMatchID f) = Some d" "filterMatches f d" "n = 1"
      "w' = w\<lparr>swSnapshots := mapPut (sfMatchID f) (?upd d) (swSnapshots w)\<rparr>"
    | (miss) "n = 0" "w' = w"
    using run by (auto simp: sampleMongo_def sampleUpdate_def split: option.splits if_splits)
  then show "updateEffect sampleMongo w f u w' n"
  proof cases
    case hit
    then have "docUpdatedAt d \<le> sfUpdatedAtMost f" by (simp add: filterMatches_def)
    with hit show ?thesis
      by (simp add: sampleMongo_def updateEffect_def) (rule exI [of _ "suUpdatedAt u"], simp)
  next
    case miss
    then show ?thesis by (simp add: updateEffect_def)
  qed
qed

lemma sampleInsert_law: "insertLaw sampleMongo"
proof -
  have "\<exists>t. r = r\<lparr>rcCreatedAt := t\<rparr>" for r :: MatchCommandReceiptDocument
    by (rule exI [of _ "rcCreatedAt r"]) simp
  then show ?thesis by (auto simp: insertLaw_def sampleMongo_def split: if_splits)
qed

lemma sampleTransaction_law: "transactionLaw sampleMongo"
  by (auto simp: transactionLaw_def sampleMongo_def split: prod.splits sum.splits)

lemma sample_laws: "storeLaws sampleMongo"
  by (simp add: storeLaws_def sampleUpdate_law sampleInsert_law sampleTransaction_law)

section \<open>Encoders\<close>

text \<open>
  A value is encoded by its position in a finite table; JSON becomes BSON by a leading mark. The
  table holds the values that the sample requests encode.
\<close>

fun indexOf :: "'a \<Rightarrow> 'a list \<Rightarrow> nat option" where
  "indexOf x [] = None"
| "indexOf x (y # ys) = (if x = y then Some 0 else map_option Suc (indexOf x ys))"

lemma indexOf_Some: "indexOf x xs = Some i \<Longrightarrow> i < length xs \<and> xs ! i = x"
  by (induction xs arbitrary: i) (auto split: if_splits)

definition tableEncode :: "'a list \<Rightarrow> 'a \<Rightarrow> string option" where
  "tableEncode table x = map_option (\<lambda>i. replicate i CHR ''x'') (indexOf x table)"

definition tableDecode :: "'a list \<Rightarrow> string \<Rightarrow> 'a option" where
  "tableDecode table j = (if length j < length table then Some (table ! length j) else None)"

lemma table_roundtrip: "tableEncode table x = Some j \<Longrightarrow> tableDecode table j = Some x"
  by (auto simp: tableEncode_def tableDecode_def dest: indexOf_Some)

definition sampleUser :: User where
  "sampleUser =
     \<lparr>userID = 5, userVerifyStatus = Verified, userIsBanned = False, userOnlineID = 100,
      userGlobalRank = 0, userPP = 0, userUsername = ''referee'', userAvatarURL = [],
      userCountryCode = ''EU'', userRoles = [RoleReferee], userCreatedAt = 0, userUpdatedAt = 0\<rparr>"

definition sampleTeam :: "ObjectID \<Rightarrow> int \<Rightarrow> Team" where
  "sampleTeam tid leader =
     \<lparr>teamID = tid, teamName = ''team'', teamDescription = None, teamSeed = None,
      teamLeaderID = Some leader, teamStrategistID = Some (leader + 1),
      teamPlayers = [leader + 2, leader + 3], teamCreatedAt = 0, teamUpdatedAt = 0\<rparr>"

definition sampleRoom :: "ObjectID \<Rightarrow> Room" where
  "sampleRoom rid =
     \<lparr>roomID = rid, roomCode = ''ABC234'', roomName = ''room'', roomType = RoomTypeMatch,
      roomOwnerID = 7, roomRefereeUserID = Some 100, roomRound = RoundWarmup,
      roomScheduledAt = Some (1 * second), roomStreamerUserID = None, roomRedTeamID = None,
      roomBlueTeamID = None, roomMappoolID = None, roomFirstPick = Some TeamSideRed,
      roomFirstBan = Some TeamSideBlue, roomMPLink = None, roomStreamLink = None,
      roomMatchID = Some rid, roomSeasonID = None, roomFixtureID = None, roomWeekIndex = 1,
      roomCreatedAt = 0, roomUpdatedAt = 0\<rparr>"

definition sampleMatch :: "ObjectID \<Rightarrow> MatchStatus \<Rightarrow> Match" where
  "sampleMatch mid status =
     (NewMatch 0 (sampleRoom mid) (teamSnapshot (sampleTeam 11 10) TeamSideRed)
        (teamSnapshot (sampleTeam 12 20) TeamSideBlue) NewPool)
       \<lparr>matchID := mid, matchStatus := status\<rparr>"

lemma sampleShell [simp]:
  "matchRoomID (sampleMatch mid status) = mid"
  "matchRoomType (sampleMatch mid status) = RoomTypeMatch"
  "matchStatus (sampleMatch mid status) = status"
  "roomID (sampleRoom rid) = rid" "roomType (sampleRoom rid) = RoomTypeMatch"
  "roomRefereeUserID (sampleRoom rid) = Some 100" "roomMatchID (sampleRoom rid) = Some rid"
  "roomRedTeamID (sampleRoom rid) = None" "roomBlueTeamID (sampleRoom rid) = None"
  by (simp_all add: sampleMatch_def NewMatch_def sampleRoom_def)

definition sampleActor :: "string \<Rightarrow> AuthorizedActor" where
  "sampleActor reason =
     \<lparr>authUserID = 5, authOsuID = 100, authGlobalRoles = [''referee''],
      authEngineActor = RefereeActor, authAdminOverride = False, authRefereeOverride = False,
      authReason = reason\<rparr>"

definition committedAt :: "Time \<Rightarrow> 64 word \<Rightarrow> 64 word \<Rightarrow> Event list \<Rightarrow> CommittedEvent list" where
  "committedAt now version lastSeq evs =
     map (\<lambda>(i, ev). committedEvent
            \<lparr>envMatchID = 1, envExpectedVersion = 0, envCommandID = '''', envCommandType = '''',
             envRequestHash = '''', envPayloadJSON = '''', envOccurredAt = now\<rparr>
            (commandActorDocument (sampleActor '''')) version (replicate i CHR ''e'')
            (lastSeq + of_nat i + 1) ev)
       (enumerate 0 evs)"

definition startTransition :: Transition where
  "startTransition = projr (Execute sampleStart RefereeActor StartMatch (1 * second))"

definition abortTransition :: Transition where
  "abortTransition = projr (Execute sampleWaiting RefereeActor (AbortMatch ''storm'') (420 * second))"

definition tableCodec :: "State list \<Rightarrow> CommittedEvent list list \<Rightarrow> Codec" where
  "tableCodec states batches =
     \<lparr>marshalState = tableEncode states, unmarshalState = tableDecode states,
      jsonToBSON = (\<lambda>j. Some (CHR ''#'' # j)), bsonToJSON = (\<lambda>b. Some (tl b)),
      bsonValid = (\<lambda>b. b \<noteq> []),
      marshalConfiguration = (\<lambda>c. Some ''configuration''), sha256Hex = (\<lambda>x. ''digest''),
      marshalEvent = (\<lambda>e. Some ''event''), marshalCommitted = (\<lambda>e. Some ''event''),
      marshalCommittedList = tableEncode batches, unmarshalCommittedList = tableDecode batches,
      freshEventID = (\<lambda>i. replicate i CHR ''e'')\<rparr>"

lemma tableCodec_simps [simp]:
  "marshalState (tableCodec ss ls) = tableEncode ss"
  "unmarshalState (tableCodec ss ls) = tableDecode ss"
  "jsonToBSON (tableCodec ss ls) j = Some (CHR ''#'' # j)"
  "bsonToJSON (tableCodec ss ls) j = Some (tl j)"
  "bsonValid (tableCodec ss ls) j = (j \<noteq> [])" "sha256Hex (tableCodec ss ls) x = ''digest''"
  "marshalCommittedList (tableCodec ss ls) = tableEncode ls"
  "unmarshalCommittedList (tableCodec ss ls) = tableDecode ls"
  by (simp_all only: tableCodec_def Codec.select_convs)

lemma tableCodec_laws: "codecLaws (tableCodec ss ls)"
  unfolding codecLaws_def tableCodec_simps
  by (intro conjI allI impI; (erule table_roundtrip | force))

definition startCodec :: Codec where
  "startCodec =
     tableCodec [sampleStart, trState startTransition]
       [committedAt (1 * second) 1 0 (trEvents startTransition)]"

definition abortCodec :: Codec where
  "abortCodec =
     tableCodec [sampleWaiting, trState abortTransition]
       [committedAt (420 * second) 7 0 (trEvents abortTransition)]"

lemma sampleCodec_laws: "codecLaws startCodec" "codecLaws abortCodec"
  by (simp_all add: startCodec_def abortCodec_def tableCodec_laws)

section \<open>Requests\<close>

text \<open>Every match has its own room; the one user is the assigned referee of each.\<close>

definition sampleOrchestrator :: "Codec \<Rightarrow> SampleWorld Orchestrator" where
  "sampleOrchestrator codec =
     \<lparr>orchStore = Some (storeApply (Some sampleMongo) codec),
      orchUsers = Some (\<lambda>w uid. if uid = 100 then Inr sampleUser else Inl LookupNotFound),
      orchMatches = Some (\<lambda>w mid.
        Inr (sampleMatch mid MatchStatusReady)),
      orchRooms = Some (\<lambda>w rid. Inr (sampleRoom rid)),
      orchTeams = None\<rparr>"

definition sampleEncoders :: Encoders where
  "sampleEncoders =
     \<lparr>encParseUUID = (\<lambda>c. Some 1), encCommand = (\<lambda>c. Some ''{}''), encHex = (\<lambda>i. ''id''),
      encCanonical = (\<lambda>x. Some ''request''), encSha256 = (\<lambda>x. x)\<rparr>"

definition worldOf :: "Codec \<Rightarrow> State \<Rightarrow> SampleWorld" where
  "worldOf codec s =
     \<lparr>swSnapshots = [(1, the (NewMatchSnapshotDocument codec 1 s (1 * second)))],
      swReceipts = [], swOutbox = []\<rparr>"

definition requestOf :: "64 word \<Rightarrow> Command \<Rightarrow> Request" where
  "requestOf version command =
     \<lparr>reqMatchID = 1, reqExpectedVersion = version, reqCommandID = ''c1'',
      reqCallerOsuID = 100, reqCommand = command, reqSystem = False\<rparr>"

text \<open>The assigned referee starts a match; she aborts one that waits for a result.\<close>

definition startRun :: "SampleWorld \<times> (CommandError + CommandResult)" where
  "startRun = orchestratorExecute sampleEncoders (Some (sampleOrchestrator startCodec)) (1 * second)
                (worldOf startCodec sampleStart) (requestOf 0 StartMatch)"

definition abortRun :: "SampleWorld \<times> (CommandError + CommandResult)" where
  "abortRun = orchestratorExecute sampleEncoders (Some (sampleOrchestrator abortCodec)) (420 * second)
                (worldOf abortCodec sampleWaiting) (requestOf 6 (AbortMatch ''storm''))"

lemma startRun_outcome:
  "case snd startRun of
     Inl _ \<Rightarrow> False
   | Inr res \<Rightarrow> crDisposition res = DispositionApplied \<and> map ceSequence (crEvents res) = [1, 2, 3]"
  by code_simp

lemma abortRun_outcome: "snd abortRun = Inl (NewError INTERNAL_ERROR)"
  by code_simp

text \<open>The same start as a call of the store, with the request hash as an argument.\<close>

definition sampleEnvelope :: "string \<Rightarrow> Envelope" where
  "sampleEnvelope hash =
     \<lparr>envMatchID = 1, envExpectedVersion = 0, envCommandID = ''c1'', envCommandType = ''START_MATCH'',
      envRequestHash = hash, envPayloadJSON = ''{}'', envOccurredAt = 1 * second\<rparr>"

definition startApply :: "SampleWorld \<times> (CommandError + CommandResult)" where
  "startApply = storeApply (Some sampleMongo) startCodec (worldOf startCodec sampleStart)
     (sampleEnvelope ''h1'') (\<lambda>w. Inr (sampleActor '''')) (engineExecute StartMatch (1 * second))"

lemma startApply_outcome:
  "case snd startApply of Inl _ \<Rightarrow> False | Inr res \<Rightarrow> crDisposition res = DispositionApplied"
  by code_simp

lemma applied_pair:
  assumes "case snd run of Inl _ \<Rightarrow> False | Inr res \<Rightarrow> P res"
  shows "\<exists>w' res. run = (w', Inr res) \<and> P res"
  using assms by (cases run) (auto split: sum.splits)

lemmas startRun_applied = applied_pair [OF startRun_outcome]
  and startApply_applied = applied_pair [OF startApply_outcome]

lemma sampleOrchestrator_wired: "wired sampleMongo codec (sampleOrchestrator codec)"
  by (simp add: wired_def sampleOrchestrator_def)

lemma worldOf_load: "snapshotLoad sampleMongo startCodec (worldOf startCodec sampleStart) 1 = Inr sampleStart"
  by code_simp

end
