(* ===== verification/CommandClaims.thy ===== *)
theory CommandClaims
  imports CommandHistory SamplePath
begin

text \<open>
  The properties of the command path: who may send a command, what an applied request has done to
  the database, and what retries and refused requests do.
\<close>

section \<open>Authorization\<close>

text \<open>
  A command the engine accepts was sent by an actor with the one capability its class asks for:
  a strategist's command by the strategist of the active team, a captain's command by a captain of
  one of the two teams, every other command by a referee. Only \<open>StartMatch\<close> is also open to an
  actor with an administrator's override.
\<close>

theorem accepted_entitled:
  assumes "Execute s actor c now = Inr tr"
  shows "entitled s actor c"
  by (rule Execute_entitled [OF assms])

theorem accepted_entitled_witness: "entitled sampleStart RefereeActor StartMatch"
proof -
  have "case Execute sampleStart RefereeActor StartMatch (1 * second) of Inl _ \<Rightarrow> False | Inr _ \<Rightarrow> True"
    by code_simp
  then show ?thesis using accepted_entitled by (auto split: sum.splits)
qed

text \<open>
  \<open>actorForCommand\<close> gives a user exactly the actor \<open>mayAct\<close> describes: a referee's or proxy command
  needs an administrator or the referee assigned to the room who still holds the referee role, a
  strategist's command needs the strategist role and the office of strategist in exactly one of
  the room's two teams, a captain's command the office of leader in exactly one. The override of
  an administrator is recorded only where the user is not the assigned referee, and the referee
  override exactly on proxy commands.
\<close>

theorem actor_assignment:
  "actorForCommand user room redTeam blueTeam c = Inr (actor, admin, referee) \<longleftrightarrow>
     mayAct user room redTeam blueTeam c actor \<and>
     admin = ((isRefereeCommand c \<or> isRefereeProxyCommand c) \<and> RoleAdmin \<in> set (userRoles user) \<and>
              \<not> assignedReferee user room) \<and>
     referee = isRefereeProxyCommand c"
  by (rule actorForCommand_iff)

text \<open>
  C31: An authorization granted to a user rests on a verified user who is not banned, on a
  formal room that points back at the match, on the two teams of that room and, for \<open>StartMatch\<close>, on
  a match that is ready; the actor handed to the engine has exactly the capability the command
  requires and never an override. A system request is only ever granted the system referee.
\<close>

theorem authorization_sound:
  assumes "authorize orch users matches rooms request w = Inr a"
  shows "(if reqSystem request then
            authEngineActor a = SystemRefereeActor \<and> authAdminOverride a \<and> authOsuID a = 0
          else
            authorizedUser users matches rooms orch w request a \<and>
            actorCapability (authEngineActor a) = requiredCapability (reqCommand request) \<and>
            \<not> actorAdminOverride (authEngineActor a))"
  using authorize_user [OF assms] authorize_system [OF assms] authorize_capability [OF assms] by auto

theorem authorization_sound_witness:
  "\<exists>a users matches rooms. orchUsers (sampleOrchestrator startCodec) = Some users \<and>
     authorizedUser users matches rooms (sampleOrchestrator startCodec) (worldOf startCodec sampleStart)
       (requestOf 0 StartMatch) a"
proof -
  let ?o = "sampleOrchestrator startCodec"
  let ?run = "authorize ?o (the (orchUsers ?o)) (the (orchMatches ?o)) (the (orchRooms ?o))
      (requestOf 0 StartMatch) (worldOf startCodec sampleStart)"
  have "case ?run of Inl _ \<Rightarrow> False | Inr _ \<Rightarrow> True" by code_simp
  then obtain a where run: "?run = Inr a" by (auto split: sum.splits)
  have "\<not> reqSystem (requestOf 0 StartMatch)" by (simp add: requestOf_def)
  then have "authorizedUser (the (orchUsers ?o)) (the (orchMatches ?o)) (the (orchRooms ?o)) ?o
      (worldOf startCodec sampleStart) (requestOf 0 StartMatch) a"
    using authorization_sound [OF run] by simp
  moreover have "orchUsers ?o = Some (the (orchUsers ?o))" by (simp add: sampleOrchestrator_def)
  ultimately show ?thesis by blast
qed

section \<open>Applied requests\<close>

text \<open>
  C11: Refinement, end to end: a request answered as applied was granted to its sender by the
  authorization, found the stored snapshot at the version it expected, and moved that snapshot by
  exactly one step of the engine's histories to the state it returns, whose version is the next;
  the snapshots of all other matches are untouched.
\<close>

theorem request_refines:
  assumes "storeLaws db" "codecLaws codec" "wired db codec orch"
    and "orchestratorExecute enc (Some orch) now w request = (w', Inr res)"
    and "crDisposition res = DispositionApplied"
  shows "\<exists>a current. granted orch w request a \<and>
     snapshotLoad db codec w (reqMatchID request) = Inr current \<and>
     Version current = reqExpectedVersion request \<and>
     persists current (authEngineActor a) (reqCommand request) now (crState res) \<and>
     Version (crState res) = reqExpectedVersion request + 1 \<and>
     snapshotLoad db codec w' (reqMatchID request) = Inr (crState res) \<and>
     (\<forall>m. m \<noteq> reqMatchID request \<longrightarrow> findSnapshot db w' m = findSnapshot db w m)"
  by (rule request_applied [OF assms]) blast

theorem request_refines_witness:
  "\<exists>w' res a current. startRun = (w', Inr res) \<and>
     granted (sampleOrchestrator startCodec) (worldOf startCodec sampleStart) (requestOf 0 StartMatch) a \<and>
     persists current (authEngineActor a) StartMatch (1 * second) (crState res) \<and>
     Version (crState res) = 1"
proof -
  obtain w' res where run: "startRun = (w', Inr res)" "crDisposition res = DispositionApplied"
    using startRun_applied by blast
  show ?thesis
    using request_refines [OF sample_laws sampleCodec_laws(1) sampleOrchestrator_wired
        run(1) [unfolded startRun_def] run(2)] run(1)
    by (auto simp: requestOf_def)
qed

text \<open>
  A request that is not applied writes nothing, but for the errors of the driver: whether it was
  malformed, not authorized, refused by the engine, late for its version, refused because its result
  fails \<open>ValidateState\<close>, or answered from a receipt, the database is left as it was. An error of the
  driver leaves open whether the transaction was committed.
\<close>

theorem unapplied_writes_nothing:
  assumes "storeLaws db" "wired db codec orch"
    and "orchestratorExecute enc (Some orch) now w request = (w', r)"
    and "r \<noteq> Inl (RawError False)" and "\<forall>res. r = Inr res \<longrightarrow> crDisposition res \<noteq> DispositionApplied"
  shows "w' = w"
proof -
  have "case r of Inl e \<Rightarrow> e \<noteq> RawError False | Inr res \<Rightarrow> crDisposition res \<noteq> DispositionApplied"
    using assms(4,5) by (cases r) simp_all
  then show ?thesis by (rule request_unapplied [OF assms(1-3)])
qed

theorem unapplied_writes_nothing_witness:
  "snd abortRun = Inl (NewError INTERNAL_ERROR) \<and> fst abortRun = worldOf abortCodec sampleWaiting"
proof -
  obtain w' r where run: "abortRun = (w', r)" by fastforce
  have r: "r = Inl (NewError INTERNAL_ERROR)" using abortRun_outcome run by (metis snd_conv)
  have "w' = worldOf abortCodec sampleWaiting"
    using unapplied_writes_nothing [OF sample_laws sampleOrchestrator_wired run [unfolded abortRun_def]] r
    by (simp add: NewError_def)
  then show ?thesis using run r by (metis fst_conv snd_conv)
qed

section \<open>Retries\<close>

text \<open>
  C2: Exactly once: however much the database has been through since a request was applied, the
  same request sent again, at any reading of the clock, is answered with the result it had, marked
  as replayed, and changes nothing, although the match has moved on and the sender may have lost
  his office.
\<close>

theorem retry_replays:
  assumes laws: "storeLaws db" "codecLaws codec" and wired: "wired db codec orch"
    and run: "orchestratorExecute enc (Some orch) now w request = (w', Inr res)"
    and applied: "crDisposition res = DispositionApplied"
    and since: "(served db codec enc orch)\<^sup>*\<^sup>* w' v" and clock: "later \<noteq> 0"
  shows "orchestratorExecute enc (Some orch) later v request =
    (v, Inr (res\<lparr>crDisposition := DispositionReplayed\<rparr>))"
proof -
  let ?store = "storeApply (Some db) codec"
  obtain env auth where
    call: "?store w (env\<lparr>envOccurredAt := now\<rparr>) auth (engineExecute (reqCommand request) now) = (w', Inr res)"
    and again: "\<And>later v. later \<noteq> 0 \<Longrightarrow> orchestratorExecute enc (Some orch) later v request =
       ?store v (env\<lparr>envOccurredAt := later\<rparr>) auth (engineExecute (reqCommand request) later)"
    by (rule orchestrator_again [OF run wired [unfolded wired_def]]) (rule that)
  have "loadReceipt db codec w' (env\<lparr>envOccurredAt := now\<rparr>) =
      Inr (Some (res\<lparr>crDisposition := DispositionReplayed\<rparr>))"
    by (rule committed_facts [OF laws applied_committed [OF laws(1) call applied]])
  then have "loadReceipt db codec v (env\<lparr>envOccurredAt := later\<rparr>) =
      Inr (Some (res\<lparr>crDisposition := DispositionReplayed\<rparr>))"
    using playedFrom_receipt [OF database_played [OF since]] by (simp add: loadReceipt_clock)
  then show ?thesis by (simp add: again [OF clock] storeApply_replay)
qed

theorem retry_replays_witness:
  "\<exists>w' res. startRun = (w', Inr res) \<and>
     orchestratorExecute sampleEncoders (Some (sampleOrchestrator startCodec)) (90 * second) w'
       (requestOf 0 StartMatch) = (w', Inr (res\<lparr>crDisposition := DispositionReplayed\<rparr>))"
proof -
  obtain w' res where run: "startRun = (w', Inr res)" "crDisposition res = DispositionApplied"
    using startRun_applied by blast
  have "(90 * second :: Time) \<noteq> 0" by code_simp
  from retry_replays [OF sample_laws sampleCodec_laws(1) sampleOrchestrator_wired
      run(1) [unfolded startRun_def] run(2) rtranclp.rtrancl_refl this]
  show ?thesis using run(1) by blast
qed

text \<open>
  A command id stands for one request: once a command has been applied, a request for the same
  match and command id with another hash is refused with \<open>DUPLICATE_COMMAND_MISMATCH\<close> for good, and
  changes nothing.
\<close>

theorem other_request_refused:
  assumes laws: "storeLaws db" "codecLaws codec"
    and run: "storeApply (Some db) codec w env auth execute = (w', Inr res)"
    and applied: "crDisposition res = DispositionApplied"
    and since: "(served db codec enc orch)\<^sup>*\<^sup>* w' v"
    and same: "envMatchID env' = envMatchID env" "envCommandID env' = envCommandID env"
    and other: "envRequestHash env' \<noteq> envRequestHash env"
  shows "storeApply (Some db) codec v env' auth' execute' = (v, Inl (NewError DUPLICATE_COMMAND_MISMATCH))"
proof -
  have "loadReceipt db codec w' env = Inr (Some (res\<lparr>crDisposition := DispositionReplayed\<rparr>))"
    by (rule committed_facts [OF laws applied_committed [OF laws(1) run applied]])
  then obtain receipt where "findReceipt db w' (envMatchID env) (envCommandID env) = Inr (Some receipt)"
      and hash: "rcRequestHash receipt = envRequestHash env"
    by (auto simp: loadReceipt_def split: sum.splits option.splits if_splits)
  then have "findReceipt db v (envMatchID env) (envCommandID env) = Inr (Some receipt)"
    using database_played [OF since] by (simp add: playedFrom_def)
  then show ?thesis using other by (simp add: storeApply_def loadReceipt_def same hash)
qed

theorem other_request_refused_witness:
  "\<exists>w' :: SampleWorld. storeApply (Some sampleMongo) startCodec w' (sampleEnvelope ''h2'') (\<lambda>w. Inr (sampleActor ''''))
     (engineExecute StartMatch (2 * second)) = (w', Inl (NewError DUPLICATE_COMMAND_MISMATCH))"
proof -
  obtain w' res where run: "startApply = (w', Inr res)" "crDisposition res = DispositionApplied"
    using startApply_applied by blast
  show ?thesis
    by (rule exI [of _ w'], rule other_request_refused [OF sample_laws sampleCodec_laws(1)
          run(1) [unfolded startApply_def] run(2)
          rtranclp.rtrancl_refl [of "served sampleMongo startCodec sampleEncoders (sampleOrchestrator startCodec)"]])
       (simp_all add: sampleEnvelope_def)
qed

section \<open>Events\<close>

text \<open>
  The events committed with an applied command are exactly the events of the engine's
  transition, in its order, numbered without a gap from the last sequence number in the outbox
  of the match.
\<close>

theorem events_contiguous:
  assumes laws: "storeLaws db" "codecLaws codec"
    and run: "storeApply (Some db) codec w env auth execute = (w', Inr res)"
    and applied: "crDisposition res = DispositionApplied"
  shows "\<exists>actor current tr lastSeq. auth w = Inr actor \<and>
     snapshotLoad db codec w (envMatchID env) = Inr current \<and> execute current actor = Inr tr \<and>
     lastSequence db w (envMatchID env) = Inr lastSeq \<and>
     map cePayload (crEvents res) = trEvents tr \<and>
     map ceSequence (crEvents res) = map (\<lambda>i. lastSeq + of_nat i + 1) [0..<length (trEvents tr)]"
  by (rule committed_facts [OF laws applied_committed [OF laws(1) run applied]]) blast

theorem events_contiguous_witness:
  "\<exists>w' res tr. startApply = (w', Inr res) \<and>
     engineExecute StartMatch (1 * second) sampleStart (sampleActor '''') = Inr tr \<and>
     map cePayload (crEvents res) = trEvents tr"
proof -
  obtain w' res where run: "startApply = (w', Inr res)" "crDisposition res = DispositionApplied"
    using startApply_applied by blast
  from events_contiguous [OF sample_laws sampleCodec_laws(1) run(1) [unfolded startApply_def] run(2)]
  show ?thesis using run(1) by (auto simp: sampleEnvelope_def worldOf_load)
qed

section \<open>Snapshots\<close>

text \<open>
  C32: Round trip: the document written for a state decodes to that state, and to nothing at all once
  its version or its configuration hash has been tampered with.
\<close>

theorem snapshot_roundtrip:
  assumes laws: "codecLaws codec" and new: "NewMatchSnapshotDocument codec mid s now = Some d"
  shows "DecodeState codec d = Some s \<and>
    (\<forall>v. v \<noteq> Version s \<longrightarrow> DecodeState codec (d\<lparr>docMatchVersion := v\<rparr>) = None) \<and>
    (\<forall>h. h \<noteq> docConfigurationHash d \<longrightarrow> DecodeState codec (d\<lparr>docConfigurationHash := h\<rparr>) = None)"
proof -
  obtain j b h where facts: "mid \<noteq> NilObjectID" "now \<noteq> 0" "validState s" "marshalState codec s = Some j"
    "jsonToBSON codec j = Some b" "stateConfigurationHash codec s = Some h"
    "d = \<lparr>docMatchID = mid, docSchemaVersion = MatchSnapshotSchemaVersion,
          docMatchVersion = Version s, docOrigin = SnapshotOriginNative,
          docConfigurationHash = h, docState = b, docCreatedAt = now, docUpdatedAt = now\<rparr>"
    by (rule NewMatchSnapshotDocument_Some [OF new])
  have "DecodeState codec d = Some s"
    by (rule DecodeState_written [OF laws facts(3-6)]) (simp_all add: facts)
  moreover have "bsonToJSON codec b = Some j" "unmarshalState codec j = Some s"
    using codecLawsD(1,3) [OF laws] facts(4,5) by simp_all
  ultimately show ?thesis by (auto simp: DecodeState_def facts(6,7))
qed

theorem snapshot_roundtrip_witness:
  "\<exists>d. NewMatchSnapshotDocument startCodec 1 sampleStart (1 * second) = Some d \<and>
     DecodeState startCodec d = Some sampleStart"
proof -
  have "NewMatchSnapshotDocument startCodec 1 sampleStart (1 * second) \<noteq> None" by code_simp
  then obtain d where d: "NewMatchSnapshotDocument startCodec 1 sampleStart (1 * second) = Some d" by blast
  show ?thesis using snapshot_roundtrip [OF sampleCodec_laws(1) d] d by blast
qed

section \<open>The database in use\<close>

text \<open>
  C1: Whatever sequence of requests a database has served, the snapshot of a match that was
  reachable from its configuration still decodes, to a state reachable from the same
  configuration by commands of the engine, with the same configuration hash.
\<close>

theorem database_reachable:
  assumes "(served db codec enc orch)\<^sup>*\<^sup>* w v"
    and "snapshotLoad db codec w m = Inr s" "reachable cfg s"
  shows "\<exists>t. snapshotLoad db codec v m = Inr t \<and> persisted\<^sup>*\<^sup>* s t \<and> reachable cfg t \<and>
     stateConfigurationHash codec t = stateConfigurationHash codec s"
  using database_played [OF assms(1)] assms(2,3) reachable_run run_hash
  unfolding playedFrom_def by blast

theorem database_reachable_witness:
  "\<exists>t. snapshotLoad sampleMongo startCodec (fst startRun) 1 = Inr t \<and> reachable sampleConfiguration t"
proof -
  have "served sampleMongo startCodec sampleEncoders (sampleOrchestrator startCodec)
      (worldOf startCodec sampleStart) (fst startRun)"
    unfolding served_def startRun_def
    using sample_laws sampleCodec_laws(1) sampleOrchestrator_wired by (metis prod.collapse)
  then show ?thesis
    using database_reachable [OF r_into_rtranclp worldOf_load samples_reachable(1)] by blast
qed

end
