(* ===== verification/DomainPool.thy ===== *)
theory DomainPool
  imports DomainModel "HOL-Library.Multiset"
begin

text \<open>
  Pool slot identifiers and mappools (\<open>internal/domain/pool.go\<close>, \<open>mappool.go\<close>): printing and parsing a
  slot, the checks on a mappool's entries, their canonical order and the runtime pool built from
  them. The lemmas say that printing and parsing are inverse, that the hand-written insertion sort is
  a stable sort by mod and index, and which conditions an accepted mappool satisfies.
\<close>

section \<open>Printing numbers\<close>

definition digitByte :: "int \<Rightarrow> char" where
  "digitByte d = char_of (48 + nat d)"

text \<open>
  \<open>itoa\<close> fills its buffer from the right. Negating the smallest \<open>int64\<close> gives it back, and
  the loop does not run.
\<close>

function itoaLoop :: "int \<Rightarrow> string \<Rightarrow> string" where
  "itoaLoop n buf = (if n > 0 then itoaLoop (n div 10) (digitByte (n mod 10) # buf) else buf)"
  by pat_completeness auto
termination by (relation "measure (\<lambda>(n, buf). nat n)") auto

declare itoaLoop.simps [simp del]

definition itoa :: "int \<Rightarrow> string" where
  "itoa n =
     (if n = 0 then ''0''
      else let m = (if n < 0 then wrap64 (- n) else n);
               buf = itoaLoop m ''''
           in if n < 0 then CHR ''-'' # buf else buf)"

definition slotString :: "DomainSlot \<Rightarrow> string" where
  "slotString s = dsMod s @ ''-'' @ itoa (dsIndex s)"

section \<open>Parsing slots\<close>

text \<open>\<open>strconv.Atoi\<close>: an optional sign, decimal digits, and the range of \<open>int\<close>.\<close>

definition isDigit :: "char \<Rightarrow> bool" where
  "isDigit c \<longleftrightarrow> 48 \<le> (of_char c :: nat) \<and> (of_char c :: nat) \<le> 57"

definition digitValue :: "char \<Rightarrow> int" where
  "digitValue c = of_char c - 48"

definition decimal :: "string \<Rightarrow> int" where
  "decimal ds = foldl (\<lambda>v c. 10 * v + digitValue c) 0 ds"

definition atoi :: "string \<Rightarrow> int option" where
  "atoi s =
     (let neg = (take 1 s = ''-'');
          ds = (if neg \<or> take 1 s = ''+'' then drop 1 s else s);
          v = (if neg then - decimal ds else decimal ds)
      in if ds = '''' \<or> \<not> list_all isDigit ds \<or> v < -(2 ^ 63) \<or> v \<ge> 2 ^ 63 then None
         else Some v)"

definition knownPieceMods :: "PieceMod list" where
  "knownPieceMods =
     [PieceModNM, PieceModHD, PieceModHR, PieceModDT, PieceModFM, PieceModShiro, PieceModTB]"

definition isKnownPieceMod :: "PieceMod \<Rightarrow> bool" where
  "isKnownPieceMod m \<longleftrightarrow> m \<in> set knownPieceMods"

definition compactMods :: "PieceMod list" where
  "compactMods = [PieceModNM, PieceModHD, PieceModHR, PieceModDT, PieceModFM]"

definition hasModPrefix :: "string \<Rightarrow> PieceMod \<Rightarrow> bool" where
  "hasModPrefix s p \<longleftrightarrow> take (length p) s = p \<and> length s > length p"

text \<open>The checks after the text has been cut into a mod and an index.\<close>

definition parseParts :: "string \<Rightarrow> string \<Rightarrow> DomainSlot option" where
  "parseParts modText indexText =
     (if modText = '''' \<or> indexText = '''' \<or> CHR ''-'' \<in> set indexText then None
      else if \<not> isKnownPieceMod modText then None
      else case atoi indexText of
             None \<Rightarrow> None
           | Some idx \<Rightarrow> if idx < 1 then None else Some \<lparr>dsMod = modText, dsIndex = idx\<rparr>)"

definition ParsePoolSlot :: "string \<Rightarrow> DomainSlot option" where
  "ParsePoolSlot s =
     (if CHR ''-'' \<in> set s then
        parseParts (takeWhile (\<lambda>c. c \<noteq> CHR ''-'') s) (drop 1 (dropWhile (\<lambda>c. c \<noteq> CHR ''-'') s))
      else case List.find (hasModPrefix s) compactMods of
             Some p \<Rightarrow> parseParts p (drop (length p) s)
           | None \<Rightarrow>
               if s = PieceModTB \<or> s = PieceModShiro then Some \<lparr>dsMod = s, dsIndex = 1\<rparr>
               else None)"

section \<open>Mappools\<close>

record MappoolEntry =
  meBeatmapID :: "int option"
  meMod :: PieceMod
  meIndex :: int
  meSelectorID :: "int option"
  meSkill :: "string option"

record Mappool =
  mpID :: ObjectID
  mpName :: string
  mpDescription :: "string option"
  mpEntries :: "MappoolEntry list"
  mpCreatedAt :: Time
  mpUpdatedAt :: Time

definition entryField :: "int \<Rightarrow> string \<Rightarrow> string" where
  "entryField i field = ''entries['' @ itoa i @ ''].'' @ field"

text \<open>
  The loop of \<open>ValidateEntries\<close> from entry \<open>i\<close> on: the slots seen so far, whether a TB entry was
  reached, and the problems found, in order.
\<close>

fun validateEntriesFrom ::
  "int \<Rightarrow> DomainSlot list \<Rightarrow> bool \<Rightarrow> MappoolEntry list \<Rightarrow> string list \<times> bool" where
  "validateEntriesFrom i seen hasTB [] = ([], hasTB)"
| "validateEntriesFrom i seen hasTB (entry # rest) =
     (let slot = \<lparr>dsMod = meMod entry, dsIndex = meIndex entry\<rparr>;
          report = (\<lambda>field r. case r of (problems, tb) \<Rightarrow> (entryField i field # problems, tb))
      in if \<not> isKnownPieceMod (meMod entry) then
           report ''mod'' (validateEntriesFrom (i + 1) seen hasTB rest)
         else if meIndex entry < 1 then
           report ''index'' (validateEntriesFrom (i + 1) seen hasTB rest)
         else if slot \<in> set seen then
           report ''index'' (validateEntriesFrom (i + 1) seen hasTB rest)
         else if meMod entry = PieceModShiro then
           (if meBeatmapID entry \<noteq> None
            then report ''beatmap_id'' (validateEntriesFrom (i + 1) (slot # seen) hasTB rest)
            else validateEntriesFrom (i + 1) (slot # seen) hasTB rest)
         else
           let tb = (hasTB \<or> meMod entry = PieceModTB)
           in case meBeatmapID entry of
                None \<Rightarrow> report ''beatmap_id'' (validateEntriesFrom (i + 1) (slot # seen) tb rest)
              | Some b \<Rightarrow>
                  if b \<le> 0
                  then report ''beatmap_id'' (validateEntriesFrom (i + 1) (slot # seen) tb rest)
                  else validateEntriesFrom (i + 1) (slot # seen) tb rest)"

definition ValidateEntries :: "Mappool \<Rightarrow> string list" where
  "ValidateEntries m =
     (case validateEntriesFrom 0 [] False (mpEntries m) of
        (problems, hasTB) \<Rightarrow> problems @ (if hasTB then [] else [''entries[].mod=tb'']))"

text \<open>On a nil mappool the code returns false; here the receiver is an option.\<close>

definition HasTBEntry :: "Mappool option \<Rightarrow> bool" where
  "HasTBEntry m =
     (case m of
        None \<Rightarrow> False
      | Some p \<Rightarrow> list_ex (\<lambda>e. meMod e = PieceModTB) (mpEntries p))"

text \<open>
  One run of the inner loop of \<open>SortedEntries\<close>: the element at position \<open>j\<close> moves left while it is
  smaller than its left neighbour. The sorted part stands reversed, so that its last element comes
  first.
\<close>

fun sinkLeft :: "MappoolEntry \<Rightarrow> MappoolEntry list \<Rightarrow> MappoolEntry list" where
  "sinkLeft e [] = [e]"
| "sinkLeft e (p # before) =
     (if meIndex e < meIndex p then p # sinkLeft e before else e # p # before)"

definition sortGroup :: "MappoolEntry list \<Rightarrow> MappoolEntry list" where
  "sortGroup es = rev (fold sinkLeft es [])"

definition SortedEntries :: "Mappool \<Rightarrow> MappoolEntry list" where
  "SortedEntries m =
     concat (map (\<lambda>pm. sortGroup (filter (\<lambda>e. meMod e = pm) (mpEntries m))) knownPieceMods)"

definition runtimePiece :: "MappoolEntry \<Rightarrow> Piece" where
  "runtimePiece entry =
     \<lparr>pcBeatmapID = meBeatmapID entry, pcState = PieceStateNormal, pcTeamID = None,
      pcForceMod = None, pcPosition = None\<rparr>"

definition ToRuntime :: "Mappool \<Rightarrow> Pool" where
  "ToRuntime m =
     fold (\<lambda>entry pool.
         pool\<lparr>poolSlots := mapPut (meMod entry)
             (slotGroup pool (meMod entry) @ [runtimePiece entry]) (poolSlots pool)\<rparr>)
       (SortedEntries m) NewPool"

section \<open>Printing and parsing are inverse\<close>

lemma of_char_char_of_small: "n < 256 \<Longrightarrow> (of_char (char_of n :: char) :: nat) = n"
  by simp

lemma digitByte_digit:
  assumes "0 \<le> d" and "d < 10"
  shows "isDigit (digitByte d)" and "digitValue (digitByte d) = d" and "digitByte d \<noteq> CHR ''-''"
    and "digitByte d \<noteq> CHR ''+''"
proof -
  have code: "(of_char (digitByte d) :: nat) = 48 + nat d"
    unfolding digitByte_def by (rule of_char_char_of_small) (use assms in simp)
  then show "isDigit (digitByte d)" using assms by (simp add: isDigit_def)
  have "(of_char (digitByte d) :: int) = int (of_char (digitByte d) :: nat)"
    by (simp only: of_nat_of_char)
  then show "digitValue (digitByte d) = d" using code assms by (simp add: digitValue_def)
  show "digitByte d \<noteq> CHR ''-''" "digitByte d \<noteq> CHR ''+''" using code by auto
qed

lemma itoaLoop_append: "itoaLoop n (xs @ buf) = itoaLoop n xs @ buf"
proof (induction n xs arbitrary: buf rule: itoaLoop.induct)
  case (1 n xs)
  show ?case
  proof (cases "n > 0")
    case True
    then show ?thesis
      using "1.IH" [OF True, of buf]
      by (simp add: itoaLoop.simps [of n "xs @ buf"] itoaLoop.simps [of n xs])
  qed (simp add: itoaLoop.simps)
qed

lemma itoaLoop_step: "n > 0 \<Longrightarrow> itoaLoop n '''' = itoaLoop (n div 10) '''' @ [digitByte (n mod 10)]"
  using itoaLoop_append [of "n div 10" "''''" "[digitByte (n mod 10)]"]
  by (simp add: itoaLoop.simps [of n "''''"])

lemma itoaLoop_digits: "0 \<le> n \<Longrightarrow> list_all isDigit (itoaLoop n '''') \<and> decimal (itoaLoop n '''') = n"
proof (induction "nat n" arbitrary: n rule: less_induct)
  case less
  show ?case
  proof (cases "n > 0")
    case True
    then have "list_all isDigit (itoaLoop (n div 10) '''') \<and> decimal (itoaLoop (n div 10) '''') = n div 10"
      by (intro less) auto
    then show ?thesis
      using True digitByte_digit [of "n mod 10"] by (auto simp: itoaLoop_step decimal_def)
  next
    case False
    then have "n = 0" using less.prems by simp
    then show ?thesis by (simp add: itoaLoop.simps decimal_def)
  qed
qed

lemma itoa_digits: "0 \<le> n \<Longrightarrow> list_all isDigit (itoa n) \<and> decimal (itoa n) = n"
  using itoaLoop_digits [of n] by (auto simp: itoa_def decimal_def isDigit_def digitValue_def)

lemma itoa_nonempty: "0 \<le> n \<Longrightarrow> itoa n \<noteq> ''''"
  by (cases "n = 0") (auto simp: itoa_def itoaLoop_step)

lemma digit_not_sign: "isDigit c \<Longrightarrow> c \<noteq> CHR ''-'' \<and> c \<noteq> CHR ''+''"
  by (auto simp: isDigit_def)

lemma digits_no_sign:
  "list_all isDigit ds \<Longrightarrow> CHR ''-'' \<notin> set ds \<and> take 1 ds \<noteq> ''-'' \<and> take 1 ds \<noteq> ''+''"
  by (cases ds) (auto simp: list_all_iff dest: digit_not_sign)

lemma atoi_itoa: "0 \<le> n \<Longrightarrow> n < 2 ^ 63 \<Longrightarrow> atoi (itoa n) = Some n"
  using itoa_digits [of n] itoa_nonempty [of n] digits_no_sign [of "itoa n"]
  by (simp add: atoi_def)

lemma itoa_no_sign: "0 \<le> n \<Longrightarrow> CHR ''-'' \<notin> set (itoa n)"
  using itoa_digits digits_no_sign by blast

lemma parseParts_itoa:
  "isKnownPieceMod m \<Longrightarrow> 1 \<le> i \<Longrightarrow> i < 2 ^ 63 \<Longrightarrow>
   parseParts m (itoa i) = Some \<lparr>dsMod = m, dsIndex = i\<rparr>"
  using itoa_no_sign [of i] itoa_nonempty [of i]
  by (auto simp: parseParts_def atoi_itoa isKnownPieceMod_def knownPieceMods_def)

lemma known_no_dash: "isKnownPieceMod m \<Longrightarrow> CHR ''-'' \<notin> set m"
  by (auto simp: isKnownPieceMod_def knownPieceMods_def)

lemma parse_slotString:
  assumes "isKnownPieceMod (dsMod s)" and "1 \<le> dsIndex s" and "dsIndex s < 2 ^ 63"
  shows "ParsePoolSlot (slotString s) = Some s"
proof -
  have "takeWhile (\<lambda>c. c \<noteq> CHR ''-'') (slotString s) = dsMod s"
    "dropWhile (\<lambda>c. c \<noteq> CHR ''-'') (slotString s) = CHR ''-'' # itoa (dsIndex s)"
    using known_no_dash [OF assms(1)]
    by (auto simp: slotString_def takeWhile_append dropWhile_append)
  then show ?thesis using parseParts_itoa [OF assms] by (simp add: ParsePoolSlot_def slotString_def)
qed

lemma find_compact:
  "p \<in> set compactMods \<Longrightarrow> ds \<noteq> '''' \<Longrightarrow> List.find (hasModPrefix (p @ ds)) compactMods = Some p"
  by (auto simp: compactMods_def hasModPrefix_def)

lemma parse_compact:
  assumes "p \<in> set compactMods" and "1 \<le> i" and "i < 2 ^ 63"
  shows "ParsePoolSlot (p @ itoa i) = Some \<lparr>dsMod = p, dsIndex = i\<rparr>"
proof -
  have known: "isKnownPieceMod p" and dash: "CHR ''-'' \<notin> set (p @ itoa i)"
    using assms itoa_no_sign [of i]
    by (auto simp: compactMods_def isKnownPieceMod_def knownPieceMods_def)
  then show ?thesis
    using assms itoa_nonempty [of i] find_compact [OF assms(1)] parseParts_itoa [of p i]
    by (simp add: ParsePoolSlot_def)
qed

lemma slotString_inj:
  assumes "isKnownPieceMod (dsMod s)" "1 \<le> dsIndex s" "dsIndex s < 2 ^ 63"
    and "isKnownPieceMod (dsMod t)" "1 \<le> dsIndex t" "dsIndex t < 2 ^ 63"
  shows "slotString s = slotString t \<longleftrightarrow> s = t"
proof
  assume "slotString s = slotString t"
  then have "Some s = Some t"
    using parse_slotString [OF assms(1-3)] parse_slotString [OF assms(4-6)] by metis
  then show "s = t" by simp
qed simp

lemma parseParts_sound:
  "parseParts m i = Some s \<Longrightarrow> isKnownPieceMod (dsMod s) \<and> 1 \<le> dsIndex s \<and> dsIndex s < 2 ^ 63"
  by (auto simp: parseParts_def atoi_def Let_def split: if_splits option.splits)

lemma parse_sound:
  assumes "ParsePoolSlot text = Some s"
  shows "isKnownPieceMod (dsMod s) \<and> 1 \<le> dsIndex s \<and> dsIndex s < 2 ^ 63"
proof -
  consider m i where "parseParts m i = Some s"
    | "s = \<lparr>dsMod = PieceModTB, dsIndex = 1\<rparr> \<or> s = \<lparr>dsMod = PieceModShiro, dsIndex = 1\<rparr>"
    using assms unfolding ParsePoolSlot_def by (fastforce split: if_splits option.splits)
  then show ?thesis
  proof cases
    case 1
    then show ?thesis by (rule parseParts_sound)
  next
    case 2
    then show ?thesis by (auto simp: isKnownPieceMod_def knownPieceMods_def)
  qed
qed

section \<open>Accepted mappools\<close>

definition entrySlot :: "MappoolEntry \<Rightarrow> DomainSlot" where
  "entrySlot e = \<lparr>dsMod = meMod e, dsIndex = meIndex e\<rparr>"

definition entryOkay :: "MappoolEntry \<Rightarrow> bool" where
  "entryOkay e \<longleftrightarrow> isKnownPieceMod (meMod e) \<and> 1 \<le> meIndex e \<and>
     (if meMod e = PieceModShiro then meBeatmapID e = None
      else case meBeatmapID e of None \<Rightarrow> False | Some b \<Rightarrow> 0 < b)"

definition mappoolOk :: "Mappool \<Rightarrow> bool" where
  "mappoolOk m \<longleftrightarrow> list_all entryOkay (mpEntries m) \<and> distinct (map entrySlot (mpEntries m)) \<and>
     list_ex (\<lambda>e. meMod e = PieceModTB) (mpEntries m)"

lemma case_prod_report [simp]:
  "fst (case r of (problems, tb) \<Rightarrow> (p # problems, tb)) = p # fst r"
  "snd (case r of (problems, tb) \<Rightarrow> (p # problems, tb)) = snd r"
  by (cases r; simp)+

lemma validateEntriesFrom_clean:
  "fst (validateEntriesFrom i seen hasTB es) = [] \<longleftrightarrow>
     list_all entryOkay es \<and> distinct (map entrySlot es) \<and> set (map entrySlot es) \<inter> set seen = {}"
proof (induction es arbitrary: i seen hasTB)
  case (Cons e es)
  show ?case
    by (cases "meBeatmapID e") (auto simp: Let_def Cons.IH entryOkay_def entrySlot_def)
qed simp

lemma validateEntriesFrom_TB:
  "fst (validateEntriesFrom i seen hasTB es) = [] \<Longrightarrow>
   snd (validateEntriesFrom i seen hasTB es) \<longleftrightarrow> hasTB \<or> list_ex (\<lambda>e. meMod e = PieceModTB) es"
proof (induction es arbitrary: i seen hasTB)
  case (Cons e es)
  then show ?case
    by (cases "meBeatmapID e") (auto simp: Let_def split: if_splits)
qed simp

lemma ValidateEntries_clean: "ValidateEntries m = [] \<longleftrightarrow> mappoolOk m"
  using validateEntriesFrom_clean [of 0 "[]" False "mpEntries m"]
    validateEntriesFrom_TB [of 0 "[]" False "mpEntries m"]
  by (cases "validateEntriesFrom 0 [] False (mpEntries m)")
    (auto simp: ValidateEntries_def mappoolOk_def)

section \<open>The canonical order is a stable sort\<close>

definition modRank :: "PieceMod \<Rightarrow> nat" where
  "modRank m = length (takeWhile (\<lambda>p. p \<noteq> m) knownPieceMods)"

definition entryKey :: "MappoolEntry \<Rightarrow> nat \<times> int" where
  "entryKey e = (modRank (meMod e), meIndex e)"

lemma sinkLeft_mset: "mset (sinkLeft e before) = add_mset e (mset before)"
  by (induction before) auto

lemma sinkLeft_sorted:
  "sorted (map meIndex (rev before)) \<Longrightarrow> sorted (map meIndex (rev (sinkLeft e before)))"
proof (induction before)
  case (Cons p before)
  have "set (sinkLeft e before) = insert e (set before)"
    using sinkLeft_mset [of e before] by (metis set_mset_add_mset_insert set_mset_mset)
  then show ?case using Cons by (auto simp: sorted_append)
qed simp

lemma sinkLeft_filter:
  "filter (\<lambda>x. k = meIndex x) (rev (sinkLeft e before)) =
   filter (\<lambda>x. k = meIndex x) (rev before @ [e])"
  by (induction before) auto

lemma sinkAll:
  assumes "sorted (map meIndex (rev before))"
  shows "mset (fold sinkLeft es before) = mset es + mset before \<and>
    sorted (map meIndex (rev (fold sinkLeft es before))) \<and>
    filter (\<lambda>x. k = meIndex x) (rev (fold sinkLeft es before)) =
    filter (\<lambda>x. k = meIndex x) (rev before @ es)"
  using assms
proof (induction es arbitrary: before)
  case (Cons e es)
  then show ?case
    using Cons.IH [OF sinkLeft_sorted [OF Cons.prems], of e] sinkLeft_filter [of k e before]
    by (simp add: sinkLeft_mset)
qed simp

lemma sortGroup_eq: "sortGroup es = sort_key meIndex es"
  unfolding sortGroup_def using sinkAll [of "[]" es]
  by (intro properties_for_sort_key [symmetric]) simp_all

lemma sorted_wrt_rank_distinct: "sorted_wrt (\<lambda>a b. rank a < (rank b :: nat)) L \<Longrightarrow> distinct L"
  by (induction L) auto

lemma rank_inj:
  "sorted_wrt (\<lambda>a b. rank a < (rank b :: nat)) L \<Longrightarrow> a \<in> set L \<Longrightarrow> b \<in> set L \<Longrightarrow>
   rank a = rank b \<longleftrightarrow> a = b"
  by (induction L) fastforce+

lemma group_sorted:
  "\<forall>e\<in>set xs. meMod e = pm \<Longrightarrow> sorted (map meIndex xs) \<Longrightarrow>
   sorted (map (\<lambda>e. (rank (meMod e) :: nat, meIndex e)) xs)"
  by (induction xs) auto

lemma group_filter:
  "filter (\<lambda>x. meMod x = m \<and> meIndex x = k) (sort_key meIndex (filter (\<lambda>e. meMod e = pm) es)) =
   (if pm = m then filter (\<lambda>x. meMod x = m \<and> meIndex x = k) es else [])"
proof (cases "pm = m")
  case True
  have "filter (\<lambda>x. meMod x = m \<and> meIndex x = k) (sort_key meIndex (filter (\<lambda>e. meMod e = m) es)) =
    filter (\<lambda>x. meIndex x = k) (sort_key meIndex (filter (\<lambda>e. meMod e = m) es))"
    by (rule filter_cong) auto
  also have "\<dots> = filter (\<lambda>x. meIndex x = k) (filter (\<lambda>e. meMod e = m) es)"
    by (rule sort_key_stable)
  also have "\<dots> = filter (\<lambda>x. meMod x = m \<and> meIndex x = k) es"
    by (auto intro!: filter_cong)
  finally show ?thesis using True by simp
next
  case False
  then show ?thesis by (auto simp: filter_empty_conv)
qed

lemma groups_filter:
  "distinct L \<Longrightarrow>
   filter (\<lambda>x. meMod x = m \<and> meIndex x = k)
     (concat (map (\<lambda>pm. sort_key meIndex (filter (\<lambda>e. meMod e = pm) es)) L)) =
   (if m \<in> set L then filter (\<lambda>x. meMod x = m \<and> meIndex x = k) es else [])"
  by (induction L) (auto simp: group_filter)

lemma concat_groups_sort:
  assumes "sorted_wrt (\<lambda>a b. rank a < rank b) L"
  shows "concat (map (\<lambda>pm. sort_key meIndex (filter (\<lambda>e. meMod e = pm) es)) L) =
    sort_key (\<lambda>e. (rank (meMod e) :: nat, meIndex e)) (filter (\<lambda>e. meMod e \<in> set L) es)"
    (is "?cat L = _")
proof (rule properties_for_sort_key [symmetric])
  show "mset (?cat L) = mset (filter (\<lambda>e. meMod e \<in> set L) es)"
    using assms
  proof (induction L)
    case (Cons pm L)
    then have "pm \<notin> set L" by auto
    then have "mset (filter (\<lambda>e. meMod e \<in> set (pm # L)) es) =
      mset (filter (\<lambda>e. meMod e = pm) es) + mset (filter (\<lambda>e. meMod e \<in> set L) es)"
      by (induction es) auto
    then show ?case using Cons by simp
  qed simp
  show "sorted (map (\<lambda>e. (rank (meMod e), meIndex e)) (?cat L))"
    using assms
  proof (induction L)
    case (Cons pm L)
    have "sorted (map (\<lambda>e. (rank (meMod e), meIndex e)) (sort_key meIndex (filter (\<lambda>e. meMod e = pm) es)))"
      by (rule group_sorted [where pm = pm]) auto
    then show ?case using Cons by (force simp: sorted_append)
  qed simp
next
  fix k
  assume "k \<in> set (?cat L)"
  then have k: "meMod k \<in> set L" by auto
  have same: "(rank (meMod k), meIndex k) = (rank (meMod x), meIndex x) \<longleftrightarrow>
      meMod x = meMod k \<and> meIndex x = meIndex k" if "meMod x \<in> set L" for x
    unfolding prod.inject using rank_inj [OF assms k that] by metis
  have "filter (\<lambda>x. (rank (meMod k), meIndex k) = (rank (meMod x), meIndex x)) (?cat L) =
      filter (\<lambda>x. meMod x = meMod k \<and> meIndex x = meIndex k) (?cat L)"
  proof (rule filter_cong [OF refl])
    fix x
    assume "x \<in> set (?cat L)"
    then have "meMod x \<in> set L" by auto
    then show "((rank (meMod k), meIndex k) = (rank (meMod x), meIndex x)) =
        (meMod x = meMod k \<and> meIndex x = meIndex k)"
      by (rule same)
  qed
  also have "\<dots> = filter (\<lambda>x. meMod x = meMod k \<and> meIndex x = meIndex k) es"
    using assms k by (subst groups_filter) (auto intro: sorted_wrt_rank_distinct)
  also have "\<dots> = filter (\<lambda>x. (rank (meMod k), meIndex k) = (rank (meMod x), meIndex x))
      (filter (\<lambda>e. meMod e \<in> set L) es)"
    unfolding filter_filter
  proof (rule filter_cong [OF refl])
    fix x
    show "(meMod x = meMod k \<and> meIndex x = meIndex k) =
        (meMod x \<in> set L \<and> (rank (meMod k), meIndex k) = (rank (meMod x), meIndex x))"
      using k same [of x] by metis
  qed
  finally show "filter (\<lambda>x. (rank (meMod k), meIndex k) = (rank (meMod x), meIndex x)) (?cat L) =
    filter (\<lambda>x. (rank (meMod k), meIndex k) = (rank (meMod x), meIndex x))
      (filter (\<lambda>e. meMod e \<in> set L) es)" .
qed

definition canonicalEntries :: "MappoolEntry list \<Rightarrow> MappoolEntry list" where
  "canonicalEntries es = sort_key entryKey (filter (\<lambda>e. isKnownPieceMod (meMod e)) es)"

lemma knownPieceMods_ranked: "sorted_wrt (\<lambda>a b. modRank a < modRank b) knownPieceMods"
  by (simp add: knownPieceMods_def modRank_def)

lemma SortedEntries_eq: "SortedEntries m = canonicalEntries (mpEntries m)"
  using concat_groups_sort [OF knownPieceMods_ranked]
  by (simp add: SortedEntries_def canonicalEntries_def sortGroup_eq entryKey_def [abs_def]
      isKnownPieceMod_def)

section \<open>The runtime pool\<close>

lemma slotGroup_put [simp]:
  "slotGroup (pool\<lparr>poolSlots := mapPut m ps (poolSlots pool)\<rparr>) pm = (if pm = m then ps else slotGroup pool pm)"
  by (simp add: slotGroup_def)

lemma fold_runtime:
  "slotGroup (fold (\<lambda>entry pool.
         pool\<lparr>poolSlots := mapPut (meMod entry)
             (slotGroup pool (meMod entry) @ [runtimePiece entry]) (poolSlots pool)\<rparr>) es pool) pm =
   slotGroup pool pm @ map runtimePiece (filter (\<lambda>e. meMod e = pm) es)"
  by (induction es arbitrary: pool) auto

lemma filter_SortedEntries:
  assumes "isKnownPieceMod pm"
  shows "filter (\<lambda>e. meMod e = pm) (SortedEntries m) =
    sort_key meIndex (filter (\<lambda>e. meMod e = pm) (mpEntries m))"
proof -
  have one: "filter (\<lambda>e. meMod e = pm) (concat (map (\<lambda>p. sort_key meIndex (filter (\<lambda>e. meMod e = p) es)) L)) =
      (if pm \<in> set L then sort_key meIndex (filter (\<lambda>e. meMod e = pm) es) else [])"
    if "distinct L" for es and L :: "PieceMod list"
    using that
  proof (induction L)
    case (Cons p L)
    have "filter (\<lambda>e. meMod e = pm) (sort_key meIndex (filter (\<lambda>e. meMod e = p) es)) =
        (if p = pm then sort_key meIndex (filter (\<lambda>e. meMod e = pm) es) else [])"
      by (auto simp: filter_empty_conv filter_id_conv)
    then show ?case using Cons by auto
  qed simp
  have "distinct knownPieceMods" by (simp add: knownPieceMods_def)
  from one [OF this] show ?thesis
    using assms by (simp add: SortedEntries_def sortGroup_eq isKnownPieceMod_def)
qed

lemma slotGroup_ToRuntime:
  "isKnownPieceMod pm \<Longrightarrow> slotGroup (ToRuntime m) pm =
     map runtimePiece (sort_key meIndex (filter (\<lambda>e. meMod e = pm) (mpEntries m)))"
  by (simp add: ToRuntime_def fold_runtime filter_SortedEntries) (simp add: slotGroup_def NewPool_def)

lemma FindSlot_group:
  "FindSlot pool slot =
     (if 1 \<le> dsIndex slot \<and> dsIndex slot \<le> int (length (slotGroup pool (dsMod slot)))
      then Some (slotGroup pool (dsMod slot) ! nat (dsIndex slot - 1)) else None)"
  by (auto simp: FindSlot_def slotGroup_def split: option.splits)

end
