(* ===== verification/MatchSeed.thy ===== *)
theory MatchSeed
  imports EngineHistory DomainPool
begin

text \<open>
  How a configured room becomes a match: the start requirements
  (\<open>internal/service/start_requirements.go\<close>) and the factory that builds the legacy shell and the
  READY aggregate (\<open>internal/service/formal_match_factory.go\<close>). The fresh match id and the clock that
  \<open>NewMatch\<close> reads are arguments. A nil pointer that the code dereferences is an outcome of its own,
  \<open>NilDereference\<close>: the request ends in a panic.
\<close>

section \<open>Errors of the services\<close>

text \<open>
  The sentinels of \<open>pkg/errs\<close>, an \<open>ErrInvalidInput\<close> with the field and rule of each
  \<open>FieldError\<close>, and any other error of the driver.
\<close>

datatype ServiceError =
    ErrNotFound | ErrAlreadyExists | ErrInvalidInput | ValidationError "(string \<times> string) list"
  | ErrUnauthorized | ErrForbidden | ErrConflict | ErrFormalMatchAlreadyStarted
  | ErrFormalMatchBootstrapInvalid | ErrNotConfigured | DriverError bool | NilDereference

section \<open>Start requirements\<close>

definition requireField :: "string \<Rightarrow> bool \<Rightarrow> string list" where
  "requireField field ok = (if ok then [] else [field])"

definition teamReady :: "Team option \<Rightarrow> bool" where
  "teamReady t = (case t of None \<Rightarrow> False | Some team \<Rightarrow> teamIsReady team)"

definition MissingStartRequirements ::
  "Room \<Rightarrow> Team option \<Rightarrow> Team option \<Rightarrow> Mappool option \<Rightarrow> string list" where
  "MissingStartRequirements room redTeam blueTeam mappool =
     (if roomType room = RoomTypeCasual \<or> roomType room = RoomTypeMatch then
        requireField ''scheduled_at'' (roomScheduledAt room \<noteq> None) @
        requireField ''settings.red_team_id'' (teamReady redTeam) @
        requireField ''settings.blue_team_id'' (teamReady blueTeam) @
        requireField ''settings.first_pick'' (roomFirstPick room \<noteq> None) @
        requireField ''settings.first_ban'' (roomFirstBan room \<noteq> None) @
        (if roomType room = RoomTypeMatch then
           requireField ''referee_user_id'' (roomRefereeUserID room \<noteq> None) @
           requireField ''settings.mappool_id'' (mappool \<noteq> None) @
           requireField ''settings.mp_link''
             (roomMPLink room \<noteq> None \<and> roomMPLink room \<noteq> Some '''')
         else []) @
        (if mappool \<noteq> None \<and> \<not> HasTBEntry mappool
         then requireField ''settings.mappool_id.entries[].mod=tb'' False else [])
      else if roomType room = RoomTypePrivate then []
      else [''type''])"

section \<open>The engine configuration\<close>

definition engineTeamFromDomain :: "DomainSide \<Rightarrow> TeamSide" where
  "engineTeamFromDomain side = (if side = TeamSideBlue then TeamBlue else TeamRed)"

definition engineModFromDomain :: "PieceMod \<Rightarrow> Mod option" where
  "engineModFromDomain m =
     (if m = PieceModNM then Some ModNM else if m = PieceModHD then Some ModHD
      else if m = PieceModHR then Some ModHR else if m = PieceModDT then Some ModDT
      else if m = PieceModFM then Some ModFM else if m = PieceModShiro then Some ModShiro
      else if m = PieceModTB then Some ModTB else None)"

text \<open>A slot literal with the fields \<open>ID\<close> and \<open>Mod\<close>; its state is the empty string.\<close>

definition newSlot :: "string \<Rightarrow> Mod \<Rightarrow> PoolSlot" where
  "newSlot sid m = \<lparr>slotID = sid, slotMod = m, slotState = PoolSlotStateOther ''''\<rparr>"

text \<open>The slots of one mod of the runtime pool, numbered from 1.\<close>

definition modSlots :: "Pool \<Rightarrow> PieceMod \<Rightarrow> ServiceError + PoolSlot list" where
  "modSlots pool pm =
     (if slotGroup pool pm = [] then Inr []
      else case engineModFromDomain pm of
             None \<Rightarrow> Inl ErrInvalidInput
           | Some m \<Rightarrow>
               Inr (map (\<lambda>i. newSlot (slotString \<lparr>dsMod = pm, dsIndex = int i + 1\<rparr>) m)
                        [0..<length (slotGroup pool pm)]))"

fun allModSlots :: "Pool \<Rightarrow> PieceMod list \<Rightarrow> ServiceError + PoolSlot list" where
  "allModSlots pool [] = Inr []"
| "allModSlots pool (pm # pms) =
     (case modSlots pool pm of
        Inl e \<Rightarrow> Inl e
      | Inr slots \<Rightarrow>
          (case allModSlots pool pms of Inl e \<Rightarrow> Inl e | Inr others \<Rightarrow> Inr (slots @ others)))"

text \<open>The first TB entry of the linked mappool names the TB slot.\<close>

definition tbSlotID :: "Mappool option \<Rightarrow> string" where
  "tbSlotID mappool =
     (case mappool of
        None \<Rightarrow> ''TB''
      | Some mp \<Rightarrow>
          (case List.find (\<lambda>e. meMod e = PieceModTB) (SortedEntries mp) of
             None \<Rightarrow> ''TB''
           | Some entry \<Rightarrow> slotString \<lparr>dsMod = PieceModTB, dsIndex = meIndex entry\<rparr>))"

definition engineConfigurationFromEntities ::
  "Mappool option \<Rightarrow> Team option \<Rightarrow> Team option \<Rightarrow> DomainSide option \<Rightarrow> DomainSide option
   \<Rightarrow> ServiceError + Configuration" where
  "engineConfigurationFromEntities mappool redTeam blueTeam firstPick firstBan =
     (case (case mappool of
              None \<Rightarrow> Inr []
            | Some mp \<Rightarrow> allModSlots (ToRuntime mp) compactMods) of
        Inl e \<Rightarrow> Inl e
      | Inr slots \<Rightarrow>
          (case (firstBan, firstPick, redTeam, blueTeam) of
             (Some ban, Some pick, Some red, Some blue) \<Rightarrow>
               Inr \<lparr>cfgFirstBan = engineTeamFromDomain ban,
                    cfgFirstPick = engineTeamFromDomain pick,
                    cfgPoolSlots = slots @ [newSlot ''SHIRO'' ModShiro,
                                            newSlot (tbSlotID mappool) ModTB],
                    cfgRosters =
                      [(TeamRed, \<lparr>rosterLeaderID = DerefInt64 (teamLeaderID red) 0,
                                  rosterPlayerIDs = teamPlayers red\<rparr>),
                       (TeamBlue, \<lparr>rosterLeaderID = DerefInt64 (teamLeaderID blue) 0,
                                   rosterPlayerIDs = teamPlayers blue\<rparr>)],
                    cfgTimers = StandardTimerConfiguration\<rparr>
           | _ \<Rightarrow> Inl NilDereference))"

section \<open>The seed\<close>

record FormalMatchSeed =
  seedLegacyMatch :: Match
  seedState :: State

definition BuildFormalMatchSeed ::
  "ObjectID \<Rightarrow> Time \<Rightarrow> Room \<Rightarrow> Team option \<Rightarrow> Team option \<Rightarrow> Mappool option \<Rightarrow> Time
   \<Rightarrow> ServiceError + FormalMatchSeed" where
  "BuildFormalMatchSeed newID clock room redTeam blueTeam mappool now =
     (if roomID room = NilObjectID then Inl ErrInvalidInput
      else if roomType room \<noteq> RoomTypeMatch \<and> roomType room \<noteq> RoomTypeCasual
              \<and> roomType room \<noteq> RoomTypePrivate then Inl ErrInvalidInput
      else if isZeroTime now then Inl ErrInvalidInput
      else let missing = MissingStartRequirements room redTeam blueTeam mappool
      in if missing \<noteq> [] then Inl (ValidationError (map (\<lambda>m. (m, ''required'')) missing))
      else if roomType room = RoomTypeMatch \<and> mappool = None
      then Inl (ValidationError [(''settings.mappool_id'', ''required'')])
      else case engineConfigurationFromEntities mappool redTeam blueTeam
                  (roomFirstPick room) (roomFirstBan room) of
             Inl e \<Rightarrow> Inl e
           | Inr configuration \<Rightarrow>
               (case NewReadyState configuration of
                  Inl _ \<Rightarrow> Inl ErrInvalidInput
                | Inr state \<Rightarrow>
                    (case (roomFirstPick room, roomFirstBan room, redTeam, blueTeam) of
                       (Some pick, Some ban, Some red, Some blue) \<Rightarrow>
                         (let pool = (case mappool of None \<Rightarrow> NewPool | Some mp \<Rightarrow> ToRuntime mp);
                              legacy = NewMatch clock room (teamSnapshot red TeamSideRed)
                                         (teamSnapshot blue TeamSideBlue) pool
                          in Inr \<lparr>seedLegacyMatch = legacy
                                    \<lparr>matchID := newID,
                                     matchBPOrder := \<lparr>bpFirstPick = pick, bpFirstBan = ban\<rparr>,
                                     matchStatus := MatchStatusPending,
                                     matchCreatedAt := now, matchUpdatedAt := now\<rparr>,
                                  seedState = state\<rparr>)
                     | _ \<Rightarrow> Inl NilDereference)))"
section \<open>The pool of a seed\<close>

definition slotKeys :: "Pool \<Rightarrow> PieceMod \<Rightarrow> DomainSlot list" where
  "slotKeys pool pm =
     map (\<lambda>i. \<lparr>dsMod = pm, dsIndex = int i + 1\<rparr>) [0..<length (slotGroup pool pm)]"

definition normalKeys :: "Pool \<Rightarrow> DomainSlot list" where
  "normalKeys pool = concat (map (slotKeys pool) compactMods)"

definition normalSlots :: "Pool \<Rightarrow> PoolSlot list" where
  "normalSlots pool =
     map (\<lambda>k. newSlot (slotString k) (the (engineModFromDomain (dsMod k)))) (normalKeys pool)"

lemma engineMod_compact:
  "pm \<in> set compactMods \<Longrightarrow> \<exists>m. engineModFromDomain pm = Some m \<and> m \<noteq> ModShiro \<and> m \<noteq> ModTB \<and> modValid m"
  by (auto simp: compactMods_def engineModFromDomain_def)

lemma modSlots_keys:
  assumes "pm \<in> set compactMods"
  shows "modSlots pool pm =
    Inr (map (\<lambda>k. newSlot (slotString k) (the (engineModFromDomain (dsMod k)))) (slotKeys pool pm))"
  using engineMod_compact [OF assms] by (auto simp: modSlots_def slotKeys_def)

lemma allModSlots_keys:
  "set pms \<subseteq> set compactMods \<Longrightarrow> allModSlots pool pms =
     Inr (map (\<lambda>k. newSlot (slotString k) (the (engineModFromDomain (dsMod k))))
            (concat (map (slotKeys pool) pms)))"
  by (induction pms) (simp_all add: modSlots_keys)

lemma allModSlots_normal: "allModSlots pool compactMods = Inr (normalSlots pool)"
  by (simp add: allModSlots_keys normalSlots_def normalKeys_def)

lemma slotKeys_iff:
  "k \<in> set (slotKeys pool pm) \<longleftrightarrow>
     dsMod k = pm \<and> 1 \<le> dsIndex k \<and> dsIndex k \<le> int (length (slotGroup pool pm))"
proof
  assume k: "dsMod k = pm \<and> 1 \<le> dsIndex k \<and> dsIndex k \<le> int (length (slotGroup pool pm))"
  then have "k = \<lparr>dsMod = pm, dsIndex = int (nat (dsIndex k - 1)) + 1\<rparr>"
    "nat (dsIndex k - 1) < length (slotGroup pool pm)" by auto
  then show "k \<in> set (slotKeys pool pm)"
    unfolding slotKeys_def by (metis (no_types, lifting) atLeastLessThan_iff image_eqI le0 list.set_map set_upt)
qed (auto simp: slotKeys_def)

lemma normalKeys_iff:
  "k \<in> set (normalKeys pool) \<longleftrightarrow> dsMod k \<in> set compactMods \<and>
     1 \<le> dsIndex k \<and> dsIndex k \<le> int (length (slotGroup pool (dsMod k)))"
  by (auto simp: normalKeys_def slotKeys_iff)

lemma distinct_normalKeys: "distinct (normalKeys pool)"
proof -
  have one: "distinct (slotKeys pool pm)" for pm
    by (auto simp: slotKeys_def distinct_map inj_on_def)
  have all: "distinct pms \<Longrightarrow> distinct (concat (map (slotKeys pool) pms))" for pms
    by (induction pms) (auto simp: one slotKeys_iff)
  have "distinct compactMods" by (simp add: compactMods_def)
  then show ?thesis unfolding normalKeys_def by (rule all)
qed

lemma compact_no_dash: "pm \<in> set compactMods \<Longrightarrow> CHR ''-'' \<notin> set pm"
  by (auto simp: compactMods_def)

lemma slotString_dash: "CHR ''-'' \<in> set (slotString s)"
  by (simp add: slotString_def)

lemma slotString_eqD:
  assumes "slotString s = slotString t" "CHR ''-'' \<notin> set (dsMod s)" "CHR ''-'' \<notin> set (dsMod t)"
  shows "dsMod s = dsMod t" and "itoa (dsIndex s) = itoa (dsIndex t)"
proof -
  have cut: "takeWhile (\<lambda>c. c \<noteq> CHR ''-'') (slotString s) = dsMod s"
    if "CHR ''-'' \<notin> set (dsMod s)" for s
    using that by (auto simp: slotString_def takeWhile_append)
  show "dsMod s = dsMod t" using cut assms by metis
  then show "itoa (dsIndex s) = itoa (dsIndex t)" using assms(1) by (simp add: slotString_def)
qed

lemma itoa_inj: "0 \<le> m \<Longrightarrow> 0 \<le> n \<Longrightarrow> itoa m = itoa n \<Longrightarrow> m = n"
  using itoa_digits by metis

lemma slotString_inj_normal: "inj_on slotString (set (normalKeys pool))"
proof (rule inj_onI)
  fix s t
  assume st: "s \<in> set (normalKeys pool)" "t \<in> set (normalKeys pool)" "slotString s = slotString t"
  have dash: "CHR ''-'' \<notin> set (dsMod s)" "CHR ''-'' \<notin> set (dsMod t)" "0 \<le> dsIndex s" "0 \<le> dsIndex t"
    using st(1,2) compact_no_dash by (auto simp: normalKeys_iff)
  have "dsMod s = dsMod t" by (rule slotString_eqD(1) [OF st(3) dash(1,2)])
  moreover have "dsIndex s = dsIndex t"
    by (rule itoa_inj [OF dash(3,4) slotString_eqD(2) [OF st(3) dash(1,2)]])
  ultimately show "s = t" by simp
qed

lemma tbSlotID_cases:
  "tbSlotID mappool = ''TB'' \<or> (\<exists>i. tbSlotID mappool = slotString \<lparr>dsMod = PieceModTB, dsIndex = i\<rparr>)"
  by (auto simp: tbSlotID_def split: option.splits)

lemma buildPool_all:
  assumes "\<forall>c\<in>set slots. slotID c \<noteq> '''' \<and> modValid (slotMod c)"
    and "distinct (map slotID slots)" and "\<forall>c\<in>set slots. slotID c \<notin> fst ` set pool"
  shows "buildPool pool sh tb slots =
    Inr (pool @ map (\<lambda>c. (slotID c, c\<lparr>slotState := PoolSlotAvailable\<rparr>)) slots,
         sh + length (filter (\<lambda>c. slotMod c = ModShiro) slots),
         tb + length (filter (\<lambda>c. slotMod c = ModTB) slots))"
  using assms
proof (induction slots arbitrary: pool sh tb)
  case (Cons c slots)
  have fresh: "mapGet pool (slotID c) = None"
    using Cons.prems(3) by (simp add: map_of_eq_None_iff)
  let ?p = "pool @ [(slotID c, c\<lparr>slotState := PoolSlotAvailable\<rparr>)]"
  have "buildPool ?p sh tb slots =
    Inr (?p @ map (\<lambda>c. (slotID c, c\<lparr>slotState := PoolSlotAvailable\<rparr>)) slots,
         sh + length (filter (\<lambda>c. slotMod c = ModShiro) slots),
         tb + length (filter (\<lambda>c. slotMod c = ModTB) slots))" for sh tb
    using Cons.prems by (intro Cons.IH) (auto simp: image_iff)
  then show ?case using Cons.prems by (simp add: fresh mapPut_fresh [OF fresh])
qed simp

definition seedSlots :: "Mappool option \<Rightarrow> PoolSlot list" where
  "seedSlots mappool =
     (case mappool of None \<Rightarrow> [] | Some mp \<Rightarrow> normalSlots (ToRuntime mp)) @
     [newSlot ''SHIRO'' ModShiro, newSlot (tbSlotID mappool) ModTB]"

lemma newSlot_simps [simp]: "slotID (newSlot i m) = i" "slotMod (newSlot i m) = m"
  by (simp_all add: newSlot_def)

lemma normalSlot_D:
  assumes "c \<in> set (normalSlots pool)"
  obtains k where "k \<in> set (normalKeys pool)" "slotID c = slotString k" "modValid (slotMod c)"
    "slotMod c \<noteq> ModShiro" "slotMod c \<noteq> ModTB"
proof -
  from assms obtain k where k: "k \<in> set (normalKeys pool)"
    "c = newSlot (slotString k) (the (engineModFromDomain (dsMod k)))"
    by (auto simp: normalSlots_def)
  then obtain m where "engineModFromDomain (dsMod k) = Some m" "m \<noteq> ModShiro" "m \<noteq> ModTB" "modValid m"
    using engineMod_compact by (auto simp: normalKeys_iff)
  with k that show thesis by simp
qed

lemma dash_not: "CHR ''-'' \<in> set x \<Longrightarrow> x \<noteq> ''SHIRO'' \<and> x \<noteq> ''TB'' \<and> x \<noteq> []"
  by auto

lemma tbSlotID_not: "tbSlotID mappool \<noteq> ''SHIRO'' \<and> tbSlotID mappool \<noteq> []"
proof -
  consider "tbSlotID mappool = ''TB''" | "CHR ''-'' \<in> set (tbSlotID mappool)"
    using tbSlotID_cases slotString_dash by metis
  then show ?thesis
  proof cases
    case 2
    from dash_not [OF this] show ?thesis by simp
  qed simp
qed

lemma tb_not_normal:
  assumes "k \<in> set (normalKeys pool)"
  shows "slotString k \<noteq> tbSlotID mappool" and "slotString k \<noteq> ''SHIRO''"
proof -
  have compact: "dsMod k \<in> set compactMods" using assms by (simp add: normalKeys_iff)
  then have "dsMod k \<noteq> PieceModTB" by (auto simp: compactMods_def)
  note k = compact_no_dash [OF compact] this
  show "slotString k \<noteq> ''SHIRO''" using dash_not [OF slotString_dash] by blast
  have plain: "slotString k \<noteq> ''TB''" using dash_not [OF slotString_dash] by blast
  have dashed: "slotString k \<noteq> slotString \<lparr>dsMod = PieceModTB, dsIndex = i\<rparr>" for i
  proof
    assume "slotString k = slotString \<lparr>dsMod = PieceModTB, dsIndex = i\<rparr>"
    from slotString_eqD(1) [OF this k(1)] k(2) show False by simp
  qed
  show "slotString k \<noteq> tbSlotID mappool"
    using tbSlotID_cases [of mappool] plain dashed by metis
qed

lemma normalSlots_ids: "map slotID (normalSlots pool) = map slotString (normalKeys pool)"
  by (simp add: normalSlots_def comp_def)

lemma distinct_normalSlots: "distinct (map slotID (normalSlots pool))"
  unfolding normalSlots_ids distinct_map using distinct_normalKeys slotString_inj_normal by blast

lemma not_in_image: "(\<And>c. c \<in> A \<Longrightarrow> f c \<noteq> x) \<Longrightarrow> x \<notin> f ` A"
  by blast

lemma seedSlots_ok:
  "\<forall>c\<in>set (seedSlots mappool). slotID c \<noteq> '''' \<and> modValid (slotMod c)"
  "distinct (map slotID (seedSlots mappool))"
  "length (filter (\<lambda>c. slotMod c = ModShiro) (seedSlots mappool)) = 1"
  "length (filter (\<lambda>c. slotMod c = ModTB) (seedSlots mappool)) = 1"
proof -
  define normal where
    "normal = (case mappool of None \<Rightarrow> [] | Some mp \<Rightarrow> normalSlots (ToRuntime mp))"
  have seed: "seedSlots mappool = normal @ [newSlot ''SHIRO'' ModShiro, newSlot (tbSlotID mappool) ModTB]"
    by (simp add: seedSlots_def normal_def)
  note tb = tbSlotID_not [of mappool]
  have c: "slotID c \<noteq> '''' \<and> modValid (slotMod c) \<and> slotMod c \<noteq> ModShiro \<and> slotMod c \<noteq> ModTB \<and>
      slotID c \<noteq> ''SHIRO'' \<and> slotID c \<noteq> tbSlotID mappool" if "c \<in> set normal" for c
  proof -
    from that obtain pool where "c \<in> set (normalSlots pool)"
      by (auto simp: normal_def split: option.splits)
    then obtain k where k: "k \<in> set (normalKeys pool)" "slotID c = slotString k" "modValid (slotMod c)"
      "slotMod c \<noteq> ModShiro" "slotMod c \<noteq> ModTB" by (rule normalSlot_D)
    have "slotString k \<noteq> ''''" using dash_not [OF slotString_dash] by blast
    then show ?thesis using k tb_not_normal [OF k(1)] by simp
  qed
  show "\<forall>c\<in>set (seedSlots mappool). slotID c \<noteq> '''' \<and> modValid (slotMod c)"
  proof -
    have "\<forall>c\<in>set normal. slotID c \<noteq> '''' \<and> modValid (slotMod c)" using c by blast
    then show ?thesis using tb by (simp add: seed)
  qed
  have "distinct (map slotID normal)"
    by (auto simp: normal_def distinct_normalSlots split: option.splits)
  moreover have "''SHIRO'' \<notin> slotID ` set normal" "tbSlotID mappool \<notin> slotID ` set normal"
    by (rule not_in_image, drule c, elim conjE, assumption)+
  ultimately show "distinct (map slotID (seedSlots mappool))"
    using tb not_sym [OF tb [THEN conjunct1]] by (simp add: seed)
  have "filter (\<lambda>c. slotMod c = ModShiro) normal = []" "filter (\<lambda>c. slotMod c = ModTB) normal = []"
    unfolding filter_empty_conv using c by blast+
  then show "length (filter (\<lambda>c. slotMod c = ModShiro) (seedSlots mappool)) = 1"
    "length (filter (\<lambda>c. slotMod c = ModTB) (seedSlots mappool)) = 1"
    by (simp_all add: seed)
qed

definition seedPool :: "Mappool option \<Rightarrow> (string, PoolSlot) gomap" where
  "seedPool mappool = map (\<lambda>c. (slotID c, c\<lparr>slotState := PoolSlotAvailable\<rparr>)) (seedSlots mappool)"

lemma buildPool_seed: "buildPool [] 0 0 (seedSlots mappool) = Inr (seedPool mappool, 1, 1)"
  using buildPool_all [of "seedSlots mappool" "[]" 0 0] seedSlots_ok [of mappool]
  by (simp add: seedPool_def)

lemma engineConfiguration_eq:
  "engineConfigurationFromEntities mappool redTeam blueTeam firstPick firstBan =
     (case (firstBan, firstPick, redTeam, blueTeam) of
        (Some ban, Some pick, Some red, Some blue) \<Rightarrow>
          Inr \<lparr>cfgFirstBan = engineTeamFromDomain ban, cfgFirstPick = engineTeamFromDomain pick,
               cfgPoolSlots = seedSlots mappool,
               cfgRosters =
                 [(TeamRed, \<lparr>rosterLeaderID = DerefInt64 (teamLeaderID red) 0,
                             rosterPlayerIDs = teamPlayers red\<rparr>),
                  (TeamBlue, \<lparr>rosterLeaderID = DerefInt64 (teamLeaderID blue) 0,
                              rosterPlayerIDs = teamPlayers blue\<rparr>)],
               cfgTimers = StandardTimerConfiguration\<rparr>
      | _ \<Rightarrow> Inl NilDereference)"
proof -
  have "(case mappool of None \<Rightarrow> Inr [] | Some mp \<Rightarrow> allModSlots (ToRuntime mp) compactMods) =
      Inr (case mappool of None \<Rightarrow> [] | Some mp \<Rightarrow> normalSlots (ToRuntime mp))"
    by (cases mappool) (simp_all add: allModSlots_normal)
  then show ?thesis unfolding engineConfigurationFromEntities_def seedSlots_def by simp
qed

section \<open>When a room becomes a match\<close>

text \<open>Every id of the two teams' leaders and players is positive and none occurs twice.\<close>

definition rostersPlayable :: "Team \<Rightarrow> Team \<Rightarrow> bool" where
  "rostersPlayable red blue \<longleftrightarrow>
     (let ids = DerefInt64 (teamLeaderID red) 0 # teamPlayers red @
                DerefInt64 (teamLeaderID blue) 0 # teamPlayers blue
      in list_all (\<lambda>p. 0 < p) ids \<and> distinct ids)"

definition configurationOf ::
  "Mappool option \<Rightarrow> Team \<Rightarrow> Team \<Rightarrow> DomainSide \<Rightarrow> DomainSide \<Rightarrow> Configuration" where
  "configurationOf mappool red blue pick ban =
     \<lparr>cfgFirstBan = engineTeamFromDomain ban, cfgFirstPick = engineTeamFromDomain pick,
      cfgPoolSlots = seedSlots mappool,
      cfgRosters =
        [(TeamRed, \<lparr>rosterLeaderID = DerefInt64 (teamLeaderID red) 0,
                    rosterPlayerIDs = teamPlayers red\<rparr>),
         (TeamBlue, \<lparr>rosterLeaderID = DerefInt64 (teamLeaderID blue) 0,
                     rosterPlayerIDs = teamPlayers blue\<rparr>)],
      cfgTimers = StandardTimerConfiguration\<rparr>"

lemma engineTeam_valid [simp]: "teamValid (engineTeamFromDomain side)"
  by (simp add: engineTeamFromDomain_def)

lemma standardTimers_valid: "timersValid StandardTimerConfiguration"
  by (simp add: timersValid_def StandardTimerConfiguration_def second_def)

lemma rosters_playable:
  "(\<exists>r. validateAndCloneRosters (cfgRosters (configurationOf mappool red blue pick ban)) = Inr r) \<longleftrightarrow>
     rostersPlayable red blue" (is "?accepted \<longleftrightarrow> _")
proof -
  let ?rosters = "cfgRosters (configurationOf mappool red blue pick ban)"
  have "?accepted \<longleftrightarrow> (\<exists>r. checkRosterSides ?rosters [] [TeamRed, TeamBlue] = Inr r)"
    by (simp add: validateAndCloneRosters_def configurationOf_def split: sum.split)
  moreover have "rosterIDs ?rosters TeamRed = DerefInt64 (teamLeaderID red) 0 # teamPlayers red"
    "rosterIDs ?rosters TeamBlue = DerefInt64 (teamLeaderID blue) 0 # teamPlayers blue"
    "mapGet ?rosters TeamRed \<noteq> None" "mapGet ?rosters TeamBlue \<noteq> None"
    by (simp_all add: configurationOf_def rosterIDs_def rosterOf_def)
  ultimately show ?thesis unfolding checkRosters_iff rostersPlayable_def by (simp add: Let_def)
qed

lemma NewReadyState_seed:
  "(\<exists>s. NewReadyState (configurationOf mappool red blue pick ban) = Inr s) \<longleftrightarrow> rostersPlayable red blue"
  using rosters_playable [of mappool red blue pick ban]
  by (auto simp: NewReadyState_def configurationOf_def buildPool_seed standardTimers_valid
      split: sum.splits)

lemma NewReadyState_seedPool:
  "NewReadyState (configurationOf mappool red blue pick ban) = Inr s \<Longrightarrow>
   PoolSlots s = seedPool mappool \<and> FirstBan s = engineTeamFromDomain ban \<and>
   FirstPick s = engineTeamFromDomain pick \<and> Version s = 0 \<and> Lifecycle s = LifecycleReady \<and>
   Rosters s = cfgRosters (configurationOf mappool red blue pick ban)"
  by (auto simp: NewReadyState_def configurationOf_def buildPool_seed standardTimers_valid
      validateAndCloneRosters_def split: sum.splits if_splits)

text \<open>The checks before the configuration is built.\<close>

definition roomStartable ::
  "Room \<Rightarrow> Team option \<Rightarrow> Team option \<Rightarrow> Mappool option \<Rightarrow> Time \<Rightarrow> bool" where
  "roomStartable room redTeam blueTeam mappool now \<longleftrightarrow>
     roomID room \<noteq> NilObjectID \<and> roomType room \<in> {RoomTypeMatch, RoomTypeCasual, RoomTypePrivate} \<and>
     now \<noteq> 0 \<and> MissingStartRequirements room redTeam blueTeam mappool = []"

lemma requireField_Nil [simp]: "requireField f ok = [] \<longleftrightarrow> ok"
  by (simp add: requireField_def)

lemma teamReady_Some: "teamReady t \<longleftrightarrow> (\<exists>team. t = Some team \<and> teamIsReady team)"
  by (cases t) (simp_all add: teamReady_def)

lemma requirements_met:
  assumes "MissingStartRequirements room redTeam blueTeam mappool = []"
    and "roomType room \<in> {RoomTypeMatch, RoomTypeCasual}"
  shows "roomScheduledAt room \<noteq> None" and "teamReady redTeam" and "teamReady blueTeam"
    and "roomFirstPick room \<noteq> None" and "roomFirstBan room \<noteq> None"
    and "roomType room = RoomTypeMatch \<Longrightarrow> mappool \<noteq> None"
    and "mappool \<noteq> None \<Longrightarrow> HasTBEntry mappool"
  using assms by (auto simp: MissingStartRequirements_def split: if_splits)

definition seedOf ::
  "ObjectID \<Rightarrow> Time \<Rightarrow> Room \<Rightarrow> Team \<Rightarrow> Team \<Rightarrow> DomainSide \<Rightarrow> DomainSide \<Rightarrow> Mappool option \<Rightarrow> Time \<Rightarrow> Match" where
  "seedOf newID clock room red blue pick ban mappool now =
     (NewMatch clock room (teamSnapshot red TeamSideRed) (teamSnapshot blue TeamSideBlue)
        (case mappool of None \<Rightarrow> NewPool | Some mp \<Rightarrow> ToRuntime mp))
       \<lparr>matchID := newID, matchBPOrder := \<lparr>bpFirstPick = pick, bpFirstBan = ban\<rparr>,
        matchStatus := MatchStatusPending, matchCreatedAt := now, matchUpdatedAt := now\<rparr>"

lemma BuildFormalMatchSeed_startable:
  assumes "roomStartable room redTeam blueTeam mappool now"
  shows "BuildFormalMatchSeed newID clock room redTeam blueTeam mappool now =
    (case (roomFirstPick room, roomFirstBan room, redTeam, blueTeam) of
       (Some pick, Some ban, Some red, Some blue) \<Rightarrow>
         (case NewReadyState (configurationOf mappool red blue pick ban) of
            Inl _ \<Rightarrow> Inl ErrInvalidInput
          | Inr s \<Rightarrow> Inr \<lparr>seedLegacyMatch = seedOf newID clock room red blue pick ban mappool now,
                          seedState = s\<rparr>)
     | _ \<Rightarrow> Inl NilDereference)"
proof -
  have pool: "roomType room = RoomTypeMatch \<Longrightarrow> mappool \<noteq> None"
    using requirements_met(6) assms by (auto simp: roomStartable_def)
  show ?thesis
  proof (cases "roomFirstPick room = None \<or> roomFirstBan room = None \<or> redTeam = None \<or> blueTeam = None")
    case True
    then show ?thesis
      using assms pool
      by (auto simp: BuildFormalMatchSeed_def roomStartable_def isZeroTime_def engineConfiguration_eq
          split: option.splits)
  next
    case False
    then obtain pick ban red blue where "roomFirstPick room = Some pick" "roomFirstBan room = Some ban"
      "redTeam = Some red" "blueTeam = Some blue" by auto
    then show ?thesis
      using assms pool
      by (simp add: BuildFormalMatchSeed_def roomStartable_def isZeroTime_def engineConfiguration_eq
          configurationOf_def seedOf_def Let_def split: sum.split)
  qed
qed

lemma BuildFormalMatchSeed_refused:
  assumes "\<not> roomStartable room redTeam blueTeam mappool now"
  shows "BuildFormalMatchSeed newID clock room redTeam blueTeam mappool now = Inl ErrInvalidInput \<or>
    (\<exists>fields. BuildFormalMatchSeed newID clock room redTeam blueTeam mappool now =
       Inl (ValidationError fields))"
  using assms by (auto simp: BuildFormalMatchSeed_def roomStartable_def isZeroTime_def Let_def)

lemma BuildFormalMatchSeed_Inr:
  assumes "BuildFormalMatchSeed newID clock room redTeam blueTeam mappool now = Inr seed"
  obtains pick ban red blue where "roomStartable room redTeam blueTeam mappool now"
    "roomFirstPick room = Some pick" "roomFirstBan room = Some ban"
    "redTeam = Some red" "blueTeam = Some blue"
    "NewReadyState (configurationOf mappool red blue pick ban) = Inr (seedState seed)"
    "seedLegacyMatch seed = seedOf newID clock room red blue pick ban mappool now"
proof -
  have start: "roomStartable room redTeam blueTeam mappool now"
    using assms BuildFormalMatchSeed_refused [of room redTeam blueTeam mappool now newID clock] by auto
  from assms [unfolded BuildFormalMatchSeed_startable [OF start]] start that show thesis
    by (auto split: option.splits sum.splits)
qed

section \<open>The beatmaps of a seed\<close>

text \<open>The beatmap the shell holds for a slot id, as the read service and the publisher look it up.\<close>

definition slotBeatmap :: "Pool \<Rightarrow> string \<Rightarrow> int option" where
  "slotBeatmap pool sid =
     (case ParsePoolSlot sid of
        None \<Rightarrow> None
      | Some slot \<Rightarrow>
          (case FindSlot pool slot of
             None \<Rightarrow> None
           | Some piece \<Rightarrow>
               (case pcBeatmapID piece of
                  None \<Rightarrow> None
                | Some b \<Rightarrow> if b \<le> 0 then None else Some b)))"

lemma entry_playable:
  "mappoolOk mp \<Longrightarrow> e \<in> set (mpEntries mp) \<Longrightarrow> meMod e \<noteq> PieceModShiro \<Longrightarrow>
   \<exists>b. meBeatmapID e = Some b \<and> 0 < b"
  by (auto simp: mappoolOk_def list_all_iff entryOkay_def split: option.splits)

lemma length_slotGroup:
  assumes "isKnownPieceMod pm"
  shows "length (slotGroup (ToRuntime mp) pm) = length (filter (\<lambda>e. meMod e = pm) (mpEntries mp))"
  using assms by (simp add: slotGroup_ToRuntime)

lemma slotBeatmap_group:
  assumes "mappoolOk mp" and "isKnownPieceMod pm" "pm \<noteq> PieceModShiro"
    and "1 \<le> i" "i \<le> int (length (slotGroup (ToRuntime mp) pm))" "i < 2 ^ 63"
  shows "\<exists>e\<in>set (mpEntries mp). meMod e = pm \<and>
    slotBeatmap (ToRuntime mp) (slotString \<lparr>dsMod = pm, dsIndex = i\<rparr>) = meBeatmapID e \<and> meBeatmapID e \<noteq> None"
proof -
  let ?es = "sort_key meIndex (filter (\<lambda>e. meMod e = pm) (mpEntries mp))"
  let ?e = "?es ! nat (i - 1)"
  have parse: "ParsePoolSlot (slotString \<lparr>dsMod = pm, dsIndex = i\<rparr>) = Some \<lparr>dsMod = pm, dsIndex = i\<rparr>"
    by (rule parse_slotString) (use assms in simp_all)
  have len: "nat (i - 1) < length ?es"
    using assms by (simp add: slotGroup_ToRuntime)
  then have mem: "?e \<in> set ?es" by (rule nth_mem)
  then have e: "?e \<in> set (mpEntries mp)" "meMod ?e = pm" by auto
  then obtain b where b: "meBeatmapID ?e = Some b" "0 < b"
    using entry_playable [OF assms(1) e(1)] assms(3) by auto
  have "FindSlot (ToRuntime mp) \<lparr>dsMod = pm, dsIndex = i\<rparr> = Some (runtimePiece ?e)"
    using assms len by (simp add: FindSlot_group slotGroup_ToRuntime)
  then have "slotBeatmap (ToRuntime mp) (slotString \<lparr>dsMod = pm, dsIndex = i\<rparr>) = Some b"
    using b by (simp add: slotBeatmap_def parse runtimePiece_def)
  with e b show ?thesis by (metis option.distinct(1))
qed

lemma slotBeatmap_outside:
  assumes "isKnownPieceMod pm" "1 \<le> i" "int (length (slotGroup (ToRuntime mp) pm)) < i" "i < 2 ^ 63"
  shows "slotBeatmap (ToRuntime mp) (slotString \<lparr>dsMod = pm, dsIndex = i\<rparr>) = None"
proof -
  have "ParsePoolSlot (slotString \<lparr>dsMod = pm, dsIndex = i\<rparr>) = Some \<lparr>dsMod = pm, dsIndex = i\<rparr>"
    by (rule parse_slotString) (use assms in simp_all)
  then show ?thesis using assms by (simp add: slotBeatmap_def FindSlot_group)
qed

text \<open>The smallest index of a TB entry, which names the TB slot.\<close>

definition tbIndices :: "Mappool \<Rightarrow> int list" where
  "tbIndices mp = sort (map meIndex (filter (\<lambda>e. meMod e = PieceModTB) (mpEntries mp)))"

lemma find_filter: "List.find P xs = (case filter P xs of [] \<Rightarrow> None | x # _ \<Rightarrow> Some x)"
  by (induction xs) auto

lemma map_sort_key: "map f (sort_key f xs) = sort (map f xs)"
  by (metis mset_map mset_sort properties_for_sort sorted_sort_key)

lemma tbSlotID_eq:
  assumes "HasTBEntry (Some mp)"
  shows "tbIndices mp \<noteq> [] \<and>
    tbSlotID (Some mp) = slotString \<lparr>dsMod = PieceModTB, dsIndex = hd (tbIndices mp)\<rparr>"
proof -
  let ?tbs = "sort_key meIndex (filter (\<lambda>e. meMod e = PieceModTB) (mpEntries mp))"
  have "filter (\<lambda>e. meMod e = PieceModTB) (mpEntries mp) \<noteq> []"
    using assms by (auto simp: HasTBEntry_def list_ex_iff filter_empty_conv)
  then have "?tbs \<noteq> []" by (metis length_0_conv length_sort)
  then obtain e es where tbs: "?tbs = e # es" by (cases ?tbs) auto
  have idx: "tbIndices mp = map meIndex ?tbs" by (simp add: tbIndices_def map_sort_key)
  have "isKnownPieceMod PieceModTB" by (simp add: isKnownPieceMod_def knownPieceMods_def)
  then have "List.find (\<lambda>e. meMod e = PieceModTB) (SortedEntries mp) = Some e"
    by (simp add: find_filter filter_SortedEntries tbs)
  then show ?thesis by (simp add: tbSlotID_def idx tbs)
qed

end
