(* ===== verification/RoomStore.thy ===== *)
theory RoomStore
  imports MatchSeed MatchSnapshot
begin

text \<open>
  The collections the room service works on, as functions of a database state \<open>'w\<close>, and the code
  that calls them: the room, match, team, mappool and user lookups and the writes of
  \<open>internal/repository\<close>, and the transaction that creates a match
  (\<open>internal/persistence/formal_match_bootstrap.go\<close>). The last section states what the driver promises
  of these calls (\<open>roomLaws\<close>): a lookup reads what the last write left, an update changes the one
  document its filter selects, and a write whose call fails has either happened or not.
\<close>

section \<open>Updates of a room\<close>

text \<open>The entries of a \<open>$set\<close> document, one constructor per key the service writes.\<close>

datatype RoomField =
    FieldName string | FieldRound Round | FieldScheduledAt "Time option"
  | FieldReferee "int option" | FieldStreamer "int option"
  | FieldRedTeam "ObjectID option" | FieldBlueTeam "ObjectID option"
  | FieldMappool "ObjectID option" | FieldFirstPick DomainSide | FieldFirstBan DomainSide
  | FieldMPLink string | FieldStreamLink string | FieldMatchID "ObjectID option"
  | FieldUpdatedAt Time

fun applyField :: "RoomField \<Rightarrow> Room \<Rightarrow> Room" where
  "applyField (FieldName v) r = r\<lparr>roomName := v\<rparr>"
| "applyField (FieldRound v) r = r\<lparr>roomRound := v\<rparr>"
| "applyField (FieldScheduledAt v) r = r\<lparr>roomScheduledAt := v\<rparr>"
| "applyField (FieldReferee v) r = r\<lparr>roomRefereeUserID := v\<rparr>"
| "applyField (FieldStreamer v) r = r\<lparr>roomStreamerUserID := v\<rparr>"
| "applyField (FieldRedTeam v) r = r\<lparr>roomRedTeamID := v\<rparr>"
| "applyField (FieldBlueTeam v) r = r\<lparr>roomBlueTeamID := v\<rparr>"
| "applyField (FieldMappool v) r = r\<lparr>roomMappoolID := v\<rparr>"
| "applyField (FieldFirstPick v) r = r\<lparr>roomFirstPick := Some v\<rparr>"
| "applyField (FieldFirstBan v) r = r\<lparr>roomFirstBan := Some v\<rparr>"
| "applyField (FieldMPLink v) r = r\<lparr>roomMPLink := Some v\<rparr>"
| "applyField (FieldStreamLink v) r = r\<lparr>roomStreamLink := Some v\<rparr>"
| "applyField (FieldMatchID v) r = r\<lparr>roomMatchID := v\<rparr>"
| "applyField (FieldUpdatedAt v) r = r\<lparr>roomUpdatedAt := v\<rparr>"

definition applyFields :: "RoomField list \<Rightarrow> Room \<Rightarrow> Room" where
  "applyFields fs r = fold applyField fs r"

section \<open>Driver calls\<close>

text \<open>
  \<open>Inl\<close> is an error of the driver, \<open>Inr None\<close> is \<open>mongo.ErrNoDocuments\<close>. An insert fails with the value
  of \<open>mongo.IsDuplicateKeyError\<close>; an update counts the documents its filter matched. The second
  argument of \<open>dbUpdateRoom\<close> after the id says whether the filter asks for \<open>match_id: null\<close>. \<open>dbSetReady\<close>
  is the \<open>FindOneAndUpdate\<close> of one readiness bit, with the status its filter asks for.
\<close>

record 'w RoomDb =
  dbFindUser :: "'w \<Rightarrow> int \<Rightarrow> unit + User option"
  dbFindTeam :: "'w \<Rightarrow> ObjectID \<Rightarrow> unit + Team option"
  dbFindMappool :: "'w \<Rightarrow> ObjectID \<Rightarrow> unit + Mappool option"
  dbFindRoom :: "'w \<Rightarrow> ObjectID \<Rightarrow> unit + Room option"
  dbInsertRoom :: "'w \<Rightarrow> Room \<Rightarrow> 'w \<times> (bool + unit)"
  dbUpdateRoom :: "'w \<Rightarrow> ObjectID \<Rightarrow> bool \<Rightarrow> RoomField list \<Rightarrow> 'w \<times> (unit + nat)"
  dbFindMatch :: "'w \<Rightarrow> ObjectID \<Rightarrow> unit + Match option"
  dbInsertMatch :: "'w \<Rightarrow> Match \<Rightarrow> 'w \<times> (bool + unit)"
  dbUpdateMatch :: "'w \<Rightarrow> Match \<Rightarrow> 'w \<times> (unit + nat)"
  dbSetReady ::
    "'w \<Rightarrow> ObjectID \<Rightarrow> MatchStatus option \<Rightarrow> DomainSide \<Rightarrow> Time \<Rightarrow> 'w \<times> (unit + Match option)"
  dbStartSession :: "'w \<Rightarrow> bool"
  dbTransaction ::
    "'w \<Rightarrow> ('w \<Rightarrow> 'w \<times> (ServiceError + unit)) \<Rightarrow> 'w \<times> (ServiceError + unit)"

section \<open>Repositories\<close>

definition found :: "unit + 'a option \<Rightarrow> ServiceError + 'a" where
  "found r = (case r of
      Inl _ \<Rightarrow> Inl (DriverError False)
    | Inr None \<Rightarrow> Inl ErrNotFound
    | Inr (Some x) \<Rightarrow> Inr x)"

definition roomByID :: "'w RoomDb \<Rightarrow> 'w \<Rightarrow> ObjectID \<Rightarrow> ServiceError + Room" where
  "roomByID db w i = found (dbFindRoom db w i)"

definition matchByID :: "'w RoomDb \<Rightarrow> 'w \<Rightarrow> ObjectID \<Rightarrow> ServiceError + Match" where
  "matchByID db w i = found (dbFindMatch db w i)"

definition teamByID :: "'w RoomDb \<Rightarrow> 'w \<Rightarrow> ObjectID \<Rightarrow> ServiceError + Team" where
  "teamByID db w i = found (dbFindTeam db w i)"

definition mappoolByID :: "'w RoomDb \<Rightarrow> 'w \<Rightarrow> ObjectID \<Rightarrow> ServiceError + Mappool" where
  "mappoolByID db w i = found (dbFindMappool db w i)"

definition userByOsuID :: "'w RoomDb \<Rightarrow> 'w \<Rightarrow> int \<Rightarrow> ServiceError + User" where
  "userByOsuID db w i = found (dbFindUser db w i)"

text \<open>\<open>Create\<close> stamps the document the caller holds; the stored room is returned with the result.\<close>

definition roomCreate ::
  "'w RoomDb \<Rightarrow> Time \<Rightarrow> ObjectID \<Rightarrow> 'w \<Rightarrow> Room \<Rightarrow> 'w \<times> (ServiceError + Room)" where
  "roomCreate db clock newID w room =
     (let room' = room\<lparr>roomID := (if roomID room = NilObjectID then newID else roomID room),
                       roomCreatedAt := clock, roomUpdatedAt := clock\<rparr>
      in case dbInsertRoom db w room' of
           (w', Inl dup) \<Rightarrow> (w', Inl (if dup then ErrAlreadyExists else DriverError False))
         | (w', Inr _) \<Rightarrow> (w', Inr room'))"

definition roomUpdateFields ::
  "'w RoomDb \<Rightarrow> Time \<Rightarrow> 'w \<Rightarrow> ObjectID \<Rightarrow> RoomField list \<Rightarrow> bool \<Rightarrow> 'w \<times> (ServiceError + unit)" where
  "roomUpdateFields db clock w i fs requireSetupOpen =
     (case dbUpdateRoom db w i requireSetupOpen (FieldUpdatedAt clock # fs) of
        (w', Inl _) \<Rightarrow> (w', Inl (DriverError False))
      | (w', Inr matched) \<Rightarrow>
          if matched > 0 then (w', Inr ())
          else (case roomByID db w' i of
                  Inl e \<Rightarrow> (w', Inl e)
                | Inr _ \<Rightarrow> (w', Inl (if requireSetupOpen then ErrConflict else ErrNotFound))))"

definition matchUpdate :: "'w RoomDb \<Rightarrow> Time \<Rightarrow> 'w \<Rightarrow> Match \<Rightarrow> 'w \<times> (ServiceError + unit)" where
  "matchUpdate db clock w m =
     (case dbUpdateMatch db w (m\<lparr>matchUpdatedAt := clock\<rparr>) of
        (w', Inl _) \<Rightarrow> (w', Inl (DriverError False))
      | (w', Inr matched) \<Rightarrow> (w', if matched = 0 then Inl ErrNotFound else Inr ()))"

definition matchUpdateReadiness ::
  "'w RoomDb \<Rightarrow> Time \<Rightarrow> 'w \<Rightarrow> ObjectID \<Rightarrow> DomainSide \<Rightarrow> MatchStatus option \<Rightarrow> 'w \<times> (ServiceError + Match)" where
  "matchUpdateReadiness db clock w mid side requireStatus =
     (if side \<noteq> TeamSideRed \<and> side \<noteq> TeamSideBlue then (w, Inl ErrInvalidInput)
      else case dbSetReady db w mid requireStatus side clock of
             (w', Inl _) \<Rightarrow> (w', Inl (DriverError False))
           | (w', Inr (Some m)) \<Rightarrow> (w', Inr m)
           | (w', Inr None) \<Rightarrow>
               (case matchByID db w' mid of
                  Inl e \<Rightarrow> (w', Inl e)
                | Inr _ \<Rightarrow> (w', Inl ErrConflict)))"

section \<open>The bootstrap transaction\<close>

definition knownRoomType :: "RoomType \<Rightarrow> bool" where
  "knownRoomType t \<longleftrightarrow> t = RoomTypeMatch \<or> t = RoomTypeCasual \<or> t = RoomTypePrivate"

definition bootstrapBody ::
  "'w RoomDb \<Rightarrow> 'w Mongo \<Rightarrow> ObjectID \<Rightarrow> Match \<Rightarrow> MatchSnapshotDocument \<Rightarrow> Time \<Rightarrow> 'w
   \<Rightarrow> 'w \<times> (ServiceError + unit)" where
  "bootstrapBody db snapshots rid legacy document now w =
     (case dbUpdateRoom db w rid True
             [FieldMatchID (Some (matchID legacy)), FieldUpdatedAt now] of
        (w1, Inl _) \<Rightarrow> (w1, Inl (DriverError False))
      | (w1, Inr matched) \<Rightarrow>
          if matched = 0 then
            (case dbFindRoom db w1 rid of
               Inr None \<Rightarrow> (w1, Inl ErrNotFound)
             | Inl _ \<Rightarrow> (w1, Inl (DriverError False))
             | Inr (Some room) \<Rightarrow>
                 if \<not> knownRoomType (roomType room)
                 then (w1, Inl ErrFormalMatchBootstrapInvalid)
                 else (w1, Inl ErrFormalMatchAlreadyStarted))
          else
            (case dbInsertMatch db w1 legacy of
               (w2, Inl dup) \<Rightarrow> (w2, Inl (DriverError dup))
             | (w2, Inr _) \<Rightarrow>
                 (case insertSnapshot snapshots w2 document of
                    (w3, Inl dup) \<Rightarrow> (w3, Inl (DriverError dup))
                  | (w3, Inr _) \<Rightarrow> (w3, Inr ()))))"

text \<open>
  \<open>DriverError True\<close> is an error for which \<open>mongo.IsDuplicateKeyError\<close> holds. Any other error is
  wrapped, and \<open>errors.Is\<close> still sees it.
\<close>

definition bootstrapCreate ::
  "'w RoomDb \<Rightarrow> 'w Mongo \<Rightarrow> Codec \<Rightarrow> 'w \<Rightarrow> ObjectID \<Rightarrow> Match \<Rightarrow> State \<Rightarrow> Time \<Rightarrow> 'w \<times> (ServiceError + unit)" where
  "bootstrapCreate db snapshots codec w rid legacyMatch state now =
     (if rid = NilObjectID \<or> matchID legacyMatch = NilObjectID \<or> matchRoomID legacyMatch \<noteq> rid
         \<or> \<not> knownRoomType (matchRoomType legacyMatch) \<or> matchCode legacyMatch = ''''
         \<or> isZeroTime now
      then (w, Inl ErrFormalMatchBootstrapInvalid)
      else if matchStatus legacyMatch \<noteq> MatchStatusPending \<or> Lifecycle state \<noteq> LifecycleReady
              \<or> Version state \<noteq> 0
      then (w, Inl ErrFormalMatchBootstrapInvalid)
      else case NewMatchSnapshotDocument codec (matchID legacyMatch) state now of
        None \<Rightarrow> (w, Inl ErrFormalMatchBootstrapInvalid)
      | Some document \<Rightarrow>
          let legacy = legacyMatch\<lparr>matchCreatedAt := now, matchUpdatedAt := now\<rparr>
          in if \<not> dbStartSession db w then (w, Inl (DriverError False))
             else (case dbTransaction db w (bootstrapBody db snapshots rid legacy document now) of
                     (w', Inr _) \<Rightarrow> (w', Inr ())
                   | (w', Inl e) \<Rightarrow>
                       (w', Inl (if e = DriverError True then ErrFormalMatchAlreadyStarted else e))))"

section \<open>What the driver promises\<close>

definition sameRooms :: "'w RoomDb \<Rightarrow> 'w \<Rightarrow> 'w \<Rightarrow> bool" where
  "sameRooms db w w' \<longleftrightarrow> dbFindRoom db w' = dbFindRoom db w"

definition sameMatches :: "'w RoomDb \<Rightarrow> 'w \<Rightarrow> 'w \<Rightarrow> bool" where
  "sameMatches db w w' \<longleftrightarrow> dbFindMatch db w' = dbFindMatch db w"

definition sameSnapshots :: "'w Mongo \<Rightarrow> 'w \<Rightarrow> 'w \<Rightarrow> bool" where
  "sameSnapshots sn w w' \<longleftrightarrow>
     findSnapshot sn w' = findSnapshot sn w \<and> findReceipt sn w' = findReceipt sn w"

definition roomSelected :: "'w RoomDb \<Rightarrow> 'w \<Rightarrow> ObjectID \<Rightarrow> bool \<Rightarrow> Room \<Rightarrow> bool" where
  "roomSelected db w i setupOpen r \<longleftrightarrow>
     dbFindRoom db w i = Inr (Some r) \<and> (setupOpen \<longrightarrow> roomMatchID r = None)"

definition roomUpdated :: "'w RoomDb \<Rightarrow> 'w \<Rightarrow> ObjectID \<Rightarrow> bool \<Rightarrow> RoomField list \<Rightarrow> 'w \<Rightarrow> bool" where
  "roomUpdated db w i setupOpen fs w' \<longleftrightarrow>
     (\<exists>r. roomSelected db w i setupOpen r \<and>
          dbFindRoom db w' = (dbFindRoom db w)(i := Inr (Some (applyFields fs r))))"

definition updateRoomLaw :: "'w RoomDb \<Rightarrow> 'w Mongo \<Rightarrow> bool" where
  "updateRoomLaw db sn \<longleftrightarrow>
     (\<forall>w i setupOpen fs w' x. dbUpdateRoom db w i setupOpen fs = (w', x) \<longrightarrow>
        sameMatches db w w' \<and> sameSnapshots sn w w' \<and>
        (case x of
           Inl _ \<Rightarrow> sameRooms db w w' \<or> roomUpdated db w i setupOpen fs w'
         | Inr n \<Rightarrow>
             if n = 0 then sameRooms db w w' \<and> (\<forall>r. \<not> roomSelected db w i setupOpen r)
             else roomUpdated db w i setupOpen fs w'))"

definition insertRoomLaw :: "'w RoomDb \<Rightarrow> 'w Mongo \<Rightarrow> bool" where
  "insertRoomLaw db sn \<longleftrightarrow>
     (\<forall>w r w' x. dbInsertRoom db w r = (w', x) \<longrightarrow>
        sameMatches db w w' \<and> sameSnapshots sn w w' \<and>
        (sameRooms db w w' \<and> x \<noteq> Inr () \<or>
         dbFindRoom db w (roomID r) = Inr None \<and>
         dbFindRoom db w' = (dbFindRoom db w)(roomID r := Inr (Some r))))"

definition insertMatchLaw :: "'w RoomDb \<Rightarrow> 'w Mongo \<Rightarrow> bool" where
  "insertMatchLaw db sn \<longleftrightarrow>
     (\<forall>w m w' x. dbInsertMatch db w m = (w', x) \<longrightarrow>
        sameRooms db w w' \<and> sameSnapshots sn w w' \<and>
        (sameMatches db w w' \<and> x \<noteq> Inr () \<or>
         dbFindMatch db w (matchID m) = Inr None \<and>
         dbFindMatch db w' = (dbFindMatch db w)(matchID m := Inr (Some m))))"

text \<open>A \<open>$set\<close> of a whole match leaves the optional instants that are nil as they were.\<close>

definition matchOverwrites :: "Match \<Rightarrow> Match \<Rightarrow> Match" where
  "matchOverwrites m old =
     m\<lparr>matchStartedAt := (case matchStartedAt m of None \<Rightarrow> matchStartedAt old | Some t \<Rightarrow> Some t),
       matchFinishedAt := (case matchFinishedAt m of None \<Rightarrow> matchFinishedAt old | Some t \<Rightarrow> Some t)\<rparr>"

definition matchWritten :: "'w RoomDb \<Rightarrow> 'w \<Rightarrow> ObjectID \<Rightarrow> Match \<Rightarrow> Match \<Rightarrow> 'w \<Rightarrow> bool" where
  "matchWritten db w i old m w' \<longleftrightarrow>
     dbFindMatch db w i = Inr (Some old) \<and>
     dbFindMatch db w' = (dbFindMatch db w)(i := Inr (Some m))"

definition updateMatchLaw :: "'w RoomDb \<Rightarrow> 'w Mongo \<Rightarrow> bool" where
  "updateMatchLaw db sn \<longleftrightarrow>
     (\<forall>w m w' x. dbUpdateMatch db w m = (w', x) \<longrightarrow>
        sameRooms db w w' \<and> sameSnapshots sn w w' \<and>
        (sameMatches db w w' \<and> (\<forall>n. x = Inr n \<longrightarrow> n = 0) \<or>
         (\<exists>old. matchWritten db w (matchID m) old (matchOverwrites m old) w') \<and> x \<noteq> Inr 0))"

definition setReady :: "DomainSide \<Rightarrow> Time \<Rightarrow> Match \<Rightarrow> Match" where
  "setReady side now m =
     m\<lparr>matchReadiness :=
         (if side = TeamSideRed then (matchReadiness m)\<lparr>redReady := True\<rparr>
          else (matchReadiness m)\<lparr>blueReady := True\<rparr>),
       matchUpdatedAt := now\<rparr>"

definition setReadyLaw :: "'w RoomDb \<Rightarrow> 'w Mongo \<Rightarrow> bool" where
  "setReadyLaw db sn \<longleftrightarrow>
     (\<forall>w i status side now w' x. dbSetReady db w i status side now = (w', x) \<longrightarrow>
        sameRooms db w w' \<and> sameSnapshots sn w w' \<and>
        (sameMatches db w w' \<and> (x = Inl () \<or> x = Inr None) \<or>
         (\<exists>old. matchWritten db w i old (setReady side now old) w' \<and>
                (case status of None \<Rightarrow> True | Some st \<Rightarrow> matchStatus old = st) \<and>
                (x = Inl () \<or> x = Inr (Some (setReady side now old))))))"

definition insertSnapshotLaw :: "'w RoomDb \<Rightarrow> 'w Mongo \<Rightarrow> bool" where
  "insertSnapshotLaw db sn \<longleftrightarrow>
     (\<forall>w d w' x. insertSnapshot sn w d = (w', x) \<longrightarrow>
        sameRooms db w w' \<and> sameMatches db w w' \<and> findReceipt sn w' = findReceipt sn w \<and>
        (x = Inr () \<longrightarrow> findSnapshot sn w (docMatchID d) = Inr None \<and>
           findSnapshot sn w' = (findSnapshot sn w)(docMatchID d := Inr (Some d))))"

text \<open>
  The transaction of the bootstrap is one of the same driver: after an error of its own it may have been
  rolled back or, if the outcome of the commit was lost, committed.
\<close>

definition roomTransactionLaw :: "'w RoomDb \<Rightarrow> bool" where
  "roomTransactionLaw db \<longleftrightarrow>
     (\<forall>w f. case f w of
              (w1, Inl e) \<Rightarrow> dbTransaction db w f = (w, Inl e)
            | (w1, Inr r) \<Rightarrow> dbTransaction db w f = (w1, Inr r) \<or>
                             dbTransaction db w f = (w1, Inl (DriverError False)) \<or>
                             (\<exists>dup. dbTransaction db w f = (w, Inl (DriverError dup))))"

definition roomLaws :: "'w RoomDb \<Rightarrow> 'w Mongo \<Rightarrow> bool" where
  "roomLaws db sn \<longleftrightarrow>
     updateRoomLaw db sn \<and> insertRoomLaw db sn \<and> insertMatchLaw db sn \<and> updateMatchLaw db sn \<and>
     setReadyLaw db sn \<and> insertSnapshotLaw db sn \<and> roomTransactionLaw db"

lemmas roomLawsD =
  roomLaws_def [THEN iffD1, THEN conjunct1]
  roomLaws_def [THEN iffD1, THEN conjunct2, THEN conjunct1]
  roomLaws_def [THEN iffD1, THEN conjunct2, THEN conjunct2, THEN conjunct1]
  roomLaws_def [THEN iffD1, THEN conjunct2, THEN conjunct2, THEN conjunct2, THEN conjunct1]
  roomLaws_def [THEN iffD1, THEN conjunct2, THEN conjunct2, THEN conjunct2, THEN conjunct2,
    THEN conjunct1]
  roomLaws_def [THEN iffD1, THEN conjunct2, THEN conjunct2, THEN conjunct2, THEN conjunct2,
    THEN conjunct2, THEN conjunct1]
  roomLaws_def [THEN iffD1, THEN conjunct2, THEN conjunct2, THEN conjunct2, THEN conjunct2,
    THEN conjunct2, THEN conjunct2]

section \<open>What the writes do\<close>

lemma applyField_static [simp]:
  "roomID (applyField f r) = roomID r" "roomType (applyField f r) = roomType r"
  "roomCode (applyField f r) = roomCode r" "roomOwnerID (applyField f r) = roomOwnerID r"
  by (cases f; simp)+

lemma applyFields_simps [simp]:
  "applyFields [] r = r" "applyFields (f # fs) r = applyFields fs (applyField f r)"
  by (simp_all add: applyFields_def)

lemma applyFields_static [simp]:
  "roomID (applyFields fs r) = roomID r" "roomType (applyFields fs r) = roomType r"
  "roomCode (applyFields fs r) = roomCode r" "roomOwnerID (applyFields fs r) = roomOwnerID r"
  by (induction fs arbitrary: r) simp_all

lemma found_Inr [simp]: "found x = Inr y \<longleftrightarrow> x = Inr (Some y)"
  by (auto simp: found_def split: sum.splits option.splits)

lemma same_refl [simp]: "sameRooms db w w" "sameMatches db w w" "sameSnapshots sn w w"
  by (simp_all add: sameRooms_def sameMatches_def sameSnapshots_def)

lemma dbUpdateRoom_effect:
  assumes "roomLaws db sn" and "dbUpdateRoom db w i setupOpen fs = (w', x)"
  shows "sameMatches db w w'" and "sameSnapshots sn w w'"
    and "sameRooms db w w' \<or> roomUpdated db w i setupOpen fs w'"
    and "x = Inr n \<Longrightarrow> n > 0 \<Longrightarrow> roomUpdated db w i setupOpen fs w'"
    and "x = Inr 0 \<Longrightarrow> sameRooms db w w' \<and> (\<forall>r. \<not> roomSelected db w i setupOpen r)"
  using roomLawsD(1) [OF assms(1), unfolded updateRoomLaw_def, rule_format, OF assms(2)]
  by (auto split: sum.splits if_splits)

lemma roomUpdateFields_effect:
  assumes "roomLaws db sn" and "roomUpdateFields db clock w i fs setupOpen = (w', x)"
  shows "sameMatches db w w' \<and> sameSnapshots sn w w' \<and>
    (sameRooms db w w' \<or> roomUpdated db w i setupOpen (FieldUpdatedAt clock # fs) w')"
proof -
  obtain w1 y where run: "dbUpdateRoom db w i setupOpen (FieldUpdatedAt clock # fs) = (w1, y)"
    by fastforce
  then have "w1 = w'"
    using assms(2) by (auto simp: roomUpdateFields_def split: sum.splits if_splits)
  with dbUpdateRoom_effect(1-3) [OF assms(1) run] show ?thesis by simp
qed

lemma roomUpdateFields_Inr:
  assumes "roomLaws db sn" and "roomUpdateFields db clock w i fs setupOpen = (w', Inr u)"
  shows "roomUpdated db w i setupOpen (FieldUpdatedAt clock # fs) w'"
proof -
  obtain w1 y where run: "dbUpdateRoom db w i setupOpen (FieldUpdatedAt clock # fs) = (w1, y)"
    by fastforce
  then obtain n where "w1 = w'" "y = Inr n" "n > 0"
    using assms(2) by (auto simp: roomUpdateFields_def split: sum.splits if_splits)
  with dbUpdateRoom_effect(4) [OF assms(1) run] show ?thesis by simp
qed

text \<open>A filter that asks for an open setup never selects a room that has its match.\<close>

lemma roomUpdateFields_locked:
  assumes "roomLaws db sn" and "dbFindRoom db w i = Inr (Some r)" "roomMatchID r \<noteq> None"
    and "roomUpdateFields db clock w i fs True = (w', x)"
  shows "sameRooms db w w' \<and> (x = Inl ErrConflict \<or> x = Inl (DriverError False))"
proof -
  obtain w1 y where run: "dbUpdateRoom db w i True (FieldUpdatedAt clock # fs) = (w1, y)"
    by fastforce
  then have "w1 = w'" using assms(4) by (auto simp: roomUpdateFields_def split: sum.splits if_splits)
  have no: "\<not> roomUpdated db w i True (FieldUpdatedAt clock # fs) w'"
    using assms(2,3) by (auto simp: roomUpdated_def roomSelected_def)
  with dbUpdateRoom_effect [OF assms(1) run] \<open>w1 = w'\<close> have same: "sameRooms db w w'"
    and y: "y = Inl () \<or> y = Inr 0" by (cases y; auto)+
  have "roomByID db w' i = Inr r" using same assms(2) by (simp add: sameRooms_def roomByID_def)
  with y same run \<open>w1 = w'\<close> assms(4) show ?thesis by (auto simp: roomUpdateFields_def)
qed

lemma roomCreate_effect:
  assumes "roomLaws db sn" and "roomCreate db clock newID w room = (w', x)"
  shows "sameMatches db w w' \<and> sameSnapshots sn w w' \<and>
    (sameRooms db w w' \<or>
     (\<exists>r. dbFindRoom db w (roomID r) = Inr None \<and> roomMatchID r = roomMatchID room \<and>
          dbFindRoom db w' = (dbFindRoom db w)(roomID r := Inr (Some r))))"
proof -
  define r where "r = room\<lparr>roomID := (if roomID room = NilObjectID then newID else roomID room),
      roomCreatedAt := clock, roomUpdatedAt := clock\<rparr>"
  obtain w1 y where run: "dbInsertRoom db w r = (w1, y)" by fastforce
  have "w1 = w'"
    using assms(2) run by (auto simp: roomCreate_def r_def [symmetric] Let_def split: sum.splits)
  moreover have "roomMatchID r = roomMatchID room" by (simp add: r_def)
  ultimately show ?thesis
    using roomLawsD(2) [OF assms(1), unfolded insertRoomLaw_def, rule_format, OF run] by metis
qed

lemma matchUpdate_effect:
  assumes "roomLaws db sn" and "matchUpdate db clock w m = (w', x)"
  shows "sameRooms db w w' \<and> sameSnapshots sn w w' \<and>
    (sameMatches db w w' \<or> (\<exists>old. matchWritten db w (matchID m) old
        (matchOverwrites (m\<lparr>matchUpdatedAt := clock\<rparr>) old) w'))"
proof -
  obtain w1 y where run: "dbUpdateMatch db w (m\<lparr>matchUpdatedAt := clock\<rparr>) = (w1, y)" by fastforce
  have "w1 = w'" using assms(2) run by (auto simp: matchUpdate_def split: sum.splits if_splits)
  then show ?thesis
    using roomLawsD(4) [OF assms(1), unfolded updateMatchLaw_def, rule_format, OF run] by auto
qed

lemma matchUpdateReadiness_effect:
  assumes "roomLaws db sn" and "matchUpdateReadiness db clock w mid side status = (w', x)"
  shows "sameRooms db w w' \<and> sameSnapshots sn w w' \<and>
    (sameMatches db w w' \<or> (\<exists>old. matchWritten db w mid old (setReady side clock old) w' \<and>
        (case status of None \<Rightarrow> True | Some st \<Rightarrow> matchStatus old = st)))"
proof (cases "side \<noteq> TeamSideRed \<and> side \<noteq> TeamSideBlue")
  case False
  obtain w1 y where run: "dbSetReady db w mid status side clock = (w1, y)" by fastforce
  have "w1 = w'"
    using assms(2) run False
    by (auto simp: matchUpdateReadiness_def split: sum.splits option.splits if_splits)
  then show ?thesis
    using roomLawsD(5) [OF assms(1), unfolded setReadyLaw_def, rule_format, OF run] by auto
qed (use assms(2) in \<open>simp add: matchUpdateReadiness_def\<close>)

lemma matchUpdateReadiness_Inr:
  assumes "roomLaws db sn" and "matchUpdateReadiness db clock w mid side status = (w', Inr m)"
  shows "\<exists>old. matchWritten db w mid old m w' \<and> m = setReady side clock old"
proof -
  have side: "\<not> (side \<noteq> TeamSideRed \<and> side \<noteq> TeamSideBlue)"
    by (rule notI) (use assms(2) in \<open>simp add: matchUpdateReadiness_def\<close>)
  obtain w1 y where run: "dbSetReady db w mid status side clock = (w1, y)" by fastforce
  have y: "w1 = w'" "y = Inr (Some m)"
    using assms(2) run side
    by (auto simp: matchUpdateReadiness_def split: sum.splits option.splits if_splits)
  then show ?thesis
    using roomLawsD(5) [OF assms(1), unfolded setReadyLaw_def, rule_format, OF run] by auto
qed

lemma bootstrapBody_Inr:
  assumes "roomLaws db sn" and "bootstrapBody db sn rid legacy d now w = (w', Inr u)"
  shows "roomUpdated db w rid True [FieldMatchID (Some (matchID legacy)), FieldUpdatedAt now] w'"
    and "dbFindMatch db w (matchID legacy) = Inr None"
    and "dbFindMatch db w' = (dbFindMatch db w)(matchID legacy := Inr (Some legacy))"
    and "findSnapshot sn w (docMatchID d) = Inr None"
    and "findSnapshot sn w' = (findSnapshot sn w)(docMatchID d := Inr (Some d))"
    and "findReceipt sn w' = findReceipt sn w"
proof -
  let ?fs = "[FieldMatchID (Some (matchID legacy)), FieldUpdatedAt now]"
  obtain w1 x where upd: "dbUpdateRoom db w rid True ?fs = (w1, x)" by fastforce
  obtain w2 y where ins: "dbInsertMatch db w1 legacy = (w2, y)" by fastforce
  obtain w3 z where snap: "insertSnapshot sn w2 d = (w3, z)" by fastforce
  from assms(2) upd ins snap obtain n where
    ok: "x = Inr n" "n > 0" "y = Inr ()" "z = Inr ()" "w3 = w'"
    by (auto simp: bootstrapBody_def split: sum.splits option.splits if_splits)
  note one = dbUpdateRoom_effect [OF assms(1) upd]
  note two = roomLawsD(3) [OF assms(1), unfolded insertMatchLaw_def, rule_format, OF ins]
  note three = roomLawsD(6) [OF assms(1), unfolded insertSnapshotLaw_def, rule_format, OF snap]
  show "roomUpdated db w rid True ?fs w'"
    using one(4) [OF ok(1,2)] two three ok by (auto simp: roomUpdated_def sameRooms_def)
  show "dbFindMatch db w (matchID legacy) = Inr None"
    "dbFindMatch db w' = (dbFindMatch db w)(matchID legacy := Inr (Some legacy))"
    using one(1) two three ok by (auto simp: sameMatches_def)
  show "findSnapshot sn w (docMatchID d) = Inr None"
    "findSnapshot sn w' = (findSnapshot sn w)(docMatchID d := Inr (Some d))"
    "findReceipt sn w' = findReceipt sn w"
    using one(2) two three ok by (auto simp: sameSnapshots_def)
qed

lemma roomTransactionD:
  assumes "roomLaws db sn" and "dbTransaction db w f = (w', x)"
  shows "case x of
      Inl e \<Rightarrow> w' = w \<or> (e = DriverError False \<and> (\<exists>r. f w = (w', Inr r)))
    | Inr r \<Rightarrow> f w = (w', Inr r)"
proof -
  obtain w1 y where f: "f w = (w1, y)" by fastforce
  have "case f w of (w1, Inl e) \<Rightarrow> dbTransaction db w f = (w, Inl e)
      | (w1, Inr r) \<Rightarrow> dbTransaction db w f = (w1, Inr r) \<or>
          dbTransaction db w f = (w1, Inl (DriverError False)) \<or>
          (\<exists>dup. dbTransaction db w f = (w, Inl (DriverError dup)))"
    by (rule roomLawsD(7) [OF assms(1), unfolded roomTransactionLaw_def, rule_format])
  then show ?thesis using f assms(2) by (cases y) auto
qed

text \<open>
  A bootstrap changes nothing or links the room, the shell and the snapshot. It has written if it reports
  success, and may have if the driver reports an error; if it reports a match that was already started it
  has not.
\<close>

definition bootstrapped ::
  "'w RoomDb \<Rightarrow> 'w Mongo \<Rightarrow> Codec \<Rightarrow> 'w \<Rightarrow> ObjectID \<Rightarrow> Match \<Rightarrow> State \<Rightarrow> Time \<Rightarrow> 'w \<Rightarrow> bool" where
  "bootstrapped db sn codec w rid m s now w' \<longleftrightarrow>
     (\<exists>d. NewMatchSnapshotDocument codec (matchID m) s now = Some d \<and> matchRoomID m = rid \<and>
        knownRoomType (matchRoomType m) \<and> matchStatus m = MatchStatusPending \<and>
        bootstrapBody db sn rid (m\<lparr>matchCreatedAt := now, matchUpdatedAt := now\<rparr>) d now w = (w', Inr ()))"

lemma bootstrapCreate_cases:
  assumes "roomLaws db sn" and "bootstrapCreate db sn codec w rid m s now = (w', x)"
  obtains (same) e where "w' = w" "x = Inl e"
  | (written) "bootstrapped db sn codec w rid m s now w'" "x = Inr () \<or> x = Inl (DriverError False)"
proof -
  consider e where "w' = w" "x = Inl e"
    | d y where "NewMatchSnapshotDocument codec (matchID m) s now = Some d" "matchRoomID m = rid"
      "knownRoomType (matchRoomType m)" "matchStatus m = MatchStatusPending"
      "dbTransaction db w (bootstrapBody db sn rid (m\<lparr>matchCreatedAt := now, matchUpdatedAt := now\<rparr>) d now) = (w', y)"
      "x = (case y of Inl e \<Rightarrow> Inl (if e = DriverError True then ErrFormalMatchAlreadyStarted else e) | Inr _ \<Rightarrow> Inr ())"
    using assms(2)
    by (auto simp: bootstrapCreate_def Let_def split: if_splits option.splits prod.splits sum.splits)
  then show thesis
  proof cases
    case (2 d y)
    from roomTransactionD [OF assms(1) 2(5)] 2(6) show thesis
      by (cases y) (auto intro: same written simp: bootstrapped_def 2(1-4))
  qed (rule same)
qed

end
