(* ===== verification/RoomService.thy ===== *)
theory RoomService
  imports RoomStore
begin

text \<open>
  The room service (\<open>internal/service/room_service.go\<close>): who may configure a room, every change of its
  configuration, the start of a match with its recovery path, and the readiness of the strategists;
  with the parser of multiplayer links (\<open>ChannelFromMPLink\<close> of \<open>internal/irc/adapter.go\<close>). Log output is
  left out. Fresh ids, random bytes and the readings of the clock are arguments.
\<close>

section \<open>Multiplayer links\<close>

text \<open>
  The parts of a \<open>url.URL\<close> the code reads. The parser itself, \<open>url.ParseRequestURI\<close> of the trimmed
  text, is an argument.
\<close>

record URL =
  urlScheme :: string
  urlHostname :: string
  urlPort :: string
  urlRawQuery :: string
  urlFragment :: string
  urlPath :: string

text \<open>
  \<open>strings.EqualFold\<close> against a text of ASCII letters without capitals: besides the ASCII capitals,
  the long s and the Kelvin sign (here as their UTF-8 bytes) fold to ASCII letters.
\<close>

fun foldText :: "string \<Rightarrow> string" where
  "foldText [] = []"
| "foldText (c # s) =
     (if of_char c = (0xC5 :: nat) \<and> map of_char (take 1 s) = [0xBF :: nat]
      then CHR ''s'' # foldText (drop 1 s)
      else if of_char c = (0xE2 :: nat) \<and> map of_char (take 2 s) = [0x84 :: nat, 0xAA]
      then CHR ''k'' # foldText (drop 2 s)
      else lowerByte c # foldText s)"

definition equalFold :: "string \<Rightarrow> string \<Rightarrow> bool" where
  "equalFold s t \<longleftrightarrow> foldText s = t"

definition trimSlashes :: "string \<Rightarrow> string" where
  "trimSlashes s =
     rev (dropWhile (\<lambda>c. c = CHR ''/'') (rev (dropWhile (\<lambda>c. c = CHR ''/'') s)))"

fun splitSlash :: "string \<Rightarrow> string list" where
  "splitSlash [] = [[]]"
| "splitSlash (c # s) =
     (if c = CHR ''/'' then [] # splitSlash s
      else case splitSlash s of
             [] \<Rightarrow> [[c]]
           | part # parts \<Rightarrow> (c # part) # parts)"

definition ChannelFromMPLink :: "(string \<Rightarrow> URL option) \<Rightarrow> string \<Rightarrow> string option" where
  "ChannelFromMPLink parseURL link =
     (case parseURL link of
        None \<Rightarrow> None
      | Some u \<Rightarrow>
          if \<not> equalFold (urlScheme u) ''https'' \<or> \<not> equalFold (urlHostname u) ''osu.ppy.sh''
             \<or> urlPort u \<noteq> '''' \<or> urlRawQuery u \<noteq> '''' \<or> urlFragment u \<noteq> ''''
          then None
          else (case splitSlash (trimSlashes (urlPath u)) of
                  [p0, p1, p2] \<Rightarrow>
                    if p0 \<noteq> ''community'' \<or> p1 \<noteq> ''matches'' \<or> p2 = '''' then None
                    else (case atoi p2 of
                            None \<Rightarrow> None
                          | Some value \<Rightarrow> if value \<le> 0 then None else Some (''#mp_'' @ p2))
                | _ \<Rightarrow> None))"

text \<open>\<open>MatchChannel\<close> recognises the channels of matches; \<open>strconv.FormatInt\<close> prints what \<open>itoa\<close> prints.\<close>

definition MatchChannel :: "string \<Rightarrow> bool" where
  "MatchChannel channel \<longleftrightarrow>
     take 4 channel = ''#mp_'' \<and>
     (case atoi (drop 4 channel) of
        None \<Rightarrow> False
      | Some value \<Rightarrow> value > 0 \<and> itoa value = drop 4 channel)"

section \<open>The service\<close>

text \<open>
  What the service is wired with. The optional parts are the interfaces the code compares with nil;
  \<open>rsStartMatchSystem\<close> is the command driver, whose result says whether it returned an error.
\<close>

record 'w RoomService =
  rsDb :: "'w RoomDb"
  rsHasUsers :: bool
  rsFormalMatches ::
    "('w \<Rightarrow> ObjectID \<Rightarrow> Match \<Rightarrow> State \<Rightarrow> Time \<Rightarrow> 'w \<times> (ServiceError + unit)) option"
  rsHasSnapshot :: "('w \<Rightarrow> ObjectID \<Rightarrow> ServiceError + bool) option"
  rsStartMatchSystem :: "('w \<Rightarrow> ObjectID \<Rightarrow> 64 word \<Rightarrow> Time \<Rightarrow> 'w \<times> bool) option"
  rsParseURL :: "string \<Rightarrow> URL option"

text \<open>The readings of the clock, the fresh ids and the random bytes of one call.\<close>

record CallEnv =
  ceClock :: Time
  ceNow :: Time
  ceFreshID :: ObjectID
  ceRandom :: "nat list option"

section \<open>Authorization\<close>

definition currentEligibleUser :: "'w RoomService \<Rightarrow> 'w \<Rightarrow> int \<Rightarrow> ServiceError + User" where
  "currentEligibleUser svc w osuID =
     (if \<not> rsHasUsers svc then Inl ErrNotConfigured
      else case userByOsuID (rsDb svc) w osuID of
        Inl e \<Rightarrow> Inl (if e = ErrNotFound then ErrUnauthorized else e)
      | Inr user \<Rightarrow>
          if userIsBanned user \<or> userVerifyStatus user \<noteq> Verified then Inl ErrForbidden
          else Inr user)"

definition authorizedRoom :: "'w RoomService \<Rightarrow> 'w \<Rightarrow> int \<Rightarrow> ObjectID \<Rightarrow> ServiceError + Room" where
  "authorizedRoom svc w callerID rid =
     (case currentEligibleUser svc w callerID of
        Inl e \<Rightarrow> Inl e
      | Inr user \<Rightarrow>
          (case roomByID (rsDb svc) w rid of
             Inl e \<Rightarrow> Inl e
           | Inr room \<Rightarrow>
               if HasRole user RoleAdmin then Inr room
               else if roomType room = RoomTypeMatch then
                 (if \<not> HasRole user RoleReferee \<or> roomRefereeUserID room \<noteq> Some (userOnlineID user)
                  then Inl ErrForbidden else Inr room)
               else if roomOwnerID room \<noteq> userOnlineID user then Inl ErrForbidden
               else Inr room))"

definition authorizedRoomConfiguration ::
  "'w RoomService \<Rightarrow> 'w \<Rightarrow> int \<Rightarrow> ObjectID \<Rightarrow> ServiceError + Room" where
  "authorizedRoomConfiguration svc w callerID rid =
     (case currentEligibleUser svc w callerID of
        Inl e \<Rightarrow> Inl e
      | Inr user \<Rightarrow>
          (case roomByID (rsDb svc) w rid of
             Inl e \<Rightarrow> Inl e
           | Inr room \<Rightarrow>
               if HasRole user RoleAdmin then Inr room
               else if roomType room = RoomTypeMatch \<or> roomOwnerID room \<noteq> userOnlineID user
               then Inl ErrForbidden
               else Inr room))"

definition requireRoomSetupOpen :: "Room \<Rightarrow> ServiceError option" where
  "requireRoomSetupOpen room = (if roomMatchID room \<noteq> None then Some ErrConflict else None)"

text \<open>The prefix the setters share: authorization, then the setup lock.\<close>

definition openConfiguration ::
  "'w RoomService \<Rightarrow> 'w \<Rightarrow> int \<Rightarrow> ObjectID \<Rightarrow> ServiceError + Room" where
  "openConfiguration svc w callerID rid =
     (case authorizedRoomConfiguration svc w callerID rid of
        Inl e \<Rightarrow> Inl e
      | Inr room \<Rightarrow> guardE (requireRoomSetupOpen room) (Inr room))"

section \<open>Writing configuration\<close>

definition updateRoomFields ::
  "'w RoomService \<Rightarrow> CallEnv \<Rightarrow> 'w \<Rightarrow> ObjectID \<Rightarrow> RoomField list \<Rightarrow> bool \<Rightarrow> 'w \<times> (ServiceError + Room)" where
  "updateRoomFields svc env w rid fs requireSetupOpen =
     (case roomUpdateFields (rsDb svc) (ceClock env) w rid fs requireSetupOpen of
        (w', Inl e) \<Rightarrow> (w', Inl e)
      | (w', Inr _) \<Rightarrow> (w', roomByID (rsDb svc) w' rid))"

definition roomCodeChars :: string where
  "roomCodeChars = ''ABCDEFGHJKLMNPQRSTUVWXYZ23456789''"

definition generateRoomCode :: "nat list option \<Rightarrow> string option" where
  "generateRoomCode random =
     (case random of
        None \<Rightarrow> None
      | Some b \<Rightarrow> Some (map (\<lambda>x. roomCodeChars ! (x mod length roomCodeChars)) (take 6 b)))"

definition newRoom :: "string \<Rightarrow> string \<Rightarrow> RoomType \<Rightarrow> int \<Rightarrow> Room" where
  "newRoom code name t ownerID =
     \<lparr>roomID = NilObjectID, roomCode = code, roomName = name, roomType = t, roomOwnerID = ownerID,
      roomRefereeUserID = (if t = RoomTypeMatch then Some ownerID else None),
      roomRound = RoundNone, roomScheduledAt = None, roomStreamerUserID = None,
      roomRedTeamID = None, roomBlueTeamID = None, roomMappoolID = None, roomFirstPick = None,
      roomFirstBan = None, roomMPLink = None, roomStreamLink = None, roomMatchID = None,
      roomSeasonID = None, roomFixtureID = None, roomWeekIndex = 0, roomCreatedAt = 0,
      roomUpdatedAt = 0\<rparr>"

definition CreateRoom ::
  "'w RoomService \<Rightarrow> CallEnv \<Rightarrow> 'w \<Rightarrow> int \<Rightarrow> RoomType \<Rightarrow> string \<Rightarrow> 'w \<times> (ServiceError + Room)" where
  "CreateRoom svc env w ownerID t name =
     (if \<not> knownRoomType t then (w, Inl ErrInvalidInput)
      else case currentEligibleUser svc w ownerID of
        Inl e \<Rightarrow> (w, Inl e)
      | Inr user \<Rightarrow>
          if t = RoomTypeMatch \<and> \<not> HasRole user RoleAdmin \<and> \<not> HasRole user RoleReferee
          then (w, Inl ErrForbidden)
          else (case generateRoomCode (ceRandom env) of
                  None \<Rightarrow> (w, Inl (DriverError False))
                | Some code \<Rightarrow>
                    roomCreate (rsDb svc) (ceClock env) (ceFreshID env) w
                      (newRoom code (if name = '''' then ''RCT Room'' else name) t ownerID)))"

definition loadLinkableTeam ::
  "'w RoomService \<Rightarrow> 'w \<Rightarrow> ObjectID option \<Rightarrow> string \<Rightarrow> ServiceError + Team option" where
  "loadLinkableTeam svc w ref field =
     (case ref of
        None \<Rightarrow> Inr None
      | Some i \<Rightarrow>
          (case teamByID (rsDb svc) w i of
             Inl e \<Rightarrow> Inl e
           | Inr team \<Rightarrow>
               if \<not> teamIsReady team then Inl (ValidationError [(field, ''ready'')])
               else Inr (Some team)))"

definition sharedPlayers :: "int list \<Rightarrow> int list \<Rightarrow> int list" where
  "sharedPlayers a b = filter (\<lambda>i. i \<in> set a) b"

definition SetTeams ::
  "'w RoomService \<Rightarrow> CallEnv \<Rightarrow> 'w \<Rightarrow> int \<Rightarrow> ObjectID \<Rightarrow> ObjectID option \<Rightarrow> ObjectID option
   \<Rightarrow> 'w \<times> (ServiceError + Room)" where
  "SetTeams svc env w callerID rid redTeamID blueTeamID =
     (case openConfiguration svc w callerID rid of
        Inl e \<Rightarrow> (w, Inl e)
      | Inr _ \<Rightarrow>
     (case loadLinkableTeam svc w redTeamID ''red_team_id'' of
        Inl e \<Rightarrow> (w, Inl e)
      | Inr redTeam \<Rightarrow>
     (case loadLinkableTeam svc w blueTeamID ''blue_team_id'' of
        Inl e \<Rightarrow> (w, Inl e)
      | Inr blueTeam \<Rightarrow>
          if redTeamID \<noteq> None \<and> blueTeamID \<noteq> None \<and> redTeamID = blueTeamID
          then (w, Inl (ValidationError [(''blue_team_id'', ''distinct'')]))
          else if (case (redTeam, blueTeam) of
                     (Some red, Some blue) \<Rightarrow> sharedPlayers (teamPlayers red) (teamPlayers blue) \<noteq> []
                   | _ \<Rightarrow> False)
          then (w, Inl (ValidationError [(''blue_team_id'', ''no_overlap'')]))
          else updateRoomFields svc env w rid
                 [FieldRedTeam redTeamID, FieldBlueTeam blueTeamID] True)))"

definition SetStreamer ::
  "'w RoomService \<Rightarrow> CallEnv \<Rightarrow> 'w \<Rightarrow> int \<Rightarrow> ObjectID \<Rightarrow> int option \<Rightarrow> 'w \<times> (ServiceError + Room)" where
  "SetStreamer svc env w callerID rid uid =
     (case openConfiguration svc w callerID rid of
        Inl e \<Rightarrow> (w, Inl e)
      | Inr _ \<Rightarrow> updateRoomFields svc env w rid [FieldStreamer uid] True)"

definition SetMappool ::
  "'w RoomService \<Rightarrow> CallEnv \<Rightarrow> 'w \<Rightarrow> int \<Rightarrow> ObjectID \<Rightarrow> ObjectID option \<Rightarrow> 'w \<times> (ServiceError + Room)" where
  "SetMappool svc env w callerID rid mappoolID =
     (case openConfiguration svc w callerID rid of
        Inl e \<Rightarrow> (w, Inl e)
      | Inr _ \<Rightarrow>
          (case (case mappoolID of None \<Rightarrow> Inr () | Some i \<Rightarrow>
                   (case mappoolByID (rsDb svc) w i of Inl e \<Rightarrow> Inl e | Inr _ \<Rightarrow> Inr ())) of
             Inl e \<Rightarrow> (w, Inl e)
           | Inr _ \<Rightarrow> updateRoomFields svc env w rid [FieldMappool mappoolID] True))"

definition SetBPOrder ::
  "'w RoomService \<Rightarrow> CallEnv \<Rightarrow> 'w \<Rightarrow> int \<Rightarrow> ObjectID \<Rightarrow> BPOrder \<Rightarrow> 'w \<times> (ServiceError + Room)" where
  "SetBPOrder svc env w callerID rid order =
     (case openConfiguration svc w callerID rid of
        Inl e \<Rightarrow> (w, Inl e)
      | Inr _ \<Rightarrow> updateRoomFields svc env w rid
                   [FieldFirstPick (bpFirstPick order), FieldFirstBan (bpFirstBan order)] True)"

definition SetMPLink ::
  "'w RoomService \<Rightarrow> CallEnv \<Rightarrow> 'w \<Rightarrow> int \<Rightarrow> ObjectID \<Rightarrow> string \<Rightarrow> 'w \<times> (ServiceError + Room)" where
  "SetMPLink svc env w callerID rid link =
     (case authorizedRoom svc w callerID rid of
        Inl e \<Rightarrow> (w, Inl e)
      | Inr room \<Rightarrow>
          if roomType room = RoomTypeMatch \<and> ChannelFromMPLink (rsParseURL svc) link = None
          then (w, Inl ErrInvalidInput)
          else updateRoomFields svc env w rid [FieldMPLink link] False)"

definition SetStreamLink ::
  "'w RoomService \<Rightarrow> CallEnv \<Rightarrow> 'w \<Rightarrow> int \<Rightarrow> ObjectID \<Rightarrow> string \<Rightarrow> 'w \<times> (ServiceError + Room)" where
  "SetStreamLink svc env w callerID rid link =
     (case openConfiguration svc w callerID rid of
        Inl e \<Rightarrow> (w, Inl e)
      | Inr _ \<Rightarrow> updateRoomFields svc env w rid [FieldStreamLink link] True)"

text \<open>The check of a new referee, which three methods share.\<close>

definition eligibleReferee :: "'w RoomService \<Rightarrow> 'w \<Rightarrow> int \<Rightarrow> ServiceError option" where
  "eligibleReferee svc w refereeID =
     (case currentEligibleUser svc w refereeID of
        Inl e \<Rightarrow> Some e
      | Inr referee \<Rightarrow> if \<not> HasRole referee RoleReferee then Some ErrForbidden else None)"

definition SetReferee ::
  "'w RoomService \<Rightarrow> CallEnv \<Rightarrow> 'w \<Rightarrow> int \<Rightarrow> ObjectID \<Rightarrow> int option \<Rightarrow> 'w \<times> (ServiceError + Room)" where
  "SetReferee svc env w callerID rid refereeID =
     (case currentEligibleUser svc w callerID of
        Inl e \<Rightarrow> (w, Inl e)
      | Inr caller \<Rightarrow>
          if \<not> HasRole caller RoleAdmin then (w, Inl ErrForbidden)
          else (case roomByID (rsDb svc) w rid of
                  Inl e \<Rightarrow> (w, Inl e)
                | Inr room \<Rightarrow>
                    if roomType room \<noteq> RoomTypeMatch then (w, Inl ErrInvalidInput)
                    else (case requireRoomSetupOpen room of
                            Some e \<Rightarrow> (w, Inl e)
                          | None \<Rightarrow>
                              (case (case refereeID of None \<Rightarrow> None | Some i \<Rightarrow> eligibleReferee svc w i) of
                                 Some e \<Rightarrow> (w, Inl e)
                               | None \<Rightarrow> updateRoomFields svc env w rid [FieldReferee refereeID] True))))"

record RoomMetadataUpdate =
  rmuName :: string
  rmuRound :: Round
  rmuScheduledAt :: "Time option"
  rmuRefereeUserID :: "int option"
  rmuStreamerUserID :: "int option"

record RoomMetadataPatch =
  rmpName :: "string option"
  rmpRound :: "Round option"
  rmpScheduledAt :: "Time option"
  rmpRefereeUserID :: "int option"
  rmpStreamerUserID :: "int option"

definition validateRound :: "Round \<Rightarrow> ServiceError option" where
  "validateRound r = (if \<not> roundIsValid r then Some ErrInvalidInput else None)"

definition UpdateRoomMetadata ::
  "'w RoomService \<Rightarrow> CallEnv \<Rightarrow> 'w \<Rightarrow> int \<Rightarrow> ObjectID \<Rightarrow> RoomMetadataUpdate \<Rightarrow> 'w \<times> (ServiceError + Room)" where
  "UpdateRoomMetadata svc env w callerID rid update =
     (case currentEligibleUser svc w callerID of
        Inl e \<Rightarrow> (w, Inl e)
      | Inr admin \<Rightarrow>
          if \<not> HasRole admin RoleAdmin then (w, Inl ErrForbidden)
          else if rmuName update = '''' then (w, Inl ErrInvalidInput)
          else (case roomByID (rsDb svc) w rid of
                  Inl e \<Rightarrow> (w, Inl e)
                | Inr room \<Rightarrow>
                    if rmuRefereeUserID update \<noteq> None \<and> roomType room \<noteq> RoomTypeMatch
                    then (w, Inl ErrInvalidInput)
                    else (case (case rmuRefereeUserID update of
                                  None \<Rightarrow> None | Some i \<Rightarrow> eligibleReferee svc w i) of
                            Some e \<Rightarrow> (w, Inl e)
                          | None \<Rightarrow>
                              if rmuRound update \<noteq> RoundNone \<and> validateRound (rmuRound update) \<noteq> None
                              then (w, Inl ErrInvalidInput)
                              else updateRoomFields svc env w (roomID room)
                                     ([FieldName (rmuName update),
                                       FieldScheduledAt (rmuScheduledAt update),
                                       FieldReferee (rmuRefereeUserID update),
                                       FieldStreamer (rmuStreamerUserID update)] @
                                      (if rmuRound update \<noteq> RoundNone
                                       then [FieldRound (rmuRound update)] else [])) True)))"

text \<open>The referee of a patch: the room is looked up only when the patch names one.\<close>

definition patchReferee :: "'w RoomService \<Rightarrow> 'w \<Rightarrow> ObjectID \<Rightarrow> int option \<Rightarrow> ServiceError option" where
  "patchReferee svc w rid ref =
     (case ref of
        None \<Rightarrow> None
      | Some i \<Rightarrow>
          (case roomByID (rsDb svc) w rid of
             Inl e \<Rightarrow> Some e
           | Inr room \<Rightarrow>
               if roomType room \<noteq> RoomTypeMatch then Some ErrInvalidInput
               else eligibleReferee svc w i))"

definition patchFields :: "RoomMetadataPatch \<Rightarrow> RoomField list" where
  "patchFields patch =
     (case rmpName patch of None \<Rightarrow> [] | Some n \<Rightarrow> [FieldName n]) @
     (case rmpRound patch of None \<Rightarrow> [] | Some r \<Rightarrow> [FieldRound r]) @
     (case rmpScheduledAt patch of None \<Rightarrow> [] | Some t \<Rightarrow> [FieldScheduledAt (Some t)]) @
     (case rmpRefereeUserID patch of None \<Rightarrow> [] | Some i \<Rightarrow> [FieldReferee (Some i)]) @
     (case rmpStreamerUserID patch of None \<Rightarrow> [] | Some i \<Rightarrow> [FieldStreamer (Some i)])"

definition UpdateRoomMetadataPartial ::
  "'w RoomService \<Rightarrow> CallEnv \<Rightarrow> 'w \<Rightarrow> int \<Rightarrow> ObjectID \<Rightarrow> RoomMetadataPatch \<Rightarrow> 'w \<times> (ServiceError + Room)" where
  "UpdateRoomMetadataPartial svc env w callerID rid patch =
     (case currentEligibleUser svc w callerID of
        Inl e \<Rightarrow> (w, Inl e)
      | Inr admin \<Rightarrow>
          if \<not> HasRole admin RoleAdmin then (w, Inl ErrForbidden)
          else if rmpName patch = Some '''' then (w, Inl ErrInvalidInput)
          else (case (case rmpRound patch of None \<Rightarrow> None | Some r \<Rightarrow> validateRound r) of
                  Some e \<Rightarrow> (w, Inl e)
                | None \<Rightarrow>
                    (case patchReferee svc w rid (rmpRefereeUserID patch) of
                       Some e \<Rightarrow> (w, Inl e)
                     | None \<Rightarrow>
                         if patchFields patch = [] then (w, Inl ErrInvalidInput)
                         else updateRoomFields svc env w rid (patchFields patch) True)))"

section \<open>Starting a match\<close>

definition loadTeamRef :: "'w RoomService \<Rightarrow> 'w \<Rightarrow> ObjectID option \<Rightarrow> ServiceError + Team option" where
  "loadTeamRef svc w ref =
     (case ref of
        None \<Rightarrow> Inr None
      | Some i \<Rightarrow> (case teamByID (rsDb svc) w i of Inl e \<Rightarrow> Inl e | Inr t \<Rightarrow> Inr (Some t)))"

definition roomStartEntities ::
  "'w RoomService \<Rightarrow> 'w \<Rightarrow> Room \<Rightarrow> ServiceError + Team option \<times> Team option \<times> Mappool option" where
  "roomStartEntities svc w room =
     (case loadTeamRef svc w (roomRedTeamID room) of
        Inl e \<Rightarrow> Inl e
      | Inr red \<Rightarrow>
     (case loadTeamRef svc w (roomBlueTeamID room) of
        Inl e \<Rightarrow> Inl e
      | Inr blue \<Rightarrow>
     (case roomMappoolID room of
        None \<Rightarrow> Inr (red, blue, None)
      | Some i \<Rightarrow>
          (case mappoolByID (rsDb svc) w i of
             Inl e \<Rightarrow> Inl e
           | Inr mp \<Rightarrow> Inr (red, blue, Some mp)))))"

definition existingMatch :: "'w RoomService \<Rightarrow> 'w \<Rightarrow> Room \<Rightarrow> ServiceError + Match" where
  "existingMatch svc w room =
     (case roomMatchID room of
        None \<Rightarrow> Inl ErrConflict
      | Some mid \<Rightarrow>
          (case matchByID (rsDb svc) w mid of
             Inl e \<Rightarrow> Inl e
           | Inr m \<Rightarrow>
               if matchRoomID m \<noteq> roomID room then Inl ErrConflict
               else (case rsHasSnapshot svc of
                       None \<Rightarrow> Inr m
                     | Some probe \<Rightarrow>
                         (case probe w (matchID m) of
                            Inl e \<Rightarrow> Inl e
                          | Inr ok \<Rightarrow> if \<not> ok then Inl ErrConflict else Inr m))))"

definition recoverOrphanedMatch ::
  "'w RoomService \<Rightarrow> CallEnv \<Rightarrow> 'w \<Rightarrow> Room \<Rightarrow> 'w \<times> (ServiceError + unit)" where
  "recoverOrphanedMatch svc env w room =
     (if roomMatchID room = None then (w, Inr ())
      else roomUpdateFields (rsDb svc) (ceClock env) w (roomID room) [FieldMatchID None] True)"

text \<open>The part of \<open>StartMatch\<close> after an existing match has been dealt with.\<close>

definition startFresh ::
  "'w RoomService \<Rightarrow> CallEnv \<Rightarrow> 'w \<Rightarrow> Room
   \<Rightarrow> ('w \<Rightarrow> ObjectID \<Rightarrow> Match \<Rightarrow> State \<Rightarrow> Time \<Rightarrow> 'w \<times> (ServiceError + unit)) \<Rightarrow> 'w \<times> (ServiceError + Match)" where
  "startFresh svc env w room create =
     (case roomStartEntities svc w room of
        Inl e \<Rightarrow> (w, Inl e)
      | Inr (red, blue, mappool) \<Rightarrow>
          (case BuildFormalMatchSeed (ceFreshID env) (ceClock env) room red blue mappool (ceNow env) of
             Inl e \<Rightarrow> (w, Inl e)
           | Inr seed \<Rightarrow>
               (case create w (roomID room) (seedLegacyMatch seed) (seedState seed) (ceNow env) of
                  (w', Inr _) \<Rightarrow> (w', Inr (seedLegacyMatch seed))
                | (w', Inl e) \<Rightarrow>
                    if e \<noteq> ErrFormalMatchAlreadyStarted then (w', Inl e)
                    else (case roomByID (rsDb svc) w' (roomID room) of
                            Inl e \<Rightarrow> (w', Inl e)
                          | Inr room' \<Rightarrow> (w', existingMatch svc w' room')))))"

definition roomStartMatch ::
  "'w RoomService \<Rightarrow> CallEnv \<Rightarrow> 'w \<Rightarrow> int \<Rightarrow> ObjectID \<Rightarrow> 'w \<times> (ServiceError + Match)" where
  "roomStartMatch svc env w callerID rid =
     (case authorizedRoom svc w callerID rid of
        Inl e \<Rightarrow> (w, Inl e)
      | Inr room \<Rightarrow>
     (case rsFormalMatches svc of
        None \<Rightarrow> (w, Inl ErrNotConfigured)
      | Some create \<Rightarrow>
          if roomMatchID room = None then startFresh svc env w room create
          else (case existingMatch svc w room of
                  Inr m \<Rightarrow> (w, Inr m)
                | Inl lookup \<Rightarrow>
                    if lookup \<noteq> ErrConflict then (w, Inl lookup)
                    else (case recoverOrphanedMatch svc env w room of
                            (w1, Inl e) \<Rightarrow> (w1, Inl e)
                          | (w1, Inr _) \<Rightarrow>
                              (case roomByID (rsDb svc) w1 rid of
                                 Inl e \<Rightarrow> (w1, Inl e)
                               | Inr room' \<Rightarrow> startFresh svc env w1 room' create)))))"

section \<open>Readiness\<close>

text \<open>The match after the command driver has run, or the last one known when it cannot be read.\<close>

definition latestMatch :: "'w RoomService \<Rightarrow> 'w \<Rightarrow> Match \<Rightarrow> Match" where
  "latestMatch svc w m =
     (case matchByID (rsDb svc) w (matchID m) of Inl _ \<Rightarrow> m | Inr latest \<Rightarrow> latest)"

definition MarkStrategistReady ::
  "'w RoomService \<Rightarrow> CallEnv \<Rightarrow> 'w \<Rightarrow> int \<Rightarrow> ObjectID \<Rightarrow> 'w \<times> (ServiceError + Match)" where
  "MarkStrategistReady svc env w callerID rid =
     (case roomByID (rsDb svc) w rid of
        Inl e \<Rightarrow> (w, Inl e)
      | Inr room \<Rightarrow>
     (case roomMatchID room of
        None \<Rightarrow> (w, Inl ErrConflict)
      | Some mid \<Rightarrow>
     (case roomStartEntities svc w room of
        Inl e \<Rightarrow> (w, Inl e)
      | Inr (red, blue, _) \<Rightarrow>
     (case StrategistSide red blue callerID of
        None \<Rightarrow> (w, Inl ErrForbidden)
      | Some side \<Rightarrow>
     (case matchByID (rsDb svc) w mid of
        Inl e \<Rightarrow> (w, Inl e)
      | Inr current \<Rightarrow>
          if matchStatus current \<noteq> MatchStatusPending \<and> matchStatus current \<noteq> MatchStatusReady
          then (w, Inl ErrConflict)
          else
     (case matchUpdateReadiness (rsDb svc) (ceClock env) w mid side (Some MatchStatusPending) of
        (w1, Inl e) \<Rightarrow> (w1, if e = ErrConflict then matchByID (rsDb svc) w1 mid else Inl e)
      | (w1, Inr updated) \<Rightarrow>
          if \<not> redReady (matchReadiness updated) \<or> \<not> blueReady (matchReadiness updated)
          then (w1, Inr updated)
          else if roomType room = RoomTypeMatch then (w1, Inr updated)
          else (case rsStartMatchSystem svc of
                  None \<Rightarrow> (w1, Inr updated)
                | Some start \<Rightarrow>
                    (case start w1 (matchID updated) 0 (ceNow env) of
                       (w2, _) \<Rightarrow> (w2, Inr (latestMatch svc w2 updated))))))))))"

end
