(* ===== verification/DomainBoard.thy ===== *)
theory DomainBoard
  imports DomainPool
begin

text \<open>
  The operations of the legacy match shell (\<open>internal/domain/board.go\<close>, \<open>turn.go\<close>, \<open>timer.go\<close>, \<open>match.go\<close>,
  \<open>move.go\<close>). A board is a list of rows of cells; every board the code builds is rectangular
  (\<open>boardShaped\<close>), and the cell lookups are read on such boards: on a ragged one the code panics.
  A pointer to a cell is its position, and a write through it is \<open>setCell\<close>.
\<close>

section \<open>Cells\<close>

definition CellAt :: "MatchBoard \<Rightarrow> Position \<Rightarrow> BoardCell option" where
  "CellAt b p =
     (if posY p < 0 \<or> posY p \<ge> mbRows b \<or> posX p < 0 \<or> posX p \<ge> mbCols b then None
      else Some (mbCells b ! nat (posY p) ! nat (posX p)))"

definition setCell :: "MatchBoard \<Rightarrow> Position \<Rightarrow> (BoardCell \<Rightarrow> BoardCell) \<Rightarrow> MatchBoard" where
  "setCell b p f =
     (let row = mbCells b ! nat (posY p)
      in b\<lparr>mbCells := (mbCells b)[nat (posY p) :=
            row[nat (posX p) := f (row ! nat (posX p))]]\<rparr>)"

definition boardShaped :: "MatchBoard \<Rightarrow> bool" where
  "boardShaped b \<longleftrightarrow> 0 \<le> mbRows b \<and> 0 \<le> mbCols b \<and> int (length (mbCells b)) = mbRows b \<and>
     list_all (\<lambda>row. int (length row) = mbCols b) (mbCells b)"

definition FindByPieceID :: "MatchBoard \<Rightarrow> string \<Rightarrow> Position option" where
  "FindByPieceID b pid =
     map_option cellPos (List.find (\<lambda>c. cellPieceID c = Some pid) (concat (mbCells b)))"

definition cellIsEmpty :: "MatchBoard \<Rightarrow> Position \<Rightarrow> bool" where
  "cellIsEmpty b p = (case CellAt b p of None \<Rightarrow> False | Some c \<Rightarrow> cellState c = CellStateEmpty)"

definition CanPlace :: "MatchBoard \<Rightarrow> PieceMod \<Rightarrow> Position \<Rightarrow> bool" where
  "CanPlace b pm p =
     (case CellAt b p of
        None \<Rightarrow> False
      | Some c \<Rightarrow>
          if cellState c \<noteq> CellStateEmpty then False
          else if IsFreeMod pm then True
          else pm = cellZone c)"

definition legacyPlace :: "MatchBoard \<Rightarrow> PieceMod \<Rightarrow> Position \<Rightarrow> string \<Rightarrow> string \<Rightarrow> MatchBoard option" where
  "legacyPlace b pm p pid team =
     (if \<not> CanPlace b pm p then None
      else Some (setCell b p (\<lambda>c. c\<lparr>cellState := CellStateOccupied, cellPieceID := Some pid,
                                    cellTeamID := Some team\<rparr>)))"

definition clearCell :: "BoardCell \<Rightarrow> BoardCell" where
  "clearCell c = c\<lparr>cellState := CellStateEmpty, cellPieceID := None, cellTeamID := None\<rparr>"

definition legacyRemove :: "MatchBoard \<Rightarrow> Position \<Rightarrow> MatchBoard option" where
  "legacyRemove b p =
     (case CellAt b p of
        None \<Rightarrow> None
      | Some c \<Rightarrow>
          if cellState c = CellStateEmpty then None else Some (setCell b p clearCell))"

section \<open>Alignments\<close>

record WinningAlignment =
  waLength :: int
  waPositions :: "Position list"
  waTeamID :: string

definition ownedBy :: "MatchBoard \<Rightarrow> string \<Rightarrow> Position \<Rightarrow> bool" where
  "ownedBy b team p = (case CellAt b p of None \<Rightarrow> False | Some c \<Rightarrow> cellTeamID c = Some team)"

definition legacyDirections :: "int \<Rightarrow> (int \<times> int) list" where
  "legacyDirections len = [(1, 0), (0, 1)] @ (if len \<ge> 3 then [(1, 1), (1, -1)] else [])"

definition stepFrom :: "Position \<Rightarrow> int \<times> int \<Rightarrow> int \<Rightarrow> Position" where
  "stepFrom p d i = \<lparr>posX = posX p + fst d * i, posY = posY p + snd d * i\<rparr>"

text \<open>The run from a start cell, as far as the team owns it and at most \<open>len\<close> long.\<close>

definition runFrom :: "MatchBoard \<Rightarrow> string \<Rightarrow> int \<Rightarrow> Position \<Rightarrow> int \<times> int \<Rightarrow> Position list" where
  "runFrom b team len p d = p # takeWhile (ownedBy b team) (map (stepFrom p d) [1..len - 1])"

definition legacyAlignments :: "MatchBoard \<Rightarrow> string \<Rightarrow> int \<Rightarrow> WinningAlignment list" where
  "legacyAlignments b team len =
     (if len < 2 then []
      else concat (map (\<lambda>y. concat (map (\<lambda>x.
             if \<not> ownedBy b team \<lparr>posX = x, posY = y\<rparr> then []
             else concat (map (\<lambda>d.
                    let positions = runFrom b team len \<lparr>posX = x, posY = y\<rparr> d
                    in if int (length positions) = len
                       then [\<lparr>waLength = len, waPositions = positions, waTeamID = team\<rparr>]
                       else []) (legacyDirections len)))
             [0..mbCols b - 1])) [0..mbRows b - 1]))"

definition HasFourInARow :: "MatchBoard \<Rightarrow> string \<Rightarrow> bool" where
  "HasFourInARow b team \<longleftrightarrow> length (legacyAlignments b team 4) > 0"

section \<open>Turns\<close>

definition BanTimeLimit :: Duration where "BanTimeLimit = 60 * second"
definition BanBonusTime :: Duration where "BanBonusTime = 15 * second"
definition PickTimeLimit :: Duration where "PickTimeLimit = 90 * second"
definition PickBonusTime :: Duration where "PickBonusTime = 30 * second"
definition WinTimeLimit :: Duration where "WinTimeLimit = 20 * second"
definition WinBonusTime :: Duration where "WinBonusTime = 10 * second"
definition TBTimeLimit :: Duration where "TBTimeLimit = 90 * second"

definition StartBan :: "Time \<Rightarrow> BPOrder \<Rightarrow> TurnState \<Rightarrow> TurnState" where
  "StartBan now order t =
     t\<lparr>tuPhase := MatchPhaseBan, tuCounter := -3, tuAction := TurnActionBan,
       tuActiveTeam := Some (bpFirstBan order), tuBonusUsed := False, tuStartedAt := now,
       tuTimeLimit := BanTimeLimit, tuBonusTime := BanBonusTime\<rparr>"

definition StartPick :: "Time \<Rightarrow> BPOrder \<Rightarrow> TurnState \<Rightarrow> TurnState" where
  "StartPick now order t =
     t\<lparr>tuPhase := MatchPhasePick, tuCounter := 1, tuAction := TurnActionPick,
       tuActiveTeam := Some (bpFirstPick order), tuBonusUsed := False, tuStartedAt := now,
       tuTimeLimit := PickTimeLimit, tuBonusTime := PickBonusTime\<rparr>"

text \<open>\<open>Counter++\<close> wraps at 64 bits; \<open>%\<close> of a negative counter is negative in Go.\<close>

definition NextTurn :: "Time \<Rightarrow> BPOrder \<Rightarrow> TurnState \<Rightarrow> TurnState" where
  "NextTurn now order t0 =
     (let t = t0\<lparr>tuCounter := wrap64 (tuCounter t0 + 1), tuBonusUsed := False, tuStartedAt := now\<rparr>
      in if tuPhase t = MatchPhaseBan then
           (if tuCounter t > 0 then StartPick now order t
            else t\<lparr>tuActiveTeam :=
                     Some (if tuCounter t = -2 \<or> tuCounter t = -1
                           then sideOpponent (bpFirstBan order) else bpFirstBan order),
                   tuAction := TurnActionBan, tuTimeLimit := BanTimeLimit,
                   tuBonusTime := BanBonusTime\<rparr>)
         else if tuPhase t = MatchPhasePick then
           t\<lparr>tuActiveTeam :=
               Some (if tuCounter t > 0 \<and> tuCounter t mod 2 = 1 then bpFirstPick order
                     else sideOpponent (bpFirstPick order)),
             tuAction := TurnActionPick, tuTimeLimit := PickTimeLimit,
             tuBonusTime := PickBonusTime\<rparr>
         else t)"

definition IsTeamTurn :: "TurnState \<Rightarrow> DomainSide \<Rightarrow> bool" where
  "IsTeamTurn t team \<longleftrightarrow> tuActiveTeam t = Some team"

section \<open>Timers\<close>

definition timerLimit :: "TimerState \<Rightarrow> Duration" where
  "timerLimit ts = (if tmBonusUsed ts then wrap64 (tmTimeLimit ts + tmBonusTime ts) else tmTimeLimit ts)"

definition legacyRemaining :: "TimerState \<Rightarrow> Time \<Rightarrow> Duration" where
  "legacyRemaining ts now =
     (if tmIsPaused ts then tmRemainingAtPause ts
      else wrap64 (timerLimit ts - timeSub now (tmStartedAt ts)))"

definition UseBonus :: "TimerState \<Rightarrow> TimerState" where
  "UseBonus ts = ts\<lparr>tmBonusUsed := True\<rparr>"

text \<open>\<open>IsPaused\<close> is set before \<open>Remaining\<close> is called, as in the code.\<close>

definition legacyPause :: "TimerState \<Rightarrow> Time \<Rightarrow> TimerState" where
  "legacyPause ts now =
     (if tmIsPaused ts then ts
      else let ts1 = ts\<lparr>tmIsPaused := True, tmPausedAt := Some now\<rparr>
           in ts1\<lparr>tmRemainingAtPause := legacyRemaining ts1 now\<rparr>)"

definition legacyResume :: "TimerState \<Rightarrow> Time \<Rightarrow> TimerState" where
  "legacyResume ts now =
     (if \<not> tmIsPaused ts then ts
      else let started = now + wrap64 (- tmTimeLimit ts + tmRemainingAtPause ts)
           in ts\<lparr>tmIsPaused := False,
                 tmStartedAt := (if tmBonusUsed ts then started + wrap64 (- tmBonusTime ts) else started),
                 tmPausedAt := None\<rparr>)"

section \<open>Members, permissions and moves\<close>

datatype RoomRole =
    RoomRoleAdmin | RoomRoleStrategist | RoomRoleStreamer | RoomRoleSpectator | RoomRoleOther string

record RoomMember =
  memUserID :: int
  memRoomID :: ObjectID
  memRole :: RoomRole
  memTeamSide :: "DomainSide option"
  memJoinedAt :: Time

definition IsPrivileged :: "RoomMember \<Rightarrow> bool" where
  "IsPrivileged m \<longleftrightarrow> memRole m = RoomRoleAdmin \<or> memRole m = RoomRoleStrategist"

definition TeamBySide :: "Match \<Rightarrow> DomainSide \<Rightarrow> TeamSnapshot" where
  "TeamBySide m side = (if side = TeamSideRed then matchTeamRed m else matchTeamBlue m)"

definition ActiveStrategistID :: "Match \<Rightarrow> int option" where
  "ActiveStrategistID m =
     (case tuActiveTeam (matchTurnState m) of
        None \<Rightarrow> None
      | Some side \<Rightarrow> Some (tsStrategistID (TeamBySide m side)))"

definition WinningTeamID :: "Match \<Rightarrow> DomainSide option" where
  "WinningTeamID m =
     (if HasFourInARow (matchBoard m) ''red'' then Some TeamSideRed
      else if HasFourInARow (matchBoard m) ''blue'' then Some TeamSideBlue
      else None)"

text \<open>
  \<open>None\<close> is the nil dereference of \<open>*member.TeamSide\<close>, reached by a strategist without a side in the
  right phase.
\<close>

definition mayActIn :: "MatchPhase \<Rightarrow> Match \<Rightarrow> RoomMember \<Rightarrow> bool option" where
  "mayActIn phase m member =
     (if memRole member = RoomRoleAdmin then Some True
      else if memRole member \<noteq> RoomRoleStrategist \<or> tuPhase (matchTurnState m) \<noteq> phase then Some False
      else case memTeamSide member of
             None \<Rightarrow> None
           | Some side \<Rightarrow> Some (IsTeamTurn (matchTurnState m) side))"

definition CanBan :: "Match \<Rightarrow> RoomMember \<Rightarrow> bool option" where
  "CanBan m member = mayActIn MatchPhaseBan m member"

definition CanPick :: "Match \<Rightarrow> RoomMember \<Rightarrow> bool option" where
  "CanPick m member = mayActIn MatchPhasePick m member"

definition CanRob :: "Match \<Rightarrow> RoomMember \<Rightarrow> bool option" where
  "CanRob m member = CanPick m member"

definition CanWin :: "Match \<Rightarrow> RoomMember \<Rightarrow> (DomainSide \<times> bool) list \<Rightarrow> bool" where
  "CanWin m member enabled =
     (if memRole member = RoomRoleAdmin then True
      else if memRole member \<noteq> RoomRoleStrategist then False
      else case memTeamSide member of
             None \<Rightarrow> False
           | Some side \<Rightarrow> (case map_of enabled side of None \<Rightarrow> False | Some b \<Rightarrow> b))"

definition CountWonPieces :: "Match \<Rightarrow> (DomainSide \<times> int) list" where
  "CountWonPieces m =
     (let teams = map cellTeamID
            (filter (\<lambda>c. cellState c = CellStateOccupied) (concat (mbCells (matchBoard m))));
          won = (\<lambda>name. int (length (filter (\<lambda>t. t = Some name) teams)))
      in [(TeamSideRed, won ''red''), (TeamSideBlue, won ''blue'')])"

datatype MoveType =
    MoveTypePick | MoveTypeUnpick | MoveTypeBan | MoveTypeUnban | MoveTypeClaim | MoveTypeWin
  | MoveTypeUnwin | MoveTypeRob | MoveTypeUnrob | MoveTypeDead | MoveTypeUndead | MoveTypeSurrender
  | MoveTypeOther string

text \<open>The optional scores of a move, which no code of the service sets, are left out.\<close>

record Move =
  mvMatchID :: ObjectID
  mvRoomID :: ObjectID
  mvType :: MoveType
  mvTeamSide :: "DomainSide option"
  mvOperatorID :: int
  mvSlot :: "DomainSlot option"
  mvFrom :: "Position option"
  mvTo :: "Position option"
  mvForceMod :: "PieceForceMod option"
  mvCreatedAt :: Time

definition NewPickMove ::
  "Time \<Rightarrow> ObjectID \<Rightarrow> ObjectID \<Rightarrow> int \<Rightarrow> DomainSide \<Rightarrow> DomainSlot \<Rightarrow> Position \<Rightarrow> PieceForceMod option \<Rightarrow> Move" where
  "NewPickMove now mid rid operator side slot to forceMod =
     \<lparr>mvMatchID = mid, mvRoomID = rid, mvType = MoveTypePick, mvTeamSide = Some side,
      mvOperatorID = operator, mvSlot = Some slot, mvFrom = None, mvTo = Some to,
      mvForceMod = forceMod, mvCreatedAt = now\<rparr>"

definition NewRobMove ::
  "Time \<Rightarrow> ObjectID \<Rightarrow> ObjectID \<Rightarrow> int \<Rightarrow> DomainSide \<Rightarrow> Position \<Rightarrow> Position \<Rightarrow> Move" where
  "NewRobMove now mid rid operator side from to =
     \<lparr>mvMatchID = mid, mvRoomID = rid, mvType = MoveTypeRob, mvTeamSide = Some side,
      mvOperatorID = operator, mvSlot = None, mvFrom = Some from, mvTo = Some to,
      mvForceMod = None, mvCreatedAt = now\<rparr>"

end
