(* ===== verification/MatchService.thy ===== *)
theory MatchService
  imports RoomStore DomainBoard
begin

text \<open>
  The legacy match service (\<open>internal/service/match_service.go\<close>), which plays casual matches on the
  shell itself and refuses every write to a formal match. Each operation loads the shell, checks that
  it may be written, computes the new shell and the move, and stores both; \<open>legacyWrite\<close> is that
  frame and the \<open>...On\<close> definitions are the computations. A nil pointer the code dereferences is the
  error \<open>NilDereference\<close>.
\<close>

record 'w MatchService =
  msDb :: "'w RoomDb"
  msHasTeams :: bool
  msCreateMove :: "'w \<Rightarrow> Move \<Rightarrow> 'w \<times> (ServiceError + unit)"

definition requireLegacyWritableMatch :: "Match \<Rightarrow> ServiceError option" where
  "requireLegacyWritableMatch m = (if matchRoomType m = RoomTypeMatch then Some ErrConflict else None)"

definition saveMatchAndMove ::
  "'w MatchService \<Rightarrow> Time \<Rightarrow> 'w \<Rightarrow> Match \<Rightarrow> Move \<Rightarrow> 'w \<times> (ServiceError + unit)" where
  "saveMatchAndMove svc now w m move =
     (case matchUpdate (msDb svc) now w (m\<lparr>matchUpdatedAt := now\<rparr>) of
        (w', Inl e) \<Rightarrow> (w', Inl e)
      | (w', Inr _) \<Rightarrow> msCreateMove svc w' move)"

definition legacyWrite ::
  "'w MatchService \<Rightarrow> Time \<Rightarrow> 'w \<Rightarrow> ObjectID \<Rightarrow> (Match \<Rightarrow> ServiceError + Match \<times> Move option)
   \<Rightarrow> 'w \<times> (ServiceError + unit)" where
  "legacyWrite svc now w mid f =
     (case matchByID (msDb svc) w mid of
        Inl e \<Rightarrow> (w, Inl e)
      | Inr m \<Rightarrow>
          (case requireLegacyWritableMatch m of
             Some e \<Rightarrow> (w, Inl e)
           | None \<Rightarrow>
               (case f m of
                  Inl e \<Rightarrow> (w, Inl e)
                | Inr (m', None) \<Rightarrow> matchUpdate (msDb svc) now w m'
                | Inr (m', Some move) \<Rightarrow> saveMatchAndMove svc now w m' move)))"

text \<open>The permission checks, with the panic of a strategist without a side.\<close>

definition permitted :: "bool option \<Rightarrow> ServiceError option" where
  "permitted p = (case p of
      None \<Rightarrow> Some NilDereference
    | Some ok \<Rightarrow> if ok then None else Some ErrForbidden)"

section \<open>Bans and picks\<close>

definition banPieceOn ::
  "Time \<Rightarrow> ObjectID \<Rightarrow> RoomMember \<Rightarrow> DomainSlot \<Rightarrow> Match \<Rightarrow> ServiceError + Match \<times> Move option" where
  "banPieceOn now mid member slot m =
     guardE (permitted (CanBan m member))
     (case FindSlot (matchMappool m) slot of
        None \<Rightarrow> Inl ErrInvalidInput
      | Some piece \<Rightarrow>
          if \<not> CanBeSelected piece then Inl ErrInvalidInput
          else Inr (m\<lparr>matchMappool := setSlot (matchMappool m) slot
                        (\<lambda>p. p\<lparr>pcState := PieceStateBanned\<rparr>)\<rparr>,
                    Some \<lparr>mvMatchID = mid, mvRoomID = matchRoomID m, mvType = MoveTypeBan,
                          mvTeamSide = memTeamSide member, mvOperatorID = memUserID member,
                          mvSlot = Some slot, mvFrom = None, mvTo = None, mvForceMod = None,
                          mvCreatedAt = now\<rparr>))"

definition BanPiece ::
  "'w MatchService \<Rightarrow> Time \<Rightarrow> 'w \<Rightarrow> ObjectID \<Rightarrow> RoomMember \<Rightarrow> DomainSlot \<Rightarrow> 'w \<times> (ServiceError + unit)" where
  "BanPiece svc now w mid member slot = legacyWrite svc now w mid (banPieceOn now mid member slot)"

definition pickPieceOn ::
  "Time \<Rightarrow> ObjectID \<Rightarrow> RoomMember \<Rightarrow> DomainSlot \<Rightarrow> Position \<Rightarrow> PieceForceMod option \<Rightarrow> DomainSide option
   \<Rightarrow> Match \<Rightarrow> ServiceError + Match \<times> Move option" where
  "pickPieceOn now mid member slot pos forceMod placementTeam m =
     guardE (permitted (CanPick m member))
     (case (case placementTeam of None \<Rightarrow> memTeamSide member | Some t \<Rightarrow> Some t) of
        None \<Rightarrow> Inl ErrInvalidInput
      | Some team \<Rightarrow>
          if memRole member \<noteq> RoomRoleAdmin \<and> memTeamSide member \<noteq> None
             \<and> memTeamSide member \<noteq> Some team
          then Inl ErrForbidden
          else (case FindSlot (matchMappool m) slot of
                  None \<Rightarrow> Inl ErrInvalidInput
                | Some piece \<Rightarrow>
                    if \<not> CanBeSelected piece then Inl ErrInvalidInput
                    else (case legacyPlace (matchBoard m) (dsMod slot) pos (slotString slot)
                                 (sideString team) of
                            None \<Rightarrow> Inl ErrInvalidInput
                          | Some board \<Rightarrow>
                              Inr (m\<lparr>matchBoard := board,
                                     matchMappool := setSlot (matchMappool m) slot
                                       (\<lambda>p. p\<lparr>pcState := PieceStatePicked, pcPosition := Some pos,
                                              pcTeamID := Some (sideString team),
                                              pcForceMod := (if dsMod slot = PieceModFM then forceMod
                                                             else pcForceMod p)\<rparr>)\<rparr>,
                                   Some (NewPickMove now mid (matchRoomID m) (memUserID member) team
                                           slot pos forceMod)))))"

definition PickPiece ::
  "'w MatchService \<Rightarrow> Time \<Rightarrow> 'w \<Rightarrow> ObjectID \<Rightarrow> RoomMember \<Rightarrow> DomainSlot \<Rightarrow> Position
   \<Rightarrow> PieceForceMod option \<Rightarrow> DomainSide option \<Rightarrow> 'w \<times> (ServiceError + unit)" where
  "PickPiece svc now w mid member slot pos forceMod placementTeam =
     legacyWrite svc now w mid (pickPieceOn now mid member slot pos forceMod placementTeam)"

section \<open>Robberies and wins\<close>

definition occupiedCell :: "MatchBoard \<Rightarrow> Position \<Rightarrow> (BoardCell \<times> string) option" where
  "occupiedCell b p =
     (case CellAt b p of
        None \<Rightarrow> None
      | Some c \<Rightarrow>
          if cellState c \<noteq> CellStateOccupied then None
          else (case cellPieceID c of None \<Rightarrow> None | Some pid \<Rightarrow> Some (c, pid)))"

text \<open>The pool piece behind a board piece, if its id can be parsed and found.\<close>

definition updateSlotOf :: "string \<Rightarrow> (Piece \<Rightarrow> Piece) \<Rightarrow> Pool \<Rightarrow> Pool" where
  "updateSlotOf pid f pool =
     (case ParsePoolSlot pid of None \<Rightarrow> pool | Some slot \<Rightarrow> setSlot pool slot f)"

definition robPieceOn ::
  "Time \<Rightarrow> ObjectID \<Rightarrow> RoomMember \<Rightarrow> Position \<Rightarrow> Position \<Rightarrow> Match \<Rightarrow> ServiceError + Match \<times> Move option" where
  "robPieceOn now mid member from to m =
     guardE (permitted (CanRob m member))
     (case occupiedCell (matchBoard m) from of
        None \<Rightarrow> Inl ErrInvalidInput
      | Some (fromCell, fromPiece) \<Rightarrow>
     (case cellTeamID fromCell of
        None \<Rightarrow> Inl ErrInvalidInput
      | Some fromTeam \<Rightarrow>
     (case memTeamSide member of
        None \<Rightarrow> Inl NilDereference
      | Some side \<Rightarrow>
          if fromTeam = sideString side then Inl ErrInvalidInput
          else
     (case occupiedCell (matchBoard m) to of
        None \<Rightarrow> Inl ErrInvalidInput
      | Some (toCell, toPiece) \<Rightarrow>
          if cellTeamID toCell \<noteq> Some (sideString side) then Inl ErrInvalidInput
          else
            let b1 = setCell (matchBoard m) from (\<lambda>c. c\<lparr>cellTeamID := Some (sideString side)\<rparr>);
                pool1 = updateSlotOf fromPiece (\<lambda>p. p\<lparr>pcTeamID := Some (sideString side)\<rparr>)
                          (matchMappool m);
                pool2 = updateSlotOf toPiece
                          (\<lambda>p. p\<lparr>pcState := PieceStateDead, pcPosition := None, pcTeamID := None\<rparr>) pool1
            in Inr (m\<lparr>matchBoard := setCell b1 to clearCell, matchMappool := pool2\<rparr>,
                    Some (NewRobMove now mid (matchRoomID m) (memUserID member) side from to))))))"

definition RobPieceLegacy ::
  "'w MatchService \<Rightarrow> Time \<Rightarrow> 'w \<Rightarrow> ObjectID \<Rightarrow> RoomMember \<Rightarrow> Position \<Rightarrow> Position \<Rightarrow> 'w \<times> (ServiceError + unit)" where
  "RobPieceLegacy svc now w mid member from to =
     legacyWrite svc now w mid (robPieceOn now mid member from to)"

text \<open>
  The side that wins the piece: the member's own, which must already own it, or, for an administrator
  without a side, the owner of the cell.
\<close>

definition winPieceOn ::
  "Time \<Rightarrow> ObjectID \<Rightarrow> RoomMember \<Rightarrow> Position \<Rightarrow> (DomainSide \<times> bool) list \<Rightarrow> Match
   \<Rightarrow> ServiceError + Match \<times> Move option" where
  "winPieceOn now mid member pos enabled m =
     (if \<not> CanWin m member enabled then Inl ErrForbidden
      else case occupiedCell (matchBoard m) pos of
        None \<Rightarrow> Inl ErrInvalidInput
      | Some (cell, piece) \<Rightarrow>
          (case (case memTeamSide member of
                   None \<Rightarrow> (case cellTeamID cell of None \<Rightarrow> None | Some t \<Rightarrow> Some (sideOf t))
                 | Some side \<Rightarrow>
                     (case cellTeamID cell of
                        None \<Rightarrow> Some side
                      | Some t \<Rightarrow> if t \<noteq> sideString side then None else Some side)) of
             None \<Rightarrow> Inl ErrInvalidInput
           | Some winner \<Rightarrow>
               Inr (m\<lparr>matchBoard := setCell (matchBoard m) pos
                        (\<lambda>c. c\<lparr>cellTeamID := Some (sideString winner)\<rparr>),
                      matchMappool := updateSlotOf piece
                        (\<lambda>p. p\<lparr>pcState := PieceStateWon, pcTeamID := Some (sideString winner)\<rparr>)
                        (matchMappool m)\<rparr>,
                    Some \<lparr>mvMatchID = mid, mvRoomID = matchRoomID m, mvType = MoveTypeWin,
                          mvTeamSide = Some winner, mvOperatorID = memUserID member, mvSlot = None,
                          mvFrom = None, mvTo = Some pos, mvForceMod = None, mvCreatedAt = now\<rparr>)))"

definition WinPiece ::
  "'w MatchService \<Rightarrow> Time \<Rightarrow> 'w \<Rightarrow> ObjectID \<Rightarrow> RoomMember \<Rightarrow> Position \<Rightarrow> (DomainSide \<times> bool) list
   \<Rightarrow> 'w \<times> (ServiceError + unit)" where
  "WinPiece svc now w mid member pos enabled =
     legacyWrite svc now w mid (winPieceOn now mid member pos enabled)"

section \<open>Turns, timers and the end\<close>

definition endMatchOn :: "Time \<Rightarrow> Match \<Rightarrow> ServiceError + Match \<times> Move option" where
  "endMatchOn now m =
     (if IsFinished m then Inl ErrAlreadyExists
      else Inr (m\<lparr>matchStatus := MatchStatusFinished, matchFinishedAt := Some now,
                  matchTurnState := (matchTurnState m)\<lparr>tuPhase := MatchPhaseEnded\<rparr>\<rparr>, None))"

definition EndMatch :: "'w MatchService \<Rightarrow> Time \<Rightarrow> 'w \<Rightarrow> ObjectID \<Rightarrow> 'w \<times> (ServiceError + unit)" where
  "EndMatch svc now w mid = legacyWrite svc now w mid (endMatchOn now)"

fun actionTimer :: "Time \<Rightarrow> TurnAction \<Rightarrow> TimerState \<Rightarrow> TimerState" where
  "actionTimer now TurnActionBan t = NewTimerState now BanTimeLimit BanBonusTime"
| "actionTimer now TurnActionPick t = NewTimerState now PickTimeLimit PickBonusTime"
| "actionTimer now TurnActionWin t = NewTimerState now WinTimeLimit WinBonusTime"
| "actionTimer now TurnActionTB t = NewTimerState now TBTimeLimit 0"
| "actionTimer now _ t = t"

definition advanceTurnOn :: "Time \<Rightarrow> Match \<Rightarrow> ServiceError + Match \<times> Move option" where
  "advanceTurnOn now m =
     (let turn = NextTurn now (matchBPOrder m) (matchTurnState m)
      in Inr (m\<lparr>matchTurnState := turn,
                matchTimer := actionTimer now (tuAction turn) (matchTimer m)\<rparr>, None))"

definition AdvanceTurn :: "'w MatchService \<Rightarrow> Time \<Rightarrow> 'w \<Rightarrow> ObjectID \<Rightarrow> 'w \<times> (ServiceError + unit)" where
  "AdvanceTurn svc now w mid = legacyWrite svc now w mid (advanceTurnOn now)"

definition pauseOn :: "Time \<Rightarrow> Match \<Rightarrow> ServiceError + Match \<times> Move option" where
  "pauseOn now m =
     (if tmIsPaused (matchTimer m) then Inl ErrInvalidInput
      else Inr (m\<lparr>matchTimer := legacyPause (matchTimer m) now\<rparr>, None))"

definition PauseMatch :: "'w MatchService \<Rightarrow> Time \<Rightarrow> 'w \<Rightarrow> ObjectID \<Rightarrow> 'w \<times> (ServiceError + unit)" where
  "PauseMatch svc now w mid = legacyWrite svc now w mid (pauseOn now)"

definition resumeOn :: "Time \<Rightarrow> Match \<Rightarrow> ServiceError + Match \<times> Move option" where
  "resumeOn now m =
     (if \<not> tmIsPaused (matchTimer m) then Inl ErrInvalidInput
      else Inr (m\<lparr>matchTimer := legacyResume (matchTimer m) now\<rparr>, None))"

definition ResumeMatchLegacy :: "'w MatchService \<Rightarrow> Time \<Rightarrow> 'w \<Rightarrow> ObjectID \<Rightarrow> 'w \<times> (ServiceError + unit)" where
  "ResumeMatchLegacy svc now w mid = legacyWrite svc now w mid (resumeOn now)"

section \<open>Reads\<close>

definition CheckWinCondition ::
  "'w MatchService \<Rightarrow> 'w \<Rightarrow> ObjectID \<Rightarrow> ServiceError + DomainSide option" where
  "CheckWinCondition svc w mid =
     (case matchByID (msDb svc) w mid of Inl e \<Rightarrow> Inl e | Inr m \<Rightarrow> Inr (WinningTeamID m))"

definition serviceTeam :: "'w MatchService \<Rightarrow> 'w \<Rightarrow> ObjectID option \<Rightarrow> ServiceError + Team option" where
  "serviceTeam svc w ref =
     (case ref of
        None \<Rightarrow> Inr None
      | Some i \<Rightarrow> (case teamByID (msDb svc) w i of Inl e \<Rightarrow> Inl e | Inr t \<Rightarrow> Inr (Some t)))"

definition serviceRoomTeams ::
  "'w MatchService \<Rightarrow> 'w \<Rightarrow> Room \<Rightarrow> ServiceError + Team option \<times> Team option" where
  "serviceRoomTeams svc w room =
     (if \<not> msHasTeams svc then Inr (None, None)
      else case serviceTeam svc w (roomRedTeamID room) of
        Inl e \<Rightarrow> Inl e
      | Inr red \<Rightarrow>
          (case serviceTeam svc w (roomBlueTeamID room) of
             Inl e \<Rightarrow> Inl e
           | Inr blue \<Rightarrow> Inr (red, blue)))"

definition ResolveMember ::
  "'w MatchService \<Rightarrow> Time \<Rightarrow> 'w \<Rightarrow> ObjectID \<Rightarrow> int \<Rightarrow> ServiceError + RoomMember" where
  "ResolveMember svc now w mid uid =
     (case matchByID (msDb svc) w mid of
        Inl e \<Rightarrow> Inl e
      | Inr m \<Rightarrow>
     (case roomByID (msDb svc) w (matchRoomID m) of
        Inl e \<Rightarrow> Inl e
      | Inr room \<Rightarrow>
     (case serviceRoomTeams svc w room of
        Inl e \<Rightarrow> Inl e
      | Inr (red, blue) \<Rightarrow>
          let member = \<lparr>memUserID = uid, memRoomID = matchRoomID m, memRole = RoomRoleSpectator,
                        memTeamSide = None, memJoinedAt = now\<rparr>
          in Inr (if roomOwnerID room = uid then member\<lparr>memRole := RoomRoleAdmin\<rparr>
                  else case StrategistSide red blue uid of
                         Some side \<Rightarrow> member\<lparr>memRole := RoomRoleStrategist, memTeamSide := Some side\<rparr>
                       | None \<Rightarrow>
                           if roomStreamerUserID room = Some uid
                           then member\<lparr>memRole := RoomRoleStreamer\<rparr> else member))))"

section \<open>What a legacy write changes\<close>

definition createMoveLaw :: "'w MatchService \<Rightarrow> 'w Mongo \<Rightarrow> bool" where
  "createMoveLaw svc sn \<longleftrightarrow>
     (\<forall>w move. let w' = fst (msCreateMove svc w move) in
        sameRooms (msDb svc) w w' \<and> sameMatches (msDb svc) w w' \<and> sameSnapshots sn w w')"

text \<open>The computations keep the identity of the match, and none of them touches its room type.\<close>

definition keepsIdentity :: "(Match \<Rightarrow> ServiceError + Match \<times> Move option) \<Rightarrow> bool" where
  "keepsIdentity f \<longleftrightarrow>
     (\<forall>m m' move. f m = Inr (m', move) \<longrightarrow> matchID m' = matchID m \<and> matchRoomID m' = matchRoomID m \<and>
        matchRoomType m' = matchRoomType m)"

lemma winPieceOn_keeps:
  assumes "winPieceOn now mid member pos enabled m = Inr (m', move)"
  shows "matchID m' = matchID m \<and> matchRoomID m' = matchRoomID m \<and> matchRoomType m' = matchRoomType m"
proof -
  obtain cell piece where cell: "occupiedCell (matchBoard m) pos = Some (cell, piece)"
    using assms by (auto simp: winPieceOn_def split: if_splits option.splits)
  define winner where "winner = (case memTeamSide member of
      None \<Rightarrow> (case cellTeamID cell of None \<Rightarrow> None | Some t \<Rightarrow> Some (sideOf t))
    | Some side \<Rightarrow> (case cellTeamID cell of
          None \<Rightarrow> Some side
        | Some t \<Rightarrow> if t \<noteq> sideString side then None else Some side))"
  show ?thesis
    using assms by (cases winner) (auto simp: winPieceOn_def cell winner_def [symmetric] split: if_splits)
qed

lemma keepsIdentity_ops:
  "keepsIdentity (banPieceOn now mid member slot)"
  "keepsIdentity (pickPieceOn now mid member slot pos forceMod placementTeam)"
  "keepsIdentity (robPieceOn now mid member from to)"
  "keepsIdentity (winPieceOn now mid member pos enabled)"
  "keepsIdentity (endMatchOn now)" "keepsIdentity (advanceTurnOn now)"
  "keepsIdentity (pauseOn now)" "keepsIdentity (resumeOn now)"
  by (auto simp: keepsIdentity_def banPieceOn_def pickPieceOn_def robPieceOn_def
      endMatchOn_def advanceTurnOn_def pauseOn_def resumeOn_def accept_simps Let_def
      dest: winPieceOn_keeps split: if_splits option.splits prod.splits)

definition legacyChange :: "'w RoomDb \<Rightarrow> 'w Mongo \<Rightarrow> 'w \<Rightarrow> 'w \<Rightarrow> bool" where
  "legacyChange db sn w w' \<longleftrightarrow>
     sameRooms db w w' \<and> sameSnapshots sn w w' \<and>
     (sameMatches db w w' \<or>
      (\<exists>i old m. matchWritten db w i old m w' \<and> matchRoomType old \<noteq> RoomTypeMatch \<and>
         matchID m = i \<and> matchRoomID m = matchRoomID old \<and> matchRoomType m = matchRoomType old))"

lemma legacyWrite_change:
  assumes laws: "roomLaws (msDb svc) sn" "createMoveLaw svc sn" and f: "keepsIdentity f"
    and keyed: "\<And>i m. dbFindMatch (msDb svc) w i = Inr (Some m) \<Longrightarrow> matchID m = i"
    and run: "legacyWrite svc now w mid f = (w', x)"
  shows "legacyChange (msDb svc) sn w w'"
proof (cases "\<exists>m m' move. dbFindMatch (msDb svc) w mid = Inr (Some m) \<and>
    matchRoomType m \<noteq> RoomTypeMatch \<and> f m = Inr (m', move)")
  case False
  then have "w' = w"
    using run
    by (auto simp: legacyWrite_def requireLegacyWritableMatch_def matchByID_def
        split: sum.splits if_splits option.splits prod.splits)
  then show ?thesis by (simp add: legacyChange_def)
next
  case True
  then obtain m m' move where m: "dbFindMatch (msDb svc) w mid = Inr (Some m)"
    "matchRoomType m \<noteq> RoomTypeMatch" "f m = Inr (m', move)" by blast
  have id': "matchID m' = mid" "matchRoomID m' = matchRoomID m" "matchRoomType m' = matchRoomType m"
    using f m(3) keyed [OF m(1)] by (auto simp: keepsIdentity_def)
  define n where "n = (case move of None \<Rightarrow> m' | Some _ \<Rightarrow> m'\<lparr>matchUpdatedAt := now\<rparr>)"
  obtain w1 y where upd: "matchUpdate (msDb svc) now w n = (w1, y)" by fastforce
  have rest: "sameRooms (msDb svc) w1 w' \<and> sameMatches (msDb svc) w1 w' \<and> sameSnapshots sn w1 w'"
    using run m(1,2,3) upd laws(2) [unfolded createMoveLaw_def, rule_format, of w1 "the move"]
    by (cases move; cases y)
      (auto simp: legacyWrite_def requireLegacyWritableMatch_def matchByID_def n_def
        saveMatchAndMove_def found_def Let_def)
  have n: "matchID n = mid" "matchRoomID n = matchRoomID m" "matchRoomType n = matchRoomType m"
    using id' by (auto simp: n_def split: option.splits)
  from matchUpdate_effect [OF laws(1) upd] have one: "sameRooms (msDb svc) w w1" "sameSnapshots sn w w1"
    and "sameMatches (msDb svc) w w1 \<or> (\<exists>old. matchWritten (msDb svc) w mid old
          (matchOverwrites (n\<lparr>matchUpdatedAt := now\<rparr>) old) w1)"
    using n by auto
  then consider "sameMatches (msDb svc) w w1" | old where
    "matchWritten (msDb svc) w mid old (matchOverwrites (n\<lparr>matchUpdatedAt := now\<rparr>) old) w1" by blast
  then show ?thesis
  proof cases
    case 1
    then show ?thesis using one rest
      by (simp add: legacyChange_def sameRooms_def sameMatches_def sameSnapshots_def)
  next
    case 2
    then have old: "old = m" using m(1) by (simp add: matchWritten_def)
    have "matchWritten (msDb svc) w mid m (matchOverwrites (n\<lparr>matchUpdatedAt := now\<rparr>) m) w'"
      using 2 rest by (simp add: matchWritten_def sameMatches_def old)
    moreover have "matchID (matchOverwrites (n\<lparr>matchUpdatedAt := now\<rparr>) m) = mid"
      "matchRoomID (matchOverwrites (n\<lparr>matchUpdatedAt := now\<rparr>) m) = matchRoomID m"
      "matchRoomType (matchOverwrites (n\<lparr>matchUpdatedAt := now\<rparr>) m) = matchRoomType m"
      using n by (simp_all add: matchOverwrites_def)
    ultimately show ?thesis
      using one rest m(2) unfolding legacyChange_def
      by (simp add: sameRooms_def sameSnapshots_def) blast
  qed
qed

end
