(* ===== verification/CommandFrame.thy ===== *)
theory CommandFrame
  imports CommandPath
begin

text \<open>
  What a request leaves alone. The locale \<open>command_frame\<close> is the interface of every collection beside those
  of the command store: a relation that the four writes of the store keep is kept by whole requests.
\<close>

locale command_frame =
  fixes db :: "'w Mongo" and same :: "'w \<Rightarrow> 'w \<Rightarrow> bool"
  assumes same_refl: "same w w"
    and same_trans: "same u v \<Longrightarrow> same v w \<Longrightarrow> same u w"
    and update_same: "updateSnapshot db w f x = (w', Inr n) \<Longrightarrow> same w w'"
    and action_same: "insertAction db w a = (w', Inr ()) \<Longrightarrow> same w w'"
    and outbox_same: "insertOutbox db w ds = (w', Inr ()) \<Longrightarrow> same w w'"
    and receipt_same: "insertReceipt db w r = (w', Inr ()) \<Longrightarrow> same w w'"
begin

lemma swap_same:
  assumes "CompareAndSwap db codec w mid v s now = (w', None)"
  shows "same w w'"
  using assms
  by (auto simp: CompareAndSwap_def split: if_splits option.splits prod.splits sum.splits dest: update_same)

lemma commit_same:
  assumes run: "commitCommand db codec w env a current tr payload ds ps evs j1 j2 = (w', Inr res)"
  shows "same w w'"
proof -
  obtain w1 x where swap: "CompareAndSwap db codec w (envMatchID env) (Version current)
      (trState tr) (envOccurredAt env) = (w1, x)" by fastforce
  then have x: "x = None" using run by (cases x) (simp_all add: commitCommand_def Let_def)
  obtain w2 w3 act rec where
    ins: "insertAction db w1 act = (w2, Inr ())" "insertReceipt db w3 rec = (w', Inr ())"
    and out: "w3 = w2 \<or> insertOutbox db w2 ds = (w3, Inr ())"
    using run swap x
    by (auto simp: commitCommand_def Let_def split: prod.splits sum.splits if_splits)
  have "same w2 w3" using out outbox_same same_refl by auto
  with swap_same [OF swap [unfolded x]] action_same [OF ins(1)] receipt_same [OF ins(2)]
  show ?thesis by (blast intro: same_trans)
qed

lemma transaction_same:
  assumes run: "applyInTransaction db codec env auth execute w = (w', Inr res)"
  shows "same w w'"
proof (cases "\<exists>a current tr payload ds ps evs j1 j2.
    commitCommand db codec w env a current tr payload ds ps evs j1 j2 = (w', Inr res)")
  case True
  then show ?thesis using commit_same by blast
next
  case False
  then have "w' = w"
    using run by (auto simp: applyInTransaction_def split: sum.splits option.splits if_splits)
  then show ?thesis using same_refl by simp
qed

lemma request_same:
  assumes law: "transactionLaw db" and wired: "wired db codec orch"
    and run: "orchestratorExecute enc (Some orch) now w request = (w', r)"
  shows "same w w'"
proof -
  from orchestrator_store [OF run wired [unfolded wired_def]]
  consider "w' = w" | env auth where
    "storeApply (Some db) codec w env auth (engineExecute (reqCommand request) now) = (w', r)" by blast
  then show ?thesis
  proof cases
    case 2
    then show ?thesis by (rule storeApply_cases [OF law]) (auto dest: transaction_same intro: same_refl)
  qed (simp add: same_refl)
qed

end

end
