(* ===== verification/RoomHistory.thy ===== *)
theory RoomHistory
  imports RoomService MatchService CommandHistory CommandFrame
begin

text \<open>
  The backend as one system: the services wired as \<open>internal/repository/repositories.go\<close>,
  \<open>internal/service/services.go\<close> and \<open>internal/server/server.go\<close> wire them, all on one database, and
  every write a client can cause as a step (\<open>backendStep\<close>): a call of the room service, a call of the
  legacy match service, a match command. The interpretation \<open>backend\<close> of \<open>step_system\<close> shows what every
  history of such steps keeps (\<open>backendOk\<close>) and never takes back (\<open>backendGrows\<close>).
\<close>

section \<open>Wiring\<close>

text \<open>The database and the libraries: what the constructors of the services are given.\<close>

record 'w Wiring =
  wiDb :: "'w RoomDb"
  wiMongo :: "'w Mongo"
  wiCodec :: Codec
  wiEncoders :: Encoders
  wiParseURL :: "string \<Rightarrow> URL option"
  wiCreateMove :: "'w \<Rightarrow> Move \<Rightarrow> 'w \<times> (ServiceError + unit)"

text \<open>The orchestrator tells a missing document from any other error of a repository.\<close>

definition lookupOf :: "ServiceError + 'a \<Rightarrow> LookupError + 'a" where
  "lookupOf x = (case x of
      Inr v \<Rightarrow> Inr v
    | Inl e \<Rightarrow> Inl (if e = ErrNotFound then LookupNotFound else LookupFailed))"

definition wiredOrchestrator :: "'w Wiring \<Rightarrow> 'w Orchestrator" where
  "wiredOrchestrator wi =
     \<lparr>orchStore = Some (storeApply (Some (wiMongo wi)) (wiCodec wi)),
      orchUsers = Some (\<lambda>w i. lookupOf (userByOsuID (wiDb wi) w i)),
      orchMatches = Some (\<lambda>w i. lookupOf (matchByID (wiDb wi) w i)),
      orchRooms = Some (\<lambda>w i. lookupOf (roomByID (wiDb wi) w i)),
      orchTeams = Some (\<lambda>w i. lookupOf (teamByID (wiDb wi) w i))\<rparr>"

text \<open>The clock and the fresh command id are those of one call of the driver.\<close>

definition wiredRooms :: "'w Wiring \<Rightarrow> Time \<Rightarrow> string \<Rightarrow> 'w RoomService" where
  "wiredRooms wi clock commandID =
     \<lparr>rsDb = wiDb wi, rsHasUsers = True,
      rsFormalMatches = Some (bootstrapCreate (wiDb wi) (wiMongo wi) (wiCodec wi)),
      rsHasSnapshot = Some (\<lambda>w mid.
        case snapshotHas (wiMongo wi) w mid of Inl _ \<Rightarrow> Inl (DriverError False) | Inr ok \<Rightarrow> Inr ok),
      rsStartMatchSystem = Some (\<lambda>w mid version now.
        case StartMatchSystem (wiEncoders wi) (Some (wiredOrchestrator wi)) clock commandID w mid version of
          (w', e) \<Rightarrow> (w', e \<noteq> None)),
      rsParseURL = wiParseURL wi\<rparr>"

definition wiredMatches :: "'w Wiring \<Rightarrow> 'w MatchService" where
  "wiredMatches wi = \<lparr>msDb = wiDb wi, msHasTeams = True, msCreateMove = wiCreateMove wi\<rparr>"

section \<open>Calls\<close>

datatype RoomCall =
    CallCreate int RoomType string
  | CallSetTeams int ObjectID "ObjectID option" "ObjectID option"
  | CallSetStreamer int ObjectID "int option"
  | CallSetMappool int ObjectID "ObjectID option"
  | CallSetBPOrder int ObjectID BPOrder
  | CallSetMPLink int ObjectID string
  | CallSetStreamLink int ObjectID string
  | CallSetReferee int ObjectID "int option"
  | CallUpdateMetadata int ObjectID RoomMetadataUpdate
  | CallPatchMetadata int ObjectID RoomMetadataPatch
  | CallStartMatch int ObjectID
  | CallMarkReady int ObjectID

fun roomCall :: "'w RoomService \<Rightarrow> CallEnv \<Rightarrow> 'w \<Rightarrow> RoomCall \<Rightarrow> 'w" where
  "roomCall svc env w (CallCreate uid t name) = fst (CreateRoom svc env w uid t name)"
| "roomCall svc env w (CallSetTeams uid rid red blue) = fst (SetTeams svc env w uid rid red blue)"
| "roomCall svc env w (CallSetStreamer uid rid s) = fst (SetStreamer svc env w uid rid s)"
| "roomCall svc env w (CallSetMappool uid rid p) = fst (SetMappool svc env w uid rid p)"
| "roomCall svc env w (CallSetBPOrder uid rid order) = fst (SetBPOrder svc env w uid rid order)"
| "roomCall svc env w (CallSetMPLink uid rid link) = fst (SetMPLink svc env w uid rid link)"
| "roomCall svc env w (CallSetStreamLink uid rid link) = fst (SetStreamLink svc env w uid rid link)"
| "roomCall svc env w (CallSetReferee uid rid ref) = fst (SetReferee svc env w uid rid ref)"
| "roomCall svc env w (CallUpdateMetadata uid rid u) = fst (UpdateRoomMetadata svc env w uid rid u)"
| "roomCall svc env w (CallPatchMetadata uid rid p) = fst (UpdateRoomMetadataPartial svc env w uid rid p)"
| "roomCall svc env w (CallStartMatch uid rid) = fst (roomStartMatch svc env w uid rid)"
| "roomCall svc env w (CallMarkReady uid rid) = fst (MarkStrategistReady svc env w uid rid)"

datatype MatchCall =
    CallBan RoomMember DomainSlot
  | CallPick RoomMember DomainSlot Position "PieceForceMod option" "DomainSide option"
  | CallRob RoomMember Position Position
  | CallWin RoomMember Position "(DomainSide \<times> bool) list"
  | CallEnd | CallAdvance | CallPause | CallResume

fun matchCall :: "'w MatchService \<Rightarrow> Time \<Rightarrow> 'w \<Rightarrow> ObjectID \<Rightarrow> MatchCall \<Rightarrow> 'w" where
  "matchCall svc now w mid (CallBan member slot) = fst (BanPiece svc now w mid member slot)"
| "matchCall svc now w mid (CallPick member slot pos forceMod team) =
     fst (PickPiece svc now w mid member slot pos forceMod team)"
| "matchCall svc now w mid (CallRob member from to) = fst (RobPieceLegacy svc now w mid member from to)"
| "matchCall svc now w mid (CallWin member pos enabled) = fst (WinPiece svc now w mid member pos enabled)"
| "matchCall svc now w mid CallEnd = fst (EndMatch svc now w mid)"
| "matchCall svc now w mid CallAdvance = fst (AdvanceTurn svc now w mid)"
| "matchCall svc now w mid CallPause = fst (PauseMatch svc now w mid)"
| "matchCall svc now w mid CallResume = fst (ResumeMatchLegacy svc now w mid)"

text \<open>A request of a client never carries the system flag, which only the driver sets.\<close>

inductive backendStep :: "'w Wiring \<Rightarrow> 'w \<Rightarrow> 'w \<Rightarrow> bool" for wi where
  room: "roomCall (wiredRooms wi clock commandID) env w call = w' \<Longrightarrow> backendStep wi w w'"
| legacy: "matchCall (wiredMatches wi) now w mid call = w' \<Longrightarrow> backendStep wi w w'"
| command: "\<not> reqSystem request \<Longrightarrow>
    orchestratorExecute (wiEncoders wi) (Some (wiredOrchestrator wi)) now w request = (w', r) \<Longrightarrow>
    backendStep wi w w'"

inductive_cases backendStepE: "backendStep wi w w'"

section \<open>What the backend relies on\<close>

text \<open>The command store's writes leave the rooms and the match shells alone.\<close>

definition commandLaw :: "'w RoomDb \<Rightarrow> 'w Mongo \<Rightarrow> bool" where
  "commandLaw db sn \<longleftrightarrow>
     (\<forall>w f u w' n. updateSnapshot sn w f u = (w', Inr n) \<longrightarrow> sameRooms db w w' \<and> sameMatches db w w') \<and>
     (\<forall>w a w'. insertAction sn w a = (w', Inr ()) \<longrightarrow> sameRooms db w w' \<and> sameMatches db w w') \<and>
     (\<forall>w ds w'. insertOutbox sn w ds = (w', Inr ()) \<longrightarrow> sameRooms db w w' \<and> sameMatches db w w') \<and>
     (\<forall>w r w'. insertReceipt sn w r = (w', Inr ()) \<longrightarrow> sameRooms db w w' \<and> sameMatches db w w')"

definition backendLaws :: "'w Wiring \<Rightarrow> bool" where
  "backendLaws wi \<longleftrightarrow>
     storeLaws (wiMongo wi) \<and> codecLaws (wiCodec wi) \<and> roomLaws (wiDb wi) (wiMongo wi) \<and>
     commandLaw (wiDb wi) (wiMongo wi) \<and> createMoveLaw (wiredMatches wi) (wiMongo wi)"

lemma same_trans [trans]:
  "sameRooms db w v \<Longrightarrow> sameRooms db v u \<Longrightarrow> sameRooms db w u"
  "sameMatches db w v \<Longrightarrow> sameMatches db v u \<Longrightarrow> sameMatches db w u"
  by (simp_all add: sameRooms_def sameMatches_def)

interpretation rooms_frame: command_frame sn
  "\<lambda>w w'. commandLaw db sn \<longrightarrow> sameRooms db w w' \<and> sameMatches db w w'"
  by unfold_locales (unfold commandLaw_def, (simp, blast intro: same_trans | blast)+)

text \<open>A command moves the snapshots along the engine and touches no room and no shell.\<close>

definition commandChange :: "'w Wiring \<Rightarrow> 'w \<Rightarrow> 'w \<Rightarrow> bool" where
  "commandChange wi w w' \<longleftrightarrow>
     sameRooms (wiDb wi) w w' \<and> sameMatches (wiDb wi) w w' \<and>
     playedFrom (wiMongo wi) (wiCodec wi) w w' \<and>
     (\<forall>i t. snapshotLoad (wiMongo wi) (wiCodec wi) w' i = Inr t \<longrightarrow>
        (\<exists>s. snapshotLoad (wiMongo wi) (wiCodec wi) w i = Inr s))"

lemma wiredOrchestrator_wired [simp]: "wired (wiMongo wi) (wiCodec wi) (wiredOrchestrator wi)"
  by (simp add: wired_def wiredOrchestrator_def)

lemma command_change:
  assumes laws: "backendLaws wi"
    and run: "orchestratorExecute (wiEncoders wi) (Some (wiredOrchestrator wi)) now w request = (w', r)"
  shows "commandChange wi w w'"
proof -
  have laws': "storeLaws (wiMongo wi)" "codecLaws (wiCodec wi)" "commandLaw (wiDb wi) (wiMongo wi)"
    using laws by (simp_all add: backendLaws_def)
  have "served (wiMongo wi) (wiCodec wi) (wiEncoders wi) (wiredOrchestrator wi) w w'"
    using run laws' by (auto simp: served_def)
  then have "playedFrom (wiMongo wi) (wiCodec wi) w w'" by (rule served_playedFrom)
  moreover have "sameRooms (wiDb wi) w w' \<and> sameMatches (wiDb wi) w w'"
    using rooms_frame.request_same [OF _ wiredOrchestrator_wired run, of "wiDb wi"] laws'
    by (simp add: storeLaws_def)
  moreover have "\<exists>s. snapshotLoad (wiMongo wi) (wiCodec wi) w i = Inr s"
    if t: "snapshotLoad (wiMongo wi) (wiCodec wi) w' i = Inr t" for i t
  proof -
    show ?thesis
    proof (cases rule: request_effect [OF laws'(1,2) wiredOrchestrator_wired run, case_names same moved])
      case (moved a current s)
      show ?thesis
        using moved(2) t snapshotLoad_cong [OF moved(7) [symmetric] t] by (cases "i = reqMatchID request") auto
    qed (use t in blast)
  qed
  ultimately show ?thesis by (simp add: commandChange_def)
qed

section \<open>What a history keeps\<close>

text \<open>A state some play of a match reaches, from the configuration of two playable teams.\<close>

definition playable :: "State \<Rightarrow> bool" where
  "playable s \<longleftrightarrow>
     (\<exists>mappool red blue pick ban. rostersPlayable red blue \<and>
        reachable (configurationOf mappool red blue pick ban) s)"

definition roomLinked :: "'w Wiring \<Rightarrow> 'w \<Rightarrow> Room \<Rightarrow> bool" where
  "roomLinked wi w r \<longleftrightarrow>
     (\<forall>mid. roomMatchID r = Some mid \<longrightarrow>
        (\<exists>m s. dbFindMatch (wiDb wi) w mid = Inr (Some m) \<and> matchRoomID m = roomID r \<and>
           matchRoomType m = roomType r \<and> snapshotLoad (wiMongo wi) (wiCodec wi) w mid = Inr s))"

text \<open>
  A consistent database: documents are stored under their ids, a room that has its match is linked
  to a shell of its own and to a snapshot, formal shells are pending, and every snapshot is the state
  of a play.
\<close>

definition backendOk :: "'w Wiring \<Rightarrow> 'w \<Rightarrow> bool" where
  "backendOk wi w \<longleftrightarrow>
     (\<forall>i r. dbFindRoom (wiDb wi) w i = Inr (Some r) \<longrightarrow> roomID r = i \<and> roomLinked wi w r) \<and>
     (\<forall>i m. dbFindMatch (wiDb wi) w i = Inr (Some m) \<longrightarrow>
        matchID m = i \<and> (matchRoomType m = RoomTypeMatch \<longrightarrow> matchStatus m = MatchStatusPending)) \<and>
     (\<forall>i s. snapshotLoad (wiMongo wi) (wiCodec wi) w i = Inr s \<longrightarrow> playable s)"

text \<open>A room without its multiplayer link and time stamp, a shell without its readiness and time stamp.\<close>

definition roomSetup :: "Room \<Rightarrow> Room" where
  "roomSetup r = r\<lparr>roomMPLink := None, roomUpdatedAt := 0\<rparr>"

definition shellCore :: "Match \<Rightarrow> Match" where
  "shellCore m = m\<lparr>matchReadiness := \<lparr>redReady = False, blueReady = False\<rparr>, matchUpdatedAt := 0\<rparr>"

definition roomKept :: "Room \<Rightarrow> Room \<Rightarrow> bool" where
  "roomKept r r' \<longleftrightarrow>
     roomID r' = roomID r \<and> roomType r' = roomType r \<and>
     (roomMatchID r \<noteq> None \<longrightarrow> roomSetup r' = roomSetup r)"

definition shellKept :: "Match \<Rightarrow> Match \<Rightarrow> bool" where
  "shellKept m m' \<longleftrightarrow>
     matchID m' = matchID m \<and> matchRoomID m' = matchRoomID m \<and> matchRoomType m' = matchRoomType m \<and>
     (matchRoomType m = RoomTypeMatch \<longrightarrow>
        shellCore m' = shellCore m \<and>
        (redReady (matchReadiness m) \<longrightarrow> redReady (matchReadiness m')) \<and>
        (blueReady (matchReadiness m) \<longrightarrow> blueReady (matchReadiness m')))"

text \<open>How a database grows.\<close>

definition backendGrows :: "'w Wiring \<Rightarrow> 'w \<Rightarrow> 'w \<Rightarrow> bool" where
  "backendGrows wi w w' \<longleftrightarrow>
     playedFrom (wiMongo wi) (wiCodec wi) w w' \<and>
     (\<forall>i r. dbFindRoom (wiDb wi) w i = Inr (Some r) \<longrightarrow>
        (\<exists>r'. dbFindRoom (wiDb wi) w' i = Inr (Some r') \<and> roomKept r r')) \<and>
     (\<forall>i m. dbFindMatch (wiDb wi) w i = Inr (Some m) \<longrightarrow>
        (\<exists>m'. dbFindMatch (wiDb wi) w' i = Inr (Some m') \<and> shellKept m m'))"

lemma roomSetup_eq:
  "roomSetup r' = roomSetup r \<Longrightarrow>
     roomMatchID r' = roomMatchID r \<and> roomID r' = roomID r \<and> roomType r' = roomType r"
  by (cases r; cases r') (simp add: roomSetup_def)

lemma shellCore_eq: "shellCore m' = shellCore m \<Longrightarrow> matchStatus m' = matchStatus m"
  by (cases m; cases m') (simp add: shellCore_def)

lemma kept_refl [simp]: "roomKept r r" "shellKept m m"
  by (simp_all add: roomKept_def shellKept_def)

lemma kept_trans:
  "roomKept r v \<Longrightarrow> roomKept v u \<Longrightarrow> roomKept r u"
  "shellKept m n \<Longrightarrow> shellKept n k \<Longrightarrow> shellKept m k"
proof -
  assume a: "roomKept r v" "roomKept v u"
  show "roomKept r u"
  proof (cases "roomMatchID r = None")
    case False
    with a(1) have "roomSetup v = roomSetup r" by (simp add: roomKept_def)
    with roomSetup_eq [OF this] a False show ?thesis by (simp add: roomKept_def)
  qed (use a in \<open>simp add: roomKept_def\<close>)
next
  assume "shellKept m n" "shellKept n k"
  then show "shellKept m k" by (auto simp: shellKept_def)
qed

lemma playedFrom_refl [simp]: "playedFrom sn codec w w"
  by (auto simp: playedFrom_def)

lemma sameSnapshots_played:
  assumes "sameSnapshots sn w w'"
  shows "playedFrom sn codec w w'" and "snapshotLoad sn codec w' i = Inr s \<longleftrightarrow> snapshotLoad sn codec w i = Inr s"
proof -
  show load: "snapshotLoad sn codec w' i = Inr s \<longleftrightarrow> snapshotLoad sn codec w i = Inr s" for i s
    using assms by (simp add: snapshotLoad_Inr sameSnapshots_def)
  show "playedFrom sn codec w w'"
    using assms by (intro playedFromI) (auto simp: load sameSnapshots_def)
qed

lemma backendGrows_refl: "backendGrows wi w w"
  by (auto simp: backendGrows_def)

lemma backendGrows_trans:
  assumes "backendGrows wi w v" "backendGrows wi v u"
  shows "backendGrows wi w u"
  unfolding backendGrows_def
proof (intro conjI allI impI)
  show "playedFrom (wiMongo wi) (wiCodec wi) w u"
    using assms unfolding backendGrows_def by (blast intro: playedFrom_trans)
next
  fix i r assume "dbFindRoom (wiDb wi) w i = Inr (Some r)"
  with assms(1) obtain v' where v': "dbFindRoom (wiDb wi) v i = Inr (Some v')" "roomKept r v'"
    unfolding backendGrows_def by blast
  with assms(2) obtain u' where "dbFindRoom (wiDb wi) u i = Inr (Some u')" "roomKept v' u'"
    unfolding backendGrows_def by blast
  with v' show "\<exists>r'. dbFindRoom (wiDb wi) u i = Inr (Some r') \<and> roomKept r r'"
    using kept_trans(1) by blast
next
  fix i m assume "dbFindMatch (wiDb wi) w i = Inr (Some m)"
  with assms(1) obtain n where n: "dbFindMatch (wiDb wi) v i = Inr (Some n)" "shellKept m n"
    unfolding backendGrows_def by blast
  with assms(2) obtain k where "dbFindMatch (wiDb wi) u i = Inr (Some k)" "shellKept n k"
    unfolding backendGrows_def by blast
  with n show "\<exists>m'. dbFindMatch (wiDb wi) u i = Inr (Some m') \<and> shellKept m m'"
    using kept_trans(2) by blast
qed

definition backendKept :: "'w Wiring \<Rightarrow> 'w \<Rightarrow> 'w \<Rightarrow> bool" where
  "backendKept wi w w' \<longleftrightarrow> (backendOk wi w \<longrightarrow> backendOk wi w' \<and> backendGrows wi w w')"

lemma backendKept_trans: "backendKept wi w v \<Longrightarrow> backendKept wi v u \<Longrightarrow> backendKept wi w u"
  unfolding backendKept_def by (metis backendGrows_trans)

text \<open>
  The obligations of one write: the play goes on, old documents are kept, and a document that was not
  there, or that has got its match, is in order.
\<close>

lemma backendKeptI:
  assumes played: "playedFrom (wiMongo wi) (wiCodec wi) w w'"
    and rooms: "\<And>i r. dbFindRoom (wiDb wi) w i = Inr (Some r) \<Longrightarrow>
      \<exists>r'. dbFindRoom (wiDb wi) w' i = Inr (Some r') \<and> roomKept r r'"
    and shells: "\<And>i m. dbFindMatch (wiDb wi) w i = Inr (Some m) \<Longrightarrow>
      \<exists>m'. dbFindMatch (wiDb wi) w' i = Inr (Some m') \<and> shellKept m m'"
    and new_room: "\<And>i r'. backendOk wi w \<Longrightarrow> dbFindRoom (wiDb wi) w' i = Inr (Some r') \<Longrightarrow>
      roomID r' = i \<and> (roomMatchID r' = None \<or> roomLinked wi w' r' \<or>
        (\<exists>r. dbFindRoom (wiDb wi) w i = Inr (Some r) \<and> roomMatchID r = roomMatchID r'))"
    and new_shell: "\<And>i m'. dbFindMatch (wiDb wi) w' i = Inr (Some m') \<Longrightarrow>
      (\<forall>m. dbFindMatch (wiDb wi) w i \<noteq> Inr (Some m)) \<Longrightarrow>
      matchID m' = i \<and> matchStatus m' = MatchStatusPending"
    and new_state: "\<And>i s. snapshotLoad (wiMongo wi) (wiCodec wi) w' i = Inr s \<Longrightarrow>
      (\<forall>s0. snapshotLoad (wiMongo wi) (wiCodec wi) w i \<noteq> Inr s0) \<Longrightarrow> playable s"
  shows "backendKept wi w w'"
  unfolding backendKept_def
proof
  let ?load = "snapshotLoad (wiMongo wi) (wiCodec wi)"
  assume ok: "backendOk wi w"
  have grows: "backendGrows wi w w'" using played rooms shells by (auto simp: backendGrows_def)
  have loads: "\<exists>t. ?load w' i = Inr t \<and> persisted\<^sup>*\<^sup>* s t" if "?load w i = Inr s" for i s
    using played that by (simp add: playedFrom_def)
  have "roomID r' = i \<and> roomLinked wi w' r'" if r': "dbFindRoom (wiDb wi) w' i = Inr (Some r')" for i r'
  proof -
    from new_room [OF ok r'] consider "roomMatchID r' = None" | "roomLinked wi w' r'"
      | r mid where "dbFindRoom (wiDb wi) w i = Inr (Some r)" "roomMatchID r = Some mid"
          "roomMatchID r' = Some mid"
      by (cases "roomMatchID r'") auto
    then have "roomLinked wi w' r'"
    proof cases
      case 3
      then have same: "roomID r' = roomID r" "roomType r' = roomType r"
        using rooms [OF 3(1)] r' by (auto simp: roomKept_def)
      from ok 3 obtain m s where m: "dbFindMatch (wiDb wi) w mid = Inr (Some m)"
        "matchRoomID m = roomID r" "matchRoomType m = roomType r" "?load w mid = Inr s"
        unfolding backendOk_def roomLinked_def by blast
      from shells [OF m(1)] loads [OF m(4)] m show ?thesis
        by (auto simp: roomLinked_def 3 same shellKept_def)
    qed (simp_all add: roomLinked_def)
    with new_room [OF ok r'] show ?thesis by simp
  qed
  moreover have "matchID m' = i \<and> (matchRoomType m' = RoomTypeMatch \<longrightarrow> matchStatus m' = MatchStatusPending)"
    if m': "dbFindMatch (wiDb wi) w' i = Inr (Some m')" for i m'
  proof (cases "\<exists>m. dbFindMatch (wiDb wi) w i = Inr (Some m)")
    case True
    then obtain m where m: "dbFindMatch (wiDb wi) w i = Inr (Some m)" by blast
    with shells m' have kept: "shellKept m m'" by fastforce
    from ok m have "matchID m = i" "matchRoomType m = RoomTypeMatch \<longrightarrow> matchStatus m = MatchStatusPending"
      by (simp_all add: backendOk_def)
    with kept show ?thesis by (auto simp: shellKept_def dest: shellCore_eq)
  next
    case False
    then show ?thesis using new_shell [OF m'] by simp
  qed
  moreover have "playable t" if t: "?load w' i = Inr t" for i t
  proof (cases "\<exists>s. ?load w i = Inr s")
    case True
    then obtain s where s: "?load w i = Inr s" by blast
    with loads t have run: "persisted\<^sup>*\<^sup>* s t" by fastforce
    from ok s have "playable s" by (simp add: backendOk_def)
    then show ?thesis unfolding playable_def using reachable_run [OF run] by blast
  next
    case False
    then show ?thesis using new_state [OF t] by simp
  qed
  ultimately show "backendOk wi w' \<and> backendGrows wi w w'"
    using grows by (auto simp: backendOk_def)
qed

section \<open>The steps\<close>

lemma sameRoomsD:
  "sameRooms db w w' \<Longrightarrow> dbFindRoom db w' = dbFindRoom db w"
  "sameMatches db w w' \<Longrightarrow> dbFindMatch db w' = dbFindMatch db w"
  by (simp_all add: sameRooms_def sameMatches_def)

lemma backendOk_keyed:
  assumes "backendOk wi w"
  shows "dbFindRoom (wiDb wi) w i = Inr (Some r) \<Longrightarrow> roomID r = i"
    and "dbFindMatch (wiDb wi) w i = Inr (Some m) \<Longrightarrow> matchID m = i"
  using assms unfolding backendOk_def by blast+

lemma backendOk_linked:
  assumes "backendOk wi w" "dbFindRoom (wiDb wi) w i = Inr (Some r)" "roomMatchID r = Some mid"
  shows "\<exists>m s. dbFindMatch (wiDb wi) w mid = Inr (Some m) \<and> matchRoomID m = i \<and>
    matchRoomType m = roomType r \<and> snapshotLoad (wiMongo wi) (wiCodec wi) w mid = Inr s"
  using assms unfolding backendOk_def roomLinked_def by metis

lemma commandChange_kept:
  assumes "commandChange wi w w'"
  shows "backendKept wi w w'"
  using assms
  by (intro backendKeptI) (auto simp: commandChange_def sameRooms_def sameMatches_def
      intro: backendOk_keyed)

text \<open>Writes of the configuration: which fields, and whether the filter asks for an open setup.\<close>

fun isSetting :: "RoomField \<Rightarrow> bool" where
  "isSetting (FieldMatchID _) = False"
| "isSetting _ = True"

fun isLink :: "RoomField \<Rightarrow> bool" where
  "isLink (FieldMPLink _) = True"
| "isLink (FieldUpdatedAt _) = True"
| "isLink _ = False"

lemma settings_keep:
  "list_all isSetting fs \<Longrightarrow> roomMatchID (applyFields fs r) = roomMatchID r"
proof (induction fs arbitrary: r)
  case (Cons f fs)
  then show ?case by (cases f) simp_all
qed simp

lemma links_keep: "list_all isLink fs \<Longrightarrow> roomSetup (applyFields fs r) = roomSetup r"
proof (induction fs arbitrary: r)
  case (Cons f fs)
  then have "roomSetup (applyField f r) = roomSetup r"
    by (cases f) (simp_all add: roomSetup_def)
  with Cons show ?case by simp
qed simp

definition configChange :: "'w RoomDb \<Rightarrow> 'w Mongo \<Rightarrow> 'w \<Rightarrow> 'w \<Rightarrow> bool" where
  "configChange db sn w w' \<longleftrightarrow>
     sameMatches db w w' \<and> sameSnapshots sn w w' \<and>
     (sameRooms db w w' \<or>
      (\<exists>i setupOpen fs. roomUpdated db w i setupOpen fs w' \<and> list_all isSetting fs \<and>
         (setupOpen \<or> list_all isLink fs)) \<or>
      (\<exists>r. dbFindRoom db w (roomID r) = Inr None \<and> roomMatchID r = None \<and>
         dbFindRoom db w' = (dbFindRoom db w)(roomID r := Inr (Some r))))"

lemma configChange_refl [simp]: "configChange db sn w w"
  by (simp add: configChange_def)

lemma configChange_kept:
  assumes "configChange (wiDb wi) (wiMongo wi) w w'"
  shows "backendKept wi w w'"
proof -
  have same: "dbFindMatch (wiDb wi) w' = dbFindMatch (wiDb wi) w" "sameSnapshots (wiMongo wi) w w'"
    using assms by (simp_all add: configChange_def sameMatches_def)
  from assms consider (none) "sameRooms (wiDb wi) w w'"
    | (set) i setupOpen fs r where "roomSelected (wiDb wi) w i setupOpen r" "list_all isSetting fs"
        "setupOpen \<or> list_all isLink fs"
        "dbFindRoom (wiDb wi) w' = (dbFindRoom (wiDb wi) w)(i := Inr (Some (applyFields fs r)))"
    | (new) r where "dbFindRoom (wiDb wi) w (roomID r) = Inr None" "roomMatchID r = None"
        "dbFindRoom (wiDb wi) w' = (dbFindRoom (wiDb wi) w)(roomID r := Inr (Some r))"
    unfolding configChange_def roomUpdated_def by blast
  then show ?thesis
  proof cases
    case none
    then show ?thesis
      by (intro backendKeptI)
        (auto simp: same sameRooms_def sameSnapshots_played [OF same(2)] intro: backendOk_keyed)
  next
    case set
    have "roomKept r (applyFields fs r)"
      using set(1-3) links_keep by (auto simp: roomKept_def roomSelected_def)
    then show ?thesis
      using set settings_keep [OF set(2)]
      by (intro backendKeptI)
        (auto simp: same sameSnapshots_played [OF same(2)] roomSelected_def
          intro: backendOk_keyed split: if_splits)
  next
    case new
    then show ?thesis
      by (intro backendKeptI)
        (auto simp: same sameSnapshots_played [OF same(2)] intro: backendOk_keyed split: if_splits)
  qed
qed

lemma updateRoomFields_change:
  assumes "roomLaws (rsDb svc) sn" and "list_all isSetting fs" "setupOpen \<or> list_all isLink fs"
  shows "configChange (rsDb svc) sn w (fst (updateRoomFields svc env w rid fs setupOpen))"
proof -
  obtain w' x where run: "roomUpdateFields (rsDb svc) (ceClock env) w rid fs setupOpen = (w', x)"
    by fastforce
  have "fst (updateRoomFields svc env w rid fs setupOpen) = w'"
    by (simp add: updateRoomFields_def run split: sum.split)
  moreover have "configChange (rsDb svc) sn w w'"
  proof -
    let ?fs = "FieldUpdatedAt (ceClock env) # fs"
    have "list_all isSetting ?fs" "setupOpen \<or> list_all isLink ?fs" using assms(2,3) by auto
    with roomUpdateFields_effect [OF assms(1) run] show ?thesis unfolding configChange_def by blast
  qed
  ultimately show ?thesis by simp
qed

lemma CreateRoom_change:
  assumes "roomLaws (rsDb svc) sn"
  shows "configChange (rsDb svc) sn w (fst (CreateRoom svc env w uid t name))"
proof -
  have "configChange (rsDb svc) sn w (fst (roomCreate (rsDb svc) clock i w (newRoom code name' t uid)))"
    for clock i code name'
  proof -
    obtain w' x where run: "roomCreate (rsDb svc) clock i w (newRoom code name' t uid) = (w', x)"
      by fastforce
    moreover have "roomMatchID (newRoom code name' t uid) = None" by (simp add: newRoom_def)
    ultimately show ?thesis using roomCreate_effect [OF assms run] by (auto simp: configChange_def)
  qed
  then show ?thesis by (auto simp: CreateRoom_def split: sum.split option.split)
qed

lemma patchFields_settings: "list_all isSetting (patchFields patch)"
  by (simp add: patchFields_def split: option.split)

fun isConfiguration :: "RoomCall \<Rightarrow> bool" where
  "isConfiguration (CallStartMatch _ _) = False"
| "isConfiguration (CallMarkReady _ _) = False"
| "isConfiguration _ = True"

lemma configuration_change:
  assumes "roomLaws (rsDb svc) sn" and "isConfiguration call"
  shows "configChange (rsDb svc) sn w (roomCall svc env w call)"
  using assms(2)
  by (cases call)
    (simp_all add: CreateRoom_change [OF assms(1)] updateRoomFields_change [OF assms(1)]
      SetTeams_def SetStreamer_def SetMappool_def SetBPOrder_def SetMPLink_def SetStreamLink_def
      SetReferee_def UpdateRoomMetadata_def UpdateRoomMetadataPartial_def patchFields_settings
      split: sum.split option.split prod.split)

section \<open>Starting, readiness and legacy play\<close>

lemma authorizedRoom_Inr:
  "authorizedRoom svc w uid rid = Inr room \<Longrightarrow> dbFindRoom (rsDb svc) w rid = Inr (Some room)"
  by (auto simp: authorizedRoom_def roomByID_def split: sum.splits if_splits)

lemma seedOf_simps [simp]:
  "matchID (seedOf i clock room red blue pick ban mappool now) = i"
  "matchRoomID (seedOf i clock room red blue pick ban mappool now) = roomID room"
  "matchRoomType (seedOf i clock room red blue pick ban mappool now) = roomType room"
  "matchStatus (seedOf i clock room red blue pick ban mappool now) = MatchStatusPending"
  by (simp_all add: seedOf_def NewMatch_def)

lemma seed_playable:
  assumes "BuildFormalMatchSeed i clock room red blue mappool now = Inr seed"
  shows "playable (seedState seed)" and "matchID (seedLegacyMatch seed) = i"
    and "matchRoomID (seedLegacyMatch seed) = roomID room"
    and "matchRoomType (seedLegacyMatch seed) = roomType room"
    and "matchStatus (seedLegacyMatch seed) = MatchStatusPending"
    and "Lifecycle (seedState seed) = LifecycleReady"
proof -
  obtain pick ban r b where start:
    "NewReadyState (configurationOf mappool r b pick ban) = Inr (seedState seed)"
    and shell: "seedLegacyMatch seed = seedOf i clock room r b pick ban mappool now"
    by (rule BuildFormalMatchSeed_Inr [OF assms]) (rule that)
  have "keysDistinct (cfgRosters (configurationOf mappool r b pick ban))"
    by (simp add: configurationOf_def keysDistinct_def)
  moreover have "rostersPlayable r b" using NewReadyState_seed start by blast
  ultimately show "playable (seedState seed)"
    unfolding playable_def using reachable.start [OF start] by blast
  from shell show "matchID (seedLegacyMatch seed) = i" "matchRoomID (seedLegacyMatch seed) = roomID room"
    "matchRoomType (seedLegacyMatch seed) = roomType room"
    "matchStatus (seedLegacyMatch seed) = MatchStatusPending" by simp_all
  from NewReadyState_seedPool [OF start] show "Lifecycle (seedState seed) = LifecycleReady" by simp
qed

text \<open>The document of a fresh state is read back as that state.\<close>

lemma document_loads:
  assumes "codecLaws codec" and "NewMatchSnapshotDocument codec mid s now = Some d"
  shows "docMatchID d = mid" and "findSnapshot sn w mid = Inr (Some d) \<Longrightarrow> snapshotLoad sn codec w mid = Inr s"
proof -
  from assms(2) obtain j b h where d: "mid \<noteq> NilObjectID" "now \<noteq> 0" "validState s" "marshalState codec s = Some j"
    "jsonToBSON codec j = Some b" "stateConfigurationHash codec s = Some h"
    "d = \<lparr>docMatchID = mid, docSchemaVersion = MatchSnapshotSchemaVersion,
          docMatchVersion = Version s, docOrigin = SnapshotOriginNative,
          docConfigurationHash = h, docState = b, docCreatedAt = now, docUpdatedAt = now\<rparr>"
    by (rule NewMatchSnapshotDocument_Some)
  then show "docMatchID d = mid" by simp
  have "DecodeState codec d = Some s"
    by (rule DecodeState_written [OF assms(1) d(3-6)]) (simp_all add: d)
  then show "findSnapshot sn w mid = Inr (Some d) \<Longrightarrow> snapshotLoad sn codec w mid = Inr s"
    using d(1) by (simp add: snapshotLoad_Inr) (simp add: d(7))
qed

text \<open>All a bootstrap has written.\<close>

lemma bootstrap_effect:
  assumes laws: "backendLaws wi"
    and seed: "BuildFormalMatchSeed mid clock room red blue mappool now = Inr seed"
    and run: "bootstrapped (wiDb wi) (wiMongo wi) (wiCodec wi) w (roomID room)
        (seedLegacyMatch seed) (seedState seed) now' w'"
  shows "snapshotLoad (wiMongo wi) (wiCodec wi) w' mid = Inr (seedState seed)"
    and "i \<noteq> mid \<Longrightarrow> snapshotLoad (wiMongo wi) (wiCodec wi) w' i = Inr s \<longleftrightarrow>
      snapshotLoad (wiMongo wi) (wiCodec wi) w i = Inr s"
    and "snapshotLoad (wiMongo wi) (wiCodec wi) w mid \<noteq> Inr s"
    and "findReceipt (wiMongo wi) w' = findReceipt (wiMongo wi) w"
    and "dbFindMatch (wiDb wi) w mid = Inr None"
    and "dbFindMatch (wiDb wi) w' = (dbFindMatch (wiDb wi) w)
      (mid := Inr (Some ((seedLegacyMatch seed)\<lparr>matchCreatedAt := now', matchUpdatedAt := now'\<rparr>)))"
    and "roomUpdated (wiDb wi) w (roomID room) True [FieldMatchID (Some mid), FieldUpdatedAt now'] w'"
proof -
  let ?db = "wiDb wi" and ?sn = "wiMongo wi" and ?codec = "wiCodec wi"
  let ?m = "(seedLegacyMatch seed)\<lparr>matchCreatedAt := now', matchUpdatedAt := now'\<rparr>"
  have laws': "codecLaws ?codec" "roomLaws ?db ?sn" using laws by (simp_all add: backendLaws_def)
  note made = seed_playable [OF seed]
  obtain d where doc: "NewMatchSnapshotDocument ?codec (matchID (seedLegacyMatch seed)) (seedState seed) now' = Some d"
    and body: "bootstrapBody ?db ?sn (roomID room) ?m d now' w = (w', Inr ())"
    using run by (auto simp: bootstrapped_def)
  note effect = bootstrapBody_Inr [OF laws'(2) body]
  have d: "docMatchID d = mid" using document_loads(1) [OF laws'(1) doc] made(2) by simp
  have "findSnapshot ?sn w' mid = Inr (Some d)" using effect(5) d by simp
  with document_loads(2) [OF laws'(1) doc] made(2)
  show "snapshotLoad ?sn ?codec w' mid = Inr (seedState seed)" by metis
  show "i \<noteq> mid \<Longrightarrow> snapshotLoad ?sn ?codec w' i = Inr s \<longleftrightarrow> snapshotLoad ?sn ?codec w i = Inr s"
    using effect(5) d by (simp add: snapshotLoad_Inr)
  show "snapshotLoad ?sn ?codec w mid \<noteq> Inr s"
    using effect(4) d by (simp add: snapshotLoad_Inr)
  show "findReceipt ?sn w' = findReceipt ?sn w" using effect(6) .
  show "dbFindMatch ?db w mid = Inr None"
    "dbFindMatch ?db w' = (dbFindMatch ?db w)(mid := Inr (Some ?m))"
    "roomUpdated ?db w (roomID room) True [FieldMatchID (Some mid), FieldUpdatedAt now'] w'"
    using effect(1-3) made(2) by simp_all
qed

lemma bootstrap_kept:
  assumes laws: "backendLaws wi"
    and room: "dbFindRoom (wiDb wi) w rid = Inr (Some room)"
    and seed: "BuildFormalMatchSeed mid clock room red blue mappool now = Inr seed"
    and run: "bootstrapCreate (wiDb wi) (wiMongo wi) (wiCodec wi) w (roomID room)
        (seedLegacyMatch seed) (seedState seed) now' = (w', x)"
  shows "backendKept wi w w'"
proof -
  have "roomLaws (wiDb wi) (wiMongo wi)" using laws by (simp add: backendLaws_def)
  from bootstrapCreate_cases [OF this run] consider (same) "w' = w"
    | (written) "bootstrapped (wiDb wi) (wiMongo wi) (wiCodec wi) w (roomID room)
        (seedLegacyMatch seed) (seedState seed) now' w'" by blast
  then show ?thesis
  proof cases
  case same
  then show ?thesis by (simp add: backendKept_def backendGrows_refl)
next
  case written
  let ?db = "wiDb wi" and ?load = "snapshotLoad (wiMongo wi) (wiCodec wi)"
  let ?m = "(seedLegacyMatch seed)\<lparr>matchCreatedAt := now', matchUpdatedAt := now'\<rparr>"
  note made = seed_playable [OF seed]
  note effect = bootstrap_effect [OF laws seed written]
  show ?thesis
    unfolding backendKept_def
  proof
    assume ok: "backendOk wi w"
    have rid: "roomID room = rid" using backendOk_keyed(1) [OF ok room] .
    define room' where "room' = applyFields [FieldMatchID (Some mid), FieldUpdatedAt now'] room"
    have bound: "roomMatchID room = None"
      "dbFindRoom ?db w' = (dbFindRoom ?db w)(rid := Inr (Some room'))"
      using effect(7) room rid by (auto simp: roomUpdated_def roomSelected_def room'_def)
    have room': "roomID room' = rid" "roomType room' = roomType room" "roomMatchID room' = Some mid"
      by (simp_all add: room'_def rid)
    have linked: "roomLinked wi w' room'"
      using effect(1) made rid by (simp add: roomLinked_def room' effect(6))
    have "backendKept wi w w'"
    proof (rule backendKeptI)
      show "playedFrom (wiMongo wi) (wiCodec wi) w w'"
        using effect(2-4) by (intro playedFromI) (metis rtranclp.rtrancl_refl)+
      show "\<exists>r'. dbFindRoom ?db w' i = Inr (Some r') \<and> roomKept r r'"
        if "dbFindRoom ?db w i = Inr (Some r)" for i r
        using that bound room room' rid by (auto simp: roomKept_def)
      show "\<exists>m'. dbFindMatch ?db w' i = Inr (Some m') \<and> shellKept m m'"
        if "dbFindMatch ?db w i = Inr (Some m)" for i m
        using that effect(5,6) by auto
      show "roomID r' = i \<and> (roomMatchID r' = None \<or> roomLinked wi w' r' \<or>
          (\<exists>r. dbFindRoom ?db w i = Inr (Some r) \<and> roomMatchID r = roomMatchID r'))"
        if "backendOk wi w" "dbFindRoom ?db w' i = Inr (Some r')" for i r'
        using that bound(2) linked room'(1) backendOk_keyed(1) [OF ok] by (auto split: if_splits)
      show "matchID m' = i \<and> matchStatus m' = MatchStatusPending"
        if "dbFindMatch ?db w' i = Inr (Some m')" "\<forall>m. dbFindMatch ?db w i \<noteq> Inr (Some m)" for i m'
        using that effect(6) made by (auto split: if_splits)
      show "playable s" if "?load w' i = Inr s" "\<forall>s0. ?load w i \<noteq> Inr s0" for i s
        using that effect(1,2) made(1) by (cases "i = mid") auto
    qed
    then show "backendOk wi w' \<and> backendGrows wi w w'" using ok by (simp add: backendKept_def)
  qed
  qed
qed

lemma backendKept_refl [simp]: "backendKept wi w w"
  by (simp add: backendKept_def backendGrows_refl)

lemma startFresh_bootstraps:
  assumes "startFresh (wiredRooms wi clock cid) env w room
    (bootstrapCreate (wiDb wi) (wiMongo wi) (wiCodec wi)) = (w', y)"
  shows "w' = w \<or> (\<exists>red blue mappool seed x.
      BuildFormalMatchSeed (ceFreshID env) (ceClock env) room red blue mappool (ceNow env) = Inr seed \<and>
      bootstrapCreate (wiDb wi) (wiMongo wi) (wiCodec wi) w (roomID room)
        (seedLegacyMatch seed) (seedState seed) (ceNow env) = (w', x))"
  using assms by (auto simp: startFresh_def split: sum.splits prod.splits if_splits)

text \<open>
  A start is refused and writes nothing that can be read, or finds the match of the room, or creates
  one. The recovery of an orphan never gets past its locked update.
\<close>

lemma roomStartMatch_cases:
  assumes laws: "backendLaws wi" and ok: "backendOk wi w"
    and run: "roomStartMatch (wiredRooms wi clock cid) env w uid rid = (w', y)"
  obtains (refused) e where "y = Inl e" "sameRooms (wiDb wi) w w'" "sameMatches (wiDb wi) w w'"
      "sameSnapshots (wiMongo wi) w w'"
  | (existing) room m where "dbFindRoom (wiDb wi) w rid = Inr (Some room)"
      "existingMatch (wiredRooms wi clock cid) w room = Inr m" "w' = w" "y = Inr m"
  | (fresh) room where "dbFindRoom (wiDb wi) w rid = Inr (Some room)" "roomMatchID room = None"
      "startFresh (wiredRooms wi clock cid) env w room
         (bootstrapCreate (wiDb wi) (wiMongo wi) (wiCodec wi)) = (w', y)"
proof -
  let ?svc = "wiredRooms wi clock cid" and ?create = "bootstrapCreate (wiDb wi) (wiMongo wi) (wiCodec wi)"
  have roomLaws: "roomLaws (wiDb wi) (wiMongo wi)" using laws by (simp add: backendLaws_def)
  have svc: "rsDb ?svc = wiDb wi" "rsFormalMatches ?svc = Some ?create"
    by (simp_all add: wiredRooms_def)
  show ?thesis
  proof (cases "authorizedRoom ?svc w uid rid")
    case (Inl e)
    then show ?thesis using run by (intro refused [of e]) (auto simp: roomStartMatch_def)
  next
    case (Inr room)
    then have room: "dbFindRoom (wiDb wi) w rid = Inr (Some room)"
      using authorizedRoom_Inr svc(1) by metis
    show ?thesis
    proof (cases "roomMatchID room")
      case None
      then show ?thesis using run by (intro fresh [OF room]) (simp_all add: roomStartMatch_def Inr svc)
    next
      case (Some mid)
      show ?thesis
      proof (cases "existingMatch ?svc w room")
        case found: (Inr m)
        then show ?thesis
          using run by (intro existing [OF room found]) (simp_all add: roomStartMatch_def Inr svc Some)
      next
        case lookup: (Inl e)
        have id: "roomID room = rid" using backendOk_keyed(1) [OF ok room] .
        obtain w1 x where rec: "roomUpdateFields (wiDb wi) (ceClock env) w rid [FieldMatchID None] True = (w1, x)"
          by fastforce
        note effect = roomUpdateFields_effect [OF roomLaws rec] roomUpdateFields_locked [OF roomLaws room _ rec]
        show ?thesis
        proof (cases "e = ErrConflict")
          case True
          from effect Some obtain e' where "x = Inl e'" "sameRooms (wiDb wi) w w1" by auto
          then show ?thesis
            using run True effect(1)
            by (intro refused [of e']) (auto simp: roomStartMatch_def Inr svc Some lookup
                recoverOrphanedMatch_def id rec)
        next
          case False
          then show ?thesis
            using run by (intro refused [of e]) (auto simp: roomStartMatch_def Inr svc Some lookup)
        qed
      qed
    qed
  qed
qed

lemma roomStartMatch_kept:
  assumes laws: "backendLaws wi"
  shows "backendKept wi w (fst (roomStartMatch (wiredRooms wi clock cid) env w uid rid))"
  unfolding backendKept_def
proof
  obtain w' y where run: "roomStartMatch (wiredRooms wi clock cid) env w uid rid = (w', y)" by fastforce
  assume ok: "backendOk wi w"
  have "backendKept wi w w'"
  proof (rule roomStartMatch_cases [OF laws ok run])
    assume "sameRooms (wiDb wi) w w'" "sameMatches (wiDb wi) w w'" "sameSnapshots (wiMongo wi) w w'"
    then show ?thesis by (intro configChange_kept) (simp add: configChange_def)
  next
    fix room
    assume room: "dbFindRoom (wiDb wi) w rid = Inr (Some room)"
      and "startFresh (wiredRooms wi clock cid) env w room
        (bootstrapCreate (wiDb wi) (wiMongo wi) (wiCodec wi)) = (w', y)"
    from startFresh_bootstraps [OF this(2)] bootstrap_kept [OF laws room] show ?thesis by auto
  qed simp
  with ok run show "backendOk wi (fst (roomStartMatch (wiredRooms wi clock cid) env w uid rid)) \<and>
    backendGrows wi w (fst (roomStartMatch (wiredRooms wi clock cid) env w uid rid))"
    by (simp add: backendKept_def)
qed

lemma written_kept:
  assumes same: "sameRooms (wiDb wi) w w'" "sameSnapshots (wiMongo wi) w w'"
    and written: "sameMatches (wiDb wi) w w' \<or>
      (\<exists>i old m. matchWritten (wiDb wi) w i old m w' \<and> (matchID old = i \<longrightarrow> shellKept old m))"
  shows "backendKept wi w w'"
  unfolding backendKept_def
proof
  assume ok: "backendOk wi w"
  have rooms: "dbFindRoom (wiDb wi) w' = dbFindRoom (wiDb wi) w"
    using same(1) by (simp add: sameRooms_def)
  have shells: "\<exists>m'. dbFindMatch (wiDb wi) w' i = Inr (Some m') \<and> shellKept m m'"
    if "dbFindMatch (wiDb wi) w i = Inr (Some m)" for i m
    using written
  proof
    assume "\<exists>i old m. matchWritten (wiDb wi) w i old m w' \<and> (matchID old = i \<longrightarrow> shellKept old m)"
    then obtain j old n where "matchWritten (wiDb wi) w j old n w'" "matchID old = j \<longrightarrow> shellKept old n"
      by blast
    with that show ?thesis using backendOk_keyed(2) [OF ok, of j old] by (auto simp: matchWritten_def)
  qed (use that in \<open>auto simp: sameMatches_def\<close>)
  have old: "\<exists>m. dbFindMatch (wiDb wi) w i = Inr (Some m)"
    if "dbFindMatch (wiDb wi) w' i = Inr (Some m')" for i m'
    using that written by (auto simp: sameMatches_def matchWritten_def split: if_splits)
  have "backendKept wi w w'"
  proof (rule backendKeptI)
    show "matchID m' = i \<and> matchStatus m' = MatchStatusPending"
      if "dbFindMatch (wiDb wi) w' i = Inr (Some m')" "\<forall>m. dbFindMatch (wiDb wi) w i \<noteq> Inr (Some m)" for i m'
      using old [OF that(1)] that(2) by simp
  qed (auto simp: rooms sameSnapshots_played [OF same(2)] intro: backendOk_keyed shells)
  then show "backendOk wi w' \<and> backendGrows wi w w'" using ok by (simp add: backendKept_def)
qed

lemma setReady_kept: "shellKept m (setReady side now m)"
  by (cases "matchReadiness m") (simp add: shellKept_def shellCore_def setReady_def)

text \<open>What an acknowledgement that reaches the database has checked, and what it writes.\<close>

lemma MarkStrategistReady_cases:
  assumes run: "MarkStrategistReady svc env w uid rid = (w', y)"
  obtains (refused) "w' = w"
  | (marked) room mid red blue mappool side current w1 x where
      "roomByID (rsDb svc) w rid = Inr room" "roomMatchID room = Some mid"
      "roomStartEntities svc w room = Inr (red, blue, mappool)" "StrategistSide red blue uid = Some side"
      "matchByID (rsDb svc) w mid = Inr current"
      "matchUpdateReadiness (rsDb svc) (ceClock env) w mid side (Some MatchStatusPending) = (w1, x)"
      "w' = w1 \<or> (\<exists>m start. x = Inr m \<and> redReady (matchReadiness m) \<and> blueReady (matchReadiness m) \<and>
         roomType room \<noteq> RoomTypeMatch \<and> rsStartMatchSystem svc = Some start \<and>
         w' = fst (start w1 (matchID m) 0 (ceNow env)))"
proof (cases "\<exists>room mid red blue mappool side current.
    roomByID (rsDb svc) w rid = Inr room \<and> roomMatchID room = Some mid \<and>
    roomStartEntities svc w room = Inr (red, blue, mappool) \<and> StrategistSide red blue uid = Some side \<and>
    matchByID (rsDb svc) w mid = Inr current \<and>
    (matchStatus current = MatchStatusPending \<or> matchStatus current = MatchStatusReady)")
  case False
  then have "w' = w"
    using run by (auto simp: MarkStrategistReady_def split: sum.splits option.splits if_splits prod.splits)
  then show ?thesis by (rule refused)
next
  case True
  then obtain room mid red blue mappool side current where
    found: "roomByID (rsDb svc) w rid = Inr room" "roomMatchID room = Some mid"
      "roomStartEntities svc w room = Inr (red, blue, mappool)" "StrategistSide red blue uid = Some side"
      "matchByID (rsDb svc) w mid = Inr current"
      "matchStatus current = MatchStatusPending \<or> matchStatus current = MatchStatusReady" by blast
  obtain w1 x where upd:
    "matchUpdateReadiness (rsDb svc) (ceClock env) w mid side (Some MatchStatusPending) = (w1, x)"
    by fastforce
  show ?thesis
    by (rule marked [OF found(1-5) upd])
      (use run found upd in \<open>auto simp: MarkStrategistReady_def
         split: sum.splits option.splits if_splits prod.splits\<close>)
qed

lemma wired_start:
  "rsStartMatchSystem (wiredRooms wi clock cid) = Some start \<Longrightarrow>
   fst (start w mid v now) =
     fst (StartMatchSystem (wiEncoders wi) (Some (wiredOrchestrator wi)) clock cid w mid v)"
  by (auto simp: wiredRooms_def case_prod_beta)

lemma MarkStrategistReady_kept:
  assumes laws: "backendLaws wi"
  shows "backendKept wi w (fst (MarkStrategistReady (wiredRooms wi clock cid) env w uid rid))"
proof -
  let ?svc = "wiredRooms wi clock cid" and ?db = "wiDb wi"
  let ?w' = "fst (MarkStrategistReady ?svc env w uid rid)"
  have roomLaws: "roomLaws ?db (wiMongo wi)" using laws by (simp add: backendLaws_def)
  have ready: "backendKept wi w w1"
    if run: "matchUpdateReadiness ?db (ceClock env) w mid side st = (w1, x)" for mid side st w1 x
    using matchUpdateReadiness_effect [OF roomLaws run] setReady_kept
    by (intro written_kept) blast+
  have start: "backendKept wi w1 w2"
    if "StartMatchSystem (wiEncoders wi) (Some (wiredOrchestrator wi)) clock cid w1 mid v = (w2, e)"
    for w1 w2 mid v e
  proof -
    obtain w3 r where run: "orchestratorExecute (wiEncoders wi) (Some (wiredOrchestrator wi)) clock w1
        \<lparr>reqMatchID = mid, reqExpectedVersion = v, reqCommandID = cid,
         reqCallerOsuID = 0, reqCommand = StartMatch, reqSystem = True\<rparr> = (w3, r)" by fastforce
    then have "w3 = w2" using that by (auto simp: StartMatchSystem_def split: sum.splits)
    with commandChange_kept [OF command_change [OF laws run]] show ?thesis by simp
  qed
  obtain w' y where call: "MarkStrategistReady ?svc env w uid rid = (w', y)" by fastforce
  have "backendKept wi w w'"
  proof (rule MarkStrategistReady_cases [OF call])
    fix room mid side w1 x
    assume marked:
      "matchUpdateReadiness (rsDb ?svc) (ceClock env) w mid side (Some MatchStatusPending) = (w1, x)"
      "w' = w1 \<or> (\<exists>m start. x = Inr m \<and> redReady (matchReadiness m) \<and> blueReady (matchReadiness m) \<and>
         roomType room \<noteq> RoomTypeMatch \<and> rsStartMatchSystem ?svc = Some start \<and>
         w' = fst (start w1 (matchID m) 0 (ceNow env)))"
    have one: "backendKept wi w w1" using ready marked(1) by (simp add: wiredRooms_def)
    let ?start = "\<lambda>m::Match. StartMatchSystem (wiEncoders wi) (Some (wiredOrchestrator wi)) clock cid w1 (matchID m) 0"
    have "w' = w1 \<or> (\<exists>m. w' = fst (?start m))"
      using marked(2)
    proof
      assume "\<exists>m start. x = Inr m \<and> redReady (matchReadiness m) \<and> blueReady (matchReadiness m) \<and>
         roomType room \<noteq> RoomTypeMatch \<and> rsStartMatchSystem ?svc = Some start \<and>
         w' = fst (start w1 (matchID m) 0 (ceNow env))"
      then obtain m :: Match and start where "rsStartMatchSystem ?svc = Some start"
        "w' = fst (start w1 (matchID m) 0 (ceNow env))" by blast
      then have "w' = fst (?start m)" by (simp add: wired_start)
      then show ?thesis by blast
    qed simp
    then show ?thesis
      using one start backendKept_trans [OF one] by (metis prod.collapse)
  qed simp
  then show ?thesis by (simp add: call)
qed

lemma legacyChange_kept:
  assumes "legacyChange (wiDb wi) (wiMongo wi) w w'"
  shows "backendKept wi w w'"
  using assms by (intro written_kept) (auto simp: legacyChange_def shellKept_def)

lemma matchCall_change:
  assumes laws: "backendLaws wi" and ok: "backendOk wi w"
  shows "legacyChange (wiDb wi) (wiMongo wi) w (matchCall (wiredMatches wi) now w mid call)"
proof -
  have db: "msDb (wiredMatches wi) = wiDb wi" by (simp add: wiredMatches_def)
  have "legacyChange (wiDb wi) (wiMongo wi) w (fst (legacyWrite (wiredMatches wi) now w mid f))"
    if "keepsIdentity f" for f
    using legacyWrite_change [OF _ _ that _ surjective_pairing, of "wiredMatches wi" "wiMongo wi" w now mid]
      laws backendOk_keyed(2) [OF ok] by (simp add: db backendLaws_def)
  then show ?thesis
    by (cases call) (simp_all add: keepsIdentity_ops BanPiece_def PickPiece_def RobPieceLegacy_def
        WinPiece_def EndMatch_def AdvanceTurn_def PauseMatch_def ResumeMatchLegacy_def)
qed

lemma matchCall_kept:
  assumes laws: "backendLaws wi"
  shows "backendKept wi w (matchCall (wiredMatches wi) now w mid call)"
  using legacyChange_kept [OF matchCall_change [OF laws]] by (auto simp: backendKept_def)

section \<open>Histories of the backend\<close>

lemma roomCall_kept:
  assumes laws: "backendLaws wi"
  shows "backendKept wi w (roomCall (wiredRooms wi clock cid) env w call)"
proof (cases "isConfiguration call")
  case True
  have "rsDb (wiredRooms wi clock cid) = wiDb wi" by (simp add: wiredRooms_def)
  with configuration_change [OF _ True, of "wiredRooms wi clock cid" "wiMongo wi" w env] laws show ?thesis
    by (simp add: backendLaws_def configChange_kept)
next
  case False
  then show ?thesis
    by (cases call) (simp_all add: roomStartMatch_kept [OF laws] MarkStrategistReady_kept [OF laws])
qed

lemma backendStep_kept:
  assumes "backendLaws wi" and "backendStep wi w w'"
  shows "backendKept wi w w'"
  using assms(2)
proof (cases rule: backendStep.cases)
  case room
  then show ?thesis using roomCall_kept [OF assms(1)] by metis
next
  case legacy
  then show ?thesis using matchCall_kept [OF assms(1)] by metis
next
  case command
  then show ?thesis using commandChange_kept [OF command_change [OF assms(1)]] by metis
qed

interpretation backend: step_system "backendStep wi" "\<lambda>w. backendLaws wi \<and> backendOk wi w" "backendGrows wi"
  for wi
proof (unfold_locales)
  show "backendLaws wi \<and> backendOk wi w'" if "backendLaws wi \<and> backendOk wi w" "backendStep wi w w'" for w w'
    using that backendStep_kept [of wi w w'] by (simp add: backendKept_def)
  show "backendGrows wi w w'" if "backendLaws wi \<and> backendOk wi w" "backendStep wi w w'" for w w'
    using that backendStep_kept [of wi w w'] by (simp add: backendKept_def)
qed (rule backendGrows_refl, rule backendGrows_trans)

end
