(* ===== verification/SampleBackend.thy ===== *)
theory SampleBackend
  imports RoomHistory SamplePath
begin

text \<open>
  A concrete database that satisfies \<open>backendLaws\<close>: the collections of \<open>SamplePath\<close> with the rooms and
  the match shells beside them, a few users and teams and a mappool, and the services wired on it.
  The theorems about the backend are applied here.
\<close>

section \<open>The collections\<close>

record RoomWorld = SampleWorld +
  rwRooms :: "(ObjectID, Room) gomap"
  rwMatches :: "(ObjectID, Match) gomap"

definition sampleEntry :: "int \<Rightarrow> PieceMod \<Rightarrow> int \<Rightarrow> MappoolEntry" where
  "sampleEntry b pm i =
     \<lparr>meBeatmapID = Some b, meMod = pm, meIndex = i, meSelectorID = None, meSkill = None\<rparr>"

definition sampleMappool :: Mappool where
  "sampleMappool =
     \<lparr>mpID = 31, mpName = ''pool'', mpDescription = None,
      mpEntries = [sampleEntry 9 PieceModTB 1, sampleEntry 7 PieceModHD 1, sampleEntry 5 PieceModNM 1],
      mpCreatedAt = 0, mpUpdatedAt = 0\<rparr>"

definition sampleAdmin :: User where
  "sampleAdmin = sampleUser\<lparr>userOnlineID := 7, userRoles := [RoleAdmin]\<rparr>"

text \<open>The strategists of the two sample teams.\<close>

definition sampleStrategist :: "int \<Rightarrow> User" where
  "sampleStrategist i = sampleUser\<lparr>userOnlineID := i, userRoles := [RoleStrategist]\<rparr>"

definition sampleUpdateRoom ::
  "RoomWorld \<Rightarrow> ObjectID \<Rightarrow> bool \<Rightarrow> RoomField list \<Rightarrow> RoomWorld \<times> (unit + nat)" where
  "sampleUpdateRoom w i setupOpen fs =
     (case mapGet (rwRooms w) i of
        None \<Rightarrow> (w, Inr 0)
      | Some r \<Rightarrow>
          if setupOpen \<and> roomMatchID r \<noteq> None then (w, Inr 0)
          else (w\<lparr>rwRooms := mapPut i (applyFields fs r) (rwRooms w)\<rparr>, Inr 1))"

definition sampleSetReady ::
  "RoomWorld \<Rightarrow> ObjectID \<Rightarrow> MatchStatus option \<Rightarrow> DomainSide \<Rightarrow> Time \<Rightarrow> RoomWorld \<times> (unit + Match option)" where
  "sampleSetReady w i status side now =
     (case mapGet (rwMatches w) i of
        None \<Rightarrow> (w, Inr None)
      | Some m \<Rightarrow>
          if (case status of None \<Rightarrow> True | Some st \<Rightarrow> matchStatus m = st)
          then (w\<lparr>rwMatches := mapPut i (setReady side now m) (rwMatches w)\<rparr>, Inr (Some (setReady side now m)))
          else (w, Inr None))"

definition sampleDb :: "RoomWorld RoomDb" where
  "sampleDb =
     \<lparr>dbFindUser = (\<lambda>w i. Inr (if i = 100 then Some sampleUser
        else if i = 7 then Some sampleAdmin
        else if i = 11 \<or> i = 21 then Some (sampleStrategist i) else None)),
      dbFindTeam = (\<lambda>w i. Inr (if i = 11 then Some (sampleTeam 11 10)
        else if i = 12 then Some (sampleTeam 12 20) else None)),
      dbFindMappool = (\<lambda>w i. Inr (if i = 31 then Some sampleMappool else None)),
      dbFindRoom = (\<lambda>w i. Inr (mapGet (rwRooms w) i)),
      dbInsertRoom = (\<lambda>w r.
        if mapGet (rwRooms w) (roomID r) = None
        then (w\<lparr>rwRooms := mapPut (roomID r) r (rwRooms w)\<rparr>, Inr ()) else (w, Inl True)),
      dbUpdateRoom = sampleUpdateRoom,
      dbFindMatch = (\<lambda>w i. Inr (mapGet (rwMatches w) i)),
      dbInsertMatch = (\<lambda>w m.
        if mapGet (rwMatches w) (matchID m) = None
        then (w\<lparr>rwMatches := mapPut (matchID m) m (rwMatches w)\<rparr>, Inr ()) else (w, Inl True)),
      dbUpdateMatch = (\<lambda>w m.
        case mapGet (rwMatches w) (matchID m) of
          None \<Rightarrow> (w, Inr 0)
        | Some old \<Rightarrow> (w\<lparr>rwMatches := mapPut (matchID m) (matchOverwrites m old) (rwMatches w)\<rparr>, Inr 1)),
      dbSetReady = sampleSetReady,
      dbStartSession = (\<lambda>w. True),
      dbTransaction = (\<lambda>w f. case f w of (w', Inr r) \<Rightarrow> (w', Inr r) | (w', Inl e) \<Rightarrow> (w, Inl e))\<rparr>"

lemma sampleDb_simps [simp]:
  "dbFindRoom sampleDb w i = Inr (mapGet (rwRooms w) i)"
  "dbFindMatch sampleDb w i = Inr (mapGet (rwMatches w) i)"
  "findSnapshot sampleMongo v i = Inr (mapGet (swSnapshots v) i)"
  "findReceipt sampleMongo v i c = Inr (mapGet (swReceipts v) (i, c))"
  by (simp_all add: sampleDb_def sampleMongo_def)

lemma sample_same:
  "sameRooms sampleDb w w' \<longleftrightarrow> mapGet (rwRooms w') = mapGet (rwRooms w)"
  "sameMatches sampleDb w w' \<longleftrightarrow> mapGet (rwMatches w') = mapGet (rwMatches w)"
  "sameSnapshots sampleMongo v v' \<longleftrightarrow>
     mapGet (swSnapshots v') = mapGet (swSnapshots v) \<and> mapGet (swReceipts v') = mapGet (swReceipts v)"
  by (auto simp: sameRooms_def sameMatches_def sameSnapshots_def fun_eq_iff)

lemma sample_put:
  "(\<lambda>i. Inr (mapGet (mapPut k x m) i)) = (\<lambda>i. Inr (mapGet m i))(k := Inr (Some x))"
  by (simp add: fun_eq_iff)

lemma sample_find:
  "dbFindRoom sampleDb w = (\<lambda>i. Inr (mapGet (rwRooms w) i))"
  "dbFindMatch sampleDb w = (\<lambda>i. Inr (mapGet (rwMatches w) i))"
  "findSnapshot sampleMongo v = (\<lambda>i. Inr (mapGet (swSnapshots v) i))"
  "findReceipt sampleMongo v = (\<lambda>i c. Inr (mapGet (swReceipts v) (i, c)))"
  by (simp_all add: fun_eq_iff)

section \<open>The laws\<close>

lemma sample_roomLaws: "roomLaws sampleDb sampleMongo"
  unfolding roomLaws_def
proof (intro conjI)
  show "updateRoomLaw sampleDb sampleMongo"
    unfolding updateRoomLaw_def
  proof (intro allI impI)
    fix w i setupOpen fs w' x
    assume "dbUpdateRoom sampleDb w i setupOpen fs = (w', x)"
    then have run: "sampleUpdateRoom w i setupOpen fs = (w', x)" by (simp add: sampleDb_def)
    show "sameMatches sampleDb w w' \<and> sameSnapshots sampleMongo w w' \<and>
        (case x of
           Inl _ \<Rightarrow> sameRooms sampleDb w w' \<or> roomUpdated sampleDb w i setupOpen fs w'
         | Inr n \<Rightarrow>
             if n = 0 then sameRooms sampleDb w w' \<and> (\<forall>r. \<not> roomSelected sampleDb w i setupOpen r)
             else roomUpdated sampleDb w i setupOpen fs w')"
      using run
      by (auto simp: sampleUpdateRoom_def sample_same roomUpdated_def roomSelected_def sample_find fun_eq_iff
          split: option.splits if_splits)
  qed
  show "insertRoomLaw sampleDb sampleMongo"
    by (auto simp: insertRoomLaw_def sample_same sample_find sample_put) (auto simp: sampleDb_def sample_put split: if_splits)
  show "insertMatchLaw sampleDb sampleMongo"
    by (auto simp: insertMatchLaw_def sample_same sample_find sample_put) (auto simp: sampleDb_def sample_put split: if_splits)
  show "updateMatchLaw sampleDb sampleMongo"
    by (auto simp: updateMatchLaw_def matchWritten_def sample_same sample_find)
      (auto simp: sampleDb_def sample_put split: option.splits)
  show "setReadyLaw sampleDb sampleMongo"
    by (auto simp: setReadyLaw_def matchWritten_def sample_same sample_find)
      (auto simp: sampleDb_def sampleSetReady_def sample_put split: option.splits if_splits)
  show "insertSnapshotLaw sampleDb sampleMongo"
    by (auto simp: insertSnapshotLaw_def sample_same sample_find)
      (auto simp: sampleMongo_def sample_put split: if_splits)
  show "roomTransactionLaw sampleDb"
    by (auto simp: roomTransactionLaw_def sampleDb_def split: prod.splits sum.splits)
qed

lemma sample_commandLaw: "commandLaw sampleDb sampleMongo"
  by (auto simp: commandLaw_def sample_same)
    (auto simp: sampleMongo_def sampleUpdate_def split: option.splits if_splits)

definition sampleWiring :: "Codec \<Rightarrow> RoomWorld Wiring" where
  "sampleWiring codec =
     \<lparr>wiDb = sampleDb, wiMongo = sampleMongo, wiCodec = codec, wiEncoders = sampleEncoders,
      wiParseURL = (\<lambda>link. None), wiCreateMove = (\<lambda>w move. (w, Inr ()))\<rparr>"

lemma sampleWiring_laws:
  assumes "codecLaws codec"
  shows "backendLaws (sampleWiring codec)"
  using assms sample_laws sample_roomLaws sample_commandLaw
  by (simp add: backendLaws_def sampleWiring_def createMoveLaw_def wiredMatches_def)

section \<open>Starting a match\<close>

text \<open>A formal room ready to start and a casual one, and the databases that hold them.\<close>

definition formalRoom :: Room where
  "formalRoom = (sampleRoom 1)\<lparr>roomMatchID := None, roomRedTeamID := Some 11, roomBlueTeamID := Some 12,
     roomMappoolID := Some 31, roomMPLink := Some ''https://osu.ppy.sh/community/matches/5''\<rparr>"

definition casualRoom :: Room where
  "casualRoom = formalRoom\<lparr>roomType := RoomTypeCasual, roomMappoolID := None\<rparr>"

definition roomWorld :: "Room \<Rightarrow> RoomWorld" where
  "roomWorld room =
     \<lparr>swSnapshots = [], swReceipts = [], swOutbox = [], rwRooms = [(1, room)], rwMatches = []\<rparr>"

definition sampleEnv :: CallEnv where
  "sampleEnv = \<lparr>ceClock = 1 * second, ceNow = 1 * second, ceFreshID = 41, ceRandom = Some [1, 2, 3, 4, 5, 6]\<rparr>"

definition bootState :: "Mappool option \<Rightarrow> State" where
  "bootState mappool =
     projr (NewReadyState (configurationOf mappool (sampleTeam 11 10) (sampleTeam 12 20)
       TeamSideRed TeamSideBlue))"

definition bootCodec :: Codec where
  "bootCodec = tableCodec [bootState (Some sampleMappool), bootState None] []"

lemma bootCodec_laws: "codecLaws bootCodec"
  by (simp add: bootCodec_def tableCodec_laws)

abbreviation bootWiring :: "RoomWorld Wiring" where
  "bootWiring \<equiv> sampleWiring bootCodec"

lemma roomWorld_ok:
  assumes "roomID room = 1" "roomMatchID room = None"
  shows "backendOk bootWiring (roomWorld room)"
  by (auto simp: backendOk_def sampleWiring_def roomWorld_def roomLinked_def snapshotLoad_Inr assms
      split: if_splits)

definition formalStart :: "RoomWorld \<times> (ServiceError + Match)" where
  "formalStart = roomStartMatch (wiredRooms bootWiring (1 * second) ''c1'') sampleEnv (roomWorld formalRoom) 100 1"

lemma formalStart_outcome:
  "case formalStart of (w', x) \<Rightarrow>
     (case x of Inl e \<Rightarrow> False | Inr m \<Rightarrow> matchID m = 41 \<and> mapGet (rwMatches w') 41 = Some m \<and>
        map_option roomMatchID (mapGet (rwRooms w') 1) = Some (Some 41) \<and> mapGet (swSnapshots w') 41 \<noteq> None)"
  by code_simp

end
