(* ===== verification/DomainClaims.thy ===== *)
theory DomainClaims
  imports SampleBackend
begin

text \<open>
  The properties of pool slots, mappools and the start of a match: what the parser of slot identifiers
  accepts, when a configured room becomes a match, and which beatmap stands behind each slot of a match.
\<close>

section \<open>Slot identifiers\<close>

text \<open>
  C35: Every slot the parser returns is well formed: its mod is one of the seven known mods and its index
  is a positive \<open>int64\<close>. Its printed form is read back as the same slot, and for the five mods with a
  compact form so is the mod followed by the index.
\<close>

theorem pool_slot_parse:
  assumes "ParsePoolSlot text = Some slot"
  shows "dsMod slot \<in> {PieceModNM, PieceModHD, PieceModHR, PieceModDT, PieceModFM, PieceModShiro, PieceModTB} \<and>
    1 \<le> dsIndex slot \<and> dsIndex slot < 2 ^ 63 \<and>
    ParsePoolSlot (slotString slot) = Some slot \<and>
    (dsMod slot \<in> set compactMods \<longrightarrow> ParsePoolSlot (dsMod slot @ itoa (dsIndex slot)) = Some slot)"
proof -
  from parse_sound [OF assms] have known: "isKnownPieceMod (dsMod slot)"
    and index: "1 \<le> dsIndex slot" "dsIndex slot < 2 ^ 63" by auto
  have "dsMod slot \<in> {PieceModNM, PieceModHD, PieceModHR, PieceModDT, PieceModFM, PieceModShiro, PieceModTB}"
    using known by (simp add: isKnownPieceMod_def knownPieceMods_def)
  with index parse_slotString [OF known index] parse_compact [OF _ index, of "dsMod slot"] show ?thesis by simp
qed

theorem pool_slot_parse_witness:
  "ParsePoolSlot ''NM12'' = Some \<lparr>dsMod = PieceModNM, dsIndex = 12\<rparr> \<and>
   ParsePoolSlot (slotString \<lparr>dsMod = PieceModNM, dsIndex = 12\<rparr>) = Some \<lparr>dsMod = PieceModNM, dsIndex = 12\<rparr>"
proof -
  have parse: "ParsePoolSlot ''NM12'' = Some \<lparr>dsMod = PieceModNM, dsIndex = 12\<rparr>" by code_simp
  with pool_slot_parse [OF parse] show ?thesis by simp
qed

section \<open>When a room becomes a match\<close>

text \<open>
  C33: A seed is built exactly when the room passes the start checks, its first pick, first ban and both
  teams are there, and the ids of the leaders and players are positive and distinct. For a private
  room the start checks ask for none of these, and a missing one is dereferenced: the request panics
  exactly then.
\<close>

theorem seed_built_iff:
  "((\<exists>seed. BuildFormalMatchSeed newID clock room redTeam blueTeam mappool now = Inr seed) \<longleftrightarrow>
      roomStartable room redTeam blueTeam mappool now \<and>
      (\<exists>pick ban red blue. roomFirstPick room = Some pick \<and> roomFirstBan room = Some ban \<and>
         redTeam = Some red \<and> blueTeam = Some blue \<and> rostersPlayable red blue)) \<and>
   (BuildFormalMatchSeed newID clock room redTeam blueTeam mappool now = Inl NilDereference \<longleftrightarrow>
      roomStartable room redTeam blueTeam mappool now \<and> roomType room = RoomTypePrivate \<and>
      (roomFirstPick room = None \<or> roomFirstBan room = None \<or> redTeam = None \<or> blueTeam = None))"
proof (cases "roomStartable room redTeam blueTeam mappool now")
  case False
  then show ?thesis using BuildFormalMatchSeed_refused [OF False, of newID clock] by auto
next
  case True
  note built = BuildFormalMatchSeed_startable [OF True, of newID clock]
  show ?thesis
  proof (cases "roomFirstPick room = None \<or> roomFirstBan room = None \<or> redTeam = None \<or> blueTeam = None")
    case missing: True
    have "BuildFormalMatchSeed newID clock room redTeam blueTeam mappool now = Inl NilDereference"
      unfolding built using missing by (auto split: option.splits)
    moreover have "roomType room = RoomTypePrivate"
      using True missing requirements_met [of room redTeam blueTeam mappool]
      by (auto simp: roomStartable_def teamReady_Some)
    ultimately show ?thesis using True missing by auto
  next
    case False
    then obtain pick ban red blue where there: "roomFirstPick room = Some pick" "roomFirstBan room = Some ban"
      "redTeam = Some red" "blueTeam = Some blue" by auto
    show ?thesis
      using True NewReadyState_seed [of mappool red blue pick ban]
      by (cases "NewReadyState (configurationOf mappool red blue pick ban)") (auto simp: built [unfolded there] there)
  qed
qed

section \<open>The beatmaps of a match\<close>

lemma newSlot_available [simp]:
  "slotID (c\<lparr>slotState := st\<rparr>) = slotID c" "slotMod (c\<lparr>slotState := st\<rparr>) = slotMod c"
  by simp_all

lemma seedPool_slots:
  "mapGet (seedPool mappool) sid = Some slot \<Longrightarrow>
     \<exists>c\<in>set (seedSlots mappool). slotID c = sid \<and> slotMod slot = slotMod c"
  by (drule map_of_SomeD) (auto simp: seedPool_def)

text \<open>
  C34: In a match that starts from an accepted mappool, every slot but the Shiro slot and the tiebreaker
  resolves to the beatmap of a mappool entry with the slot's mod. The Shiro slot never resolves. The
  tiebreaker is named after the smallest index of the TB entries but looked up by position among
  them, so it resolves exactly when that index is at most their number.
\<close>

theorem slot_beatmaps:
  assumes "BuildFormalMatchSeed newID clock room redTeam blueTeam (Some mp) now = Inr seed"
    and "ValidateEntries mp = []"
    and "int (length (mpEntries mp)) < 2 ^ 63" and "list_all (\<lambda>e. meIndex e < 2 ^ 63) (mpEntries mp)"
    and "mapGet (PoolSlots (seedState seed)) sid = Some slot"
  shows "if slotMod slot = ModShiro then slotBeatmap (matchMappool (seedLegacyMatch seed)) sid = None
    else if slotMod slot = ModTB then
      slotBeatmap (matchMappool (seedLegacyMatch seed)) sid \<noteq> None \<longleftrightarrow>
      hd (tbIndices mp) \<le> int (length (tbIndices mp))
    else \<exists>e\<in>set (mpEntries mp). engineModFromDomain (meMod e) = Some (slotMod slot) \<and>
      slotBeatmap (matchMappool (seedLegacyMatch seed)) sid = meBeatmapID e \<and> meBeatmapID e \<noteq> None"
proof -
  have ok: "mappoolOk mp" using assms(2) by (simp add: ValidateEntries_clean)
  have pool: "matchMappool (seedLegacyMatch seed) = ToRuntime mp"
    and slots: "PoolSlots (seedState seed) = seedPool (Some mp)"
    using assms(1) by (auto elim!: BuildFormalMatchSeed_Inr dest: NewReadyState_seedPool
        simp: seedOf_def NewMatch_def)
  have group: "int (length (slotGroup (ToRuntime mp) pm)) < 2 ^ 63" if "isKnownPieceMod pm" for pm
    using length_slotGroup [OF that, of mp] length_filter_le [of "\<lambda>e. meMod e = pm" "mpEntries mp"] assms(3)
    by linarith
  from seedPool_slots [of "Some mp" sid slot] assms(5) slots obtain c where
    c: "c \<in> set (seedSlots (Some mp))" "slotID c = sid" "slotMod slot = slotMod c" by auto
  then consider k where "k \<in> set (normalKeys (ToRuntime mp))" "sid = slotString k"
      "engineModFromDomain (dsMod k) = Some (slotMod slot)"
    | "sid = ''SHIRO''" "slotMod slot = ModShiro" | "sid = tbSlotID (Some mp)" "slotMod slot = ModTB"
    using engineMod_compact by (fastforce simp: seedSlots_def normalSlots_def normalKeys_iff)
  then show ?thesis
  proof cases
    case 1
    have key: "dsMod k \<in> set compactMods" "1 \<le> dsIndex k"
      "dsIndex k \<le> int (length (slotGroup (ToRuntime mp) (dsMod k)))"
      using 1(1) by (simp_all add: normalKeys_iff)
    then have "isKnownPieceMod (dsMod k)" "dsMod k \<noteq> PieceModShiro"
      by (auto simp: compactMods_def isKnownPieceMod_def knownPieceMods_def)
    moreover have eta: "\<lparr>dsMod = dsMod k, dsIndex = dsIndex k\<rparr> = k" by (cases k) simp
    ultimately obtain e where "e \<in> set (mpEntries mp)" "meMod e = dsMod k"
      "slotBeatmap (ToRuntime mp) (slotString k) = meBeatmapID e" "meBeatmapID e \<noteq> None"
      using slotBeatmap_group [OF ok _ _ key(2,3)] group [of "dsMod k"] key(3) unfolding eta
      by (metis le_less_trans)
    moreover have "slotMod slot \<noteq> ModShiro" "slotMod slot \<noteq> ModTB"
      using engineMod_compact [OF key(1)] 1(3) by auto
    ultimately show ?thesis using 1(2,3) pool by (simp del: not_None_eq) metis
  next
    case 2
    have "ParsePoolSlot ''SHIRO'' = None" by code_simp
    then show ?thesis using 2 by (simp add: slotBeatmap_def)
  next
    case 3
    have known: "isKnownPieceMod PieceModTB" "PieceModTB \<noteq> PieceModShiro"
      by (simp_all add: isKnownPieceMod_def knownPieceMods_def)
    have tb: "HasTBEntry (Some mp)" using ok by (simp add: HasTBEntry_def mappoolOk_def)
    note named = tbSlotID_eq [OF tb]
    define i where "i = hd (tbIndices mp)"
    have "i \<in> set (tbIndices mp)" using named by (simp add: i_def)
    then have i: "1 \<le> i" "i < 2 ^ 63"
      using ok assms(4) by (auto simp: tbIndices_def mappoolOk_def list_all_iff entryOkay_def)
    have len: "length (slotGroup (ToRuntime mp) PieceModTB) = length (tbIndices mp)"
      using length_slotGroup [OF known(1)] by (simp add: tbIndices_def)
    have sid: "sid = slotString \<lparr>dsMod = PieceModTB, dsIndex = i\<rparr>" using 3 named by (simp add: i_def)
    have "slotBeatmap (ToRuntime mp) sid \<noteq> None \<longleftrightarrow> i \<le> int (length (tbIndices mp))"
    proof (cases "i \<le> int (length (tbIndices mp))")
      case True
      with slotBeatmap_group [OF ok known i(1) _ i(2)] len show ?thesis by (auto simp: sid)
    next
      case False
      with slotBeatmap_outside [OF known(1) i(1) _ i(2), of mp] len show ?thesis by (simp add: sid)
    qed
    then show ?thesis using 3(2) pool by (simp add: i_def)
  qed
qed

text \<open>The formal room with the sample mappool; its HD slot.\<close>

definition formalSeed :: FormalMatchSeed where
  "formalSeed = projr (BuildFormalMatchSeed 41 0 formalRoom (Some (sampleTeam 11 10)) (Some (sampleTeam 12 20))
     (Some sampleMappool) (1 * second))"

theorem slot_beatmaps_witness:
  "slotBeatmap (matchMappool (seedLegacyMatch formalSeed)) ''HD-1'' = Some 7 \<and>
   (\<exists>e\<in>set (mpEntries sampleMappool). engineModFromDomain (meMod e) = Some ModHD \<and> meBeatmapID e = Some 7)"
proof -
  have "isl (BuildFormalMatchSeed 41 0 formalRoom (Some (sampleTeam 11 10)) (Some (sampleTeam 12 20))
      (Some sampleMappool) (1 * second)) = False" by code_simp
  then have built: "BuildFormalMatchSeed 41 0 formalRoom (Some (sampleTeam 11 10)) (Some (sampleTeam 12 20))
      (Some sampleMappool) (1 * second) = Inr formalSeed"
    by (simp add: formalSeed_def)
  have clean: "ValidateEntries sampleMappool = []" by code_simp
  have found: "map_option slotMod (mapGet (PoolSlots (seedState formalSeed)) ''HD-1'') = Some ModHD" by code_simp
  have seven: "slotBeatmap (matchMappool (seedLegacyMatch formalSeed)) ''HD-1'' = Some 7" by code_simp
  from found obtain slot where slot: "mapGet (PoolSlots (seedState formalSeed)) ''HD-1'' = Some slot"
    "slotMod slot = ModHD" by auto
  from slot_beatmaps [OF built clean _ _ slot(1)] slot(2) seven show ?thesis
    by (auto simp: sampleMappool_def sampleEntry_def)
qed

end
