(* ===== verification/BackendFacts.thy ===== *)
theory BackendFacts
  imports RoomHistory
begin

text \<open>
  What single calls of the room service do: who may change a room, what a start leaves behind, whose
  readiness an acknowledgement records. The last section follows the formal matches: their shells stay
  pending, so no request of a user starts one, and the interpretation \<open>formal\<close> of \<open>step_system\<close> carries
  this through every history of the backend.
\<close>

section \<open>Who configures a room\<close>

text \<open>A verified user who is not banned.\<close>

definition eligible :: "'w RoomService \<Rightarrow> 'w \<Rightarrow> int \<Rightarrow> User \<Rightarrow> bool" where
  "eligible svc w uid u \<longleftrightarrow>
     dbFindUser (rsDb svc) w uid = Inr (Some u) \<and> \<not> userIsBanned u \<and> userVerifyStatus u = Verified"

lemma currentEligibleUser_Inr:
  "currentEligibleUser svc w uid = Inr u \<Longrightarrow> eligible svc w uid u"
  by (auto simp: currentEligibleUser_def eligible_def userByOsuID_def split: if_splits sum.splits)

text \<open>An administrator, or the owner of a room that is not formal.\<close>

definition mayConfigure :: "'w RoomService \<Rightarrow> 'w \<Rightarrow> int \<Rightarrow> Room \<Rightarrow> bool" where
  "mayConfigure svc w uid r \<longleftrightarrow>
     (\<exists>u. eligible svc w uid u \<and>
        (HasRole u RoleAdmin \<or> (roomType r \<noteq> RoomTypeMatch \<and> roomOwnerID r = userOnlineID u)))"

text \<open>Besides them, the assigned referee of a formal room.\<close>

definition mayRun :: "'w RoomService \<Rightarrow> 'w \<Rightarrow> int \<Rightarrow> Room \<Rightarrow> bool" where
  "mayRun svc w uid r \<longleftrightarrow>
     mayConfigure svc w uid r \<or>
     (\<exists>u. eligible svc w uid u \<and> HasRole u RoleReferee \<and> roomType r = RoomTypeMatch \<and>
        roomRefereeUserID r = Some (userOnlineID u))"

lemma openConfiguration_Inr:
  assumes "openConfiguration svc w uid rid = Inr r"
  shows "dbFindRoom (rsDb svc) w rid = Inr (Some r)" "mayConfigure svc w uid r" "roomMatchID r = None"
proof -
  from assms obtain u where u: "currentEligibleUser svc w uid = Inr u"
    and r: "roomByID (rsDb svc) w rid = Inr r" "roomMatchID r = None"
    and may: "HasRole u RoleAdmin \<or> (roomType r \<noteq> RoomTypeMatch \<and> roomOwnerID r = userOnlineID u)"
    by (auto simp: openConfiguration_def authorizedRoomConfiguration_def requireRoomSetupOpen_def
        split: sum.splits if_splits)
  show "mayConfigure svc w uid r"
    using currentEligibleUser_Inr [OF u] may by (auto simp: mayConfigure_def)
  show "dbFindRoom (rsDb svc) w rid = Inr (Some r)" "roomMatchID r = None"
    using r by (simp_all add: roomByID_def)
qed

lemma authorizedRoom_mayRun:
  assumes "authorizedRoom svc w uid rid = Inr r"
  shows "mayRun svc w uid r"
proof -
  from assms obtain u where u: "currentEligibleUser svc w uid = Inr u"
    and may: "HasRole u RoleAdmin \<or> (roomType r \<noteq> RoomTypeMatch \<and> roomOwnerID r = userOnlineID u) \<or>
      (HasRole u RoleReferee \<and> roomType r = RoomTypeMatch \<and> roomRefereeUserID r = Some (userOnlineID u))"
    by (auto simp: authorizedRoom_def split: sum.splits if_splits)
  then show ?thesis
    using currentEligibleUser_Inr [OF u] by (auto simp: mayRun_def mayConfigure_def)
qed

text \<open>The one room a call can change, and its caller.\<close>

fun callTarget :: "RoomCall \<Rightarrow> ObjectID option" where
  "callTarget (CallCreate _ _ _) = None"
| "callTarget (CallSetTeams _ rid _ _) = Some rid"
| "callTarget (CallSetStreamer _ rid _) = Some rid"
| "callTarget (CallSetMappool _ rid _) = Some rid"
| "callTarget (CallSetBPOrder _ rid _) = Some rid"
| "callTarget (CallSetMPLink _ rid _) = Some rid"
| "callTarget (CallSetStreamLink _ rid _) = Some rid"
| "callTarget (CallSetReferee _ rid _) = Some rid"
| "callTarget (CallUpdateMetadata _ rid _) = Some rid"
| "callTarget (CallPatchMetadata _ rid _) = Some rid"
| "callTarget (CallStartMatch _ rid) = Some rid"
| "callTarget (CallMarkReady _ rid) = Some rid"

fun callerOf :: "RoomCall \<Rightarrow> int" where
  "callerOf (CallCreate uid _ _) = uid"
| "callerOf (CallSetTeams uid _ _ _) = uid"
| "callerOf (CallSetStreamer uid _ _) = uid"
| "callerOf (CallSetMappool uid _ _) = uid"
| "callerOf (CallSetBPOrder uid _ _) = uid"
| "callerOf (CallSetMPLink uid _ _) = uid"
| "callerOf (CallSetStreamLink uid _ _) = uid"
| "callerOf (CallSetReferee uid _ _) = uid"
| "callerOf (CallUpdateMetadata uid _ _) = uid"
| "callerOf (CallPatchMetadata uid _ _) = uid"
| "callerOf (CallStartMatch uid _) = uid"
| "callerOf (CallMarkReady uid _) = uid"

fun isLinkCall :: "RoomCall \<Rightarrow> bool" where
  "isLinkCall (CallSetMPLink _ _ _) = True"
| "isLinkCall _ = False"

text \<open>
  What a configuration call does with the rooms: nothing, one update of its target by someone who may
  make it, or, for a creation, one insert.
\<close>

definition allowedChange :: "'w RoomService \<Rightarrow> 'w \<Rightarrow> RoomCall \<Rightarrow> Room \<Rightarrow> bool" where
  "allowedChange svc w call r \<longleftrightarrow>
     (if isLinkCall call then mayRun svc w (callerOf call) r
      else mayConfigure svc w (callerOf call) r \<and> roomMatchID r = None)"

text \<open>The database is as it was, or the target got one update.\<close>

definition updates :: "'w RoomService \<Rightarrow> CallEnv \<Rightarrow> 'w \<Rightarrow> ObjectID \<Rightarrow> bool \<Rightarrow> 'w \<Rightarrow> bool" where
  "updates svc env w rid so w' \<longleftrightarrow>
     w' = w \<or> (\<exists>fs. w' = fst (updateRoomFields svc env w rid fs so))"

lemma updates_simps [simp]:
  "updates svc env w rid so w" "updates svc env w rid so (fst (updateRoomFields svc env w rid fs so))"
  by (auto simp: updates_def)

lemma configuration_updates:
  assumes "isConfiguration call" "callTarget call = Some rid"
    and "\<And>r. dbFindRoom (rsDb svc) w rid = Inr (Some r) \<Longrightarrow> roomID r = rid"
  shows "updates svc env w rid (\<not> isLinkCall call) (roomCall svc env w call)"
  using assms
  by (cases call)
    (simp_all add: SetTeams_def SetStreamer_def SetMappool_def SetBPOrder_def SetMPLink_def SetStreamLink_def
      SetReferee_def UpdateRoomMetadata_def UpdateRoomMetadataPartial_def roomByID_def
      split: sum.split option.split prod.split)

lemma configuration_refused:
  assumes "isConfiguration call" "callTarget call = Some rid"
    and "roomCall svc env w call \<noteq> w"
  shows "if isLinkCall call then \<exists>r. authorizedRoom svc w (callerOf call) rid = Inr r
    else (\<exists>r. openConfiguration svc w (callerOf call) rid = Inr r) \<or>
      (\<exists>u. currentEligibleUser svc w (callerOf call) = Inr u \<and> HasRole u RoleAdmin)"
  using assms
  by (cases call)
    (auto simp: SetTeams_def SetStreamer_def SetMappool_def SetBPOrder_def SetMPLink_def SetStreamLink_def
      SetReferee_def UpdateRoomMetadata_def UpdateRoomMetadataPartial_def
      split: sum.splits if_splits)

lemma updates_room:
  assumes laws: "roomLaws (rsDb svc) sn" and upd: "updates svc env w rid so w'"
    and found: "dbFindRoom (rsDb svc) w i = Inr (Some r)"
    and changed: "dbFindRoom (rsDb svc) w' i \<noteq> dbFindRoom (rsDb svc) w i"
  shows "i = rid \<and> (so \<longrightarrow> roomMatchID r = None)"
proof -
  from upd changed obtain fs where w': "w' = fst (updateRoomFields svc env w rid fs so)"
    by (auto simp: updates_def)
  obtain w1 x where run: "roomUpdateFields (rsDb svc) (ceClock env) w rid fs so = (w1, x)" by fastforce
  then have "w1 = w'" using w' by (auto simp: updateRoomFields_def split: sum.splits)
  with roomUpdateFields_effect [OF laws run] found changed show ?thesis
    by (auto simp: sameRooms_def roomUpdated_def roomSelected_def split: if_splits)
qed

lemma configured_room:
  assumes laws: "roomLaws (rsDb svc) sn"
    and keyed: "\<And>i r. dbFindRoom (rsDb svc) w i = Inr (Some r) \<Longrightarrow> roomID r = i"
    and call: "isConfiguration call" "callTarget call = Some rid"
    and found: "dbFindRoom (rsDb svc) w i = Inr (Some r)"
    and changed: "dbFindRoom (rsDb svc) (roomCall svc env w call) i \<noteq> dbFindRoom (rsDb svc) w i"
  shows "i = rid \<and>
    (if isLinkCall call then mayRun svc w (callerOf call) r
     else mayConfigure svc w (callerOf call) r \<and> roomMatchID r = None)"
proof -
  have here: "i = rid \<and> (\<not> isLinkCall call \<longrightarrow> roomMatchID r = None)"
    using updates_room [OF laws configuration_updates [OF call keyed] found changed] by blast
  have "roomCall svc env w call \<noteq> w" using changed by auto
  note granted = configuration_refused [OF call this]
  show ?thesis
  proof (cases "isLinkCall call")
    case True
    with granted obtain r' where "authorizedRoom svc w (callerOf call) rid = Inr r'" by auto
    with authorizedRoom_mayRun [OF this] authorizedRoom_Inr [OF this] found here True show ?thesis
      by simp
  next
    case False
    with granted consider r' where "openConfiguration svc w (callerOf call) rid = Inr r'"
      | u where "currentEligibleUser svc w (callerOf call) = Inr u" "HasRole u RoleAdmin" by auto
    then have "mayConfigure svc w (callerOf call) r"
    proof cases
      case 1
      with openConfiguration_Inr [OF this] found here show ?thesis by simp
    next
      case 2
      with currentEligibleUser_Inr [OF this(1)] show ?thesis by (auto simp: mayConfigure_def)
    qed
    with here False show ?thesis by simp
  qed
qed

text \<open>A creation leaves the rooms there are alone.\<close>

lemma CreateRoom_keeps:
  assumes laws: "roomLaws (rsDb svc) sn" and found: "dbFindRoom (rsDb svc) w i = Inr (Some r)"
  shows "dbFindRoom (rsDb svc) (fst (CreateRoom svc env w uid t name)) i = Inr (Some r)"
proof -
  have "dbFindRoom (rsDb svc) w' i = Inr (Some r)"
    if run: "roomCreate (rsDb svc) clock j w room = (w', x)" for clock j room w' x
    using roomCreate_effect [OF laws run] found by (auto simp: sameRooms_def)
  then have "dbFindRoom (rsDb svc) (fst (roomCreate (rsDb svc) clock j w room)) i = Inr (Some r)" for clock j room
    by (metis prod.collapse)
  then show ?thesis using found by (auto simp: CreateRoom_def split: sum.split option.split)
qed

section \<open>What a start leaves behind\<close>

lemma existingMatch_Inr:
  assumes "existingMatch svc w room = Inr m"
  obtains mid where "roomMatchID room = Some mid" "dbFindMatch (rsDb svc) w mid = Inr (Some m)"
    "matchRoomID m = roomID room"
  using assms that
  by (auto simp: existingMatch_def matchByID_def split: option.splits sum.splits if_splits)

lemma seed_stamped:
  assumes "BuildFormalMatchSeed i clock room red blue mappool now = Inr seed"
  shows "(seedLegacyMatch seed)\<lparr>matchCreatedAt := now, matchUpdatedAt := now\<rparr> = seedLegacyMatch seed"
  by (rule BuildFormalMatchSeed_Inr [OF assms]) (simp add: seedOf_def)

text \<open>The match a start returns is stored, and the room is bound to it.\<close>

definition startedWith :: "'w Wiring \<Rightarrow> 'w \<Rightarrow> ObjectID \<Rightarrow> Match \<Rightarrow> bool" where
  "startedWith wi w rid m \<longleftrightarrow>
     (\<exists>r. dbFindRoom (wiDb wi) w rid = Inr (Some r) \<and> roomMatchID r = Some (matchID m)) \<and>
     dbFindMatch (wiDb wi) w (matchID m) = Inr (Some m) \<and> matchRoomID m = rid"

lemma existing_started:
  assumes ok: "backendOk wi w" and room: "dbFindRoom (wiDb wi) w rid = Inr (Some room)"
    and m: "existingMatch (wiredRooms wi clock cid) w room = Inr m"
  shows "startedWith wi w rid m"
proof -
  from existingMatch_Inr [OF m] obtain mid where "roomMatchID room = Some mid"
    "dbFindMatch (wiDb wi) w mid = Inr (Some m)" "matchRoomID m = roomID room"
    by (auto simp: wiredRooms_def)
  with backendOk_keyed [OF ok] room show ?thesis by (auto simp: startedWith_def)
qed

lemma started_existing:
  assumes ok: "backendOk wi w" and s: "startedWith wi w rid m"
    and room: "dbFindRoom (wiDb wi) w rid = Inr (Some room)"
  shows "existingMatch (wiredRooms wi clock cid) w room = Inr m"
proof -
  from s room have bound: "roomMatchID room = Some (matchID m)"
    "dbFindMatch (wiDb wi) w (matchID m) = Inr (Some m)" "matchRoomID m = rid"
    by (auto simp: startedWith_def)
  from ok room have "roomID room = rid" "roomLinked wi w room" by (auto simp: backendOk_def)
  moreover from this bound obtain s where "snapshotLoad (wiMongo wi) (wiCodec wi) w (matchID m) = Inr s"
    by (auto simp: roomLinked_def)
  then have "snapshotHas (wiMongo wi) w (matchID m) = Inr True"
    by (auto simp: snapshotLoad_Inr snapshotHas_def)
  ultimately show ?thesis using bound by (simp add: existingMatch_def wiredRooms_def matchByID_def found_def)
qed

lemma startFresh_started:
  assumes laws: "backendLaws wi" and ok: "backendOk wi w"
    and room: "dbFindRoom (wiDb wi) w rid = Inr (Some room)"
    and run: "startFresh (wiredRooms wi clock cid) env w room
      (bootstrapCreate (wiDb wi) (wiMongo wi) (wiCodec wi)) = (w', Inr m)"
  shows "startedWith wi w' rid m"
proof -
  let ?create = "bootstrapCreate (wiDb wi) (wiMongo wi) (wiCodec wi)" and ?svc = "wiredRooms wi clock cid"
  have rid: "roomID room = rid" using backendOk_keyed(1) [OF ok room] .
  have db: "rsDb ?svc = wiDb wi" by (simp add: wiredRooms_def)
  have roomLaws: "roomLaws (wiDb wi) (wiMongo wi)" using laws by (simp add: backendLaws_def)
  from run obtain red blue mappool seed where
    seed: "BuildFormalMatchSeed (ceFreshID env) (ceClock env) room red blue mappool (ceNow env) = Inr seed"
    by (auto simp: startFresh_def split: sum.splits prod.splits if_splits)
  obtain seed where
    seed: "\<exists>red blue mappool.
      BuildFormalMatchSeed (ceFreshID env) (ceClock env) room red blue mappool (ceNow env) = Inr seed"
    and out: "(?create w rid (seedLegacyMatch seed) (seedState seed) (ceNow env) = (w', Inr ()) \<and>
        m = seedLegacyMatch seed) \<or>
      (\<exists>room'. ?create w rid (seedLegacyMatch seed) (seedState seed) (ceNow env) = (w', Inl ErrFormalMatchAlreadyStarted) \<and>
        dbFindRoom (wiDb wi) w' rid = Inr (Some room') \<and> existingMatch ?svc w' room' = Inr m)"
    using run
    by (auto simp: startFresh_def rid db roomByID_def split: sum.splits prod.splits if_splits)
  from seed obtain red blue mappool where
    seed: "BuildFormalMatchSeed (ceFreshID env) (ceClock env) room red blue mappool (ceNow env) = Inr seed"
    by blast
  from out show ?thesis
  proof
    assume "\<exists>room'. ?create w rid (seedLegacyMatch seed) (seedState seed) (ceNow env) = (w', Inl ErrFormalMatchAlreadyStarted) \<and>
        dbFindRoom (wiDb wi) w' rid = Inr (Some room') \<and> existingMatch ?svc w' room' = Inr m"
    then obtain room' where here: "dbFindRoom (wiDb wi) w' rid = Inr (Some room')"
      "existingMatch ?svc w' room' = Inr m" and "w' = w"
      using bootstrapCreate_cases [OF roomLaws] by blast
    show ?thesis
      unfolding \<open>w' = w\<close> by (rule existing_started [OF ok here [unfolded \<open>w' = w\<close>]])
  next
    assume new: "?create w rid (seedLegacyMatch seed) (seedState seed) (ceNow env) = (w', Inr ()) \<and>
        m = seedLegacyMatch seed"
    then have boot: "?create w (roomID room) (seedLegacyMatch seed) (seedState seed) (ceNow env) = (w', Inr ())"
      and m: "m = seedLegacyMatch seed" by (simp_all add: rid)
    have "bootstrapped (wiDb wi) (wiMongo wi) (wiCodec wi) w (roomID room) (seedLegacyMatch seed) (seedState seed)
        (ceNow env) w'"
      by (rule bootstrapCreate_cases [OF roomLaws boot]) simp_all
    note effect = bootstrap_effect [OF laws seed this]
    have id: "matchID m = ceFreshID env" "matchRoomID m = rid"
      using seed_playable(2,3) [OF seed] by (simp_all add: m rid)
    have "dbFindMatch (wiDb wi) w' (matchID m) = Inr (Some m)"
      using effect(6) seed_stamped [OF seed] id(1) by (simp add: m)
    moreover obtain r where "dbFindRoom (wiDb wi) w' rid =
        Inr (Some (applyFields [FieldMatchID (Some (ceFreshID env)), FieldUpdatedAt (ceNow env)] r))"
      using effect(7) by (auto simp: roomUpdated_def rid)
    ultimately show ?thesis using id by (simp add: startedWith_def)
  qed
qed

lemma roomStartMatch_started:
  assumes laws: "backendLaws wi" and ok: "backendOk wi w"
    and run: "roomStartMatch (wiredRooms wi clock cid) env w uid rid = (w', Inr m)"
  shows "startedWith wi w' rid m"
  by (rule roomStartMatch_cases [OF laws ok run])
    (auto intro: existing_started [OF ok] startFresh_started [OF laws ok])

lemma started_again:
  assumes "backendOk wi w" and "startedWith wi w rid m"
    and "authorizedRoom (wiredRooms wi clock cid) w uid rid = Inr room"
  shows "roomStartMatch (wiredRooms wi clock cid) env w uid rid = (w, Inr m)"
proof -
  have room: "dbFindRoom (wiDb wi) w rid = Inr (Some room)"
    using authorizedRoom_Inr [OF assms(3)] by (simp add: wiredRooms_def)
  with assms(2) have bound: "roomMatchID room = Some (matchID m)" by (auto simp: startedWith_def)
  have "rsFormalMatches (wiredRooms wi clock cid) \<noteq> None" by (simp add: wiredRooms_def)
  with started_existing [OF assms(1,2) room] show ?thesis
    by (auto simp: roomStartMatch_def assms(3) bound)
qed

text \<open>
  A room bound to a shell without a snapshot, or to a shell of another room: the recovery clears
  \<open>match_id\<close> with a filter that asks for \<open>match_id: null\<close>, so it selects nothing.
\<close>

lemma orphan_conflict:
  assumes laws: "roomLaws (rsDb svc) sn"
    and wired: "rsFormalMatches svc = Some create"
    and auth: "authorizedRoom svc w uid rid = Inr room" "roomID room = rid"
    and orphan: "roomMatchID room \<noteq> None" "existingMatch svc w room = Inl ErrConflict"
    and run: "roomStartMatch svc env w uid rid = (w', x)"
  shows "(x = Inl ErrConflict \<or> x = Inl (DriverError False)) \<and> sameRooms (rsDb svc) w w' \<and>
    sameMatches (rsDb svc) w w' \<and> sameSnapshots sn w w'"
proof -
  obtain w1 y where rec: "roomUpdateFields (rsDb svc) (ceClock env) w rid [FieldMatchID None] True = (w1, y)"
    by fastforce
  note locked = roomUpdateFields_locked [OF laws authorizedRoom_Inr [OF auth(1)] orphan(1) rec]
  then have "w' = w1" "x = Inl ErrConflict \<or> x = Inl (DriverError False)"
    using run orphan by (auto simp: roomStartMatch_def auth wired recoverOrphanedMatch_def rec)
  with locked roomUpdateFields_effect [OF laws rec] show ?thesis by blast
qed

section \<open>Readiness\<close>

text \<open>The one bit an acknowledgement may set: the caller's side of a pending match of the room.\<close>

definition ownReadiness :: "'w Wiring \<Rightarrow> CallEnv \<Rightarrow> 'w \<Rightarrow> int \<Rightarrow> ObjectID \<Rightarrow> 'w \<Rightarrow> bool" where
  "ownReadiness wi env w uid rid w' \<longleftrightarrow>
     (\<exists>room mid red blue side old.
        dbFindRoom (wiDb wi) w rid = Inr (Some room) \<and> roomMatchID room = Some mid \<and>
        (case roomRedTeamID room of None \<Rightarrow> red = None | Some i \<Rightarrow> \<exists>t. red = Some t \<and> dbFindTeam (wiDb wi) w i = Inr red) \<and>
        (case roomBlueTeamID room of None \<Rightarrow> blue = None | Some i \<Rightarrow> \<exists>t. blue = Some t \<and> dbFindTeam (wiDb wi) w i = Inr blue) \<and>
        StrategistSide red blue uid = Some side \<and> matchStatus old = MatchStatusPending \<and>
        matchWritten (wiDb wi) w mid old (setReady side (ceClock env) old) w')"

lemma roomStartEntities_teams:
  assumes "roomStartEntities svc w room = Inr (red, blue, mappool)"
  shows "case roomRedTeamID room of None \<Rightarrow> red = None | Some i \<Rightarrow> \<exists>t. red = Some t \<and> dbFindTeam (rsDb svc) w i = Inr red"
    and "case roomBlueTeamID room of None \<Rightarrow> blue = None | Some i \<Rightarrow> \<exists>t. blue = Some t \<and> dbFindTeam (rsDb svc) w i = Inr blue"
  using assms
  by (auto simp: roomStartEntities_def loadTeamRef_def teamByID_def split: option.splits sum.splits)

lemma ownReadiness_same:
  "sameMatches (wiDb wi) w1 w' \<Longrightarrow> ownReadiness wi env w uid rid w1 \<Longrightarrow> ownReadiness wi env w uid rid w'"
  by (simp add: ownReadiness_def matchWritten_def sameMatches_def)

lemma StartMatchSystem_run:
  assumes "StartMatchSystem enc (Some orch) clock cid w mid v = (w', e)"
  obtains r where "orchestratorExecute enc (Some orch) clock w
    \<lparr>reqMatchID = mid, reqExpectedVersion = v, reqCommandID = cid,
     reqCallerOsuID = 0, reqCommand = StartMatch, reqSystem = True\<rparr> = (w', r)"
  using assms that by (auto simp: StartMatchSystem_def split: prod.splits sum.splits)

lemma MarkStrategistReady_writes:
  assumes laws: "backendLaws wi"
    and run: "MarkStrategistReady (wiredRooms wi clock cid) env w uid rid = (w', x)"
  shows "sameRooms (wiDb wi) w w' \<and> (sameMatches (wiDb wi) w w' \<or> ownReadiness wi env w uid rid w')"
proof (rule MarkStrategistReady_cases [OF run])
  let ?svc = "wiredRooms wi clock cid"
  have db: "rsDb ?svc = wiDb wi" by (simp add: wiredRooms_def)
  have roomLaws: "roomLaws (wiDb wi) (wiMongo wi)" using laws by (simp add: backendLaws_def)
  fix room mid red blue mappool side current w1 y
  assume found: "roomByID (rsDb ?svc) w rid = Inr room" "roomMatchID room = Some mid"
      "roomStartEntities ?svc w room = Inr (red, blue, mappool)" "StrategistSide red blue uid = Some side"
    and upd: "matchUpdateReadiness (rsDb ?svc) (ceClock env) w mid side (Some MatchStatusPending) = (w1, y)"
    and last: "w' = w1 \<or> (\<exists>m start. y = Inr m \<and> redReady (matchReadiness m) \<and> blueReady (matchReadiness m) \<and>
         roomType room \<noteq> RoomTypeMatch \<and> rsStartMatchSystem ?svc = Some start \<and>
         w' = fst (start w1 (matchID m) 0 (ceNow env)))"
  have "sameRooms (wiDb wi) w1 w' \<and> sameMatches (wiDb wi) w1 w'"
    using last
  proof
    assume "\<exists>m start. y = Inr m \<and> redReady (matchReadiness m) \<and> blueReady (matchReadiness m) \<and>
         roomType room \<noteq> RoomTypeMatch \<and> rsStartMatchSystem ?svc = Some start \<and>
         w' = fst (start w1 (matchID m) 0 (ceNow env))"
    then obtain m :: Match and start where "rsStartMatchSystem ?svc = Some start"
      "w' = fst (start w1 (matchID m) 0 (ceNow env))" by blast
    then obtain e where "StartMatchSystem (wiEncoders wi) (Some (wiredOrchestrator wi)) clock cid w1 (matchID m) 0 = (w', e)"
      by (simp add: wired_start) (metis prod.collapse)
    from StartMatchSystem_run [OF this] command_change [OF laws] show ?thesis
      by (metis commandChange_def)
  qed simp
  moreover from matchUpdateReadiness_effect [OF roomLaws upd [unfolded db]]
  have "sameRooms (wiDb wi) w w1 \<and> (sameMatches (wiDb wi) w w1 \<or> ownReadiness wi env w uid rid w1)"
    using found roomStartEntities_teams [OF found(3), unfolded db]
    by (auto simp: ownReadiness_def db roomByID_def)
  ultimately show ?thesis
    using same_trans ownReadiness_same [of wi w1 w' env w uid rid] by metis
qed simp

section \<open>Formal matches\<close>

lemma ready_dispatch:
  assumes "dispatch s actor command now = Inr (t, evs)" and "Lifecycle s = LifecycleReady"
    and "command \<noteq> StartMatch"
  shows "Lifecycle t = LifecycleAborted"
  using assms
  by (cases command)
     (auto simp: dispatch_def banPoolSlot_def placePiece_def
        placeShiro_def robPiece_def grantAdditionalTime_def calibrateTimer_def pauseTimer_def
        resumeTimer_def suspendMatch_def resumeMatch_def skipCurrentAction_def abortMatch_def
        requestTB_def respondTBRequest_def startTB_def confirmTBResult_def recordSurrender_def
        confirmBeatmapResult_def refereeBanPoolSlot_def refereePlacePiece_def
        refereePlaceShiro_def refereeRobPiece_def refereeRequestTB_def
        refereeRespondTBRequest_def appendRefereeProxyEvent_def requireRunningPhase_def Let_def
        split: sum.splits if_splits prod.splits)

text \<open>A match that waits for its start, or was aborted before it.\<close>

definition waitsForStart :: "State \<Rightarrow> bool" where
  "waitsForStart s \<longleftrightarrow> Lifecycle s = LifecycleReady \<or> Lifecycle s = LifecycleAborted"

lemma waitsForStart_step:
  assumes "waitsForStart s" and "validState s" and "persists s actor command now t" "command \<noteq> StartMatch"
  shows "waitsForStart t"
proof -
  from assms(3) obtain tr where run: "Execute s actor command now = Inr tr" "t = trState tr"
    by (auto simp: persists_Some)
  have "coreOk s" using assms(2) by (simp add: validState_def)
  show ?thesis
  proof (cases "Lifecycle s = LifecycleReady")
    case True
    from run(1) obtain s' evs where "dispatch s actor command now = Inr (s', evs)"
      "tr = \<lparr>trState = s'\<lparr>Version := Version s' + 1\<rparr>, trEvents = evs\<rparr>"
      by (auto simp: Execute_Inr [OF \<open>coreOk s\<close>])
    with ready_dispatch [OF this(1) True assms(4)] run(2) show ?thesis by (simp add: waitsForStart_def)
  next
    case False
    then have "terminal s" using assms(1) by (simp add: waitsForStart_def terminal_def)
    then show ?thesis using terminal_Execute [of s actor command now] run(1) by simp
  qed
qed

definition formalAt :: "'w Wiring \<Rightarrow> 'w \<Rightarrow> ObjectID \<Rightarrow> bool" where
  "formalAt wi w i \<longleftrightarrow> (\<exists>m. dbFindMatch (wiDb wi) w i = Inr (Some m) \<and> matchRoomType m = RoomTypeMatch)"

definition unstarted :: "'w Wiring \<Rightarrow> 'w \<Rightarrow> bool" where
  "unstarted wi w \<longleftrightarrow>
     (\<forall>i s. formalAt wi w i \<longrightarrow> snapshotLoad (wiMongo wi) (wiCodec wi) w i = Inr s \<longrightarrow> waitsForStart s)"

lemma unstarted_same:
  assumes "unstarted wi w" and "sameSnapshots (wiMongo wi) w w'"
    and "\<And>i. formalAt wi w' i \<Longrightarrow> formalAt wi w i"
  shows "unstarted wi w'"
  using assms sameSnapshots_played(2) [OF assms(2)] by (auto simp: unstarted_def)

lemma formalAt_written:
  assumes "sameMatches (wiDb wi) w w' \<or>
      (\<exists>i old m. matchWritten (wiDb wi) w i old m w' \<and> matchRoomType m = matchRoomType old)"
    and "formalAt wi w' j"
  shows "formalAt wi w j"
  using assms by (auto simp: formalAt_def sameMatches_def matchWritten_def split: if_splits)

lemma unstarted_sameMatches:
  assumes "unstarted wi w" and "sameMatches (wiDb wi) w w'" "sameSnapshots (wiMongo wi) w w'"
  shows "unstarted wi w'"
  using unstarted_same [OF assms(1,3)] assms(2) by (simp add: formalAt_def sameMatches_def)

lemma unstarted_command:
  assumes laws: "backendLaws wi" and ok: "backendOk wi w" and un: "unstarted wi w"
    and run: "orchestratorExecute (wiEncoders wi) (Some (wiredOrchestrator wi)) now w request = (w', r)"
    and user: "reqSystem request \<Longrightarrow> \<not> formalAt wi w (reqMatchID request)"
  shows "unstarted wi w'"
proof -
  let ?load = "snapshotLoad (wiMongo wi) (wiCodec wi)"
  have laws': "storeLaws (wiMongo wi)" "codecLaws (wiCodec wi)" using laws by (simp_all add: backendLaws_def)
  have formal: "formalAt wi w' i \<longleftrightarrow> formalAt wi w i" for i
    using command_change [OF laws run] by (simp add: commandChange_def sameMatches_def formalAt_def)
  show ?thesis
  proof (cases rule: request_effect [OF laws' wiredOrchestrator_wired run, case_names same moved])
    case (moved a current t)
    note granted = moved(1) and load = moved(2) and step = moved(4) and load' = moved(6) and other = moved(7)
    have "waitsForStart s" if i: "formalAt wi w' i" and s: "?load w' i = Inr s" for i s
    proof (cases "i = reqMatchID request")
      case False
      then have "?load w i = Inr s" using snapshotLoad_cong [OF other [symmetric] s] by simp
      then show ?thesis using un i formal by (simp add: unstarted_def)
    next
      case True
      obtain m where m: "dbFindMatch (wiDb wi) w i = Inr (Some m)" "matchRoomType m = RoomTypeMatch"
        using i formal by (auto simp: formalAt_def)
      have "\<not> reqSystem request" using user i formal True by auto
      then obtain shell where "lookupOf (matchByID (wiDb wi) w i) = Inr shell"
        "reqCommand request = StartMatch \<longrightarrow> matchStatus shell = MatchStatusReady"
        using granted by (auto simp: granted_def authorizedUser_def wiredOrchestrator_def True)
      moreover have "matchStatus m = MatchStatusPending" using ok m by (simp add: backendOk_def)
      ultimately have "reqCommand request \<noteq> StartMatch"
        using m by (auto simp: lookupOf_def matchByID_def found_def)
      moreover have "waitsForStart current" using un i formal load by (auto simp: unstarted_def True)
      ultimately have "waitsForStart t"
        using waitsForStart_step [OF _ snapshotLoad_valid [OF load] step] by simp
      then show ?thesis using s load' True by simp
    qed
    then show ?thesis by (simp add: unstarted_def)
  qed (use un in simp)
qed

lemma unstarted_bootstrap:
  assumes laws: "backendLaws wi" and un: "unstarted wi w"
    and seed: "BuildFormalMatchSeed mid clock room red blue mappool now = Inr seed"
    and run: "bootstrapCreate (wiDb wi) (wiMongo wi) (wiCodec wi) w (roomID room)
        (seedLegacyMatch seed) (seedState seed) now' = (w', x)"
  shows "unstarted wi w'"
proof -
  have "roomLaws (wiDb wi) (wiMongo wi)" using laws by (simp add: backendLaws_def)
  from bootstrapCreate_cases [OF this run] consider "w' = w"
    | "bootstrapped (wiDb wi) (wiMongo wi) (wiCodec wi) w (roomID room)
        (seedLegacyMatch seed) (seedState seed) now' w'" by blast
  then show ?thesis
  proof cases
  case 2
  note effect = bootstrap_effect [OF laws seed 2]
  show ?thesis
    unfolding unstarted_def
  proof (intro allI impI)
    fix i s assume i: "formalAt wi w' i" "snapshotLoad (wiMongo wi) (wiCodec wi) w' i = Inr s"
    show "waitsForStart s"
    proof (cases "i = mid")
      case True
      then show ?thesis using i(2) effect(1) seed_playable(6) [OF seed] by (simp add: waitsForStart_def)
    next
      case False
      with i effect(2,6) have "formalAt wi w i" "snapshotLoad (wiMongo wi) (wiCodec wi) w i = Inr s"
        by (simp_all add: formalAt_def)
      then show ?thesis using un by (simp add: unstarted_def)
    qed
  qed
  qed (use un in simp)
qed

lemma unstarted_start:
  assumes laws: "backendLaws wi" and ok: "backendOk wi w" and un: "unstarted wi w"
  shows "unstarted wi (fst (roomStartMatch (wiredRooms wi clock cid) env w uid rid))"
proof -
  obtain w' y where run: "roomStartMatch (wiredRooms wi clock cid) env w uid rid = (w', y)" by fastforce
  have "unstarted wi w'"
  proof (rule roomStartMatch_cases [OF laws ok run])
    assume "sameMatches (wiDb wi) w w'" "sameSnapshots (wiMongo wi) w w'"
    then show ?thesis by (rule unstarted_sameMatches [OF un])
  next
    fix room
    assume "startFresh (wiredRooms wi clock cid) env w room
        (bootstrapCreate (wiDb wi) (wiMongo wi) (wiCodec wi)) = (w', y)"
    from startFresh_bootstraps [OF this] unstarted_bootstrap [OF laws un] un show ?thesis by auto
  qed (use un in simp)
  with run show ?thesis by simp
qed

lemma unstarted_ready:
  assumes laws: "backendLaws wi" and ok: "backendOk wi w" and un: "unstarted wi w"
  shows "unstarted wi (fst (MarkStrategistReady (wiredRooms wi clock cid) env w uid rid))"
proof -
  let ?svc = "wiredRooms wi clock cid"
  have db: "rsDb ?svc = wiDb wi" by (simp add: wiredRooms_def)
  have roomLaws: "roomLaws (wiDb wi) (wiMongo wi)" using laws by (simp add: backendLaws_def)
  obtain w' x where run: "MarkStrategistReady ?svc env w uid rid = (w', x)" by fastforce
  have "unstarted wi w'"
  proof (rule MarkStrategistReady_cases [OF run])
    fix room mid side w1 y
    assume found: "roomByID (rsDb ?svc) w rid = Inr room" "roomMatchID room = Some mid"
      and upd: "matchUpdateReadiness (rsDb ?svc) (ceClock env) w mid side (Some MatchStatusPending) = (w1, y)"
      and last: "w' = w1 \<or> (\<exists>m start. y = Inr m \<and> redReady (matchReadiness m) \<and> blueReady (matchReadiness m) \<and>
         roomType room \<noteq> RoomTypeMatch \<and> rsStartMatchSystem ?svc = Some start \<and>
         w' = fst (start w1 (matchID m) 0 (ceNow env)))"
    note effect = matchUpdateReadiness_effect [OF roomLaws upd [unfolded db]]
    have un1: "unstarted wi w1"
    proof (rule unstarted_same [OF un])
      show "sameSnapshots (wiMongo wi) w w1" using effect by blast
      have "matchRoomType (setReady side (ceClock env) m) = matchRoomType m" for m :: Match
        by (simp add: setReady_def)
      then have "sameMatches (wiDb wi) w w1 \<or>
          (\<exists>i old m. matchWritten (wiDb wi) w i old m w1 \<and> matchRoomType m = matchRoomType old)"
        using effect by metis
      then show "formalAt wi w1 i \<Longrightarrow> formalAt wi w i" for i by (rule formalAt_written)
    qed
    have "backendKept wi w w1"
      using effect setReady_kept by (intro written_kept) blast+
    then have ok1: "backendOk wi w1" using ok by (simp add: backendKept_def)
    from last show ?thesis
    proof
      assume "\<exists>m start. y = Inr m \<and> redReady (matchReadiness m) \<and> blueReady (matchReadiness m) \<and>
         roomType room \<noteq> RoomTypeMatch \<and> rsStartMatchSystem ?svc = Some start \<and>
         w' = fst (start w1 (matchID m) 0 (ceNow env))"
      then obtain m :: Match and start where m: "y = Inr m" "roomType room \<noteq> RoomTypeMatch"
        and start: "rsStartMatchSystem ?svc = Some start" "w' = fst (start w1 (matchID m) 0 (ceNow env))"
        by blast
      from start obtain e where sys: "StartMatchSystem (wiEncoders wi) (Some (wiredOrchestrator wi)) clock cid w1 (matchID m) 0 = (w', e)"
        by (simp add: wired_start) (metis prod.collapse)
      from matchUpdateReadiness_Inr [OF roomLaws upd [unfolded db m(1)]] obtain old where
        written: "matchWritten (wiDb wi) w mid old m w1" "m = setReady side (ceClock env) old" by blast
      have "matchID m = mid"
        using written backendOk_keyed(2) [OF ok, of mid old] by (auto simp: matchWritten_def setReady_def)
      moreover have "matchRoomType m \<noteq> RoomTypeMatch"
      proof -
        from found have "dbFindRoom (wiDb wi) w rid = Inr (Some room)" by (simp add: roomByID_def db)
        from backendOk_linked [OF ok this found(2)] obtain k where
          "dbFindMatch (wiDb wi) w mid = Inr (Some k)" "matchRoomType k = roomType room" by blast
        with written m(2) show ?thesis by (simp add: matchWritten_def setReady_def)
      qed
      ultimately have "\<not> formalAt wi w1 (matchID m)"
        using written(1) by (simp add: formalAt_def matchWritten_def)
      with StartMatchSystem_run [OF sys] unstarted_command [OF laws ok1 un1] show ?thesis
        by (metis Request.select_convs(1))
    qed (use un1 in simp)
  qed (use un in simp)
  with run show ?thesis by simp
qed

lemma unstarted_room:
  assumes laws: "backendLaws wi" and ok: "backendOk wi w" and un: "unstarted wi w"
  shows "unstarted wi (roomCall (wiredRooms wi clock cid) env w call)"
proof (cases "isConfiguration call")
  case True
  have "rsDb (wiredRooms wi clock cid) = wiDb wi" by (simp add: wiredRooms_def)
  with configuration_change [OF _ True, of "wiredRooms wi clock cid" "wiMongo wi" w env] laws
  have "configChange (wiDb wi) (wiMongo wi) w (roomCall (wiredRooms wi clock cid) env w call)"
    by (simp add: backendLaws_def)
  then have "sameMatches (wiDb wi) w (roomCall (wiredRooms wi clock cid) env w call)"
    "sameSnapshots (wiMongo wi) w (roomCall (wiredRooms wi clock cid) env w call)"
    by (simp_all add: configChange_def)
  then show ?thesis by (rule unstarted_sameMatches [OF un])
next
  case False
  then show ?thesis
    by (cases call) (simp_all add: unstarted_start [OF assms] unstarted_ready [OF assms])
qed

lemma unstarted_legacy:
  assumes "legacyChange (wiDb wi) (wiMongo wi) w w'" and un: "unstarted wi w"
  shows "unstarted wi w'"
  by (rule unstarted_same [OF un], use assms(1) in \<open>simp add: legacyChange_def\<close>,
      rule formalAt_written [of wi w w'])
    (use assms(1) in \<open>auto simp: legacyChange_def\<close>)

lemma unstarted_step:
  assumes inv: "backendLaws wi \<and> backendOk wi w \<and> unstarted wi w" and step: "backendStep wi w w'"
  shows "unstarted wi w'"
  using step
proof (cases rule: backendStep.cases)
  case room
  then show ?thesis using unstarted_room inv by metis
next
  case legacy
  then show ?thesis using unstarted_legacy matchCall_change inv by metis
next
  case command
  then show ?thesis using unstarted_command inv by metis
qed

interpretation formal: step_system "backendStep wi"
  "\<lambda>w. backendLaws wi \<and> backendOk wi w \<and> unstarted wi w" "backendGrows wi"
  for wi
proof (unfold_locales)
  fix w w' assume inv: "backendLaws wi \<and> backendOk wi w \<and> unstarted wi w" and step: "backendStep wi w w'"
  have "backendKept wi w w'" using backendStep_kept [of wi w w'] inv step by simp
  with inv unstarted_step [OF inv step]
  show "backendLaws wi \<and> backendOk wi w' \<and> unstarted wi w'" "backendGrows wi w w'"
    by (simp_all add: backendKept_def)
qed (rule backendGrows_refl, rule backendGrows_trans)

end
