(* ===== verification/RoomClaims.thy ===== *)
theory RoomClaims
  imports BackendFacts SampleBackend
begin

text \<open>
  The properties of the room service and of the backend as a whole. Those about histories rest on the
  interpretations \<open>backend\<close> and \<open>formal\<close>.
\<close>

section \<open>Histories\<close>

text \<open>
  C3: Whatever calls and requests the backend has served, a room that has its match is linked to a shell
  that names the room and its type and to a snapshot that can be read, and every snapshot is a state
  that a match of two playable teams reaches by stored commands.
\<close>

theorem backend_consistent:
  assumes "backendLaws wi" and "backendOk wi w" and "(backendStep wi)\<^sup>*\<^sup>* w w'"
  shows "(\<forall>i r mid. dbFindRoom (wiDb wi) w' i = Inr (Some r) \<and> roomMatchID r = Some mid \<longrightarrow>
      (\<exists>m s. dbFindMatch (wiDb wi) w' mid = Inr (Some m) \<and> matchID m = mid \<and> matchRoomID m = i \<and>
         matchRoomType m = roomType r \<and> snapshotLoad (wiMongo wi) (wiCodec wi) w' mid = Inr s)) \<and>
    (\<forall>mid s. snapshotLoad (wiMongo wi) (wiCodec wi) w' mid = Inr s \<longrightarrow>
      (\<exists>mappool red blue pick ban. rostersPlayable red blue \<and>
         reachable (configurationOf mappool red blue pick ban) s))"
proof -
  have ok: "backendOk wi w'" using backend.runs_inv [OF assms(3)] assms(1,2) by simp
  then have "playable s" if "snapshotLoad (wiMongo wi) (wiCodec wi) w' mid = Inr s" for mid s
    using that by (simp add: backendOk_def)
  then show ?thesis
    using backendOk_linked [OF ok] backendOk_keyed(2) [OF ok] unfolding playable_def by blast
qed

lemma sampleWiring_db [simp]:
  "wiDb (sampleWiring codec) = sampleDb" "wiMongo (sampleWiring codec) = sampleMongo"
  "wiCodec (sampleWiring codec) = codec"
  by (simp_all add: sampleWiring_def)

lemma boot_laws: "backendLaws bootWiring"
  by (rule sampleWiring_laws [OF bootCodec_laws])

lemma formalRoom_ok: "backendOk bootWiring (roomWorld formalRoom)"
  by (rule roomWorld_ok) (simp_all add: formalRoom_def sampleRoom_def)

lemma room_step: "(backendStep wi)\<^sup>*\<^sup>* w (roomCall (wiredRooms wi clock cid) env w call)"
  by (rule r_into_rtranclp, rule backendStep.room [OF refl])

lemma formalStart_step: "(backendStep bootWiring)\<^sup>*\<^sup>* (roomWorld formalRoom) (fst formalStart)"
  using room_step [of bootWiring "roomWorld formalRoom" "1 * second" "''c1''" sampleEnv "CallStartMatch 100 1"]
  by (simp add: formalStart_def)

lemma formalStart_ok:
  "backendOk bootWiring (fst formalStart)" "backendGrows bootWiring (roomWorld formalRoom) (fst formalStart)"
  using backend.runs_keep [OF formalStart_step] boot_laws formalRoom_ok by simp_all

text \<open>The room, the match and the snapshot after the start.\<close>

lemma formalStart_facts:
  obtains r m s where "dbFindRoom sampleDb (fst formalStart) 1 = Inr (Some r)" "roomMatchID r = Some 41"
    "roomType r = RoomTypeMatch" "dbFindMatch sampleDb (fst formalStart) 41 = Inr (Some m)"
    "matchRoomType m = RoomTypeMatch" "snd formalStart = Inr m"
    "snapshotLoad sampleMongo bootCodec (fst formalStart) 41 = Inr s"
proof -
  obtain w' x where start: "formalStart = (w', x)" by fastforce
  from formalStart_outcome [unfolded start] obtain m r where m: "x = Inr m" "mapGet (rwMatches w') 41 = Some m"
    and r: "mapGet (rwRooms w') 1 = Some r" "roomMatchID r = Some 41"
    by (cases x; cases "mapGet (rwRooms w') 1") auto
  have "dbFindRoom sampleDb (roomWorld formalRoom) 1 = Inr (Some formalRoom)"
    by (simp add: roomWorld_def)
  with formalStart_ok(2) have "roomType r = roomType formalRoom"
    using r(1) unfolding backendGrows_def sampleWiring_db start fst_conv roomKept_def
    by (metis sampleDb_simps(1) sum.inject(2) option.inject)
  then have type: "roomType r = RoomTypeMatch" by (simp add: formalRoom_def sampleRoom_def)
  moreover obtain s where "matchRoomType m = RoomTypeMatch" "snapshotLoad sampleMongo bootCodec w' 41 = Inr s"
    using backendOk_linked [OF formalStart_ok(1), of 1 r 41] r m type by (auto simp: start)
  ultimately show thesis using that [of r m s] r m by (simp add: start)
qed

theorem backend_consistent_witness:
  "\<exists>m s. dbFindMatch sampleDb (fst formalStart) 41 = Inr (Some m) \<and> matchRoomID m = 1 \<and>
     snapshotLoad sampleMongo bootCodec (fst formalStart) 41 = Inr s \<and>
     (\<exists>mappool red blue pick ban. rostersPlayable red blue \<and>
        reachable (configurationOf mappool red blue pick ban) s)"
proof (rule formalStart_facts)
  fix r assume "dbFindRoom sampleDb (fst formalStart) 1 = Inr (Some r)" "roomMatchID r = Some 41"
  then show ?thesis
    using backend_consistent [OF boot_laws formalRoom_ok formalStart_step] unfolding sampleWiring_db
    by blast
qed

text \<open>
  C5: Once a room has its match its setup is frozen. In a consistent database, whatever the backend serves,
  a room with a match, of any type, keeps every field but the multiplayer link and the time stamp. If it
  is a formal room its match has a shell, which keeps every field but the readiness of the strategists and
  the time stamp, and a strategist who is ready stays ready. (The shell of a casual or private room is
  written by the legacy match service.)
\<close>

theorem setup_frozen:
  assumes "backendLaws wi" and "backendOk wi w" and "(backendStep wi)\<^sup>*\<^sup>* w w'"
    and "dbFindRoom (wiDb wi) w i = Inr (Some r)" and "roomMatchID r = Some mid"
  shows "(\<exists>r'. dbFindRoom (wiDb wi) w' i = Inr (Some r') \<and>
      r'\<lparr>roomMPLink := roomMPLink r, roomUpdatedAt := roomUpdatedAt r\<rparr> = r) \<and>
    (roomType r = RoomTypeMatch \<longrightarrow>
      (\<exists>m m'. dbFindMatch (wiDb wi) w mid = Inr (Some m) \<and> dbFindMatch (wiDb wi) w' mid = Inr (Some m') \<and>
        m'\<lparr>matchReadiness := matchReadiness m, matchUpdatedAt := matchUpdatedAt m\<rparr> = m \<and>
        (redReady (matchReadiness m) \<longrightarrow> redReady (matchReadiness m')) \<and>
        (blueReady (matchReadiness m) \<longrightarrow> blueReady (matchReadiness m'))))"
proof (intro conjI impI)
  have grows: "backendGrows wi w w'" using backend.runs_grow [OF assms(3)] assms(1,2) by simp
  then obtain r' where r': "dbFindRoom (wiDb wi) w' i = Inr (Some r')" "roomKept r r'"
    using assms(4) unfolding backendGrows_def by blast
  have "roomSetup r' = roomSetup r" using r'(2) assms(5) by (simp add: roomKept_def)
  then have "r'\<lparr>roomMPLink := roomMPLink r, roomUpdatedAt := roomUpdatedAt r\<rparr> = r"
    by (cases r; cases r') (simp add: roomSetup_def)
  with r'(1) show "\<exists>r'. dbFindRoom (wiDb wi) w' i = Inr (Some r') \<and>
      r'\<lparr>roomMPLink := roomMPLink r, roomUpdatedAt := roomUpdatedAt r\<rparr> = r" by blast
  assume formal: "roomType r = RoomTypeMatch"
  obtain m where m: "dbFindMatch (wiDb wi) w mid = Inr (Some m)" "matchRoomType m = RoomTypeMatch"
    using backendOk_linked [OF assms(2,4,5)] formal by auto
  then obtain m' where m': "dbFindMatch (wiDb wi) w' mid = Inr (Some m')" "shellKept m m'"
    using grows unfolding backendGrows_def by blast
  have "shellCore m' = shellCore m" using m'(2) m(2) by (simp add: shellKept_def)
  then have "m'\<lparr>matchReadiness := matchReadiness m, matchUpdatedAt := matchUpdatedAt m\<rparr> = m"
    by (cases m; cases m') (simp add: shellCore_def)
  with m m' show "\<exists>m m'. dbFindMatch (wiDb wi) w mid = Inr (Some m) \<and> dbFindMatch (wiDb wi) w' mid = Inr (Some m') \<and>
      m'\<lparr>matchReadiness := matchReadiness m, matchUpdatedAt := matchUpdatedAt m\<rparr> = m \<and>
      (redReady (matchReadiness m) \<longrightarrow> redReady (matchReadiness m')) \<and>
      (blueReady (matchReadiness m) \<longrightarrow> blueReady (matchReadiness m'))"
    by (auto simp: shellKept_def)
qed

text \<open>A strategist acknowledges after the start.\<close>

theorem setup_frozen_witness:
  "\<exists>r' m'. dbFindRoom sampleDb (roomCall (wiredRooms bootWiring 0 '''') sampleEnv (fst formalStart)
       (CallMarkReady 11 1)) 1 = Inr (Some r') \<and> roomMatchID r' = Some 41 \<and>
     dbFindMatch sampleDb (roomCall (wiredRooms bootWiring 0 '''') sampleEnv (fst formalStart)
       (CallMarkReady 11 1)) 41 = Inr (Some m') \<and> matchRoomType m' = RoomTypeMatch"
proof (rule formalStart_facts)
  let ?w' = "roomCall (wiredRooms bootWiring 0 '''') sampleEnv (fst formalStart) (CallMarkReady 11 1)"
  fix r m
  assume found: "dbFindRoom sampleDb (fst formalStart) 1 = Inr (Some r)" "roomMatchID r = Some 41"
    "roomType r = RoomTypeMatch" "dbFindMatch sampleDb (fst formalStart) 41 = Inr (Some m)" "matchRoomType m = RoomTypeMatch"
  from setup_frozen [OF boot_laws formalStart_ok(1) room_step, of 1 r 41 0 "''''" sampleEnv "CallMarkReady 11 1"]
  obtain r' m' where "dbFindRoom sampleDb ?w' 1 = Inr (Some r')" "dbFindMatch sampleDb ?w' 41 = Inr (Some m')"
    and same: "r'\<lparr>roomMPLink := roomMPLink r, roomUpdatedAt := roomUpdatedAt r\<rparr> = r"
      "m'\<lparr>matchReadiness := matchReadiness m, matchUpdatedAt := matchUpdatedAt m\<rparr> = m"
    using found unfolding sampleWiring_db by auto
  moreover have "roomMatchID r' = roomMatchID r" by (subst same(1) [symmetric]) simp
  moreover have "matchRoomType m' = matchRoomType m" by (subst same(2) [symmetric]) simp
  ultimately show ?thesis using found by auto
qed

text \<open>
  C4: No formal match is ever played. The shell of a formal match stays \<open>PENDING\<close>, since nothing writes
  \<open>READY\<close>; the authorization of \<open>START_MATCH\<close> asks for \<open>READY\<close>; and the system starts only the matches of
  other rooms. So from a database whose formal matches wait for their start, whatever the backend
  serves leads to one in which each of them still waits for it or was aborted.
\<close>

theorem formal_match_waits:
  assumes "backendLaws wi" and "backendOk wi w" and "unstarted wi w" and "(backendStep wi)\<^sup>*\<^sup>* w w'"
    and "dbFindMatch (wiDb wi) w' mid = Inr (Some m)" and "matchRoomType m = RoomTypeMatch"
    and "snapshotLoad (wiMongo wi) (wiCodec wi) w' mid = Inr s"
  shows "matchStatus m = MatchStatusPending \<and> (Lifecycle s = LifecycleReady \<or> Lifecycle s = LifecycleAborted)"
proof -
  have "backendOk wi w' \<and> unstarted wi w'" using formal.runs_inv [OF assms(4)] assms(1-3) by simp
  then show ?thesis
    using assms(5-7) by (auto simp: backendOk_def unstarted_def formalAt_def waitsForStart_def)
qed

theorem formal_match_waits_witness:
  "\<exists>s. snapshotLoad sampleMongo bootCodec (fst formalStart) 41 = Inr s \<and>
     (Lifecycle s = LifecycleReady \<or> Lifecycle s = LifecycleAborted)"
proof (rule formalStart_facts)
  fix m s
  assume found: "dbFindMatch sampleDb (fst formalStart) 41 = Inr (Some m)" "matchRoomType m = RoomTypeMatch"
    "snapshotLoad sampleMongo bootCodec (fst formalStart) 41 = Inr s"
  have "unstarted bootWiring (roomWorld formalRoom)"
    by (simp add: unstarted_def formalAt_def roomWorld_def)
  from formal_match_waits [OF boot_laws formalRoom_ok this formalStart_step, of 41 m s] found
  show ?thesis by simp
qed

section \<open>Configuring a room\<close>

text \<open>
  C13: A call that configures rooms changes at most the room it names, and only for a verified caller who
  is not banned: the multiplayer link for an administrator, the owner of a casual room or the assigned
  referee of a formal one; anything else, before the room has its match, for an administrator or the
  owner of a casual room.
\<close>

theorem configuration_authorized:
  assumes "backendLaws wi" and "backendOk wi w" and "isConfiguration call"
    and "dbFindRoom (wiDb wi) w i = Inr (Some r)"
    and "dbFindRoom (wiDb wi) (roomCall (wiredRooms wi clock cid) env w call) i \<noteq> Inr (Some r)"
  shows "callTarget call = Some i \<and>
    (\<exists>u. dbFindUser (wiDb wi) w (callerOf call) = Inr (Some u) \<and> \<not> userIsBanned u \<and>
       userVerifyStatus u = Verified \<and>
       (isLinkCall call \<or> roomMatchID r = None) \<and>
       (HasRole u RoleAdmin \<or>
        roomType r \<noteq> RoomTypeMatch \<and> roomOwnerID r = userOnlineID u \<or>
        isLinkCall call \<and> roomType r = RoomTypeMatch \<and> HasRole u RoleReferee \<and>
          roomRefereeUserID r = Some (userOnlineID u)))"
proof -
  let ?svc = "wiredRooms wi clock cid"
  have db: "rsDb ?svc = wiDb wi" by (simp add: wiredRooms_def)
  have laws: "roomLaws (rsDb ?svc) (wiMongo wi)" using assms(1) by (simp add: backendLaws_def db)
  show ?thesis
  proof (cases "callTarget call")
    case None
    then obtain uid t name where "call = CallCreate uid t name" by (cases call) auto
    then have "dbFindRoom (wiDb wi) (roomCall ?svc env w call) i = Inr (Some r)"
      using CreateRoom_keeps [OF laws, of w i r env uid t name] assms(4) by (simp add: db)
    with assms(5) show ?thesis by simp
  next
    case (Some rid)
    from configured_room [OF laws _ assms(3) Some, of w i r env] backendOk_keyed(1) [OF assms(2)] assms(4,5)
    show ?thesis
      by (auto simp: db mayRun_def mayConfigure_def eligible_def Some split: if_splits)
  qed
qed

theorem configuration_authorized_witness:
  "dbFindRoom sampleDb (roomCall (wiredRooms bootWiring 0 '''') sampleEnv (roomWorld formalRoom)
     (CallSetStreamer 7 1 (Some 5))) 1 \<noteq> Inr (Some formalRoom) \<and>
   (\<exists>u. dbFindUser sampleDb (roomWorld formalRoom) 7 = Inr (Some u) \<and>
      (HasRole u RoleAdmin \<or> roomType formalRoom \<noteq> RoomTypeMatch))"
proof -
  let ?call = "CallSetStreamer 7 1 (Some 5)"
  have changed: "dbFindRoom sampleDb (roomCall (wiredRooms bootWiring 0 '''') sampleEnv
      (roomWorld formalRoom) ?call) 1 \<noteq> Inr (Some formalRoom)"
    by code_simp
  have "dbFindRoom sampleDb (roomWorld formalRoom) 1 = Inr (Some formalRoom)" by (simp add: roomWorld_def)
  with configuration_authorized [OF boot_laws formalRoom_ok, of ?call 1 formalRoom 0 "''''" sampleEnv] changed
  show ?thesis by auto
qed

section \<open>Starting a match\<close>

text \<open>
  A start that returns a match leaves the room bound to that match and the match stored as it was
  returned, and from then on a start by anyone who may start the room returns the same match and
  writes nothing.
\<close>

theorem start_match_links:
  assumes "backendLaws wi" and "backendOk wi w"
    and "roomStartMatch (wiredRooms wi clock cid) env w uid rid = (w', Inr m)"
  shows "(\<exists>r. dbFindRoom (wiDb wi) w' rid = Inr (Some r) \<and> roomMatchID r = Some (matchID m)) \<and>
    dbFindMatch (wiDb wi) w' (matchID m) = Inr (Some m) \<and> matchRoomID m = rid \<and>
    (\<forall>clock2 cid2 env2 caller room.
       authorizedRoom (wiredRooms wi clock2 cid2) w' caller rid = Inr room \<longrightarrow>
       roomStartMatch (wiredRooms wi clock2 cid2) env2 w' caller rid = (w', Inr m))"
proof -
  have "backendKept wi w w'" using roomStartMatch_kept [OF assms(1), of w clock cid env uid rid] assms(3) by simp
  then have ok: "backendOk wi w'" using assms(2) by (simp add: backendKept_def)
  note started = roomStartMatch_started [OF assms]
  have "roomStartMatch (wiredRooms wi clock2 cid2) env2 w' caller rid = (w', Inr m)"
    if "authorizedRoom (wiredRooms wi clock2 cid2) w' caller rid = Inr room" for clock2 cid2 env2 caller room
    using started_again [OF ok started that] .
  with started show ?thesis by (auto simp: startedWith_def)
qed

text \<open>The referee starts the match, the administrator starts it again.\<close>

theorem start_match_links_witness:
  "\<exists>m. snd formalStart = Inr m \<and>
     roomStartMatch (wiredRooms bootWiring 0 '''') sampleEnv (fst formalStart) 7 1 = (fst formalStart, Inr m)"
proof (rule formalStart_facts)
  fix r m
  assume found: "dbFindRoom sampleDb (fst formalStart) 1 = Inr (Some r)" "snd formalStart = Inr m"
  have run: "roomStartMatch (wiredRooms bootWiring (1 * second) ''c1'') sampleEnv (roomWorld formalRoom) 100 1
      = (fst formalStart, Inr m)"
    unfolding found(2) [symmetric] by (simp add: formalStart_def)
  have "dbFindUser sampleDb (fst formalStart) 7 = Inr (Some sampleAdmin)" by (simp add: sampleDb_def)
  moreover have "HasRole sampleAdmin RoleAdmin" "\<not> userIsBanned sampleAdmin" "userVerifyStatus sampleAdmin = Verified"
    by (simp_all add: sampleAdmin_def sampleUser_def HasRole_def)
  ultimately have "authorizedRoom (wiredRooms bootWiring 0 '''') (fst formalStart) 7 1 = Inr r"
    using found(1) by (simp add: authorizedRoom_def currentEligibleUser_def userByOsuID_def roomByID_def
        found_def wiredRooms_def)
  with start_match_links [OF boot_laws formalRoom_ok run] found show ?thesis by simp
qed

text \<open>
  A room bound to a match without a snapshot cannot be started again. The code detects the orphan and
  means to drop the reference, but the update that clears \<open>match_id\<close> asks for a room whose \<open>match_id\<close>
  is null: it selects nothing, and the start ends in a conflict (or an error of the driver) with rooms,
  matches and snapshots unchanged.
\<close>

theorem orphan_recovery_conflicts:
  assumes "backendLaws wi"
    and "authorizedRoom (wiredRooms wi clock cid) w uid rid = Inr room" and "roomID room = rid"
    and "roomMatchID room = Some mid" and "dbFindMatch (wiDb wi) w mid = Inr (Some m)"
    and "matchID m = mid" and "mid \<noteq> NilObjectID" and "findSnapshot (wiMongo wi) w mid = Inr None"
    and "roomStartMatch (wiredRooms wi clock cid) env w uid rid = (w', x)"
  shows "(x = Inl ErrConflict \<or> x = Inl (DriverError False)) \<and>
    dbFindRoom (wiDb wi) w' = dbFindRoom (wiDb wi) w \<and> dbFindMatch (wiDb wi) w' = dbFindMatch (wiDb wi) w \<and>
    findSnapshot (wiMongo wi) w' = findSnapshot (wiMongo wi) w"
proof -
  let ?svc = "wiredRooms wi clock cid"
  have svc: "rsDb ?svc = wiDb wi" by (simp add: wiredRooms_def)
  have wired: "rsFormalMatches ?svc = Some (bootstrapCreate (wiDb wi) (wiMongo wi) (wiCodec wi))"
    by (simp add: wiredRooms_def)
  have laws: "roomLaws (rsDb ?svc) (wiMongo wi)" using assms(1) by (simp add: backendLaws_def svc)
  have "existingMatch ?svc w room = Inl ErrConflict"
    using assms(4-8)
    by (simp add: existingMatch_def wiredRooms_def matchByID_def found_def snapshotHas_def)
  with orphan_conflict [OF laws wired assms(2,3) _ _ assms(9)] assms(4) show ?thesis
    by (simp add: svc sameRooms_def sameMatches_def sameSnapshots_def)
qed

text \<open>A room bound to a shell without a snapshot.\<close>

definition orphanRoom :: Room where
  "orphanRoom = formalRoom\<lparr>roomMatchID := Some 41\<rparr>"

definition orphanWorld :: RoomWorld where
  "orphanWorld = (roomWorld orphanRoom)\<lparr>rwMatches := [(41, (sampleMatch 1 MatchStatusPending)\<lparr>matchID := 41\<rparr>)]\<rparr>"

theorem orphan_recovery_conflicts_witness:
  "\<exists>w' x. roomStartMatch (wiredRooms bootWiring 0 '''') sampleEnv orphanWorld 100 1 = (w', x) \<and>
     (x = Inl ErrConflict \<or> x = Inl (DriverError False)) \<and>
     dbFindRoom sampleDb w' 1 = Inr (Some orphanRoom)"
proof -
  obtain w' x where run: "roomStartMatch (wiredRooms bootWiring 0 '''') sampleEnv orphanWorld 100 1 = (w', x)"
    by fastforce
  have world: "rwRooms orphanWorld = [(1, orphanRoom)]" "swSnapshots orphanWorld = []"
    "rwMatches orphanWorld = [(41, (sampleMatch 1 MatchStatusPending)\<lparr>matchID := 41\<rparr>)]"
    by (simp_all add: orphanWorld_def roomWorld_def)
  have room: "roomID orphanRoom = 1" "roomMatchID orphanRoom = Some 41" "roomType orphanRoom = RoomTypeMatch"
    "roomRefereeUserID orphanRoom = Some 100"
    by (simp_all add: orphanRoom_def formalRoom_def)
  have "dbFindUser sampleDb orphanWorld 100 = Inr (Some sampleUser)" by (simp add: sampleDb_def)
  moreover have "HasRole sampleUser RoleReferee" "\<not> userIsBanned sampleUser" "userVerifyStatus sampleUser = Verified"
    "userOnlineID sampleUser = 100" by (simp_all add: sampleUser_def HasRole_def)
  ultimately have auth: "authorizedRoom (wiredRooms bootWiring 0 '''') orphanWorld 100 1 = Inr orphanRoom"
    by (simp add: authorizedRoom_def currentEligibleUser_def userByOsuID_def roomByID_def
        found_def wiredRooms_def world room)
  from orphan_recovery_conflicts [OF boot_laws auth room(1,2) _ _ _ _ run]
  have out: "x = Inl ErrConflict \<or> x = Inl (DriverError False)"
    and same: "dbFindRoom sampleDb w' = dbFindRoom sampleDb orphanWorld"
    by (simp_all add: world NilObjectID_def)
  show ?thesis using run out fun_cong [OF same, of 1] by (simp add: world)
qed

section \<open>Readiness\<close>

text \<open>
  An acknowledgement of readiness writes to no room, and to the shells at most one bit: that of the
  side whose strategist the caller alone is, in the match of the room, while the match is pending.
\<close>

theorem acknowledgement_own_side:
  assumes "backendLaws wi"
    and "MarkStrategistReady (wiredRooms wi clock cid) env w uid rid = (w', x)"
    and "dbFindMatch (wiDb wi) w' \<noteq> dbFindMatch (wiDb wi) w"
  shows "dbFindRoom (wiDb wi) w' = dbFindRoom (wiDb wi) w \<and>
    (\<exists>room mid red blue side old.
       dbFindRoom (wiDb wi) w rid = Inr (Some room) \<and> roomMatchID room = Some mid \<and>
       (case roomRedTeamID room of None \<Rightarrow> red = None | Some i \<Rightarrow> \<exists>t. red = Some t \<and> dbFindTeam (wiDb wi) w i = Inr red) \<and>
       (case roomBlueTeamID room of None \<Rightarrow> blue = None | Some i \<Rightarrow> \<exists>t. blue = Some t \<and> dbFindTeam (wiDb wi) w i = Inr blue) \<and>
       StrategistSide red blue uid = Some side \<and>
       matchStatus old = MatchStatusPending \<and> dbFindMatch (wiDb wi) w mid = Inr (Some old) \<and>
       dbFindMatch (wiDb wi) w' = (dbFindMatch (wiDb wi) w)
         (mid := Inr (Some (setReady side (ceClock env) old))))"
  using MarkStrategistReady_writes [OF assms(1,2)] assms(3)
  by (simp add: sameRooms_def sameMatches_def ownReadiness_def matchWritten_def)

theorem acknowledgement_own_side_witness:
  "\<exists>w' x side. MarkStrategistReady (wiredRooms bootWiring 0 '''') sampleEnv orphanWorld 11 1 = (w', x) \<and>
     StrategistSide (Some (sampleTeam 11 10)) (Some (sampleTeam 12 20)) 11 = Some side \<and>
     dbFindMatch sampleDb w' 41 =
       Inr (Some (setReady side (1 * second) ((sampleMatch 1 MatchStatusPending)\<lparr>matchID := 41\<rparr>)))"
proof -
  obtain w' x where run: "MarkStrategistReady (wiredRooms bootWiring 0 '''') sampleEnv orphanWorld 11 1 = (w', x)"
    by fastforce
  have "dbFindMatch sampleDb (fst (MarkStrategistReady (wiredRooms bootWiring 0 '''') sampleEnv orphanWorld 11 1)) 41
      \<noteq> dbFindMatch sampleDb orphanWorld 41"
    by code_simp
  then have changed: "dbFindMatch (wiDb bootWiring) w' \<noteq> dbFindMatch (wiDb bootWiring) orphanWorld"
    unfolding sampleWiring_db using run by (metis fst_conv)
  have room: "dbFindRoom sampleDb orphanWorld 1 = Inr (Some orphanRoom)"
    "roomMatchID orphanRoom = Some 41" "roomRedTeamID orphanRoom = Some 11" "roomBlueTeamID orphanRoom = Some 12"
    "dbFindTeam sampleDb w 11 = Inr (Some (sampleTeam 11 10))" "dbFindTeam sampleDb w 12 = Inr (Some (sampleTeam 12 20))"
    "dbFindMatch sampleDb orphanWorld 41 = Inr (Some ((sampleMatch 1 MatchStatusPending)\<lparr>matchID := 41\<rparr>))" for w
    by (simp_all add: orphanWorld_def roomWorld_def orphanRoom_def formalRoom_def) (simp_all add: sampleDb_def)
  from acknowledgement_own_side [OF boot_laws run changed] room obtain side where
    side: "StrategistSide (Some (sampleTeam 11 10)) (Some (sampleTeam 12 20)) 11 = Some side"
    and new: "dbFindMatch sampleDb w' = (dbFindMatch sampleDb orphanWorld)
      (41 := Inr (Some (setReady side (ceClock sampleEnv) ((sampleMatch 1 MatchStatusPending)\<lparr>matchID := 41\<rparr>))))"
    by (auto simp del: sampleDb_simps)
  have "ceClock sampleEnv = 1 * second" by (simp add: sampleEnv_def)
  then show ?thesis using run side fun_cong [OF new, of 41] by auto
qed

end
