(* ===== verification/IrcJobs.thy ===== *)
theory IrcJobs
  imports RoomService
begin

text \<open>
  The queue of IRC commands (\<open>internal/persistence/irc_jobs.go\<close>): the job documents, the query that picks
  the next job of a free channel, and every operation of \<open>IRCJobStore\<close> that writes. The calls of the
  driver are parameters (\<open>JobDb\<close>); a filter is a predicate on documents and an update is a function on
  them. \<open>jobLaws\<close> states what the driver promises.
\<close>

section \<open>Documents\<close>

datatype JobStatus =
    JobPending | JobSending | JobSent | JobAcknowledged | JobFailed | JobCancelled
  | JobStatusOther string

text \<open>An unset field of the document is \<open>None\<close>; \<open>jdLastError\<close> is decoded into a string.\<close>

record JobDocument =
  jdID :: string
  jdMatchID :: ObjectID
  jdChannel :: string
  jdKind :: string
  jdAckTarget :: string
  jdSequence :: "64 word"
  jdPayload :: string
  jdAttempts :: int
  jdNextTryAt :: Time
  jdStatus :: JobStatus
  jdAutomaticRetry :: bool
  jdLastError :: string
  jdSentAt :: "Time option"
  jdAckDeadline :: "Time option"
  jdAcknowledgedAt :: "Time option"
  jdLeaseUntil :: "Time option"
  jdLeaseToken :: "string option"
  jdCreatedAt :: Time
  jdUpdatedAt :: Time

text \<open>The value the worker and the callers handle.\<close>

record Job =
  jobID :: string
  jobMatchID :: string
  jobChannel :: string
  jobKind :: string
  jobAckTarget :: string
  jobSequence :: "64 word"
  jobPayload :: string
  jobStatus :: JobStatus
  jobAttempts :: int
  jobNextTryAt :: Time
  jobSentAt :: Time
  jobAckDeadline :: Time
  jobAcknowledgedAt :: Time
  jobLastError :: string
  jobLeaseToken :: string
  jobAutomaticRetry :: bool

text \<open>\<open>JobRefused\<close> is an error the store makes itself, \<open>JobDriver\<close> one of the driver.\<close>

datatype JobError = JobRefused | JobDriver

section \<open>Driver calls\<close>

text \<open>
  \<open>jdbFindJobs\<close> returns the documents a filter selects, \<open>jdbUpdateJob\<close> counts the documents its filter
  matched, \<open>jdbUpsertJob\<close> is an upsert with \<open>$setOnInsert\<close>, and \<open>jdbTakeLock\<close> the upsert on the lock of
  a channel, whose error says whether it was a duplicate key.
\<close>

record 'w JobDb =
  jdbFindJob :: "'w \<Rightarrow> string \<Rightarrow> unit + JobDocument option"
  jdbFindJobs :: "'w \<Rightarrow> (JobDocument \<Rightarrow> bool) \<Rightarrow> unit + JobDocument list"
  jdbUpdateJob ::
    "'w \<Rightarrow> string \<Rightarrow> (JobDocument \<Rightarrow> bool) \<Rightarrow> (JobDocument \<Rightarrow> JobDocument) \<Rightarrow> 'w \<times> (unit + nat)"
  jdbUpsertJob :: "'w \<Rightarrow> JobDocument \<Rightarrow> 'w \<times> (unit + unit)"
  jdbTakeLock :: "'w \<Rightarrow> string \<Rightarrow> string \<Rightarrow> Time \<Rightarrow> Time \<Rightarrow> 'w \<times> (bool + unit)"
  jdbReleaseLock :: "'w \<Rightarrow> string \<Rightarrow> string \<Rightarrow> 'w \<times> (unit + unit)"
  jdbFindLock :: "'w \<Rightarrow> string \<Rightarrow> (string \<times> Time) option"

text \<open>How object ids are written and read, \<open>Hex\<close> and \<open>ObjectIDFromHex\<close>.\<close>

record HexCodec =
  hexPrint :: "ObjectID \<Rightarrow> string"
  hexParse :: "string \<Rightarrow> ObjectID option"

section \<open>Enqueueing\<close>

definition jobComplete :: "Job \<Rightarrow> bool" where
  "jobComplete job \<longleftrightarrow> jobID job \<noteq> '''' \<and> jobKind job \<noteq> '''' \<and> jobPayload job \<noteq> '''' \<and>
     MatchChannel (jobChannel job)"

definition newJobDocument :: "ObjectID \<Rightarrow> Time \<Rightarrow> Job \<Rightarrow> JobDocument" where
  "newJobDocument mid now job =
     \<lparr>jdID = jobID job, jdMatchID = mid, jdChannel = jobChannel job, jdKind = jobKind job,
      jdAckTarget = jobAckTarget job, jdSequence = jobSequence job, jdPayload = jobPayload job,
      jdAttempts = 0,
      jdNextTryAt = (if isZeroTime (jobNextTryAt job) then now else jobNextTryAt job),
      jdStatus = JobPending, jdAutomaticRetry = True, jdLastError = '''', jdSentAt = None,
      jdAckDeadline = None, jdAcknowledgedAt = None, jdLeaseUntil = None, jdLeaseToken = None,
      jdCreatedAt = now, jdUpdatedAt = now\<rparr>"

definition sameJob :: "ObjectID \<Rightarrow> Job \<Rightarrow> JobDocument \<Rightarrow> bool" where
  "sameJob mid job d \<longleftrightarrow> jdMatchID d = mid \<and> jdChannel d = jobChannel job \<and> jdKind d = jobKind job \<and>
     jdAckTarget d = jobAckTarget job \<and> jdSequence d = jobSequence job \<and> jdPayload d = jobPayload job"

definition Enqueue ::
  "'w JobDb \<Rightarrow> HexCodec \<Rightarrow> Time \<Rightarrow> 'w \<Rightarrow> Job \<Rightarrow> 'w \<times> JobError option" where
  "Enqueue db hex now w job =
     (case hexParse hex (jobMatchID job) of
        None \<Rightarrow> (w, Some JobRefused)
      | Some mid \<Rightarrow>
          if \<not> jobComplete job then (w, Some JobRefused)
          else (case jdbUpsertJob db w (newJobDocument mid now job) of
                  (w', Inl _) \<Rightarrow> (w', Some JobDriver)
                | (w', Inr _) \<Rightarrow>
                    (case jdbFindJob db w' (jobID job) of
                       Inr (Some stored) \<Rightarrow>
                         (w', if sameJob mid job stored then None else Some JobRefused)
                     | _ \<Rightarrow> (w', Some JobDriver))))"

section \<open>Claiming\<close>

definition jobOpen :: "JobDocument \<Rightarrow> bool" where
  "jobOpen d \<longleftrightarrow> jdStatus d \<in> {JobPending, JobFailed, JobSending, JobSent}"

definition jobKey :: "JobDocument \<Rightarrow> nat \<times> int" where
  "jobKey d = (unat (jdSequence d), jdCreatedAt d)"

text \<open>A comparison with \<open>$lte\<close> fails on a missing field.\<close>

definition notAfter :: "Time option \<Rightarrow> Time \<Rightarrow> bool" where
  "notAfter t now = (case t of None \<Rightarrow> False | Some t \<Rightarrow> t \<le> now)"

definition jobDue :: "Time \<Rightarrow> JobDocument \<Rightarrow> bool" where
  "jobDue now d \<longleftrightarrow>
     jdStatus d = JobPending \<and> jdNextTryAt d \<le> now \<or>
     jdStatus d = JobFailed \<and> jdAutomaticRetry d \<and> jdNextTryAt d \<le> now \<or>
     jdStatus d = JobSending \<and> notAfter (jdLeaseUntil d) now \<or>
     jdStatus d = JobSent \<and> notAfter (jdAckDeadline d) now"

definition firstJob :: "JobDocument list \<Rightarrow> JobDocument option" where
  "firstJob ds = (case sort_key jobKey ds of [] \<Rightarrow> None | d # _ \<Rightarrow> Some d)"

text \<open>The stages of the pipeline: the first open job of each channel, those due, by their next try.\<close>

definition channelHeads :: "JobDocument list \<Rightarrow> JobDocument list" where
  "channelHeads ds =
     map (\<lambda>c. the (firstJob (filter (\<lambda>d. jdChannel d = c) ds))) (remdups (map jdChannel ds))"

definition claimCandidates :: "Time \<Rightarrow> JobDocument list \<Rightarrow> JobDocument list" where
  "claimCandidates now ds =
     take 64 (sort_key (\<lambda>d. (jdNextTryAt d, jdCreatedAt d)) (filter (jobDue now) (channelHeads ds)))"

definition timeOrZero :: "Time option \<Rightarrow> Time" where
  "timeOrZero t = (case t of None \<Rightarrow> 0 | Some t \<Rightarrow> t)"

definition jobFromDocument :: "HexCodec \<Rightarrow> JobDocument \<Rightarrow> Job" where
  "jobFromDocument hex d =
     \<lparr>jobID = jdID d, jobMatchID = hexPrint hex (jdMatchID d), jobChannel = jdChannel d,
      jobKind = jdKind d, jobAckTarget = jdAckTarget d, jobSequence = 0, jobPayload = jdPayload d,
      jobStatus = jdStatus d, jobAttempts = jdAttempts d, jobNextTryAt = jdNextTryAt d,
      jobSentAt = timeOrZero (jdSentAt d), jobAckDeadline = timeOrZero (jdAckDeadline d),
      jobAcknowledgedAt = timeOrZero (jdAcknowledgedAt d), jobLastError = jdLastError d,
      jobLeaseToken = (case jdLeaseToken d of None \<Rightarrow> '''' | Some t \<Rightarrow> t),
      jobAutomaticRetry = jdAutomaticRetry d\<rparr>"

text \<open>\<open>releaseLock\<close> of an empty channel or token does nothing; its error is ignored by every caller.\<close>

definition releaseLock :: "'w JobDb \<Rightarrow> 'w \<Rightarrow> string \<Rightarrow> string \<Rightarrow> 'w" where
  "releaseLock db w channel token =
     (if channel = '''' \<or> token = '''' then w else fst (jdbReleaseLock db w channel token))"

definition claimUpdate :: "string \<Rightarrow> Time \<Rightarrow> Time \<Rightarrow> JobDocument \<Rightarrow> JobDocument" where
  "claimUpdate token now leaseUntil d =
     d\<lparr>jdStatus := JobSending, jdLeaseUntil := Some leaseUntil, jdLeaseToken := Some token,
       jdUpdatedAt := now\<rparr>"

definition earliestOpen :: "'w JobDb \<Rightarrow> 'w \<Rightarrow> string \<Rightarrow> unit + JobDocument option" where
  "earliestOpen db w channel =
     (case jdbFindJobs db w (\<lambda>d. jdChannel d = channel \<and> jobOpen d) of
        Inl e \<Rightarrow> Inl e
      | Inr ds \<Rightarrow> Inr (firstJob ds))"

text \<open>
  The loop over the candidates; \<open>token i\<close> is the fresh identifier of its \<open>i\<close>-th pass. When the channel
  has no open job any more the code returns without a job and without looking at the others.
\<close>

fun claimLoop ::
  "'w JobDb \<Rightarrow> HexCodec \<Rightarrow> Time \<Rightarrow> Time \<Rightarrow> (nat \<Rightarrow> string) \<Rightarrow> nat \<Rightarrow> 'w \<Rightarrow> JobDocument list
   \<Rightarrow> 'w \<times> (JobError + Job option)" where
  "claimLoop db hex now leaseUntil token i w [] = (w, Inr None)"
| "claimLoop db hex now leaseUntil token i w (c # cs) =
     (case jdbTakeLock db w (jdChannel c) (token i) now leaseUntil of
        (w1, Inl dup) \<Rightarrow>
          if dup then claimLoop db hex now leaseUntil token (i + 1) w1 cs
          else (w1, Inl JobDriver)
      | (w1, Inr _) \<Rightarrow>
          (case earliestOpen db w1 (jdChannel c) of
             Inl _ \<Rightarrow>
               claimLoop db hex now leaseUntil token (i + 1)
                 (releaseLock db w1 (jdChannel c) (token i)) cs
           | Inr None \<Rightarrow> (releaseLock db w1 (jdChannel c) (token i), Inr None)
           | Inr (Some d) \<Rightarrow>
               if jdID d \<noteq> jdID c then
                 claimLoop db hex now leaseUntil token (i + 1)
                   (releaseLock db w1 (jdChannel c) (token i)) cs
               else (case jdbUpdateJob db w1 (jdID d) (\<lambda>x. jdStatus x = jdStatus d)
                            (claimUpdate (token i) now leaseUntil) of
                       (w2, Inl _) \<Rightarrow>
                         (releaseLock db w2 (jdChannel c) (token i), Inl JobDriver)
                     | (w2, Inr matched) \<Rightarrow>
                         if matched = 0 then
                           claimLoop db hex now leaseUntil token (i + 1)
                             (releaseLock db w2 (jdChannel c) (token i)) cs
                         else (w2, Inr (Some ((jobFromDocument hex d)
                                               \<lparr>jobLeaseToken := token i\<rparr>))))))"

definition Claim ::
  "'w JobDb \<Rightarrow> HexCodec \<Rightarrow> (nat \<Rightarrow> string) \<Rightarrow> 'w \<Rightarrow> Time \<Rightarrow> Time \<Rightarrow> 'w \<times> (JobError + Job option)" where
  "Claim db hex token w now leaseUntil =
     (case jdbFindJobs db w jobOpen of
        Inl _ \<Rightarrow> (w, Inl JobDriver)
      | Inr ds \<Rightarrow> claimLoop db hex now leaseUntil token 0 w (claimCandidates now ds))"

section \<open>Reports\<close>

text \<open>
  The filters of the reports: the job must be in the hands of the caller, under the lease token it was
  claimed with.
\<close>

definition heldBy :: "string \<Rightarrow> JobDocument \<Rightarrow> bool" where
  "heldBy token d \<longleftrightarrow> jdStatus d \<in> {JobSending, JobSent} \<and> jdLeaseToken d = Some token"

definition sendingBy :: "string \<Rightarrow> JobDocument \<Rightarrow> bool" where
  "sendingBy token d \<longleftrightarrow> jdStatus d = JobSending \<and> jdLeaseToken d = Some token"

definition updateClaimed ::
  "'w JobDb \<Rightarrow> 'w \<Rightarrow> string \<Rightarrow> (JobDocument \<Rightarrow> bool) \<Rightarrow> (JobDocument \<Rightarrow> JobDocument) \<Rightarrow> 'w \<times> JobError option" where
  "updateClaimed db w i P u =
     (case jdbUpdateJob db w i P u of
        (w', Inl _) \<Rightarrow> (w', Some JobDriver)
      | (w', Inr matched) \<Rightarrow> (w', if matched = 0 then Some JobRefused else None))"

text \<open>The end of a claim: the lock of the job's channel is released.\<close>

definition endClaim ::
  "'w JobDb \<Rightarrow> 'w \<Rightarrow> string \<Rightarrow> string \<Rightarrow> (JobDocument \<Rightarrow> bool) \<Rightarrow> (JobDocument \<Rightarrow> JobDocument)
   \<Rightarrow> 'w \<times> JobError option" where
  "endClaim db w i token P u =
     (case updateClaimed db w i P u of
        (w', Some e) \<Rightarrow> (w', Some e)
      | (w', None) \<Rightarrow>
          (case jdbFindJob db w' i of
             Inr (Some d) \<Rightarrow> (releaseLock db w' (jdChannel d) token, None)
           | _ \<Rightarrow> (w', None)))"

definition sentUpdate :: "Time \<Rightarrow> Time \<Rightarrow> JobDocument \<Rightarrow> JobDocument" where
  "sentUpdate sentAt deadline d =
     d\<lparr>jdStatus := JobSent, jdSentAt := Some sentAt, jdAckDeadline := Some deadline,
       jdUpdatedAt := sentAt, jdLeaseUntil := None, jdLastError := ''''\<rparr>"

definition MarkSent ::
  "'w JobDb \<Rightarrow> 'w \<Rightarrow> string \<Rightarrow> string \<Rightarrow> Time \<Rightarrow> Time \<Rightarrow> 'w \<times> JobError option" where
  "MarkSent db w i token sentAt deadline =
     updateClaimed db w i (sendingBy token) (sentUpdate sentAt deadline)"

definition ackUpdate :: "Time \<Rightarrow> JobDocument \<Rightarrow> JobDocument" where
  "ackUpdate at d =
     d\<lparr>jdStatus := JobAcknowledged, jdAcknowledgedAt := Some at, jdUpdatedAt := at,
       jdLeaseUntil := None, jdLeaseToken := None, jdAckDeadline := None, jdLastError := ''''\<rparr>"

definition Ack :: "'w JobDb \<Rightarrow> 'w \<Rightarrow> string \<Rightarrow> string \<Rightarrow> Time \<Rightarrow> 'w \<times> JobError option" where
  "Ack db w i token at = endClaim db w i token (heldBy token) (ackUpdate at)"

definition failUpdate :: "Time \<Rightarrow> string \<Rightarrow> Time \<Rightarrow> JobDocument \<Rightarrow> JobDocument" where
  "failUpdate now message retryAt d =
     d\<lparr>jdStatus := JobFailed, jdAutomaticRetry := True, jdLastError := message,
       jdNextTryAt := retryAt, jdUpdatedAt := now, jdLeaseUntil := None, jdLeaseToken := None,
       jdAckDeadline := None, jdAttempts := jdAttempts d + 1\<rparr>"

definition Fail ::
  "'w JobDb \<Rightarrow> Time \<Rightarrow> 'w \<Rightarrow> string \<Rightarrow> string \<Rightarrow> string \<Rightarrow> Time \<Rightarrow> 'w \<times> JobError option" where
  "Fail db now w i token message retryAt =
     endClaim db w i token (heldBy token) (failUpdate now message retryAt)"

definition rejectUpdate :: "Time \<Rightarrow> string \<Rightarrow> JobDocument \<Rightarrow> JobDocument" where
  "rejectUpdate now message d =
     d\<lparr>jdStatus := JobFailed, jdAutomaticRetry := False, jdLastError := message,
       jdUpdatedAt := now, jdLeaseUntil := None, jdLeaseToken := None, jdAckDeadline := None,
       jdAttempts := jdAttempts d + 1\<rparr>"

definition RejectJob ::
  "'w JobDb \<Rightarrow> Time \<Rightarrow> 'w \<Rightarrow> string \<Rightarrow> string \<Rightarrow> string \<Rightarrow> 'w \<times> JobError option" where
  "RejectJob db now w i token message =
     (if i = '''' \<or> token = '''' \<or> message = '''' then (w, Some JobRefused)
      else endClaim db w i token (heldBy token) (rejectUpdate now message))"

definition cancelUpdate :: "Time \<Rightarrow> string \<Rightarrow> JobDocument \<Rightarrow> JobDocument" where
  "cancelUpdate now message d =
     d\<lparr>jdStatus := JobCancelled, jdLastError := message, jdUpdatedAt := now, jdLeaseUntil := None,
       jdLeaseToken := None, jdAckDeadline := None\<rparr>"

definition CancelJob ::
  "'w JobDb \<Rightarrow> Time \<Rightarrow> 'w \<Rightarrow> string \<Rightarrow> string \<Rightarrow> string \<Rightarrow> 'w \<times> JobError option" where
  "CancelJob db now w i token message =
     (if i = '''' \<or> token = '''' \<or> message = '''' then (w, Some JobRefused)
      else endClaim db w i token (sendingBy token) (cancelUpdate now message))"

text \<open>The referee's retry.\<close>

definition retryUpdate :: "Time \<Rightarrow> JobDocument \<Rightarrow> JobDocument" where
  "retryUpdate at d =
     d\<lparr>jdStatus := JobPending, jdAutomaticRetry := True, jdNextTryAt := at, jdUpdatedAt := at,
       jdSentAt := None, jdAckDeadline := None, jdLeaseUntil := None, jdLeaseToken := None,
       jdLastError := ''''\<rparr>"

definition RetryJob ::
  "'w JobDb \<Rightarrow> 'w \<Rightarrow> ObjectID \<Rightarrow> string \<Rightarrow> string \<Rightarrow> Time \<Rightarrow> 'w \<times> JobError option" where
  "RetryJob db w mid i channel at =
     (if mid = NilObjectID \<or> i = '''' \<or> \<not> MatchChannel channel then (w, Some JobRefused)
      else updateClaimed db w i
             (\<lambda>d. jdMatchID d = mid \<and> jdChannel d = channel \<and> jdStatus d = JobFailed)
             (retryUpdate at))"

section \<open>What the driver promises\<close>

text \<open>
  \<open>jdbFindJob\<close> and \<open>jdbFindLock\<close> are the views of the two collections the laws speak about. An update or
  upsert whose call fails has either happened or not.
\<close>

definition sameJobs :: "'w JobDb \<Rightarrow> 'w \<Rightarrow> 'w \<Rightarrow> bool" where
  "sameJobs db w w' \<longleftrightarrow> jdbFindJob db w' = jdbFindJob db w"

definition sameLocks :: "'w JobDb \<Rightarrow> 'w \<Rightarrow> 'w \<Rightarrow> bool" where
  "sameLocks db w w' \<longleftrightarrow> jdbFindLock db w' = jdbFindLock db w"

definition jobWritten :: "'w JobDb \<Rightarrow> 'w \<Rightarrow> string \<Rightarrow> JobDocument \<Rightarrow> 'w \<Rightarrow> bool" where
  "jobWritten db w i d w' \<longleftrightarrow> jdbFindJob db w' = (jdbFindJob db w)(i := Inr (Some d))"

definition findJobsLaw :: "'w JobDb \<Rightarrow> bool" where
  "findJobsLaw db \<longleftrightarrow>
     (\<forall>w P ds. jdbFindJobs db w P = Inr ds \<longrightarrow>
        (\<forall>d. d \<in> set ds \<longleftrightarrow> P d \<and> jdbFindJob db w (jdID d) = Inr (Some d)) \<and>
        distinct (map jdID ds)) \<and>
     (\<forall>w i d. jdbFindJob db w i = Inr (Some d) \<longrightarrow> jdID d = i)"

definition updateJobLaw :: "'w JobDb \<Rightarrow> bool" where
  "updateJobLaw db \<longleftrightarrow>
     (\<forall>w i P u w' x. jdbUpdateJob db w i P u = (w', x) \<longrightarrow>
        sameLocks db w w' \<and>
        (sameJobs db w w' \<and> (\<forall>n. x = Inr n \<longrightarrow> n = 0 \<and>
             (\<forall>d. jdbFindJob db w i = Inr (Some d) \<longrightarrow> \<not> P d)) \<or>
         (\<exists>d. jdbFindJob db w i = Inr (Some d) \<and> P d \<and> jobWritten db w i (u d) w') \<and> x \<noteq> Inr 0))"

definition upsertJobLaw :: "'w JobDb \<Rightarrow> bool" where
  "upsertJobLaw db \<longleftrightarrow>
     (\<forall>w d w' x. jdbUpsertJob db w d = (w', x) \<longrightarrow>
        sameLocks db w w' \<and>
        (sameJobs db w w' \<and> (x = Inr () \<longrightarrow> jdbFindJob db w (jdID d) \<noteq> Inr None) \<or>
         jdbFindJob db w (jdID d) = Inr None \<and> jobWritten db w (jdID d) d w'))"

text \<open>A lock is free when there is none or its lease has run out; a lock without a token is not written.\<close>

definition lockFree :: "'w JobDb \<Rightarrow> 'w \<Rightarrow> string \<Rightarrow> string \<Rightarrow> Time \<Rightarrow> bool" where
  "lockFree db w channel token now \<longleftrightarrow>
     (case jdbFindLock db w channel of
        None \<Rightarrow> True
      | Some (t, until) \<Rightarrow> until \<le> now \<or> t = token)"

definition takeLockLaw :: "'w JobDb \<Rightarrow> bool" where
  "takeLockLaw db \<longleftrightarrow>
     (\<forall>w c token now until w' x. jdbTakeLock db w c token now until = (w', x) \<longrightarrow>
        sameJobs db w w' \<and>
        (sameLocks db w w' \<and> x \<noteq> Inr () \<or>
         lockFree db w c token now \<and> jdbFindLock db w' = (jdbFindLock db w)(c := Some (token, until)) \<and>
         x \<noteq> Inl True))"

definition releaseLockLaw :: "'w JobDb \<Rightarrow> bool" where
  "releaseLockLaw db \<longleftrightarrow>
     (\<forall>w c token w' x. jdbReleaseLock db w c token = (w', x) \<longrightarrow>
        sameJobs db w w' \<and>
        (sameLocks db w w' \<or>
         (\<exists>until. jdbFindLock db w c = Some (token, until)) \<and>
         jdbFindLock db w' = (jdbFindLock db w)(c := None)))"

definition jobLaws :: "'w JobDb \<Rightarrow> bool" where
  "jobLaws db \<longleftrightarrow> findJobsLaw db \<and> updateJobLaw db \<and> upsertJobLaw db \<and> takeLockLaw db \<and> releaseLockLaw db"

end
