(* ===== verification/IrcWorker.thy ===== *)
theory IrcWorker
  imports IrcJobs
begin

text \<open>
  The delivery worker (\<open>internal/irc/worker.go\<close>, with the validator and the receipt handler that
  \<open>internal/server/server.go\<close> gives it) and the history of the queue. \<open>queueStep\<close> has one rule for each
  call of the store, made by any number of workers, readers of receipts and referees in any order:
  a worker that stalls between two calls is a history in which others act in between.
\<close>

section \<open>The worker\<close>

datatype Verdict = JobValid | JobObsolete string | JobInvalid string

datatype LimitOutcome = LimitPassed | LimitFailed string | LimitCancelled

record 'w Worker =
  wkDb :: "'w JobDb"
  wkHex :: HexCodec
  wkAckWait :: Duration
  wkLease :: Duration
  wkValidate :: "('w \<Rightarrow> Job \<Rightarrow> Verdict) option"

text \<open>
  What one run reads from outside: the clock at the claim, before the send and after it, the fresh
  tokens, the rate limiter, whether the context is done, and the outcome of the send. The sends
  themselves leave the database alone.
\<close>

record RunEnv =
  reNow :: Time
  reToken :: "nat \<Rightarrow> string"
  reLimit :: LimitOutcome
  reSentAt :: Time
  reContextDone :: bool
  reMarkError :: string
  reDelivery :: "string + JobStatus"
  reDoneAt :: Time

datatype WorkerError = WorkerStore JobError | WorkerLimiter | WorkerContext

definition maxAutomaticAttempts :: int where "maxAutomaticAttempts = 5"

definition backoff :: "int \<Rightarrow> Duration" where
  "backoff attempts =
     (let a = (if attempts < 1 then 1 else if attempts > 6 then 6 else attempts)
      in 2 ^ nat a * second)"

definition workerFail ::
  "'w JobDb \<Rightarrow> Time \<Rightarrow> 'w \<Rightarrow> Job \<Rightarrow> string \<Rightarrow> 'w \<times> JobError option" where
  "workerFail db now w job message =
     (if jobAttempts job + 1 \<ge> maxAutomaticAttempts
      then RejectJob db now w (jobID job) (jobLeaseToken job)
             (''automatic retry limit reached: '' @ message)
      else Fail db now w (jobID job) (jobLeaseToken job) message (now + backoff (jobAttempts job)))"

definition storeResult :: "'w \<times> JobError option \<Rightarrow> 'w \<times> WorkerError option" where
  "storeResult r = (fst r, map_option WorkerStore (snd r))"

definition deliverJob :: "'w Worker \<Rightarrow> RunEnv \<Rightarrow> 'w \<Rightarrow> Job \<Rightarrow> 'w \<times> WorkerError option" where
  "deliverJob wk env w job =
     (case MarkSent (wkDb wk) w (jobID job) (jobLeaseToken job) (reSentAt env)
             (reSentAt env + wkAckWait wk) of
        (w1, Some e) \<Rightarrow>
          ((if reContextDone env then w1
            else fst (workerFail (wkDb wk) (reDoneAt env) w1 job (reMarkError env))),
           Some (WorkerStore e))
      | (w1, None) \<Rightarrow>
          (case reDelivery env of
             Inl message \<Rightarrow> storeResult (workerFail (wkDb wk) (reDoneAt env) w1 job message)
           | Inr status \<Rightarrow>
               if status = JobAcknowledged
               then storeResult (Ack (wkDb wk) w1 (jobID job) (jobLeaseToken job) (reDoneAt env))
               else (w1, None)))"

definition RunOnce :: "'w Worker \<Rightarrow> RunEnv \<Rightarrow> 'w \<Rightarrow> 'w \<times> WorkerError option" where
  "RunOnce wk env w =
     (case Claim (wkDb wk) (wkHex wk) (reToken env) w (reNow env) (reNow env + wkLease wk) of
        (w1, Inl e) \<Rightarrow> (w1, Some (WorkerStore e))
      | (w1, Inr None) \<Rightarrow> (w1, None)
      | (w1, Inr (Some job)) \<Rightarrow>
          (case (case wkValidate wk of None \<Rightarrow> JobValid | Some validate \<Rightarrow> validate w1 job) of
             JobObsolete message \<Rightarrow>
               storeResult (CancelJob (wkDb wk) (reDoneAt env) w1 (jobID job) (jobLeaseToken job) message)
           | JobInvalid message \<Rightarrow>
               storeResult (workerFail (wkDb wk) (reDoneAt env) w1 job message)
           | JobValid \<Rightarrow>
               if jobStatus job = JobSent then
                 storeResult (workerFail (wkDb wk) (reDoneAt env) w1 job ''Bancho acknowledgement timed out'')
               else (case reLimit env of
                       LimitCancelled \<Rightarrow> (w1, Some WorkerContext)
                     | LimitFailed message \<Rightarrow>
                         (if reContextDone env then w1
                          else fst (workerFail (wkDb wk) (reDoneAt env) w1 job message),
                          Some WorkerLimiter)
                     | LimitPassed \<Rightarrow> deliverJob wk env w1 job)))"

text \<open>
  The validator of the server: a job is obsolete when the room of its match has no link any more or
  one with another channel.
\<close>

definition obsoletePrefix :: string where
  "obsoletePrefix = ''IRC job no longer belongs to the current match room: ''"

definition deliveryValidator ::
  "'w RoomDb \<Rightarrow> HexCodec \<Rightarrow> (string \<Rightarrow> URL option) \<Rightarrow> (ServiceError \<Rightarrow> string) \<Rightarrow> 'w \<Rightarrow> Job \<Rightarrow> Verdict" where
  "deliveryValidator db hex parseURL text w job =
     (case hexParse hex (jobMatchID job) of
        None \<Rightarrow> JobInvalid ''IRC job match ID is invalid''
      | Some mid \<Rightarrow>
     (case matchByID db w mid of
        Inl e \<Rightarrow> JobInvalid (''reload match before IRC delivery: '' @ text e)
      | Inr m \<Rightarrow>
     (case roomByID db w (matchRoomID m) of
        Inl e \<Rightarrow> JobInvalid (''reload room before IRC delivery: '' @ text e)
      | Inr room \<Rightarrow>
     (case roomMPLink room of
        None \<Rightarrow> JobObsolete (obsoletePrefix @ ''multiplayer link is no longer configured'')
      | Some link \<Rightarrow>
          if ChannelFromMPLink parseURL link \<noteq> Some (jobChannel job)
          then JobObsolete (obsoletePrefix @ ''job channel is no longer current'')
          else JobValid))))"

section \<open>Single calls\<close>

lemma jobLawsD:
  assumes "jobLaws db"
  shows "findJobsLaw db" "updateJobLaw db" "upsertJobLaw db" "takeLockLaw db" "releaseLockLaw db"
  using assms by (simp_all add: jobLaws_def)

lemma sameJobs_refl [simp]: "sameJobs db w w" "sameLocks db w w"
  by (simp_all add: sameJobs_def sameLocks_def)

lemma releaseLock_jobs:
  assumes "jobLaws db"
  shows "sameJobs db w (releaseLock db w c token)"
proof -
  obtain w' x where w': "jdbReleaseLock db w c token = (w', x)" by fastforce
  from jobLawsD(5) [OF assms, unfolded releaseLockLaw_def, rule_format, OF w'] have "sameJobs db w w'" ..
  then show ?thesis by (simp add: releaseLock_def w')
qed

text \<open>A change of one document that a filter admits.\<close>

definition changed ::
  "'w JobDb \<Rightarrow> 'w \<Rightarrow> string \<Rightarrow> (JobDocument \<Rightarrow> bool) \<Rightarrow> (JobDocument \<Rightarrow> JobDocument) \<Rightarrow> 'w \<Rightarrow> bool" where
  "changed db w i P u w' \<longleftrightarrow>
     (\<exists>d. jdbFindJob db w i = Inr (Some d) \<and> P d \<and> jobWritten db w i (u d) w')"

lemma updateClaimed_effect:
  assumes "jobLaws db" and "updateClaimed db w i P u = (w', r)"
  shows "sameJobs db w w' \<and> r \<noteq> None \<or> changed db w i P u w'"
proof -
  obtain x where x: "jdbUpdateJob db w i P u = (w', x)"
    and r: "r = (case x of Inl _ \<Rightarrow> Some JobDriver | Inr n \<Rightarrow> if n = 0 then Some JobRefused else None)"
    using assms(2) by (auto simp: updateClaimed_def split: prod.splits sum.splits)
  from jobLawsD(2) [OF assms(1), unfolded updateJobLaw_def, rule_format, OF x] r
  show ?thesis by (auto simp: changed_def split: sum.splits if_splits)
qed

lemma changed_same: "changed db w i P u v \<Longrightarrow> sameJobs db v v' \<Longrightarrow> changed db w i P u v'"
  by (auto simp: changed_def jobWritten_def sameJobs_def)

lemma endClaim_effect:
  assumes laws: "jobLaws db" and run: "endClaim db w i token P u = (w', r)"
  shows "sameJobs db w w' \<and> r \<noteq> None \<or> changed db w i P u w'"
proof -
  obtain v x where v: "updateClaimed db w i P u = (v, x)" by fastforce
  have "w' = v \<or> (\<exists>c. w' = releaseLock db v c token)" "x \<noteq> None \<Longrightarrow> r = x \<and> w' = v"
    using run v by (auto simp: endClaim_def split: option.splits sum.splits)
  then have "sameJobs db v w'" and r: "x \<noteq> None \<Longrightarrow> r = x"
    using releaseLock_jobs [OF laws] by auto
  with updateClaimed_effect [OF laws v] changed_same show ?thesis
    by (metis sameJobs_def)
qed

text \<open>The reports: nothing is written, and the caller gets an error, unless the caller holds the job.\<close>

lemma report_effects:
  assumes laws: "jobLaws db"
  shows "MarkSent db w i token sentAt deadline = (w', r) \<Longrightarrow>
      sameJobs db w w' \<and> r \<noteq> None \<or> changed db w i (sendingBy token) (sentUpdate sentAt deadline) w'"
    and "Ack db w i token at = (w', r) \<Longrightarrow>
      sameJobs db w w' \<and> r \<noteq> None \<or> changed db w i (heldBy token) (ackUpdate at) w'"
    and "Fail db now w i token message retryAt = (w', r) \<Longrightarrow>
      sameJobs db w w' \<and> r \<noteq> None \<or> changed db w i (heldBy token) (failUpdate now message retryAt) w'"
    and "RejectJob db now w i token message = (w', r) \<Longrightarrow>
      sameJobs db w w' \<and> r \<noteq> None \<or> changed db w i (heldBy token) (rejectUpdate now message) w'"
    and "CancelJob db now w i token message = (w', r) \<Longrightarrow>
      sameJobs db w w' \<and> r \<noteq> None \<or> changed db w i (sendingBy token) (cancelUpdate now message) w'"
  using updateClaimed_effect [OF laws] endClaim_effect [OF laws]
  by (auto simp: MarkSent_def Ack_def Fail_def RejectJob_def CancelJob_def split: if_splits)

lemma RetryJob_effect:
  assumes "jobLaws db" and "RetryJob db w mid i channel at = (w', r)"
  shows "sameJobs db w w' \<or> changed db w i (\<lambda>d. jdStatus d = JobFailed) (retryUpdate at) w'"
proof (cases "mid = NilObjectID \<or> i = '''' \<or> \<not> MatchChannel channel")
  case False
  then have "updateClaimed db w i
      (\<lambda>d. jdMatchID d = mid \<and> jdChannel d = channel \<and> jdStatus d = JobFailed) (retryUpdate at) = (w', r)"
    using assms(2) by (simp add: RetryJob_def)
  from updateClaimed_effect [OF assms(1) this] show ?thesis by (auto simp: changed_def)
qed (use assms(2) in \<open>auto simp: RetryJob_def\<close>)

lemma Enqueue_effect:
  assumes "jobLaws db" and "Enqueue db hex now w job = (w', r)"
  shows "sameJobs db w w' \<or>
    (\<exists>mid. jdbFindJob db w (jobID job) = Inr None \<and> jobWritten db w (jobID job) (newJobDocument mid now job) w')"
proof (cases "\<exists>mid. hexParse hex (jobMatchID job) = Some mid \<and> jobComplete job")
  case True
  then obtain mid where mid: "hexParse hex (jobMatchID job) = Some mid" "jobComplete job" by blast
  obtain v x where v: "jdbUpsertJob db w (newJobDocument mid now job) = (v, x)" by fastforce
  have "w' = v" using assms(2) v mid by (auto simp: Enqueue_def split: sum.splits option.splits)
  have "jdID (newJobDocument mid now job) = jobID job" by (simp add: newJobDocument_def)
  with jobLawsD(3) [OF assms(1), unfolded upsertJobLaw_def, rule_format, OF v] \<open>w' = v\<close>
  show ?thesis by auto
next
  case False
  then have "w' = w" using assms(2) by (auto simp: Enqueue_def split: option.splits)
  then show ?thesis by simp
qed

section \<open>The claim\<close>

text \<open>An open job that no open job of its channel precedes.\<close>

definition headJob :: "'w JobDb \<Rightarrow> 'w \<Rightarrow> JobDocument \<Rightarrow> bool" where
  "headJob db w d \<longleftrightarrow> jdbFindJob db w (jdID d) = Inr (Some d) \<and> jobOpen d \<and>
     (\<forall>i e. jdbFindJob db w i = Inr (Some e) \<and> jobOpen e \<and> jdChannel e = jdChannel d \<longrightarrow>
        jobKey d \<le> jobKey e)"

lemma firstJob_Some:
  assumes "firstJob ds = Some d"
  shows "d \<in> set ds \<and> (\<forall>e\<in>set ds. jobKey d \<le> jobKey e)"
proof -
  obtain es where es: "sort_key jobKey ds = d # es"
    using assms by (auto simp: firstJob_def split: list.splits)
  have "sorted (map jobKey (d # es))" unfolding es [symmetric] by simp
  moreover have "set ds = set (d # es)" unfolding es [symmetric] by simp
  ultimately show ?thesis by auto
qed

lemma firstJob_None: "firstJob ds = None \<longleftrightarrow> ds = []"
  by (cases ds) (auto simp: firstJob_def split: list.splits dest!: arg_cong [where f = set])

lemma findJobsD:
  assumes "jobLaws db" and "jdbFindJobs db w P = Inr ds"
  shows "d \<in> set ds \<longleftrightarrow> P d \<and> jdbFindJob db w (jdID d) = Inr (Some d)"
  using jobLawsD(1) [OF assms(1)] assms(2) by (auto simp: findJobsLaw_def)

lemma jobKeyed: "jobLaws db \<Longrightarrow> jdbFindJob db w i = Inr (Some d) \<Longrightarrow> jdID d = i"
  using jobLawsD(1) [of db] by (auto simp: findJobsLaw_def)

lemma headJob_first:
  assumes laws: "jobLaws db" and ds: "jdbFindJobs db w P = Inr ds"
    and P: "\<And>e. jdChannel e = c \<and> jobOpen e \<longleftrightarrow> P e \<and> jdChannel e = c"
    and first: "firstJob (filter (\<lambda>e. jdChannel e = c) ds) = Some d"
  shows "headJob db w d \<and> jdChannel d = c"
proof -
  note found = findJobsD [OF laws ds]
  from firstJob_Some [OF first]
  have d: "d \<in> set ds" "jdChannel d = c"
    and least: "\<And>e. e \<in> set ds \<Longrightarrow> jdChannel e = c \<Longrightarrow> jobKey d \<le> jobKey e" by auto
  have "jobKey d \<le> jobKey e"
    if e: "jdbFindJob db w i = Inr (Some e)" "jobOpen e" "jdChannel e = c" for i e
    using jobKeyed [OF laws e(1)] e P [of e] found [of e] least [of e] by simp
  with d P [of d] found [of d] show ?thesis by (auto simp: headJob_def)
qed

lemma earliestOpen_head:
  assumes laws: "jobLaws db" and "earliestOpen db w channel = Inr (Some d)"
  shows "headJob db w d \<and> jdChannel d = channel"
proof -
  obtain ds where ds: "jdbFindJobs db w (\<lambda>d. jdChannel d = channel \<and> jobOpen d) = Inr ds"
    "firstJob ds = Some d"
    using assms(2) by (auto simp: earliestOpen_def split: sum.splits)
  then have "filter (\<lambda>e. jdChannel e = channel) ds = ds"
    using findJobsD [OF laws ds(1)] by (simp add: filter_id_conv)
  with headJob_first [OF laws ds(1), of channel d] ds(2) show ?thesis by auto
qed

lemma channelHeads_head:
  assumes laws: "jobLaws db" and ds: "jdbFindJobs db w jobOpen = Inr ds" and d: "d \<in> set (channelHeads ds)"
  shows "headJob db w d"
proof -
  obtain c where c: "c \<in> set (map jdChannel ds)" "d = the (firstJob (filter (\<lambda>d. jdChannel d = c) ds))"
    using d by (auto simp: channelHeads_def)
  then have "filter (\<lambda>d. jdChannel d = c) ds \<noteq> []" by (auto simp: filter_empty_conv)
  then have "firstJob (filter (\<lambda>d. jdChannel d = c) ds) = Some d"
    using c(2) firstJob_None by (metis option.exhaust_sel)
  with headJob_first [OF laws ds, of c d] show ?thesis by auto
qed

lemma candidates_head:
  assumes "jobLaws db" and "jdbFindJobs db w jobOpen = Inr ds" and "c \<in> set (claimCandidates now ds)"
  shows "headJob db w c \<and> jobDue now c"
proof -
  have "c \<in> set (filter (jobDue now) (channelHeads ds))"
    using assms(3) set_take_subset by (fastforce simp: claimCandidates_def)
  then show ?thesis using channelHeads_head [OF assms(1,2)] by simp
qed

text \<open>
  A claim of a due head of a channel; the \<open>i\<close>-th token goes to the document.
\<close>

definition claims ::
  "'w JobDb \<Rightarrow> 'w \<Rightarrow> Time \<Rightarrow> Time \<Rightarrow> string \<Rightarrow> JobDocument \<Rightarrow> 'w \<Rightarrow> bool" where
  "claims db w now leaseUntil token d w' \<longleftrightarrow> headJob db w d \<and> jobDue now d \<and>
     jobWritten db w (jdID d) (claimUpdate token now leaseUntil d) w'"

lemma headJob_same: "sameJobs db w v \<Longrightarrow> headJob db v d = headJob db w d"
  by (simp add: headJob_def sameJobs_def)

lemma headJob_id: "headJob db w d \<Longrightarrow> headJob db w e \<Longrightarrow> jdID d = jdID e \<Longrightarrow> d = e"
  by (simp add: headJob_def)

lemma claims_same: "sameJobs db w v \<Longrightarrow> claims db v now u token d w' = claims db w now u token d w'"
  by (simp add: claims_def headJob_same jobWritten_def) (simp add: sameJobs_def)

lemma takeLock_jobs:
  "jobLaws db \<Longrightarrow> jdbTakeLock db w c token now until = (w', x) \<Longrightarrow> sameJobs db w w'"
  using jobLawsD(4) [of db] by (auto simp: takeLockLaw_def)

text \<open>A call leaves the jobs alone and returns none, or it claims and returns the claimed job.\<close>

definition claimResult ::
  "'w JobDb \<Rightarrow> HexCodec \<Rightarrow> Time \<Rightarrow> Time \<Rightarrow> (nat \<Rightarrow> string) \<Rightarrow> 'w \<Rightarrow> 'w \<Rightarrow> JobError + Job option \<Rightarrow> bool" where
  "claimResult db hex now leaseUntil token w w' r \<longleftrightarrow>
     sameJobs db w w' \<and> (\<forall>job. r \<noteq> Inr (Some job)) \<or>
     (\<exists>d k. claims db w now leaseUntil (token k) d w' \<and>
        (r = Inl JobDriver \<or> r = Inr (Some ((jobFromDocument hex d)\<lparr>jobLeaseToken := token k\<rparr>))))"

lemma claimResult_same:
  "sameJobs db w v \<Longrightarrow> claimResult db hex now leaseUntil token v w' r =
     claimResult db hex now leaseUntil token w w' r"
  by (simp add: claimResult_def claims_same) (simp add: sameJobs_def)

lemma claimUpdate_effect:
  assumes laws: "jobLaws db" and head: "headJob db w d" and due: "jobDue now d"
    and upd: "jdbUpdateJob db w (jdID d) (\<lambda>x. jdStatus x = jdStatus d)
                (claimUpdate token now leaseUntil) = (v, z)"
  shows "sameJobs db w v \<and> (\<forall>n. z = Inr n \<longrightarrow> n = 0) \<or>
    (\<forall>w'. sameJobs db v w' \<longrightarrow> claims db w now leaseUntil token d w') \<and> z \<noteq> Inr 0"
proof -
  from jobLawsD(2) [OF laws, unfolded updateJobLaw_def, rule_format, OF upd]
  consider "sameJobs db w v" "\<forall>n. z = Inr n \<longrightarrow> n = 0"
    | "jobWritten db w (jdID d) (claimUpdate token now leaseUntil d) v" "z \<noteq> Inr 0"
    using head by (auto simp: headJob_def)
  then show ?thesis
    using head due by cases (auto simp: claims_def jobWritten_def sameJobs_def)
qed

lemma claimLoop_effect:
  assumes laws: "jobLaws db"
    and "\<forall>c\<in>set cs. headJob db w c \<and> jobDue now c"
    and "claimLoop db hex now leaseUntil token i w cs = (w', r)"
  shows "claimResult db hex now leaseUntil token w w' r"
  using assms(2,3)
proof (induction cs arbitrary: i w)
  case Nil
  then show ?case by (auto simp: claimResult_def)
next
  case (Cons c cs)
  let ?rest = "\<lambda>v. claimLoop db hex now leaseUntil token (i + 1) v cs"
  let ?release = "\<lambda>v. releaseLock db v (jdChannel c) (token i)"
  note run = Cons.prems(2)
  have rest: ?case if "sameJobs db w v" "?rest v = (w', r)" for v
    using Cons.IH [OF _ that(2)] Cons.prems(1) headJob_same [OF that(1)] claimResult_same [OF that(1)]
    by auto
  obtain w1 x where lock: "jdbTakeLock db w (jdChannel c) (token i) now leaseUntil = (w1, x)" by fastforce
  note same = takeLock_jobs [OF laws lock]
  have release: "sameJobs db w (?release v)" if "sameJobs db w v" for v
    using releaseLock_jobs [OF laws, of v] that by (simp add: sameJobs_def)
  show ?case
  proof (cases "x = Inr () \<and> (\<exists>d. earliestOpen db w1 (jdChannel c) = Inr (Some d) \<and> jdID d = jdID c)")
    case False
    then have "?rest w1 = (w', r) \<or> ?rest (?release w1) = (w', r) \<or>
        (w' = w1 \<or> w' = ?release w1) \<and> (\<forall>job. r \<noteq> Inr (Some job))"
      using run unfolding claimLoop.simps(2) lock prod.case
      by (auto split: sum.splits option.splits if_splits)
    with rest [OF same] rest [OF release [OF same]] same release [OF same] show ?thesis
      by (auto simp: claimResult_def)
  next
    case True
    then obtain d where first: "earliestOpen db w1 (jdChannel c) = Inr (Some d)" and id: "jdID d = jdID c"
      and x: "x = Inr ()" by blast
    from earliestOpen_head [OF laws first] have head: "headJob db w1 d" by simp
    then have "d = c" using Cons.prems(1) id headJob_id [of db w] headJob_same [OF same] by simp
    with Cons.prems(1) have due: "jobDue now d" by simp
    obtain w2 z where upd: "jdbUpdateJob db w1 (jdID d) (\<lambda>x. jdStatus x = jdStatus d)
        (claimUpdate (token i) now leaseUntil) = (w2, z)" by fastforce
    let ?job = "(jobFromDocument hex d)\<lparr>jobLeaseToken := token i\<rparr>"
    have out: "(z = Inl () \<and> w' = ?release w2 \<and> r = Inl JobDriver) \<or>
        (z = Inr 0 \<and> ?rest (?release w2) = (w', r)) \<or>
        (\<exists>n. z = Inr n \<and> n \<noteq> 0 \<and> w' = w2 \<and> r = Inr (Some ?job))"
      using run lock x first id upd by (cases z) (simp_all split: if_splits)
    from claimUpdate_effect [OF laws head due upd] show ?thesis
    proof
      assume un: "sameJobs db w1 w2 \<and> (\<forall>n. z = Inr n \<longrightarrow> n = 0)"
      with same have "sameJobs db w w2" by (simp add: sameJobs_def)
      from release [OF this] rest [OF release [OF this]] out un show ?thesis
        by (auto simp: claimResult_def)
    next
      assume set: "(\<forall>w'. sameJobs db w2 w' \<longrightarrow> claims db w1 now leaseUntil (token i) d w') \<and> z \<noteq> Inr 0"
      have "sameJobs db w2 w' \<and> (r = Inl JobDriver \<or> r = Inr (Some ?job))"
        using out set releaseLock_jobs [OF laws] by auto
      moreover from this set have "claims db w now leaseUntil (token i) d w'"
        by (simp add: claims_same [OF same, symmetric])
      ultimately show ?thesis unfolding claimResult_def by blast
    qed
  qed
qed

lemma Claim_effect:
  assumes laws: "jobLaws db" and run: "Claim db hex token w now leaseUntil = (w', r)"
  shows "claimResult db hex now leaseUntil token w w' r"
proof (cases "jdbFindJobs db w jobOpen")
  case (Inr ds)
  with run have "claimLoop db hex now leaseUntil token 0 w (claimCandidates now ds) = (w', r)"
    by (simp add: Claim_def)
  from claimLoop_effect [OF laws _ this] candidates_head [OF laws Inr] show ?thesis by simp
qed (use run in \<open>auto simp: Claim_def claimResult_def\<close>)

end
