(* ===== verification/IrcHistory.thy ===== *)
theory IrcHistory
  imports IrcWorker EngineHistory
begin

text \<open>
  The history of the IRC queue. \<open>queueStep\<close> has one rule for each single call of the driver by which
  \<open>irc_jobs.go\<close> writes, made by any number of workers, readers of receipts and referees in any order,
  so a worker that stalls between two calls is a history in which others act in between. The
  interpretation \<open>queue\<close> of \<open>step_system\<close> says what every history keeps and how the documents
  evolve; \<open>RunOnce\<close> of a worker that runs alone is one such history.
\<close>

section \<open>Steps\<close>

text \<open>
  Beside the database: how far the pass of \<open>Claim\<close> that made a token has come (it has asked for the
  lock of a channel, or it has found a document and not written it yet), and the jobs handed to workers.
\<close>

datatype Pass = NoPass | Locking string | Picked JobDocument | PassEnded

record 'w Queue =
  quWorld :: 'w
  quPass :: "string \<Rightarrow> Pass"
  quJobs :: "Job set"

text \<open>The filters and updates of the reports; a failure is recorded for a job a worker has.\<close>

definition retryable :: "ObjectID \<Rightarrow> string \<Rightarrow> JobDocument \<Rightarrow> bool" where
  "retryable mid channel d \<longleftrightarrow> jdMatchID d = mid \<and> jdChannel d = channel \<and> jdStatus d = JobFailed"

inductive jobWrite ::
  "Job set \<Rightarrow> string \<Rightarrow> (JobDocument \<Rightarrow> bool) \<Rightarrow> (JobDocument \<Rightarrow> JobDocument) \<Rightarrow> bool" for jobs where
  Sent: "jobWrite jobs i (sendingBy token) (sentUpdate sentAt deadline)"
| Acked: "jobWrite jobs i (heldBy token) (ackUpdate at)"
| Rejected: "jobWrite jobs i (heldBy token) (rejectUpdate now message)"
| Cancelled: "jobWrite jobs i (sendingBy token) (cancelUpdate now message)"
| Retried: "jobWrite jobs i (retryable mid channel) (retryUpdate at)"
| Failed: "job \<in> jobs \<Longrightarrow> jobAttempts job + 1 < maxAutomaticAttempts \<Longrightarrow>
    jobWrite jobs (jobID job) (heldBy (jobLeaseToken job)) (failUpdate now message retryAt)"

inductive_cases jobWriteE: "jobWrite jobs i P u"

text \<open>
  With \<open>prompt\<close> the write of a claim happens while the worker still has the channel's lock, that is
  before the lock's lease has run out and another worker has taken it over.
\<close>

inductive queueStep :: "'w JobDb \<Rightarrow> HexCodec \<Rightarrow> bool \<Rightarrow> 'w Queue \<Rightarrow> 'w Queue \<Rightarrow> bool" for db hex prompt where
  Enqueues: "jobComplete job \<Longrightarrow> jdbUpsertJob db (quWorld q) (newJobDocument mid now job) = (w', x) \<Longrightarrow>
    queueStep db hex prompt q (q\<lparr>quWorld := w'\<rparr>)"
| Locks: "quPass q token = NoPass \<Longrightarrow> jdbTakeLock db (quWorld q) c token now until = (w', x) \<Longrightarrow>
    queueStep db hex prompt q (q\<lparr>quWorld := w', quPass := (quPass q)(token := Locking c)\<rparr>)"
| Picks: "quPass q token = Locking c \<Longrightarrow> earliestOpen db (quWorld q) c = Inr (Some d) \<Longrightarrow>
    queueStep db hex prompt q (q\<lparr>quPass := (quPass q)(token := Picked d)\<rparr>)"
| Claims: "quPass q token = Picked d \<Longrightarrow>
    (prompt \<Longrightarrow> \<exists>until. jdbFindLock db (quWorld q) (jdChannel d) = Some (token, until)) \<Longrightarrow>
    jdbUpdateJob db (quWorld q) (jdID d) (\<lambda>x. jdStatus x = jdStatus d) (claimUpdate token now leaseUntil)
      = (w', x) \<Longrightarrow>
    queueStep db hex prompt q
      (q\<lparr>quWorld := w', quPass := (quPass q)(token := PassEnded),
        quJobs := (case x of Inr (Suc n) \<Rightarrow>
                     insert ((jobFromDocument hex d)\<lparr>jobLeaseToken := token\<rparr>) (quJobs q)
                   | _ \<Rightarrow> quJobs q)\<rparr>)"
| Releases: "jdbReleaseLock db (quWorld q) c token = (w', x) \<Longrightarrow>
    queueStep db hex prompt q (q\<lparr>quWorld := w'\<rparr>)"
| Writes: "jobWrite (quJobs q) i P u \<Longrightarrow> jdbUpdateJob db (quWorld q) i P u = (w', x) \<Longrightarrow>
    queueStep db hex prompt q (q\<lparr>quWorld := w'\<rparr>)"

inductive_cases queueStepE: "queueStep db hex prompt q q'"

section \<open>What a step writes\<close>

abbreviation jobAt :: "'w JobDb \<Rightarrow> 'w \<Rightarrow> string \<Rightarrow> JobDocument \<Rightarrow> bool" where
  "jobAt db w i d \<equiv> jdbFindJob db w i = Inr (Some d)"

definition jobChange ::
  "'w JobDb \<Rightarrow> bool \<Rightarrow> 'w Queue \<Rightarrow> 'w Queue \<Rightarrow> JobDocument \<Rightarrow> JobDocument \<Rightarrow> bool" where
  "jobChange db prompt q q' d d' \<longleftrightarrow>
     (\<exists>token e now leaseUntil. quPass q token = Picked e \<and> quPass q' token = PassEnded \<and>
        (prompt \<longrightarrow> (\<exists>until. jdbFindLock db (quWorld q) (jdChannel e) = Some (token, until))) \<and>
        jdID d = jdID e \<and> jdStatus d = jdStatus e \<and> d' = claimUpdate token now leaseUntil d) \<or>
     (\<exists>P u. jobWrite (quJobs q) (jdID d) P u \<and> P d \<and> d' = u d)"

text \<open>A document is rewritten, or a new one appears, or nothing changes.\<close>

lemma queueStep_jobs:
  assumes laws: "jobLaws db" and step: "queueStep db hex prompt q q'"
  shows "sameJobs db (quWorld q) (quWorld q') \<or>
    (\<exists>i d d'. jobAt db (quWorld q) i d \<and> jobChange db prompt q q' d d' \<and> jobWritten db (quWorld q) i d' (quWorld q')) \<or>
    (\<exists>i mid now job. jdbFindJob db (quWorld q) i = Inr None \<and> jobID job = i \<and>
       jobWritten db (quWorld q) i (newJobDocument mid now job) (quWorld q'))"
    (is "?same \<or> ?change \<or> ?new")
  using step
proof (cases rule: queueStep.cases)
  case (Enqueues job mid now w' x)
  from jobLawsD(3) [OF laws, unfolded upsertJobLaw_def, rule_format, OF Enqueues(3)] Enqueues(1)
  have "?same \<or> jdbFindJob db (quWorld q) (jobID job) = Inr None \<and>
      jobWritten db (quWorld q) (jobID job) (newJobDocument mid now job) (quWorld q')"
    by (auto simp: newJobDocument_def)
  then show ?thesis by blast
next
  case (Locks token c now until w' x)
  then show ?thesis using takeLock_jobs [OF laws Locks(3)] by simp
next
  case (Claims token d now leaseUntil w' x)
  from jobLawsD(2) [OF laws, unfolded updateJobLaw_def, rule_format, OF Claims(4)]
  show ?thesis
  proof (elim conjE disjE exE)
    fix e assume e: "jobAt db (quWorld q) (jdID d) e" "jdStatus e = jdStatus d"
      "jobWritten db (quWorld q) (jdID d) (claimUpdate token now leaseUntil e) w'"
    have "jobChange db prompt q q' e (claimUpdate token now leaseUntil e)"
      unfolding jobChange_def using Claims(1,2,3) e(2) jobKeyed [OF laws e(1)] by auto
    with e Claims(1) show ?thesis by auto
  qed (use Claims(1) in simp)
next
  case (Releases c token w' x)
  from jobLawsD(5) [OF laws, unfolded releaseLockLaw_def, rule_format, OF Releases(2)] Releases(1)
  show ?thesis by simp
next
  case (Writes i P u w' x)
  from jobLawsD(2) [OF laws, unfolded updateJobLaw_def, rule_format, OF Writes(3)] Writes(1,2)
    jobKeyed [OF laws]
  have "?same \<or> ?change" unfolding jobChange_def by fastforce
  then show ?thesis by blast
qed simp

lemmas jobUpdates = sentUpdate_def ackUpdate_def rejectUpdate_def cancelUpdate_def retryUpdate_def
  failUpdate_def claimUpdate_def

lemmas jobFilters = sendingBy_def heldBy_def retryable_def jobOpen_def

text \<open>How far a job is from being claimed again: only a claim takes it back to 0.\<close>

definition jobRank :: "JobDocument \<Rightarrow> nat" where
  "jobRank d = (case jdStatus d of JobSending \<Rightarrow> 0 | JobSent \<Rightarrow> 1 | JobFailed \<Rightarrow> 2 | JobPending \<Rightarrow> 3 | _ \<Rightarrow> 4)"

definition sameOrder :: "JobDocument \<Rightarrow> JobDocument \<Rightarrow> bool" where
  "sameOrder d d' \<longleftrightarrow> jdID d' = jdID d \<and> jdMatchID d' = jdMatchID d \<and> jdChannel d' = jdChannel d \<and>
     jdKind d' = jdKind d \<and> jdAckTarget d' = jdAckTarget d \<and> jdSequence d' = jdSequence d \<and>
     jdPayload d' = jdPayload d \<and> jdCreatedAt d' = jdCreatedAt d"

lemma jobWrite_facts:
  assumes "jobWrite jobs i P u" and "P d"
  shows "jobOpen d" "jdStatus d \<noteq> JobPending" "jobRank d < jobRank (u d)" "sameOrder d (u d)"
    "jdAttempts d \<le> jdAttempts (u d)"
    "jdLeaseToken (u d) \<noteq> None \<Longrightarrow> jdLeaseToken (u d) = jdLeaseToken d \<and> jdAttempts (u d) = jdAttempts d"
    "jdStatus (u d) = JobFailed \<Longrightarrow> jdAutomaticRetry (u d) \<Longrightarrow>
       \<exists>job\<in>jobs. jdLeaseToken d = Some (jobLeaseToken job) \<and> jobAttempts job + 1 < maxAutomaticAttempts \<and>
         jdAttempts (u d) = jdAttempts d + 1"
  using assms by (cases rule: jobWrite.cases; auto simp: jobUpdates jobFilters jobRank_def sameOrder_def)+

lemma claimUpdate_facts:
  "sameOrder d (claimUpdate token now u d)" "jdStatus (claimUpdate token now u d) = JobSending"
  "jdAttempts (claimUpdate token now u d) = jdAttempts d"
  "jdLeaseToken (claimUpdate token now u d) = Some token"
  by (simp_all add: claimUpdate_def sameOrder_def)

lemma sameOrder_key: "sameOrder d d' \<Longrightarrow> jobKey d' = jobKey d \<and> jdChannel d' = jdChannel d \<and> jdID d' = jdID d"
  by (simp add: sameOrder_def jobKey_def)

lemma sameOrder_trans: "sameOrder d e \<Longrightarrow> sameOrder e f \<Longrightarrow> sameOrder d f"
  by (simp add: sameOrder_def)

section \<open>What every history keeps\<close>

text \<open>
  A token is on a document only when its pass is over, on a lock only when its pass has begun; a
  document that was found was open and is still the same job.
\<close>

definition queueOk :: "'w JobDb \<Rightarrow> 'w Queue \<Rightarrow> bool" where
  "queueOk db q \<longleftrightarrow>
     (\<forall>i d t. jobAt db (quWorld q) i d \<and> jdLeaseToken d = Some t \<longrightarrow> quPass q t = PassEnded) \<and>
     (\<forall>c t until. jdbFindLock db (quWorld q) c = Some (t, until) \<longrightarrow> quPass q t \<noteq> NoPass) \<and>
     (\<forall>job\<in>quJobs q. quPass q (jobLeaseToken job) = PassEnded) \<and>
     (\<forall>t d. quPass q t = Picked d \<longrightarrow> jobOpen d \<and> (\<exists>e. jobAt db (quWorld q) (jdID d) e \<and> sameOrder d e))"

text \<open>
  With prompt claims: while a worker keeps the lock, the document it found can only have moved away from
  being claimed; a worker's copy of a job has the right number of attempts; and a job that is
  retried automatically has failed less often than the limit.
\<close>

definition promptOk :: "'w JobDb \<Rightarrow> 'w Queue \<Rightarrow> bool" where
  "promptOk db q \<longleftrightarrow>
     (\<forall>t d until. quPass q t = Picked d \<and> jdbFindLock db (quWorld q) (jdChannel d) = Some (t, until) \<longrightarrow>
        (\<exists>e. jobAt db (quWorld q) (jdID d) e \<and> (e = d \<or> jobRank d < jobRank e))) \<and>
     (\<forall>job\<in>quJobs q. \<forall>i d. jobAt db (quWorld q) i d \<and> jdLeaseToken d = Some (jobLeaseToken job) \<longrightarrow>
        jdAttempts d = jobAttempts job) \<and>
     (\<forall>i d. jobAt db (quWorld q) i d \<and> jdStatus d = JobFailed \<and> jdAutomaticRetry d \<longrightarrow>
        jdAttempts d < maxAutomaticAttempts)"

text \<open>
  How documents evolve: a job keeps its identity, its order and its payload, is never retried less
  often than before, and does not change at all any more once it is acknowledged or cancelled.
\<close>

definition jobsGrow :: "'w JobDb \<Rightarrow> 'w \<Rightarrow> 'w \<Rightarrow> bool" where
  "jobsGrow db w w' \<longleftrightarrow>
     (\<forall>i d. jobAt db w i d \<longrightarrow>
        (\<exists>d'. jobAt db w' i d' \<and> sameOrder d d' \<and> jdAttempts d \<le> jdAttempts d' \<and> (\<not> jobOpen d \<longrightarrow> d' = d)))"

lemma sameOrder_refl [simp]: "sameOrder d d" by (simp add: sameOrder_def)

lemma jobsGrow_refl: "jobsGrow db w w" by (auto simp: jobsGrow_def)

lemma jobsGrow_trans:
  assumes "jobsGrow db u v" and "jobsGrow db v w"
  shows "jobsGrow db u w"
  unfolding jobsGrow_def
proof (intro allI impI)
  fix i d assume "jobAt db u i d"
  then obtain e where e: "jobAt db v i e" "sameOrder d e" "jdAttempts d \<le> jdAttempts e" "\<not> jobOpen d \<longrightarrow> e = d"
    using assms(1) by (auto simp: jobsGrow_def)
  then obtain f where "jobAt db w i f" "sameOrder e f" "jdAttempts e \<le> jdAttempts f" "\<not> jobOpen e \<longrightarrow> f = e"
    using assms(2) by (auto simp: jobsGrow_def)
  with e show "\<exists>d'. jobAt db w i d' \<and> sameOrder d d' \<and> jdAttempts d \<le> jdAttempts d' \<and>
      (\<not> jobOpen d \<longrightarrow> d' = d)"
    using sameOrder_trans by auto
qed

lemma jobChange_facts:
  assumes "queueOk db q" and "jobChange db prompt q q' d d'"
  shows "sameOrder d d'" "jdAttempts d \<le> jdAttempts d'" "jobOpen d"
proof -
  have picked: "jobOpen d" if "quPass q t = Picked e" "jdStatus d = jdStatus e" for t e
    using assms(1) that by (auto simp: queueOk_def jobOpen_def)
  show "sameOrder d d'" "jdAttempts d \<le> jdAttempts d'" "jobOpen d"
    using assms(2) picked claimUpdate_facts jobWrite_facts(1,4,5) by (auto simp: jobChange_def)
qed

lemma queueStep_grows:
  assumes laws: "jobLaws db" and ok: "queueOk db q" and step: "queueStep db hex prompt q q'"
  shows "jobsGrow db (quWorld q) (quWorld q')"
  using queueStep_jobs [OF laws step] jobChange_facts [OF ok]
  unfolding jobsGrow_def jobWritten_def sameJobs_def by (auto split: if_splits)

text \<open>What the calls do to the locks.\<close>

lemma queueStep_locks:
  assumes laws: "jobLaws db" and step: "queueStep db hex prompt q q'"
    and lock: "jdbFindLock db (quWorld q') c = Some (t, until)"
  shows "(\<exists>until. jdbFindLock db (quWorld q) c = Some (t, until)) \<or> quPass q t = NoPass \<and> quPass q' t = Locking c"
  using step
proof (cases rule: queueStep.cases)
  case (Enqueues job mid now w' x)
  from jobLawsD(3) [OF laws, unfolded upsertJobLaw_def, rule_format, OF Enqueues(3)] Enqueues(1) lock
  show ?thesis by (auto simp: sameLocks_def)
next
  case (Locks token c' now until' w' x)
  from jobLawsD(4) [OF laws, unfolded takeLockLaw_def, rule_format, OF Locks(3)] Locks(1,2) lock
  show ?thesis by (auto simp: sameLocks_def split: if_splits)
next
  case (Claims token d now leaseUntil w' x)
  from jobLawsD(2) [OF laws, unfolded updateJobLaw_def, rule_format, OF Claims(4)] Claims(1) lock
  show ?thesis by (auto simp: sameLocks_def)
next
  case (Releases c' token w' x)
  from jobLawsD(5) [OF laws, unfolded releaseLockLaw_def, rule_format, OF Releases(2)] Releases(1) lock
  show ?thesis by (auto simp: sameLocks_def split: if_splits)
next
  case (Writes i P u w' x)
  from jobLawsD(2) [OF laws, unfolded updateJobLaw_def, rule_format, OF Writes(3)] Writes(1) lock
  show ?thesis by (auto simp: sameLocks_def)
qed (use lock in simp)

text \<open>A pass goes its way: it begins, it finds an open job of its channel, it ends.\<close>

lemma queueStep_pass:
  assumes "jobLaws db" and "queueStep db hex prompt q q'"
  shows "quPass q t = PassEnded \<Longrightarrow> quPass q' t = PassEnded"
    and "quPass q' t = NoPass \<Longrightarrow> quPass q t = NoPass"
    and "quPass q' t = Picked d \<Longrightarrow> quPass q t = Picked d \<or>
      headJob db (quWorld q) d \<and> quWorld q' = quWorld q"
  using assms(2) earliestOpen_head [OF assms(1)]
  by (auto elim!: queueStepE split: if_splits)

lemma queueOkD:
  assumes "queueOk db q"
  shows "jobAt db (quWorld q) i d \<Longrightarrow> jdLeaseToken d = Some t \<Longrightarrow> quPass q t = PassEnded"
    and "jdbFindLock db (quWorld q) c = Some (t, until) \<Longrightarrow> quPass q t \<noteq> NoPass"
    and "job \<in> quJobs q \<Longrightarrow> quPass q (jobLeaseToken job) = PassEnded"
    and "quPass q t = Picked d \<Longrightarrow> jobOpen d \<and> (\<exists>e. jobAt db (quWorld q) (jdID d) e \<and> sameOrder d e)"
  using assms unfolding queueOk_def by blast+

lemma queueStep_tokens:
  assumes laws: "jobLaws db" and ok: "queueOk db q" and step: "queueStep db hex prompt q q'"
    and at: "jobAt db (quWorld q') i d" and token: "jdLeaseToken d = Some t"
  shows "quPass q' t = PassEnded"
proof -
  note ended = queueStep_pass(1) [OF laws step]
  have old: "quPass q' t = PassEnded" if "jobAt db (quWorld q) i e" "jdLeaseToken e = Some t" for i e
    using queueOkD(1) [OF ok that] ended by blast
  have changed: "quPass q' t = PassEnded"
    if e: "jobAt db (quWorld q) i e" and change: "jobChange db prompt q q' e d" for i e
    using change jobWrite_facts(6) [of _ _ _ _ e] old [OF e] token
    by (auto simp: jobChange_def claimUpdate_facts)
  from queueStep_jobs [OF laws step] at old changed token show ?thesis
    by (auto simp: sameJobs_def jobWritten_def newJobDocument_def split: if_splits)
qed

lemma queueStep_handed:
  assumes "queueStep db hex prompt q q'" and "job \<in> quJobs q'"
  shows "job \<in> quJobs q \<or> (\<exists>t d. quPass q t = Picked d \<and> quPass q' t = PassEnded \<and>
    job = (jobFromDocument hex d)\<lparr>jobLeaseToken := t\<rparr>)"
  using assms by (auto elim!: queueStepE split: sum.splits nat.splits)

lemma queueStep_ok:
  assumes laws: "jobLaws db" and ok: "queueOk db q" and step: "queueStep db hex prompt q q'"
  shows "queueOk db q'"
proof -
  note pass = queueStep_pass [OF laws step]
  have "quPass q' t \<noteq> NoPass" if "jdbFindLock db (quWorld q') c = Some (t, until)" for c t until
    using queueStep_locks [OF laws step that] queueOkD(2) [OF ok] pass(2) [of t] by auto
  moreover have "jobOpen d \<and> (\<exists>e. jobAt db (quWorld q') (jdID d) e \<and> sameOrder d e)"
    if "quPass q' t = Picked d" for t d
    using pass(3) [OF that]
  proof
    assume "quPass q t = Picked d"
    then obtain e where e: "jobOpen d" "jobAt db (quWorld q) (jdID d) e" "sameOrder d e"
      using queueOkD(4) [OF ok] by blast
    from queueStep_grows [OF laws ok step, unfolded jobsGrow_def, rule_format, OF e(2)] e(1,3)
    show ?thesis using sameOrder_trans by blast
  next
    assume "headJob db (quWorld q) d \<and> quWorld q' = quWorld q"
    then show ?thesis by (auto simp: headJob_def)
  qed
  moreover have "quPass q' (jobLeaseToken job) = PassEnded" if "job \<in> quJobs q'" for job
    using queueStep_handed [OF step that] queueOkD(3) [OF ok] pass(1) by auto
  ultimately show ?thesis using queueStep_tokens [OF laws ok step] unfolding queueOk_def by blast
qed

lemma promptOkD:
  assumes "promptOk db q"
  shows "quPass q t = Picked d \<Longrightarrow> jdbFindLock db (quWorld q) (jdChannel d) = Some (t, until) \<Longrightarrow>
      \<exists>e. jobAt db (quWorld q) (jdID d) e \<and> (e = d \<or> jobRank d < jobRank e)"
    and "job \<in> quJobs q \<Longrightarrow> jobAt db (quWorld q) i d \<Longrightarrow> jdLeaseToken d = Some (jobLeaseToken job) \<Longrightarrow>
      jdAttempts d = jobAttempts job"
    and "jobAt db (quWorld q) i d \<Longrightarrow> jdStatus d = JobFailed \<Longrightarrow> jdAutomaticRetry d \<Longrightarrow>
      jdAttempts d < maxAutomaticAttempts"
  using assms unfolding promptOk_def by blast+

text \<open>A prompt claim writes the document that was found.\<close>

lemma jobRank_status: "jdStatus d = jdStatus e \<Longrightarrow> jobRank d = jobRank e"
  by (simp add: jobRank_def)

lemma jobChange_prompt:
  assumes laws: "jobLaws db" and ok: "queueOk db q" and prompt: "promptOk db q"
    and at: "jobAt db (quWorld q) i d" and change: "jobChange db True q q' d d'"
  shows "(\<exists>t until now until'. quPass q t = Picked d \<and> quPass q' t = PassEnded \<and>
      jdbFindLock db (quWorld q) (jdChannel d) = Some (t, until) \<and> d' = claimUpdate t now until' d) \<or>
    (\<exists>P u. jobWrite (quJobs q) i P u \<and> P d \<and> d' = u d)"
  using change unfolding jobChange_def
proof (elim disjE exE conjE)
  fix t e now leaseUntil
  assume e: "quPass q t = Picked e" "quPass q' t = PassEnded" "jdID d = jdID e" "jdStatus d = jdStatus e"
    "d' = claimUpdate t now leaseUntil d"
    "True \<longrightarrow> (\<exists>until. jdbFindLock db (quWorld q) (jdChannel e) = Some (t, until))"
  then obtain until where lock: "jdbFindLock db (quWorld q) (jdChannel e) = Some (t, until)" by blast
  from promptOkD(1) [OF prompt e(1) lock] jobKeyed [OF laws at] at e(3) jobRank_status [OF e(4)]
  have "d = e" by auto
  with e lock show ?thesis by blast
qed (use jobKeyed [OF laws at] in blast)

lemma queueStep_limit:
  assumes laws: "jobLaws db" and ok: "queueOk db q" and prompt: "promptOk db q"
    and step: "queueStep db hex True q q'" and at: "jobAt db (quWorld q') i d"
    and failed: "jdStatus d = JobFailed" "jdAutomaticRetry d"
  shows "jdAttempts d < maxAutomaticAttempts"
proof -
  have "jdAttempts d < maxAutomaticAttempts"
    if e: "jobAt db (quWorld q) i e" and change: "jobChange db True q q' e d" for i e
    using jobChange_prompt [OF laws ok prompt e change]
  proof (elim disjE exE conjE)
    fix P u assume w: "jobWrite (quJobs q) i P u" "P e" "d = u e"
    from jobWrite_facts(7) [OF w(1,2)] failed w(3) promptOkD(2) [OF prompt _ e]
    show ?thesis by auto
  qed (use failed claimUpdate_facts(2) in auto)
  then show ?thesis
    using queueStep_jobs [OF laws step] at failed promptOkD(3) [OF prompt]
    by (auto simp: sameJobs_def jobWritten_def newJobDocument_def split: if_splits)
qed

lemma queueStep_attempts:
  assumes laws: "jobLaws db" and ok: "queueOk db q" and prompt: "promptOk db q"
    and step: "queueStep db hex True q q'" and job: "job \<in> quJobs q'"
    and at: "jobAt db (quWorld q') i d" and token: "jdLeaseToken d = Some (jobLeaseToken job)"
  shows "jdAttempts d = jobAttempts job"
proof -
  have handed: "job \<in> quJobs q \<or> (\<exists>e. quPass q (jobLeaseToken job) = Picked e \<and> jobAttempts job = jdAttempts e)"
    using queueStep_handed [OF step job] by (auto simp: jobFromDocument_def)
  have old: "jdAttempts e = jobAttempts job"
    if "jobAt db (quWorld q) i e" "jdLeaseToken e = Some (jobLeaseToken job)" for i e
    using handed promptOkD(2) [OF prompt _ that] queueOkD(1) [OF ok that] by auto
  have "jdAttempts d = jobAttempts job"
    if e: "jobAt db (quWorld q) i e" and change: "jobChange db True q q' e d" for i e
    using jobChange_prompt [OF laws ok prompt e change]
  proof (elim disjE exE conjE)
    fix P u assume w: "jobWrite (quJobs q) i P u" "P e" "d = u e"
    from jobWrite_facts(6) [OF w(1,2)] token w(3) old [OF e] show ?thesis by auto
  next
    fix t now until assume t: "quPass q t = Picked e" "d = claimUpdate t now until e"
    then have "t = jobLeaseToken job" using token by (simp add: claimUpdate_facts)
    with t handed queueOkD(3) [OF ok] show ?thesis by (auto simp: claimUpdate_facts)
  qed
  then show ?thesis
    using queueStep_jobs [OF laws step] at token old
    by (auto simp: sameJobs_def jobWritten_def newJobDocument_def split: if_splits)
qed

lemma queueStep_picked:
  assumes laws: "jobLaws db" and ok: "queueOk db q" and prompt: "promptOk db q"
    and step: "queueStep db hex True q q'" and picked: "quPass q' t = Picked d"
    and lock: "jdbFindLock db (quWorld q') (jdChannel d) = Some (t, until)"
  shows "\<exists>e. jobAt db (quWorld q') (jdID d) e \<and> (e = d \<or> jobRank d < jobRank e)"
  using queueStep_pass(3) [OF laws step picked]
proof
  assume was: "quPass q t = Picked d"
  then obtain until where lock: "jdbFindLock db (quWorld q) (jdChannel d) = Some (t, until)"
    using queueStep_locks [OF laws step lock] by auto
  obtain e where e: "jobAt db (quWorld q) (jdID d) e" "e = d \<or> jobRank d < jobRank e"
    using promptOkD(1) [OF prompt was lock] by blast
  have "jobRank e < jobRank e'" if change: "jobChange db True q q' e e'" for e'
    using jobChange_prompt [OF laws ok prompt e(1) change]
  proof (elim disjE exE conjE)
    fix t' until' assume t': "quPass q t' = Picked e" "quPass q' t' = PassEnded"
      "jdbFindLock db (quWorld q) (jdChannel e) = Some (t', until')"
    have "jdChannel e = jdChannel d"
      using queueOkD(4) [OF ok was] e(1) by (auto simp: sameOrder_def)
    with t' lock have "t' = t" by simp
    with t'(2) picked show ?thesis by simp
  qed (use jobWrite_facts(3) in blast)
  with queueStep_jobs [OF laws step] e show ?thesis
    by (auto simp: sameJobs_def jobWritten_def) (meson less_trans)+
qed (auto simp: headJob_def)

lemma queueStep_promptOk:
  assumes "jobLaws db" and "queueOk db q" and "promptOk db q" and "queueStep db hex True q q'"
  shows "promptOk db q'"
  using queueStep_picked [OF assms] queueStep_attempts [OF assms] queueStep_limit [OF assms]
  unfolding promptOk_def by blast

interpretation queue: step_system "queueStep db hex prompt"
  "\<lambda>q. jobLaws db \<and> queueOk db q" "\<lambda>q q'. jobsGrow db (quWorld q) (quWorld q')"
  by unfold_locales (auto intro: queueStep_ok queueStep_grows jobsGrow_refl jobsGrow_trans)

interpretation prompt_queue: step_system "queueStep db hex True"
  "\<lambda>q. jobLaws db \<and> queueOk db q \<and> promptOk db q" "\<lambda>q q'. jobsGrow db (quWorld q) (quWorld q')"
  by unfold_locales
    (auto intro: queueStep_ok queueStep_promptOk queueStep_grows jobsGrow_refl jobsGrow_trans)

section \<open>The order of a channel\<close>

text \<open>
  The later of two jobs of a channel is pending and nobody has found it, or the earlier one is closed.
\<close>

definition inTurn :: "'w JobDb \<Rightarrow> string \<Rightarrow> string \<Rightarrow> 'w Queue \<Rightarrow> bool" where
  "inTurn db i j q \<longleftrightarrow>
     (\<exists>d e. jobAt db (quWorld q) i d \<and> jobAt db (quWorld q) j e \<and> jdChannel d = jdChannel e \<and>
        jobKey d < jobKey e \<and>
        (\<not> jobOpen d \<or> jdStatus e = JobPending \<and> (\<forall>t p. quPass q t = Picked p \<longrightarrow> jdID p \<noteq> j)))"

lemma jobChange_pending:
  assumes "jobChange db prompt q q' e e'" and "jdStatus e = JobPending"
  shows "\<exists>t p. quPass q t = Picked p \<and> jdID p = jdID e"
  using assms jobWrite_facts(2) unfolding jobChange_def by metis

lemma pending_stays:
  assumes laws: "jobLaws db" and step: "queueStep db hex prompt q q'" and e: "jobAt db (quWorld q) j e"
    "jdStatus e = JobPending" and unpicked: "\<forall>t p. quPass q t = Picked p \<longrightarrow> jdID p \<noteq> j"
  shows "jobAt db (quWorld q') j e"
  using queueStep_jobs [OF laws step]
proof (elim disjE exE conjE)
  fix i d d' assume d: "jobAt db (quWorld q) i d" "jobChange db prompt q q' d d'"
    "jobWritten db (quWorld q) i d' (quWorld q')"
  have "i \<noteq> j" using jobChange_pending [OF d(2)] jobKeyed [OF laws d(1)] d(1) e unpicked by auto
  with d(3) e show ?thesis by (simp add: jobWritten_def)
qed (use e in \<open>auto simp: sameJobs_def jobWritten_def\<close>)

lemma queueStep_inTurn:
  assumes laws: "jobLaws db" and ok: "queueOk db q" and step: "queueStep db hex prompt q q'"
    and turn: "inTurn db i j q"
  shows "inTurn db i j q'"
proof -
  obtain d e where d: "jobAt db (quWorld q) i d" and e: "jobAt db (quWorld q) j e"
    and order: "jdChannel d = jdChannel e" "jobKey d < jobKey e"
    and turn: "\<not> jobOpen d \<or> jdStatus e = JobPending \<and> (\<forall>t p. quPass q t = Picked p \<longrightarrow> jdID p \<noteq> j)"
    using turn by (auto simp: inTurn_def)
  note grows = queueStep_grows [OF laws ok step, unfolded jobsGrow_def, rule_format]
  obtain d' e' where d': "jobAt db (quWorld q') i d'" "sameOrder d d'" "\<not> jobOpen d \<longrightarrow> d' = d"
    and e': "jobAt db (quWorld q') j e'" "sameOrder e e'" using grows [OF d] grows [OF e] by blast
  have order': "jdChannel d' = jdChannel e'" "jobKey d' < jobKey e'"
    using order sameOrder_key [OF d'(2)] sameOrder_key [OF e'(2)] by simp_all
  have "jdStatus e' = JobPending \<and> (\<forall>t p. quPass q' t = Picked p \<longrightarrow> jdID p \<noteq> j)" if "jobOpen d"
  proof -
    have was: "jdStatus e = JobPending" "\<forall>t p. quPass q t = Picked p \<longrightarrow> jdID p \<noteq> j"
      using turn that by auto
    have "jdID p \<noteq> j" if p: "quPass q' t = Picked p" for t p
      using queueStep_pass(3) [OF laws step p]
    proof
      assume head: "headJob db (quWorld q) p \<and> quWorld q' = quWorld q"
      show ?thesis
      proof
        assume "jdID p = j"
        then have "p = e" using head e by (simp add: headJob_def)
        then have "jobKey e \<le> jobKey d" using head d \<open>jobOpen d\<close> order(1) unfolding headJob_def by metis
        with order(2) show False by simp
      qed
    qed (use was(2) in blast)
    then show ?thesis using pending_stays [OF laws step e was] e'(1) was(1) by auto
  qed
  with d' e' order' show ?thesis unfolding inTurn_def by blast
qed

lemma run_inTurn:
  assumes laws: "jobLaws db" and ok: "queueOk db q" and run: "(queueStep db hex prompt)\<^sup>*\<^sup>* q q'"
    and turn: "inTurn db i j q"
  shows "inTurn db i j q'"
  using run
proof (induction rule: rtranclp_induct)
  case (step r s)
  then have "queueOk db r"
    using queue.runs_inv [of db hex prompt q r] laws ok by blast
  with step show ?case using queueStep_inTurn [OF laws] by blast
qed (rule turn)

section \<open>Calls are histories\<close>

abbreviation queueRun :: "'w JobDb \<Rightarrow> HexCodec \<Rightarrow> 'w Queue \<Rightarrow> 'w Queue \<Rightarrow> bool" where
  "queueRun db hex \<equiv> (queueStep db hex True)\<^sup>*\<^sup>*"

text \<open>A call that leads from a state to a world is a history to a state with that world.\<close>

definition queueReach :: "'w JobDb \<Rightarrow> HexCodec \<Rightarrow> 'w Queue \<Rightarrow> 'w \<Rightarrow> bool" where
  "queueReach db hex q w' \<longleftrightarrow> (\<exists>q'. queueRun db hex q q' \<and> quWorld q' = w' \<and> quJobs q \<subseteq> quJobs q')"

lemma queueReach_step:
  "queueStep db hex True q q' \<Longrightarrow> quJobs q \<subseteq> quJobs q' \<Longrightarrow> queueReach db hex q' w' \<Longrightarrow> queueReach db hex q w'"
  unfolding queueReach_def using converse_rtranclp_into_rtranclp [of "queueStep db hex True" q q'] by fast

lemma queueReach_here: "w' = quWorld q \<Longrightarrow> queueReach db hex q w'"
  unfolding queueReach_def by blast

lemma releaseLock_run: "queueReach db hex q (releaseLock db (quWorld q) c token)"
proof (cases "c = '''' \<or> token = ''''")
  case False
  obtain v x where v: "jdbReleaseLock db (quWorld q) c token = (v, x)" by fastforce
  with False have "releaseLock db (quWorld q) c token = v" by (simp add: releaseLock_def)
  with queueReach_step [OF Releases [OF v]] show ?thesis by (simp add: queueReach_here)
qed (auto simp: releaseLock_def intro: queueReach_here)

lemma updateClaimed_run:
  assumes "jobWrite (quJobs q) i P u" and "updateClaimed db (quWorld q) i P u = (w', r)"
  shows "queueReach db hex q w'"
proof -
  obtain x where "jdbUpdateJob db (quWorld q) i P u = (w', x)"
    using assms(2) by (auto simp: updateClaimed_def split: prod.splits sum.splits)
  from queueReach_step [OF Writes [OF assms(1) this]] show ?thesis by (simp add: queueReach_here)
qed

lemma endClaim_run:
  assumes wr: "jobWrite (quJobs q) i P u" and run: "endClaim db (quWorld q) i token P u = (w', r)"
  shows "queueReach db hex q w'"
proof -
  obtain v y where v: "updateClaimed db (quWorld q) i P u = (v, y)" by fastforce
  then obtain x where x: "jdbUpdateJob db (quWorld q) i P u = (v, x)"
    by (auto simp: updateClaimed_def split: prod.splits sum.splits)
  note step = queueReach_step [OF Writes [OF wr x]]
  have "w' = v \<or> (\<exists>c. w' = releaseLock db v c token)"
    using run v by (auto simp: endClaim_def split: option.splits sum.splits)
  then show ?thesis
    using step releaseLock_run [of db hex "q\<lparr>quWorld := v\<rparr>"] by (auto simp: queueReach_here)
qed

lemma workerFail_run:
  assumes "job \<in> quJobs q" and "workerFail db now (quWorld q) job message = (w', r)"
  shows "queueReach db hex q w'"
  using assms endClaim_run [OF Rejected] endClaim_run [OF Failed [OF assms(1)]]
  by (auto simp: workerFail_def RejectJob_def Fail_def queueReach_here split: if_splits)

text \<open>Every other operation of the store.\<close>

lemma operations_run:
  shows "MarkSent db (quWorld q) i token sentAt deadline = (w', r) \<Longrightarrow> queueReach db hex q w'"
    and "Ack db (quWorld q) i token at = (w', r) \<Longrightarrow> queueReach db hex q w'"
    and "RejectJob db now (quWorld q) i token message = (w', r) \<Longrightarrow> queueReach db hex q w'"
    and "CancelJob db now (quWorld q) i token message = (w', r) \<Longrightarrow> queueReach db hex q w'"
    and "RetryJob db (quWorld q) mid i channel at = (w', r) \<Longrightarrow> queueReach db hex q w'"
    and "Enqueue db hex now (quWorld q) job = (w', r) \<Longrightarrow> queueReach db hex q w'"
proof -
  show "MarkSent db (quWorld q) i token sentAt deadline = (w', r) \<Longrightarrow> queueReach db hex q w'"
    using updateClaimed_run [OF Sent] by (simp add: MarkSent_def)
  show "Ack db (quWorld q) i token at = (w', r) \<Longrightarrow> queueReach db hex q w'"
    using endClaim_run [OF Acked] by (simp add: Ack_def)
  show "RejectJob db now (quWorld q) i token message = (w', r) \<Longrightarrow> queueReach db hex q w'"
    using endClaim_run [OF Rejected] by (auto simp: RejectJob_def queueReach_here split: if_splits)
  show "CancelJob db now (quWorld q) i token message = (w', r) \<Longrightarrow> queueReach db hex q w'"
    using endClaim_run [OF Cancelled] by (auto simp: CancelJob_def queueReach_here split: if_splits)
  show "RetryJob db (quWorld q) mid i channel at = (w', r) \<Longrightarrow> queueReach db hex q w'"
    using updateClaimed_run [OF Retried [unfolded retryable_def [abs_def]]]
    by (auto simp: RetryJob_def queueReach_here split: if_splits)
  show "Enqueue db hex now (quWorld q) job = (w', r) \<Longrightarrow> queueReach db hex q w'"
  proof (cases "\<exists>mid. hexParse hex (jobMatchID job) = Some mid \<and> jobComplete job")
    case True
    then obtain mid where mid: "hexParse hex (jobMatchID job) = Some mid" "jobComplete job" by blast
    obtain v x where v: "jdbUpsertJob db (quWorld q) (newJobDocument mid now job) = (v, x)" by fastforce
    assume "Enqueue db hex now (quWorld q) job = (w', r)"
    then have "w' = v" using v mid by (auto simp: Enqueue_def split: sum.splits option.splits)
    with queueReach_step [OF Enqueues [OF mid(2) v]] show ?thesis by (simp add: queueReach_here)
  qed (auto simp: Enqueue_def queueReach_here split: option.splits)
qed

text \<open>
  The passes of \<open>Claim\<close>: tokens nobody has used, each used once. The job that is returned is handed
  to the worker.
\<close>

definition claimReach ::
  "'w JobDb \<Rightarrow> HexCodec \<Rightarrow> 'w Queue \<Rightarrow> 'w \<Rightarrow> JobError + Job option \<Rightarrow> bool" where
  "claimReach db hex q w' r \<longleftrightarrow>
     (\<exists>q'. queueRun db hex q q' \<and> quWorld q' = w' \<and> quJobs q \<subseteq> quJobs q' \<and>
        (\<forall>job. r = Inr (Some job) \<longrightarrow> job \<in> quJobs q'))"

lemma claimReach_step:
  assumes "queueStep db hex True q q'" and "quJobs q \<subseteq> quJobs q'" and "claimReach db hex q' w' r"
  shows "claimReach db hex q w' r"
  using assms converse_rtranclp_into_rtranclp [of "queueStep db hex True" q q']
  unfolding claimReach_def by fast

lemma claimReach_none: "(\<And>job. r \<noteq> Inr (Some job)) \<Longrightarrow> queueReach db hex q w' \<Longrightarrow> claimReach db hex q w' r"
  unfolding claimReach_def queueReach_def by blast

lemma claimReach_released:
  assumes "claimReach db hex (q\<lparr>quWorld := releaseLock db (quWorld q) c token\<rparr>) w' r"
  shows "claimReach db hex q w' r"
proof (cases "c = '''' \<or> token = ''''")
  case False
  obtain v x where v: "jdbReleaseLock db (quWorld q) c token = (v, x)" by fastforce
  with False have "releaseLock db (quWorld q) c token = v" by (simp add: releaseLock_def)
  with claimReach_step [OF Releases [OF v]] assms show ?thesis by simp
qed (use assms in \<open>auto simp: releaseLock_def\<close>)

text \<open>A pass that takes the lock and finds a document at the head of the channel.\<close>

lemma claimPass_run:
  assumes laws: "jobLaws db" and pass: "quPass q token = NoPass"
    and lock: "jdbTakeLock db (quWorld q) c token now until = (w1, Inr ())"
    and first: "earliestOpen db w1 c = Inr (Some d)"
    and upd: "jdbUpdateJob db w1 (jdID d) (\<lambda>x. jdStatus x = jdStatus d)
                (claimUpdate token now leaseUntil) = (w2, z)"
  shows "\<exists>q2. (\<forall>w' r. claimReach db hex q2 w' r \<longrightarrow> claimReach db hex q w' r) \<and> quWorld q2 = w2 \<and>
    (\<forall>t. t \<noteq> token \<longrightarrow> quPass q2 t = quPass q t) \<and>
    (\<forall>n. z = Inr (Suc n) \<longrightarrow> (jobFromDocument hex d)\<lparr>jobLeaseToken := token\<rparr> \<in> quJobs q2)"
proof -
  let ?q0 = "q\<lparr>quWorld := w1, quPass := (quPass q)(token := Locking c)\<rparr>"
  let ?q1 = "?q0\<lparr>quPass := (quPass ?q0)(token := Picked d)\<rparr>"
  let ?q2 = "?q1\<lparr>quWorld := w2, quPass := (quPass ?q1)(token := PassEnded),
      quJobs := (case z of Inr (Suc n) \<Rightarrow> insert ((jobFromDocument hex d)\<lparr>jobLeaseToken := token\<rparr>) (quJobs ?q1)
                 | _ \<Rightarrow> quJobs ?q1)\<rparr>"
  have held: "\<exists>until. jdbFindLock db (quWorld ?q1) (jdChannel d) = Some (token, until)"
    using jobLawsD(4) [OF laws, unfolded takeLockLaw_def, rule_format, OF lock]
      earliestOpen_head [OF laws first] by simp
  have pass0: "quPass ?q0 token = Locking c" and first0: "earliestOpen db (quWorld ?q0) c = Inr (Some d)"
    and pass1: "quPass ?q1 token = Picked d"
    and upd1: "jdbUpdateJob db (quWorld ?q1) (jdID d) (\<lambda>x. jdStatus x = jdStatus d)
      (claimUpdate token now leaseUntil) = (w2, z)" using first upd by simp_all
  have "claimReach db hex q w' r" if "claimReach db hex ?q2 w' r" for w' r
  proof -
    have "claimReach db hex ?q1 w' r"
      by (rule claimReach_step [OF Claims [OF pass1 held upd1] _ that]) (auto split: sum.splits nat.splits)
    then have "claimReach db hex ?q0 w' r" using claimReach_step [OF Picks [OF pass0 first0]] by simp
    then show ?thesis using claimReach_step [OF Locks [OF pass lock]] by simp
  qed
  then show ?thesis by (intro exI [of _ ?q2]) auto
qed

lemma claimLoop_run:
  assumes laws: "jobLaws db" and inj: "inj token"
    and "\<And>k. i \<le> k \<Longrightarrow> quPass q (token k) = NoPass"
    and "claimLoop db hex now leaseUntil token i (quWorld q) cs = (w', r)"
  shows "claimReach db hex q w' r"
  using assms(3,4)
proof (induction cs arbitrary: i q)
  case Nil
  then show ?case by (intro claimReach_none queueReach_here) auto
next
  case (Cons c cs)
  let ?t = "token i"
  let ?rest = "\<lambda>v. claimLoop db hex now leaseUntil token (i + 1) v cs"
  let ?release = "\<lambda>v. releaseLock db v (jdChannel c) ?t"
  note run = Cons.prems(2)
  obtain w1 x where lock: "jdbTakeLock db (quWorld q) (jdChannel c) ?t now leaseUntil = (w1, x)" by fastforce
  have other: "token k \<noteq> ?t" if "i + 1 \<le> k" for k using injD [OF inj, of k i] that by auto
  have rest: "claimReach db hex q2 w' r"
    if "?rest (quWorld q2) = (w', r)" "\<forall>t. t \<noteq> ?t \<longrightarrow> quPass q2 t = quPass q t" for q2
    using Cons.IH [OF _ that(1)] that(2) other Cons.prems(1) by simp
  have none: "claimReach db hex q2 v r" if "quWorld q2 = v" "\<And>job. r \<noteq> Inr (Some job)" for q2 v
    using that by (intro claimReach_none queueReach_here) auto
  have released: "claimReach db hex q2 w' r"
    if "?rest (?release (quWorld q2)) = (w', r) \<or> ?release (quWorld q2) = w' \<and> (\<forall>job. r \<noteq> Inr (Some job))"
      "\<forall>t. t \<noteq> ?t \<longrightarrow> quPass q2 t = quPass q t" for q2
    using that by (intro claimReach_released [of db hex q2 "jdChannel c" ?t]) (auto intro: rest none)
  show ?case
  proof (cases "x = Inr () \<and> (\<exists>d. earliestOpen db w1 (jdChannel c) = Inr (Some d) \<and> jdID d = jdID c)")
    case False
    then have "?rest w1 = (w', r) \<or> ?rest (?release w1) = (w', r) \<or>
        (w' = w1 \<or> ?release w1 = w') \<and> (\<forall>job. r \<noteq> Inr (Some job))"
      using run unfolding claimLoop.simps(2) lock prod.case
      by (auto split: sum.splits option.splits if_splits)
    then show ?thesis
      using rest released
      by (intro claimReach_step [OF Locks [OF Cons.prems(1) lock]]) (auto intro: none)
  next
    case True
    then obtain d where first: "earliestOpen db w1 (jdChannel c) = Inr (Some d)" and id: "jdID d = jdID c"
      and x: "x = Inr ()" by blast
    obtain w2 z where upd: "jdbUpdateJob db w1 (jdID d) (\<lambda>x. jdStatus x = jdStatus d)
        (claimUpdate ?t now leaseUntil) = (w2, z)" by fastforce
    obtain q2 where q2: "\<forall>w' r. claimReach db hex q2 w' r \<longrightarrow> claimReach db hex q w' r" "quWorld q2 = w2"
      "\<forall>t. t \<noteq> ?t \<longrightarrow> quPass q2 t = quPass q t"
      "\<forall>n. z = Inr (Suc n) \<longrightarrow> (jobFromDocument hex d)\<lparr>jobLeaseToken := ?t\<rparr> \<in> quJobs q2"
      using claimPass_run [OF laws Cons.prems(1) lock [unfolded x] first upd] by blast
    have "(\<exists>n. z = Inr (Suc n)) \<and> w' = w2 \<and> r = Inr (Some ((jobFromDocument hex d)\<lparr>jobLeaseToken := ?t\<rparr>)) \<or>
        ?rest (?release w2) = (w', r) \<or> ?release w2 = w' \<and> (\<forall>job. r \<noteq> Inr (Some job))"
      using run lock x first id upd by (cases z) (auto split: if_splits simp: gr0_conv_Suc)
    then have "claimReach db hex q2 w' r"
      using released [OF _ q2(3)] q2(2,4) unfolding claimReach_def by blast
    with q2(1) show ?thesis by blast
  qed
qed

lemma Claim_run:
  assumes "jobLaws db" and "inj token" and "\<And>k. quPass q (token k) = NoPass"
    and "Claim db hex token (quWorld q) now leaseUntil = (w', r)"
  shows "claimReach db hex q w' r"
proof (cases "jdbFindJobs db (quWorld q) jobOpen")
  case (Inr ds)
  then have "claimLoop db hex now leaseUntil token 0 (quWorld q) (claimCandidates now ds) = (w', r)"
    using assms(4) by (simp add: Claim_def)
  from claimLoop_run [OF assms(1,2) assms(3) this] show ?thesis .
qed (use assms(4) in \<open>auto simp: Claim_def intro: claimReach_none queueReach_here\<close>)

text \<open>A worker that runs alone makes a history of prompt steps.\<close>

lemma queueReach_trans:
  assumes "queueRun db hex q q'" and "quJobs q \<subseteq> quJobs q'" and "queueReach db hex q' w'"
  shows "queueReach db hex q w'"
  using assms rtranclp_trans [of "queueStep db hex True"] unfolding queueReach_def by fast

lemma reports_reach:
  assumes "quWorld q = w"
  shows "job \<in> quJobs q \<Longrightarrow> queueReach db hex q (fst (workerFail db now w job message))"
    and "queueReach db hex q (fst (Ack db w i token at))"
    and "queueReach db hex q (fst (CancelJob db now w i token message))"
    and "queueReach db hex q w"
  using assms workerFail_run operations_run(2,4) by (metis prod.collapse queueReach_here)+

lemma deliverJob_run:
  assumes laws: "jobLaws db" and job: "job \<in> quJobs q"
    and run: "deliverJob wk env (quWorld q) job = (w', r)" and db: "wkDb wk = db"
  shows "queueReach db hex q w'"
proof -
  obtain w1 y where sent: "MarkSent db (quWorld q) (jobID job) (jobLeaseToken job) (reSentAt env)
      (reSentAt env + wkAckWait wk) = (w1, y)" by fastforce
  obtain q1 where q1: "queueRun db hex q q1" "quWorld q1 = w1" "quJobs q \<subseteq> quJobs q1"
    using operations_run(1) [OF sent, of hex] by (auto simp: queueReach_def)
  note reach = reports_reach [OF q1(2)]
  have "job \<in> quJobs q1" using job q1(3) by blast
  then have "queueReach db hex q1 (fst (deliverJob wk env (quWorld q) job))"
    using sent db by (cases y; cases "reDelivery env") (simp_all add: deliverJob_def storeResult_def reach)
  with run have "queueReach db hex q1 w'" by simp
  then show ?thesis by (rule queueReach_trans [OF q1(1,3)])
qed

lemma RunOnce_run:
  assumes laws: "jobLaws (wkDb wk)" and inj: "inj (reToken env)"
    and fresh: "\<And>k. quPass q (reToken env k) = NoPass"
    and run: "RunOnce wk env (quWorld q) = (w', r)"
  shows "queueReach (wkDb wk) (wkHex wk) q w'"
proof -
  let ?db = "wkDb wk" and ?hex = "wkHex wk"
  obtain w1 c where claim: "Claim ?db ?hex (reToken env) (quWorld q) (reNow env) (reNow env + wkLease wk) = (w1, c)"
    by fastforce
  obtain q1 where q1: "queueRun ?db ?hex q q1" "quWorld q1 = w1" "quJobs q \<subseteq> quJobs q1"
    "\<And>job. c = Inr (Some job) \<Longrightarrow> job \<in> quJobs q1"
    using Claim_run [OF laws inj fresh claim] by (auto simp: claimReach_def)
  have "queueReach ?db ?hex q1 w'"
  proof (cases "\<exists>job. c = Inr (Some job)")
    case False
    then have "w' = w1" using run claim by (cases c) (auto simp: RunOnce_def split: option.splits)
    then show ?thesis using q1(2) by (simp add: queueReach_here)
  next
    case True
    then obtain job where c: "c = Inr (Some job)" by blast
    note job = q1(4) [OF c] and reach = reports_reach [OF q1(2)]
    have sent: "queueReach ?db ?hex q1 (fst (deliverJob wk env w1 job))"
      using deliverJob_run [OF laws job, of wk env] q1(2) by (metis prod.collapse)
    have "queueReach ?db ?hex q1 (fst (RunOnce wk env (quWorld q)))"
      using claim c
      by (simp add: RunOnce_def storeResult_def reach sent job
          split: Verdict.splits option.splits LimitOutcome.splits)
    with run show ?thesis by simp
  qed
  then show ?thesis by (rule queueReach_trans [OF q1(1,3)])
qed

end
