(* ===== verification/SampleQueue.thy ===== *)
theory SampleQueue
  imports IrcHistory SampleBackend
begin

text \<open>
  A concrete queue that satisfies \<open>jobLaws\<close>: two collections of documents beside a database of rooms
  and matches, with two jobs of one channel. The theorems about the queue are applied here.
\<close>

record SampleQueue =
  sqRooms :: RoomWorld
  sqJobs :: "(string, JobDocument) gomap"
  sqLocks :: "(string, string \<times> Time) gomap"

definition sampleFindJob :: "'a SampleQueue_scheme \<Rightarrow> string \<Rightarrow> JobDocument option" where
  "sampleFindJob w i =
     (case mapGet (sqJobs w) i of
        None \<Rightarrow> None
      | Some d \<Rightarrow> if jdID d = i then Some d else None)"

definition sampleWriteJob :: "'a SampleQueue_scheme \<Rightarrow> JobDocument \<Rightarrow> 'a SampleQueue_scheme" where
  "sampleWriteJob w d = w\<lparr>sqJobs := mapPut (jdID d) d (sqJobs w)\<rparr>"

text \<open>An update that would change the key of a document is refused.\<close>

definition sampleUpdateJob ::
  "'a SampleQueue_scheme \<Rightarrow> string \<Rightarrow> (JobDocument \<Rightarrow> bool) \<Rightarrow> (JobDocument \<Rightarrow> JobDocument) \<Rightarrow> 'a SampleQueue_scheme \<times> (unit + nat)" where
  "sampleUpdateJob w i P u =
     (case sampleFindJob w i of
        None \<Rightarrow> (w, Inr 0)
      | Some d \<Rightarrow>
          if \<not> P d then (w, Inr 0)
          else if jdID (u d) \<noteq> i then (w, Inl ())
          else (sampleWriteJob w (u d), Inr 1))"

definition sampleTakeLock ::
  "'a SampleQueue_scheme \<Rightarrow> string \<Rightarrow> string \<Rightarrow> Time \<Rightarrow> Time \<Rightarrow> 'a SampleQueue_scheme \<times> (bool + unit)" where
  "sampleTakeLock w c token now until =
     (case mapGet (sqLocks w) c of
        Some (t, u) \<Rightarrow>
          if u \<le> now \<or> t = token then (w\<lparr>sqLocks := mapPut c (token, until) (sqLocks w)\<rparr>, Inr ())
          else (w, Inl True)
      | None \<Rightarrow> (w\<lparr>sqLocks := mapPut c (token, until) (sqLocks w)\<rparr>, Inr ()))"

definition sampleReleaseLock :: "'a SampleQueue_scheme \<Rightarrow> string \<Rightarrow> string \<Rightarrow> 'a SampleQueue_scheme \<times> (unit + unit)" where
  "sampleReleaseLock w c token =
     (case mapGet (sqLocks w) c of
        Some (t, u) \<Rightarrow>
          (if t = token then w\<lparr>sqLocks := AList.delete c (sqLocks w)\<rparr> else w, Inr ())
      | None \<Rightarrow> (w, Inr ()))"

definition sampleQueue :: "'a SampleQueue_scheme JobDb" where
  "sampleQueue =
     \<lparr>jdbFindJob = (\<lambda>w i. Inr (sampleFindJob w i)),
      jdbFindJobs = (\<lambda>w P. Inr (filter P (List.map_filter (sampleFindJob w) (remdups (map fst (sqJobs w)))))),
      jdbUpdateJob = sampleUpdateJob,
      jdbUpsertJob = (\<lambda>w d. (if sampleFindJob w (jdID d) = None then sampleWriteJob w d else w, Inr ())),
      jdbTakeLock = sampleTakeLock,
      jdbReleaseLock = sampleReleaseLock,
      jdbFindLock = (\<lambda>w. mapGet (sqLocks w))\<rparr>"

section \<open>The laws\<close>

lemma sampleFindJob_id: "sampleFindJob w i = Some d \<Longrightarrow> jdID d = i"
  by (auto simp: sampleFindJob_def split: option.splits if_splits)

lemma sampleFindJob_write: "sampleFindJob (sampleWriteJob w d) = (sampleFindJob w)(jdID d := Some d)"
  by (auto simp: sampleFindJob_def sampleWriteJob_def fun_eq_iff split: option.splits)

lemma sampleFindJob_key: "sampleFindJob w i = Some d \<Longrightarrow> i \<in> set (map fst (sqJobs w))"
  by (force simp: sampleFindJob_def image_iff dest: map_of_SomeD split: option.splits)

lemma map_filter_keys:
  assumes "\<And>i d. f i = Some d \<Longrightarrow> key d = i" and "distinct is"
  shows "distinct (map key (List.map_filter f is)) \<and> set (map key (List.map_filter f is)) \<subseteq> set is"
  using assms(2) by (induction "is") (auto simp: List.map_filter_simps dest: assms(1) split: option.splits)

lemma set_map_filter: "set (List.map_filter f xs) = {y. \<exists>x\<in>set xs. f x = Some y}"
  by (induction xs) (auto simp: List.map_filter_simps split: option.splits)

lemma sample_findJobsLaw: "findJobsLaw (sampleQueue :: 'a SampleQueue_scheme JobDb)"
proof -
  let ?ds = "\<lambda>w :: 'a SampleQueue_scheme. List.map_filter (sampleFindJob w) (remdups (map fst (sqJobs w)))"
  have ids: "distinct (map jdID (filter P (?ds w)))" for P w
    by (rule distinct_map_filter) (rule conjunct1 [OF map_filter_keys [OF sampleFindJob_id distinct_remdups]])
  have "d \<in> set (?ds w) \<longleftrightarrow> sampleFindJob w (jdID d) = Some d" for d w
    unfolding set_map_filter set_remdups mem_Collect_eq
    by (blast dest: sampleFindJob_key sampleFindJob_id [symmetric] intro: sym)
  then have "d \<in> set (filter P (?ds w)) \<longleftrightarrow> P d \<and> sampleFindJob w (jdID d) = Some d" for d w P
    by auto
  with ids have "(\<forall>d. d \<in> set ds \<longleftrightarrow> P d \<and> sampleFindJob w (jdID d) = Some d) \<and> distinct (map jdID ds)"
    if "ds = filter P (?ds w)" for ds P w
    unfolding that by blast
  then show ?thesis
    unfolding findJobsLaw_def by (simp add: sampleQueue_def) (blast dest: sampleFindJob_id)
qed

lemma sampleQueue_find [simp]:
  "jdbFindJob sampleQueue w = (\<lambda>i. Inr (sampleFindJob w i))"
  "jdbFindLock sampleQueue w = mapGet (sqLocks w)"
  by (simp_all add: sampleQueue_def fun_eq_iff)

lemma sample_locks [simp]:
  "sampleFindJob (w\<lparr>sqLocks := l\<rparr>) = sampleFindJob w" "sqLocks (sampleWriteJob w d) = sqLocks w"
  by (simp_all add: sampleFindJob_def sampleWriteJob_def fun_eq_iff)

lemma sample_jobLaws: "jobLaws sampleQueue"
  unfolding jobLaws_def
proof (intro conjI)
  show "updateJobLaw sampleQueue"
    unfolding updateJobLaw_def sameJobs_def sameLocks_def jobWritten_def sampleQueue_find
    by (auto simp: sampleQueue_def sampleUpdateJob_def sampleFindJob_write split: option.splits if_splits)
  show "upsertJobLaw sampleQueue"
    unfolding upsertJobLaw_def sameJobs_def sameLocks_def jobWritten_def sampleQueue_find
    by (auto simp: sampleQueue_def sampleFindJob_write split: if_splits)
  show "takeLockLaw sampleQueue"
    unfolding takeLockLaw_def sameJobs_def sameLocks_def lockFree_def sampleQueue_find
    by (auto simp: sampleQueue_def sampleTakeLock_def fun_eq_iff split: option.splits if_splits)
  show "releaseLockLaw sampleQueue"
    unfolding releaseLockLaw_def sameJobs_def sameLocks_def sampleQueue_find
    by (auto simp: sampleQueue_def sampleReleaseLock_def AList.delete_conv' split: option.splits if_splits)
qed (rule sample_findJobsLaw)

section \<open>A queue with two jobs\<close>

text \<open>
  The first job of the channel has failed four times and is due again, the second one waits behind it.
\<close>

definition sampleJobDocument :: "string \<Rightarrow> 64 word \<Rightarrow> JobStatus \<Rightarrow> int \<Rightarrow> JobDocument" where
  "sampleJobDocument i n status attempts =
     \<lparr>jdID = i, jdMatchID = 41, jdChannel = ''#mp_5'', jdKind = ''lobby'', jdAckTarget = '''',
      jdSequence = n, jdPayload = ''!mp settings'', jdAttempts = attempts, jdNextTryAt = 10, jdStatus = status,
      jdAutomaticRetry = True, jdLastError = '''', jdSentAt = None, jdAckDeadline = None,
      jdAcknowledgedAt = None, jdLeaseUntil = None, jdLeaseToken = None, jdCreatedAt = 1, jdUpdatedAt = 1\<rparr>"

definition queueWorld :: "string option \<Rightarrow> SampleQueue" where
  "queueWorld link =
     \<lparr>sqRooms = (roomWorld formalRoom)
        \<lparr>rwRooms := [(1, formalRoom\<lparr>roomMPLink := link\<rparr>)], rwMatches := [(41, (sampleMatch 1 MatchStatusPending)\<lparr>matchID := 41\<rparr>)]\<rparr>,
      sqJobs = [(''j2'', sampleJobDocument ''j2'' 2 JobPending 0), (''j1'', sampleJobDocument ''j1'' 1 JobFailed 4)],
      sqLocks = []\<rparr>"

definition queueStart :: "string option \<Rightarrow> SampleQueue Queue" where
  "queueStart link = \<lparr>quWorld = queueWorld link, quPass = (\<lambda>t. NoPass), quJobs = {}\<rparr>"

text \<open>Match ids are written as the repeated letter.\<close>

definition sampleHex :: HexCodec where
  "sampleHex = \<lparr>hexPrint = (\<lambda>i. replicate (unat i) CHR ''a''), hexParse = (\<lambda>s. Some (of_nat (length s)))\<rparr>"

definition queueRooms :: "'a SampleQueue_scheme RoomDb" where
  "queueRooms =
     \<lparr>dbFindUser = (\<lambda>w. dbFindUser sampleDb (sqRooms w)), dbFindTeam = (\<lambda>w. dbFindTeam sampleDb (sqRooms w)),
      dbFindMappool = (\<lambda>w. dbFindMappool sampleDb (sqRooms w)),
      dbFindRoom = (\<lambda>w. dbFindRoom sampleDb (sqRooms w)), dbInsertRoom = (\<lambda>w r. (w, Inl False)),
      dbUpdateRoom = (\<lambda>w i b fs. (w, Inl ())), dbFindMatch = (\<lambda>w. dbFindMatch sampleDb (sqRooms w)),
      dbInsertMatch = (\<lambda>w m. (w, Inl False)), dbUpdateMatch = (\<lambda>w m. (w, Inl ())),
      dbSetReady = (\<lambda>w i st side now. (w, Inl ())), dbStartSession = (\<lambda>w. False),
      dbTransaction = (\<lambda>w f. (w, Inl (DriverError False)))\<rparr>"

definition sampleWorker :: "SampleQueue Worker" where
  "sampleWorker =
     \<lparr>wkDb = sampleQueue, wkHex = sampleHex, wkAckWait = 15 * second, wkLease = 30 * second,
      wkValidate = Some (deliveryValidator queueRooms sampleHex (\<lambda>link. None) (\<lambda>e. ''''))\<rparr>"

definition sampleToken :: "nat \<Rightarrow> string" where
  "sampleToken n = replicate (Suc n) CHR ''t''"

lemma sampleToken_inj: "inj sampleToken"
  by (rule injI) (simp add: sampleToken_def)

definition sampleRun :: RunEnv where
  "sampleRun =
     \<lparr>reNow = 100, reToken = sampleToken, reLimit = LimitPassed, reSentAt = 110, reContextDone = False,
      reMarkError = ''no'', reDelivery = Inl ''lost'', reDoneAt = 120\<rparr>"

lemma sampleFindJob_cases:
  assumes "sampleFindJob (queueWorld link) i = Some d"
  shows "i = ''j2'' \<and> d = sampleJobDocument ''j2'' 2 JobPending 0 \<or>
    i = ''j1'' \<and> d = sampleJobDocument ''j1'' 1 JobFailed 4"
  using assms by (auto simp: sampleFindJob_def queueWorld_def split: if_splits)

lemma queueStart_ok:
  "queueOk sampleQueue (queueStart link)" "promptOk sampleQueue (queueStart link)"
  using sampleFindJob_cases
  by (force simp: queueOk_def promptOk_def queueStart_def queueWorld_def sampleJobDocument_def
      maxAutomaticAttempts_def)+

text \<open>The worker without a validator, whose send fails.\<close>

abbreviation plainWorker :: "SampleQueue Worker" where
  "plainWorker \<equiv> sampleWorker\<lparr>wkValidate := None\<rparr>"

definition plainRun :: SampleQueue where
  "plainRun = fst (RunOnce plainWorker sampleRun (queueWorld None))"

lemma plainRun_jobs:
  "map_option (\<lambda>d. (jdStatus d, jdAutomaticRetry d, jdAttempts d)) (sampleFindJob plainRun ''j1'')
     = Some (JobFailed, False, 5)"
  "map_option jdStatus (sampleFindJob plainRun ''j2'') = Some JobPending"
  by code_simp+

lemma plainRun_history:
  obtains q where "queueRun sampleQueue sampleHex (queueStart None) q" "quWorld q = plainRun"
proof -
  have "queueReach (wkDb plainWorker) (wkHex plainWorker) (queueStart None) plainRun"
  proof (rule RunOnce_run)
    show "RunOnce plainWorker sampleRun (quWorld (queueStart None)) =
        (plainRun, snd (RunOnce plainWorker sampleRun (queueWorld None)))"
      by (simp add: plainRun_def queueStart_def)
  qed (simp_all add: sample_jobLaws sampleToken_inj sampleWorker_def sampleRun_def queueStart_def)
  then show thesis using that by (auto simp: queueReach_def sampleWorker_def)
qed

end
