(* ===== verification/IrcClaims.thy ===== *)
theory IrcClaims
  imports SampleQueue
begin

text \<open>
  The properties of the queue of IRC commands and of its worker. Those about histories rest on the
  interpretations \<open>queue\<close> and \<open>prompt_queue\<close>.
\<close>

section \<open>Claims and reports\<close>

lemma claimLoop_lock:
  assumes laws: "jobLaws db"
  shows "claimLoop db hex now leaseUntil token i w cs = (w', Inr (Some job)) \<Longrightarrow>
    jdbFindLock db w' (jobChannel job) = Some (jobLeaseToken job, leaseUntil)"
proof (induction cs arbitrary: i w)
  case (Cons c cs)
  let ?release = "\<lambda>v. releaseLock db v (jdChannel c) (token i)"
  obtain w1 x where lock: "jdbTakeLock db w (jdChannel c) (token i) now leaseUntil = (w1, x)" by fastforce
  consider (more) v where "claimLoop db hex now leaseUntil token (i + 1) v cs = (w', Inr (Some job))"
    | (claimed) d n where "x = Inr ()" "earliestOpen db w1 (jdChannel c) = Inr (Some d)"
      "jdbUpdateJob db w1 (jdID d) (\<lambda>x. jdStatus x = jdStatus d) (claimUpdate (token i) now leaseUntil) = (w', Inr n)"
      "job = (jobFromDocument hex d)\<lparr>jobLeaseToken := token i\<rparr>"
    using Cons.prems lock by (auto split: sum.splits option.splits if_splits prod.splits)
  then show ?case
  proof cases
    case more
    then show ?thesis by (rule Cons.IH)
  next
    case claimed
    have "jdbFindLock db w1 (jdChannel c) = Some (token i, leaseUntil)"
      using jobLawsD(4) [OF laws, unfolded takeLockLaw_def, rule_format, OF lock] claimed(1) by auto
    moreover have "jdbFindLock db w' = jdbFindLock db w1"
      using jobLawsD(2) [OF laws, unfolded updateJobLaw_def, rule_format, OF claimed(3)]
      by (simp add: sameLocks_def)
    moreover have "jdChannel d = jdChannel c" using earliestOpen_head [OF laws claimed(2)] by simp
    ultimately show ?thesis by (simp add: claimed(4) jobFromDocument_def)
  qed
qed simp

text \<open>
  C36: \<open>IRCJobStore.Claim\<close> hands out the earliest open job of its channel, by sequence and creation, and
  only when it is due; it leaves the job in SENDING under the fresh token the worker gets, and changes no
  other job. The worker also holds the lock of the channel, under the same token and until the same time.
\<close>

theorem claim_earliest:
  assumes "jobLaws db" and "Claim db hex token w now leaseUntil = (w', Inr (Some job))"
  shows "\<exists>d k. jdbFindJob db w (jobID job) = Inr (Some d) \<and> jobOpen d \<and> jobDue now d \<and>
    (\<forall>i e. jdbFindJob db w i = Inr (Some e) \<and> jobOpen e \<and> jdChannel e = jdChannel d \<longrightarrow> jobKey d \<le> jobKey e) \<and>
    job = (jobFromDocument hex d)\<lparr>jobLeaseToken := token k\<rparr> \<and>
    jdbFindJob db w' = (jdbFindJob db w)(jobID job := Inr (Some (d\<lparr>jdStatus := JobSending,
      jdLeaseUntil := Some leaseUntil, jdLeaseToken := Some (token k), jdUpdatedAt := now\<rparr>))) \<and>
    jdbFindLock db w' (jdChannel d) = Some (token k, leaseUntil)"
proof -
  obtain d k where d: "claims db w now leaseUntil (token k) d w'"
    "job = (jobFromDocument hex d)\<lparr>jobLeaseToken := token k\<rparr>"
    using Claim_effect [OF assms] by (auto simp: claimResult_def)
  moreover have "jobID job = jdID d" "jobChannel job = jdChannel d" "jobLeaseToken job = token k"
    using d(2) by (simp_all add: jobFromDocument_def)
  moreover have "jdbFindLock db w' (jobChannel job) = Some (jobLeaseToken job, leaseUntil)"
    using assms(2) claimLoop_lock [OF assms(1)] by (auto simp: Claim_def split: sum.splits)
  ultimately show ?thesis
    unfolding claims_def headJob_def jobWritten_def claimUpdate_def by metis
qed

definition sampleClaim :: "SampleQueue \<times> (JobError + Job option)" where
  "sampleClaim = Claim sampleQueue sampleHex sampleToken (queueWorld None) 100 130"

lemma sampleClaim_job: "snd sampleClaim = Inr (Some ((jobFromDocument sampleHex
    (sampleJobDocument ''j1'' 1 JobFailed 4))\<lparr>jobLeaseToken := ''t''\<rparr>))"
  by code_simp

theorem claim_earliest_witness:
  "map_option jdStatus (sampleFindJob (fst sampleClaim) ''j1'') = Some JobSending"
proof -
  let ?job = "(jobFromDocument sampleHex (sampleJobDocument ''j1'' 1 JobFailed 4))\<lparr>jobLeaseToken := ''t''\<rparr>"
  have run: "Claim sampleQueue sampleHex sampleToken (queueWorld None) 100 130 =
      (fst sampleClaim, Inr (Some ?job))"
    using sampleClaim_job by (simp add: sampleClaim_def prod_eq_iff)
  have "jobID ?job = ''j1''" by (simp add: jobFromDocument_def sampleJobDocument_def)
  with claim_earliest [OF sample_jobLaws run] obtain d k where
    "jdbFindJob sampleQueue (fst sampleClaim) = (jdbFindJob sampleQueue (queueWorld None))
      (''j1'' := Inr (Some (d\<lparr>jdStatus := JobSending, jdLeaseUntil := Some 130,
        jdLeaseToken := Some (sampleToken k), jdUpdatedAt := 100\<rparr>)))" by auto
  then have "jdbFindJob sampleQueue (fst sampleClaim) ''j1'' = Inr (Some (d\<lparr>jdStatus := JobSending,
      jdLeaseUntil := Some 130, jdLeaseToken := Some (sampleToken k), jdUpdatedAt := 100\<rparr>))" by simp
  then show ?thesis by simp
qed

text \<open>
  C37: A worker whose lease has been taken over, or whose job is already settled, cannot report on the
  job: MarkSent, Ack, Fail, Reject and Cancel with a token that is not the job's token return an error
  and write neither the job nor a lock.
\<close>

theorem lease_required:
  assumes "jobLaws db" and "jdbFindJob db w i = Inr (Some d)" and "jdLeaseToken d \<noteq> Some token"
    and "(w', r) \<in> {MarkSent db w i token sentAt deadline, Ack db w i token at,
      Fail db now w i token message retryAt, RejectJob db now w i token message,
      CancelJob db now w i token message}"
  shows "r \<noteq> None \<and> jdbFindJob db w' = jdbFindJob db w \<and> jdbFindLock db w' = jdbFindLock db w"
proof -
  define refused where "refused = (\<lambda>x. \<exists>v e. x = (v, Some (e :: JobError)) \<and> sameJobs db w v \<and> sameLocks db w v)"
  have refusal: "refused (updateClaimed db w i P u)" "refused (endClaim db w i token P u)" if "\<not> P d" for P u
  proof -
    obtain v x where v: "jdbUpdateJob db w i P u = (v, x)" by fastforce
    from jobLawsD(2) [OF assms(1), unfolded updateJobLaw_def, rule_format, OF v] assms(2) that
    have "sameLocks db w v \<and> sameJobs db w v \<and> (\<forall>n. x = Inr n \<longrightarrow> n = 0)" by auto
    then show "refused (updateClaimed db w i P u)"
      by (cases x) (auto simp: updateClaimed_def v refused_def)
    then show "refused (endClaim db w i token P u)"
      by (auto simp: endClaim_def refused_def)
  qed
  have "\<not> sendingBy token d" "\<not> heldBy token d" using assms(3) by (simp_all add: jobFilters)
  note refusal [where P = "sendingBy token", OF this(1)] refusal [where P = "heldBy token", OF this(2)]
  moreover have "refused (w, Some e)" for e by (simp add: refused_def)
  ultimately have "refused (w', r)"
    using assms(4) unfolding MarkSent_def Ack_def Fail_def RejectJob_def CancelJob_def
    by (elim insertE emptyE) (simp_all split: if_splits)
  then show ?thesis by (auto simp: refused_def sameJobs_def sameLocks_def)
qed

theorem lease_required_witness:
  "snd (Ack sampleQueue (fst sampleClaim) ''j1'' ''old'' 140) \<noteq> None"
proof -
  obtain d where d: "sampleFindJob (fst sampleClaim) ''j1'' = Some d" "jdLeaseToken d = Some ''t''"
  proof -
    have "map_option jdLeaseToken (sampleFindJob (fst sampleClaim) ''j1'') = Some (Some ''t'')" by code_simp
    then show ?thesis using that by auto
  qed
  then show ?thesis
    using lease_required [OF sample_jobLaws, of "fst sampleClaim" "''j1''" d "''old''"
        "fst (Ack sampleQueue (fst sampleClaim) ''j1'' ''old'' 140)"
        "snd (Ack sampleQueue (fst sampleClaim) ''j1'' ''old'' 140)" _ _ 140]
    by simp
qed

section \<open>Histories\<close>

text \<open>
  C18: Whatever workers, referees and readers of receipts do and however their calls interleave, a job
  keeps its id, match, channel, kind, target, sequence and payload, its attempts never go down, and once
  it is acknowledged or cancelled its document never changes again.
\<close>

theorem job_lifecycle:
  assumes "jobLaws db" and "queueOk db q" and "(queueStep db hex prompt)\<^sup>*\<^sup>* q q'"
    and "jdbFindJob db (quWorld q) i = Inr (Some d)"
  shows "\<exists>d'. jdbFindJob db (quWorld q') i = Inr (Some d') \<and>
    jdID d' = jdID d \<and> jdMatchID d' = jdMatchID d \<and> jdChannel d' = jdChannel d \<and> jdKind d' = jdKind d \<and>
    jdAckTarget d' = jdAckTarget d \<and> jdSequence d' = jdSequence d \<and> jdPayload d' = jdPayload d \<and>
    jdAttempts d \<le> jdAttempts d' \<and>
    (jdStatus d = JobAcknowledged \<or> jdStatus d = JobCancelled \<longrightarrow> d' = d)"
proof -
  have "jobsGrow db (quWorld q) (quWorld q')" using queue.runs_grow [OF assms(3)] assms(1,2) by simp
  with assms(4) show ?thesis by (fastforce simp: jobsGrow_def sameOrder_def jobOpen_def)
qed

theorem job_lifecycle_witness:
  "\<exists>d'. sampleFindJob plainRun ''j1'' = Some d' \<and> jdPayload d' = ''!mp settings'' \<and> 4 \<le> jdAttempts d'"
proof -
  obtain q where q: "queueRun sampleQueue sampleHex (queueStart None) q" "quWorld q = plainRun"
    by (rule plainRun_history)
  have "jdbFindJob sampleQueue (quWorld (queueStart None)) ''j1'' =
      Inr (Some (sampleJobDocument ''j1'' 1 JobFailed 4))"
    by (simp add: queueStart_def queueWorld_def sampleFindJob_def sampleJobDocument_def)
  from job_lifecycle [OF sample_jobLaws queueStart_ok(1) q(1) this] q(2) show ?thesis
    by (auto simp: sampleJobDocument_def)
qed

text \<open>
  C7: Commands reach a room in their order: once the earlier of two jobs of a channel and the later one,
  still pending and found by no worker, are both in the queue, the later one stays pending until the
  earlier one is acknowledged or cancelled, however workers stall, crash and lose their locks.
\<close>

theorem no_overtaking:
  assumes "jobLaws db" and "queueOk db q" and "(queueStep db hex prompt)\<^sup>*\<^sup>* q q'"
    and "jdbFindJob db (quWorld q) i = Inr (Some d)" and "jdbFindJob db (quWorld q) j = Inr (Some e)"
    and "jdChannel d = jdChannel e" and "(unat (jdSequence d), jdCreatedAt d) < (unat (jdSequence e), jdCreatedAt e)"
    and "jdStatus e = JobPending" and "\<forall>t p. quPass q t = Picked p \<longrightarrow> jdID p \<noteq> j"
  shows "\<exists>d' e'. jdbFindJob db (quWorld q') i = Inr (Some d') \<and> jdbFindJob db (quWorld q') j = Inr (Some e') \<and>
    (jdStatus e' = JobPending \<or> jdStatus d' \<notin> {JobPending, JobSending, JobSent, JobFailed})"
proof -
  have "inTurn db i j q" using assms(4-9) by (auto simp: inTurn_def jobKey_def)
  from run_inTurn [OF assms(1,2,3) this] show ?thesis by (auto simp: inTurn_def jobOpen_def)
qed

theorem no_overtaking_witness:
  "\<exists>d' e'. sampleFindJob plainRun ''j1'' = Some d' \<and> sampleFindJob plainRun ''j2'' = Some e' \<and>
    (jdStatus e' = JobPending \<or> jdStatus d' \<notin> {JobPending, JobSending, JobSent, JobFailed})"
proof -
  obtain q where q: "queueRun sampleQueue sampleHex (queueStart None) q" "quWorld q = plainRun"
    by (rule plainRun_history)
  have j1: "jdbFindJob sampleQueue (quWorld (queueStart None)) ''j1'' =
      Inr (Some (sampleJobDocument ''j1'' 1 JobFailed 4))"
    and j2: "jdbFindJob sampleQueue (quWorld (queueStart None)) ''j2'' =
      Inr (Some (sampleJobDocument ''j2'' 2 JobPending 0))"
    by (simp_all add: queueStart_def queueWorld_def sampleFindJob_def sampleJobDocument_def)
  from no_overtaking [OF sample_jobLaws queueStart_ok(1) q(1) j1 j2] q(2) show ?thesis
    by (simp add: sampleJobDocument_def queueStart_def)
qed

text \<open>
  C21: As long as every claim is written while the worker holds the lock of the channel, a job that will
  be retried without a referee has failed fewer than five times.
\<close>

theorem retry_limit:
  assumes "jobLaws db" and "queueOk db q" and "promptOk db q" and "(queueStep db hex True)\<^sup>*\<^sup>* q q'"
    and "jdbFindJob db (quWorld q') i = Inr (Some d)" and "jdStatus d = JobFailed" and "jdAutomaticRetry d"
  shows "jdAttempts d < 5"
proof -
  have "promptOk db q'" using prompt_queue.runs_inv [OF assms(4)] assms(1-3) by simp
  from promptOkD(3) [OF this assms(5-7)] show ?thesis by (simp add: maxAutomaticAttempts_def)
qed

theorem retry_limit_witness:
  "case sampleFindJob plainRun ''j1'' of None \<Rightarrow> False
   | Some d \<Rightarrow> jdStatus d = JobFailed \<and> (jdAutomaticRetry d \<longrightarrow> jdAttempts d < 5)"
proof -
  obtain q where q: "queueRun sampleQueue sampleHex (queueStart None) q" "quWorld q = plainRun"
    by (rule plainRun_history)
  from retry_limit [OF sample_jobLaws queueStart_ok q(1), of "''j1''"] q(2) plainRun_jobs(1)
  show ?thesis by (auto split: option.splits)
qed

text \<open>
  C17: What one worker does in \<open>RunOnce\<close>, from the claim through validation, limiter and send to the
  report, is a history of single driver calls with every claim written under the lock, so the properties
  of histories hold of it.
\<close>

theorem worker_refines_queue:
  assumes "jobLaws (wkDb wk)" and "inj (reToken env)" and "\<And>k. quPass q (reToken env k) = NoPass"
    and "RunOnce wk env (quWorld q) = (w', r)"
  shows "\<exists>q'. (queueStep (wkDb wk) (wkHex wk) True)\<^sup>*\<^sup>* q q' \<and> quWorld q' = w'"
  using RunOnce_run [OF assms] by (auto simp: queueReach_def)

theorem worker_refines_queue_witness:
  "\<exists>q'. (queueStep sampleQueue sampleHex True)\<^sup>*\<^sup>* (queueStart None) q' \<and> quWorld q' = plainRun"
  using worker_refines_queue [of plainWorker sampleRun "queueStart None" plainRun
      "snd (RunOnce plainWorker sampleRun (queueWorld None))"]
  by (simp add: sample_jobLaws sampleToken_inj sampleWorker_def sampleRun_def queueStart_def plainRun_def)

section \<open>Commands of a room that has moved\<close>

lemma claim_effect_sending:
  assumes "jobLaws db" and "Claim db hex token w now leaseUntil = (w', Inr (Some job))"
  shows "\<exists>d. jdbFindJob db w' (jobID job) = Inr (Some d) \<and> jdStatus d = JobSending"
proof -
  obtain d k where "claims db w now leaseUntil (token k) d w'"
    "job = (jobFromDocument hex d)\<lparr>jobLeaseToken := token k\<rparr>"
    using Claim_effect [OF assms] by (auto simp: claimResult_def)
  then show ?thesis by (simp add: claims_def jobWritten_def claimUpdate_facts jobFromDocument_def)
qed

text \<open>
  C20: With the server's validator a command whose match room has lost its multiplayer link, or got a link
  to another channel, is never sent: after \<open>RunOnce\<close> its job is cancelled, or the cancellation could not be
  written and the job is still claimed.
\<close>

theorem moved_room_never_sent:
  assumes "jobLaws (wkDb wk)" and "wkValidate wk = Some (deliveryValidator rooms hex parseURL text)"
    and "Claim (wkDb wk) (wkHex wk) (reToken env) w (reNow env) (reNow env + wkLease wk) = (w1, Inr (Some job))"
    and "hexParse hex (jobMatchID job) = Some mid" and "matchByID rooms w1 mid = Inr m"
    and "roomByID rooms w1 (matchRoomID m) = Inr room"
    and "\<forall>link. roomMPLink room = Some link \<longrightarrow> ChannelFromMPLink parseURL link \<noteq> Some (jobChannel job)"
    and "RunOnce wk env w = (w', r)"
  shows "\<exists>d. jdbFindJob (wkDb wk) w' (jobID job) = Inr (Some d) \<and>
    (jdStatus d = JobCancelled \<or> jdStatus d = JobSending \<and> r \<noteq> None)"
proof -
  obtain message where obsolete: "deliveryValidator rooms hex parseURL text w1 job = JobObsolete message"
    using assms(4-7) by (cases "roomMPLink room") (auto simp: deliveryValidator_def)
  let ?cancel = "CancelJob (wkDb wk) (reDoneAt env) w1 (jobID job) (jobLeaseToken job) message"
  have run: "w' = fst ?cancel" "r = map_option WorkerStore (snd ?cancel)"
    using assms(2,3,8) obsolete by (simp_all add: RunOnce_def storeResult_def)
  obtain d where d: "jdbFindJob (wkDb wk) w1 (jobID job) = Inr (Some d)" "jdStatus d = JobSending"
    using claim_effect_sending [OF assms(1,3)] by blast
  from report_effects(5) [OF assms(1), of "reDoneAt env" w1 "jobID job" "jobLeaseToken job" message w' "snd ?cancel"]
    run(1)
  consider "sameJobs (wkDb wk) w1 w'" "snd ?cancel \<noteq> None"
    | "changed (wkDb wk) w1 (jobID job) (sendingBy (jobLeaseToken job)) (cancelUpdate (reDoneAt env) message) w'"
    by auto
  then show ?thesis
  proof cases
    case 1
    then show ?thesis using d run(2) by (auto simp: sameJobs_def)
  next
    case 2
    then show ?thesis by (auto simp: changed_def jobWritten_def cancelUpdate_def)
  qed
qed

text \<open>The room has no link any more when the worker claims its first job.\<close>

theorem moved_room_never_sent_witness:
  "\<exists>d. sampleFindJob (fst (RunOnce sampleWorker sampleRun (queueWorld None))) ''j1'' = Some d \<and>
    (jdStatus d = JobCancelled \<or> jdStatus d = JobSending)"
proof -
  let ?job = "(jobFromDocument sampleHex (sampleJobDocument ''j1'' 1 JobFailed 4))\<lparr>jobLeaseToken := ''t''\<rparr>"
  let ?claim = "Claim (wkDb sampleWorker) (wkHex sampleWorker) (reToken sampleRun) (queueWorld None)
    (reNow sampleRun) (reNow sampleRun + wkLease sampleWorker)"
  have job: "jobID ?job = ''j1''" "jobMatchID ?job = replicate 41 CHR ''a''" "jobChannel ?job = ''#mp_5''"
    by (simp_all add: jobFromDocument_def sampleJobDocument_def sampleHex_def)
  have laws: "jobLaws (wkDb sampleWorker)" by (simp add: sampleWorker_def sample_jobLaws)
  have claim: "?claim = (fst ?claim, Inr (Some ?job))"
  proof -
    have "snd ?claim = Inr (Some ?job)" by code_simp
    then show ?thesis by (simp add: prod_eq_iff)
  qed
  have found: "matchByID queueRooms (fst ?claim) 41 = Inr ((sampleMatch 1 MatchStatusPending)\<lparr>matchID := 41\<rparr>)"
    "roomByID queueRooms (fst ?claim) (matchRoomID ((sampleMatch 1 MatchStatusPending)\<lparr>matchID := 41\<rparr>)) =
       Inr (formalRoom\<lparr>roomMPLink := None\<rparr>)"
    by code_simp+
  have hex: "hexParse sampleHex (jobMatchID ?job) = Some 41"
    unfolding job(2) by (simp add: sampleHex_def)
  have "wkDb sampleWorker = sampleQueue" by (simp add: sampleWorker_def)
  with moved_room_never_sent [OF laws _ claim hex found, of "\<lambda>link. None" "\<lambda>e. ''''"
      "fst (RunOnce sampleWorker sampleRun (queueWorld None))"
      "snd (RunOnce sampleWorker sampleRun (queueWorld None))"] job
  show ?thesis by (auto simp: sampleWorker_def)
qed

end
