(* ===== verification/Outbox.thy ===== *)
theory Outbox
  imports CommandStore
begin

text \<open>
  The outbox of match events and the queries of \<open>internal/persistence/command_store.go\<close> beside \<open>Apply\<close>:
  what the publisher takes up, how events are marked, and what the realtime gateway, the referee tools
  and the review of IRC evidence read. \<open>outboxStep\<close> is the history of the collection: commits of the
  command store and the calls of any number of publishers and referees, in any order.
\<close>

section \<open>Driver calls\<close>

text \<open>
  \<open>odbEvent\<close> is the collection by event id, which the laws speak about; the other fields are calls.
  \<open>odbUpdateEvent\<close> updates the event of an id if the filter admits it and counts the matched documents.
  \<open>odbReceiptState\<close> finds \<open>state_json\<close> of the receipt of a version.
\<close>

record 'w OutboxDb =
  odbEvent :: "'w \<Rightarrow> string \<Rightarrow> MatchOutboxDocument option"
  odbFindEvents :: "'w \<Rightarrow> (MatchOutboxDocument \<Rightarrow> bool) \<Rightarrow> unit + MatchOutboxDocument list"
  odbUpdateEvent ::
    "'w \<Rightarrow> string \<Rightarrow> (MatchOutboxDocument \<Rightarrow> bool) \<Rightarrow> (MatchOutboxDocument \<Rightarrow> MatchOutboxDocument)
     \<Rightarrow> 'w \<times> (unit + nat)"
  odbFindAction :: "'w \<Rightarrow> ObjectID \<Rightarrow> string \<Rightarrow> unit + MatchActionDocument option"
  odbFindActions :: "'w \<Rightarrow> ObjectID \<Rightarrow> unit + MatchActionDocument list"
  odbReceiptState :: "'w \<Rightarrow> ObjectID \<Rightarrow> 64 word \<Rightarrow> unit + string option"

text \<open>\<open>OutboxRefused\<close> is an error the store makes itself, \<open>OutboxDriver\<close> one of the driver.\<close>

datatype OutboxError = OutboxRefused | OutboxDriver

definition limited :: "int \<Rightarrow> int \<Rightarrow> int \<Rightarrow> nat" where
  "limited most standard limit = nat (if limit \<le> 0 \<or> limit > most then standard else limit)"

text \<open>A sort by a descending key, and the event of least sequence.\<close>

definition sortDown :: "('a \<Rightarrow> 'k::linorder) \<Rightarrow> 'a list \<Rightarrow> 'a list" where
  "sortDown key xs = rev (sort_key key xs)"

definition firstEvent :: "MatchOutboxDocument list \<Rightarrow> MatchOutboxDocument option" where
  "firstEvent ds = (case sort_key obSequence ds of [] \<Rightarrow> None | d # _ \<Rightarrow> Some d)"

section \<open>The publisher's queue\<close>

definition unpublishedHeads :: "MatchOutboxDocument list \<Rightarrow> MatchOutboxDocument list" where
  "unpublishedHeads ds =
     map (\<lambda>m. the (firstEvent (filter (\<lambda>d. obMatchID d = m) ds))) (remdups (map obMatchID ds))"

definition ListUnpublishedEvents ::
  "'w OutboxDb \<Rightarrow> 'w \<Rightarrow> int \<Rightarrow> OutboxError + MatchOutboxDocument list" where
  "ListUnpublishedEvents db w limit =
     (case odbFindEvents db w (\<lambda>d. obStatus d \<noteq> OutboxPublished) of
        Inl _ \<Rightarrow> Inl OutboxDriver
      | Inr ds \<Rightarrow>
          Inr (take (limited 1000 100 limit)
            (sort_key (\<lambda>d. (obMatchID d, obSequence d))
              (filter (\<lambda>d. obStatus d = OutboxPending) (unpublishedHeads ds)))))"

definition updateEvent ::
  "'w OutboxDb \<Rightarrow> 'w \<Rightarrow> string \<Rightarrow> (MatchOutboxDocument \<Rightarrow> bool) \<Rightarrow> (MatchOutboxDocument \<Rightarrow> MatchOutboxDocument)
   \<Rightarrow> 'w \<times> OutboxError option" where
  "updateEvent db w i P u =
     (case odbUpdateEvent db w i P u of
        (w', Inl _) \<Rightarrow> (w', Some OutboxDriver)
      | (w', Inr matched) \<Rightarrow> (w', if matched = 0 then Some OutboxRefused else None))"

definition publishedEvent :: "Time \<Rightarrow> MatchOutboxDocument \<Rightarrow> MatchOutboxDocument" where
  "publishedEvent at d =
     d\<lparr>obStatus := OutboxPublished, obPublishedAt := Some at, obLastError := '''',
       obAttempts := obAttempts d + 1\<rparr>"

definition MarkEventPublished ::
  "'w OutboxDb \<Rightarrow> 'w \<Rightarrow> string \<Rightarrow> Time \<Rightarrow> 'w \<times> OutboxError option" where
  "MarkEventPublished db w i at =
     (if i = '''' \<or> isZeroTime at then (w, Some OutboxRefused)
      else updateEvent db w i (\<lambda>d. obStatus d \<in> {OutboxPending, OutboxFailed}) (publishedEvent at))"

definition failedEvent :: "string \<Rightarrow> MatchOutboxDocument \<Rightarrow> MatchOutboxDocument" where
  "failedEvent message d =
     d\<lparr>obStatus := OutboxFailed, obLastError := message, obAttempts := obAttempts d + 1\<rparr>"

definition MarkEventFailed ::
  "'w OutboxDb \<Rightarrow> 'w \<Rightarrow> string \<Rightarrow> string \<Rightarrow> 'w \<times> OutboxError option" where
  "MarkEventFailed db w i message =
     (if i = '''' \<or> message = '''' then (w, Some OutboxRefused)
      else updateEvent db w i (\<lambda>d. obStatus d \<noteq> OutboxPublished) (failedEvent message))"

definition retriedEvent :: "MatchOutboxDocument \<Rightarrow> MatchOutboxDocument" where
  "retriedEvent d = d\<lparr>obStatus := OutboxPending, obLastError := '''', obPublishedAt := None\<rparr>"

definition RetryFailedEvent ::
  "'w OutboxDb \<Rightarrow> 'w \<Rightarrow> ObjectID \<Rightarrow> string \<Rightarrow> 'w \<times> OutboxError option" where
  "RetryFailedEvent db w mid i =
     (if mid = NilObjectID \<or> i = '''' then (w, Some OutboxRefused)
      else updateEvent db w i (\<lambda>d. obMatchID d = mid \<and> obStatus d = OutboxFailed) retriedEvent)"

section \<open>Reads\<close>

definition ListFailedEvents ::
  "'w OutboxDb \<Rightarrow> 'w \<Rightarrow> ObjectID \<Rightarrow> int \<Rightarrow> OutboxError + MatchOutboxDocument list" where
  "ListFailedEvents db w mid limit =
     (if mid = NilObjectID then Inl OutboxRefused
      else case odbFindEvents db w (\<lambda>d. obMatchID d = mid \<and> obStatus d = OutboxFailed) of
             Inl _ \<Rightarrow> Inl OutboxDriver
           | Inr ds \<Rightarrow> Inr (take (limited 200 100 limit) (sortDown obSequence ds)))"

definition ListEventsAfter ::
  "'w OutboxDb \<Rightarrow> 'w \<Rightarrow> ObjectID \<Rightarrow> 64 word \<Rightarrow> int \<Rightarrow> OutboxError + MatchOutboxDocument list" where
  "ListEventsAfter db w mid sequence limit =
     (if mid = NilObjectID then Inl OutboxRefused
      else case odbFindEvents db w (\<lambda>d. obMatchID d = mid \<and> obSequence d > sequence) of
             Inl _ \<Rightarrow> Inl OutboxDriver
           | Inr ds \<Rightarrow> Inr (take (limited 1000 100 limit) (sort_key obSequence ds)))"

definition LatestEventSequenceAtVersion ::
  "'w OutboxDb \<Rightarrow> 'w \<Rightarrow> ObjectID \<Rightarrow> 64 word \<Rightarrow> OutboxError + 64 word" where
  "LatestEventSequenceAtVersion db w mid version =
     (if mid = NilObjectID then Inl OutboxRefused
      else case odbFindEvents db w (\<lambda>d. obMatchID d = mid \<and> obResultingVersion d \<le> version) of
             Inl _ \<Rightarrow> Inl OutboxDriver
           | Inr ds \<Rightarrow> Inr (case sortDown obSequence ds of [] \<Rightarrow> 0 | d # _ \<Rightarrow> obSequence d))"

definition LoadStateAtVersion ::
  "'w OutboxDb \<Rightarrow> Codec \<Rightarrow> 'w \<Rightarrow> ObjectID \<Rightarrow> 64 word \<Rightarrow> OutboxError + State" where
  "LoadStateAtVersion db codec w mid version =
     (if mid = NilObjectID \<or> version = 0 then Inl OutboxRefused
      else case odbReceiptState db w mid version of
             Inl _ \<Rightarrow> Inl OutboxDriver
           | Inr None \<Rightarrow> Inl OutboxRefused
           | Inr (Some json) \<Rightarrow>
               (case unmarshalState codec json of
                  None \<Rightarrow> Inl OutboxRefused
                | Some state \<Rightarrow>
                    if Version state \<noteq> version \<or> ValidateState state \<noteq> None then Inl OutboxRefused
                    else Inr state))"

definition ListActions ::
  "'w OutboxDb \<Rightarrow> 'w \<Rightarrow> ObjectID \<Rightarrow> int \<Rightarrow> OutboxError + MatchActionDocument list" where
  "ListActions db w mid limit =
     (if mid = NilObjectID then Inl OutboxRefused
      else case odbFindActions db w mid of
             Inl _ \<Rightarrow> Inl OutboxDriver
           | Inr ds \<Rightarrow>
               Inr (take (nat (if limit \<le> 0 then 50 else min limit 100)) (sortDown acResultingVersion ds)))"

record ConfirmationReceipt =
  cfCommandType :: string
  cfBoardPieceID :: string
  cfWinningTeam :: TeamSide

text \<open>\<open>confirmationPayload\<close> decodes \<open>boardPieceId\<close> and \<open>winningTeam\<close> of a command payload.\<close>

definition LoadConfirmationReceipt ::
  "'w OutboxDb \<Rightarrow> (string \<Rightarrow> (string \<times> TeamSide) option) \<Rightarrow> 'w \<Rightarrow> ObjectID \<Rightarrow> string
   \<Rightarrow> OutboxError + ConfirmationReceipt option" where
  "LoadConfirmationReceipt db confirmationPayload w mid commandID =
     (if mid = NilObjectID \<or> commandID = '''' then Inl OutboxRefused
      else case odbFindAction db w mid commandID of
             Inl _ \<Rightarrow> Inl OutboxDriver
           | Inr None \<Rightarrow> Inr None
           | Inr (Some action) \<Rightarrow>
               (case confirmationPayload (acCommandPayload action) of
                  None \<Rightarrow> Inl OutboxRefused
                | Some (piece, winner) \<Rightarrow>
                    Inr (Some \<lparr>cfCommandType = acCommandType action, cfBoardPieceID = piece,
                               cfWinningTeam = winner\<rparr>)))"

section \<open>What the driver promises\<close>

definition sameEvents :: "'w OutboxDb \<Rightarrow> 'w \<Rightarrow> 'w \<Rightarrow> bool" where
  "sameEvents db w w' \<longleftrightarrow> odbEvent db w' = odbEvent db w"

definition findEventsLaw :: "'w OutboxDb \<Rightarrow> bool" where
  "findEventsLaw db \<longleftrightarrow>
     (\<forall>w P ds. odbFindEvents db w P = Inr ds \<longrightarrow>
        (\<forall>d. d \<in> set ds \<longleftrightarrow> P d \<and> odbEvent db w (obEventID d) = Some d)) \<and>
     (\<forall>w i d. odbEvent db w i = Some d \<longrightarrow> obEventID d = i)"

definition updateEventLaw :: "'w OutboxDb \<Rightarrow> bool" where
  "updateEventLaw db \<longleftrightarrow>
     (\<forall>w i P u w' x. odbUpdateEvent db w i P u = (w', x) \<longrightarrow>
        sameEvents db w w' \<and> (\<forall>n. x = Inr n \<longrightarrow> n = 0) \<or>
        (\<exists>d. odbEvent db w i = Some d \<and> P d \<and> odbEvent db w' = (odbEvent db w)(i \<mapsto> u d)))"

text \<open>
  An insert stores all of its documents or none, under new event ids and with new sequences of their
  match (the unique indexes), and none whose sequence is too large for a BSON integer; the last sequence
  of a match is the largest.
\<close>

definition insertEventsLaw :: "'w OutboxDb \<Rightarrow> 'w Mongo \<Rightarrow> bool" where
  "insertEventsLaw db mongo \<longleftrightarrow>
     (\<forall>w ds w' x. insertOutbox mongo w ds = (w', x) \<longrightarrow>
        sameEvents db w w' \<or>
        odbEvent db w' = odbEvent db w ++ map_of (map (\<lambda>d. (obEventID d, d)) ds) \<and>
        (\<forall>d\<in>set ds. odbEvent db w (obEventID d) = None \<and> unat (obSequence d) < 2 ^ 63) \<and>
        distinct (map obEventID ds)) \<and>
     (\<forall>w mid. findLatestSequence mongo w mid = Inr None \<longrightarrow>
        (\<forall>i d. odbEvent db w i = Some d \<longrightarrow> obMatchID d \<noteq> mid)) \<and>
     (\<forall>w mid n. findLatestSequence mongo w mid = Inr (Some n) \<longrightarrow>
        unat n < 2 ^ 63 \<and> (\<forall>i d. odbEvent db w i = Some d \<and> obMatchID d = mid \<longrightarrow> obSequence d \<le> n))"

definition outboxLaws :: "'w OutboxDb \<Rightarrow> 'w Mongo \<Rightarrow> bool" where
  "outboxLaws db mongo \<longleftrightarrow> findEventsLaw db \<and> updateEventLaw db \<and> insertEventsLaw db mongo"

section \<open>What is listed\<close>

lemma unpublishedHeads_least:
  assumes "d \<in> set (unpublishedHeads es)"
  shows "d \<in> set es \<and> (\<forall>e\<in>set es. obMatchID e = obMatchID d \<longrightarrow> obSequence d \<le> obSequence e)"
proof -
  obtain m where m: "m \<in> set (map obMatchID es)" "d = the (firstEvent (filter (\<lambda>d. obMatchID d = m) es))"
    using assms by (auto simp: unpublishedHeads_def)
  let ?ms = "filter (\<lambda>d. obMatchID d = m) es"
  have "sort_key obSequence ?ms \<noteq> []" using m(1) by (auto simp: filter_empty_conv dest!: arg_cong [where f = set])
  then obtain rest where sorted: "sort_key obSequence ?ms = d # rest"
    using m(2) by (auto simp: firstEvent_def neq_Nil_conv)
  then have set: "set ?ms = set (d # rest)" by (metis set_sort)
  moreover have "sorted (map obSequence (d # rest))" by (metis sorted sorted_sort_key)
  ultimately have least: "\<forall>e\<in>set ?ms. obSequence d \<le> obSequence e" by auto
  have "d \<in> set ?ms" using set by simp
  with least show ?thesis by auto
qed

text \<open>A listed event is stored and the first of its match that is not published.\<close>

lemma ListUnpublished_first:
  assumes "findEventsLaw db" and "ListUnpublishedEvents db w limit = Inr ds" and "d \<in> set ds"
  shows "odbEvent db w (obEventID d) = Some d"
    and "odbEvent db w i = Some e \<Longrightarrow> obStatus e \<noteq> OutboxPublished \<Longrightarrow> obMatchID e = obMatchID d \<Longrightarrow>
      obSequence d \<le> obSequence e"
proof -
  obtain es where es: "odbFindEvents db w (\<lambda>d. obStatus d \<noteq> OutboxPublished) = Inr es"
    and d: "d \<in> set (unpublishedHeads es)"
    using assms(2,3) set_take_subset by (fastforce simp: ListUnpublishedEvents_def split: sum.splits)
  have found: "e \<in> set es \<longleftrightarrow> obStatus e \<noteq> OutboxPublished \<and> odbEvent db w (obEventID e) = Some e" for e
    using assms(1) es by (simp add: findEventsLaw_def)
  note least = unpublishedHeads_least [OF d]
  then show "odbEvent db w (obEventID d) = Some d" using found by simp
  show "obSequence d \<le> obSequence e"
    if "odbEvent db w i = Some e" "obStatus e \<noteq> OutboxPublished" "obMatchID e = obMatchID d"
    using least found assms(1) that by (auto simp: findEventsLaw_def)
qed

end
