(* ===== verification/GoStrings.thy ===== *)
theory GoStrings
  imports Prelude
begin

text \<open>
  The functions of Go's package \<open>strings\<close> that the IRC code uses, on strings of UTF-8 bytes. White space
  is that of \<open>Prelude\<close>; since no byte inside an encoded character begins the encoding of another one, a
  text can be searched for white space byte by byte.
\<close>

text \<open>The length of the white space character at the head of a text, 0 when there is none.\<close>

fun spaceWidth :: "string \<Rightarrow> nat" where
  "spaceWidth [] = 0"
| "spaceWidth [a] = (if space1 a then 1 else 0)"
| "spaceWidth [a, b] = (if space1 a then 1 else if space2 a b then 2 else 0)"
| "spaceWidth (a # b # c # s) =
     (if space1 a then 1 else if space2 a b then 2 else if space3 a b c then 3 else 0)"

lemma spaceWidth_bound: "spaceWidth s \<le> length s"
  by (induction s rule: spaceWidth.induct) auto

text \<open>\<open>strings.Fields\<close>: the runs between white space; \<open>cur\<close> is the run that is being read.\<close>

function (sequential) fieldsFrom :: "string \<Rightarrow> string \<Rightarrow> string list" where
  "fieldsFrom cur [] = (if cur = [] then [] else [cur])"
| "fieldsFrom cur (c # s) =
     (if spaceWidth (c # s) = 0 then fieldsFrom (cur @ [c]) s
      else (if cur = [] then [] else [cur]) @ fieldsFrom [] (drop (spaceWidth (c # s)) (c # s)))"
  by pat_completeness auto
termination
  by (relation "measure (\<lambda>(cur, s). length s)") auto

definition goFields :: "string \<Rightarrow> string list" where
  "goFields s = fieldsFrom [] s"

text \<open>\<open>strings.Join\<close>, \<open>strings.TrimPrefix\<close>, \<open>strings.Contains\<close> and \<open>strings.ContainsAny\<close>.\<close>

fun joinWith :: "string \<Rightarrow> string list \<Rightarrow> string" where
  "joinWith sep [] = []"
| "joinWith sep [s] = s"
| "joinWith sep (s # t # ts) = s @ sep @ joinWith sep (t # ts)"

definition hasPrefix :: "string \<Rightarrow> string \<Rightarrow> bool" where
  "hasPrefix p s \<longleftrightarrow> take (length p) s = p"

definition trimPrefix :: "string \<Rightarrow> string \<Rightarrow> string" where
  "trimPrefix p s = (if hasPrefix p s then drop (length p) s else s)"

text \<open>What follows the first occurrence of a text, \<open>strings.Cut\<close> without the part before.\<close>

fun cutAfter :: "string \<Rightarrow> string \<Rightarrow> string option" where
  "cutAfter p [] = (if p = [] then Some [] else None)"
| "cutAfter p (c # s) =
     (if hasPrefix p (c # s) then Some (drop (length p) (c # s)) else cutAfter p s)"

definition containsText :: "string \<Rightarrow> string \<Rightarrow> bool" where
  "containsText p s \<longleftrightarrow> cutAfter p s \<noteq> None"

definition containsAny :: "char list \<Rightarrow> string \<Rightarrow> bool" where
  "containsAny cs s \<longleftrightarrow> (\<exists>c\<in>set s. c \<in> set cs)"

text \<open>\<open>strings.TrimSpace\<close>.\<close>

function trimLeft :: "string \<Rightarrow> string" where
  "trimLeft s = (if spaceWidth s = 0 then s else trimLeft (drop (spaceWidth s) s))"
  by pat_completeness auto
termination
  by (relation "measure length") (auto, metis diff_less gr_zeroI length_0_conv spaceWidth.simps(1))

declare trimLeft.simps [simp del]

text \<open>The length of the white space character at the end of a text, given backwards.\<close>

fun spaceEnd :: "string \<Rightarrow> nat" where
  "spaceEnd [] = 0"
| "spaceEnd [a] = (if space1 a then 1 else 0)"
| "spaceEnd [b, a] = (if space1 b then 1 else if space2 a b then 2 else 0)"
| "spaceEnd (c # b # a # s) =
     (if space1 c then 1 else if space2 b c then 2 else if space3 a b c then 3 else 0)"

function trimBack :: "string \<Rightarrow> string" where
  "trimBack s = (if spaceEnd s = 0 then s else trimBack (drop (spaceEnd s) s))"
  by pat_completeness auto
termination
  by (relation "measure length") (auto, metis diff_less gr_zeroI length_0_conv spaceEnd.simps(1))

declare trimBack.simps [simp del]

definition trimSpace :: "string \<Rightarrow> string" where
  "trimSpace s = rev (trimBack (rev (trimLeft s)))"

section \<open>Facts\<close>

lemma spaceWidth_Cons: "spaceWidth (c # s) = 0 \<Longrightarrow> \<not> space1 c"
  by (cases s rule: list.exhaust; cases "tl s") auto

lemma fieldsFrom_plain:
  "f \<in> set (fieldsFrom cur s) \<Longrightarrow> (\<forall>c\<in>set cur. \<not> space1 c) \<Longrightarrow> f \<noteq> [] \<and> (\<forall>c\<in>set f. \<not> space1 c)"
proof (induction cur s rule: fieldsFrom.induct)
  case (2 cur c s)
  show ?case
  proof (cases "spaceWidth (c # s) = 0")
    case True
    then show ?thesis using 2 spaceWidth_Cons by auto
  next
    case False
    then show ?thesis using 2 by (auto split: if_splits)
  qed
qed (auto split: if_splits)

text \<open>A field is not empty and holds no white space character of one byte.\<close>

lemma fields_plain: "f \<in> set (goFields s) \<Longrightarrow> f \<noteq> [] \<and> (\<forall>c\<in>set f. \<not> space1 c)"
  by (simp add: goFields_def fieldsFrom_plain)

lemma set_joinWith: "set (joinWith sep fs) \<subseteq> set sep \<union> (\<Union>f\<in>set fs. set f)"
  by (induction sep fs rule: joinWith.induct) auto

end
