(* ===== verification/IrcPublisher.thy ===== *)
theory IrcPublisher
  imports IrcJobs Outbox GoStrings
begin

text \<open>
  The publisher (\<open>internal/ircpublisher/publisher.go\<close>): which IRC commands an ev of a match asks for
  (\<open>planJobs\<close>), and the loop that takes events from the outbox, enqueues their commands and marks them.
  The readers of matches, rooms and users are those of the repositories; all collections are in one
  database \<open>'w\<close>. \<open>publisherLaws\<close> adds to the laws of the collections that a call writes only its own.
\<close>

section \<open>Plans\<close>

datatype PlanError =
    PlanRead ServiceError | PlanNoLink | PlanBadLink | PlanBadRoster | PlanNoUser ServiceError
  | PlanNoAccount | PlanNoUsername | PlanBadSlot | PlanNoBeatmap

record 'w Publisher =
  pbOutbox :: "'w OutboxDb"
  pbJobs :: "'w JobDb"
  pbRooms :: "'w RoomDb"
  pbHex :: HexCodec
  pbParseURL :: "string \<Rightarrow> URL option"
  pbPoolSlot :: "string \<Rightarrow> string"
  pbPlanText :: "PlanError \<Rightarrow> string"
  pbEnqueueText :: "JobError \<Rightarrow> string"

text \<open>\<open>pbPoolSlot\<close> is the lookup of \<open>poolSlotId\<close> in a BSON payload, empty when there is no such text.\<close>

definition roomChannel :: "(string \<Rightarrow> URL option) \<Rightarrow> Room \<Rightarrow> PlanError + string" where
  "roomChannel parseURL room =
     (case roomMPLink room of
        None \<Rightarrow> Inl PlanNoLink
      | Some link \<Rightarrow>
          (case ChannelFromMPLink parseURL link of
             None \<Rightarrow> Inl PlanBadLink
           | Some channel \<Rightarrow> Inr channel))"

definition banchoUsername :: "User \<Rightarrow> int \<Rightarrow> PlanError + string" where
  "banchoUsername user expectedID =
     (if userOnlineID user \<noteq> expectedID then Inl PlanNoAccount
      else let username = joinWith ''_'' (goFields (userUsername user))
           in if username = '''' \<or> containsAny [CHR 0x0D, CHR 0x0A] username then Inl PlanNoUsername
              else Inr username)"

definition makeJob ::
  "HexCodec \<Rightarrow> ObjectID \<Rightarrow> string \<Rightarrow> 64 word \<Rightarrow> string \<Rightarrow> string \<Rightarrow> string \<Rightarrow> Job" where
  "makeJob hex mid channel sequence i kind payload =
     \<lparr>jobID = i, jobMatchID = hexPrint hex mid, jobChannel = channel, jobKind = kind, jobAckTarget = '''',
      jobSequence = sequence, jobPayload = payload, jobStatus = JobPending, jobAttempts = 0,
      jobNextTryAt = 0, jobSentAt = 0, jobAckDeadline = 0, jobAcknowledgedAt = 0, jobLastError = '''',
      jobLeaseToken = '''', jobAutomaticRetry = False\<rparr>"

definition mapJob ::
  "HexCodec \<Rightarrow> ObjectID \<Rightarrow> string \<Rightarrow> 64 word \<Rightarrow> string \<Rightarrow> string \<Rightarrow> Pool \<Rightarrow> string \<Rightarrow> PlanError + Job list" where
  "mapJob hex mid channel sequence eventID kind pool slotText =
     (case ParsePoolSlot slotText of
        None \<Rightarrow> Inl PlanBadSlot
      | Some slot \<Rightarrow>
          (case Option.bind (FindSlot pool slot) pcBeatmapID of
             None \<Rightarrow> Inl PlanNoBeatmap
           | Some b \<Rightarrow>
               if b \<le> 0 then Inl PlanNoBeatmap
               else Inr [makeJob hex mid channel sequence (eventID @ ''-map'') kind
                           (''PRIVMSG '' @ channel @ '' :!mp map '' @ itoa b)]))"

text \<open>The participants of a match: the leaders, then the players.\<close>

definition participantIDs :: "Match \<Rightarrow> int list" where
  "participantIDs m =
     (if tsLeaderID (matchTeamRed m) > 0 then [tsLeaderID (matchTeamRed m)] else []) @
     (if tsLeaderID (matchTeamBlue m) > 0 then [tsLeaderID (matchTeamBlue m)] else []) @
     tsPlayers (matchTeamRed m) @ tsPlayers (matchTeamBlue m)"

definition inviteJob :: "HexCodec \<Rightarrow> MatchOutboxDocument \<Rightarrow> string \<Rightarrow> int \<Rightarrow> string \<Rightarrow> Job" where
  "inviteJob hex ev channel i username =
     (makeJob hex (obMatchID ev) channel (obSequence ev) (obEventID ev @ ''-invite-'' @ itoa i)
        ''INVITE'' (''PRIVMSG '' @ channel @ '' :!mp invite '' @ username))\<lparr>jobAckTarget := username\<rparr>"

text \<open>The loop over the participants; \<open>seen\<close> are the ids already invited.\<close>

fun inviteJobs ::
  "'w Publisher \<Rightarrow> 'w \<Rightarrow> MatchOutboxDocument \<Rightarrow> string \<Rightarrow> int list \<Rightarrow> int list \<Rightarrow> PlanError + Job list" where
  "inviteJobs pub w ev channel seen [] = Inr []"
| "inviteJobs pub w ev channel seen (i # ids) =
     (if i \<le> 0 then Inl PlanBadRoster
      else if i \<in> set seen then inviteJobs pub w ev channel seen ids
      else (case userByOsuID (pbRooms pub) w i of
              Inl e \<Rightarrow> Inl (PlanNoUser e)
            | Inr user \<Rightarrow>
                (case banchoUsername user i of
                   Inl e \<Rightarrow> Inl e
                 | Inr username \<Rightarrow>
                     (case inviteJobs pub w ev channel (i # seen) ids of
                        Inl e \<Rightarrow> Inl e
                      | Inr jobs \<Rightarrow> Inr (inviteJob (pbHex pub) ev channel i username # jobs)))))"

text \<open>The first tiebreaker piece that can be played, counted from \<open>index\<close>.\<close>

fun playableTB :: "nat \<Rightarrow> Piece list \<Rightarrow> nat option" where
  "playableTB index [] = None"
| "playableTB index (piece # pieces) =
     (case pcBeatmapID piece of
        Some b \<Rightarrow> if b > 0 then Some index else playableTB (index + 1) pieces
      | None \<Rightarrow> playableTB (index + 1) pieces)"

definition planJobs :: "'w Publisher \<Rightarrow> 'w \<Rightarrow> MatchOutboxDocument \<Rightarrow> PlanError + Job list" where
  "planJobs pub w ev =
     (if obType ev \<notin> {EventMatchStarted, EventPiecePlaced, EventTBStarted} then Inr []
      else case matchByID (pbRooms pub) w (obMatchID ev) of
             Inl e \<Rightarrow> Inl (PlanRead e)
           | Inr m \<Rightarrow>
          (case roomByID (pbRooms pub) w (matchRoomID m) of
             Inl e \<Rightarrow> Inl (PlanRead e)
           | Inr room \<Rightarrow>
          (case roomChannel (pbParseURL pub) room of
             Inl e \<Rightarrow> Inl e
           | Inr channel \<Rightarrow>
               if obType ev = EventMatchStarted
               then inviteJobs pub w ev channel [] (participantIDs m)
               else if obType ev = EventPiecePlaced
               then mapJob (pbHex pub) (obMatchID ev) channel (obSequence ev) (obEventID ev) ''MAP''
                      (matchMappool m) (pbPoolSlot pub (obPayload ev))
               else (case playableTB 1 (case mapGet (poolSlots (matchMappool m)) PieceModTB of
                                          None \<Rightarrow> [] | Some pieces \<Rightarrow> pieces) of
                       None \<Rightarrow> Inr []
                     | Some n \<Rightarrow>
                         mapJob (pbHex pub) (obMatchID ev) channel (obSequence ev) (obEventID ev)
                           ''TB_MAP'' (matchMappool m) (''TB-'' @ itoa (int n))))))"

section \<open>The loop\<close>

datatype PublishError = PublishOutbox OutboxError | PublishRecord OutboxError

text \<open>\<open>clock x\<close> is the reading of the clock for the write of the document \<open>x\<close>.\<close>

fun enqueueAll ::
  "'w Publisher \<Rightarrow> (string \<Rightarrow> Time) \<Rightarrow> 'w \<Rightarrow> Job list \<Rightarrow> 'w \<times> JobError option" where
  "enqueueAll pub clock w [] = (w, None)"
| "enqueueAll pub clock w (job # jobs) =
     (case Enqueue (pbJobs pub) (pbHex pub) (clock (jobID job)) w job of
        (w', Some e) \<Rightarrow> (w', Some e)
      | (w', None) \<Rightarrow> enqueueAll pub clock w' jobs)"

definition publishEvent ::
  "'w Publisher \<Rightarrow> (string \<Rightarrow> Time) \<Rightarrow> 'w \<Rightarrow> MatchOutboxDocument \<Rightarrow> 'w \<times> PublishError option" where
  "publishEvent pub clock w ev =
     (case planJobs pub w ev of
        Inl e \<Rightarrow>
          (case MarkEventFailed (pbOutbox pub) w (obEventID ev) (pbPlanText pub e) of
             (w', r) \<Rightarrow> (w', map_option PublishRecord r))
      | Inr jobs \<Rightarrow>
          (case enqueueAll pub clock w jobs of
             (w1, Some e) \<Rightarrow>
               (case MarkEventFailed (pbOutbox pub) w1 (obEventID ev) (pbEnqueueText pub e) of
                  (w2, r) \<Rightarrow> (w2, map_option PublishRecord r))
           | (w1, None) \<Rightarrow>
               (case MarkEventPublished (pbOutbox pub) w1 (obEventID ev) (clock (obEventID ev)) of
                  (w2, r) \<Rightarrow> (w2, map_option PublishOutbox r))))"

fun publishEvents ::
  "'w Publisher \<Rightarrow> (string \<Rightarrow> Time) \<Rightarrow> 'w \<Rightarrow> MatchOutboxDocument list \<Rightarrow> 'w \<times> PublishError option" where
  "publishEvents pub clock w [] = (w, None)"
| "publishEvents pub clock w (ev # evs) =
     (case publishEvent pub clock w ev of
        (w', Some e) \<Rightarrow> (w', Some e)
      | (w', None) \<Rightarrow> publishEvents pub clock w' evs)"

definition publisherRunOnce ::
  "'w Publisher \<Rightarrow> (string \<Rightarrow> Time) \<Rightarrow> 'w \<Rightarrow> 'w \<times> PublishError option" where
  "publisherRunOnce pub clock w =
     (case ListUnpublishedEvents (pbOutbox pub) w 100 of
        Inl e \<Rightarrow> (w, Some (PublishOutbox e))
      | Inr events \<Rightarrow> publishEvents pub clock w events)"

section \<open>What the database promises\<close>

text \<open>The documents a plan is made of are those of other collections.\<close>

definition samePlanning :: "'w RoomDb \<Rightarrow> 'w \<Rightarrow> 'w \<Rightarrow> bool" where
  "samePlanning db w w' \<longleftrightarrow>
     dbFindMatch db w' = dbFindMatch db w \<and> dbFindRoom db w' = dbFindRoom db w \<and> dbFindUser db w' = dbFindUser db w"

definition publisherLaws :: "'w Publisher \<Rightarrow> bool" where
  "publisherLaws pub \<longleftrightarrow>
     jobLaws (pbJobs pub) \<and> findEventsLaw (pbOutbox pub) \<and> updateEventLaw (pbOutbox pub) \<and>
     (\<forall>w d w' x. jdbUpsertJob (pbJobs pub) w d = (w', x) \<longrightarrow>
        sameEvents (pbOutbox pub) w w' \<and> samePlanning (pbRooms pub) w w') \<and>
     (\<forall>w i P u w' x. odbUpdateEvent (pbOutbox pub) w i P u = (w', x) \<longrightarrow>
        sameJobs (pbJobs pub) w w' \<and> samePlanning (pbRooms pub) w w')"

end
