(* ===== verification/OutboxHistory.thy ===== *)
theory OutboxHistory
  imports Outbox EngineHistory
begin

text \<open>
  The history of the outbox. \<open>outboxStep\<close> has one rule for each write to the collection: the events a
  commit of the command store appends, the calls of publishers and referees, and one for the writes to
  other collections, in any order; a
  publisher that stalls between listing an event and marking it is a history in which others act in
  between. The interpretation \<open>outbox\<close> of \<open>step_system\<close> carries the order of publication.
\<close>

section \<open>Steps\<close>

text \<open>Beside the database: the events that publishers have listed.\<close>

record 'w Publication =
  puWorld :: 'w
  puListed :: "MatchOutboxDocument set"

inductive outboxStep ::
  "'w OutboxDb \<Rightarrow> 'w Mongo \<Rightarrow> Codec \<Rightarrow> 'w Publication \<Rightarrow> 'w Publication \<Rightarrow> bool" for db mongo codec where
  Commits: "buildOutboxDocuments mongo codec (puWorld p) env actor tr = Inr (documents, payloads, committed) \<Longrightarrow>
    insertOutbox mongo (puWorld p) documents = (w', x) \<Longrightarrow>
    outboxStep db mongo codec p (p\<lparr>puWorld := w'\<rparr>)"
| Lists: "ListUnpublishedEvents db (puWorld p) limit = Inr ds \<Longrightarrow> d \<in> set ds \<Longrightarrow>
    outboxStep db mongo codec p (p\<lparr>puListed := insert d (puListed p)\<rparr>)"
| Publishes: "d \<in> puListed p \<Longrightarrow> MarkEventPublished db (puWorld p) (obEventID d) at = (w', r) \<Longrightarrow>
    outboxStep db mongo codec p (p\<lparr>puWorld := w'\<rparr>)"
| Fails: "MarkEventFailed db (puWorld p) i message = (w', r) \<Longrightarrow>
    outboxStep db mongo codec p (p\<lparr>puWorld := w'\<rparr>)"
| Retries: "RetryFailedEvent db (puWorld p) mid i = (w', r) \<Longrightarrow>
    outboxStep db mongo codec p (p\<lparr>puWorld := w'\<rparr>)"
| Others: "sameEvents db (puWorld p) w' \<Longrightarrow> outboxStep db mongo codec p (p\<lparr>puWorld := w'\<rparr>)"

inductive_cases outboxStepE: "outboxStep db mongo codec p p'"

section \<open>The effect of a step\<close>

lemma outboxLawsD:
  assumes "outboxLaws db mongo"
  shows "findEventsLaw db" "updateEventLaw db" "insertEventsLaw db mongo"
  using assms by (simp_all add: outboxLaws_def)

definition eventChanged ::
  "'w OutboxDb \<Rightarrow> 'w \<Rightarrow> string \<Rightarrow> (MatchOutboxDocument \<Rightarrow> bool) \<Rightarrow> (MatchOutboxDocument \<Rightarrow> MatchOutboxDocument)
   \<Rightarrow> 'w \<Rightarrow> bool" where
  "eventChanged db w i P u w' \<longleftrightarrow>
     (\<exists>d. odbEvent db w i = Some d \<and> P d \<and> odbEvent db w' = (odbEvent db w)(i \<mapsto> u d))"

lemma updateEvent_effect:
  assumes "outboxLaws db mongo" and "updateEvent db w i P u = (w', r)"
  shows "sameEvents db w w' \<and> r \<noteq> None \<or> eventChanged db w i P u w'"
proof -
  obtain x where x: "odbUpdateEvent db w i P u = (w', x)"
    and r: "r = (case x of Inl _ \<Rightarrow> Some OutboxDriver | Inr n \<Rightarrow> if n = 0 then Some OutboxRefused else None)"
    using assms(2) by (auto simp: updateEvent_def split: prod.splits sum.splits)
  from outboxLawsD(2) [OF assms(1), unfolded updateEventLaw_def, rule_format, OF x] r
  show ?thesis by (auto simp: eventChanged_def split: sum.splits)
qed

lemma marking_effects:
  assumes laws: "outboxLaws db mongo"
  shows "MarkEventPublished db w i at = (w', r) \<Longrightarrow> sameEvents db w w' \<and> r \<noteq> None \<or>
      eventChanged db w i (\<lambda>d. obStatus d \<in> {OutboxPending, OutboxFailed}) (publishedEvent at) w'"
    and "MarkEventFailed db w i message = (w', r) \<Longrightarrow> sameEvents db w w' \<and> r \<noteq> None \<or>
      eventChanged db w i (\<lambda>d. obStatus d \<noteq> OutboxPublished) (failedEvent message) w'"
    and "RetryFailedEvent db w mid i = (w', r) \<Longrightarrow> sameEvents db w w' \<and> r \<noteq> None \<or>
      eventChanged db w i (\<lambda>d. obMatchID d = mid \<and> obStatus d = OutboxFailed) retriedEvent w'"
  using updateEvent_effect [OF laws]
  by (auto simp: MarkEventPublished_def MarkEventFailed_def RetryFailedEvent_def sameEvents_def
      split: if_splits)

text \<open>What stays of an event.\<close>

definition sameEvent :: "MatchOutboxDocument \<Rightarrow> MatchOutboxDocument \<Rightarrow> bool" where
  "sameEvent d d' \<longleftrightarrow> obEventID d' = obEventID d \<and> obMatchID d' = obMatchID d \<and>
     obSequence d' = obSequence d \<and> obResultingVersion d' = obResultingVersion d \<and> obType d' = obType d \<and>
     obActor d' = obActor d \<and> obPayload d' = obPayload d \<and> obOccurredAt d' = obOccurredAt d"

lemma sameEvent_refl [simp]: "sameEvent d d" by (simp add: sameEvent_def)

lemma sameEvent_trans: "sameEvent d e \<Longrightarrow> sameEvent e f \<Longrightarrow> sameEvent d f"
  by (simp add: sameEvent_def)

lemmas eventUpdates = publishedEvent_def failedEvent_def retriedEvent_def

text \<open>Events that a commit appends come after those of their match.\<close>

definition appended :: "'w OutboxDb \<Rightarrow> 'w \<Rightarrow> MatchOutboxDocument list \<Rightarrow> bool" where
  "appended db w ds \<longleftrightarrow>
     (\<forall>d\<in>set ds. odbEvent db w (obEventID d) = None \<and> obStatus d = OutboxPending \<and>
        (\<forall>i e. odbEvent db w i = Some e \<and> obMatchID e = obMatchID d \<longrightarrow> obSequence e < obSequence d))"

lemma buildEvents_pending:
  assumes "buildEvents codec env actor version lastSeq index evs = Inr (docs, payloads, committed)"
  shows "\<forall>d\<in>set docs. obStatus d = OutboxPending \<and> obMatchID d = envMatchID env"
  using assms
proof (induction evs arbitrary: index docs payloads committed)
  case (Cons ev evs)
  then obtain d ds ps cs where split: "docs = d # ds"
    and head: "obStatus d = OutboxPending" "obMatchID d = envMatchID env"
    and tail: "buildEvents codec env actor version lastSeq (Suc index) evs = Inr (ds, ps, cs)"
    by (auto simp: Let_def outboxDocument_def split: option.splits sum.splits prod.splits)
  then show ?case using Cons.IH [OF tail] by simp
qed simp

text \<open>Sequences that fit a BSON integer have not wrapped around.\<close>

lemma sequences_after:
  fixes n :: "64 word"
  assumes n: "unat n < 2 ^ 63" and small: "\<forall>i<k. unat (n + of_nat i + 1) < 2 ^ 63" and i: "i < k"
  shows "n < n + of_nat i + 1"
proof -
  have succ: "unat (m + 1) = unat m + 1" if "unat m < 2 ^ 63" for m :: "64 word"
    using that by (simp add: unat_word_ariths)
  have "unat n + i + 1 < 2 ^ 63 \<and> unat (n + of_nat i + 1) = unat n + i + 1"
    using i
  proof (induction i)
    case 0
    have "unat (n + 1) = unat n + 1" using succ [OF n] .
    moreover have "unat (n + of_nat 0 + 1) < 2 ^ 63" using small 0 by blast
    ultimately show ?case by simp
  next
    case (Suc i)
    then have IH: "unat n + i + 1 < 2 ^ 63" "unat (n + of_nat i + 1) = unat n + i + 1" by simp_all
    have "n + of_nat (Suc i) + 1 = (n + of_nat i + 1) + 1" by simp
    then have "unat (n + of_nat (Suc i) + 1) = unat n + Suc i + 1"
      using IH succ [of "n + of_nat i + 1"] by simp
    moreover have "unat (n + of_nat (Suc i) + 1) < 2 ^ 63" using small Suc.prems by blast
    ultimately show ?case by simp
  qed
  then show ?thesis by (simp add: word_less_nat_alt)
qed

lemma commit_appends:
  assumes laws: "outboxLaws db mongo"
    and build: "buildOutboxDocuments mongo codec w env actor tr = Inr (documents, payloads, committed)"
    and insert: "insertOutbox mongo w documents = (w', x)"
  shows "sameEvents db w w' \<or> appended db w documents \<and>
    odbEvent db w' = odbEvent db w ++ map_of (map (\<lambda>d. (obEventID d, d)) documents)"
proof -
  note law = outboxLawsD(3) [OF laws, unfolded insertEventsLaw_def]
  obtain lastSeq where last: "lastSequence mongo w (envMatchID env) = Inr lastSeq"
    and evs: "buildEvents codec env actor (Version (trState tr)) lastSeq 0 (trEvents tr) =
      Inr (documents, payloads, committed)"
    using build by (auto simp: buildOutboxDocuments_def split: sum.splits)
  have bound: "unat lastSeq < 2 ^ 63 \<and>
      (\<forall>i e. odbEvent db w i = Some e \<and> obMatchID e = envMatchID env \<longrightarrow> obSequence e \<le> lastSeq)"
  proof (cases "findLatestSequence mongo w (envMatchID env)")
    case (Inr n)
    then show ?thesis using law last by (cases n) (auto simp: lastSequence_def)
  qed (use last in \<open>simp add: lastSequence_def\<close>)
  note numbers = buildEvents_sequences [OF evs]
  consider "sameEvents db w w'" | "odbEvent db w' = odbEvent db w ++ map_of (map (\<lambda>d. (obEventID d, d)) documents)"
    "\<forall>d\<in>set documents. odbEvent db w (obEventID d) = None \<and> unat (obSequence d) < 2 ^ 63"
    using law [THEN conjunct1, rule_format, OF insert] by blast
  then show ?thesis
  proof cases
    case 2
    have small: "\<forall>i<length documents. unat (lastSeq + of_nat i + 1) < 2 ^ 63"
    proof (intro allI impI)
      fix i assume i: "i < length documents"
      with numbers have "obSequence (documents ! i) = lastSeq + of_nat i + 1" by simp
      with 2(2) nth_mem [OF i] show "unat (lastSeq + of_nat i + 1) < 2 ^ 63" by metis
    qed
    have "lastSeq < obSequence d" if d: "d \<in> set documents" for d
    proof -
      obtain i where i: "i < length documents" "d = documents ! i" 
        using d by (auto simp: in_set_conv_nth)
      with numbers have "obSequence d = lastSeq + of_nat i + 1" by simp
      with sequences_after [OF _ small i(1)] bound show ?thesis by simp
    qed
    then have "appended db w documents"
      using 2(2) bound buildEvents_pending [OF evs] unfolding appended_def
      by (metis order_le_less_trans)
    with 2(1) show ?thesis by blast
  qed simp
qed

text \<open>
  The three kinds of effect. An event is published only by a publisher that has listed it, and only
  while it is not published.
\<close>

definition eventStep :: "'w Publication \<Rightarrow> MatchOutboxDocument \<Rightarrow> MatchOutboxDocument \<Rightarrow> bool" where
  "eventStep p d d' \<longleftrightarrow> sameEvent d d' \<and> obStatus d \<noteq> OutboxPublished \<and>
     (obStatus d' = OutboxPublished \<longrightarrow> (\<exists>l\<in>puListed p. obEventID l = obEventID d))"

lemma outboxStep_events:
  assumes laws: "outboxLaws db mongo" and step: "outboxStep db mongo codec p p'"
  shows "sameEvents db (puWorld p) (puWorld p') \<or>
    (\<exists>i d d'. odbEvent db (puWorld p) i = Some d \<and> eventStep p d d' \<and>
       odbEvent db (puWorld p') = (odbEvent db (puWorld p))(i \<mapsto> d')) \<or>
    (\<exists>ds. appended db (puWorld p) ds \<and>
       odbEvent db (puWorld p') = odbEvent db (puWorld p) ++ map_of (map (\<lambda>d. (obEventID d, d)) ds))"
    (is "?same \<or> ?change \<or> ?new")
proof -
  have keyed: "obEventID d = i" if "odbEvent db w i = Some d" for w i d
    using outboxLawsD(1) [OF laws] that by (simp add: findEventsLaw_def)
  have change: ?change
    if "eventChanged db (puWorld p) i P u (puWorld p')" "\<And>d. P d \<Longrightarrow> obEventID d = i \<Longrightarrow> eventStep p d (u d)" for i P u
    using that keyed unfolding eventChanged_def by metis
  show ?thesis
    using step
  proof (cases rule: outboxStep.cases)
    case (Commits env actor tr documents payloads committed w' x)
    from commit_appends [OF laws Commits(2,3)] Commits(1) show ?thesis by auto
  next
    case (Lists limit ds d)
    then show ?thesis by (simp add: sameEvents_def)
  next
    case (Publishes d at w' r)
    have facts: "eventStep p e (publishedEvent at e)" if "(\<lambda>d. obStatus d \<in> {OutboxPending, OutboxFailed}) e" "obEventID e = obEventID d" for e
      using that Publishes(2) by (auto simp: eventStep_def sameEvent_def eventUpdates)
    from marking_effects(1) [OF laws Publishes(3)] Publishes(1)
    have "?same \<or> eventChanged db (puWorld p) (obEventID d) (\<lambda>d. obStatus d \<in> {OutboxPending, OutboxFailed}) (publishedEvent at) (puWorld p')" by auto
    then show ?thesis using change [OF _ facts] by blast
  next
    case (Fails i message w' r)
    have facts: "eventStep p e (failedEvent message e)" if "(\<lambda>d. obStatus d \<noteq> OutboxPublished) e" "obEventID e = i" for e
      using that by (auto simp: eventStep_def sameEvent_def eventUpdates)
    from marking_effects(2) [OF laws Fails(2)] Fails(1)
    have "?same \<or> eventChanged db (puWorld p) (i) (\<lambda>d. obStatus d \<noteq> OutboxPublished) (failedEvent message) (puWorld p')" by auto
    then show ?thesis using change [OF _ facts] by blast
  next
    case (Retries mid i w' r)
    have facts: "eventStep p e (retriedEvent e)" if "(\<lambda>d. obMatchID d = mid \<and> obStatus d = OutboxFailed) e" "obEventID e = i" for e
      using that by (auto simp: eventStep_def sameEvent_def eventUpdates)
    from marking_effects(3) [OF laws Retries(2)] Retries(1)
    have "?same \<or> eventChanged db (puWorld p) (i) (\<lambda>d. obMatchID d = mid \<and> obStatus d = OutboxFailed) (retriedEvent) (puWorld p')" by auto
    then show ?thesis using change [OF _ facts] by blast
  next
    case (Others w')
    then show ?thesis by simp
  qed
qed

lemma outboxStep_listed:
  assumes "outboxStep db mongo codec p p'" and "d \<in> puListed p'"
  shows "d \<in> puListed p \<or> puWorld p' = puWorld p \<and> (\<exists>limit ds. ListUnpublishedEvents db (puWorld p) limit = Inr ds \<and> d \<in> set ds)"
  using assms(1)
proof (cases rule: outboxStep.cases)
  case (Lists limit ds e)
  then show ?thesis using assms(2) by auto
qed (use assms(2) in auto)

section \<open>The order of publication\<close>

text \<open>Every earlier event of the same match is published.\<close>

definition earlierPublished :: "'w OutboxDb \<Rightarrow> 'w \<Rightarrow> MatchOutboxDocument \<Rightarrow> bool" where
  "earlierPublished db w d \<longleftrightarrow>
     (\<forall>i e. odbEvent db w i = Some e \<and> obMatchID e = obMatchID d \<and> obSequence e < obSequence d \<longrightarrow>
        obStatus e = OutboxPublished)"

definition outboxOk :: "'w OutboxDb \<Rightarrow> 'w Publication \<Rightarrow> bool" where
  "outboxOk db p \<longleftrightarrow>
     (\<forall>i d. odbEvent db (puWorld p) i = Some d \<and> obStatus d = OutboxPublished \<longrightarrow>
        earlierPublished db (puWorld p) d) \<and>
     (\<forall>d\<in>puListed p. earlierPublished db (puWorld p) d \<and>
        (\<exists>e. odbEvent db (puWorld p) (obEventID d) = Some e \<and> sameEvent d e))"

definition eventsGrow :: "'w OutboxDb \<Rightarrow> 'w \<Rightarrow> 'w \<Rightarrow> bool" where
  "eventsGrow db w w' \<longleftrightarrow>
     (\<forall>i d. odbEvent db w i = Some d \<longrightarrow>
        (\<exists>d'. odbEvent db w' i = Some d' \<and> sameEvent d d' \<and> (obStatus d = OutboxPublished \<longrightarrow> d' = d)))"

lemma appended_keeps:
  assumes "appended db w ds" and "odbEvent db w' = odbEvent db w ++ map_of (map (\<lambda>d. (obEventID d, d)) ds)"
  shows "odbEvent db w i = Some d \<Longrightarrow> odbEvent db w' i = Some d"
    and "odbEvent db w' i = Some d \<Longrightarrow> odbEvent db w i = Some d \<or> d \<in> set ds"
proof -
  have new: "map_of (map (\<lambda>d. (obEventID d, d)) ds) i = Some e \<Longrightarrow> e \<in> set ds \<and> obEventID e = i" for e
    by (auto dest: map_of_SomeD)
  show "odbEvent db w' i = Some d" if d: "odbEvent db w i = Some d"
  proof (cases "map_of (map (\<lambda>d. (obEventID d, d)) ds) i")
    case (Some e)
    with new assms(1) have "odbEvent db w i = None" unfolding appended_def by blast
    with d show ?thesis by simp
  qed (simp add: assms(2) map_add_def d)
  show "odbEvent db w i = Some d \<or> d \<in> set ds" if d: "odbEvent db w' i = Some d"
  proof (cases "map_of (map (\<lambda>d. (obEventID d, d)) ds) i")
    case (Some e)
    then have "odbEvent db w' i = Some e" by (simp add: assms(2) map_add_def)
    with d new [OF Some] show ?thesis by simp
  qed (use d in \<open>simp add: assms(2) map_add_def\<close>)
qed

lemma outboxStep_grows:
  assumes "outboxLaws db mongo" and "outboxStep db mongo codec p p'"
  shows "eventsGrow db (puWorld p) (puWorld p')"
  using outboxStep_events [OF assms]
proof (elim disjE exE conjE)
  fix ds assume "appended db (puWorld p) ds"
    "odbEvent db (puWorld p') = odbEvent db (puWorld p) ++ map_of (map (\<lambda>d. (obEventID d, d)) ds)"
  from appended_keeps(1) [OF this] show ?thesis by (auto simp: eventsGrow_def)
qed (auto simp: eventsGrow_def sameEvents_def eventStep_def)

text \<open>An event that is not there yet comes after the events of its match that are.\<close>

lemma outboxStep_earlier:
  assumes laws: "outboxLaws db mongo" and step: "outboxStep db mongo codec p p'"
    and d: "odbEvent db (puWorld p) (obEventID d) = Some e" "sameEvent d e"
    and earlier: "earlierPublished db (puWorld p) d"
  shows "earlierPublished db (puWorld p') d"
  using outboxStep_events [OF laws step]
proof (elim disjE exE conjE)
  fix ds assume ds: "appended db (puWorld p) ds"
    "odbEvent db (puWorld p') = odbEvent db (puWorld p) ++ map_of (map (\<lambda>d. (obEventID d, d)) ds)"
  have "\<not> obSequence f < obSequence d" if "f \<in> set ds" "obMatchID f = obMatchID d" for f
    using ds(1) that d by (force simp: appended_def sameEvent_def)
  then show ?thesis
    using earlier appended_keeps(2) [OF ds] unfolding earlierPublished_def by blast
qed (use earlier in \<open>auto simp: earlierPublished_def sameEvents_def eventStep_def sameEvent_def split: if_splits\<close>)

lemma ListUnpublished_earliest:
  assumes "outboxLaws db mongo" and "ListUnpublishedEvents db w limit = Inr ds" and "d \<in> set ds"
  shows "odbEvent db w (obEventID d) = Some d" "earlierPublished db w d"
proof -
  note first = ListUnpublished_first [OF outboxLawsD(1) [OF assms(1)] assms(2,3)]
  show "odbEvent db w (obEventID d) = Some d" by (rule first(1))
  show "earlierPublished db w d"
    unfolding earlierPublished_def
  proof (intro allI impI, rule ccontr)
    fix i e assume e: "odbEvent db w i = Some e \<and> obMatchID e = obMatchID d \<and> obSequence e < obSequence d"
      "obStatus e \<noteq> OutboxPublished"
    with first(2) [of i e] show False by auto
  qed
qed

lemma outboxStep_ok:
  assumes laws: "outboxLaws db mongo" and ok: "outboxOk db p" and step: "outboxStep db mongo codec p p'"
  shows "outboxOk db p'"
proof -
  note grows = outboxStep_grows [OF laws step, unfolded eventsGrow_def, rule_format]
  have listed: "earlierPublished db (puWorld p') d \<and>
      (\<exists>e. odbEvent db (puWorld p') (obEventID d) = Some e \<and> sameEvent d e)" if "d \<in> puListed p" for d
  proof -
    have was: "earlierPublished db (puWorld p) d \<and>
        (\<exists>e. odbEvent db (puWorld p) (obEventID d) = Some e \<and> sameEvent d e)"
      using ok that by (simp add: outboxOk_def)
    then obtain e where e: "odbEvent db (puWorld p) (obEventID d) = Some e" "sameEvent d e"
      "earlierPublished db (puWorld p) d" by (elim conjE exE)
    from grows [OF e(1)] obtain e' where "odbEvent db (puWorld p') (obEventID d) = Some e'" "sameEvent e e'"
      by (elim exE conjE)
    with outboxStep_earlier [OF laws step e] sameEvent_trans [OF e(2)] show ?thesis by blast
  qed
  have keyed: "obEventID d = i" if "odbEvent db w i = Some d" for w i d
    using outboxLawsD(1) [OF laws] that by (simp add: findEventsLaw_def)
  have kept: "earlierPublished db (puWorld p') d"
    if d: "odbEvent db (puWorld p) i = Some d" "obStatus d = OutboxPublished" for i d
    using ok d outboxStep_earlier [OF laws step, of d d] keyed [OF d(1)] by (auto simp: outboxOk_def)
  have "earlierPublished db (puWorld p') d"
    if d: "odbEvent db (puWorld p') i = Some d" "obStatus d = OutboxPublished" for i d
    using outboxStep_events [OF laws step]
  proof (elim disjE exE conjE)
    fix j e e' assume e: "odbEvent db (puWorld p) j = Some e" "eventStep p e e'"
      "odbEvent db (puWorld p') = (odbEvent db (puWorld p))(j \<mapsto> e')"
    show ?thesis
    proof (cases "i = j")
      case True
      then obtain l where l: "l \<in> puListed p" "obEventID l = j"
        using e d keyed [OF e(1)] by (auto simp: eventStep_def)
      with listed [OF l(1)] True d have "earlierPublished db (puWorld p') l" "sameEvent l d" by auto
      then show ?thesis by (simp add: earlierPublished_def sameEvent_def)
    qed (use kept d e(3) in simp)
  next
    fix ds assume ds: "appended db (puWorld p) ds"
      "odbEvent db (puWorld p') = odbEvent db (puWorld p) ++ map_of (map (\<lambda>d. (obEventID d, d)) ds)"
    then have "d \<notin> set ds" using d(2) by (auto simp: appended_def)
    with appended_keeps(2) [OF ds d(1)] kept d(2) show ?thesis by blast
  qed (use kept d in \<open>simp add: sameEvents_def\<close>)
  moreover have "earlierPublished db (puWorld p') d \<and>
      (\<exists>e. odbEvent db (puWorld p') (obEventID d) = Some e \<and> sameEvent d e)" if "d \<in> puListed p'" for d
    using outboxStep_listed [OF step that] listed ListUnpublished_earliest [OF laws] by fastforce
  ultimately show ?thesis by (auto simp: outboxOk_def)
qed

interpretation outbox: step_system "outboxStep db mongo codec"
  "\<lambda>p. outboxLaws db mongo \<and> outboxOk db p" "\<lambda>p p'. eventsGrow db (puWorld p) (puWorld p')"
proof unfold_locales
  show "eventsGrow db (puWorld p) (puWorld r)"
    if "eventsGrow db (puWorld p) (puWorld q)" "eventsGrow db (puWorld q) (puWorld r)" for p q r
    using that unfolding eventsGrow_def by (metis sameEvent_trans)
qed (auto simp: eventsGrow_def intro: outboxStep_ok outboxStep_grows [unfolded eventsGrow_def, rule_format])

end
