(* ===== verification/PublisherFacts.thy ===== *)
theory PublisherFacts
  imports IrcPublisher IrcWorker OutboxHistory
begin

text \<open>
  What the publisher does: plans invite every participant once and hold no line breaks, an event is
  published only when the queue holds all of its commands, and a run of the publisher is a history of the
  outbox.
\<close>

section \<open>Plans\<close>

lemma makeJob_fields:
  "jobID (makeJob hex mid channel n i kind payload) = i" "jobSequence (makeJob hex mid channel n i kind payload) = n"
  "jobChannel (makeJob hex mid channel n i kind payload) = channel"
  "jobKind (makeJob hex mid channel n i kind payload) = kind"
  "jobPayload (makeJob hex mid channel n i kind payload) = payload"
  "jobMatchID (makeJob hex mid channel n i kind payload) = hexPrint hex mid"
  "jobAckTarget (makeJob hex mid channel n i kind payload) = ''''"
  by (simp_all add: makeJob_def)

text \<open>The ids in order of their first occurrence.\<close>

fun firstOccurrences :: "int list \<Rightarrow> int list \<Rightarrow> int list" where
  "firstOccurrences seen [] = []"
| "firstOccurrences seen (i # ids) =
     (if i \<in> set seen then firstOccurrences seen ids else i # firstOccurrences (i # seen) ids)"

lemma firstOccurrences_set:
  "set (firstOccurrences seen ids) = set ids - set seen \<and> distinct (firstOccurrences seen ids)"
  by (induction seen ids rule: firstOccurrences.induct) auto

lemma inviteJobs_spec:
  assumes "inviteJobs pub w ev channel seen ids = Inr jobs"
  shows "(\<forall>i\<in>set ids. 0 < i) \<and> length jobs = length (firstOccurrences seen ids) \<and>
    (\<forall>k<length jobs. \<exists>user username. userByOsuID (pbRooms pub) w (firstOccurrences seen ids ! k) = Inr user \<and>
       banchoUsername user (firstOccurrences seen ids ! k) = Inr username \<and>
       jobs ! k = inviteJob (pbHex pub) ev channel (firstOccurrences seen ids ! k) username)"
  using assms
proof (induction ids arbitrary: seen jobs)
  case (Cons i ids)
  show ?case
  proof (cases "i \<in> set seen")
    case True
    then show ?thesis using Cons by (auto split: if_splits)
  next
    case False
    then obtain user username rest where i: "0 < i" "userByOsuID (pbRooms pub) w i = Inr user"
      "banchoUsername user i = Inr username" "inviteJobs pub w ev channel (i # seen) ids = Inr rest"
      "jobs = inviteJob (pbHex pub) ev channel i username # rest"
      using Cons.prems by (auto split: if_splits sum.splits)
    note IH = Cons.IH [OF i(4)]
    show ?thesis
    proof (intro conjI allI impI)
      fix k assume k: "k < length jobs"
      show "\<exists>user username. userByOsuID (pbRooms pub) w (firstOccurrences seen (i # ids) ! k) = Inr user \<and>
          banchoUsername user (firstOccurrences seen (i # ids) ! k) = Inr username \<and>
          jobs ! k = inviteJob (pbHex pub) ev channel (firstOccurrences seen (i # ids) ! k) username"
        using k IH i False by (cases k) auto
    qed (use IH i False in auto)
  qed
qed simp

text \<open>Characters that end no line.\<close>

definition oneLine :: "string \<Rightarrow> bool" where
  "oneLine s \<longleftrightarrow> CHR 0x0D \<notin> set s \<and> CHR 0x0A \<notin> set s"

lemma oneLine_append [simp]: "oneLine (s @ t) \<longleftrightarrow> oneLine s \<and> oneLine t"
  by (auto simp: oneLine_def)

lemma digits_oneLine: "list_all isDigit s \<Longrightarrow> oneLine s"
  by (auto simp: oneLine_def list_all_iff isDigit_def)

lemma itoa_oneLine: "0 \<le> n \<Longrightarrow> oneLine (itoa n)"
  using itoa_digits digits_oneLine by blast

lemma atoi_oneLine:
  assumes "atoi s = Some n"
  shows "oneLine s"
proof (cases s)
  case (Cons c t)
  then have "list_all isDigit s \<or> c \<in> {CHR ''-'', CHR ''+''} \<and> list_all isDigit t"
    using assms by (auto simp: atoi_def Let_def split: if_splits)
  then show ?thesis using digits_oneLine [of s] digits_oneLine [of t] Cons by (auto simp: oneLine_def)
qed (simp add: oneLine_def)

lemma channel_oneLine: "ChannelFromMPLink parseURL link = Some channel \<Longrightarrow> oneLine channel"
  by (auto simp: ChannelFromMPLink_def oneLine_def dest!: atoi_oneLine
      split: option.splits if_splits list.splits)

lemma banchoUsername_oneLine: "banchoUsername user i = Inr username \<Longrightarrow> username \<noteq> '''' \<and> oneLine username"
  by (auto simp: banchoUsername_def oneLine_def containsAny_def Let_def split: if_splits)

lemma banchoUsername_account: "banchoUsername user i = Inr username \<Longrightarrow> userOnlineID user = i"
  by (auto simp: banchoUsername_def split: if_splits)

lemma roomChannel_oneLine: "roomChannel parseURL room = Inr channel \<Longrightarrow> oneLine channel"
  using channel_oneLine by (auto simp: roomChannel_def split: option.splits)

lemma mapJob_shape:
  assumes "mapJob hex mid channel n eventID kind pool slotText = Inr jobs"
  shows "\<exists>b slot. ParsePoolSlot slotText = Some slot \<and> Option.bind (FindSlot pool slot) pcBeatmapID = Some b \<and>
    0 < b \<and> jobs = [makeJob hex mid channel n (eventID @ ''-map'') kind
      (''PRIVMSG '' @ channel @ '' :!mp map '' @ itoa b)]"
  using assms by (auto simp: mapJob_def split: option.splits if_splits)

text \<open>Every planned job is one command for the channel of the room.\<close>

lemma planJobs_shape:
  assumes plan: "planJobs pub w ev = Inr jobs" and job: "job \<in> set jobs"
  shows "\<exists>m room channel. matchByID (pbRooms pub) w (obMatchID ev) = Inr m \<and>
    roomByID (pbRooms pub) w (matchRoomID m) = Inr room \<and> roomChannel (pbParseURL pub) room = Inr channel \<and>
    jobChannel job = channel \<and> jobSequence job = obSequence ev \<and>
    jobMatchID job = hexPrint (pbHex pub) (obMatchID ev) \<and> jobKind job \<noteq> '''' \<and>
    (\<exists>command. jobPayload job = ''PRIVMSG '' @ channel @ '' :!mp '' @ command \<and> oneLine command) \<and>
    (\<exists>suffix. jobID job = obEventID ev @ CHR ''-'' # suffix)"
proof -
  obtain m room channel where found: "matchByID (pbRooms pub) w (obMatchID ev) = Inr m"
    "roomByID (pbRooms pub) w (matchRoomID m) = Inr room" "roomChannel (pbParseURL pub) room = Inr channel"
    using plan job by (auto simp: planJobs_def split: if_splits sum.splits)
  have invite: ?thesis if "inviteJobs pub w ev channel [] (participantIDs m) = Inr jobs"
  proof -
    obtain k where k: "k < length jobs" "job = jobs ! k" using job by (auto simp: in_set_conv_nth)
    with inviteJobs_spec [OF that] obtain i user username where "banchoUsername user i = Inr username"
      "job = inviteJob (pbHex pub) ev channel i username" by blast
    then show ?thesis using found banchoUsername_oneLine
      by (auto simp: inviteJob_def makeJob_fields oneLine_def)
  qed
  have mapped: ?thesis if "mapJob (pbHex pub) (obMatchID ev) channel (obSequence ev) (obEventID ev) kind
      pool slotText = Inr jobs" "kind \<noteq> ''''" for kind pool slotText
    using mapJob_shape [OF that(1)] job found that(2) itoa_oneLine
    by (auto simp: makeJob_fields oneLine_def)
  show ?thesis
    using plan job found invite mapped
    by (auto simp: planJobs_def split: if_splits option.splits)
qed

section \<open>Publication\<close>

lemma publisherLawsD:
  assumes "publisherLaws pub"
  shows "jobLaws (pbJobs pub)" "findEventsLaw (pbOutbox pub)" "updateEventLaw (pbOutbox pub)"
    and "jdbUpsertJob (pbJobs pub) w d = (w', x) \<Longrightarrow>
      sameEvents (pbOutbox pub) w w' \<and> samePlanning (pbRooms pub) w w'"
    and "odbUpdateEvent (pbOutbox pub) w i P u = (w', y) \<Longrightarrow>
      sameJobs (pbJobs pub) w w' \<and> samePlanning (pbRooms pub) w w'"
  using assms unfolding publisherLaws_def by blast+

text \<open>A job that is in the queue with the content that was asked for.\<close>

definition jobQueued :: "'w Publisher \<Rightarrow> 'w \<Rightarrow> Job \<Rightarrow> bool" where
  "jobQueued pub w job \<longleftrightarrow>
     (\<exists>mid d. hexParse (pbHex pub) (jobMatchID job) = Some mid \<and>
        jdbFindJob (pbJobs pub) w (jobID job) = Inr (Some d) \<and> sameJob mid job d)"

text \<open>Documents are not lost.\<close>

definition jobsKept :: "'w Publisher \<Rightarrow> 'w \<Rightarrow> 'w \<Rightarrow> bool" where
  "jobsKept pub w w' \<longleftrightarrow>
     (\<forall>i d. jdbFindJob (pbJobs pub) w i = Inr (Some d) \<longrightarrow> jdbFindJob (pbJobs pub) w' i = Inr (Some d)) \<and>
     samePlanning (pbRooms pub) w w' \<and> dom (odbEvent (pbOutbox pub) w) \<subseteq> dom (odbEvent (pbOutbox pub) w')"

lemma samePlanning_refl [simp]: "samePlanning db w w" by (simp add: samePlanning_def)

lemma jobsKept_refl [simp]: "jobsKept pub w w" by (simp add: jobsKept_def)

lemma jobsKept_trans: "jobsKept pub u v \<Longrightarrow> jobsKept pub v w \<Longrightarrow> jobsKept pub u w"
  unfolding jobsKept_def samePlanning_def by (simp, blast)

lemma jobQueued_kept: "jobQueued pub w job \<Longrightarrow> jobsKept pub w w' \<Longrightarrow> jobQueued pub w' job"
  unfolding jobQueued_def jobsKept_def by blast

lemma Enqueue_queued:
  assumes laws: "publisherLaws pub" and run: "Enqueue (pbJobs pub) (pbHex pub) now w job = (w', r)"
  shows "jobsKept pub w w' \<and> sameEvents (pbOutbox pub) w w' \<and> (r = None \<longrightarrow> jobQueued pub w' job)"
proof (cases "\<exists>mid. hexParse (pbHex pub) (jobMatchID job) = Some mid \<and> jobComplete job")
  case True
  then obtain mid where mid: "hexParse (pbHex pub) (jobMatchID job) = Some mid" "jobComplete job" by blast
  obtain v x where v: "jdbUpsertJob (pbJobs pub) w (newJobDocument mid now job) = (v, x)" by fastforce
  have w': "w' = v" and stored: "r = None \<Longrightarrow> jobQueued pub v job"
    using run v mid by (auto simp: Enqueue_def jobQueued_def split: sum.splits option.splits if_splits)
  have "jdID (newJobDocument mid now job) = jobID job" by (simp add: newJobDocument_def)
  with jobLawsD(3) [OF publisherLawsD(1) [OF laws], unfolded upsertJobLaw_def, rule_format, OF v]
  have "sameJobs (pbJobs pub) w v \<or> jdbFindJob (pbJobs pub) w (jobID job) = Inr None \<and>
      jobWritten (pbJobs pub) w (jobID job) (newJobDocument mid now job) v" by auto
  then have "jobsKept pub w v"
    using publisherLawsD(4) [OF laws v] by (auto simp: jobsKept_def sameJobs_def jobWritten_def sameEvents_def)
  with w' stored publisherLawsD(4) [OF laws v] show ?thesis by blast
next
  case False
  then have "w' = w \<and> r \<noteq> None" using run by (auto simp: Enqueue_def split: option.splits if_splits)
  then show ?thesis by (auto simp: sameEvents_def)
qed

lemma enqueueAll_queued:
  assumes "publisherLaws pub" and "enqueueAll pub clock w jobs = (w', r)"
  shows "jobsKept pub w w' \<and> sameEvents (pbOutbox pub) w w' \<and> (r = None \<longrightarrow> (\<forall>job\<in>set jobs. jobQueued pub w' job))"
  using assms(2)
proof (induction jobs arbitrary: w)
  case (Cons job jobs)
  obtain v x where v: "Enqueue (pbJobs pub) (pbHex pub) (clock (jobID job)) w job = (v, x)" by fastforce
  note first = Enqueue_queued [OF assms(1) v]
  show ?case
  proof (cases x)
    case None
    then have rest: "enqueueAll pub clock v jobs = (w', r)" using Cons.prems v by simp
    from Cons.IH [OF this] first None jobsKept_trans jobQueued_kept show ?thesis
      by (auto simp: sameEvents_def)
  next
    case (Some e)
    then show ?thesis using Cons.prems v first by auto
  qed
qed (simp add: sameEvents_def)

lemma planJobs_same: "samePlanning (pbRooms pub) w w' \<Longrightarrow> planJobs pub w' ev = planJobs pub w ev"
proof -
  assume same: "samePlanning (pbRooms pub) w w'"
  have "inviteJobs pub w' ev channel seen ids = inviteJobs pub w ev channel seen ids" for channel seen ids
    using same by (induction ids arbitrary: seen)
      (simp_all add: samePlanning_def userByOsuID_def cong: sum.case_cong)
  moreover have "matchByID (pbRooms pub) w' i = matchByID (pbRooms pub) w i"
    "roomByID (pbRooms pub) w' i = roomByID (pbRooms pub) w i" for i
    using same by (simp_all add: samePlanning_def matchByID_def roomByID_def)
  ultimately show ?thesis by (simp only: planJobs_def)
qed

text \<open>One event: others keep their place in the outbox, and a published event has its commands.\<close>

lemma markings_effect:
  assumes laws: "publisherLaws pub"
    and mark: "updateEvent (pbOutbox pub) w i P u = (w', r)"
  shows "jobsKept pub w w' \<and> (odbEvent (pbOutbox pub) w' = odbEvent (pbOutbox pub) w \<or>
    (\<exists>d. odbEvent (pbOutbox pub) w i = Some d \<and> P d \<and>
       odbEvent (pbOutbox pub) w' = (odbEvent (pbOutbox pub) w)(i \<mapsto> u d)))"
proof -
  obtain x where x: "odbUpdateEvent (pbOutbox pub) w i P u = (w', x)"
    using mark by (auto simp: updateEvent_def split: prod.splits sum.splits)
  from publisherLawsD(5) [OF laws x]
    publisherLawsD(3) [OF laws, unfolded updateEventLaw_def, rule_format, OF x]
  show ?thesis by (auto simp: jobsKept_def sameJobs_def sameEvents_def)
qed

definition newlyPublished :: "'w Publisher \<Rightarrow> 'w \<Rightarrow> 'w \<Rightarrow> string \<Rightarrow> bool" where
  "newlyPublished pub w w' i \<longleftrightarrow>
     (\<exists>d d'. odbEvent (pbOutbox pub) w i = Some d \<and> obStatus d \<noteq> OutboxPublished \<and>
        odbEvent (pbOutbox pub) w' i = Some d' \<and> obStatus d' = OutboxPublished)"

lemma publishEvent_effect:
  assumes laws: "publisherLaws pub" and run: "publishEvent pub clock w ev = (w', r)"
  shows "jobsKept pub w w' \<and>
    (\<forall>i. newlyPublished pub w w' i \<longrightarrow> i = obEventID ev \<and>
       (\<exists>jobs. planJobs pub w ev = Inr jobs \<and> (\<forall>job\<in>set jobs. jobQueued pub w' job)))"
proof -
  let ?i = "obEventID ev" and ?ob = "pbOutbox pub"
  have failed: "jobsKept pub v v' \<and> \<not> newlyPublished pub v v' i"
    if "MarkEventFailed ?ob v ?i message = (v', x)" for v v' x message i
    using that markings_effect [OF laws]
    by (fastforce simp: MarkEventFailed_def newlyPublished_def failedEvent_def split: if_splits)
  have marked: "jobsKept pub v v' \<and> (newlyPublished pub v v' i \<longrightarrow> i = ?i)"
    if "MarkEventPublished ?ob v ?i at = (v', x)" for v v' x at i
    using that markings_effect [OF laws]
    by (fastforce simp: MarkEventPublished_def newlyPublished_def split: if_splits)
  have moved: "newlyPublished pub w w' i \<longleftrightarrow> newlyPublished pub v w' i" if "sameEvents ?ob w v" for v i
    using that by (simp add: newlyPublished_def sameEvents_def)
  show ?thesis
  proof (cases "planJobs pub w ev")
    case (Inl e)
    then show ?thesis using run failed by (fastforce simp: publishEvent_def split: prod.splits)
  next
    case (Inr jobs)
    obtain w1 x where w1: "enqueueAll pub clock w jobs = (w1, x)" by fastforce
    note queued = enqueueAll_queued [OF laws w1]
    show ?thesis
    proof (cases x)
      case None
      obtain y where y: "MarkEventPublished ?ob w1 ?i (clock ?i) = (w', y)"
        using run Inr w1 None by (auto simp: publishEvent_def split: prod.splits)
      note kept = marked [OF y, THEN conjunct1] and events = moved [OF queued [THEN conjunct2, THEN conjunct1]]
      have jobs: "\<forall>job\<in>set jobs. jobQueued pub w' job"
        using queued None jobQueued_kept [OF _ kept] by simp
      have "jobsKept pub w w'" by (rule jobsKept_trans [OF queued [THEN conjunct1] kept])
      moreover have "i = ?i" if "newlyPublished pub w w' i" for i
        using that marked [OF y, of i] events by simp
      ultimately show ?thesis using jobs Inr by simp
    next
      case (Some e)
      obtain y where y: "MarkEventFailed ?ob w1 ?i (pbEnqueueText pub e) = (w', y)"
        using run Inr w1 Some by (auto simp: publishEvent_def split: prod.splits)
      have "jobsKept pub w w'"
        by (rule jobsKept_trans [OF queued [THEN conjunct1] failed [OF y, THEN conjunct1]])
      moreover have "\<not> newlyPublished pub w w' i" for i
        using failed [OF y, of i] moved [OF queued [THEN conjunct2, THEN conjunct1]] by simp
      ultimately show ?thesis by simp
    qed
  qed
qed

lemma publishEvents_effect:
  assumes laws: "publisherLaws pub" and "publishEvents pub clock w evs = (w', r)"
  shows "jobsKept pub w w' \<and>
    (\<forall>i. newlyPublished pub w w' i \<longrightarrow> (\<exists>ev jobs. ev \<in> set evs \<and> obEventID ev = i \<and> planJobs pub w ev = Inr jobs \<and>
       (\<forall>job\<in>set jobs. jobQueued pub w' job)))"
  using assms(2)
proof (induction evs arbitrary: w)
  case Nil
  then show ?case by (auto simp: newlyPublished_def)
next
  case (Cons ev evs)
  obtain v x where v: "publishEvent pub clock w ev = (v, x)" by fastforce
  note first = publishEvent_effect [OF laws v]
  show ?case
  proof (cases x)
    case (Some e)
    then have "w' = v" using Cons.prems v by simp
    with first show ?thesis by (metis list.set_intros(1))
  next
    case None
    then have rest: "publishEvents pub clock v evs = (w', r)" using Cons.prems v by simp
    note IH = Cons.IH [OF this]
    have plans: "planJobs pub v e = planJobs pub w e" for e
      using first planJobs_same [of pub w v] by (simp add: jobsKept_def)
    have "\<exists>e jobs. e \<in> set (ev # evs) \<and> obEventID e = i \<and> planJobs pub w e = Inr jobs \<and>
        (\<forall>job\<in>set jobs. jobQueued pub w' job)"
      if new: "newlyPublished pub w w' i" for i
    proof (cases "newlyPublished pub v w' i")
      case True
      then show ?thesis using IH plans by (metis list.set_intros(2))
    next
      case False
      have "newlyPublished pub w v i"
        using new False first unfolding newlyPublished_def jobsKept_def by blast
      with first obtain jobs where "i = obEventID ev" "planJobs pub w ev = Inr jobs"
        "\<forall>job\<in>set jobs. jobQueued pub v job" by blast
      then show ?thesis using IH jobQueued_kept by (metis list.set_intros(1))
    qed
    moreover have "jobsKept pub w w'"
      by (rule jobsKept_trans [OF first [THEN conjunct1] IH [THEN conjunct1]])
    ultimately show ?thesis by simp
  qed
qed

section \<open>The publisher is a history of the outbox\<close>

lemma publishEvent_run:
  assumes laws: "publisherLaws pub" and listed: "ev \<in> puListed p"
    and run: "publishEvent pub clock (puWorld p) ev = (w', r)"
  shows "\<exists>p'. (outboxStep (pbOutbox pub) mongo codec)\<^sup>*\<^sup>* p p' \<and> puWorld p' = w' \<and> puListed p' = puListed p"
proof (cases "planJobs pub (puWorld p) ev")
  case (Inl e)
  then obtain y where "MarkEventFailed (pbOutbox pub) (puWorld p) (obEventID ev) (pbPlanText pub e) = (w', y)"
    using run by (auto simp: publishEvent_def split: prod.splits)
  from r_into_rtranclp [where r = "outboxStep (pbOutbox pub) mongo codec", OF Fails [OF this]]
  show ?thesis by (intro exI conjI) (assumption | simp)+
next
  case (Inr jobs)
  obtain w1 x where w1: "enqueueAll pub clock (puWorld p) jobs = (w1, x)" by fastforce
  let ?q = "p\<lparr>puWorld := w1\<rparr>"
  have first: "outboxStep (pbOutbox pub) mongo codec p ?q"
    using enqueueAll_queued [OF laws w1] by (intro Others) simp
  have second: "outboxStep (pbOutbox pub) mongo codec ?q (?q\<lparr>puWorld := w'\<rparr>)"
  proof (cases x)
    case None
    then obtain y where "MarkEventPublished (pbOutbox pub) w1 (obEventID ev) (clock (obEventID ev)) = (w', y)"
      using run Inr w1 by (auto simp: publishEvent_def split: prod.splits)
    with listed show ?thesis by (intro Publishes) simp_all
  next
    case (Some e)
    then obtain y where "MarkEventFailed (pbOutbox pub) w1 (obEventID ev) (pbEnqueueText pub e) = (w', y)"
      using run Inr w1 by (auto simp: publishEvent_def split: prod.splits)
    then show ?thesis by (intro Fails) simp
  qed
  from rtranclp.rtrancl_into_rtrancl [OF r_into_rtranclp [of "outboxStep (pbOutbox pub) mongo codec", OF first] second]
  show ?thesis by (intro exI conjI) (assumption | simp)+
qed

lemma publishEvents_run:
  assumes "publisherLaws pub" and "set evs \<subseteq> puListed p"
    and "publishEvents pub clock (puWorld p) evs = (w', r)"
  shows "\<exists>p'. (outboxStep (pbOutbox pub) mongo codec)\<^sup>*\<^sup>* p p' \<and> puWorld p' = w'"
  using assms(2,3)
proof (induction evs arbitrary: p)
  case (Cons ev evs)
  obtain v x where v: "publishEvent pub clock (puWorld p) ev = (v, x)" by fastforce
  obtain q where q: "(outboxStep (pbOutbox pub) mongo codec)\<^sup>*\<^sup>* p q" "puWorld q = v" "puListed q = puListed p"
    using publishEvent_run [OF assms(1) _ v] Cons.prems(1) by auto
  show ?case
  proof (cases x)
    case None
    then have "publishEvents pub clock (puWorld q) evs = (w', r)" using Cons.prems(2) v q(2) by simp
    from Cons.IH [OF _ this] Cons.prems(1) q(1,3) show ?thesis by (auto intro: rtranclp_trans)
  next
    case (Some e)
    then show ?thesis using Cons.prems(2) v q by auto
  qed
qed auto

lemma listing_run:
  assumes "ListUnpublishedEvents db (puWorld p) limit = Inr ds" and "set evs \<subseteq> set ds"
  shows "(outboxStep db mongo codec)\<^sup>*\<^sup>* p (p\<lparr>puListed := set evs \<union> puListed p\<rparr>)"
  using assms(2)
proof (induction evs)
  case (Cons d evs)
  let ?q = "p\<lparr>puListed := set evs \<union> puListed p\<rparr>"
  have "outboxStep db mongo codec ?q (?q\<lparr>puListed := insert d (puListed ?q)\<rparr>)"
    using assms(1) Cons.prems by (intro Lists) auto
  then have "outboxStep db mongo codec ?q (p\<lparr>puListed := set (d # evs) \<union> puListed p\<rparr>)" by simp
  with Cons show ?case by (auto intro: rtranclp.rtrancl_into_rtrancl)
qed simp

lemma publisherRunOnce_run:
  assumes laws: "publisherLaws pub" and run: "publisherRunOnce pub clock (puWorld p) = (w', r)"
  shows "\<exists>p'. (outboxStep (pbOutbox pub) mongo codec)\<^sup>*\<^sup>* p p' \<and> puWorld p' = w'"
proof (cases "ListUnpublishedEvents (pbOutbox pub) (puWorld p) 100")
  case (Inl e)
  then show ?thesis using run by (auto simp: publisherRunOnce_def)
next
  case (Inr evs)
  let ?q = "p\<lparr>puListed := set evs \<union> puListed p\<rparr>"
  have "publishEvents pub clock (puWorld ?q) evs = (w', r)" using run Inr by (simp add: publisherRunOnce_def)
  from publishEvents_run [OF laws _ this] obtain p' where
    "(outboxStep (pbOutbox pub) mongo codec)\<^sup>*\<^sup>* ?q p'" "puWorld p' = w'" by auto
  with listing_run [OF Inr subset_refl] show ?thesis by (blast intro: rtranclp_trans)
qed

end
