(* ===== verification/SamplePublisher.thy ===== *)
theory SamplePublisher
  imports PublisherFacts SampleQueue
begin

text \<open>
  A sample database of events beside the queue of \<open>SampleQueue\<close> that satisfies \<open>outboxLaws\<close> and
  \<open>publisherLaws\<close>, and a publisher on it that publishes the start of a match and the event after it.
\<close>

section \<open>A sample database\<close>

record SampleOutbox = SampleQueue +
  soEvents :: "MatchOutboxDocument list"

definition sampleEvent :: "SampleOutbox \<Rightarrow> string \<Rightarrow> MatchOutboxDocument option" where
  "sampleEvent w i = find (\<lambda>d. obEventID d = i) (soEvents w)"

definition sampleUpdateEvent ::
  "SampleOutbox \<Rightarrow> string \<Rightarrow> (MatchOutboxDocument \<Rightarrow> bool) \<Rightarrow> (MatchOutboxDocument \<Rightarrow> MatchOutboxDocument)
   \<Rightarrow> SampleOutbox \<times> (unit + nat)" where
  "sampleUpdateEvent w i P u =
     (case sampleEvent w i of
        None \<Rightarrow> (w, Inr 0)
      | Some d \<Rightarrow>
          if \<not> P d then (w, Inr 0)
          else if obEventID (u d) \<noteq> i then (w, Inl ())
          else (w\<lparr>soEvents := map (\<lambda>e. if obEventID e = i then u d else e) (soEvents w)\<rparr>, Inr 1))"

definition sampleOutbox :: "SampleOutbox OutboxDb" where
  "sampleOutbox =
     \<lparr>odbEvent = sampleEvent,
      odbFindEvents = (\<lambda>w P. Inr (filter (\<lambda>d. P d \<and> sampleEvent w (obEventID d) = Some d) (soEvents w))),
      odbUpdateEvent = sampleUpdateEvent,
      odbFindAction = (\<lambda>w m c. Inr None), odbFindActions = (\<lambda>w m. Inr []),
      odbReceiptState = (\<lambda>w m v. Inr None)\<rparr>"

text \<open>The two calls of the command store that concern the outbox.\<close>

definition sampleInsertEvents ::
  "SampleOutbox \<Rightarrow> MatchOutboxDocument list \<Rightarrow> SampleOutbox \<times> (bool + unit)" where
  "sampleInsertEvents w ds =
     (if distinct (map obEventID ds) \<and> list_all (\<lambda>d. sampleEvent w (obEventID d) = None \<and> unat (obSequence d) < 2 ^ 63) ds
      then (w\<lparr>soEvents := ds @ soEvents w\<rparr>, Inr ()) else (w, Inl True))"

definition sampleEventMongo :: "SampleOutbox Mongo" where
  "sampleEventMongo =
     \<lparr>findSnapshot = (\<lambda>w m. Inr None), findLegacyMatch = (\<lambda>w m. Inr False),
      insertSnapshot = (\<lambda>w d. (w, Inl False)), updateSnapshot = (\<lambda>w f u. (w, Inl ())),
      findReceipt = (\<lambda>w m c. Inr None),
      findLatestSequence = (\<lambda>w m.
        case filter (\<lambda>d. obMatchID d = m) (soEvents w) of
          [] \<Rightarrow> Inr None
        | d # ds \<Rightarrow>
            let n = fold max (map obSequence ds) (obSequence d)
            in if unat n < 2 ^ 63 then Inr (Some n) else Inl ()),
      insertAction = (\<lambda>w a. (w, Inl False)), insertOutbox = sampleInsertEvents,
      insertReceipt = (\<lambda>w r. (w, Inl False)), startSession = (\<lambda>w. False),
      withTransaction = (\<lambda>w f. (w, snd (f w)))\<rparr>"

lemma find_map_same:
  "(\<And>e. P (g e) = P e) \<Longrightarrow> find P (map g xs) = map_option g (find P xs)"
  by (induction xs) auto

lemma sampleEvent_id: "sampleEvent w i = Some d \<Longrightarrow> obEventID d = i \<and> d \<in> set (soEvents w)"
  by (auto simp: sampleEvent_def find_Some_iff)

lemma sample_findEventsLaw: "findEventsLaw sampleOutbox"
  using sampleEvent_id by (fastforce simp: findEventsLaw_def sampleOutbox_def)

lemma sample_updateEventLaw: "updateEventLaw sampleOutbox"
proof -
  have "sampleEvent (w\<lparr>soEvents := map (\<lambda>e. if obEventID e = i then x else e) (soEvents w)\<rparr>) =
      (sampleEvent w)(i \<mapsto> x)" if "sampleEvent w i = Some d" "obEventID x = i" for w i d x
  proof
    fix j
    let ?g = "\<lambda>e. if obEventID e = i then x else e"
    have "sampleEvent (w\<lparr>soEvents := map ?g (soEvents w)\<rparr>) j = map_option ?g (sampleEvent w j)"
      using that(2) by (simp add: sampleEvent_def find_map_same)
    also have "\<dots> = ((sampleEvent w)(i \<mapsto> x)) j"
    proof (cases "sampleEvent w j")
      case (Some e)
      then have "obEventID e = j" using sampleEvent_id by blast
      then show ?thesis using Some by simp
    qed (use that(1) in auto)
    finally show "sampleEvent (w\<lparr>soEvents := map ?g (soEvents w)\<rparr>) j = ((sampleEvent w)(i \<mapsto> x)) j" .
  qed
  then show ?thesis
    unfolding updateEventLaw_def sameEvents_def
    by (auto simp: sampleOutbox_def sampleUpdateEvent_def split: option.splits if_splits)
qed

lemma fold_max_least: "x \<in> set (d # ds) \<Longrightarrow> x \<le> fold max ds (d :: 'a :: linorder)"
  using Max_ge [of "set (d # ds)" x] by (simp only: Max.set_eq_fold finite_set)

lemma sample_insertEventsLaw: "insertEventsLaw sampleOutbox sampleEventMongo"
proof -
  have find: "find P (xs @ ys) = (case find P xs of None \<Rightarrow> find P ys | Some x \<Rightarrow> Some x)" for P and xs ys :: "MatchOutboxDocument list"
    by (induction xs) auto
  have keyed: "find (\<lambda>d. obEventID d = i) ds = map_of (map (\<lambda>d. (obEventID d, d)) ds) i" for i and ds :: "MatchOutboxDocument list"
    by (induction ds) auto
  have added: "sampleEvent (w\<lparr>soEvents := ds @ soEvents w\<rparr>) = sampleEvent w ++ map_of (map (\<lambda>d. (obEventID d, d)) ds)" for w ds
    unfolding fun_eq_iff sampleEvent_def by (simp add: find map_add_def flip: keyed)
  have "sampleEvent w i = Some d \<Longrightarrow> d \<in> set (filter (\<lambda>e. obMatchID e = obMatchID d) (soEvents w))" for w i d
    using sampleEvent_id by auto
  then have latest: "obSequence d \<le> fold max (map obSequence ds) (obSequence e)"
    if "sampleEvent w i = Some d" "filter (\<lambda>e. obMatchID e = obMatchID d) (soEvents w) = e # ds" for w i d e ds
    using that fold_max_least [of "obSequence d" "obSequence e" "map obSequence ds"] by fastforce
  show ?thesis
    unfolding insertEventsLaw_def
  proof (intro conjI allI impI)
    fix w ds w' x assume "insertOutbox sampleEventMongo w ds = (w', x)"
    then show "sameEvents sampleOutbox w w' \<or>
        odbEvent sampleOutbox w' = odbEvent sampleOutbox w ++ map_of (map (\<lambda>d. (obEventID d, d)) ds) \<and>
        (\<forall>d\<in>set ds. odbEvent sampleOutbox w (obEventID d) = None \<and> unat (obSequence d) < 2 ^ 63) \<and>
        distinct (map obEventID ds)"
      by (auto simp: sampleEventMongo_def sampleInsertEvents_def sampleOutbox_def sameEvents_def added
          list_all_iff split: if_splits)
  next
    fix w mid i d assume "findLatestSequence sampleEventMongo w mid = Inr None" "odbEvent sampleOutbox w i = Some d"
    then show "obMatchID d \<noteq> mid"
      using sampleEvent_id [of w i d]
      by (auto simp: sampleEventMongo_def sampleOutbox_def Let_def filter_empty_conv split: list.splits if_splits)
  next
    fix w mid n assume n: "findLatestSequence sampleEventMongo w mid = Inr (Some n)"
    then show "unat n < 2 ^ 63" by (auto simp: sampleEventMongo_def Let_def split: list.splits if_splits)
    fix i d assume "odbEvent sampleOutbox w i = Some d \<and> obMatchID d = mid"
    then show "obSequence d \<le> n" using n latest
      by (auto simp: sampleEventMongo_def sampleOutbox_def Let_def split: list.splits if_splits)
  qed
qed

lemma sample_outboxLaws: "outboxLaws sampleOutbox sampleEventMongo"
  by (simp add: outboxLaws_def sample_findEventsLaw sample_updateEventLaw sample_insertEventsLaw)

text \<open>Two events of a match, and a publisher whose readers know all players.\<close>

definition sampleOutboxEvent :: "string \<Rightarrow> 64 word \<Rightarrow> EventType \<Rightarrow> MatchOutboxDocument" where
  "sampleOutboxEvent i n typ =
     \<lparr>obEventID = i, obMatchID = 41, obSequence = n, obResultingVersion = n, obType = typ,
      obActor = commandActorDocument (sampleActor ''''), obPayload = '''', obStatus = OutboxPending,
      obAttempts = 0, obLastError = '''', obOccurredAt = 50, obCreatedAt = 50, obPublishedAt = None\<rparr>"

definition outboxWorld :: SampleOutbox where
  "outboxWorld = SampleQueue.extend (queueWorld (Some ''link''))
     (SampleOutbox.fields [sampleOutboxEvent ''e2'' 2 EventTurnAdvanced, sampleOutboxEvent ''e1'' 1 EventMatchStarted])"

definition samplePublisher :: "SampleOutbox Publisher" where
  "samplePublisher =
     \<lparr>pbOutbox = sampleOutbox, pbJobs = sampleQueue,
      pbRooms = queueRooms\<lparr>dbFindUser := (\<lambda>w i. Inr (Some (sampleUser\<lparr>userOnlineID := i\<rparr>)))\<rparr>,
      pbHex = sampleHex,
      pbParseURL = (\<lambda>link. Some \<lparr>urlScheme = ''https'', urlHostname = ''osu.ppy.sh'', urlPort = '''',
        urlRawQuery = '''', urlFragment = '''', urlPath = ''/community/matches/5''\<rparr>),
      pbPoolSlot = (\<lambda>p. p), pbPlanText = (\<lambda>e. ''plan''), pbEnqueueText = (\<lambda>e. ''enqueue'')\<rparr>"

definition samplePublished :: "SampleOutbox" where
  "samplePublished = fst (publisherRunOnce samplePublisher (\<lambda>i. 100) outboxWorld)"

definition samplePublishedTwice :: "SampleOutbox" where
  "samplePublishedTwice = fst (publisherRunOnce samplePublisher (\<lambda>i. 200) samplePublished)"

lemma samplePublished_events:
  "map_option obStatus (sampleEvent samplePublished ''e1'') = Some OutboxPublished"
  "map_option (\<lambda>d. (obStatus d, obMatchID d, obSequence d)) (sampleEvent samplePublishedTwice ''e2'') = Some (OutboxPublished, 41, 2)"
  "map_option (\<lambda>d. (obMatchID d, obSequence d)) (sampleEvent samplePublishedTwice ''e1'') = Some (41, 1)"
  by code_simp+

lemma sample_publisherLaws: "publisherLaws samplePublisher"
proof -
  have wired: "pbJobs samplePublisher = sampleQueue" "pbOutbox samplePublisher = sampleOutbox"
    by (simp_all add: samplePublisher_def)
  note sample_jobLaws sample_findEventsLaw sample_updateEventLaw
  moreover have "sameEvents sampleOutbox w w' \<and> samePlanning (pbRooms samplePublisher) w w'"
    if "jdbUpsertJob sampleQueue w d = (w', x)" for w d w' x
    using that by (auto simp: sampleQueue_def sampleWriteJob_def sameEvents_def samePlanning_def sampleOutbox_def
        samplePublisher_def queueRooms_def sampleEvent_def fun_eq_iff split: if_splits)
  moreover have "sameJobs sampleQueue w w' \<and> samePlanning (pbRooms samplePublisher) w w'"
    if "odbUpdateEvent sampleOutbox w i P u = (w', x)" for w i P u w' x
    using that by (auto simp: sampleOutbox_def sampleUpdateEvent_def sameJobs_def samePlanning_def
        samplePublisher_def queueRooms_def sampleFindJob_def fun_eq_iff split: if_splits option.splits)
  ultimately show ?thesis unfolding publisherLaws_def wired by blast
qed

definition outboxStart :: "SampleOutbox Publication" where
  "outboxStart = \<lparr>puWorld = outboxWorld, puListed = {}\<rparr>"

lemma outboxStart_ok: "outboxOk sampleOutbox outboxStart"
  by (auto simp: outboxOk_def outboxStart_def outboxWorld_def sampleOutbox_def sampleEvent_def
      sampleOutboxEvent_def SampleQueue.defs SampleOutbox.defs split: if_splits)

lemma samplePublished_run:
  "\<exists>p'. (outboxStep sampleOutbox mongo codec)\<^sup>*\<^sup>* outboxStart p' \<and> puWorld p' = samplePublishedTwice"
proof -
  have same: "pbOutbox samplePublisher = sampleOutbox" by (simp add: samplePublisher_def)
  obtain p where p: "(outboxStep sampleOutbox mongo codec)\<^sup>*\<^sup>* outboxStart p" "puWorld p = samplePublished"
    using publisherRunOnce_run [OF sample_publisherLaws, of "\<lambda>i. 100" outboxStart samplePublished _ mongo codec]
    unfolding same by (auto simp: samplePublished_def outboxStart_def prod_eq_iff)
  obtain q where q: "(outboxStep sampleOutbox mongo codec)\<^sup>*\<^sup>* p q" "puWorld q = samplePublishedTwice"
    using publisherRunOnce_run [OF sample_publisherLaws, of "\<lambda>i. 200" p samplePublishedTwice _ mongo codec] p(2)
    unfolding same by (auto simp: samplePublishedTwice_def prod_eq_iff)
  from p(1) q show ?thesis by (blast intro: rtranclp_trans)
qed

end
