(* ===== verification/PublisherClaims.thy ===== *)
theory PublisherClaims
  imports SamplePublisher
begin

text \<open>
  The properties of the outbox and of its publisher: the order of publication over every history, what is
  in the queue when an event is published, and the commands a plan holds.
\<close>

text \<open>
  C9: Whatever the command store, the publishers and the referees do and however their calls interleave,
  an event of a match is published only after all earlier events of the match.
\<close>

theorem publish_in_order:
  assumes "outboxLaws db mongo" and "outboxOk db p" and "(outboxStep db mongo codec)\<^sup>*\<^sup>* p p'"
    and "odbEvent db (puWorld p') i = Some d" and "odbEvent db (puWorld p') j = Some e"
    and "obMatchID e = obMatchID d" and "obSequence e < obSequence d" and "obStatus d = OutboxPublished"
  shows "obStatus e = OutboxPublished"
proof -
  have "outboxOk db p'" using outbox.runs_inv [OF assms(3)] assms(1,2) by simp
  with assms(4-8) show ?thesis unfolding outboxOk_def earlierPublished_def by blast
qed

theorem publish_in_order_witness:
  "map_option obStatus (sampleEvent samplePublishedTwice ''e1'') = Some OutboxPublished"
proof -
  obtain p where p: "(outboxStep sampleOutbox sampleEventMongo startCodec)\<^sup>*\<^sup>* outboxStart p"
    "puWorld p = samplePublishedTwice"
    using samplePublished_run by blast
  obtain d e where d: "sampleEvent samplePublishedTwice ''e2'' = Some d" "obStatus d = OutboxPublished" "obMatchID d = 41"
      "obSequence d = 2"
    and e: "sampleEvent samplePublishedTwice ''e1'' = Some e" "obMatchID e = 41" "obSequence e = 1"
    using samplePublished_events(2,3) by auto
  have "odbEvent sampleOutbox = sampleEvent" by (simp add: sampleOutbox_def)
  with publish_in_order [OF sample_outboxLaws outboxStart_ok p(1), of "''e2''" d "''e1''" e] d e p(2)
  show ?thesis by simp
qed

text \<open>
  C19: The publisher marks an event as published only when every command it plans for the event is in the
  queue, with the match, channel, kind, target, sequence and payload of the plan.
\<close>

theorem published_jobs_enqueued:
  assumes "publisherLaws pub" and "publisherRunOnce pub clock w = (w', r)"
    and "odbEvent (pbOutbox pub) w i = Some d" and "obStatus d \<noteq> OutboxPublished"
    and "odbEvent (pbOutbox pub) w' i = Some d'" and "obStatus d' = OutboxPublished"
  shows "\<exists>jobs. planJobs pub w d = Inr jobs \<and>
    (\<forall>job\<in>set jobs. \<exists>mid stored. hexParse (pbHex pub) (jobMatchID job) = Some mid \<and>
       jdbFindJob (pbJobs pub) w' (jobID job) = Inr (Some stored) \<and> sameJob mid job stored)"
proof -
  have "newlyPublished pub w w' i" using assms(3-6) by (simp add: newlyPublished_def)
  then obtain evs where evs: "ListUnpublishedEvents (pbOutbox pub) w 100 = Inr evs"
    "publishEvents pub clock w evs = (w', r)"
    using assms(2,3) assms(4-6) by (auto simp: publisherRunOnce_def split: sum.splits)
  with publishEvents_effect [OF assms(1) evs(2)] \<open>newlyPublished pub w w' i\<close> obtain ev jobs
    where ev: "ev \<in> set evs" "obEventID ev = i" and jobs: "planJobs pub w ev = Inr jobs"
      "\<forall>job\<in>set jobs. jobQueued pub w' job" by blast
  have "odbEvent (pbOutbox pub) w (obEventID ev) = Some ev"
    using ListUnpublished_first(1) [OF publisherLawsD(2) [OF assms(1)] evs(1) ev(1)] .
  with ev(2) assms(3) have "ev = d" by simp
  with jobs show ?thesis by (auto simp: jobQueued_def)
qed

theorem published_jobs_enqueued_witness:
  "case planJobs samplePublisher outboxWorld (sampleOutboxEvent ''e1'' 1 EventMatchStarted) of
     Inl e \<Rightarrow> False
   | Inr jobs \<Rightarrow> list_all (\<lambda>job. sampleFindJob samplePublished (jobID job) \<noteq> None) jobs"
proof -
  obtain d' where d': "sampleEvent samplePublished ''e1'' = Some d'" "obStatus d' = OutboxPublished"
    using samplePublished_events(1) by auto
  have first: "sampleEvent outboxWorld ''e1'' = Some (sampleOutboxEvent ''e1'' 1 EventMatchStarted)" by code_simp
  have run: "publisherRunOnce samplePublisher (\<lambda>i. 100) outboxWorld =
      (samplePublished, snd (publisherRunOnce samplePublisher (\<lambda>i. 100) outboxWorld))"
    by (simp add: samplePublished_def)
  have wired: "pbOutbox samplePublisher = sampleOutbox" "odbEvent sampleOutbox = sampleEvent"
    "pbJobs samplePublisher = sampleQueue"
    by (simp_all add: samplePublisher_def sampleOutbox_def)
  from published_jobs_enqueued [OF sample_publisherLaws run, unfolded wired, OF first _ d']
  obtain jobs where jobs: "planJobs samplePublisher outboxWorld (sampleOutboxEvent ''e1'' 1 EventMatchStarted) = Inr jobs"
    "\<forall>job\<in>set jobs. \<exists>mid stored. hexParse (pbHex samplePublisher) (jobMatchID job) = Some mid \<and>
       jdbFindJob sampleQueue samplePublished (jobID job) = Inr (Some stored) \<and> sameJob mid job stored"
    by (auto simp: sampleOutboxEvent_def)
  then show ?thesis by (fastforce simp: list_all_iff)
qed

text \<open>
  C38: When a match starts the plan invites the two leaders and all players, each exactly once, under the
  name of their own account, and no one else: the strategists are not invited.
\<close>

theorem invites_once:
  assumes "planJobs pub w ev = Inr jobs" and "obType ev = EventMatchStarted"
    and "matchByID (pbRooms pub) w (obMatchID ev) = Inr m"
  shows "\<exists>ids. distinct ids \<and> set ids = {i. 0 < i \<and> (i = tsLeaderID (matchTeamRed m) \<or> i = tsLeaderID (matchTeamBlue m))} \<union>
      set (tsPlayers (matchTeamRed m)) \<union> set (tsPlayers (matchTeamBlue m)) \<and>
    map jobID jobs = map (\<lambda>i. obEventID ev @ ''-invite-'' @ itoa i) ids \<and> distinct (map jobID jobs) \<and>
    (\<forall>k<length jobs. \<exists>user username. userByOsuID (pbRooms pub) w (ids ! k) = Inr user \<and>
       userOnlineID user = ids ! k \<and> banchoUsername user (ids ! k) = Inr username \<and>
       jobAckTarget (jobs ! k) = username)"
proof -
  obtain channel where plan: "inviteJobs pub w ev channel [] (participantIDs m) = Inr jobs"
    using assms by (auto simp: planJobs_def split: sum.splits)
  let ?ids = "firstOccurrences [] (participantIDs m)"
  note spec = inviteJobs_spec [OF plan]
  have set: "set ?ids = set (participantIDs m)" and distinct: "distinct ?ids"
    using firstOccurrences_set [of "[]" "participantIDs m"] by auto
  have fields: "jobID (jobs ! k) = obEventID ev @ ''-invite-'' @ itoa (?ids ! k) \<and> (\<exists>user username.
      userByOsuID (pbRooms pub) w (?ids ! k) = Inr user \<and> userOnlineID user = ?ids ! k \<and>
      banchoUsername user (?ids ! k) = Inr username \<and> jobAckTarget (jobs ! k) = username)" if k: "k < length jobs" for k
  proof -
    obtain user username where "userByOsuID (pbRooms pub) w (?ids ! k) = Inr user"
      "banchoUsername user (?ids ! k) = Inr username" "jobs ! k = inviteJob (pbHex pub) ev channel (?ids ! k) username"
      using spec k by blast
    then show ?thesis using banchoUsername_account by (simp add: inviteJob_def makeJob_fields)
  qed
  have ids: "map jobID jobs = map (\<lambda>i. obEventID ev @ ''-invite-'' @ itoa i) ?ids"
    using spec fields by (intro nth_equalityI) auto
  have "inj_on (\<lambda>i. obEventID ev @ ''-invite-'' @ itoa i) (set ?ids)"
    using spec set itoa_inj by (auto simp: inj_on_def less_imp_le)
  then have "distinct (map jobID jobs)" unfolding ids by (simp add: distinct_map distinct)
  moreover have "set ?ids = {i. 0 < i \<and> (i = tsLeaderID (matchTeamRed m) \<or> i = tsLeaderID (matchTeamBlue m))} \<union>
      set (tsPlayers (matchTeamRed m)) \<union> set (tsPlayers (matchTeamBlue m))"
    unfolding set by (auto simp: participantIDs_def)
  ultimately show ?thesis using distinct ids fields by blast
qed

theorem invites_once_witness:
  "case planJobs samplePublisher outboxWorld (sampleOutboxEvent ''e1'' 1 EventMatchStarted) of
     Inl e \<Rightarrow> False | Inr jobs \<Rightarrow> distinct (map jobID jobs)"
proof -
  let ?ev = "sampleOutboxEvent ''e1'' 1 EventMatchStarted"
  have "case planJobs samplePublisher outboxWorld ?ev of Inl e \<Rightarrow> False | Inr jobs \<Rightarrow> True" by code_simp
  then obtain jobs where jobs: "planJobs samplePublisher outboxWorld ?ev = Inr jobs"
    by (cases "planJobs samplePublisher outboxWorld ?ev") auto
  have found: "matchByID (pbRooms samplePublisher) outboxWorld (obMatchID ?ev) =
      Inr ((sampleMatch 1 MatchStatusPending)\<lparr>matchID := 41\<rparr>)"
    by code_simp
  from invites_once [OF jobs _ found] jobs show ?thesis by (auto simp: sampleOutboxEvent_def)
qed

text \<open>
  Every planned command is one line: its payload is \<open>PRIVMSG\<close>, the channel of the match room and an
  \<open>!mp\<close> command, without a carriage return or a line feed, so no user name or link can smuggle in a
  second IRC command.
\<close>

theorem payload_single_line:
  assumes "planJobs pub w ev = Inr jobs" and "job \<in> set jobs"
  shows "CHR 0x0D \<notin> set (jobPayload job) \<and> CHR 0x0A \<notin> set (jobPayload job) \<and>
    (\<exists>m room command. matchByID (pbRooms pub) w (obMatchID ev) = Inr m \<and>
       roomByID (pbRooms pub) w (matchRoomID m) = Inr room \<and>
       roomChannel (pbParseURL pub) room = Inr (jobChannel job) \<and>
       jobPayload job = ''PRIVMSG '' @ jobChannel job @ '' :!mp '' @ command)"
proof -
  obtain m room command where found: "matchByID (pbRooms pub) w (obMatchID ev) = Inr m"
    "roomByID (pbRooms pub) w (matchRoomID m) = Inr room"
    "roomChannel (pbParseURL pub) room = Inr (jobChannel job)"
    "jobPayload job = ''PRIVMSG '' @ jobChannel job @ '' :!mp '' @ command" "oneLine command"
    using planJobs_shape [OF assms] by auto
  then have "oneLine (jobPayload job)" using roomChannel_oneLine by (simp add: oneLine_def)
  with found show ?thesis unfolding oneLine_def by blast
qed

theorem payload_single_line_witness:
  "case planJobs samplePublisher outboxWorld (sampleOutboxEvent ''e1'' 1 EventMatchStarted) of
     Inr (job # jobs) \<Rightarrow> CHR 0x0A \<notin> set (jobPayload job) | _ \<Rightarrow> False"
proof -
  let ?plan = "planJobs samplePublisher outboxWorld (sampleOutboxEvent ''e1'' 1 EventMatchStarted)"
  have "case ?plan of Inr (job # jobs) \<Rightarrow> True | _ \<Rightarrow> False" by code_simp
  then obtain job jobs where jobs: "?plan = Inr (job # jobs)"
    by (auto split: sum.splits list.splits)
  from payload_single_line [OF jobs] jobs show ?thesis by simp
qed

end
