(* ===== verification/GqlViews.thy ===== *)
theory GqlViews
  imports EngineActorAnalysis RoomService
begin

text \<open>
  The read models of a formal match (\<open>internal/graphql/formal_mapper.go\<close>, \<open>views.go\<close>): the snapshot with
  its board, timer and rosters, and the views of strategist, captain, referee, spectator and overlay. The
  GraphQL enumerations are Go string types converted by a cast, so the datatypes of the engine stand for
  them. An omitted field is \<open>None\<close>.
\<close>

section \<open>Values\<close>

definition optionalString :: "string \<Rightarrow> string option" where
  "optionalString s = (if s = '''' then None else Some s)"

definition gqlTeamPtr :: "TeamSide \<Rightarrow> TeamSide option" where
  "gqlTeamPtr side = (if side \<noteq> TeamRed \<and> side \<noteq> TeamBlue then None else Some side)"

definition gqlTeamPtrValue :: "TeamSide option \<Rightarrow> TeamSide option" where
  "gqlTeamPtrValue side = Option.bind side gqlTeamPtr"

definition durationToMilliseconds :: "Duration \<Rightarrow> int" where
  "durationToMilliseconds d = d sdiv 1000000"

text \<open>\<open>strconv.FormatUint\<close>.\<close>

definition formatUint :: "64 word \<Rightarrow> string" where
  "formatUint v = itoa (uint v)"

section \<open>The snapshot\<close>

record FormalPoolSlot =
  fpsID :: string
  fpsMod :: Mod
  fpsState :: PoolSlotState

record FormalBoardPiece =
  fbpID :: string
  fbpSourcePoolSlotID :: string
  fbpMod :: Mod
  fbpForceMod :: "ForceMod option"
  fbpSelectedBy :: TeamSide
  fbpOwner :: "TeamSide option"
  fbpOutcome :: Outcome

record FormalBoardCell =
  fbcCell :: string
  fbcRow :: int
  fbcCol :: int
  fbcZone :: Zone
  fbcPiece :: "FormalBoardPiece option"

record FormalTimer =
  ftDurationMilliseconds :: int
  ftPaused :: bool
  ftStartedAt :: "Time option"
  ftRemainingAtPauseMilliseconds :: "int option"

record FormalRoster =
  frLeaderID :: string
  frPlayerIDs :: "string list"

record TeamCounts =
  countRed :: int
  countBlue :: int

record TeamFlags =
  flagRed :: bool
  flagBlue :: bool

record FormalMatchResult =
  fmrWinner :: TeamSide
  fmrReason :: ResultReason
  fmrSurrenderingTeam :: "TeamSide option"
  fmrConfirmingPlayerIDs :: "string list"
  fmrWonCounts :: TeamCounts

record MatchSnapshotView =
  msVersion :: string
  msLifecycle :: Lifecycle
  msPhase :: Phase
  msFirstBan :: TeamSide
  msFirstPick :: TeamSide
  msTurn :: int
  msActiveTeam :: "TeamSide option"
  msPoolSlots :: "FormalPoolSlot list"
  msBoard :: "FormalBoardCell list"
  msWonCounts :: TeamCounts
  msTimer :: FormalTimer
  msRobberyUsed :: TeamFlags
  msTeamPauseUsed :: TeamFlags
  msRosters :: "FormalRoster \<times> FormalRoster"
  msPendingPieceID :: "string option"
  msWinner :: "TeamSide option"
  msPendingTBRequest :: "(string \<times> TeamSide \<times> TBBasis) option"
  msTbEntry :: "(TBBasis \<times> string option \<times> TeamSide option) option"
  msResult :: "FormalMatchResult option"
  msStalemate :: "TeamCounts option"

definition mapBoardPiece :: "BoardPiece \<Rightarrow> FormalBoardPiece" where
  "mapBoardPiece p =
     \<lparr>fbpID = pieceID p, fbpSourcePoolSlotID = pieceSourcePoolSlotID p, fbpMod = pieceMod p,
      fbpForceMod = pieceForceMod p, fbpSelectedBy = pieceSelectedBy p,
      fbpOwner = gqlTeamPtrValue (pieceOwner p), fbpOutcome = pieceOutcome p\<rparr>"

definition mapBoardCell :: "Board \<Rightarrow> int \<Rightarrow> int \<Rightarrow> FormalBoardCell" where
  "mapBoardCell board row col =
     (let cell = positionCell col row
      in \<lparr>fbcCell = cell, fbcRow = row, fbcCol = col,
          fbcZone = (case ZoneAt cell of None \<Rightarrow> ZoneNone | Some z \<Rightarrow> z),
          fbcPiece = map_option mapBoardPiece (PieceAt board cell)\<rparr>)"

definition mapFormalBoard :: "Board \<Rightarrow> FormalBoardCell list" where
  "mapFormalBoard board = [mapBoardCell board row col. row \<leftarrow> [0..3], col \<leftarrow> [0..3]]"

definition mapFormalTimer :: "Timer \<Rightarrow> FormalTimer" where
  "mapFormalTimer t =
     \<lparr>ftDurationMilliseconds = durationToMilliseconds (timerDuration t), ftPaused = timerPaused t,
      ftStartedAt = (if isZeroTime (timerStartedAt t) then None else Some (timerStartedAt t)),
      ftRemainingAtPauseMilliseconds =
        (if timerPaused t then Some (durationToMilliseconds (timerRemainingAtPause t)) else None)\<rparr>"

definition mapFormalRoster :: "Roster \<Rightarrow> FormalRoster" where
  "mapFormalRoster r =
     \<lparr>frLeaderID = itoa (rosterLeaderID r), frPlayerIDs = map itoa (rosterPlayerIDs r)\<rparr>"

definition mapResult :: "Result \<Rightarrow> FormalMatchResult" where
  "mapResult r =
     \<lparr>fmrWinner = resWinner r, fmrReason = resReason r,
      fmrSurrenderingTeam = gqlTeamPtrValue (resSurrenderingTeam r),
      fmrConfirmingPlayerIDs = map itoa (resConfirmingPlayerIDs r),
      fmrWonCounts = \<lparr>countRed = resRedWonCount r, countBlue = resBlueWonCount r\<rparr>\<rparr>"

definition mapMatchSnapshot :: "State \<Rightarrow> MatchSnapshotView" where
  "mapMatchSnapshot s =
     (let won = countOf (anWonCounts (Analyze s));
          flags = (\<lambda>m. \<lparr>flagRed = flagOf m TeamRed, flagBlue = flagOf m TeamBlue\<rparr>)
      in \<lparr>msVersion = formatUint (Version s), msLifecycle = Lifecycle s, msPhase = Phase s,
          msFirstBan = FirstBan s, msFirstPick = FirstPick s, msTurn = Turn s,
          msActiveTeam = gqlTeamPtr (ActiveTeam s),
          msPoolSlots = sort_key fpsID (map (\<lambda>(i, slot). \<lparr>fpsID = slotID slot, fpsMod = slotMod slot,
            fpsState = slotState slot\<rparr>) (PoolSlots s)),
          msBoard = mapFormalBoard (Board s),
          msWonCounts = \<lparr>countRed = won TeamRed, countBlue = won TeamBlue\<rparr>,
          msTimer = mapFormalTimer (Timer s), msRobberyUsed = flags (RobberyUsed s),
          msTeamPauseUsed = flags (TeamPauseUsed s),
          msRosters = (mapFormalRoster (rosterOf (Rosters s) TeamRed),
                       mapFormalRoster (rosterOf (Rosters s) TeamBlue)),
          msPendingPieceID = optionalString (PendingPieceID s), msWinner = gqlTeamPtrValue (Winner s),
          msPendingTBRequest = map_option (\<lambda>r. (tbReqID r, tbReqRequestedBy r, tbReqBasis r)) (PendingTBRequest s),
          msTbEntry = map_option (\<lambda>e. (tbEntryBasis e, optionalString (tbEntryRequestID e),
            gqlTeamPtr (tbEntryRequestedBy e))) (TBEntry s),
          msResult = map_option mapResult (MatchResult s),
          msStalemate = map_option (\<lambda>e. \<lparr>countRed = staleRedWonCount e, countBlue = staleBlueWonCount e\<rparr>)
            (Stalemate s)\<rparr>)"

section \<open>The views of the participants\<close>

record MatchActorAnalysis =
  vaAllowedActions :: "Action list"
  vaBanPoolSlotIDs :: "string list"
  vaLegalPlacements :: "(string \<times> string \<times> ForceMod option) list"
  vaShiroCells :: "string list"
  vaRobberyPlans :: "(string \<times> string list list) list"
  vaPendingTBRequestID :: "string option"
  vaCanAcceptTBRequest :: bool
  vaCanRejectTBRequest :: bool
  vaTbRequestTeams :: "TeamSide list"
  vaTbResponseTeams :: "TeamSide list"

definition mapActorAnalysis :: "ActorAnalysis \<Rightarrow> MatchActorAnalysis" where
  "mapActorAnalysis a =
     \<lparr>vaAllowedActions = aaAllowedActions a, vaBanPoolSlotIDs = aaBanPoolSlotIDs a,
      vaLegalPlacements = map (\<lambda>p. (poSlotID p, poCell p, poForceMod p)) (aaLegalPlacements a),
      vaShiroCells = aaShiroCells a,
      vaRobberyPlans = map (\<lambda>p. (planTargetPieceID p, planSacrificeSets p)) (aaRobberyPlans a),
      vaPendingTBRequestID = optionalString (aaPendingTBRequestID a),
      vaCanAcceptTBRequest = aaCanAcceptTBRequest a, vaCanRejectTBRequest = aaCanRejectTBRequest a,
      vaTbRequestTeams = aaTBRequestTeams a, vaTbResponseTeams = aaTBResponseTeams a\<rparr>"

record StrategistView =
  svIsMyTurn :: bool
  svMyTeam :: TeamSide
  svAnalysis :: MatchActorAnalysis

definition computeStrategistView :: "State \<Rightarrow> TeamSide \<Rightarrow> Time \<Rightarrow> StrategistView" where
  "computeStrategistView s team now =
     \<lparr>svIsMyTurn = (Lifecycle s = LifecycleRunning \<and> ActiveTeam s = team), svMyTeam = team,
      svAnalysis = mapActorAnalysis (AnalyzeForActor s (StrategistActor team) now)\<rparr>"

record CaptainView =
  cvMyTeam :: TeamSide
  cvAnalysis :: MatchActorAnalysis

definition computeCaptainView :: "State \<Rightarrow> TeamSide \<Rightarrow> Time \<Rightarrow> CaptainView" where
  "computeCaptainView s team now =
     \<lparr>cvMyTeam = team, cvAnalysis = mapActorAnalysis (AnalyzeForActor s (CaptainActor team) now)\<rparr>"

record SpectatorView =
  spBoard :: "FormalBoardCell list"
  spWonCounts :: TeamCounts
  spCurrentPhase :: Phase
  spActiveTeam :: "TeamSide option"
  spTurnNumber :: int
  spLifecycle :: Lifecycle

definition computeSpectatorView :: "MatchSnapshotView \<Rightarrow> SpectatorView" where
  "computeSpectatorView v =
     \<lparr>spBoard = msBoard v, spWonCounts = msWonCounts v, spCurrentPhase = msPhase v,
      spActiveTeam = msActiveTeam v, spTurnNumber = msTurn v, spLifecycle = msLifecycle v\<rparr>"

record OverlayView =
  ovBoard :: "FormalBoardCell list"
  ovWonCounts :: TeamCounts
  ovTimer :: FormalTimer
  ovLifecycle :: Lifecycle
  ovPhase :: Phase
  ovActiveTeam :: "TeamSide option"

definition computeOverlayView :: "MatchSnapshotView \<Rightarrow> OverlayView" where
  "computeOverlayView v =
     \<lparr>ovBoard = msBoard v, ovWonCounts = msWonCounts v, ovTimer = msTimer v, ovLifecycle = msLifecycle v,
      ovPhase = msPhase v, ovActiveTeam = msActiveTeam v\<rparr>"

definition dropMatchAction :: "Action list \<Rightarrow> Action \<Rightarrow> Action list" where
  "dropMatchAction actions target = filter (\<lambda>a. a \<noteq> target) actions"

record RefereeView =
  rvMatchID :: string
  rvSnapshot :: MatchSnapshotView
  rvAnalysis :: MatchActorAnalysis
  rvSuspensionReason :: "string option"
  rvAbortReason :: "string option"

text \<open>The status of the GraphQL match is that of the shell in capitals.\<close>

definition statusReady :: "MatchStatus \<Rightarrow> bool" where
  "statusReady status =
     (case status of MatchStatusReady \<Rightarrow> True | MatchStatusOther s \<Rightarrow> equalFold s ''ready'' | _ \<Rightarrow> False)"

definition computeRefereeView :: "string \<Rightarrow> MatchStatus \<Rightarrow> State \<Rightarrow> Time \<Rightarrow> RefereeView" where
  "computeRefereeView mid status s now =
     (let analysis = mapActorAnalysis (AnalyzeForActor s RefereeActor now)
      in \<lparr>rvMatchID = mid, rvSnapshot = mapMatchSnapshot s,
          rvAnalysis = (if \<not> statusReady status
            then analysis\<lparr>vaAllowedActions := dropMatchAction (vaAllowedActions analysis) ActionStartMatch\<rparr>
            else analysis),
          rvSuspensionReason = Option.bind (Suspension s) (\<lambda>x. optionalString (suspReason x)),
          rvAbortReason = optionalString (AbortReason s)\<rparr>)"

end
