(* ===== verification/GqlCommands.thy ===== *)
theory GqlCommands
  imports GqlViews IrcJobs CommandHistory
begin

text \<open>
  The mutations that play a match (\<open>internal/graphql/mutation.go\<close> and the resolvers of
  \<open>schema.resolvers.go\<close>): how the input of a client becomes a command, the request that
  \<open>executeCommand\<close> makes of it for the orchestrator, and the result the client gets.
\<close>

section \<open>Inputs\<close>

record CommandMeta =
  cmMatchID :: string
  cmExpectedVersion :: string
  cmCommandID :: string

record PositionInput =
  posRow :: int
  posCol :: int

text \<open>One constructor for each mutation, without the \<open>meta\<close> that all of them have.\<close>

datatype CommandInput =
    InStartMatch
  | InBanPoolSlot string
  | InRefereeBanPoolSlot TeamSide string string
  | InPlacePiece string PositionInput
  | InRefereePlacePiece TeamSide string PositionInput string
  | InPlaceShiro PositionInput
  | InRefereePlaceShiro TeamSide PositionInput string
  | InRobPiece string "string list list"
  | InRefereeRobPiece TeamSide string "string list list" string
  | InConfirmBeatmapResult string TeamSide
  | InGrantAdditionalTime string
  | InCalibrateTimer int string
  | InPauseTimer string
  | InResumeTimer string
  | InSuspendMatch string
  | InResumeMatch string
  | InSkipCurrentAction string
  | InAbortMatch string
  | InRequestTb string
  | InRefereeRequestTb TeamSide string string
  | InRespondTbRequest string bool
  | InRefereeRespondTbRequest TeamSide string bool string
  | InStartTb string
  | InConfirmTbResult TeamSide
  | InRecordSurrender TeamSide "string list" string

text \<open>The cast between the two string types of a side.\<close>

definition engineTeam :: "TeamSide \<Rightarrow> TeamSide" where
  "engineTeam side = side"

definition engineCell :: "PositionInput \<Rightarrow> Cell option" where
  "engineCell p =
     (if posRow p < 0 \<or> posRow p > 3 \<or> posCol p < 0 \<or> posCol p > 3 then None
      else Some (char_of (65 + posCol p) # itoa (posRow p + 1)))"

definition pieceIDFor :: "string \<Rightarrow> string" where
  "pieceIDFor commandID = ''piece-'' @ commandID"

text \<open>\<open>strconv.ParseInt\<close> with base 10 and 64 bits is \<open>atoi\<close>; \<open>None\<close> is the error.\<close>

fun int64IDs :: "string list \<Rightarrow> int list option" where
  "int64IDs [] = Some []"
| "int64IDs (i # ids) =
     (case atoi i of
        None \<Rightarrow> None
      | Some v \<Rightarrow> if v \<le> 0 then None else map_option (\<lambda>vs. v # vs) (int64IDs ids))"

definition milliseconds :: "int \<Rightarrow> Duration" where
  "milliseconds v = wrap64 (v * 1000000)"

text \<open>\<open>strconv.ParseUint\<close> with base 10 and 64 bits.\<close>

definition parseUint :: "string \<Rightarrow> 64 word option" where
  "parseUint s =
     (if s = '''' \<or> \<not> list_all isDigit s \<or> decimal s \<ge> 2 ^ 64 then None
      else Some (word_of_int (decimal s)))"

section \<open>Resolvers\<close>

text \<open>The command a resolver executes, or \<open>None\<close> where it answers with \<open>invalidCommandInput\<close>.\<close>

fun resolveCommand :: "string \<Rightarrow> CommandInput \<Rightarrow> Command option" where
  "resolveCommand cid InStartMatch = Some StartMatch"
| "resolveCommand cid (InBanPoolSlot slot) = Some (BanPoolSlot slot)"
| "resolveCommand cid (InRefereeBanPoolSlot team slot reason) =
     Some (RefereeBanPoolSlot (engineTeam team) slot reason)"
| "resolveCommand cid (InPlacePiece slot position) =
     map_option (PlacePiece slot (pieceIDFor cid)) (engineCell position)"
| "resolveCommand cid (InRefereePlacePiece team slot position reason) =
     map_option (\<lambda>cell. RefereePlacePiece (engineTeam team) slot (pieceIDFor cid) cell reason) (engineCell position)"
| "resolveCommand cid (InPlaceShiro position) =
     map_option (PlaceShiro (pieceIDFor cid)) (engineCell position)"
| "resolveCommand cid (InRefereePlaceShiro team position reason) =
     map_option (\<lambda>cell. RefereePlaceShiro (engineTeam team) (pieceIDFor cid) cell reason) (engineCell position)"
| "resolveCommand cid (InRobPiece target sets) = Some (RobPiece target sets)"
| "resolveCommand cid (InRefereeRobPiece team target sets reason) =
     Some (RefereeRobPiece (engineTeam team) target sets reason)"
| "resolveCommand cid (InConfirmBeatmapResult piece winner) =
     Some (ConfirmBeatmapResult piece (engineTeam winner))"
| "resolveCommand cid (InGrantAdditionalTime reason) = Some (GrantAdditionalTime reason)"
| "resolveCommand cid (InCalibrateTimer remaining reason) =
     (if remaining < 0 then None else Some (CalibrateTimer (milliseconds remaining) reason))"
| "resolveCommand cid (InPauseTimer reason) = Some (PauseTimer reason)"
| "resolveCommand cid (InResumeTimer reason) = Some (ResumeTimer reason)"
| "resolveCommand cid (InSuspendMatch reason) = Some (SuspendMatch reason)"
| "resolveCommand cid (InResumeMatch reason) = Some (ResumeMatch reason)"
| "resolveCommand cid (InSkipCurrentAction reason) = Some (SkipCurrentAction reason)"
| "resolveCommand cid (InAbortMatch reason) = Some (AbortMatch reason)"
| "resolveCommand cid (InRequestTb request) = Some (RequestTB request TBBasisCaptainAgreement)"
| "resolveCommand cid (InRefereeRequestTb team request reason) =
     Some (RefereeRequestTB (engineTeam team) request TBBasisCaptainAgreement reason)"
| "resolveCommand cid (InRespondTbRequest request accept) = Some (RespondTBRequest request accept)"
| "resolveCommand cid (InRefereeRespondTbRequest team request accept reason) =
     Some (RefereeRespondTBRequest (engineTeam team) request accept reason)"
| "resolveCommand cid (InStartTb reason) = Some (StartTB reason)"
| "resolveCommand cid (InConfirmTbResult winner) = Some (ConfirmTBResult (engineTeam winner))"
| "resolveCommand cid (InRecordSurrender team players reason) =
     map_option (\<lambda>ids. RecordSurrender (engineTeam team) ids reason) (int64IDs players)"

section \<open>Results\<close>

record MatchEventFact =
  mefTeam :: "TeamSide option"
  mefPoolSlotID :: "string option"
  mefBoardPieceID :: "string option"
  mefBoardPieceIDs :: "string list"
  mefCell :: "string option"
  mefDurationMilliseconds :: "int option"
  mefReason :: "string option"
  mefRequestID :: "string option"
  mefTbBasis :: "TBBasis option"
  mefPlayerIDs :: "string list"

definition optionalDurationMilliseconds :: "Duration \<Rightarrow> int option" where
  "optionalDurationMilliseconds d = (if d = 0 then None else Some (durationToMilliseconds d))"

definition gqlTBBasis :: "TBBasis \<Rightarrow> TBBasis option" where
  "gqlTBBasis b = (if b = TBBasisNone then None else Some b)"

definition mapEventFact :: "Event \<Rightarrow> MatchEventFact" where
  "mapEventFact e =
     \<lparr>mefTeam = gqlTeamPtr (evTeam e), mefPoolSlotID = optionalString (evPoolSlotID e),
      mefBoardPieceID = optionalString (evBoardPieceID e), mefBoardPieceIDs = evBoardPieceIDs e,
      mefCell = optionalString (evCell e),
      mefDurationMilliseconds = optionalDurationMilliseconds (evDuration e),
      mefReason = optionalString (evReason e), mefRequestID = optionalString (evRequestID e),
      mefTbBasis = gqlTBBasis (evBasis e), mefPlayerIDs = map itoa (evPlayerIDs e)\<rparr>"

record MatchCommandEvent =
  mceEventID :: string
  mceAggregateID :: string
  mceSequence :: string
  mceResultingVersion :: string
  mceType :: EventType
  mceOccurredAt :: Time
  mceActorOsuID :: string
  mceActorCapability :: Capability
  mceActorTeam :: "TeamSide option"
  mceAdminOverride :: bool
  mceRefereeOverride :: bool
  mceFact :: MatchEventFact

definition mapCommandEvent :: "HexCodec \<Rightarrow> ObjectID \<Rightarrow> CommittedEvent \<Rightarrow> MatchCommandEvent" where
  "mapCommandEvent hex mid e =
     \<lparr>mceEventID = ceEventID e, mceAggregateID = hexPrint hex mid, mceSequence = formatUint (ceSequence e),
      mceResultingVersion = formatUint (ceResultingVersion e), mceType = ceType e,
      mceOccurredAt = ceOccurredAt e, mceActorOsuID = itoa (eaOsuID (ceActor e)),
      mceActorCapability = eaCapability (ceActor e), mceActorTeam = gqlTeamPtrValue (eaTeam (ceActor e)),
      mceAdminOverride = eaAdminOverride (ceActor e), mceRefereeOverride = eaRefereeOverride (ceActor e),
      mceFact = mapEventFact (cePayload e)\<rparr>"

text \<open>\<open>mcrError\<close> is the code of the error.\<close>

record MatchCommandResult =
  mcrSuccess :: bool
  mcrCommandID :: string
  mcrDisposition :: "Disposition option"
  mcrPreviousVersion :: "string option"
  mcrResultingVersion :: "string option"
  mcrSnapshot :: "MatchSnapshotView option"
  mcrEvents :: "MatchCommandEvent list"
  mcrCurrentVersion :: "string option"
  mcrError :: "string option"

definition commandFailure :: "string \<Rightarrow> string \<Rightarrow> string option \<Rightarrow> MatchCommandResult" where
  "commandFailure commandID code current =
     \<lparr>mcrSuccess = False, mcrCommandID = commandID, mcrDisposition = None, mcrPreviousVersion = None,
      mcrResultingVersion = None, mcrSnapshot = None, mcrEvents = [], mcrCurrentVersion = current,
      mcrError = Some code\<rparr>"

definition metaID :: "CommandMeta option \<Rightarrow> string" where
  "metaID meta = (case meta of None \<Rightarrow> '''' | Some m \<Rightarrow> cmCommandID m)"

definition invalidCommandInput :: "CommandMeta option \<Rightarrow> MatchCommandResult" where
  "invalidCommandInput meta = commandFailure (metaID meta) INVALID_REQUEST None"

definition commandSuccess :: "HexCodec \<Rightarrow> ObjectID \<Rightarrow> CommandResult \<Rightarrow> MatchCommandResult" where
  "commandSuccess hex mid r =
     \<lparr>mcrSuccess = True, mcrCommandID = crCommandID r, mcrDisposition = Some (crDisposition r),
      mcrPreviousVersion = Some (formatUint (crPreviousVersion r)),
      mcrResultingVersion = Some (formatUint (crResultingVersion r)),
      mcrSnapshot = Some (mapMatchSnapshot (crState r)),
      mcrEvents = map (mapCommandEvent hex mid) (crEvents r), mcrCurrentVersion = None, mcrError = None\<rparr>"

text \<open>\<open>commandError\<close> is \<open>ErrorOf\<close> and what \<open>executeCommand\<close> answers with.\<close>

definition commandErrorResult :: "string \<Rightarrow> CommandError \<Rightarrow> MatchCommandResult" where
  "commandErrorResult commandID e =
     (case e of
        RawError _ \<Rightarrow> commandFailure commandID INTERNAL_ERROR None
      | CommandError code current \<Rightarrow> commandFailure commandID code (map_option formatUint current))"

text \<open>The resolver is wired with the orchestrator; \<open>claims\<close> is the id in the token of the caller.\<close>

definition executeCommand ::
  "HexCodec \<Rightarrow> Encoders \<Rightarrow> 'w Orchestrator option \<Rightarrow> int option \<Rightarrow> Time \<Rightarrow> 'w \<Rightarrow> CommandMeta option \<Rightarrow> Command
   \<Rightarrow> 'w \<times> MatchCommandResult" where
  "executeCommand hex enc commands claims now w meta command =
     (case claims of
        None \<Rightarrow> (w, commandFailure (metaID meta) AUTH_REQUIRED None)
      | Some osuID \<Rightarrow>
     (case meta of
        None \<Rightarrow> (w, commandFailure '''' INVALID_REQUEST None)
      | Some m \<Rightarrow>
     (case parseUint (cmExpectedVersion m) of
        None \<Rightarrow> (w, commandFailure (cmCommandID m) INVALID_REQUEST None)
      | Some version \<Rightarrow>
     (case hexParse hex (cmMatchID m) of
        None \<Rightarrow> (w, commandFailure (cmCommandID m) INVALID_REQUEST None)
      | Some mid \<Rightarrow>
          if commands = None then (w, commandFailure (cmCommandID m) INTERNAL_ERROR None)
          else (case orchestratorExecute enc commands now w
                       \<lparr>reqMatchID = mid, reqExpectedVersion = version, reqCommandID = cmCommandID m,
                        reqCallerOsuID = osuID, reqCommand = command, reqSystem = False\<rparr> of
                  (w', Inl e) \<Rightarrow> (w', commandErrorResult (cmCommandID m) e)
                | (w', Inr r) \<Rightarrow> (w', commandSuccess hex mid r))))))"

definition commandMutation ::
  "HexCodec \<Rightarrow> Encoders \<Rightarrow> 'w Orchestrator option \<Rightarrow> int option \<Rightarrow> Time \<Rightarrow> 'w \<Rightarrow> CommandMeta \<Rightarrow> CommandInput
   \<Rightarrow> 'w \<times> MatchCommandResult" where
  "commandMutation hex enc commands claims now w meta input =
     (case resolveCommand (cmCommandID meta) input of
        None \<Rightarrow> (w, invalidCommandInput (Some meta))
      | Some command \<Rightarrow> executeCommand hex enc commands claims now w (Some meta) command)"

end
