(* ===== verification/FormalAccess.thy ===== *)
theory FormalAccess
  imports GqlCommands RoomHistory
begin

text \<open>
  Who may see what of a formal match: the read service (\<open>internal/service/formal_match_read.go\<close>), the
  access predicates of \<open>internal/graphql/formal_access.go\<close> and \<open>resolver.go\<close>, and the resolvers of the
  views of strategist, captain and referee (\<open>schema.resolvers.go\<close>).
\<close>

section \<open>Reading a formal match\<close>

record FormalMatch =
  fmID :: ObjectID
  fmCode :: string
  fmName :: string
  fmRoomID :: ObjectID
  fmRoomType :: RoomType
  fmStatus :: MatchStatus
  fmReadiness :: StrategistReadiness
  fmCreatedAt :: Time
  fmPool :: "(string, int option) gomap"
  fmState :: State

datatype AccessError =
    AccessAuthRequired | AccessNotAllowed | AccessAdminRequired | AccessInvalidID | AccessWrongRoom
  | AccessNoLink | AccessWrongChannel | AccessLookup ServiceError | AccessSnapshot SnapshotError

definition formalMatch :: "Match \<Rightarrow> State \<Rightarrow> FormalMatch" where
  "formalMatch shell s =
     \<lparr>fmID = matchID shell, fmCode = matchCode shell, fmName = matchName shell, fmRoomID = matchRoomID shell,
      fmRoomType = matchRoomType shell, fmStatus = matchStatus shell, fmReadiness = matchReadiness shell,
      fmCreatedAt = matchCreatedAt shell,
      fmPool = map (\<lambda>(i, slot). (i, slotBeatmap (matchMappool shell) i)) (PoolSlots s),
      fmState = stateClone s\<rparr>"

definition formalLoad :: "'w Wiring \<Rightarrow> 'w \<Rightarrow> Match \<Rightarrow> AccessError + FormalMatch" where
  "formalLoad wi w shell =
     (if matchRoomType shell \<notin> {RoomTypeMatch, RoomTypeCasual, RoomTypePrivate}
      then Inl (AccessLookup ErrNotFound)
      else case snapshotLoad (wiMongo wi) (wiCodec wi) w (matchID shell) of
             Inl e \<Rightarrow> Inl (AccessSnapshot e)
           | Inr s \<Rightarrow> Inr (formalMatch shell s))"

definition formalByID :: "'w Wiring \<Rightarrow> 'w \<Rightarrow> ObjectID \<Rightarrow> AccessError + FormalMatch" where
  "formalByID wi w i =
     (case matchByID (wiDb wi) w i of
        Inl e \<Rightarrow> Inl (AccessLookup e)
      | Inr shell \<Rightarrow> formalLoad wi w shell)"

record GqlMatch =
  gmID :: string
  gmCode :: string
  gmName :: string
  gmRoomType :: RoomType
  gmRoomID :: string
  gmCreatedAt :: Time
  gmPool :: "(string \<times> string option) list"
  gmStatus :: MatchStatus
  gmReadiness :: StrategistReadiness
  gmSnapshot :: MatchSnapshotView
  gmState :: State

definition mapFormalMatch :: "HexCodec \<Rightarrow> FormalMatch \<Rightarrow> GqlMatch" where
  "mapFormalMatch hex v =
     (let s = stateClone (fmState v)
      in \<lparr>gmID = hexPrint hex (fmID v), gmCode = fmCode v, gmName = fmName v, gmRoomType = fmRoomType v,
          gmRoomID = hexPrint hex (fmRoomID v), gmCreatedAt = fmCreatedAt v,
          gmPool = sort_key fst (map (\<lambda>(i, slot). (i, map_option itoa (Option.bind (mapGet (fmPool v) i) id)))
            (PoolSlots s)),
          gmStatus = fmStatus v, gmReadiness = fmReadiness v, gmSnapshot = mapMatchSnapshot s, gmState = s\<rparr>)"

section \<open>Viewers\<close>

definition validatePrivateViewer :: "User \<Rightarrow> AccessError option" where
  "validatePrivateViewer user =
     (if userIsBanned user \<or> userVerifyStatus user \<noteq> Verified then Some AccessNotAllowed else None)"

definition privateViewer :: "'w Wiring \<Rightarrow> int option \<Rightarrow> 'w \<Rightarrow> AccessError + User" where
  "privateViewer wi claims w =
     (case claims of
        None \<Rightarrow> Inl AccessAuthRequired
      | Some osuID \<Rightarrow>
          (case userByOsuID (wiDb wi) w osuID of
             Inl e \<Rightarrow> Inl (if e = ErrNotFound then AccessAuthRequired else AccessLookup e)
           | Inr user \<Rightarrow>
               (case validatePrivateViewer user of Some e \<Rightarrow> Inl e | None \<Rightarrow> Inr user)))"

definition adminViewer :: "'w Wiring \<Rightarrow> int option \<Rightarrow> 'w \<Rightarrow> AccessError + User" where
  "adminViewer wi claims w =
     (case privateViewer wi claims w of
        Inl e \<Rightarrow> Inl e
      | Inr user \<Rightarrow> if \<not> HasRole user RoleAdmin then Inl AccessAdminRequired else Inr user)"

definition privateMatchContext ::
  "'w Wiring \<Rightarrow> HexCodec \<Rightarrow> int option \<Rightarrow> 'w \<Rightarrow> string \<Rightarrow> string \<Rightarrow> AccessError + Room \<times> User" where
  "privateMatchContext wi hex claims w idText roomText =
     (case privateViewer wi claims w of
        Inl e \<Rightarrow> Inl e
      | Inr user \<Rightarrow>
     (case (hexParse hex idText, hexParse hex roomText) of
        (Some mid, Some rid) \<Rightarrow>
          (case roomByID (wiDb wi) w rid of
             Inl e \<Rightarrow> Inl (AccessLookup e)
           | Inr room \<Rightarrow>
               if roomID room \<noteq> rid \<or> roomMatchID room \<noteq> Some mid then Inl AccessWrongRoom
               else Inr (room, user))
      | _ \<Rightarrow> Inl AccessInvalidID))"

definition engineSideFromDomain :: "DomainSide \<Rightarrow> TeamSide" where
  "engineSideFromDomain side = (if side = TeamSideBlue then TeamBlue else TeamRed)"

definition strategistViewerTeam ::
  "User \<Rightarrow> Team option \<Rightarrow> Team option \<Rightarrow> AccessError + TeamSide" where
  "strategistViewerTeam user red blue =
     (case StrategistSide red blue (userOnlineID user) of
        Some side \<Rightarrow> Inr (engineSideFromDomain side)
      | None \<Rightarrow> Inl AccessNotAllowed)"

definition captainViewerTeam ::
  "User \<Rightarrow> Team option \<Rightarrow> Team option \<Rightarrow> AccessError + TeamSide" where
  "captainViewerTeam user red blue =
     (case CaptainSide red blue (userOnlineID user) of
        Some side \<Rightarrow> Inr (engineSideFromDomain side)
      | None \<Rightarrow> Inl AccessNotAllowed)"

definition authorizeRefereeViewer :: "User \<Rightarrow> Room \<Rightarrow> AccessError option" where
  "authorizeRefereeViewer user room =
     (if HasRole user RoleAdmin then None
      else if HasRole user RoleReferee \<and> roomRefereeUserID room = Some (userOnlineID user) then None
      else Some AccessNotAllowed)"

definition loadLinkedTeam :: "'w Wiring \<Rightarrow> 'w \<Rightarrow> ObjectID option \<Rightarrow> AccessError + Team option" where
  "loadLinkedTeam wi w i =
     (case i of
        None \<Rightarrow> Inr None
      | Some tid \<Rightarrow>
          (case teamByID (wiDb wi) w tid of
             Inl e \<Rightarrow> Inl (AccessLookup e)
           | Inr team \<Rightarrow> Inr (Some team)))"

definition loadLinkedTeams :: "'w Wiring \<Rightarrow> 'w \<Rightarrow> Room \<Rightarrow> AccessError + Team option \<times> Team option" where
  "loadLinkedTeams wi w room =
     (case loadLinkedTeam wi w (roomRedTeamID room) of
        Inl e \<Rightarrow> Inl e
      | Inr red \<Rightarrow>
          (case loadLinkedTeam wi w (roomBlueTeamID room) of
             Inl e \<Rightarrow> Inl e
           | Inr blue \<Rightarrow> Inr (red, blue)))"

section \<open>Views\<close>

definition strategistView ::
  "'w Wiring \<Rightarrow> HexCodec \<Rightarrow> int option \<Rightarrow> Time \<Rightarrow> 'w \<Rightarrow> GqlMatch \<Rightarrow> AccessError + StrategistView" where
  "strategistView wi hex claims now w obj =
     (case privateMatchContext wi hex claims w (gmID obj) (gmRoomID obj) of
        Inl e \<Rightarrow> Inl e
      | Inr (room, user) \<Rightarrow>
     (case loadLinkedTeams wi w room of
        Inl e \<Rightarrow> Inl e
      | Inr (red, blue) \<Rightarrow>
     (case strategistViewerTeam user red blue of
        Inl e \<Rightarrow> Inl e
      | Inr team \<Rightarrow> Inr (computeStrategistView (gmState obj) team now))))"

definition captainView ::
  "'w Wiring \<Rightarrow> HexCodec \<Rightarrow> int option \<Rightarrow> Time \<Rightarrow> 'w \<Rightarrow> GqlMatch \<Rightarrow> AccessError + CaptainView" where
  "captainView wi hex claims now w obj =
     (case privateMatchContext wi hex claims w (gmID obj) (gmRoomID obj) of
        Inl e \<Rightarrow> Inl e
      | Inr (room, user) \<Rightarrow>
     (case loadLinkedTeams wi w room of
        Inl e \<Rightarrow> Inl e
      | Inr (red, blue) \<Rightarrow>
     (case captainViewerTeam user red blue of
        Inl e \<Rightarrow> Inl e
      | Inr team \<Rightarrow> Inr (computeCaptainView (gmState obj) team now))))"

definition refereeView ::
  "'w Wiring \<Rightarrow> HexCodec \<Rightarrow> int option \<Rightarrow> Time \<Rightarrow> 'w \<Rightarrow> GqlMatch \<Rightarrow> AccessError + RefereeView" where
  "refereeView wi hex claims now w obj =
     (case privateMatchContext wi hex claims w (gmID obj) (gmRoomID obj) of
        Inl e \<Rightarrow> Inl e
      | Inr (room, user) \<Rightarrow>
     (case authorizeRefereeViewer user room of
        Some e \<Rightarrow> Inl e
      | None \<Rightarrow> Inr (computeRefereeView (gmID obj) (gmStatus obj) (gmState obj) now)))"

section \<open>Referees of a match\<close>

definition authorizeRefereeMatchContext ::
  "'w Wiring \<Rightarrow> HexCodec \<Rightarrow> int option \<Rightarrow> 'w \<Rightarrow> string \<Rightarrow> AccessError + FormalMatch \<times> Room" where
  "authorizeRefereeMatchContext wi hex claims w idText =
     (case hexParse hex idText of
        None \<Rightarrow> Inl AccessInvalidID
      | Some mid \<Rightarrow>
     (case formalByID wi w mid of
        Inl e \<Rightarrow> Inl e
      | Inr m \<Rightarrow>
     (case privateMatchContext wi hex claims w idText (hexPrint hex (fmRoomID m)) of
        Inl e \<Rightarrow> Inl e
      | Inr (room, user) \<Rightarrow>
     (case authorizeRefereeViewer user room of
        Some e \<Rightarrow> Inl e
      | None \<Rightarrow> Inr (m, room)))))"

definition authorizeRefereeMatch ::
  "'w Wiring \<Rightarrow> HexCodec \<Rightarrow> int option \<Rightarrow> 'w \<Rightarrow> string \<Rightarrow> AccessError + FormalMatch" where
  "authorizeRefereeMatch wi hex claims w idText =
     (case authorizeRefereeMatchContext wi hex claims w idText of Inl e \<Rightarrow> Inl e | Inr (m, room) \<Rightarrow> Inr m)"

definition authorizeIRCMatch ::
  "'w Wiring \<Rightarrow> HexCodec \<Rightarrow> int option \<Rightarrow> 'w \<Rightarrow> string \<Rightarrow> AccessError + Room" where
  "authorizeIRCMatch wi hex claims w idText =
     (case authorizeRefereeMatchContext wi hex claims w idText of
        Inl e \<Rightarrow> Inl e
      | Inr (m, room) \<Rightarrow> if roomMPLink room = None then Inl AccessNoLink else Inr room)"

definition authorizeIRCObservation ::
  "'w Wiring \<Rightarrow> HexCodec \<Rightarrow> int option \<Rightarrow> 'w \<Rightarrow> string \<Rightarrow> string \<Rightarrow> AccessError option" where
  "authorizeIRCObservation wi hex claims w idText channel =
     (case authorizeIRCMatch wi hex claims w idText of
        Inl e \<Rightarrow> Some e
      | Inr room \<Rightarrow>
          if Option.bind (roomMPLink room) (ChannelFromMPLink (wiParseURL wi)) \<noteq> Some channel
             \<or> \<not> MatchChannel channel
          then Some AccessWrongChannel else None)"

end
