(* ===== verification/IrcReview.thy ===== *)
theory IrcReview
  imports FormalAccess GoStrings Outbox
begin

text \<open>
  The review of what players write in a match room: the store of observations (the first half of
  \<open>internal/persistence/irc_jobs.go\<close>), the mutations of the referees on observations, jobs and events
  (\<open>schema.resolvers.go\<close>), and the reconciler that settles confirmations whose request stopped half way
  (\<open>internal/ircreview/reconciler.go\<close>).
\<close>

section \<open>Observations\<close>

datatype ReviewStatus =
    ReviewPending | ReviewConfirming | ReviewConfirmed | ReviewRejected | ReviewOther string

text \<open>A field the document does not have is \<open>None\<close>.\<close>

record IRCObservation =
  iobID :: string
  iobChannel :: string
  iobSender :: string
  iobCommand :: string
  iobRaw :: string
  iobObservedAt :: Time
  iobStatus :: ReviewStatus
  iobReason :: string
  iobSuggested :: "(string \<times> string) option"
  iobMatchID :: "ObjectID option"
  iobCommandID :: "string option"
  iobPieceID :: "string option"
  iobWinner :: "TeamSide option"
  iobReviewer :: int
  iobStartedAt :: "Time option"

text \<open>What the adapter hands over, \<open>irc.Observation\<close>: the suggested result is a winner and a piece.\<close>

record Observation =
  oID :: string
  oChannel :: string
  oSender :: string
  oCommand :: string
  oRaw :: string
  oObserved :: Time
  oSuggested :: "(string \<times> string) option"

text \<open>
  The calls of the driver. \<open>sdbObs\<close> is the collection by id, which the laws speak about;
  \<open>sdbFindAndUpdate\<close> returns the document after the update.
\<close>

record 'w ObsDb =
  sdbObs :: "'w \<Rightarrow> string \<Rightarrow> IRCObservation option"
  sdbFindOne :: "'w \<Rightarrow> string \<Rightarrow> (IRCObservation \<Rightarrow> bool) \<Rightarrow> unit + IRCObservation option"
  sdbFindObs :: "'w \<Rightarrow> (IRCObservation \<Rightarrow> bool) \<Rightarrow> unit + IRCObservation list"
  sdbUpdateObs ::
    "'w \<Rightarrow> string \<Rightarrow> (IRCObservation \<Rightarrow> bool) \<Rightarrow> (IRCObservation \<Rightarrow> IRCObservation) \<Rightarrow> 'w \<times> (unit + nat)"
  sdbFindAndUpdate ::
    "'w \<Rightarrow> string \<Rightarrow> (IRCObservation \<Rightarrow> bool) \<Rightarrow> (IRCObservation \<Rightarrow> IRCObservation)
     \<Rightarrow> 'w \<times> (unit + IRCObservation option)"
  sdbUpsertObs :: "'w \<Rightarrow> IRCObservation \<Rightarrow> 'w \<times> (unit + unit)"

text \<open>\<open>ReviewRefused\<close> is an error the store makes itself, \<open>ReviewDriver\<close> one of the driver.\<close>

datatype ReviewError =
    ReviewRefused | ReviewDriver | ReviewIncomplete | ReviewReceipt OutboxError

definition SaveObservation :: "'w ObsDb \<Rightarrow> 'w \<Rightarrow> Observation \<Rightarrow> 'w \<times> ReviewError option" where
  "SaveObservation db w ob =
     (if oID ob = '''' \<or> oRaw ob = '''' \<or> \<not> MatchChannel (oChannel ob) then (w, Some ReviewRefused)
      else case sdbUpsertObs db w
             \<lparr>iobID = oID ob, iobChannel = oChannel ob, iobSender = oSender ob, iobCommand = oCommand ob,
              iobRaw = oRaw ob, iobObservedAt = oObserved ob, iobStatus = ReviewPending, iobReason = '''',
              iobSuggested = oSuggested ob, iobMatchID = None, iobCommandID = None, iobPieceID = None,
              iobWinner = None, iobReviewer = 0, iobStartedAt = None\<rparr> of
             (w', Inl _) \<Rightarrow> (w', Some ReviewDriver)
           | (w', Inr _) \<Rightarrow> (w', None))"

definition ListObservations :: "'w ObsDb \<Rightarrow> 'w \<Rightarrow> string \<Rightarrow> int \<Rightarrow> ReviewError + IRCObservation list" where
  "ListObservations db w channel limit =
     (case sdbFindObs db w (\<lambda>d. iobChannel d = channel) of
        Inl _ \<Rightarrow> Inl ReviewDriver
      | Inr ds \<Rightarrow> Inr (take (limited 200 100 limit) (sortDown iobObservedAt ds)))"

definition ObservationByID :: "'w ObsDb \<Rightarrow> 'w \<Rightarrow> string \<Rightarrow> ReviewError + IRCObservation" where
  "ObservationByID db w i =
     (case sdbFindOne db w i (\<lambda>d. True) of
        Inr (Some d) \<Rightarrow> Inr d
      | _ \<Rightarrow> Inl ReviewDriver)"

definition updateObs ::
  "'w ObsDb \<Rightarrow> 'w \<Rightarrow> string \<Rightarrow> (IRCObservation \<Rightarrow> bool) \<Rightarrow> (IRCObservation \<Rightarrow> IRCObservation)
   \<Rightarrow> 'w \<times> ReviewError option" where
  "updateObs db w i P u =
     (case sdbUpdateObs db w i P u of
        (w', Inl _) \<Rightarrow> (w', Some ReviewDriver)
      | (w', Inr matched) \<Rightarrow> (w', if matched = 0 then Some ReviewRefused else None))"

definition RejectObservation ::
  "'w ObsDb \<Rightarrow> 'w \<Rightarrow> string \<Rightarrow> string \<Rightarrow> int \<Rightarrow> 'w \<times> ReviewError option" where
  "RejectObservation db w i reason reviewer =
     updateObs db w i (\<lambda>d. iobStatus d = ReviewPending)
       (\<lambda>d. d\<lparr>iobStatus := ReviewRejected, iobReason := reason, iobReviewer := reviewer\<rparr>)"

text \<open>What a confirmation names: the match, the command id, the piece and the winner.\<close>

record Confirmation =
  cnMatchID :: ObjectID
  cnCommandID :: string
  cnPieceID :: string
  cnWinner :: TeamSide

definition claimedFor :: "Confirmation \<Rightarrow> IRCObservation \<Rightarrow> bool" where
  "claimedFor cn d \<longleftrightarrow> iobMatchID d = Some (cnMatchID cn) \<and> iobCommandID d = Some (cnCommandID cn) \<and>
     iobPieceID d = Some (cnPieceID cn) \<and> iobWinner d = Some (cnWinner cn)"

definition claimObservation :: "Confirmation \<Rightarrow> int \<Rightarrow> Time \<Rightarrow> IRCObservation \<Rightarrow> IRCObservation" where
  "claimObservation cn reviewer now d =
     d\<lparr>iobStatus := ReviewConfirming, iobMatchID := Some (cnMatchID cn),
       iobCommandID := Some (cnCommandID cn), iobPieceID := Some (cnPieceID cn),
       iobWinner := Some (cnWinner cn), iobReviewer := reviewer, iobStartedAt := Some now\<rparr>"

definition ClaimConfirmation ::
  "'w ObsDb \<Rightarrow> Time \<Rightarrow> 'w \<Rightarrow> string \<Rightarrow> Confirmation \<Rightarrow> int \<Rightarrow> 'w \<times> (ReviewError + IRCObservation)" where
  "ClaimConfirmation db now w i cn reviewer =
     (if i = '''' \<or> cnMatchID cn = NilObjectID \<or> cnCommandID cn = '''' \<or> cnPieceID cn = '''' \<or>
         (cnWinner cn \<noteq> TeamRed \<and> cnWinner cn \<noteq> TeamBlue) \<or> reviewer \<le> 0
      then (w, Inl ReviewRefused)
      else case sdbFindAndUpdate db w i
                  (\<lambda>d. iobStatus d = ReviewPending \<or> iobStatus d = ReviewConfirming \<and> claimedFor cn d)
                  (claimObservation cn reviewer now) of
             (w', Inl _) \<Rightarrow> (w', Inl ReviewDriver)
           | (w', Inr (Some d)) \<Rightarrow> (w', Inr d)
           | (w', Inr None) \<Rightarrow>
               (case sdbFindOne db w' i (\<lambda>d. iobStatus d = ReviewConfirmed \<and> claimedFor cn d) of
                  Inl _ \<Rightarrow> (w', Inl ReviewDriver)
                | Inr None \<Rightarrow> (w', Inl ReviewRefused)
                | Inr (Some d) \<Rightarrow> (w', Inr d)))"

definition confirmingBy :: "string \<Rightarrow> IRCObservation \<Rightarrow> bool" where
  "confirmingBy cid d \<longleftrightarrow> iobStatus d = ReviewConfirming \<and> iobCommandID d = Some cid"

definition finalizedObservation :: "IRCObservation \<Rightarrow> IRCObservation" where
  "finalizedObservation d = d\<lparr>iobStatus := ReviewConfirmed, iobStartedAt := None\<rparr>"

definition FinalizeConfirmation :: "'w ObsDb \<Rightarrow> 'w \<Rightarrow> string \<Rightarrow> string \<Rightarrow> 'w \<times> ReviewError option" where
  "FinalizeConfirmation db w i cid = updateObs db w i (confirmingBy cid) finalizedObservation"

definition releasedObservation :: "IRCObservation \<Rightarrow> IRCObservation" where
  "releasedObservation d =
     d\<lparr>iobStatus := ReviewPending, iobMatchID := None, iobCommandID := None, iobPieceID := None,
       iobWinner := None, iobReviewer := 0, iobStartedAt := None\<rparr>"

definition ReleaseConfirmation :: "'w ObsDb \<Rightarrow> 'w \<Rightarrow> string \<Rightarrow> string \<Rightarrow> 'w \<times> ReviewError option" where
  "ReleaseConfirmation db w i cid = updateObs db w i (confirmingBy cid) releasedObservation"

text \<open>A missing start sorts first.\<close>

definition ListConfirming :: "'w ObsDb \<Rightarrow> 'w \<Rightarrow> int \<Rightarrow> ReviewError + IRCObservation list" where
  "ListConfirming db w limit =
     (case sdbFindObs db w (\<lambda>d. iobStatus d = ReviewConfirming) of
        Inl _ \<Rightarrow> Inl ReviewDriver
      | Inr ds \<Rightarrow> Inr (take (limited 200 100 limit)
          (sort_key (\<lambda>d. (iobStartedAt d \<noteq> None, timeOrZero (iobStartedAt d))) ds)))"

section \<open>Mutations of the referees\<close>

record 'w Review =
  reWiring :: "'w Wiring"
  reHex :: HexCodec
  reObs :: "'w ObsDb"
  reJobs :: "'w JobDb"
  reOutbox :: "'w OutboxDb"
  reConfirmationPayload :: "string \<Rightarrow> (string \<times> TeamSide) option"

record ConfirmIRCResultInput =
  ciMatchID :: string
  ciExpectedVersion :: string
  ciCommandID :: string
  ciObservationID :: string
  ciBoardPieceID :: string
  ciWinningTeam :: TeamSide

text \<open>A side in the text of a command is written in any case; \<open>equalFold\<close> takes lower case.\<close>

fun lowerSide :: "TeamSide \<Rightarrow> string" where
  "lowerSide TeamRed = ''red''"
| "lowerSide TeamBlue = ''blue''"
| "lowerSide TeamNone = ''''"
| "lowerSide (TeamOther s) = s"

definition ircResultMatches :: "string \<Rightarrow> TeamSide \<Rightarrow> string \<Rightarrow> bool" where
  "ircResultMatches command team piece =
     (case goFields (trimPrefix '':'' (trimSpace command)) of
        [p0, p1, p2] \<Rightarrow> equalFold p0 ''!result'' \<and> equalFold p1 (lowerSide team) \<and> p2 = piece
      | _ \<Rightarrow> False)"

definition confirmationOf :: "ObjectID \<Rightarrow> ConfirmIRCResultInput \<Rightarrow> Confirmation" where
  "confirmationOf mid input =
     \<lparr>cnMatchID = mid, cnCommandID = ciCommandID input, cnPieceID = ciBoardPieceID input,
      cnWinner = engineTeam (ciWinningTeam input)\<rparr>"

definition executeConfirmation ::
  "'w Review \<Rightarrow> int option \<Rightarrow> Time \<Rightarrow> 'w \<Rightarrow> ConfirmIRCResultInput \<Rightarrow> 'w \<times> MatchCommandResult" where
  "executeConfirmation rw claims now w input =
     executeCommand (reHex rw) (wiEncoders (reWiring rw)) (Some (wiredOrchestrator (reWiring rw))) claims now w
       (Some \<lparr>cmMatchID = ciMatchID input, cmExpectedVersion = ciExpectedVersion input,
              cmCommandID = ciCommandID input\<rparr>)
       (ConfirmBeatmapResult (ciBoardPieceID input) (engineTeam (ciWinningTeam input)))"

text \<open>\<open>at\<close> is the reading of the clock for the claim, \<open>now\<close> that of the orchestrator.\<close>

definition ConfirmIRCResult ::
  "'w Review \<Rightarrow> int option \<Rightarrow> Time \<Rightarrow> Time \<Rightarrow> 'w \<Rightarrow> ConfirmIRCResultInput \<Rightarrow> 'w \<times> MatchCommandResult" where
  "ConfirmIRCResult rw claims at now w input =
     (case claims of
        None \<Rightarrow> (w, invalidCommandInput None)
      | Some osuID \<Rightarrow>
     (case ObservationByID (reObs rw) w (ciObservationID input) of
        Inl _ \<Rightarrow> (w, invalidCommandInput None)
      | Inr ob \<Rightarrow>
          if \<not> ircResultMatches (iobCommand ob) (ciWinningTeam input) (ciBoardPieceID input)
          then (w, invalidCommandInput None)
          else if authorizeIRCObservation (reWiring rw) (reHex rw) claims w (ciMatchID input) (iobChannel ob) \<noteq> None
          then (w, invalidCommandInput None)
          else
     (case hexParse (reHex rw) (ciMatchID input) of
        None \<Rightarrow> (w, invalidCommandInput None)
      | Some mid \<Rightarrow>
     (case ClaimConfirmation (reObs rw) at w (ciObservationID input) (confirmationOf mid input) osuID of
        (w1, Inl _) \<Rightarrow> (w1, invalidCommandInput None)
      | (w1, Inr claimed) \<Rightarrow>
          if \<not> ircResultMatches (iobCommand claimed) (ciWinningTeam input) (ciBoardPieceID input)
          then (w1, invalidCommandInput None)
          else (case executeConfirmation rw claims now w1 input of
                  (w2, result) \<Rightarrow>
                    if \<not> mcrSuccess result
                    then (fst (ReleaseConfirmation (reObs rw) w2 (ciObservationID input) (ciCommandID input)), result)
                    else (fst (FinalizeConfirmation (reObs rw) w2 (ciObservationID input) (ciCommandID input)),
                          result))))))"

text \<open>The other mutations return an error or nothing.\<close>

datatype MutationError =
    MutationAuthRequired | MutationInvalid | MutationAccess AccessError | MutationReview ReviewError
  | MutationJob JobError | MutationOutbox OutboxError

definition RejectIRCObservation ::
  "'w Review \<Rightarrow> int option \<Rightarrow> 'w \<Rightarrow> string \<Rightarrow> string \<Rightarrow> string \<Rightarrow> 'w \<times> MutationError option" where
  "RejectIRCObservation rw claims w idText obID reason =
     (case claims of
        None \<Rightarrow> (w, Some MutationAuthRequired)
      | Some osuID \<Rightarrow>
          if trimSpace reason = '''' then (w, Some MutationInvalid)
          else (case ObservationByID (reObs rw) w obID of
                  Inl e \<Rightarrow> (w, Some (MutationReview e))
                | Inr ob \<Rightarrow>
                    (case authorizeIRCObservation (reWiring rw) (reHex rw) claims w idText (iobChannel ob) of
                       Some e \<Rightarrow> (w, Some (MutationAccess e))
                     | None \<Rightarrow>
                         (case RejectObservation (reObs rw) w obID reason osuID of
                            (w', r) \<Rightarrow> (w', map_option MutationReview r)))))"

definition RetryIRCJob ::
  "'w Review \<Rightarrow> int option \<Rightarrow> Time \<Rightarrow> 'w \<Rightarrow> string \<Rightarrow> string \<Rightarrow> 'w \<times> MutationError option" where
  "RetryIRCJob rw claims now w idText jobText =
     (case authorizeIRCMatch (reWiring rw) (reHex rw) claims w idText of
        Inl e \<Rightarrow> (w, Some (MutationAccess e))
      | Inr room \<Rightarrow>
     (case Option.bind (roomMPLink room) (ChannelFromMPLink (wiParseURL (reWiring rw))) of
        None \<Rightarrow> (w, Some MutationInvalid)
      | Some channel \<Rightarrow>
     (case hexParse (reHex rw) idText of
        None \<Rightarrow> (w, Some MutationInvalid)
      | Some mid \<Rightarrow>
          (case RetryJob (reJobs rw) w mid jobText channel now of
             (w', r) \<Rightarrow> (w', map_option MutationJob r)))))"

definition RetryMatchAutomation ::
  "'w Review \<Rightarrow> int option \<Rightarrow> 'w \<Rightarrow> string \<Rightarrow> string \<Rightarrow> 'w \<times> MutationError option" where
  "RetryMatchAutomation rw claims w idText eventText =
     (case authorizeRefereeMatch (reWiring rw) (reHex rw) claims w idText of
        Inl e \<Rightarrow> (w, Some (MutationAccess e))
      | Inr m \<Rightarrow>
     (case hexParse (reHex rw) idText of
        None \<Rightarrow> (w, Some MutationInvalid)
      | Some mid \<Rightarrow>
          (case RetryFailedEvent (reOutbox rw) w mid eventText of
             (w', r) \<Rightarrow> (w', map_option MutationOutbox r))))"

section \<open>The reconciler\<close>

definition completeClaim :: "IRCObservation \<Rightarrow> Confirmation option" where
  "completeClaim d =
     (case (iobMatchID d, iobCommandID d, iobPieceID d, iobWinner d, iobStartedAt d) of
        (Some mid, Some cid, Some piece, Some winner, Some t) \<Rightarrow>
          if mid = NilObjectID \<or> cid = '''' \<or> piece = '''' \<or> (winner \<noteq> TeamRed \<and> winner \<noteq> TeamBlue) then None
          else Some \<lparr>cnMatchID = mid, cnCommandID = cid, cnPieceID = piece, cnWinner = winner\<rparr>
      | _ \<Rightarrow> None)"

definition committedAs :: "Confirmation \<Rightarrow> ConfirmationReceipt option \<Rightarrow> bool" where
  "committedAs cn receipt \<longleftrightarrow>
     (case receipt of
        None \<Rightarrow> False
      | Some r \<Rightarrow> cfCommandType r = ''CONFIRM_BEATMAP_RESULT'' \<and> cfBoardPieceID r = cnPieceID cn \<and>
          cfWinningTeam r = cnWinner cn)"

definition reconcileItem ::
  "'w Review \<Rightarrow> Duration \<Rightarrow> Time \<Rightarrow> 'w \<Rightarrow> IRCObservation \<Rightarrow> 'w \<times> ReviewError option" where
  "reconcileItem rw staleAfter now w item =
     (case completeClaim item of
        None \<Rightarrow> (w, Some ReviewIncomplete)
      | Some cn \<Rightarrow>
          (case LoadConfirmationReceipt (reOutbox rw) (reConfirmationPayload rw) w (cnMatchID cn) (cnCommandID cn) of
             Inl e \<Rightarrow> (w, Some (ReviewReceipt e))
           | Inr receipt \<Rightarrow>
               if committedAs cn receipt then FinalizeConfirmation (reObs rw) w (iobID item) (cnCommandID cn)
               else if \<not> timeOrZero (iobStartedAt item) + staleAfter > now
               then ReleaseConfirmation (reObs rw) w (iobID item) (cnCommandID cn)
               else (w, None)))"

fun reconcileItems ::
  "'w Review \<Rightarrow> Duration \<Rightarrow> (string \<Rightarrow> Time) \<Rightarrow> 'w \<Rightarrow> ReviewError option \<Rightarrow> IRCObservation list
   \<Rightarrow> 'w \<times> ReviewError option" where
  "reconcileItems rw staleAfter clock w firstErr [] = (w, firstErr)"
| "reconcileItems rw staleAfter clock w firstErr (item # items) =
     (case reconcileItem rw staleAfter (clock (iobID item)) w item of
        (w', r) \<Rightarrow> reconcileItems rw staleAfter clock w' (if firstErr = None then r else firstErr) items)"

text \<open>\<open>New\<close> replaces a limit that is not positive by a minute.\<close>

definition reconcilerRunOnce ::
  "'w Review \<Rightarrow> Duration \<Rightarrow> (string \<Rightarrow> Time) \<Rightarrow> 'w \<Rightarrow> 'w \<times> ReviewError option" where
  "reconcilerRunOnce rw staleAfter clock w =
     (case ListConfirming (reObs rw) w 100 of
        Inl e \<Rightarrow> (w, Some e)
      | Inr items \<Rightarrow>
          reconcileItems rw (if staleAfter \<le> 0 then 60 * second else staleAfter) clock w None items)"

section \<open>What the driver promises\<close>

definition sameObs :: "'w ObsDb \<Rightarrow> 'w \<Rightarrow> 'w \<Rightarrow> bool" where
  "sameObs db w w' \<longleftrightarrow> sdbObs db w' = sdbObs db w"

definition obsChanged ::
  "'w ObsDb \<Rightarrow> 'w \<Rightarrow> string \<Rightarrow> (IRCObservation \<Rightarrow> bool) \<Rightarrow> (IRCObservation \<Rightarrow> IRCObservation) \<Rightarrow> 'w \<Rightarrow> bool" where
  "obsChanged db w i P u w' \<longleftrightarrow>
     (\<exists>d. sdbObs db w i = Some d \<and> P d \<and> sdbObs db w' = (sdbObs db w)(i \<mapsto> u d))"

definition findObsLaw :: "'w ObsDb \<Rightarrow> bool" where
  "findObsLaw db \<longleftrightarrow>
     (\<forall>w i d. sdbObs db w i = Some d \<longrightarrow> iobID d = i) \<and>
     (\<forall>w i P x. sdbFindOne db w i P = Inr x \<longrightarrow>
        x = (case sdbObs db w i of None \<Rightarrow> None | Some d \<Rightarrow> if P d then Some d else None)) \<and>
     (\<forall>w P ds. sdbFindObs db w P = Inr ds \<longrightarrow>
        (\<forall>d. d \<in> set ds \<longleftrightarrow> P d \<and> sdbObs db w (iobID d) = Some d) \<and> distinct (map iobID ds))"

text \<open>An update that reports no match had none, and one that fails may still have been written.\<close>

definition updateObsLaw :: "'w ObsDb \<Rightarrow> bool" where
  "updateObsLaw db \<longleftrightarrow>
     (\<forall>w i P u w' x. sdbUpdateObs db w i P u = (w', x) \<longrightarrow>
        sameObs db w w' \<and> (\<forall>n. x = Inr n \<longrightarrow> n = 0 \<and> (\<forall>d. sdbObs db w i = Some d \<longrightarrow> \<not> P d)) \<or>
        obsChanged db w i P u w' \<and> x \<noteq> Inr 0) \<and>
     (\<forall>w i P u w' x. sdbFindAndUpdate db w i P u = (w', x) \<longrightarrow>
        sameObs db w w' \<and> (\<forall>d. x \<noteq> Inr (Some d)) \<or>
        obsChanged db w i P u w' \<and> (\<forall>y. x = Inr y \<longrightarrow> y = sdbObs db w' i))"

definition upsertObsLaw :: "'w ObsDb \<Rightarrow> bool" where
  "upsertObsLaw db \<longleftrightarrow>
     (\<forall>w d w' x. sdbUpsertObs db w d = (w', x) \<longrightarrow>
        sameObs db w w' \<or> sdbObs db w (iobID d) = None \<and> sdbObs db w' = (sdbObs db w)(iobID d \<mapsto> d))"

text \<open>The documents of the command store are in other collections.\<close>

definition commandObsLaw :: "'w ObsDb \<Rightarrow> 'w Mongo \<Rightarrow> bool" where
  "commandObsLaw db sn \<longleftrightarrow>
     (\<forall>w f u w' n. updateSnapshot sn w f u = (w', Inr n) \<longrightarrow> sameObs db w w') \<and>
     (\<forall>w a w'. insertAction sn w a = (w', Inr ()) \<longrightarrow> sameObs db w w') \<and>
     (\<forall>w ds w'. insertOutbox sn w ds = (w', Inr ()) \<longrightarrow> sameObs db w w') \<and>
     (\<forall>w r w'. insertReceipt sn w r = (w', Inr ()) \<longrightarrow> sameObs db w w')"

definition reviewLaws :: "'w Review \<Rightarrow> bool" where
  "reviewLaws rw \<longleftrightarrow>
     findObsLaw (reObs rw) \<and> updateObsLaw (reObs rw) \<and> upsertObsLaw (reObs rw) \<and>
     storeLaws (wiMongo (reWiring rw)) \<and> commandObsLaw (reObs rw) (wiMongo (reWiring rw)) \<and>
     (\<forall>w i P u w' x. sdbUpdateObs (reObs rw) w i P u = (w', x) \<longrightarrow>
        odbFindAction (reOutbox rw) w' = odbFindAction (reOutbox rw) w)"

end
