(* ===== verification/ReviewHistory.thy ===== *)
theory ReviewHistory
  imports IrcReview EngineHistory
begin

text \<open>
  The history of the observations. \<open>reviewStep\<close> has one rule for each call on the collection, made by the
  reader of the room, by any number of confirming or rejecting referees and by the reconciler, and one for
  the command a confirmation executes; a request that stops half way, or is overtaken by another one with
  the same command id, is a history like any other. The interpretation \<open>reviews\<close> of \<open>step_system\<close> carries
  what a confirmed observation stands for.
\<close>

section \<open>Steps\<close>

text \<open>
  Beside the database: the observations that were read, the claims that were granted, the answers to
  their commands, and the confirmations that were seen to be committed, as the answer to a request or in
  the actions of a match.
\<close>

record 'w Reviewing =
  rgWorld :: 'w
  rgRead :: "IRCObservation set"
  rgClaimed :: "(string \<times> Confirmation) set"
  rgGood :: "(string \<times> Confirmation) set"
  rgBad :: "(string \<times> Confirmation) set"
  rgEvidence :: "Confirmation set"

definition freshReview :: "'w \<Rightarrow> 'w Reviewing" where
  "freshReview w =
     \<lparr>rgWorld = w, rgRead = {}, rgClaimed = {}, rgGood = {}, rgBad = {}, rgEvidence = {}\<rparr>"

inductive reviewStep :: "'w Review \<Rightarrow> 'w Reviewing \<Rightarrow> 'w Reviewing \<Rightarrow> bool" for rw where
  Saves: "SaveObservation (reObs rw) (rgWorld g) ob = (w', r) \<Longrightarrow>
    reviewStep rw g (g\<lparr>rgWorld := w'\<rparr>)"
| Rejects: "RejectObservation (reObs rw) (rgWorld g) i reason reviewer = (w', r) \<Longrightarrow>
    reviewStep rw g (g\<lparr>rgWorld := w'\<rparr>)"
| Reads: "sdbObs (reObs rw) (rgWorld g) i = Some d \<Longrightarrow>
    reviewStep rw g (g\<lparr>rgRead := insert d (rgRead g)\<rparr>)"
| Claims: "d \<in> rgRead g \<Longrightarrow> ircResultMatches (iobCommand d) (cnWinner cn) (cnPieceID cn) \<Longrightarrow>
    ClaimConfirmation (reObs rw) at (rgWorld g) (iobID d) cn reviewer = (w', x) \<Longrightarrow>
    reviewStep rw g (g\<lparr>rgWorld := w',
      rgClaimed := (case x of Inl _ \<Rightarrow> rgClaimed g | Inr _ \<Rightarrow> insert (iobID d, cn) (rgClaimed g))\<rparr>)"
| Executes: "(i, cn) \<in> rgClaimed g \<Longrightarrow> hexParse (reHex rw) (ciMatchID input) = Some (cnMatchID cn) \<Longrightarrow>
    cn = confirmationOf (cnMatchID cn) input \<Longrightarrow>
    executeConfirmation rw claims now (rgWorld g) input = (w', result) \<Longrightarrow>
    reviewStep rw g
      (if mcrSuccess result
       then g\<lparr>rgWorld := w', rgGood := insert (i, cn) (rgGood g), rgEvidence := insert cn (rgEvidence g)\<rparr>
       else g\<lparr>rgWorld := w', rgBad := insert (i, cn) (rgBad g)\<rparr>)"
| Finds: "d \<in> rgRead g \<Longrightarrow> iobStatus d = ReviewConfirming \<Longrightarrow> completeClaim d = Some cn \<Longrightarrow>
    LoadConfirmationReceipt (reOutbox rw) (reConfirmationPayload rw) (rgWorld g) (cnMatchID cn) (cnCommandID cn)
      = Inr receipt \<Longrightarrow>
    reviewStep rw g
      (if committedAs cn receipt
       then g\<lparr>rgGood := insert (iobID d, cn) (rgGood g), rgEvidence := insert cn (rgEvidence g)\<rparr>
       else g\<lparr>rgBad := insert (iobID d, cn) (rgBad g)\<rparr>)"
| Finalizes: "(i, cn) \<in> rgGood g \<Longrightarrow> FinalizeConfirmation (reObs rw) (rgWorld g) i (cnCommandID cn) = (w', r) \<Longrightarrow>
    reviewStep rw g (g\<lparr>rgWorld := w'\<rparr>)"
| Releases: "(i, cn) \<in> rgBad g \<Longrightarrow> ReleaseConfirmation (reObs rw) (rgWorld g) i (cnCommandID cn) = (w', r) \<Longrightarrow>
    reviewStep rw g (g\<lparr>rgWorld := w'\<rparr>)"
| Others: "sameObs (reObs rw) (rgWorld g) w' \<Longrightarrow> reviewStep rw g (g\<lparr>rgWorld := w'\<rparr>)"

inductive_cases reviewStepE: "reviewStep rw g g'"

section \<open>The effect of a call\<close>

lemma reviewLawsD:
  assumes "reviewLaws rw"
  shows "sdbObs (reObs rw) w i = Some d \<Longrightarrow> iobID d = i"
    and "sdbFindOne (reObs rw) w i P = Inr (Some d) \<Longrightarrow> sdbObs (reObs rw) w i = Some d \<and> P d"
    and "sdbFindObs (reObs rw) w P = Inr ds \<Longrightarrow> d \<in> set ds \<Longrightarrow> P d \<and> sdbObs (reObs rw) w (iobID d) = Some d"
    and "storeLaws (wiMongo (reWiring rw))"
    and "sdbUpdateObs (reObs rw) w i P u = (w', x) \<Longrightarrow> odbFindAction (reOutbox rw) w' = odbFindAction (reOutbox rw) w"
proof -
  note laws = assms [unfolded reviewLaws_def findObsLaw_def]
  show "sdbObs (reObs rw) w i = Some d \<Longrightarrow> iobID d = i" using laws by blast
  show "sdbFindObs (reObs rw) w P = Inr ds \<Longrightarrow> d \<in> set ds \<Longrightarrow> P d \<and> sdbObs (reObs rw) w (iobID d) = Some d"
    using laws by blast
  show "storeLaws (wiMongo (reWiring rw))" using laws by blast
  show "sdbUpdateObs (reObs rw) w i P u = (w', x) \<Longrightarrow> odbFindAction (reOutbox rw) w' = odbFindAction (reOutbox rw) w"
    using laws by blast
  assume "sdbFindOne (reObs rw) w i P = Inr (Some d)"
  then have "Some d = (case sdbObs (reObs rw) w i of None \<Rightarrow> None | Some d \<Rightarrow> if P d then Some d else None)"
    using laws by blast
  then show "sdbObs (reObs rw) w i = Some d \<and> P d" by (auto split: option.splits if_splits)
qed

lemma findAndUpdate_effect:
  assumes "reviewLaws rw" and "sdbFindAndUpdate (reObs rw) w i P u = (w', x)"
  shows "sameObs (reObs rw) w w' \<and> (\<forall>d. x \<noteq> Inr (Some d)) \<or>
    obsChanged (reObs rw) w i P u w' \<and> (\<forall>y. x = Inr y \<longrightarrow> y = sdbObs (reObs rw) w' i)"
  using assms unfolding reviewLaws_def updateObsLaw_def by blast

lemma updateObs_effect:
  assumes "reviewLaws rw" and "updateObs (reObs rw) w i P u = (w', r)"
  shows "sameObs (reObs rw) w w' \<and> r \<noteq> None \<or> obsChanged (reObs rw) w i P u w'"
proof -
  obtain x where x: "sdbUpdateObs (reObs rw) w i P u = (w', x)"
    and r: "r = (case x of Inl _ \<Rightarrow> Some ReviewDriver | Inr n \<Rightarrow> if n = 0 then Some ReviewRefused else None)"
    using assms(2) by (auto simp: updateObs_def split: prod.splits sum.splits)
  have "sameObs (reObs rw) w w' \<and> (\<forall>n. x = Inr n \<longrightarrow> n = 0) \<or> obsChanged (reObs rw) w i P u w'"
    using assms(1) x unfolding reviewLaws_def updateObsLaw_def by blast
  with r show ?thesis by (auto split: sum.splits)
qed

definition sided :: "Confirmation \<Rightarrow> bool" where
  "sided cn \<longleftrightarrow> cnWinner cn = TeamRed \<or> cnWinner cn = TeamBlue"

lemma ClaimConfirmation_effect:
  assumes "reviewLaws rw" and "ClaimConfirmation (reObs rw) at w i cn reviewer = (w', x)"
  shows "sameObs (reObs rw) w w' \<or>
    obsChanged (reObs rw) w i (\<lambda>d. iobStatus d = ReviewPending \<or> iobStatus d = ReviewConfirming \<and> claimedFor cn d)
      (claimObservation cn reviewer at) w' \<and> sided cn"
    and "x = Inr claimed \<Longrightarrow> sdbObs (reObs rw) w' i = Some claimed \<and> claimedFor cn claimed \<and> sided cn"
proof -
  let ?P = "\<lambda>d. iobStatus d = ReviewPending \<or> iobStatus d = ReviewConfirming \<and> claimedFor cn d"
  let ?u = "claimObservation cn reviewer at" and ?ob = "reObs rw"
  show "sameObs ?ob w w' \<or> obsChanged ?ob w i ?P ?u w' \<and> sided cn"
  proof (cases "w' = w")
    case False
    then obtain y where "sdbFindAndUpdate ?ob w i ?P ?u = (w', y)" "sided cn"
      using assms(2) by (auto simp: sided_def ClaimConfirmation_def split: if_splits prod.splits sum.splits option.splits)
    then show ?thesis using findAndUpdate_effect [OF assms(1)] by blast
  qed (simp add: sameObs_def)
  assume x: "x = Inr claimed"
  then obtain y where y: "sdbFindAndUpdate ?ob w i ?P ?u = (w', Inr y)"
    and winner: "sided cn"
    and read: "y = Some claimed \<or> y = None \<and>
      sdbFindOne ?ob w' i (\<lambda>d. iobStatus d = ReviewConfirmed \<and> claimedFor cn d) = Inr (Some claimed)"
    using assms(2) by (auto simp: sided_def ClaimConfirmation_def split: if_splits prod.splits sum.splits option.splits)
  have "sdbObs ?ob w' i = Some claimed \<and> claimedFor cn claimed"
  proof (cases y)
    case None
    then show ?thesis using read reviewLawsD(2) [OF assms(1)] by blast
  next
    case (Some d)
    then have "y = Some claimed" using read by simp
    with findAndUpdate_effect [OF assms(1) y] have "obsChanged ?ob w i ?P ?u w' \<and> sdbObs ?ob w' i = Some claimed"
      by auto
    then show ?thesis by (auto simp: obsChanged_def claimObservation_def claimedFor_def)
  qed
  with winner show "sdbObs ?ob w' i = Some claimed \<and> claimedFor cn claimed \<and> sided cn" by blast
qed

lemma commandObsLawD:
  assumes "reviewLaws rw"
  shows "commandObsLaw (reObs rw) (wiMongo (reWiring rw))" "upsertObsLaw (reObs rw)"
  using assms by (simp_all add: reviewLaws_def)

interpretation observations_frame: command_frame sn "\<lambda>w w'. commandObsLaw db sn \<longrightarrow> sameObs db w w'"
  by unfold_locales (unfold commandObsLaw_def sameObs_def, simp, simp, blast+)

lemma executeConfirmation_same:
  assumes "reviewLaws rw" and run: "executeConfirmation rw claims now w input = (w', result)"
  shows "sameObs (reObs rw) w w'"
proof (cases "w' = w")
  case False
  then obtain request r where "orchestratorExecute (wiEncoders (reWiring rw)) (Some (wiredOrchestrator (reWiring rw))) now w request = (w', r)"
    using run by (auto simp: executeConfirmation_def executeCommand_def split: option.splits prod.splits sum.splits if_splits)
  from observations_frame.request_same [OF _ wiredOrchestrator_wired this, of "reObs rw"]
  show ?thesis using reviewLawsD(4) [OF assms(1)] commandObsLawD(1) [OF assms(1)] by (simp add: storeLaws_def)
qed (simp add: sameObs_def)

section \<open>What a step changes\<close>

text \<open>The text of an observation names the piece and the winner of a confirmation.\<close>

definition saysResult :: "IRCObservation \<Rightarrow> Confirmation \<Rightarrow> bool" where
  "saysResult d cn \<longleftrightarrow> ircResultMatches (iobCommand d) (cnWinner cn) (cnPieceID cn) \<and> sided cn"

lemma saysResult_unique:
  assumes "saysResult d cn" and "saysResult d' cn'" and "iobCommand d' = iobCommand d"
  shows "cnPieceID cn' = cnPieceID cn \<and> cnWinner cn' = cnWinner cn"
  using assms
  by (auto simp: saysResult_def ircResultMatches_def sided_def equalFold_def split: list.splits)

inductive obsMove :: "(string \<times> Confirmation) set \<Rightarrow> string \<Rightarrow> IRCObservation \<Rightarrow> IRCObservation \<Rightarrow> bool" for good i where
  Rejected: "iobStatus d = ReviewPending \<Longrightarrow>
    obsMove good i d (d\<lparr>iobStatus := ReviewRejected, iobReason := reason, iobReviewer := reviewer\<rparr>)"
| Claimed: "iobStatus d = ReviewPending \<or> iobStatus d = ReviewConfirming \<and> claimedFor cn d \<Longrightarrow> saysResult d cn \<Longrightarrow>
    obsMove good i d (claimObservation cn reviewer at d)"
| Finalized: "(i, cn) \<in> good \<Longrightarrow> confirmingBy (cnCommandID cn) d \<Longrightarrow> obsMove good i d (finalizedObservation d)"
| Released: "confirmingBy cid d \<Longrightarrow> obsMove good i d (releasedObservation d)"

definition sameText :: "IRCObservation \<Rightarrow> IRCObservation \<Rightarrow> bool" where
  "sameText d d' \<longleftrightarrow> iobID d' = iobID d \<and> iobChannel d' = iobChannel d \<and> iobSender d' = iobSender d \<and>
     iobCommand d' = iobCommand d \<and> iobRaw d' = iobRaw d \<and> iobObservedAt d' = iobObservedAt d \<and>
     iobSuggested d' = iobSuggested d"

lemma sameText_refl [simp]: "sameText d d" by (simp add: sameText_def)

lemma sameText_trans: "sameText d e \<Longrightarrow> sameText e f \<Longrightarrow> sameText d f" by (simp add: sameText_def)

lemma obsMove_text: "obsMove good i d d' \<Longrightarrow> sameText d d' \<and> (iobStatus d = ReviewPending \<or> iobStatus d = ReviewConfirming)"
  by (induction rule: obsMove.induct)
    (auto simp: sameText_def claimObservation_def finalizedObservation_def releasedObservation_def confirmingBy_def)

definition reviewOk :: "'w Review \<Rightarrow> 'w Reviewing \<Rightarrow> bool" where
  "reviewOk rw g \<longleftrightarrow>
     (\<forall>i d. sdbObs (reObs rw) (rgWorld g) i = Some d \<and> iobStatus d = ReviewConfirming \<longrightarrow>
        (\<exists>cn. claimedFor cn d \<and> saysResult d cn)) \<and>
     (\<forall>i d. sdbObs (reObs rw) (rgWorld g) i = Some d \<and> iobStatus d = ReviewConfirmed \<longrightarrow>
        (\<exists>cn mid. claimedFor cn d \<and> saysResult d cn \<and> cn\<lparr>cnMatchID := mid\<rparr> \<in> rgEvidence g)) \<and>
     (\<forall>d\<in>rgRead g. (\<exists>d'. sdbObs (reObs rw) (rgWorld g) (iobID d) = Some d' \<and> sameText d d') \<and>
        (iobStatus d = ReviewConfirming \<longrightarrow> (\<exists>cn. claimedFor cn d \<and> saysResult d cn))) \<and>
     (\<forall>(i, cn)\<in>rgClaimed g \<union> rgGood g \<union> rgBad g. \<exists>d. sdbObs (reObs rw) (rgWorld g) i = Some d \<and> saysResult d cn) \<and>
     (\<forall>(i, cn)\<in>rgGood g. cn \<in> rgEvidence g)"

lemma reviewStep_obs:
  assumes laws: "reviewLaws rw" and ok: "reviewOk rw g" and step: "reviewStep rw g g'"
  shows "sameObs (reObs rw) (rgWorld g) (rgWorld g') \<or>
    (\<exists>i d d'. sdbObs (reObs rw) (rgWorld g) i = Some d \<and> obsMove (rgGood g) i d d' \<and>
       sdbObs (reObs rw) (rgWorld g') = (sdbObs (reObs rw) (rgWorld g))(i \<mapsto> d')) \<or>
    (\<exists>i d. sdbObs (reObs rw) (rgWorld g) i = None \<and> iobID d = i \<and> iobStatus d = ReviewPending \<and>
       sdbObs (reObs rw) (rgWorld g') = (sdbObs (reObs rw) (rgWorld g))(i \<mapsto> d))"
    (is "?same \<or> ?moved \<or> ?new")
proof -
  have moved: ?moved
    if "obsChanged (reObs rw) (rgWorld g) i P u (rgWorld g')" "\<And>d. sdbObs (reObs rw) (rgWorld g) i = Some d \<Longrightarrow> P d \<Longrightarrow> obsMove (rgGood g) i d (u d)" for i P u
    using that unfolding obsChanged_def by blast
  show ?thesis
    using step
  proof (cases rule: reviewStep.cases)
    case (Saves ob w' r)
    show ?thesis
    proof (cases "w' = rgWorld g")
      case False
      then obtain d x where d: "sdbUpsertObs (reObs rw) (rgWorld g) d = (w', x)" "iobStatus d = ReviewPending"
        using Saves(2) by (auto simp: SaveObservation_def split: if_splits prod.splits sum.splits)
      have w': "w' = rgWorld g'" using Saves(1) by simp
      from commandObsLawD(2) [OF laws, unfolded upsertObsLaw_def, rule_format, OF d(1)]
      consider ?same | "sdbObs (reObs rw) (rgWorld g) (iobID d) = None"
        "sdbObs (reObs rw) (rgWorld g') = (sdbObs (reObs rw) (rgWorld g))(iobID d \<mapsto> d)" unfolding w' by (elim disjE conjE)
      then show ?thesis using d(2) by cases blast+
    qed (use Saves in \<open>simp add: sameObs_def\<close>)
  next
    case (Rejects i reason reviewer w' r)
    have w': "w' = rgWorld g'" using Rejects(1) by simp
    from updateObs_effect [OF laws Rejects(2) [unfolded RejectObservation_def], unfolded w']
    show ?thesis by (elim disjE conjE) (simp, rule disjI2, rule disjI1, rule moved, assumption, rule obsMove.Rejected, assumption)
  next
    case (Claims d cn at reviewer w' x)
    have says: "saysResult e cn" if "sdbObs (reObs rw) (rgWorld g) (iobID d) = Some e" "sided cn" for e
      using ok Claims(2,3) that by (fastforce simp: reviewOk_def saysResult_def sameText_def)
    have w': "w' = rgWorld g'" using Claims(1) by simp
    from ClaimConfirmation_effect(1) [OF laws Claims(4), unfolded w']
    show ?thesis by (elim disjE conjE) (simp, rule disjI2, rule disjI1, rule moved, assumption, rule obsMove.Claimed, assumption, rule says, assumption+)
  next
    case (Executes i cn input claims now w' result)
    then show ?thesis using executeConfirmation_same [OF laws Executes(5)] by simp
  next
    case (Finalizes i cn w' r)
    have w': "w' = rgWorld g'" using Finalizes(1) by simp
    from updateObs_effect [OF laws Finalizes(3) [unfolded FinalizeConfirmation_def], unfolded w']
    show ?thesis by (elim disjE conjE) (simp, rule disjI2, rule disjI1, rule moved, assumption, rule obsMove.Finalized [OF Finalizes(2)], assumption)
  next
    case (Releases i cn w' r)
    have w': "w' = rgWorld g'" using Releases(1) by simp
    from updateObs_effect [OF laws Releases(3) [unfolded ReleaseConfirmation_def], unfolded w']
    show ?thesis by (elim disjE conjE) (simp, rule disjI2, rule disjI1, rule moved, assumption, rule obsMove.Released, assumption)
  qed (simp_all add: sameObs_def)
qed

lemma reviewOkD:
  assumes "reviewOk rw g"
  shows "sdbObs (reObs rw) (rgWorld g) i = Some d \<Longrightarrow> iobStatus d = ReviewConfirming \<Longrightarrow>
      \<exists>cn. claimedFor cn d \<and> saysResult d cn"
    and "sdbObs (reObs rw) (rgWorld g) i = Some d \<Longrightarrow> iobStatus d = ReviewConfirmed \<Longrightarrow>
      \<exists>cn mid. claimedFor cn d \<and> saysResult d cn \<and> cn\<lparr>cnMatchID := mid\<rparr> \<in> rgEvidence g"
    and "d \<in> rgRead g \<Longrightarrow> \<exists>d'. sdbObs (reObs rw) (rgWorld g) (iobID d) = Some d' \<and> sameText d d'"
    and "d \<in> rgRead g \<Longrightarrow> iobStatus d = ReviewConfirming \<Longrightarrow> \<exists>cn. claimedFor cn d \<and> saysResult d cn"
    and "(i, cn) \<in> rgClaimed g \<union> rgGood g \<union> rgBad g \<Longrightarrow>
      \<exists>d. sdbObs (reObs rw) (rgWorld g) i = Some d \<and> saysResult d cn"
    and "(i, cn) \<in> rgGood g \<Longrightarrow> cn \<in> rgEvidence g"
  using assms unfolding reviewOk_def by blast+

text \<open>The texts stay, and a settled observation is not touched again.\<close>

definition reviewGrows :: "'w Review \<Rightarrow> 'w Reviewing \<Rightarrow> 'w Reviewing \<Rightarrow> bool" where
  "reviewGrows rw g g' \<longleftrightarrow>
     rgEvidence g \<subseteq> rgEvidence g' \<and>
     (\<forall>i d. sdbObs (reObs rw) (rgWorld g) i = Some d \<longrightarrow>
        (\<exists>d'. sdbObs (reObs rw) (rgWorld g') i = Some d' \<and> sameText d d' \<and>
           (iobStatus d \<noteq> ReviewPending \<and> iobStatus d \<noteq> ReviewConfirming \<longrightarrow> d' = d)))"

lemma reviewStep_grows:
  assumes "reviewLaws rw" and "reviewOk rw g" and "reviewStep rw g g'"
  shows "reviewGrows rw g g'"
proof -
  have "rgEvidence g \<subseteq> rgEvidence g'"
    using assms(3) by (cases rule: reviewStep.cases) auto
  moreover have "\<exists>d'. sdbObs (reObs rw) (rgWorld g') i = Some d' \<and> sameText d d' \<and>
      (iobStatus d \<noteq> ReviewPending \<and> iobStatus d \<noteq> ReviewConfirming \<longrightarrow> d' = d)"
    if d: "sdbObs (reObs rw) (rgWorld g) i = Some d" for i d
    using reviewStep_obs [OF assms]
  proof (elim disjE exE conjE)
    fix j e e' assume e: "sdbObs (reObs rw) (rgWorld g) j = Some e" "obsMove (rgGood g) j e e'"
      "sdbObs (reObs rw) (rgWorld g') = (sdbObs (reObs rw) (rgWorld g))(j \<mapsto> e')"
    show ?thesis using obsMove_text [OF e(2)] e(1,3) d by (cases "i = j") auto
  qed (use d in \<open>auto simp: sameObs_def\<close>)
  ultimately show ?thesis by (auto simp: reviewGrows_def)
qed

lemma reviewGrows_trans:
  assumes "reviewGrows rw g h" and "reviewGrows rw h k"
  shows "reviewGrows rw g k"
  unfolding reviewGrows_def
proof (intro conjI allI impI)
  show "rgEvidence g \<subseteq> rgEvidence k" using assms by (auto simp: reviewGrows_def)
  fix i d assume "sdbObs (reObs rw) (rgWorld g) i = Some d"
  then obtain d' where d': "sdbObs (reObs rw) (rgWorld h) i = Some d'" "sameText d d'"
    "iobStatus d \<noteq> ReviewPending \<and> iobStatus d \<noteq> ReviewConfirming \<longrightarrow> d' = d"
    using assms(1) unfolding reviewGrows_def by blast
  then obtain e where "sdbObs (reObs rw) (rgWorld k) i = Some e" "sameText d' e"
    "iobStatus d' \<noteq> ReviewPending \<and> iobStatus d' \<noteq> ReviewConfirming \<longrightarrow> e = d'"
    using assms(2) unfolding reviewGrows_def by blast
  with d' sameText_trans show "\<exists>d'. sdbObs (reObs rw) (rgWorld k) i = Some d' \<and> sameText d d' \<and>
      (iobStatus d \<noteq> ReviewPending \<and> iobStatus d \<noteq> ReviewConfirming \<longrightarrow> d' = d)" by auto
qed

lemma says_text: "saysResult d cn \<Longrightarrow> sameText d d' \<Longrightarrow> saysResult d' cn"
  by (simp add: saysResult_def sameText_def)

text \<open>The state of an observation after a move.\<close>

lemma obsMove_status:
  assumes "obsMove good i d d'"
  shows "iobStatus d' = ReviewConfirming \<Longrightarrow> \<exists>cn. claimedFor cn d' \<and> saysResult d' cn"
    and "iobStatus d' = ReviewConfirmed \<Longrightarrow>
      \<exists>cn. (i, cn) \<in> good \<and> confirmingBy (cnCommandID cn) d \<and> d' = finalizedObservation d"
  using assms
  by (cases rule: obsMove.cases;
      force simp: claimObservation_def claimedFor_def saysResult_def finalizedObservation_def releasedObservation_def)+

lemma reviewStep_confirmed:
  assumes ok: "reviewOk rw g" and d: "sdbObs (reObs rw) (rgWorld g) i = Some d"
    and move: "obsMove (rgGood g) i d d'" and confirmed: "iobStatus d' = ReviewConfirmed"
  shows "\<exists>cn mid. claimedFor cn d' \<and> saysResult d' cn \<and> cn\<lparr>cnMatchID := mid\<rparr> \<in> rgEvidence g"
proof -
  obtain cn where cn: "(i, cn) \<in> rgGood g" "confirmingBy (cnCommandID cn) d" "d' = finalizedObservation d"
    using obsMove_status(2) [OF move confirmed] by blast
  obtain cl where cl: "claimedFor cl d" "saysResult d cl"
    using reviewOkD(1) [OF ok d] cn(2) by (auto simp: confirmingBy_def)
  have "saysResult d cn" using reviewOkD(5) [OF ok, of i cn] cn(1) d by auto
  from saysResult_unique [OF cl(2) this] cl(1) cn(2) have "cl\<lparr>cnMatchID := cnMatchID cn\<rparr> = cn"
    by (cases cl, cases cn) (auto simp: claimedFor_def confirmingBy_def)
  moreover have "cn \<in> rgEvidence g" by (rule reviewOkD(6) [OF ok cn(1)])
  moreover have "claimedFor cl d'" "saysResult d' cl"
    using cl by (simp_all add: cn(3) claimedFor_def saysResult_def finalizedObservation_def)
  ultimately show ?thesis by metis
qed

section \<open>The invariant\<close>

lemma claimedFor_unique: "claimedFor cn d \<Longrightarrow> claimedFor cl d \<Longrightarrow> cl = cn"
  by (cases cn, cases cl) (auto simp: claimedFor_def)

lemma completeClaim_Some: "completeClaim d = Some cn \<Longrightarrow> claimedFor cn d"
  by (auto simp: completeClaim_def claimedFor_def split: option.splits if_splits)

text \<open>The documents after a step.\<close>

lemma reviewStep_documents:
  assumes laws: "reviewLaws rw" and ok: "reviewOk rw g" and step: "reviewStep rw g g'"
    and d: "sdbObs (reObs rw) (rgWorld g') i = Some d"
  shows "iobStatus d = ReviewConfirming \<Longrightarrow> \<exists>cn. claimedFor cn d \<and> saysResult d cn"
    and "iobStatus d = ReviewConfirmed \<Longrightarrow>
      \<exists>cn mid. claimedFor cn d \<and> saysResult d cn \<and> cn\<lparr>cnMatchID := mid\<rparr> \<in> rgEvidence g"
proof -
  consider (old) "sdbObs (reObs rw) (rgWorld g) i = Some d"
    | (moved) e where "sdbObs (reObs rw) (rgWorld g) i = Some e" "obsMove (rgGood g) i e d"
    | (new) "iobStatus d = ReviewPending"
    using reviewStep_obs [OF laws ok step]
  proof (elim disjE exE conjE)
    fix j e e' assume e: "sdbObs (reObs rw) (rgWorld g) j = Some e" "obsMove (rgGood g) j e e'"
      "sdbObs (reObs rw) (rgWorld g') = (sdbObs (reObs rw) (rgWorld g))(j \<mapsto> e')"
    show thesis
    proof (cases "i = j")
      case True
      with e(3) d have "e' = d" by simp
      with True e(1,2) moved show thesis by simp
    qed (use e(3) d old in simp)
  next
    fix j e assume e: "iobStatus e = ReviewPending"
      "sdbObs (reObs rw) (rgWorld g') = (sdbObs (reObs rw) (rgWorld g))(j \<mapsto> e)"
    show thesis
    proof (cases "i = j")
      case True
      with e d have "iobStatus d = ReviewPending" by simp
      then show thesis by (rule new)
    qed (use e(2) d old in simp)
  qed (use d old in \<open>simp add: sameObs_def\<close>)
  note cases = this
  show "\<exists>cn. claimedFor cn d \<and> saysResult d cn" if "iobStatus d = ReviewConfirming"
    using cases
  proof cases
    case old
    then show ?thesis using reviewOkD(1) [OF ok] that by blast
  next
    case (moved e)
    then show ?thesis using obsMove_status(1) that by blast
  qed (use that in simp)
  show "\<exists>cn mid. claimedFor cn d \<and> saysResult d cn \<and> cn\<lparr>cnMatchID := mid\<rparr> \<in> rgEvidence g"
    if "iobStatus d = ReviewConfirmed"
    using cases
  proof cases
    case old
    then show ?thesis using reviewOkD(2) [OF ok] that by blast
  next
    case (moved e)
    then show ?thesis using reviewStep_confirmed [OF ok _ _ that] by blast
  qed (use that in simp)
qed

text \<open>What a step remembers.\<close>

lemma reviewStep_read:
  assumes "reviewStep rw g g'" and "d \<in> rgRead g'"
  shows "d \<in> rgRead g \<or> rgWorld g' = rgWorld g \<and> (\<exists>i. sdbObs (reObs rw) (rgWorld g) i = Some d)"
  using assms(1) by (cases rule: reviewStep.cases) (use assms(2) in \<open>auto split: if_splits\<close>)

lemma reviewStep_remembers:
  assumes laws: "reviewLaws rw" and ok: "reviewOk rw g" and step: "reviewStep rw g g'"
    and new: "(i, cn) \<in> rgClaimed g' \<union> rgGood g' \<union> rgBad g'"
  shows "(i, cn) \<in> rgClaimed g \<union> rgGood g \<union> rgBad g \<or>
    (\<exists>d. sdbObs (reObs rw) (rgWorld g) i = Some d \<and> saysResult d cn)"
  using step
proof (cases rule: reviewStep.cases)
  case (Claims d cn' at reviewer w' x)
  show ?thesis
  proof (cases "(i, cn) \<in> rgClaimed g \<union> rgGood g \<union> rgBad g")
    case False
    with new Claims(1) obtain claimed where x: "x = Inr claimed" and i: "i = iobID d" "cn = cn'"
      by (auto split: sum.splits)
    from ClaimConfirmation_effect(2) [OF laws Claims(4) x] have "sided cn" using i by simp
    then show ?thesis using reviewOkD(3) [OF ok Claims(2)] Claims(3) i
      by (auto simp: saysResult_def sameText_def)
  qed simp
next
  case (Finds d cn' receipt)
  show ?thesis
  proof (cases "(i, cn) \<in> rgClaimed g \<union> rgGood g \<union> rgBad g")
    case False
    with new Finds(1) have i: "i = iobID d" "cn = cn'" by (auto split: if_splits)
    obtain cl where "claimedFor cl d" "saysResult d cl" using reviewOkD(4) [OF ok Finds(2,3)] by blast
    with claimedFor_unique [OF completeClaim_Some [OF Finds(4)]] have "saysResult d cn" using i by simp
    with reviewOkD(3) [OF ok Finds(2)] i show ?thesis by (auto intro: says_text)
  qed simp
qed (use new in \<open>auto split: if_splits\<close>)

lemma reviewStep_good:
  assumes "reviewOk rw g" and "reviewStep rw g g'" and "(i, cn) \<in> rgGood g'"
  shows "cn \<in> rgEvidence g'"
  using assms(2) by (cases rule: reviewStep.cases)
    (use assms(3) reviewOkD(6) [OF assms(1)] in \<open>auto split: if_splits\<close>)

lemma reviewStep_ok:
  assumes laws: "reviewLaws rw" and ok: "reviewOk rw g" and step: "reviewStep rw g g'"
  shows "reviewOk rw g'"
proof -
  note grows = reviewStep_grows [OF laws ok step, unfolded reviewGrows_def]
  note docs = reviewStep_documents [OF laws ok step]
  have kept: "\<exists>d'. sdbObs (reObs rw) (rgWorld g') i = Some d' \<and> sameText d d'"
    if "sdbObs (reObs rw) (rgWorld g) i = Some d" for i d
    using grows that by blast
  have read: "(\<exists>d'. sdbObs (reObs rw) (rgWorld g') (iobID d) = Some d' \<and> sameText d d') \<and>
      (iobStatus d = ReviewConfirming \<longrightarrow> (\<exists>cn. claimedFor cn d \<and> saysResult d cn))" if "d \<in> rgRead g'" for d
    using reviewStep_read [OF step that]
  proof (elim disjE conjE exE)
    assume old: "d \<in> rgRead g"
    obtain e where e: "sdbObs (reObs rw) (rgWorld g) (iobID d) = Some e" "sameText d e"
      using reviewOkD(3) [OF ok old] by blast
    obtain e' where "sdbObs (reObs rw) (rgWorld g') (iobID d) = Some e'" "sameText e e'"
      using kept [OF e(1)] by blast
    with e(2) sameText_trans reviewOkD(4) [OF ok old] show ?thesis by blast
  next
    fix i assume "rgWorld g' = rgWorld g" and i: "sdbObs (reObs rw) (rgWorld g) i = Some d"
    with reviewLawsD(1) [OF laws i] reviewOkD(1) [OF ok i] show ?thesis by auto
  qed
  have remembered: "\<exists>d. sdbObs (reObs rw) (rgWorld g') i = Some d \<and> saysResult d cn"
    if new: "(i, cn) \<in> rgClaimed g' \<union> rgGood g' \<union> rgBad g'" for i cn
  proof -
    have "\<exists>d. sdbObs (reObs rw) (rgWorld g) i = Some d \<and> saysResult d cn"
      using reviewStep_remembers [OF laws ok step new] reviewOkD(5) [OF ok] by blast
    then show ?thesis using kept says_text by blast
  qed
  show ?thesis
    unfolding reviewOk_def
    using docs grows read remembered reviewStep_good [OF ok step] by (intro conjI) blast+
qed

interpretation reviews: step_system "reviewStep rw" "\<lambda>g. reviewLaws rw \<and> reviewOk rw g" "reviewGrows rw"
proof unfold_locales
  show "reviewGrows rw g g" for g by (auto simp: reviewGrows_def)
qed (auto intro: reviewStep_ok reviewStep_grows reviewGrows_trans)

end
