(* ===== verification/ReviewRuns.thy ===== *)
theory ReviewRuns
  imports ReviewHistory
begin

text \<open>
  The entry points as histories: a confirmation by a referee and a pass of the reconciler are sequences of
  the steps of \<open>reviewStep\<close>, so what holds over all histories holds for them, however they interleave.
  The second part says what one pass of the reconciler does with each claim it finds.
\<close>

section \<open>A confirmation\<close>

definition reviewReach :: "'w Review \<Rightarrow> 'w Reviewing \<Rightarrow> 'w \<Rightarrow> bool" where
  "reviewReach rw g w' \<longleftrightarrow>
     (\<exists>g'. (reviewStep rw)\<^sup>*\<^sup>* g g' \<and> rgWorld g' = w' \<and> rgRead g \<subseteq> rgRead g')"

lemma reviewReach_refl [simp]: "reviewReach rw g (rgWorld g)"
  by (auto simp: reviewReach_def)

lemma reviewReach_stays: "rgWorld g = w' \<Longrightarrow> reviewReach rw g w'"
  using reviewReach_refl by blast

lemma reviewReach_step:
  "reviewStep rw g h \<Longrightarrow> rgRead g \<subseteq> rgRead h \<Longrightarrow> reviewReach rw h w' \<Longrightarrow> reviewReach rw g w'"
  by (auto simp: reviewReach_def intro: converse_rtranclp_into_rtranclp)

lemma ConfirmIRCResult_cases:
  assumes "ConfirmIRCResult rw claims at now w input = (w', result)"
  obtains (refused) "w' = w" "result = invalidCommandInput None"
  | (claimed) osuID ob mid w1 x where "ObservationByID (reObs rw) w (ciObservationID input) = Inr ob"
      "ircResultMatches (iobCommand ob) (ciWinningTeam input) (ciBoardPieceID input)"
      "hexParse (reHex rw) (ciMatchID input) = Some mid"
      "ClaimConfirmation (reObs rw) at w (ciObservationID input) (confirmationOf mid input) osuID = (w1, x)"
      "w' = w1 \<and> result = invalidCommandInput None \<or>
       (\<exists>d w2. x = Inr d \<and> executeConfirmation rw claims now w1 input = (w2, result) \<and>
          w' = (if mcrSuccess result
                then fst (FinalizeConfirmation (reObs rw) w2 (ciObservationID input) (ciCommandID input))
                else fst (ReleaseConfirmation (reObs rw) w2 (ciObservationID input) (ciCommandID input))))"
proof (cases "w' = w \<and> result = invalidCommandInput None")
  case False
  note run = assms [unfolded ConfirmIRCResult_def]
  obtain osuID where claims: "claims = Some osuID" using run False by (cases claims) simp_all
  obtain ob where ob: "ObservationByID (reObs rw) w (ciObservationID input) = Inr ob"
    using run False by (cases "ObservationByID (reObs rw) w (ciObservationID input)") (simp_all add: claims)
  have says: "ircResultMatches (iobCommand ob) (ciWinningTeam input) (ciBoardPieceID input)"
    by (rule ccontr) (use run False in \<open>simp add: claims ob\<close>)
  have granted: "authorizeIRCObservation (reWiring rw) (reHex rw) claims w (ciMatchID input) (iobChannel ob) = None"
    by (rule ccontr) (use run False in \<open>simp add: claims ob says\<close>)
  obtain mid where mid: "hexParse (reHex rw) (ciMatchID input) = Some mid"
    using run False granted by (cases "hexParse (reHex rw) (ciMatchID input)") (simp_all add: claims ob says)
  obtain w1 x where x: "ClaimConfirmation (reObs rw) at w (ciObservationID input) (confirmationOf mid input) osuID = (w1, x)"
    by fastforce
  obtain w2 r where r: "executeConfirmation rw claims now w1 input = (w2, r)" by fastforce
  show thesis
    by (rule claimed [OF ob says mid x])
      (use run granted in \<open>auto simp: claims ob says mid x r [unfolded claims] split: sum.splits if_splits\<close>)
qed (rule refused, simp_all)

lemma executed_run:
  assumes "(i, cn) \<in> rgClaimed g" and "hexParse (reHex rw) (ciMatchID input) = Some (cnMatchID cn)"
    and cn: "cn = confirmationOf (cnMatchID cn) input"
    and exec: "executeConfirmation rw claims now (rgWorld g) input = (w2, result)"
    and w': "w' = (if mcrSuccess result then fst (FinalizeConfirmation (reObs rw) w2 i (ciCommandID input))
      else fst (ReleaseConfirmation (reObs rw) w2 i (ciCommandID input)))"
  shows "reviewReach rw g w'"
proof -
  obtain h where h: "reviewStep rw g h" "rgWorld h = w2" "rgRead h = rgRead g"
    "if mcrSuccess result then (i, cn) \<in> rgGood h else (i, cn) \<in> rgBad h"
    using Executes [OF assms(1-4)] by (cases "mcrSuccess result") auto
  have cid: "cnCommandID cn = ciCommandID input" by (subst cn) (simp add: confirmationOf_def)
  have "reviewStep rw h (h\<lparr>rgWorld := w'\<rparr>)"
  proof (cases "mcrSuccess result")
    case True
    then show ?thesis
      using Finalizes [of i cn h rw w' "snd (FinalizeConfirmation (reObs rw) w2 i (ciCommandID input))"] w' h(2,4)
      by (simp add: cid)
  next
    case False
    then show ?thesis
      using Releases [of i cn h rw w' "snd (ReleaseConfirmation (reObs rw) w2 i (ciCommandID input))"] w' h(2,4)
      by (simp add: cid)
  qed
  then have "reviewReach rw h w'" by (rule reviewReach_step) (simp_all add: reviewReach_stays)
  with h show ?thesis by (simp add: reviewReach_step)
qed

lemma ConfirmIRCResult_run:
  assumes laws: "reviewLaws rw" and run: "ConfirmIRCResult rw claims at now (rgWorld g) input = (w', result)"
  shows "reviewReach rw g w'"
  using run
proof (cases rule: ConfirmIRCResult_cases)
  case (claimed osuID ob mid w1 x)
  let ?i = "ciObservationID input" and ?cn = "confirmationOf mid input"
  have ob: "sdbObs (reObs rw) (rgWorld g) ?i = Some ob"
    using claimed(1) reviewLawsD(2) [OF laws, of "rgWorld g" ?i "\<lambda>d. True"]
    by (auto simp: ObservationByID_def split: sum.splits option.splits)
  have i: "iobID ob = ?i" by (rule reviewLawsD(1) [OF laws ob])
  let ?g1 = "g\<lparr>rgRead := insert ob (rgRead g)\<rparr>"
  have read: "reviewStep rw g ?g1" by (rule Reads [OF ob])
  have "ClaimConfirmation (reObs rw) at (rgWorld ?g1) (iobID ob) ?cn osuID = (w1, x)" using claimed(4) i by simp
  from Claims [OF _ _ this] claimed(2) i obtain g2 where claim: "reviewStep rw ?g1 g2" "rgWorld g2 = w1"
    "rgRead g2 = rgRead ?g1" "\<forall>d. x = Inr d \<longrightarrow> (?i, ?cn) \<in> rgClaimed g2"
    by (cases x) (force simp: confirmationOf_def engineTeam_def)+
  have "reviewReach rw g2 w'"
    using claimed(5)
  proof (elim disjE exE conjE)
    fix d w2 assume "x = Inr d" and exec: "executeConfirmation rw claims now w1 input = (w2, result)"
      and w': "w' = (if mcrSuccess result
        then fst (FinalizeConfirmation (reObs rw) w2 ?i (ciCommandID input))
        else fst (ReleaseConfirmation (reObs rw) w2 ?i (ciCommandID input)))"
    with claim(4) have "(?i, ?cn) \<in> rgClaimed g2" by blast
    then show ?thesis using executed_run [OF _ _ _ _ w'] claimed(3) exec claim(2)
      by (simp add: confirmationOf_def)
  qed (use claim(2) reviewReach_stays in simp)
  then have "reviewReach rw ?g1 w'" using claim by (simp add: reviewReach_step)
  then show ?thesis by (rule reviewReach_step [OF read, rotated]) auto
qed simp

section \<open>A pass of the reconciler\<close>

lemma reconcileItem_run:
  assumes laws: "reviewLaws rw" and item: "d \<in> rgRead g" "iobStatus d = ReviewConfirming"
    and run: "reconcileItem rw staleAfter now (rgWorld g) d = (w', r)"
  shows "reviewReach rw g w'"
proof (cases "w' = rgWorld g")
  case False
  then obtain cn receipt where cn: "completeClaim d = Some cn"
    and receipt: "LoadConfirmationReceipt (reOutbox rw) (reConfirmationPayload rw) (rgWorld g) (cnMatchID cn) (cnCommandID cn)
      = Inr receipt"
    and writes: "if committedAs cn receipt
      then FinalizeConfirmation (reObs rw) (rgWorld g) (iobID d) (cnCommandID cn) = (w', r)
      else ReleaseConfirmation (reObs rw) (rgWorld g) (iobID d) (cnCommandID cn) = (w', r)"
    using run by (auto simp: reconcileItem_def split: option.splits sum.splits if_splits)
  let ?h = "if committedAs cn receipt
    then g\<lparr>rgGood := insert (iobID d, cn) (rgGood g), rgEvidence := insert cn (rgEvidence g)\<rparr>
    else g\<lparr>rgBad := insert (iobID d, cn) (rgBad g)\<rparr>"
  have found: "reviewStep rw g ?h" by (rule Finds [OF item cn receipt])
  have last: "reviewStep rw ?h (?h\<lparr>rgWorld := w'\<rparr>)"
    using writes Finalizes [of "iobID d" cn ?h rw w' r] Releases [of "iobID d" cn ?h rw w' r]
    by (simp split: if_splits)
  have "reviewReach rw ?h w'"
    by (rule reviewReach_step [OF last]) (use reviewReach_refl [of rw "?h\<lparr>rgWorld := w'\<rparr>"] in simp_all)
  then show ?thesis by (rule reviewReach_step [OF found, rotated]) simp
qed simp

lemma reviewReach_trans:
  assumes "reviewReach rw g w1"
    and "\<And>h. rgWorld h = w1 \<Longrightarrow> rgRead g \<subseteq> rgRead h \<Longrightarrow> reviewReach rw h w2"
  shows "reviewReach rw g w2"
proof -
  obtain h where h: "(reviewStep rw)\<^sup>*\<^sup>* g h" "rgWorld h = w1" "rgRead g \<subseteq> rgRead h"
    using assms(1) by (auto simp: reviewReach_def)
  obtain k where "(reviewStep rw)\<^sup>*\<^sup>* h k" "rgWorld k = w2" "rgRead h \<subseteq> rgRead k"
    using assms(2) [OF h(2,3)] by (auto simp: reviewReach_def)
  moreover from h(1) this(1) have "(reviewStep rw)\<^sup>*\<^sup>* g k" by (rule rtranclp_trans)
  ultimately show ?thesis using h(3) unfolding reviewReach_def by blast
qed

lemma reconcileItems_run:
  assumes laws: "reviewLaws rw"
  shows "reconcileItems rw staleAfter clock (rgWorld g) first items = (w', r) \<Longrightarrow>
    \<forall>d\<in>set items. d \<in> rgRead g \<and> iobStatus d = ReviewConfirming \<Longrightarrow> reviewReach rw g w'"
proof (induction items arbitrary: g first)
  case (Cons d items)
  obtain w1 x where x: "reconcileItem rw staleAfter (clock (iobID d)) (rgWorld g) d = (w1, x)" by fastforce
  show ?case
  proof (rule reviewReach_trans)
    show "reviewReach rw g w1" using reconcileItem_run [OF laws _ _ x] Cons.prems(2) by simp
    fix h :: "'a Reviewing" assume h: "rgWorld h = w1" "rgRead g \<subseteq> rgRead h"
    show "reviewReach rw h w'" using Cons.IH [of h] Cons.prems h x by (auto simp: subset_iff)
  qed
qed (simp add: reviewReach_stays)

lemma reads_run:
  assumes "\<forall>d\<in>set items. \<exists>i. sdbObs (reObs rw) (rgWorld g) i = Some d"
  shows "(reviewStep rw)\<^sup>*\<^sup>* g (g\<lparr>rgRead := set items \<union> rgRead g\<rparr>)"
  using assms
proof (induction items)
  case (Cons d items)
  let ?h = "g\<lparr>rgRead := set items \<union> rgRead g\<rparr>"
  obtain i where "sdbObs (reObs rw) (rgWorld ?h) i = Some d" using Cons.prems by auto
  from Reads [OF this] have "reviewStep rw ?h (g\<lparr>rgRead := set (d # items) \<union> rgRead g\<rparr>)" by simp
  then show ?case using Cons by simp
qed simp

lemma ListConfirming_items:
  assumes "reviewLaws rw" and "ListConfirming (reObs rw) w limit = Inr items"
  shows "d \<in> set items \<Longrightarrow> iobStatus d = ReviewConfirming \<and> sdbObs (reObs rw) w (iobID d) = Some d"
    and "distinct (map iobID items)"
proof -
  obtain ds where ds: "sdbFindObs (reObs rw) w (\<lambda>d. iobStatus d = ReviewConfirming) = Inr ds"
    and items: "items = take (limited 200 100 limit)
      (sort_key (\<lambda>d. (iobStartedAt d \<noteq> None, timeOrZero (iobStartedAt d))) ds)"
    using assms(2) by (auto simp: ListConfirming_def split: sum.splits)
  show "iobStatus d = ReviewConfirming \<and> sdbObs (reObs rw) w (iobID d) = Some d" if "d \<in> set items"
    using that set_take_subset reviewLawsD(3) [OF assms(1) ds] by (fastforce simp: items)
  have "distinct (map iobID ds)"
    using assms(1) ds unfolding reviewLaws_def findObsLaw_def by blast
  then show "distinct (map iobID items)"
    by (simp add: items distinct_map inj_on_subset [OF _ set_take_subset])
qed

lemma reconcilerRunOnce_run:
  assumes laws: "reviewLaws rw" and run: "reconcilerRunOnce rw staleAfter clock (rgWorld g) = (w', r)"
  shows "reviewReach rw g w'"
proof (cases "ListConfirming (reObs rw) (rgWorld g) 100")
  case (Inr items)
  note items = ListConfirming_items(1) [OF laws Inr]
  let ?h = "g\<lparr>rgRead := set items \<union> rgRead g\<rparr>"
  have "(reviewStep rw)\<^sup>*\<^sup>* g ?h" by (rule reads_run) (use items in blast)
  moreover have "reviewReach rw ?h w'"
    using reconcileItems_run [OF laws, of _ clock ?h None items w' r] run items
    by (simp add: reconcilerRunOnce_def Inr)
  ultimately show ?thesis
    by (auto simp: reviewReach_def intro: rtranclp_trans)
qed (use run in \<open>auto simp: reconcilerRunOnce_def intro: reviewReach_stays\<close>)

section \<open>What a pass settles\<close>

text \<open>
  What becomes of a claim: it is confirmed if its command is committed as claimed, otherwise released once
  it is old enough.
\<close>

definition reconciled :: "'w Review \<Rightarrow> Duration \<Rightarrow> Time \<Rightarrow> 'w \<Rightarrow> IRCObservation \<Rightarrow> IRCObservation \<Rightarrow> bool" where
  "reconciled rw staleAfter now w d e \<longleftrightarrow>
     (\<exists>cn receipt. completeClaim d = Some cn \<and>
        LoadConfirmationReceipt (reOutbox rw) (reConfirmationPayload rw) w (cnMatchID cn) (cnCommandID cn) = Inr receipt \<and>
        e = (if committedAs cn receipt then finalizedObservation d
             else if timeOrZero (iobStartedAt d) + staleAfter \<le> now then releasedObservation d else d))"

lemma updateObs_silent:
  assumes "reviewLaws rw" and "updateObs (reObs rw) w i P u = (w', r)"
  shows "j \<noteq> i \<Longrightarrow> sdbObs (reObs rw) w' j = sdbObs (reObs rw) w j"
    and "odbFindAction (reOutbox rw) w' = odbFindAction (reOutbox rw) w"
    and "r = None \<Longrightarrow> sdbObs (reObs rw) w i = Some d \<Longrightarrow> sdbObs (reObs rw) w' i = Some (u d)"
proof -
  show "j \<noteq> i \<Longrightarrow> sdbObs (reObs rw) w' j = sdbObs (reObs rw) w j"
    and "r = None \<Longrightarrow> sdbObs (reObs rw) w i = Some d \<Longrightarrow> sdbObs (reObs rw) w' i = Some (u d)"
    using updateObs_effect [OF assms] by (auto simp: sameObs_def obsChanged_def)
  obtain x where "sdbUpdateObs (reObs rw) w i P u = (w', x)"
    using assms(2) by (auto simp: updateObs_def split: prod.splits sum.splits)
  then show "odbFindAction (reOutbox rw) w' = odbFindAction (reOutbox rw) w" by (rule reviewLawsD(5) [OF assms(1)])
qed

lemma reconcileItem_effect:
  assumes laws: "reviewLaws rw" and run: "reconcileItem rw staleAfter now w d = (w', r)"
  shows "j \<noteq> iobID d \<Longrightarrow> sdbObs (reObs rw) w' j = sdbObs (reObs rw) w j"
    and "odbFindAction (reOutbox rw) w' = odbFindAction (reOutbox rw) w"
    and "r = None \<Longrightarrow> sdbObs (reObs rw) w (iobID d) = Some d \<Longrightarrow>
      \<exists>e. reconciled rw staleAfter now w d e \<and> sdbObs (reObs rw) w' (iobID d) = Some e"
proof -
  consider (kept) "w' = w" | (finalized) cid where "updateObs (reObs rw) w (iobID d) (confirmingBy cid) finalizedObservation = (w', r)"
    | (released) cid where "updateObs (reObs rw) w (iobID d) (confirmingBy cid) releasedObservation = (w', r)"
    using run
    by (auto simp: reconcileItem_def FinalizeConfirmation_def ReleaseConfirmation_def
        split: option.splits sum.splits if_splits)
  note runs = this
  show "sdbObs (reObs rw) w' j = sdbObs (reObs rw) w j" if "j \<noteq> iobID d"
    using runs by cases (use that updateObs_silent(1) [OF laws] in \<open>auto\<close>)
  show "odbFindAction (reOutbox rw) w' = odbFindAction (reOutbox rw) w"
    using runs by cases (use updateObs_silent(2) [OF laws] in \<open>auto\<close>)
  assume r: "r = None" and d: "sdbObs (reObs rw) w (iobID d) = Some d"
  obtain cn receipt where cn: "completeClaim d = Some cn"
    "LoadConfirmationReceipt (reOutbox rw) (reConfirmationPayload rw) w (cnMatchID cn) (cnCommandID cn) = Inr receipt"
    using run r by (auto simp: reconcileItem_def split: option.splits sum.splits)
  let ?e = "if committedAs cn receipt then finalizedObservation d
    else if timeOrZero (iobStartedAt d) + staleAfter \<le> now then releasedObservation d else d"
  have "sdbObs (reObs rw) w' (iobID d) = Some ?e"
    using run r d updateObs_silent(3) [OF laws _ _ d]
    by (auto simp: reconcileItem_def cn FinalizeConfirmation_def ReleaseConfirmation_def not_less split: if_splits)
  then show "\<exists>e. reconciled rw staleAfter now w d e \<and> sdbObs (reObs rw) w' (iobID d) = Some e"
    using cn unfolding reconciled_def by blast
qed

lemma reconcileItems_first: "reconcileItems rw staleAfter clock w first items = (w', None) \<Longrightarrow> first = None"
  by (induction items arbitrary: w first) (auto split: prod.splits if_splits)

lemma reconciled_actions:
  "odbFindAction (reOutbox rw) w' = odbFindAction (reOutbox rw) w \<Longrightarrow>
     reconciled rw staleAfter now w' d e = reconciled rw staleAfter now w d e"
  by (simp add: reconciled_def LoadConfirmationReceipt_def)

lemma reconcileItems_effect:
  assumes laws: "reviewLaws rw"
  shows "reconcileItems rw staleAfter clock w None items = (w', None) \<Longrightarrow> distinct (map iobID items) \<Longrightarrow>
    \<forall>d\<in>set items. sdbObs (reObs rw) w (iobID d) = Some d \<Longrightarrow>
    (\<forall>d\<in>set items. \<exists>e. reconciled rw staleAfter (clock (iobID d)) w d e \<and> sdbObs (reObs rw) w' (iobID d) = Some e) \<and>
    (\<forall>j. j \<notin> iobID ` set items \<longrightarrow> sdbObs (reObs rw) w' j = sdbObs (reObs rw) w j)"
proof (induction items arbitrary: w)
  case (Cons d items)
  obtain w1 x where x: "reconcileItem rw staleAfter (clock (iobID d)) w d = (w1, x)" by fastforce
  have rest: "reconcileItems rw staleAfter clock w1 x items = (w', None)" using Cons.prems(1) x by simp
  have none: "x = None" by (rule reconcileItems_first [OF rest])
  note effect = reconcileItem_effect [OF laws x]
  have others: "iobID e \<noteq> iobID d" if "e \<in> set items" for e
  proof
    assume "iobID e = iobID d"
    with imageI [OF that, of iobID] Cons.prems(2) show False by simp
  qed
  then have "\<forall>e\<in>set items. sdbObs (reObs rw) w1 (iobID e) = Some e" using Cons.prems(3) effect(1) by simp
  with Cons.IH [OF rest [unfolded none]] Cons.prems(2)
  have ih: "\<forall>e\<in>set items. \<exists>e'. reconciled rw staleAfter (clock (iobID e)) w1 e e' \<and> sdbObs (reObs rw) w' (iobID e) = Some e'"
    "\<forall>j. j \<notin> iobID ` set items \<longrightarrow> sdbObs (reObs rw) w' j = sdbObs (reObs rw) w1 j"
    by simp_all
  have "iobID d \<notin> iobID ` set items" using Cons.prems(2) by simp
  then have "sdbObs (reObs rw) w' (iobID d) = sdbObs (reObs rw) w1 (iobID d)" using ih(2) by blast
  with effect(3) none Cons.prems(3)
  have "\<exists>e. reconciled rw staleAfter (clock (iobID d)) w d e \<and> sdbObs (reObs rw) w' (iobID d) = Some e" by simp
  with ih reconciled_actions [OF effect(2)] effect(1) show ?case by simp
qed simp

end
