(* ===== verification/SampleReview.thy ===== *)
theory SampleReview
  imports ReviewRuns SampleQueue
begin

text \<open>
  A database of observations beside the rooms, matches and snapshots of \<open>SampleBackend\<close> that satisfies
  \<open>reviewLaws\<close>, and the confirmation of a result on it, by the referee of a match that waits for it.
\<close>

section \<open>The collection\<close>

record ReviewWorld = RoomWorld +
  vwObs :: "(string, IRCObservation) gomap"
  vwActions :: "MatchActionDocument list"

definition sampleFindOb :: "ReviewWorld \<Rightarrow> string \<Rightarrow> IRCObservation option" where
  "sampleFindOb w i =
     (case mapGet (vwObs w) i of
        None \<Rightarrow> None
      | Some d \<Rightarrow> if iobID d = i then Some d else None)"

definition sampleWriteOb :: "ReviewWorld \<Rightarrow> IRCObservation \<Rightarrow> ReviewWorld" where
  "sampleWriteOb w d = w\<lparr>vwObs := mapPut (iobID d) d (vwObs w)\<rparr>"

text \<open>An update that would change the key of a document is refused.\<close>

definition sampleChangeOb ::
  "ReviewWorld \<Rightarrow> string \<Rightarrow> (IRCObservation \<Rightarrow> bool) \<Rightarrow> (IRCObservation \<Rightarrow> IRCObservation)
   \<Rightarrow> ReviewWorld \<times> (unit + IRCObservation option)" where
  "sampleChangeOb w i P u =
     (case sampleFindOb w i of
        None \<Rightarrow> (w, Inr None)
      | Some d \<Rightarrow>
          if \<not> P d then (w, Inr None)
          else if iobID (u d) \<noteq> i then (w, Inl ())
          else (sampleWriteOb w (u d), Inr (Some (u d))))"

definition sampleObs :: "ReviewWorld ObsDb" where
  "sampleObs =
     \<lparr>sdbObs = sampleFindOb,
      sdbFindOne = (\<lambda>w i P. Inr (case sampleFindOb w i of None \<Rightarrow> None | Some d \<Rightarrow> if P d then Some d else None)),
      sdbFindObs = (\<lambda>w P. Inr (filter P (List.map_filter (sampleFindOb w) (remdups (map fst (vwObs w)))))),
      sdbUpdateObs = (\<lambda>w i P u.
        case sampleChangeOb w i P u of
          (w', Inl e) \<Rightarrow> (w', Inl e)
        | (w', Inr None) \<Rightarrow> (w', Inr 0)
        | (w', Inr (Some d)) \<Rightarrow> (w', Inr 1)),
      sdbFindAndUpdate = sampleChangeOb,
      sdbUpsertObs = (\<lambda>w d. (if sampleFindOb w (iobID d) = None then sampleWriteOb w d else w, Inr ()))\<rparr>"

definition reviewRooms :: "ReviewWorld RoomDb" where
  "reviewRooms =
     (let at = RoomWorld.truncate
      in \<lparr>dbFindUser = (\<lambda>w. dbFindUser sampleDb (at w)), dbFindTeam = (\<lambda>w. dbFindTeam sampleDb (at w)),
          dbFindMappool = (\<lambda>w. dbFindMappool sampleDb (at w)),
          dbFindRoom = (\<lambda>w. dbFindRoom sampleDb (at w)), dbInsertRoom = (\<lambda>w r. (w, Inl False)),
          dbUpdateRoom = (\<lambda>w i b fs. (w, Inl ())), dbFindMatch = (\<lambda>w. dbFindMatch sampleDb (at w)),
          dbInsertMatch = (\<lambda>w m. (w, Inl False)), dbUpdateMatch = (\<lambda>w m. (w, Inl ())),
          dbSetReady = (\<lambda>w i st side now. (w, Inl ())), dbStartSession = (\<lambda>w. False),
          dbTransaction = (\<lambda>w f. (w, Inl (DriverError False)))\<rparr>)"

definition sampleActions :: "ReviewWorld OutboxDb" where
  "sampleActions =
     \<lparr>odbEvent = (\<lambda>w i. None), odbFindEvents = (\<lambda>w P. Inr []), odbUpdateEvent = (\<lambda>w i P u. (w, Inr 0)),
      odbFindAction = (\<lambda>w m c. Inr (find (\<lambda>a. acMatchID a = m \<and> acCommandID a = c) (vwActions w))),
      odbFindActions = (\<lambda>w m. Inr (filter (\<lambda>a. acMatchID a = m) (vwActions w))),
      odbReceiptState = (\<lambda>w m v. Inr None)\<rparr>"

definition noJobs :: "'w JobDb" where
  "noJobs =
     \<lparr>jdbFindJob = (\<lambda>w i. Inr None), jdbFindJobs = (\<lambda>w P. Inr []), jdbUpdateJob = (\<lambda>w i P u. (w, Inr 0)),
      jdbUpsertJob = (\<lambda>w d. (w, Inl ())), jdbTakeLock = (\<lambda>w c t n u. (w, Inl True)),
      jdbReleaseLock = (\<lambda>w c t. (w, Inr ())), jdbFindLock = (\<lambda>w c. None)\<rparr>"

text \<open>The payload of a sample command is its piece id, and red has won.\<close>

definition sampleReview :: "Codec \<Rightarrow> ReviewWorld Review" where
  "sampleReview codec =
     \<lparr>reWiring =
        \<lparr>wiDb = reviewRooms, wiMongo = sampleMongo, wiCodec = codec, wiEncoders = sampleEncoders,
         wiParseURL = (\<lambda>link. Some \<lparr>urlScheme = ''https'', urlHostname = ''osu.ppy.sh'', urlPort = '''',
           urlRawQuery = '''', urlFragment = '''', urlPath = ''/community/matches/5''\<rparr>),
         wiCreateMove = (\<lambda>w move. (w, Inr ()))\<rparr>,
      reHex = sampleHex, reObs = sampleObs, reJobs = noJobs, reOutbox = sampleActions,
      reConfirmationPayload = (\<lambda>p. Some (p, TeamRed))\<rparr>"

section \<open>The laws\<close>

lemma sampleFindOb_id: "sampleFindOb w i = Some d \<Longrightarrow> iobID d = i"
  by (auto simp: sampleFindOb_def split: option.splits if_splits)

lemma sampleFindOb_write: "sampleFindOb (sampleWriteOb w d) = (sampleFindOb w)(iobID d \<mapsto> d)"
  by (auto simp: sampleFindOb_def sampleWriteOb_def fun_eq_iff split: option.splits)

lemma sampleFindOb_key: "sampleFindOb w i = Some d \<Longrightarrow> i \<in> set (map fst (vwObs w))"
  by (force simp: sampleFindOb_def image_iff dest: map_of_SomeD split: option.splits)

lemma sample_findObsLaw: "findObsLaw sampleObs"
proof -
  let ?ds = "\<lambda>w. List.map_filter (sampleFindOb w) (remdups (map fst (vwObs w)))"
  have "distinct (map iobID (filter P (?ds w)))" for P w
    by (rule distinct_map_filter) (rule conjunct1 [OF map_filter_keys [OF sampleFindOb_id distinct_remdups]])
  moreover have "d \<in> set (?ds w) \<longleftrightarrow> sampleFindOb w (iobID d) = Some d" for d w
    unfolding set_map_filter set_remdups mem_Collect_eq
    by (blast dest: sampleFindOb_key sampleFindOb_id [symmetric] intro: sym)
  ultimately show ?thesis
    unfolding findObsLaw_def by (auto simp: sampleObs_def dest: sampleFindOb_id)
qed

lemma sampleChangeOb_effect:
  assumes "sampleChangeOb w i P u = (w', x)"
  shows "w' = w \<and> (\<forall>y. x = Inr y \<longrightarrow> y = None \<and> (\<forall>d. sampleFindOb w i = Some d \<longrightarrow> \<not> P d)) \<or>
    (\<exists>d. sampleFindOb w i = Some d \<and> P d \<and> sampleFindOb w' = (sampleFindOb w)(i \<mapsto> u d) \<and> x = Inr (Some (u d)) \<and>
       vwActions w' = vwActions w)"
  using assms
  by (auto simp: sampleChangeOb_def sampleFindOb_write sampleWriteOb_def split: option.splits if_splits)
    (auto simp flip: sampleWriteOb_def simp: sampleFindOb_write)

lemma sampleUpdate_change:
  assumes "sdbUpdateObs sampleObs w i P u = (w', x)"
  obtains y where "sampleChangeOb w i P u = (w', y)"
    "x = (case y of Inl e \<Rightarrow> Inl e | Inr None \<Rightarrow> Inr 0 | Inr (Some d) \<Rightarrow> Inr 1)"
proof (cases "sampleChangeOb w i P u")
  case (Pair v y)
  show thesis
    by (rule that [of y]) (use assms Pair in \<open>auto simp: sampleObs_def split: sum.splits option.splits\<close>)
qed

lemma sample_updateObsLaw: "updateObsLaw sampleObs"
proof -
  have obs: "sdbObs sampleObs = sampleFindOb" by (simp add: sampleObs_def)
  have change: "sameObs sampleObs w w' \<and> (\<forall>y. x = Inr y \<longrightarrow> y = None \<and> (\<forall>d. sampleFindOb w i = Some d \<longrightarrow> \<not> P d)) \<or>
      obsChanged sampleObs w i P u w' \<and> x = Inr (sampleFindOb w' i) \<and> sampleFindOb w' i \<noteq> None"
    if "sampleChangeOb w i P u = (w', x)" for w i P u w' x
    using sampleChangeOb_effect [OF that] by (auto simp: sameObs_def obsChanged_def obs)
  show ?thesis
    unfolding updateObsLaw_def
  proof (intro conjI allI impI)
    fix w i P u w' x assume "sdbUpdateObs sampleObs w i P u = (w', x)"
    then obtain y where "sampleChangeOb w i P u = (w', y)"
      "x = (case y of Inl e \<Rightarrow> Inl e | Inr None \<Rightarrow> Inr 0 | Inr (Some d) \<Rightarrow> Inr 1)"
      by (rule sampleUpdate_change)
    from change [OF this(1)] this(2) show "sameObs sampleObs w w' \<and>
        (\<forall>n. x = Inr n \<longrightarrow> n = 0 \<and> (\<forall>d. sdbObs sampleObs w i = Some d \<longrightarrow> \<not> P d)) \<or>
        obsChanged sampleObs w i P u w' \<and> x \<noteq> Inr 0"
      by (auto simp: obs split: sum.splits option.splits)
  next
    fix w i P u w' x assume "sdbFindAndUpdate sampleObs w i P u = (w', x)"
    then have "sampleChangeOb w i P u = (w', x)" by (simp add: sampleObs_def)
    from change [OF this] show "sameObs sampleObs w w' \<and> (\<forall>d. x \<noteq> Inr (Some d)) \<or>
        obsChanged sampleObs w i P u w' \<and> (\<forall>y. x = Inr y \<longrightarrow> y = sdbObs sampleObs w' i)"
      by (auto simp: obs)
  qed
qed

lemma sample_reviewLaws: "reviewLaws (sampleReview codec)"
proof -
  have parts: "reObs (sampleReview codec) = sampleObs" "wiMongo (reWiring (sampleReview codec)) = sampleMongo"
    "reOutbox (sampleReview codec) = sampleActions"
    by (simp_all add: sampleReview_def)
  have "upsertObsLaw sampleObs"
    by (auto simp: upsertObsLaw_def sameObs_def sampleObs_def sampleFindOb_write)
  moreover have "commandObsLaw sampleObs sampleMongo"
    by (auto simp: commandObsLaw_def sameObs_def sampleObs_def sampleMongo_def sampleUpdate_def sampleFindOb_def
        fun_eq_iff split: option.splits if_splits)
  moreover have "odbFindAction sampleActions w' = odbFindAction sampleActions w"
    if "sdbUpdateObs sampleObs w i P u = (w', x)" for w i P u w' x
  proof -
    from sampleUpdate_change [OF that] obtain y where "sampleChangeOb w i P u = (w', y)" by blast
    from sampleChangeOb_effect [OF this] have "vwActions w' = vwActions w" by auto
    then show ?thesis by (simp add: sampleActions_def)
  qed
  ultimately show ?thesis
    unfolding reviewLaws_def parts
    using sample_findObsLaw sample_updateObsLaw sample_laws by blast
qed

section \<open>A result to confirm\<close>

definition sampleObservation :: "string \<Rightarrow> IRCObservation" where
  "sampleObservation i =
     \<lparr>iobID = i, iobChannel = ''#mp_5'', iobSender = ''red'', iobCommand = ''!result red p1'',
      iobRaw = '':red PRIVMSG #mp_5 :!result red p1'', iobObservedAt = 412 * second, iobStatus = ReviewPending,
      iobReason = '''', iobSuggested = Some (''red'', ''p1''), iobMatchID = None, iobCommandID = None,
      iobPieceID = None, iobWinner = None, iobReviewer = 0, iobStartedAt = None\<rparr>"

definition confirmTransition :: Transition where
  "confirmTransition = projr (Execute sampleWaiting RefereeActor (ConfirmBeatmapResult ''p1'' TeamRed) (415 * second))"

definition confirmCodec :: Codec where
  "confirmCodec =
     tableCodec [sampleWaiting, trState confirmTransition]
       [committedAt (415 * second) 7 0 (trEvents confirmTransition)]"

definition reviewRoom :: Room where
  "reviewRoom =
     (sampleRoom 1)\<lparr>roomMPLink := Some ''link'', roomRedTeamID := Some 11, roomBlueTeamID := Some 12\<rparr>"

definition reviewWorld :: ReviewWorld where
  "reviewWorld =
     \<lparr>swSnapshots = [(1, the (NewMatchSnapshotDocument confirmCodec 1 sampleWaiting (410 * second)))],
      swReceipts = [], swOutbox = [],
      rwRooms = [(1, reviewRoom)],
      rwMatches = [(1, sampleMatch 1 MatchStatusPending)],
      vwObs = [(''o1'', sampleObservation ''o1''), (''o2'', sampleObservation ''o2'')], vwActions = []\<rparr>"

definition reviewInput :: ConfirmIRCResultInput where
  "reviewInput =
     \<lparr>ciMatchID = ''a'', ciExpectedVersion = ''6'', ciCommandID = ''c1'', ciObservationID = ''o1'',
      ciBoardPieceID = ''p1'', ciWinningTeam = TeamRed\<rparr>"

abbreviation reviewed :: "ReviewWorld Review" where
  "reviewed \<equiv> sampleReview confirmCodec"

definition confirmRun :: "ReviewWorld \<times> MatchCommandResult" where
  "confirmRun = ConfirmIRCResult reviewed (Some 100) (414 * second) (415 * second) reviewWorld reviewInput"

text \<open>The run step by step: the observation after the claim, and the request of its command.\<close>

definition claimedFirst :: IRCObservation where
  "claimedFirst = claimObservation (confirmationOf 1 reviewInput) 100 (414 * second) (sampleObservation ''o1'')"

definition confirmingWorld :: ReviewWorld where
  "confirmingWorld = sampleWriteOb reviewWorld claimedFirst"

definition confirmRequest :: Request where
  "confirmRequest =
     \<lparr>reqMatchID = 1, reqExpectedVersion = 6, reqCommandID = ''c1'', reqCallerOsuID = 100,
      reqCommand = ConfirmBeatmapResult ''p1'' TeamRed, reqSystem = False\<rparr>"

definition confirmOrchestrated :: "ReviewWorld \<times> (CommandError + CommandResult)" where
  "confirmOrchestrated =
     orchestratorExecute sampleEncoders (Some (wiredOrchestrator (reWiring reviewed))) (415 * second)
       confirmingWorld confirmRequest"

lemma confirmOrchestrated_outcome:
  "case snd confirmOrchestrated of Inl _ \<Rightarrow> False | Inr res \<Rightarrow> crDisposition res = DispositionApplied"
  by code_simp

lemmas confirmOrchestrated_applied = applied_pair [OF confirmOrchestrated_outcome]

lemma reviewWorld_granted: "authorizeIRCObservation (reWiring reviewed) sampleHex (Some 100) reviewWorld ''a'' ''#mp_5'' = None"
  by code_simp

lemma reviewed_parts [simp]:
  "reHex (sampleReview codec) = sampleHex" "reObs (sampleReview codec) = sampleObs"
  "wiEncoders (reWiring (sampleReview codec)) = sampleEncoders"
  "wiMongo (reWiring (sampleReview codec)) = sampleMongo" "wiCodec (reWiring (sampleReview codec)) = codec"
  by (simp_all add: sampleReview_def)

lemma sample_parses:
  "hexParse sampleHex ''a'' = Some 1" "parseUint ''6'' = Some 6"
  "ircResultMatches ''!result red p1'' TeamRed ''p1''"
  by code_simp+

lemma sampleObs_find [simp]: "sdbObs sampleObs = sampleFindOb"
  by (simp add: sampleObs_def)

lemma reviewWorld_ob: "sampleFindOb reviewWorld ''o1'' = Some (sampleObservation ''o1'')"
  by (simp add: sampleFindOb_def reviewWorld_def sampleObservation_def)

lemma confirmRun_claim:
  "ClaimConfirmation sampleObs (414 * second) reviewWorld ''o1'' (confirmationOf 1 reviewInput) 100 =
     (confirmingWorld, Inr claimedFirst)"
  by (simp add: ClaimConfirmation_def sampleObs_def sampleChangeOb_def reviewWorld_ob confirmationOf_def
      reviewInput_def engineTeam_def sampleObservation_def claimObservation_def confirmingWorld_def claimedFirst_def
      NilObjectID_def)

lemma confirmRun_executes:
  assumes "confirmOrchestrated = (w, Inr res)"
  shows "executeConfirmation reviewed (Some 100) (415 * second) confirmingWorld reviewInput = (w, commandSuccess sampleHex 1 res)"
  using assms
  by (simp add: executeConfirmation_def executeCommand_def reviewInput_def sample_parses engineTeam_def
      confirmOrchestrated_def confirmRequest_def)

lemma confirmRun_confirmed: "map_option iobStatus (sampleFindOb (fst confirmRun) ''o1'') = Some ReviewConfirmed"
proof -
  obtain w res where run: "confirmOrchestrated = (w, Inr res)" using confirmOrchestrated_applied by blast
  note executed = confirmRun_executes [OF run]
  have "sampleFindOb w ''o1'' = Some claimedFirst"
    using executeConfirmation_same [OF sample_reviewLaws executed]
    by (simp add: sameObs_def confirmingWorld_def sampleFindOb_write claimedFirst_def claimObservation_def
        sampleObservation_def)
  then have "sampleFindOb (fst (FinalizeConfirmation sampleObs w ''o1'' ''c1'')) ''o1'' = Some (finalizedObservation claimedFirst)"
    by (simp add: FinalizeConfirmation_def updateObs_def sampleObs_def sampleChangeOb_def confirmingBy_def
        claimedFirst_def claimObservation_def confirmationOf_def reviewInput_def finalizedObservation_def
        sampleObservation_def sampleFindOb_write)
  moreover have "ObservationByID sampleObs reviewWorld ''o1'' = Inr (sampleObservation ''o1'')"
    by (simp add: ObservationByID_def sampleObs_def reviewWorld_ob)
  ultimately show ?thesis
    using executed confirmRun_claim reviewWorld_granted sample_parses
    by (simp add: confirmRun_def ConfirmIRCResult_def commandSuccess_def sampleObservation_def claimedFirst_def
        claimObservation_def reviewInput_def finalizedObservation_def)
qed

section \<open>Two claims to reconcile\<close>

text \<open>Both requests stopped half way, the first one after its command was committed.\<close>

definition claimedSecond :: IRCObservation where
  "claimedSecond =
     (claimObservation (confirmationOf 1 reviewInput) 100 (414 * second) (sampleObservation ''o2''))
       \<lparr>iobCommandID := Some ''c2''\<rparr>"

definition sampleAction :: MatchActionDocument where
  "sampleAction =
     \<lparr>acMatchID = 1, acCommandID = ''c1'', acCommandType = ''CONFIRM_BEATMAP_RESULT'', acPreviousVersion = 6,
      acResultingVersion = 7, acActor = commandActorDocument (sampleActor ''''), acReason = '''',
      acCommandPayload = ''p1'', acEvents = [], acCreatedAt = 415 * second\<rparr>"

definition claimedWorld :: ReviewWorld where
  "claimedWorld =
     \<lparr>swSnapshots = [], swReceipts = [], swOutbox = [], rwRooms = [(1, reviewRoom)], rwMatches = [],
      vwObs = [(''o1'', claimedFirst), (''o2'', claimedSecond)], vwActions = [sampleAction]\<rparr>"

abbreviation plainReview :: "ReviewWorld Review" where
  "plainReview \<equiv> sampleReview (tableCodec [] [])"

definition reconcileRun :: "ReviewWorld \<times> ReviewError option" where
  "reconcileRun = reconcilerRunOnce plainReview (60 * second) (\<lambda>i. 480 * second) claimedWorld"

lemma reconcileRun_outcome:
  "snd reconcileRun = None"
  "ListConfirming (reObs plainReview) claimedWorld 100 = Inr [claimedFirst, claimedSecond]"
  by code_simp+

lemma claimed_ids: "iobID claimedFirst = ''o1''" "iobID claimedSecond = ''o2''"
  by code_simp+

end
