(* ===== verification/GqlClaims.thy ===== *)
theory GqlClaims
  imports FormalAccess SampleReview
begin

text \<open>
  The properties of the GraphQL layer of a formal match: the positions of the shown board, whose views open,
  what the strategist's view offers, and what a mutation does.
\<close>

section \<open>Positions\<close>

lemma upto_three: "[0..3] = [0, 1, 2, 3::int]"
  by code_simp

lemma engineCell_position:
  assumes "r \<in> {0, 1, 2, 3}" "c \<in> {0, 1, 2, 3}"
  shows "engineCell \<lparr>posRow = r, posCol = c\<rparr> = Some (positionCell c r)"
proof -
  have "\<forall>r\<in>set [0, 1, 2, 3]. \<forall>c\<in>set [0, 1, 2, 3]. engineCell \<lparr>posRow = r, posCol = c\<rparr> = Some (positionCell c r)"
    by code_simp
  with assms show ?thesis by auto
qed

lemma shown_cell:
  "c \<in> set (mapFormalBoard b) \<Longrightarrow> engineCell \<lparr>posRow = fbcRow c, posCol = fbcCol c\<rparr> = Some (fbcCell c)"
  by (auto simp: mapFormalBoard_def mapBoardCell_def upto_three Let_def engineCell_position)

text \<open>
  C39: The row and column of every cell of the shown board, sent back as the position of a placement, name
  that cell again; the board shows the sixteen cells once each, with the piece on it.
\<close>

theorem board_position_roundtrip:
  "map (\<lambda>c. engineCell \<lparr>posRow = fbcRow c, posCol = fbcCol c\<rparr>) (mapFormalBoard b) =
     map (\<lambda>c. Some (fbcCell c)) (mapFormalBoard b) \<and>
   distinct (map fbcCell (mapFormalBoard b)) \<and> length (mapFormalBoard b) = 16 \<and>
   map fbcPiece (mapFormalBoard b) = map (\<lambda>c. map_option mapBoardPiece (PieceAt b (fbcCell c))) (mapFormalBoard b)"
proof -
  have cells: "map fbcCell (mapFormalBoard b) = [positionCell c r. r \<leftarrow> [0..3], c \<leftarrow> [0..3]]"
    by (simp add: mapFormalBoard_def mapBoardCell_def upto_three Let_def)
  have "distinct [positionCell c r. r \<leftarrow> [0..3], c \<leftarrow> [0..3]]" by code_simp
  then show ?thesis unfolding cells
    by (simp add: mapFormalBoard_def mapBoardCell_def upto_three engineCell_position Let_def)
qed

section \<open>Views\<close>

section \<open>Views\<close>


lemma lookupOf_Inr [simp]: "lookupOf x = Inr v \<longleftrightarrow> x = Inr v"
  by (simp add: lookupOf_def split: sum.splits)

lemma lookupOf_Inr_eq [simp]: "lookupOf (Inr v) = Inr v"
  by (simp add: lookupOf_def)












definition shownMatch :: GqlMatch where
  "shownMatch = mapFormalMatch sampleHex (formalMatch (sampleMatch 1 MatchStatusPending) samplePick)"




section \<open>Playing from the view\<close>

lemma shown_placement:
  "(slot, cell, f) \<in> set (vaLegalPlacements (mapActorAnalysis a)) \<longleftrightarrow>
     \<lparr>poSlotID = slot, poCell = cell, poForceMod = f\<rparr> \<in> set (aaLegalPlacements a)"
proof
  assume "(slot, cell, f) \<in> set (vaLegalPlacements (mapActorAnalysis a))"
  then obtain p where p: "p \<in> set (aaLegalPlacements a)" "poSlotID p = slot" "poCell p = cell" "poForceMod p = f"
    by (auto simp: mapActorAnalysis_def)
  have "\<lparr>poSlotID = slot, poCell = cell, poForceMod = f\<rparr> = p" by (simp flip: p(2-4))
  with p(1) show "\<lparr>poSlotID = slot, poCell = cell, poForceMod = f\<rparr> \<in> set (aaLegalPlacements a)" by (simp only:)
next
  assume "\<lparr>poSlotID = slot, poCell = cell, poForceMod = f\<rparr> \<in> set (aaLegalPlacements a)"
  from imageI [OF this, of "\<lambda>p. (poSlotID p, poCell p, poForceMod p)"]
  show "(slot, cell, f) \<in> set (vaLegalPlacements (mapActorAnalysis a))" by (simp add: mapActorAnalysis_def)
qed

lemma mapFormalMatch_board:
  "msBoard (gmSnapshot (mapFormalMatch hex shown)) = mapFormalBoard (Board (gmState (mapFormalMatch hex shown)))"
  by (simp add: mapFormalMatch_def mapMatchSnapshot_def Let_def)

text \<open>
  C14: What the strategist's view offers can be played as it is offered. Take any cell of the board that the
  match object shows, and send its row and column back as the position of a placement mutation, under a
  command id whose piece id is not on the board yet: the mutation stands for a command that the engine
  accepts at this time from the strategist of the view's side exactly when the view lists the slot for
  that cell. The state shown is one of a history.
\<close>

theorem offered_placements_playable:
  assumes "strategistView wi hex caller now w (mapFormalMatch hex shown) = Inr v"
    and "reachable cfg (gmState (mapFormalMatch hex shown))" and "now \<noteq> 0"
    and "\<not> containsPieceID (Board (gmState (mapFormalMatch hex shown))) (pieceIDFor cid)"
    and "cell \<in> set (msBoard (gmSnapshot (mapFormalMatch hex shown)))"
  shows "(\<exists>c. resolveCommand cid (InPlacePiece slot \<lparr>posRow = fbcRow cell, posCol = fbcCol cell\<rparr>) = Some c \<and>
            accepted (gmState (mapFormalMatch hex shown)) (StrategistActor (svMyTeam v)) c now) \<longleftrightarrow>
    (\<exists>f. (slot, fbcCell cell, f) \<in> set (vaLegalPlacements (svAnalysis v)))"
proof -
  let ?s = "gmState (mapFormalMatch hex shown)" and ?team = "svMyTeam v"
  have team: "teamValid ?team" "v = computeStrategistView ?s ?team now"
    using assms(1)
    by (auto simp: strategistView_def strategistViewerTeam_def engineSideFromDomain_def teamValid_def
        computeStrategistView_def split: sum.splits option.splits if_splits)
  have pid: "pieceIDFor cid \<noteq> ''''" by (simp add: pieceIDFor_def)
  have ok: "coreOk ?s" "mapsOk ?s"
    using reachable_sound [OF assms(2)] by (auto simp: sound_def validState_def)
  have position: "engineCell \<lparr>posRow = fbcRow cell, posCol = fbcCol cell\<rparr> = Some (fbcCell cell)"
    by (rule shown_cell [OF assms(5) [unfolded mapFormalMatch_board]])
  have analysis: "svAnalysis v = mapActorAnalysis (AnalyzeForActor ?s (StrategistActor ?team) now)"
    by (subst team(2)) (simp add: computeStrategistView_def)
  have "(\<exists>f. (slot, fbcCell cell, f) \<in> set (vaLegalPlacements (svAnalysis v))) \<longleftrightarrow>
      accepted ?s (StrategistActor ?team) (PlacePiece slot (pieceIDFor cid) (fbcCell cell)) now"
    unfolding placement_exact [OF ok team(1) assms(3) pid assms(4), symmetric] analysis shown_placement by (rule refl)
  then show ?thesis by (simp add: position)
qed

text \<open>The strategist of red looks at the sample match while its team is to place a piece.\<close>

definition shownView :: "AccessError + StrategistView" where
  "shownView = strategistView (reWiring plainReview) sampleHex (Some 11) (410 * second) claimedWorld shownMatch"

lemma shownView_outcome:
  "case shownView of
     Inl e \<Rightarrow> False
   | Inr v \<Rightarrow> svMyTeam v = TeamRed \<and>
       list_ex (\<lambda>(slot, cell, f). slot = ''N1'' \<and> cell = ''A1'') (vaLegalPlacements (svAnalysis v))"
  by code_simp

lemma shownMatch_state: "gmState shownMatch = samplePick"
  using samples_sound(3) stateClone_id
  by (simp add: shownMatch_def mapFormalMatch_def formalMatch_def Let_def sound_def validState_def)

lemma shownCell:
  "\<exists>c\<in>set (msBoard (gmSnapshot shownMatch)). fbcRow c = 0 \<and> fbcCol c = 0 \<and> fbcCell c = ''A1''"
proof -
  have "msBoard (gmSnapshot shownMatch) = mapFormalBoard (Board samplePick)"
    using mapFormalMatch_board [of sampleHex "formalMatch (sampleMatch 1 MatchStatusPending) samplePick"] shownMatch_state
    by (simp add: shownMatch_def)
  moreover have "positionCell 0 0 = ''A1''" by code_simp
  ultimately show ?thesis by (simp add: mapFormalBoard_def mapBoardCell_def upto_three Let_def)
qed

theorem offered_placements_playable_witness:
  "\<exists>c. resolveCommand ''c9'' (InPlacePiece ''N1'' \<lparr>posRow = 0, posCol = 0\<rparr>) = Some c \<and>
     accepted samplePick (StrategistActor TeamRed) c (410 * second)"
proof -
  obtain v where v: "shownView = Inr v" "svMyTeam v = TeamRed"
    "\<exists>f. (''N1'', ''A1'', f) \<in> set (vaLegalPlacements (svAnalysis v))"
    using shownView_outcome by (auto simp: list_ex_iff split: sum.splits)
  have fresh: "\<not> containsPieceID (Board samplePick) (pieceIDFor ''c9'')" by code_simp
  have time: "410 * second \<noteq> 0" by (simp add: second_def)
  obtain c where c: "c \<in> set (msBoard (gmSnapshot shownMatch))" "fbcRow c = 0" "fbcCol c = 0" "fbcCell c = ''A1''"
    using shownCell by blast
  from offered_placements_playable [OF v(1) [unfolded shownView_def shownMatch_def], folded shownMatch_def,
      unfolded shownMatch_state, OF samples_reachable(3) time fresh c(1), of "''N1''"] v(2,3) c(2-4)
  show ?thesis by simp
qed

end
