(* ===== verification/ReviewClaims.thy ===== *)
theory ReviewClaims
  imports SampleReview
begin

text \<open>
  The properties of the review of IRC evidence: what a confirmed observation stands for in every history of
  the collection, and what a pass of the reconciler settles.
\<close>

section \<open>Confirmed evidence\<close>

lemma freshReview_ok:
  assumes "\<forall>i d. sdbObs (reObs rw) w i = Some d \<longrightarrow> iobStatus d = ReviewPending"
  shows "reviewOk rw (freshReview w)"
  using assms by (fastforce simp: reviewOk_def freshReview_def)

text \<open>
  C8: However the readers of the rooms, the referees and the reconciler interleave, a confirmed observation
  carries the claim of one command that confirms the piece and the winner of its own text; a confirmation
  with this command id, piece and winner was answered with success or found among the stored actions; and
  the observation never changes again.
\<close>

theorem confirmed_evidence:
  assumes "reviewLaws rw" and "\<forall>i d. sdbObs (reObs rw) w i = Some d \<longrightarrow> iobStatus d = ReviewPending"
    and "(reviewStep rw)\<^sup>*\<^sup>* (freshReview w) g"
    and "sdbObs (reObs rw) (rgWorld g) i = Some d" and "iobStatus d = ReviewConfirmed"
  shows "(\<exists>cn mid. claimedFor cn d \<and> ircResultMatches (iobCommand d) (cnWinner cn) (cnPieceID cn) \<and>
      cn\<lparr>cnMatchID := mid\<rparr> \<in> rgEvidence g) \<and>
    (\<forall>g'. (reviewStep rw)\<^sup>*\<^sup>* g g' \<longrightarrow> sdbObs (reObs rw) (rgWorld g') i = Some d)"
proof -
  have ok: "reviewLaws rw \<and> reviewOk rw g"
    using reviews.runs_inv [OF assms(3)] freshReview_ok [OF assms(2)] assms(1) by blast
  then have "\<exists>cn mid. claimedFor cn d \<and> saysResult d cn \<and> cn\<lparr>cnMatchID := mid\<rparr> \<in> rgEvidence g"
    using reviewOkD(2) [OF _ assms(4,5)] by blast
  moreover have "sdbObs (reObs rw) (rgWorld g') i = Some d" if run: "(reviewStep rw)\<^sup>*\<^sup>* g g'" for g'
  proof -
    obtain d' where "sdbObs (reObs rw) (rgWorld g') i = Some d'"
      "iobStatus d \<noteq> ReviewPending \<and> iobStatus d \<noteq> ReviewConfirming \<longrightarrow> d' = d"
      using reviews.runs_grow [OF run ok] assms(4) unfolding reviewGrows_def by blast
    then show ?thesis using assms(5) by simp
  qed
  ultimately show ?thesis unfolding saysResult_def by blast
qed

theorem confirmed_evidence_witness:
  "\<exists>(g :: ReviewWorld Reviewing) cn mid. rgWorld g = fst confirmRun \<and> cn\<lparr>cnMatchID := mid\<rparr> \<in> rgEvidence g"
proof -
  have pending: "\<forall>i d. sdbObs (reObs reviewed) reviewWorld i = Some d \<longrightarrow> iobStatus d = ReviewPending"
    by (auto simp: sampleReview_def sampleObs_def sampleFindOb_def reviewWorld_def sampleObservation_def
        split: if_splits)
  have "ConfirmIRCResult reviewed (Some 100) (414 * second) (415 * second) (rgWorld (freshReview reviewWorld)) reviewInput =
      (fst confirmRun, snd confirmRun)"
    by (simp add: confirmRun_def freshReview_def)
  from ConfirmIRCResult_run [OF sample_reviewLaws this]
  obtain g where g: "(reviewStep reviewed)\<^sup>*\<^sup>* (freshReview reviewWorld) g" "rgWorld g = fst confirmRun"
    by (auto simp: reviewReach_def)
  obtain d where "sampleFindOb (fst confirmRun) ''o1'' = Some d" "iobStatus d = ReviewConfirmed"
    using confirmRun_confirmed by auto
  then have "sdbObs (reObs reviewed) (rgWorld g) ''o1'' = Some d" "iobStatus d = ReviewConfirmed"
    by (simp_all add: g(2) sampleReview_def sampleObs_def)
  from confirmed_evidence [OF sample_reviewLaws pending g(1) this] g(2) show ?thesis by blast
qed

section \<open>The reconciler\<close>

lemma reconciled_outcome:
  assumes "reconciled rw staleAfter now w d e"
  shows "\<exists>mid cid piece winner started. iobMatchID d = Some mid \<and> iobCommandID d = Some cid \<and>
    iobPieceID d = Some piece \<and> iobWinner d = Some winner \<and> iobStartedAt d = Some started \<and>
    e = (if \<exists>a. odbFindAction (reOutbox rw) w mid cid = Inr (Some a) \<and>
              acCommandType a = ''CONFIRM_BEATMAP_RESULT'' \<and>
              reConfirmationPayload rw (acCommandPayload a) = Some (piece, winner)
         then d\<lparr>iobStatus := ReviewConfirmed, iobStartedAt := None\<rparr>
         else if started + staleAfter \<le> now
         then d\<lparr>iobStatus := ReviewPending, iobMatchID := None, iobCommandID := None, iobPieceID := None,
                iobWinner := None, iobReviewer := 0, iobStartedAt := None\<rparr>
         else d)"
proof -
  obtain cn receipt where cn: "completeClaim d = Some cn"
    and receipt: "LoadConfirmationReceipt (reOutbox rw) (reConfirmationPayload rw) w (cnMatchID cn) (cnCommandID cn) = Inr receipt"
    and e: "e = (if committedAs cn receipt then finalizedObservation d
      else if timeOrZero (iobStartedAt d) + staleAfter \<le> now then releasedObservation d else d)"
    using assms by (auto simp: reconciled_def)
  obtain started where claim: "iobMatchID d = Some (cnMatchID cn)" "iobCommandID d = Some (cnCommandID cn)"
    "iobPieceID d = Some (cnPieceID cn)" "iobWinner d = Some (cnWinner cn)" "iobStartedAt d = Some started"
    using cn by (auto simp: completeClaim_def split: option.splits if_splits)
  have "committedAs cn receipt \<longleftrightarrow>
      (\<exists>a. odbFindAction (reOutbox rw) w (cnMatchID cn) (cnCommandID cn) = Inr (Some a) \<and>
         acCommandType a = ''CONFIRM_BEATMAP_RESULT'' \<and>
         reConfirmationPayload rw (acCommandPayload a) = Some (cnPieceID cn, cnWinner cn))"
    using receipt
    by (auto simp: LoadConfirmationReceipt_def committedAs_def split: sum.splits option.splits if_splits)
  with claim show ?thesis
    by (auto simp: e finalizedObservation_def releasedObservation_def timeOrZero_def)
qed

text \<open>
  C15: A pass of the reconciler that reports no error settles every claim it lists. Each carries a match, a
  command id, a piece, a winner and the time it was started. If the match has a stored action with the
  command id whose type is the confirmation of a result and whose payload names the same piece and the same
  winner, the observation is confirmed and keeps the fields of its claim, but for the start; otherwise, and
  if the limit has passed since the start, it is pending again with every field of the claim cleared;
  otherwise it is left as it was. No other observation is touched.
\<close>

theorem reconciler_settles:
  assumes "reviewLaws rw" and "0 < staleAfter" and "reconcilerRunOnce rw staleAfter clock w = (w', None)"
    and "ListConfirming (reObs rw) w 100 = Inr items"
  shows "(\<forall>d\<in>set items. \<exists>mid cid piece winner started. iobMatchID d = Some mid \<and> iobCommandID d = Some cid \<and>
       iobPieceID d = Some piece \<and> iobWinner d = Some winner \<and> iobStartedAt d = Some started \<and>
       sdbObs (reObs rw) w' (iobID d) = Some
         (if \<exists>a. odbFindAction (reOutbox rw) w mid cid = Inr (Some a) \<and>
               acCommandType a = ''CONFIRM_BEATMAP_RESULT'' \<and>
               reConfirmationPayload rw (acCommandPayload a) = Some (piece, winner)
          then d\<lparr>iobStatus := ReviewConfirmed, iobStartedAt := None\<rparr>
          else if started + staleAfter \<le> clock (iobID d)
          then d\<lparr>iobStatus := ReviewPending, iobMatchID := None, iobCommandID := None, iobPieceID := None,
                 iobWinner := None, iobReviewer := 0, iobStartedAt := None\<rparr>
          else d)) \<and>
    (\<forall>j. j \<notin> iobID ` set items \<longrightarrow> sdbObs (reObs rw) w' j = sdbObs (reObs rw) w j)"
proof -
  have "reconcileItems rw staleAfter clock w None items = (w', None)"
    using assms(2-4) by (simp add: reconcilerRunOnce_def)
  from reconcileItems_effect [OF assms(1) this] ListConfirming_items [OF assms(1,4)]
  have settled: "\<forall>d\<in>set items. \<exists>e. reconciled rw staleAfter (clock (iobID d)) w d e \<and> sdbObs (reObs rw) w' (iobID d) = Some e"
    and rest: "\<forall>j. j \<notin> iobID ` set items \<longrightarrow> sdbObs (reObs rw) w' j = sdbObs (reObs rw) w j" by blast+
  show ?thesis
  proof (intro conjI ballI)
    fix d assume "d \<in> set items"
    with settled obtain e where e: "reconciled rw staleAfter (clock (iobID d)) w d e"
      "sdbObs (reObs rw) w' (iobID d) = Some e" by blast
    show "\<exists>mid cid piece winner started. iobMatchID d = Some mid \<and> iobCommandID d = Some cid \<and>
       iobPieceID d = Some piece \<and> iobWinner d = Some winner \<and> iobStartedAt d = Some started \<and>
       sdbObs (reObs rw) w' (iobID d) = Some
         (if \<exists>a. odbFindAction (reOutbox rw) w mid cid = Inr (Some a) \<and>
               acCommandType a = ''CONFIRM_BEATMAP_RESULT'' \<and>
               reConfirmationPayload rw (acCommandPayload a) = Some (piece, winner)
          then d\<lparr>iobStatus := ReviewConfirmed, iobStartedAt := None\<rparr>
          else if started + staleAfter \<le> clock (iobID d)
          then d\<lparr>iobStatus := ReviewPending, iobMatchID := None, iobCommandID := None, iobPieceID := None,
                 iobWinner := None, iobReviewer := 0, iobStartedAt := None\<rparr>
          else d)"
      using reconciled_outcome [OF e(1)] unfolding e(2) option.inject .
  qed (rule rest)
qed

lemma claimed_fields:
  "iobMatchID claimedFirst = Some 1" "iobCommandID claimedFirst = Some ''c1''"
  "iobPieceID claimedFirst = Some ''p1''" "iobWinner claimedFirst = Some TeamRed"
  "iobMatchID claimedSecond = Some 1" "iobCommandID claimedSecond = Some ''c2''"
  "iobPieceID claimedSecond = Some ''p1''" "iobStartedAt claimedSecond = Some (414 * second)"
  "odbFindAction (reOutbox plainReview) claimedWorld 1 ''c1'' = Inr (Some sampleAction)"
  "odbFindAction (reOutbox plainReview) claimedWorld 1 ''c2'' = Inr None"
  "acCommandType sampleAction = ''CONFIRM_BEATMAP_RESULT''"
  "reConfirmationPayload plainReview (acCommandPayload sampleAction) = Some (''p1'', TeamRed)"
  by code_simp+

theorem reconciler_settles_witness:
  "map_option iobStatus (sampleFindOb (fst reconcileRun) ''o1'') = Some ReviewConfirmed \<and>
   map_option iobStatus (sampleFindOb (fst reconcileRun) ''o2'') = Some ReviewPending"
proof -
  have run: "reconcilerRunOnce plainReview (60 * second) (\<lambda>i. 480 * second) claimedWorld = (fst reconcileRun, None)"
    using reconcileRun_outcome(1) by (simp add: reconcileRun_def prod_eq_iff)
  note settled = reconciler_settles [OF sample_reviewLaws _ run reconcileRun_outcome(2)]
  have obs: "sdbObs (reObs plainReview) = sampleFindOb" by (simp add: sampleReview_def sampleObs_def)
  from settled claimed_fields show ?thesis by (auto simp: obs claimed_ids second_def)
qed

end
