(* ===== verification/Spec2Isabelle.thy ===== *)
theory Spec2Isabelle
  imports EngineClaims EnginePlays CommandClaims DomainClaims RoomClaims IrcClaims PublisherClaims
    GqlClaims ReviewClaims
begin

text \<open>
  A model of the RCT hub backend: the rule engine of the formal match, the command path that
  authorizes, executes and stores commands, the rooms in which matches are configured and started,
  the legacy matches, the outbox of match events, the queue of IRC commands with its worker, the review
  of what players write in a room, the GraphQL mutations and views of a match, and the collections they
  all write.

  \<^bold>\<open>The program.\<close> A formal match is played through commands. A request (\<open>internal/matchcommand\<close>)
  names a match, the version it expects, a command id and a command. The orchestrator checks it,
  hashes it and hands an envelope to the command store (\<open>internal/persistence/command_store.go\<close>). The
  store answers a known command id from its receipt; otherwise it runs, in one transaction, the
  authorization of the sender, the engine (\<open>internal/matchengine\<close>) on the snapshot of the match, a
  compare-and-swap of the snapshot (\<open>snapshot_store.go\<close>) and the inserts of the action, of the
  events for the outbox and of the receipt. The engine is a pure function from a state, an actor,
  a command and a time to a new state with events, or to an error code. \<open>ValidateState\<close> decides
  which states may be stored; the engine does not call it.

  A match begins in a room (\<open>internal/service/room_service.go\<close>): a referee or owner links teams and a
  mappool, \<open>StartMatch\<close> builds a shell (\<open>domain.Match\<close>) and a READY aggregate from them
  (\<open>formal_match_factory.go\<close>) and creates both in one transaction with the link of the room
  (\<open>formal_match_bootstrap.go\<close>). The strategists then acknowledge that they are ready; the system
  starts the matches of casual and private rooms through the command driver. The older
  \<open>match_service.go\<close> plays on the shell itself and refuses formal matches.

  The events of a match wait in the outbox. The publisher (\<open>internal/ircpublisher\<close>) takes the earliest
  unpublished event of each match, plans the IRC commands it asks for (invitations, the next map) and
  puts them into a queue (\<open>internal/persistence/irc_jobs.go\<close>), before it marks the event. Workers
  (\<open>internal/irc/worker.go\<close>) claim the earliest open command of a free channel under a lease, check that
  the room still has this channel, send it and record what became of it.

  The results players announce in the room become observations. A referee confirms one
  (\<open>ConfirmIRCResult\<close> in \<open>internal/graphql/schema.resolvers.go\<close>): the observation is claimed for a command
  id, the command runs through the command path, and the claim is finalized or released; the reconciler
  (\<open>internal/ircreview\<close>) settles the claims of requests that stopped half way. The same resolvers turn the
  inputs of the players into commands, and show each of them a view of the state with what may be played.

  \<^bold>\<open>The theories.\<close>
  \<^item> \<open>Prelude\<close>: Go's maps as association lists with distinct keys (\<open>gomap\<close>), \<open>time.Time\<close> as an
    integer of nanoseconds with Go's saturating subtraction, \<open>strings.TrimSpace\<close>, chains of checks.
  \<^item> \<open>EngineModel\<close> (\<open>model.go\<close>, \<open>errors.go\<close>): teams, phases, pool, timers, state, commands, events,
    \<open>NewReadyState\<close>, \<open>Clone\<close>. A Go string type is a datatype of its constants with a constructor
    \<open>...Other\<close> for every other string, wherever stored data can hold one.
  \<^item> \<open>EngineBoard\<close> (\<open>board.go\<close>): cells, pieces, alignments.
  \<^item> \<open>EngineAvailability\<close>, \<open>EngineRobbery\<close>, \<open>EngineActorAnalysis\<close> (\<open>availability.go\<close> and the robbery
    functions of \<open>engine.go\<close>): what may be placed, robbed, banned and asked for.
  \<^item> \<open>Engine\<close> (\<open>engine.go\<close>): one definition per handler, \<open>dispatch\<close> and \<open>Execute\<close>.
  \<^item> \<open>EngineValidation\<close> (\<open>validation.go\<close>): \<open>ValidateState\<close>, with \<open>validState\<close> as its declarative reading.
  \<^item> \<open>EngineInvariant\<close>, \<open>EngineSteps\<close>: for every handler, when the state it leaves is valid
    (\<open>storable\<close>), and what it cannot undo (\<open>evolves\<close>).
  \<^item> \<open>EngineHistory\<close>: histories of stored commands (\<open>reachable\<close>), and histories in which nobody asks
    \<open>ValidateState\<close> (\<open>played\<close>), which turn out to reach the same states. The locales \<open>step_system\<close> and \<open>versioned_system\<close>
    state what an invariant, an order of growth and a version counter need; \<open>game\<close> interprets them
    on the engine and \<open>database\<close>, in \<open>CommandHistory\<close>, on the stored snapshots.
  \<^item> \<open>MatchCommand\<close> (\<open>orchestrator.go\<close>, \<open>model.go\<close>, \<open>errors.go\<close>, \<open>driver.go\<close> and the fields it reads of
    \<open>internal/domain\<close>): policy tables, authorization, the request hash, \<open>Execute\<close>.
  \<^item> \<open>MatchSnapshot\<close> (\<open>match_snapshot.go\<close>, \<open>snapshot_store.go\<close>): documents, hash, compare-and-swap.
  \<^item> \<open>CommandStore\<close> (\<open>command_store.go\<close>): receipts, outbox, the transaction, \<open>Apply\<close>.
  \<^item> \<open>CommandPath\<close>, \<open>CommandHistory\<close>: the parts wired together, one request and sequences of them.
  \<^item> \<open>EnginePlays\<close>: a measure that every play makes smaller, so that the play of a match ends.
  \<^item> \<open>DomainModel\<close>, \<open>DomainPool\<close>, \<open>DomainBoard\<close> (\<open>internal/domain\<close>): users, teams, rooms, rounds, match
    shells; pool slots and mappools; the board, turns, timers and permissions of the shell.
  \<^item> \<open>MatchSeed\<close> (\<open>start_requirements.go\<close>, \<open>formal_match_factory.go\<close>): when a room may start and what
    the match is built from.
  \<^item> \<open>RoomStore\<close> (\<open>internal/repository\<close>, \<open>formal_match_bootstrap.go\<close>): the lookups and writes of rooms
    and shells, the bootstrap transaction, and the laws of the driver calls.
  \<^item> \<open>RoomService\<close> (\<open>room_service.go\<close>, \<open>irc/channel.go\<close>) and \<open>MatchService\<close> (\<open>match_service.go\<close>): every
    operation, one definition each.
  \<^item> \<open>RoomHistory\<close> (\<open>services.go\<close>, \<open>server.go\<close>): the services wired on one database, and the inductive
    relation \<open>backendStep\<close> of all writes a client can cause. \<open>backend\<close> and \<open>formal\<close> interpret
    \<open>step_system\<close> on it. \<open>BackendFacts\<close> holds what single calls do.
  \<^item> \<open>Outbox\<close> (\<open>command_store.go\<close>) and \<open>OutboxHistory\<close>: the outbox as the publisher, the gateway and the
    referees use it, and the relation \<open>outboxStep\<close> of every write to it; \<open>outbox\<close> interprets \<open>step_system\<close>.
  \<^item> \<open>IrcJobs\<close> (\<open>irc_jobs.go\<close>) and \<open>IrcWorker\<close> (\<open>worker.go\<close>, the validator of \<open>server.go\<close>): the queue of
    IRC commands, its leases, and one pass of a worker. \<open>IrcHistory\<close>: the relation \<open>queueStep\<close> with a rule
    for each single driver call, so that a stalled worker is a history like any other; \<open>queue\<close>,
    \<open>prompt_queue\<close> and \<open>inTurn\<close> carry what all histories keep.
  \<^item> \<open>GoStrings\<close> (the functions of Go's \<open>strings\<close> in use), \<open>IrcPublisher\<close> (\<open>publisher.go\<close>) and
    \<open>PublisherFacts\<close>: plans, the loop over the outbox, and a run of it as a history of the outbox.
  \<^item> \<open>CommandFrame\<close>: the locale \<open>command_frame\<close>, what a request leaves alone; interpreted for rooms and shells
    in \<open>RoomHistory\<close> and for observations in \<open>ReviewHistory\<close>.
  \<^item> \<open>GqlViews\<close> (\<open>formal_mapper.go\<close>, \<open>views.go\<close>), \<open>GqlCommands\<close> (\<open>mutation.go\<close>, the mutations of
    \<open>schema.resolvers.go\<close>), \<open>FormalAccess\<close> (\<open>formal_match_read.go\<close>, \<open>formal_access.go\<close>, \<open>resolver.go\<close>): what a
    client is shown, what its inputs mean and what it may see.
  \<^item> \<open>IrcReview\<close> (\<open>irc_jobs.go\<close>, \<open>schema.resolvers.go\<close>, \<open>reconciler.go\<close>): observations and their review.
    \<open>ReviewHistory\<close> has the relation \<open>reviewStep\<close> with a rule for each call on the collection and the
    interpretation \<open>reviews\<close>; \<open>ReviewRuns\<close> shows that a confirmation and a pass of the reconciler are such
    histories, and what a pass settles.
  \<^item> \<open>Samples\<close>, \<open>SampleQueue\<close>, \<open>SamplePublisher\<close>, \<open>SampleReview\<close>, \<open>SamplePath\<close>, \<open>SampleBackend\<close>: a small match played by commands, two requests and the
    start of a room, a queue with a worker and an outbox with a publisher, and a confirmed result run on a
    concrete database, for the witnesses.
  \<^item> \<open>EngineClaims\<close>, \<open>EnginePlays\<close>, \<open>CommandClaims\<close>, \<open>DomainClaims\<close>, \<open>RoomClaims\<close>, \<open>IrcClaims\<close>,
    \<open>PublisherClaims\<close>, \<open>GqlClaims\<close>, \<open>ReviewClaims\<close>: the properties, each with a witness where it has hypotheses.

  \<^bold>\<open>What is shown.\<close> The engine keeps its states valid without the check of the store
  (\<open>engine_keeps_valid\<close>); each team plays in its turn only; the menus shown to the players are exactly
  the accepted commands; alignments, robberies, the forced tiebreaker, surrenders and results are
  characterized independently of the code that computes them; nothing spent is given back. It is
  also shown exactly which accepted commands cannot be stored (\<open>accepted_valid_iff_storable\<close>), and
  that a match can be caught in a state no command leads out of (\<open>live_unless_deadlocked\<close>,
  \<open>deadlock_reachable\<close>). For the command path: an applied request is one step of such a history,
  made by a granted actor on the version it named; whatever is refused or replayed writes nothing; a
  request sent again is answered as before and never runs twice; the events are numbered without
  gaps; snapshots survive encoding; and a database that serves requests keeps every match
  reachable from its configuration. For the rooms: in every history of calls and requests a room
  that has its match is linked to a shell and a readable snapshot that agree with it, its setup is
  frozen, only the entitled change it, and a start is idempotent. The model also shows what the code
  does not intend: no formal match ever leaves \<open>PENDING\<close>, so none can be started
  (\<open>formal_match_waits\<close>); an orphaned room is never recovered; a private room can panic. For the IRC
  commands: over every interleaving of workers, referees and readers of receipts the commands of a
  channel go out in order, a settled command never changes, a worker without the lease changes nothing,
  and the retries end as long as claims are written under their lock; events are published in order and
  only with their commands in the queue; every planned command is one line and every participant is
  invited once. For the clients: the placements a view offers are those the engine accepts when the cells
  of the shown board are sent back; in a formal room the private views open for the offices of the
  command path. For the evidence: in every history a confirmed
  observation says what its command confirmed, and a pass of the reconciler settles the claims it finds.

  \<^bold>\<open>Parameters.\<close> MongoDB (\<open>Mongo\<close>), JSON, BSON, SHA-256 and fresh identifiers (\<open>Codec\<close>, \<open>Encoders\<close>), the
  readers of users, matches, rooms and teams, and the clock are arguments. \<open>storeLaws\<close> states what is
  used of the database (an update by id touches one document and sets the listed fields, an
  insert touches its collection only, a transaction whose body fails is rolled back, and one whose body
  succeeds is committed or answered by an error of the driver, after which it may have been committed or
  not), \<open>codecLaws\<close> that
  decoding inverts encoding, \<open>roomLaws\<close> and \<open>commandLaw\<close> what is used of the collections of rooms and
  shells, and \<open>jobLaws\<close>, \<open>outboxLaws\<close> and \<open>publisherLaws\<close> what is used of the collections of jobs, locks and
  events, \<open>reviewLaws\<close> what is used of the observations. \<open>sampleMongo\<close>, \<open>sampleDb\<close>, \<open>sampleQueue\<close>, \<open>sampleOutbox\<close>, \<open>sampleObs\<close> and \<open>tableCodec\<close> satisfy them. The requests of a history
  are taken one after the other, which is what transactions on one snapshot document provide.

  \<^bold>\<open>Bounds.\<close> Versions and sequence numbers are \<open>64 word\<close>, object ids \<open>96 word\<close>; durations are integers with
  the bounds of \<open>int64\<close> written out where the code subtracts times. Turns, counts and user ids are
  unbounded integers; a turn number would need more than \<open>2 ^ 62\<close> commands to wrap. No definition
  uses fuel: the loops run over lists.

  \<^bold>\<open>Not modelled.\<close> Logging, error texts (the codes and the fault texts of \<open>ValidateState\<close> are kept),
  the encoders themselves, the order of iteration over Go maps where no result depends on it, the
  encoding of events for readers, \<open>LoadMany\<close>, indexes and validators of
  collections, listings and lookups by code, the IRC adapter and its Redis limiter, the
  realtime gateway, seasons and standings, the services of teams, users, beatmaps and announcements, the
  queries and field loaders of GraphQL with the generated code, and HTTP.
\<close>

end
